(* ===== verification/Labrys_Prelude.thy ===== *)
theory Labrys_Prelude
  imports Main "HOL-Library.Word" "HOL-Library.Char_ord" "HOL-Library.List_Lexorder"
    "HOL-Library.Sublist"
begin

text \<open>
  The vocabulary every component shares.

  \<^item> Results: \<open>outcome\<close> is Rust's \<open>Result<T, CoreError>\<close> with one more constructor for a
    panic; \<open>core_error\<close> is the enum of \<open>labrys-core/src/error.rs\<close>. A method that takes
    \<open>&mut self\<close> and returns a \<open>Result\<close> is a function to a pair of the state it leaves behind
    and its outcome, because an early return keeps the writes made before it;
    \<open>and_then\<close> is the \<open>?\<close> operator on such pairs.
  \<^item> Text: a Rust string is its list of bytes, restricted to ASCII; the parts of
    \<open>str\<close> the sources call (\<open>contains\<close>, \<open>replace\<close>, \<open>trim\<close>, \<open>starts_with\<close>, decimal
    formatting) are functions on it.
  \<^item> Ordered maps: \<open>BTreeMap\<close> is an association list kept strictly sorted by key, which is
    what its iterators show. The locale \<open>ord_map\<close> is the interface the components use and
    \<open>keyed_store\<close> extends it to maps that store each record under a key of its own.
  \<^item> Time: instants and durations of the \<open>chrono\<close> crate are integers (nanoseconds); the
    crate's partial operations are a parameter, the record \<open>chrono_api\<close>, with its documented
    behaviour in the locale \<open>chrono_laws\<close>.
  \<^item> Lifecycles: the locale \<open>lifecycle\<close> is the contract of an object that moves on an
    explicit phase graph and keeps a log of its transitions.
\<close>

unbundle bit_operations_syntax

named_theorems op_defs \<open>definitions of the operations of the components\<close>

section \<open>Machine integers\<close>

type_synonym u8 = "8 word"
type_synonym u32 = "32 word"
type_synonym u64 = "64 word"

definition i64_max :: int where
  "i64_max = 2 ^ 63 - 1"

definition i64_min :: int where
  "i64_min = - (2 ^ 63)"

definition u64_max :: nat where
  "u64_max = 2 ^ 64 - 1"

text \<open>Saturating arithmetic of the standard library, on the values of the operands.\<close>

definition saturating_mul_i64 :: "int \<Rightarrow> int \<Rightarrow> int" where
  "saturating_mul_i64 a b = max i64_min (min i64_max (a * b))"

definition saturating_mul_u64 :: "u64 \<Rightarrow> u64 \<Rightarrow> u64" where
  "saturating_mul_u64 a b =
     (if unat a * unat b \<le> u64_max then a * b else - 1)"

definition saturating_add_u64 :: "u64 \<Rightarrow> u64 \<Rightarrow> u64" where
  "saturating_add_u64 a b =
     (if unat a + unat b \<le> u64_max then a + b else - 1)"

definition saturating_add_u32 :: "u32 \<Rightarrow> u32 \<Rightarrow> u32" where
  "saturating_add_u32 a b =
     (if unat a + unat b \<le> 2 ^ 32 - 1 then a + b else - 1)"

lemma unat_max_u64: "unat (- 1 :: u64) = u64_max"
  by (simp add: u64_max_def unsigned_minus_1_eq_mask mask_eq_exp_minus_1)

lemma unat_saturating_mul_u64:
  "unat (saturating_mul_u64 a b) = min u64_max (unat a * unat b)"
  using unat_max_u64
  by (simp add: saturating_mul_u64_def u64_max_def unat_word_ariths min_def)

lemma unat_saturating_add_u64:
  "unat (saturating_add_u64 a b) = min u64_max (unat a + unat b)"
  using unat_max_u64
  by (simp add: saturating_add_u64_def u64_max_def unat_word_ariths min_def)

section \<open>Results\<close>

datatype core_error =
    UnsupportedVersion u32 u32
  | InvalidManifest string
  | NotFound string
  | ApprovalRequired string
  | PolicyDenied string
  | SessionState string
  | ProtocolVersion u32 u32
  | SecretLeak string
  | Timeout string
  | SequenceViolation string
  | UnsupportedRuntime string
  | InvalidRuntime string
  | LimitExceeded string string
  | WorkspaceState string
  | PreviewUnavailable string
  | CapabilityBinding string
  | SecretNotFound string
  | Reconciliation string
  | DeploymentError string
  | Verification string
  | AuditIntegrity string
  | PluginError string
  | PluginUnavailable string
  | PermissionDenied string
  | Serialization string

datatype 'a outcome = Ok 'a | Err core_error | Panic string

definition is_ok :: "'a outcome \<Rightarrow> bool" where
  "is_ok r = (case r of Ok _ \<Rightarrow> True | _ \<Rightarrow> False)"

lemma is_ok_simps [simp]:
  "is_ok (Ok a)" "\<not> is_ok (Err e)" "\<not> is_ok (Panic m)"
  by (simp_all add: is_ok_def)

lemma is_ok_iff: "is_ok r \<longleftrightarrow> (\<exists>a. r = Ok a)"
  by (cases r) simp_all

definition panics :: "'a outcome \<Rightarrow> bool" where
  "panics r = (case r of Panic _ \<Rightarrow> True | _ \<Rightarrow> False)"

lemma panics_simps [simp]:
  "\<not> panics (Ok a)" "\<not> panics (Err e)" "panics (Panic m)"
  by (simp_all add: panics_def)

fun and_then :: "'s \<times> 'a outcome \<Rightarrow> ('s \<Rightarrow> 'a \<Rightarrow> 's \<times> 'b outcome) \<Rightarrow> 's \<times> 'b outcome" where
  "and_then (s, Ok a) f = f s a"
| "and_then (s, Err e) f = (s, Err e)"
| "and_then (s, Panic m) f = (s, Panic m)"

fun outcome_bind :: "'a outcome \<Rightarrow> ('a \<Rightarrow> 'b outcome) \<Rightarrow> 'b outcome" where
  "outcome_bind (Ok a) f = f a"
| "outcome_bind (Err e) f = Err e"
| "outcome_bind (Panic m) f = Panic m"

lemma outcome_bind_Ok_iff [simp]:
  "outcome_bind r f = Ok b \<longleftrightarrow> (\<exists>a. r = Ok a \<and> f a = Ok b)"
  by (cases r) simp_all

section \<open>Text\<close>

definition str_contains :: "string \<Rightarrow> string \<Rightarrow> bool" where
  "str_contains s pat = sublist pat s"

definition starts_with :: "string \<Rightarrow> string \<Rightarrow> bool" where
  "starts_with s pat = prefix pat s"

text \<open>ASCII whitespace, the characters \<open>char::is_whitespace\<close> accepts below 128.\<close>

definition is_whitespace :: "char \<Rightarrow> bool" where
  "is_whitespace c = (c = CHR '' '' \<or> (9 \<le> (of_char c :: nat) \<and> (of_char c :: nat) \<le> 13))"

definition trim :: "string \<Rightarrow> string" where
  "trim s = rev (dropWhile is_whitespace (rev (dropWhile is_whitespace s)))"

lemma trim_empty_iff: "trim s = [] \<longleftrightarrow> list_all is_whitespace s"
proof
  assume "trim s = []"
  then have "list_all is_whitespace (dropWhile is_whitespace s)"
    by (simp add: trim_def list_all_iff)
  then have "dropWhile is_whitespace s = []"
    using hd_dropWhile [of is_whitespace s] by (cases "dropWhile is_whitespace s") auto
  then show "list_all is_whitespace s" by (simp add: list_all_iff)
next
  assume "list_all is_whitespace s"
  then have "dropWhile is_whitespace s = []" by (simp add: list_all_iff dropWhile_eq_Nil_conv)
  then show "trim s = []" unfolding trim_def by (simp only: rev.simps dropWhile.simps)
qed

fun replace_from :: "string \<Rightarrow> string \<Rightarrow> nat \<Rightarrow> string \<Rightarrow> string" where
  "replace_from pat rep n [] = []"
| "replace_from pat rep (Suc n) (c # cs) = replace_from pat rep n cs"
| "replace_from pat rep 0 (c # cs) =
     (if prefix pat (c # cs) then rep @ replace_from pat rep (length pat - 1) cs
      else c # replace_from pat rep 0 cs)"

text \<open>
  \<open>str::replace\<close>: the matches are found from left to right and do not overlap; the counter of
  \<open>replace_from\<close> is what is left of the match being skipped. An empty pattern matches
  between any two characters and at both ends.
\<close>

definition str_replace :: "string \<Rightarrow> string \<Rightarrow> string \<Rightarrow> string" where
  "str_replace pat rep s =
     (if pat = [] then rep @ concat (map (\<lambda>c. c # rep) s) else replace_from pat rep 0 s)"

definition digit_char :: "nat \<Rightarrow> char" where
  "digit_char d = char_of (48 + d)"

fun show_nat :: "nat \<Rightarrow> string" where
  "show_nat n = (if n < 10 then [digit_char n] else show_nat (n div 10) @ [digit_char (n mod 10)])"

declare show_nat.simps [simp del]

definition show_u32 :: "u32 \<Rightarrow> string" where
  "show_u32 w = show_nat (unat w)"

definition show_u64 :: "u64 \<Rightarrow> string" where
  "show_u64 w = show_nat (unat w)"

definition show_bool :: "bool \<Rightarrow> string" where
  "show_bool b = (if b then ''true'' else ''false'')"

text \<open>\<open>{:?}\<close> of texts: quoted, with the escapes of \<open>str::escape_debug\<close> for ASCII.\<close>

definition hex_digit :: "nat \<Rightarrow> char" where
  "hex_digit d = (if d < 10 then char_of (48 + d) else char_of (87 + d))"

definition escape_debug :: "char \<Rightarrow> string" where
  "escape_debug c =
     (let n = of_char c :: nat in
      if n = 0 then [CHR 0x5C, CHR ''0'']
      else if n = 9 then [CHR 0x5C, CHR ''t'']
      else if n = 10 then [CHR 0x5C, CHR ''n'']
      else if n = 13 then [CHR 0x5C, CHR ''r'']
      else if n = 34 then [CHR 0x5C, CHR 0x22]
      else if n = 92 then [CHR 0x5C, CHR 0x5C]
      else if n < 16 then [CHR 0x5C, CHR ''u'', CHR 0x7B, hex_digit n, CHR 0x7D]
      else if n < 32 \<or> n = 127
      then [CHR 0x5C, CHR ''u'', CHR 0x7B, hex_digit (n div 16), hex_digit (n mod 16), CHR 0x7D]
      else [c])"

definition debug_str :: "string \<Rightarrow> string" where
  "debug_str s = CHR 0x22 # concat (map escape_debug s) @ [CHR 0x22]"

fun debug_option :: "('a \<Rightarrow> string) \<Rightarrow> 'a option \<Rightarrow> string" where
  "debug_option f None = ''None''"
| "debug_option f (Some x) = ''Some('' @ f x @ '')''"

definition ends_with :: "string \<Rightarrow> string \<Rightarrow> bool" where
  "ends_with s pat = suffix pat s"

definition ascii_lower :: "char \<Rightarrow> char" where
  "ascii_lower c = (let n = of_char c :: nat in if 65 \<le> n \<and> n \<le> 90 then char_of (n + 32) else c)"

text \<open>\<open>str::split\<close> at a character: always at least one part.\<close>

fun split_at_char :: "char \<Rightarrow> string \<Rightarrow> string list" where
  "split_at_char c [] = [[]]"
| "split_at_char c (x # xs) =
     (if x = c then [] # split_at_char c xs
      else (case split_at_char c xs of
              p # ps \<Rightarrow> (x # p) # ps
            | [] \<Rightarrow> [[x]]))"

text \<open>\<open>str::lines\<close>: split at line feeds, a final empty part dropped, a carriage return before a line feed too.\<close>

definition strip_cr :: "string \<Rightarrow> string" where
  "strip_cr l = (if l \<noteq> [] \<and> last l = CHR 0x0D then butlast l else l)"

definition str_lines :: "string \<Rightarrow> string list" where
  "str_lines s =
     (let parts = split_at_char (CHR 0x0A) s
      in map strip_cr (butlast parts) @ (if last parts = [] then [] else [last parts]))"

definition split_whitespace :: "string \<Rightarrow> string list" where
  "split_whitespace s =
     filter (\<lambda>w. w \<noteq> []) (split_at_char (CHR '' '') (map (\<lambda>c. if is_whitespace c then CHR '' '' else c) s))"

definition trim_start :: "string \<Rightarrow> string" where
  "trim_start s = dropWhile is_whitespace s"

definition to_ascii_lowercase :: "string \<Rightarrow> string" where
  "to_ascii_lowercase s = map ascii_lower s"

definition ascii_upper :: "char \<Rightarrow> char" where
  "ascii_upper c = (let n = of_char c :: nat in if 97 \<le> n \<and> n \<le> 122 then char_of (n - 32) else c)"

definition to_ascii_uppercase :: "string \<Rightarrow> string" where
  "to_ascii_uppercase s = map ascii_upper s"

definition eq_ignore_ascii_case :: "string \<Rightarrow> string \<Rightarrow> bool" where
  "eq_ignore_ascii_case a b = (to_ascii_lowercase a = to_ascii_lowercase b)"

definition strip_prefix :: "string \<Rightarrow> string \<Rightarrow> string option" where
  "strip_prefix s pat = (if prefix pat s then Some (drop (length pat) s) else None)"

definition strip_suffix :: "string \<Rightarrow> string \<Rightarrow> string option" where
  "strip_suffix s pat = (if suffix pat s then Some (take (length s - length pat) s) else None)"

text \<open>\<open>str::rsplit_once\<close> at a character, the last occurrence.\<close>

definition rsplit_once :: "char \<Rightarrow> string \<Rightarrow> (string \<times> string) option" where
  "rsplit_once c s =
     (if c \<in> set s
      then Some (rev (tl (dropWhile (\<lambda>x. x \<noteq> c) (rev s))), rev (takeWhile (\<lambda>x. x \<noteq> c) (rev s)))
      else None)"

text \<open>\<open>{:016x}\<close> of a 64-bit word: sixteen digits, the most significant first.\<close>

definition hex16 :: "u64 \<Rightarrow> string" where
  "hex16 w = map (\<lambda>i. hex_digit (unat (drop_bit (4 * (15 - i)) w AND 15))) [0..<16]"

text \<open>One FNV-1a round, and the fold over the bytes of a text.\<close>

definition fnv_step :: "char \<Rightarrow> u64 \<Rightarrow> u64" where
  "fnv_step c h = (h XOR of_char c) * 0x100000001b3"

text \<open>The quotation mark of the messages, which a literal cannot end with.\<close>

abbreviation quote_mark :: string where
  "quote_mark \<equiv> [CHR 0x27]"

abbreviation quoted :: "string \<Rightarrow> string" where
  "quoted s \<equiv> quote_mark @ s @ quote_mark"

text \<open>The display text of an error.\<close>

fun core_error_display :: "core_error \<Rightarrow> string" where
  "core_error_display (UnsupportedVersion found expected) = ''unsupported manifest version '' @ show_u32 found @ '', expected '' @ show_u32 expected"
| "core_error_display (InvalidManifest m) = ''invalid manifest: '' @ m"
| "core_error_display (NotFound m) = ''application not found: '' @ m"
| "core_error_display (ApprovalRequired m) = ''explicit approval required: '' @ m"
| "core_error_display (PolicyDenied m) = ''policy denied action: '' @ m"
| "core_error_display (SessionState m) = ''agent session state violation: '' @ m"
| "core_error_display (ProtocolVersion found expected) = ''unsupported agent protocol version '' @ show_u32 found @ '', expected '' @ show_u32 expected"
| "core_error_display (SecretLeak m) = ''secret value must not enter agent context: '' @ m"
| "core_error_display (Timeout m) = ''agent prompt timed out: '' @ m"
| "core_error_display (SequenceViolation m) = ''change sequence violation: '' @ m"
| "core_error_display (UnsupportedRuntime m) = ''unsupported runtime: '' @ m"
| "core_error_display (InvalidRuntime m) = ''invalid runtime configuration: '' @ m"
| "core_error_display (LimitExceeded limit detail) = ''sandbox limit exceeded ('' @ limit @ ''): '' @ detail"
| "core_error_display (WorkspaceState m) = ''workspace state violation: '' @ m"
| "core_error_display (PreviewUnavailable m) = ''preview unavailable: '' @ m"
| "core_error_display (CapabilityBinding m) = ''capability binding violation: '' @ m"
| "core_error_display (SecretNotFound m) = ''secret not found: '' @ m"
| "core_error_display (Reconciliation m) = ''reconciliation violation: '' @ m"
| "core_error_display (DeploymentError m) = ''deployment violation: '' @ m"
| "core_error_display (Verification m) = ''verification violation: '' @ m"
| "core_error_display (AuditIntegrity m) = ''audit integrity violation: '' @ m"
| "core_error_display (PluginError m) = ''plugin protocol violation: '' @ m"
| "core_error_display (PluginUnavailable m) = ''plugin unavailable: '' @ m"
| "core_error_display (PermissionDenied m) = ''surface permission denied: '' @ m"
| "core_error_display (Serialization m) = ''serialization error: '' @ m"

lemma digit_char_inj: "a < 10 \<Longrightarrow> b < 10 \<Longrightarrow> digit_char a = digit_char b \<Longrightarrow> a = b"
proof -
  assume "a < 10" "b < 10" "digit_char a = digit_char b"
  then have "(of_char (char_of (48 + a)) :: nat) = of_char (char_of (48 + b))"
    by (simp add: digit_char_def)
  with \<open>a < 10\<close> \<open>b < 10\<close> show "a = b" by simp
qed

lemma digit_char_range:
  "d < 10 \<Longrightarrow> 48 \<le> (of_char (digit_char d) :: nat) \<and> (of_char (digit_char d) :: nat) < 58"
  by (simp add: digit_char_def)

lemma show_nat_nonempty [simp]: "show_nat n \<noteq> []"
  by (subst show_nat.simps) simp

lemma show_nat_chars:
  "c \<in> set (show_nat n) \<Longrightarrow> 48 \<le> (of_char c :: nat) \<and> (of_char c :: nat) < 58"
proof (induction n rule: show_nat.induct)
  case (1 n)
  show ?case
  proof (cases "n < 10")
    case True
    with "1.prems" show ?thesis using digit_char_range by (simp add: show_nat.simps [of n])
  next
    case False
    with "1.prems" have "c \<in> set (show_nat (n div 10)) \<or> c = digit_char (n mod 10)"
      by (auto simp: show_nat.simps [of n])
    with "1.IH" False show ?thesis using digit_char_range [of "n mod 10"] by auto
  qed
qed

lemma show_nat_length1: "length (show_nat n) = 1 \<longleftrightarrow> n < 10"
  by (cases "n < 10") (auto simp: show_nat.simps [of n])

lemma show_nat_inj: "show_nat m = show_nat n \<Longrightarrow> m = n"
proof (induction m arbitrary: n rule: show_nat.induct)
  case (1 m)
  show ?case
  proof (cases "m < 10")
    case True
    with "1.prems" have "n < 10" using show_nat_length1 by metis
    with True "1.prems" show ?thesis by (simp add: show_nat.simps digit_char_inj)
  next
    case False
    with "1.prems" have n: "\<not> n < 10" using show_nat_length1 by metis
    with False "1.prems" have "show_nat (m div 10) = show_nat (n div 10)"
      and d: "digit_char (m mod 10) = digit_char (n mod 10)"
      by (simp_all add: show_nat.simps [of m] show_nat.simps [of n])
    with False "1.IH" have "m div 10 = n div 10" by blast
    moreover from d have "m mod 10 = n mod 10" by (rule digit_char_inj [rotated 2]) simp_all
    ultimately show ?thesis by (metis div_mult_mod_eq)
  qed
qed

lemma show_u64_inj: "show_u64 a = show_u64 b \<Longrightarrow> a = b"
  using show_nat_inj [of "unat a" "unat b"] by (simp add: show_u64_def word_unat_eq_iff)

text \<open>Text before the last occurrence of a separator is determined by the whole.\<close>

lemma split_at_last_inj:
  assumes "xs @ c # ys = xs' @ c # ys'" "c \<notin> set ys" "c \<notin> set ys'"
  shows "xs = xs' \<and> ys = ys'"
proof -
  from assms(1) obtain us where
    "(xs = xs' @ us \<and> us @ c # ys = c # ys') \<or> (xs @ us = xs' \<and> c # ys = us @ c # ys')"
    by (auto simp: append_eq_append_conv2)
  then show ?thesis using assms(2,3) by (cases us) auto
qed

section \<open>Ordered maps\<close>

type_synonym ('k, 'v) btree_map = "('k \<times> 'v) list"

definition btm_inv :: "('k::linorder, 'v) btree_map \<Rightarrow> bool" where
  "btm_inv m = sorted_wrt (<) (map fst m)"

definition btm_get :: "('k, 'v) btree_map \<Rightarrow> 'k \<Rightarrow> 'v option" where
  "btm_get m k = map_of m k"

fun btm_insert :: "'k::linorder \<Rightarrow> 'v \<Rightarrow> ('k, 'v) btree_map \<Rightarrow> ('k, 'v) btree_map" where
  "btm_insert k v [] = [(k, v)]"
| "btm_insert k v ((k', v') # m) =
     (if k < k' then (k, v) # (k', v') # m
      else if k = k' then (k, v) # m
      else (k', v') # btm_insert k v m)"

definition btm_remove :: "'k \<Rightarrow> ('k, 'v) btree_map \<Rightarrow> ('k, 'v) btree_map" where
  "btm_remove k m = filter (\<lambda>p. fst p \<noteq> k) m"

definition btm_values :: "('k, 'v) btree_map \<Rightarrow> 'v list" where
  "btm_values m = map snd m"

lemma btm_get_insert:
  "btm_get (btm_insert k v m) k' = (if k' = k then Some v else btm_get m k')"
  by (induction m) (auto simp: btm_get_def)

lemma keys_btm_insert: "set (map fst (btm_insert k v m)) = insert k (set (map fst m))"
  by (induction k v m rule: btm_insert.induct) (auto simp del: set_map)

lemma btm_inv_insert: "btm_inv m \<Longrightarrow> btm_inv (btm_insert k v m)"
proof (induction m)
  case Nil
  then show ?case by (simp add: btm_inv_def)
next
  case (Cons p m)
  obtain k' v' where p: "p = (k', v')" by force
  show ?case
  proof (cases "k < k' \<or> k = k'")
    case True
    with Cons.prems show ?thesis by (auto simp: btm_inv_def p)
  next
    case False
    then have "k' < k" by auto
    from Cons have "btm_inv (btm_insert k v m)" by (simp add: btm_inv_def)
    moreover have "\<forall>x \<in> set (map fst (btm_insert k v m)). k' < x"
      using Cons.prems \<open>k' < k\<close> by (auto simp: keys_btm_insert btm_inv_def p simp del: set_map)
    ultimately show ?thesis using False by (simp add: btm_inv_def p)
  qed
qed

lemma btm_inv_distinct: "btm_inv m \<Longrightarrow> distinct (map fst m)"
  by (simp add: btm_inv_def strict_sorted_iff)

lemma btm_in_values: "btm_inv m \<Longrightarrow> v \<in> set (btm_values m) \<longleftrightarrow> (\<exists>k. btm_get m k = Some v)"
  using btm_inv_distinct [of m] by (force simp: btm_values_def btm_get_def map_of_eq_Some_iff)

lemma btm_get_remove: "btm_get (btm_remove k m) k' = (if k' = k then None else btm_get m k')"
  by (induction m) (auto simp: btm_get_def btm_remove_def)

lemma btm_inv_remove: "btm_inv m \<Longrightarrow> btm_inv (btm_remove k m)"
  by (induction m) (auto simp: btm_inv_def btm_remove_def)

locale ord_map =
  fixes empty :: 'm
    and get :: "'m \<Rightarrow> 'k \<Rightarrow> 'v option"
    and put :: "'k \<Rightarrow> 'v \<Rightarrow> 'm \<Rightarrow> 'm"
    and vals :: "'m \<Rightarrow> 'v list"
    and invar :: "'m \<Rightarrow> bool"
  assumes get_empty: "get empty k = None"
    and get_put: "invar m \<Longrightarrow> get (put k v m) k' = (if k' = k then Some v else get m k')"
    and vals_get: "invar m \<Longrightarrow> v \<in> set (vals m) \<longleftrightarrow> (\<exists>k. get m k = Some v)"
    and invar_empty: "invar empty"
    and invar_put: "invar m \<Longrightarrow> invar (put k v m)"
begin

lemma vals_empty: "set (vals empty) = {}"
  by (simp add: set_eq_iff vals_get [OF invar_empty] get_empty)

lemma vals_put_subset: "invar m \<Longrightarrow> set (vals (put k v m)) \<subseteq> insert v (set (vals m))"
  using invar_put [of m k v] by (auto simp: vals_get get_put split: if_splits)

lemma put_in_vals: "invar m \<Longrightarrow> v \<in> set (vals (put k v m))"
  using invar_put [of m k v] by (auto simp: vals_get get_put)

lemma all_vals_put:
  "invar m \<Longrightarrow> \<forall>x \<in> set (vals m). P x \<Longrightarrow> P v \<Longrightarrow> \<forall>x \<in> set (vals (put k v m)). P x"
  using vals_put_subset [of m k v] by auto

end

text \<open>A map whose records carry the key they are stored under.\<close>

locale keyed_store = ord_map empty get put vals invar
  for empty :: 'm and get :: "'m \<Rightarrow> 'k \<Rightarrow> 'v option" and put vals invar +
  fixes key :: "'v \<Rightarrow> 'k"
begin

lemma keyed_put:
  assumes "invar m" "\<And>k v. get m k = Some v \<Longrightarrow> key v = k"
    and "get (put (key x) x m) k = Some v"
  shows "key v = k"
  using assms get_put [of m "key x" x k] by (auto split: if_splits)

lemma keyed_vals:
  assumes "invar m" "\<And>k v. get m k = Some v \<Longrightarrow> key v = k"
  shows "v \<in> set (vals m) \<longleftrightarrow> get m (key v) = Some v"
  using assms(2) vals_get [OF assms(1), of v] by auto

lemma keyed_unique:
  assumes "invar m" "\<And>k v. get m k = Some v \<Longrightarrow> key v = k"
    and "u \<in> set (vals m)" "v \<in> set (vals m)" "key u = key v"
  shows "u = v"
  using keyed_vals [OF assms(1,2)] assms(3-5) by auto

lemma keyed_vals_put:
  assumes "invar m" "\<And>k v. get m k = Some v \<Longrightarrow> key v = k"
  shows "v \<in> set (vals (put (key x) x m)) \<longleftrightarrow> v = x \<or> (v \<in> set (vals m) \<and> key v \<noteq> key x)"
proof -
  have kept: "\<And>k v. get (put (key x) x m) k = Some v \<Longrightarrow> key v = k"
    using keyed_put [OF assms] by blast
  have "v \<in> set (vals (put (key x) x m)) \<longleftrightarrow> get (put (key x) x m) (key v) = Some v"
    by (rule keyed_vals [OF invar_put [OF assms(1)] kept])
  also have "\<dots> \<longleftrightarrow> v = x \<or> (get m (key v) = Some v \<and> key v \<noteq> key x)"
    using get_put [OF assms(1), of "key x" x "key v"] by auto
  finally show ?thesis using keyed_vals [OF assms] by blast
qed

end

interpretation btm: ord_map "[] :: ('k::linorder, 'v) btree_map" btm_get btm_insert btm_values btm_inv
  by unfold_locales
    (simp_all add: btm_get_insert btm_in_values btm_inv_insert, simp_all add: btm_get_def btm_inv_def)

text \<open>The first entry of a list with the least key, as \<open>Iterator::min_by_key\<close> returns it.\<close>

fun min_by_key :: "('a \<Rightarrow> 'b::linorder) \<Rightarrow> 'a list \<Rightarrow> 'a option" where
  "min_by_key f [] = None"
| "min_by_key f (x # xs) =
     (case min_by_key f xs of
        None \<Rightarrow> Some x
      | Some y \<Rightarrow> Some (if f y < f x then y else x))"

lemma min_by_key_None [simp]: "min_by_key f xs = None \<longleftrightarrow> xs = []"
  by (cases xs) (auto split: option.splits)

lemma min_by_key_Some:
  "min_by_key f xs = Some x \<Longrightarrow> x \<in> set xs \<and> (\<forall>y \<in> set xs. f x \<le> f y)"
  by (induction xs arbitrary: x) (auto split: option.splits if_splits)

section \<open>Time\<close>

type_synonym time = int
type_synonym duration = int

text \<open>
  The operations of \<open>chrono\<close> the sources call: \<open>Duration::seconds\<close> (no value where it panics),
  \<open>Duration::num_seconds\<close> and the addition of a duration to an instant (no value where it
  panics).
\<close>

record chrono_api =
  dur_seconds :: "int \<Rightarrow> duration option"
  dur_num_seconds :: "duration \<Rightarrow> int"
  time_plus :: "time \<Rightarrow> duration \<Rightarrow> time option"

text \<open>Rust's integer division, which truncates towards zero.\<close>

definition trunc_div :: "int \<Rightarrow> int \<Rightarrow> int" where
  "trunc_div a b = (if 0 \<le> a then a div b else - ((- a) div b))"

abbreviation nanos_per_sec :: int where
  "nanos_per_sec \<equiv> 1000000000"

text \<open>
  What the crate documents: \<open>Duration::seconds\<close> succeeds exactly within the range of a
  millisecond count of 64 bits, \<open>num_seconds\<close> is the number of whole seconds, and an
  addition that succeeds is exact.
\<close>

locale chrono_laws =
  fixes C :: chrono_api
  assumes seconds: "dur_seconds C s =
      (if \<bar>s\<bar> \<le> i64_max div 1000 then Some (s * nanos_per_sec) else None)"
    and num_seconds: "dur_num_seconds C d = trunc_div d nanos_per_sec"
    and plus: "time_plus C t d = Some t' \<Longrightarrow> t' = t + d"
begin

lemma num_seconds_nonneg: "0 \<le> d \<Longrightarrow> 0 \<le> dur_num_seconds C d"
  by (simp add: num_seconds trunc_div_def pos_imp_zdiv_nonneg_iff)

lemma num_seconds_seconds: "dur_seconds C s = Some d \<Longrightarrow> dur_num_seconds C d = s"
  by (auto simp: seconds num_seconds trunc_div_def split: if_splits)

end

text \<open>An instantiation of the parameter, for an unbounded calendar.\<close>

definition chrono_ns :: chrono_api where
  "chrono_ns = \<lparr>
     dur_seconds = (\<lambda>s. if \<bar>s\<bar> \<le> i64_max div 1000 then Some (s * nanos_per_sec) else None),
     dur_num_seconds = (\<lambda>d. trunc_div d nanos_per_sec),
     time_plus = (\<lambda>t d. Some (t + d))\<rparr>"

interpretation chrono_ns: chrono_laws chrono_ns
  by unfold_locales (simp_all add: chrono_ns_def)

section \<open>Lifecycles\<close>

text \<open>
  A transition log as pairs of phases: every entry starts where the previous one ended, and
  every entry but the first is an edge of the phase graph.
\<close>

fun linked_log :: "('p \<times> 'p) list \<Rightarrow> bool" where
  "linked_log [] = True"
| "linked_log [e] = True"
| "linked_log (e # e' # es) = (fst e' = snd e \<and> linked_log (e' # es))"

definition legal_log :: "('p \<Rightarrow> 'p \<Rightarrow> bool) \<Rightarrow> ('p \<times> 'p) list \<Rightarrow> bool" where
  "legal_log can es = list_all (\<lambda>e. can (fst e) (snd e)) (tl es)"

lemma linked_log_snoc:
  "linked_log (es @ [e]) \<longleftrightarrow> linked_log es \<and> (es \<noteq> [] \<longrightarrow> fst e = snd (last es))"
  by (induction es rule: linked_log.induct) auto

lemma legal_log_snoc:
  "legal_log can (es @ [e]) \<longleftrightarrow> legal_log can es \<and> (es \<noteq> [] \<longrightarrow> can (fst e) (snd e))"
  by (cases es) (auto simp: legal_log_def)

lemma linked_legal_path:
  assumes "es \<noteq> []" "linked_log es" "legal_log can es"
  shows "can\<^sup>*\<^sup>* (snd (hd es)) (snd (last es))"
  using assms
proof (induction es rule: rev_induct)
  case Nil
  then show ?case by simp
next
  case (snoc e es)
  show ?case
  proof (cases "es = []")
    case True
    then show ?thesis by simp
  next
    case False
    with snoc.prems have "can (snd (last es)) (snd e)" and "can\<^sup>*\<^sup>* (snd (hd es)) (snd (last es))"
      using snoc.IH by (auto simp: linked_log_snoc legal_log_snoc)
    with False show ?thesis by (simp add: rtranclp.rtrancl_into_rtrancl)
  qed
qed

locale lifecycle =
  fixes can :: "'p \<Rightarrow> 'p \<Rightarrow> bool"
    and phase_of :: "'s \<Rightarrow> 'p"
    and log_of :: "'s \<Rightarrow> ('p \<times> 'p) list"
    and moved :: "'s \<Rightarrow> 'p \<Rightarrow> 's \<Rightarrow> bool"
  assumes moved_legal: "moved s p s' \<Longrightarrow> can (phase_of s) p"
    and moved_phase: "moved s p s' \<Longrightarrow> phase_of s' = p"
    and moved_log: "moved s p s' \<Longrightarrow> log_of s \<noteq> [] \<and> log_of s' = log_of s @ [(snd (last (log_of s)), p)]"
begin

lemma moved_wf:
  assumes "moved s p s'" "snd (last (log_of s)) = phase_of s"
    and "linked_log (log_of s)" "legal_log can (log_of s)"
  shows "log_of s' \<noteq> []" "snd (last (log_of s')) = phase_of s'"
    and "linked_log (log_of s')" "legal_log can (log_of s')"
  using assms moved_legal [OF assms(1)] moved_phase [OF assms(1)] moved_log [OF assms(1)]
  by (auto simp: linked_log_snoc legal_log_snoc)

lemma wf_reaches:
  assumes "log_of s \<noteq> []" "snd (last (log_of s)) = phase_of s"
    and "linked_log (log_of s)" "legal_log can (log_of s)"
  shows "can\<^sup>*\<^sup>* (snd (hd (log_of s))) (phase_of s)"
  using linked_legal_path [OF assms(1,3,4)] assms(2) by simp

end

end
