(* ===== verification/Ids.thy ===== *)
theory Ids
  imports Labrys_Prelude
begin

text \<open>
  The stable identifiers of \<open>labrys-core/src/ids.rs\<close>. A value of the \<open>uuid\<close> crate is its
  \<open>simple\<close> rendering, the 32 hexadecimal digits without hyphens; \<open>Uuid::new_v4\<close> is an
  argument of the operations that mint an identifier and \<open>Uuid::parse_str\<close> an argument of
  \<open>from_str\<close>. Each identifier is a newtype with its own prefix, so a printed identifier
  names its kind.
\<close>

type_synonym uuid = string

datatype application_id = ApplicationId uuid
datatype environment_id = EnvironmentId uuid
datatype agent_session_id = AgentSessionId uuid
datatype workspace_id = WorkspaceId uuid
datatype preview_id = PreviewId uuid
datatype feedback_id = FeedbackId uuid
datatype binding_id = BindingId uuid
datatype resource_id = ResourceId uuid
datatype job_id = JobId uuid
datatype deployment_id = DeploymentId uuid
datatype domain_id = DomainId uuid

text \<open>\<open>str::strip_prefix\<close> followed by \<open>Uuid::parse_str\<close>, with the one error text for both.\<close>

definition id_from_str ::
  "string \<Rightarrow> string \<Rightarrow> (uuid \<Rightarrow> 'id) \<Rightarrow> (string \<Rightarrow> uuid option) \<Rightarrow> string \<Rightarrow> string + 'id" where
  "id_from_str pre label mk parse_str s =
     (if starts_with s pre
      then (case parse_str (drop (length pre) s) of
              Some u \<Rightarrow> Inr (mk u)
            | None \<Rightarrow> Inl (''invalid '' @ label @ '' id: '' @ s))
      else Inl (''invalid '' @ label @ '' id: '' @ s))"

fun application_id_display :: "application_id \<Rightarrow> string" where
  "application_id_display (ApplicationId u) = ''app_'' @ u"

definition application_id_from_str :: "(string \<Rightarrow> uuid option) \<Rightarrow> string \<Rightarrow> string + application_id" where
  "application_id_from_str = id_from_str ''app_'' ''application'' ApplicationId"

fun environment_id_display :: "environment_id \<Rightarrow> string" where
  "environment_id_display (EnvironmentId u) = ''env_'' @ u"

definition environment_id_from_str :: "(string \<Rightarrow> uuid option) \<Rightarrow> string \<Rightarrow> string + environment_id" where
  "environment_id_from_str = id_from_str ''env_'' ''environment'' EnvironmentId"

fun agent_session_id_display :: "agent_session_id \<Rightarrow> string" where
  "agent_session_id_display (AgentSessionId u) = ''agt_'' @ u"

definition agent_session_id_from_str :: "(string \<Rightarrow> uuid option) \<Rightarrow> string \<Rightarrow> string + agent_session_id" where
  "agent_session_id_from_str = id_from_str ''agt_'' ''agent session'' AgentSessionId"

fun workspace_id_display :: "workspace_id \<Rightarrow> string" where
  "workspace_id_display (WorkspaceId u) = ''ws_'' @ u"

definition workspace_id_from_str :: "(string \<Rightarrow> uuid option) \<Rightarrow> string \<Rightarrow> string + workspace_id" where
  "workspace_id_from_str = id_from_str ''ws_'' ''workspace'' WorkspaceId"

fun preview_id_display :: "preview_id \<Rightarrow> string" where
  "preview_id_display (PreviewId u) = ''prv_'' @ u"

definition preview_id_from_str :: "(string \<Rightarrow> uuid option) \<Rightarrow> string \<Rightarrow> string + preview_id" where
  "preview_id_from_str = id_from_str ''prv_'' ''preview'' PreviewId"

fun feedback_id_display :: "feedback_id \<Rightarrow> string" where
  "feedback_id_display (FeedbackId u) = ''fb_'' @ u"

definition feedback_id_from_str :: "(string \<Rightarrow> uuid option) \<Rightarrow> string \<Rightarrow> string + feedback_id" where
  "feedback_id_from_str = id_from_str ''fb_'' ''feedback'' FeedbackId"

fun binding_id_display :: "binding_id \<Rightarrow> string" where
  "binding_id_display (BindingId u) = ''bnd_'' @ u"

definition binding_id_from_str :: "(string \<Rightarrow> uuid option) \<Rightarrow> string \<Rightarrow> string + binding_id" where
  "binding_id_from_str = id_from_str ''bnd_'' ''binding'' BindingId"

fun resource_id_display :: "resource_id \<Rightarrow> string" where
  "resource_id_display (ResourceId u) = ''res_'' @ u"

definition resource_id_from_str :: "(string \<Rightarrow> uuid option) \<Rightarrow> string \<Rightarrow> string + resource_id" where
  "resource_id_from_str = id_from_str ''res_'' ''resource'' ResourceId"

fun job_id_display :: "job_id \<Rightarrow> string" where
  "job_id_display (JobId u) = ''job_'' @ u"

definition job_id_from_str :: "(string \<Rightarrow> uuid option) \<Rightarrow> string \<Rightarrow> string + job_id" where
  "job_id_from_str = id_from_str ''job_'' ''job'' JobId"

fun deployment_id_display :: "deployment_id \<Rightarrow> string" where
  "deployment_id_display (DeploymentId u) = ''dep_'' @ u"

definition deployment_id_from_str :: "(string \<Rightarrow> uuid option) \<Rightarrow> string \<Rightarrow> string + deployment_id" where
  "deployment_id_from_str = id_from_str ''dep_'' ''deployment'' DeploymentId"

fun domain_id_display :: "domain_id \<Rightarrow> string" where
  "domain_id_display (DomainId u) = ''dom_'' @ u"

definition domain_id_from_str :: "(string \<Rightarrow> uuid option) \<Rightarrow> string \<Rightarrow> string + domain_id" where
  "domain_id_from_str = id_from_str ''dom_'' ''domain'' DomainId"

section \<open>Round trip\<close>

lemma id_from_str_roundtrip:
  "parse_str u = Some u \<Longrightarrow> id_from_str pre label mk parse_str (pre @ u) = Inr (mk u)"
  by (simp add: id_from_str_def starts_with_def)

lemma id_from_str_rejects:
  "\<not> prefix pre s \<Longrightarrow> id_from_str pre label mk parse_str s = Inl (''invalid '' @ label @ '' id: '' @ s)"
  by (simp add: id_from_str_def starts_with_def)

lemma application_id_display_inj [simp]: "application_id_display a = application_id_display b \<longleftrightarrow> a = b"
  by (cases a; cases b) simp

lemma environment_id_display_inj [simp]: "environment_id_display a = environment_id_display b \<longleftrightarrow> a = b"
  by (cases a; cases b) simp

lemma agent_session_id_display_inj [simp]: "agent_session_id_display a = agent_session_id_display b \<longleftrightarrow> a = b"
  by (cases a; cases b) simp

lemma workspace_id_display_inj [simp]: "workspace_id_display a = workspace_id_display b \<longleftrightarrow> a = b"
  by (cases a; cases b) simp

lemma preview_id_display_inj [simp]: "preview_id_display a = preview_id_display b \<longleftrightarrow> a = b"
  by (cases a; cases b) simp

lemma feedback_id_display_inj [simp]: "feedback_id_display a = feedback_id_display b \<longleftrightarrow> a = b"
  by (cases a; cases b) simp

lemma binding_id_display_inj [simp]: "binding_id_display a = binding_id_display b \<longleftrightarrow> a = b"
  by (cases a; cases b) simp

lemma resource_id_display_inj [simp]: "resource_id_display a = resource_id_display b \<longleftrightarrow> a = b"
  by (cases a; cases b) simp

lemma job_id_display_inj [simp]: "job_id_display a = job_id_display b \<longleftrightarrow> a = b"
  by (cases a; cases b) simp

lemma deployment_id_display_inj [simp]: "deployment_id_display a = deployment_id_display b \<longleftrightarrow> a = b"
  by (cases a; cases b) simp

lemma domain_id_display_inj [simp]: "domain_id_display a = domain_id_display b \<longleftrightarrow> a = b"
  by (cases a; cases b) simp

lemmas id_from_str_defs =
  application_id_from_str_def
  environment_id_from_str_def
  agent_session_id_from_str_def
  workspace_id_from_str_def
  preview_id_from_str_def
  feedback_id_from_str_def
  binding_id_from_str_def
  resource_id_from_str_def
  job_id_from_str_def
  deployment_id_from_str_def
  domain_id_from_str_def

text \<open>Which identifier types accept a text, in the order of the declarations.\<close>

definition accepting :: "(string \<Rightarrow> uuid option) \<Rightarrow> string \<Rightarrow> bool list" where
  "accepting parse_str s =
     [\<not> isl (application_id_from_str parse_str s),
      \<not> isl (environment_id_from_str parse_str s),
      \<not> isl (agent_session_id_from_str parse_str s),
      \<not> isl (workspace_id_from_str parse_str s),
      \<not> isl (preview_id_from_str parse_str s),
      \<not> isl (feedback_id_from_str parse_str s),
      \<not> isl (binding_id_from_str parse_str s),
      \<not> isl (resource_id_from_str parse_str s),
      \<not> isl (job_id_from_str parse_str s),
      \<not> isl (deployment_id_from_str parse_str s),
      \<not> isl (domain_id_from_str parse_str s)]"

lemma id_from_str_isl:
  "isl (id_from_str pre label mk parse_str s) \<longleftrightarrow>
     \<not> (prefix pre s \<and> parse_str (drop (length pre) s) \<noteq> None)"
  by (auto simp: id_from_str_def starts_with_def split: option.splits)

section \<open>Properties\<close>

text \<open>
  Printed identifiers read back. If the UUID parser accepts the simple form it printed,
  \<open>from_str\<close> of every identifier type inverts its \<open>Display\<close>.
\<close>

theorem ids_roundtrip:
  assumes "parse_str u = Some u"
  shows "application_id_from_str parse_str (application_id_display (ApplicationId u)) = Inr (ApplicationId u) \<and>
    environment_id_from_str parse_str (environment_id_display (EnvironmentId u)) = Inr (EnvironmentId u) \<and>
    agent_session_id_from_str parse_str (agent_session_id_display (AgentSessionId u)) = Inr (AgentSessionId u) \<and>
    workspace_id_from_str parse_str (workspace_id_display (WorkspaceId u)) = Inr (WorkspaceId u) \<and>
    preview_id_from_str parse_str (preview_id_display (PreviewId u)) = Inr (PreviewId u) \<and>
    feedback_id_from_str parse_str (feedback_id_display (FeedbackId u)) = Inr (FeedbackId u) \<and>
    binding_id_from_str parse_str (binding_id_display (BindingId u)) = Inr (BindingId u) \<and>
    resource_id_from_str parse_str (resource_id_display (ResourceId u)) = Inr (ResourceId u) \<and>
    job_id_from_str parse_str (job_id_display (JobId u)) = Inr (JobId u) \<and>
    deployment_id_from_str parse_str (deployment_id_display (DeploymentId u)) = Inr (DeploymentId u) \<and>
    domain_id_from_str parse_str (domain_id_display (DomainId u)) = Inr (DomainId u)"
  using assms by (simp add: id_from_str_defs id_from_str_def starts_with_def)

theorem ids_roundtrip_witness:
  "job_id_from_str Some (job_id_display (JobId ''0a1b'')) = Inr (JobId ''0a1b'')"
  using ids_roundtrip [of Some "''0a1b''"] by simp

text \<open>
  Identifier kinds never mix: a printed identifier is accepted by exactly one of the eleven
  \<open>from_str\<close> functions, the one of its own type.
\<close>

theorem ids_kinds_disjoint:
  assumes "parse_str u = Some u"
  shows "count_list (accepting parse_str (application_id_display (ApplicationId u))) True = 1 \<and>
    count_list (accepting parse_str (environment_id_display (EnvironmentId u))) True = 1 \<and>
    count_list (accepting parse_str (agent_session_id_display (AgentSessionId u))) True = 1 \<and>
    count_list (accepting parse_str (workspace_id_display (WorkspaceId u))) True = 1 \<and>
    count_list (accepting parse_str (preview_id_display (PreviewId u))) True = 1 \<and>
    count_list (accepting parse_str (feedback_id_display (FeedbackId u))) True = 1 \<and>
    count_list (accepting parse_str (binding_id_display (BindingId u))) True = 1 \<and>
    count_list (accepting parse_str (resource_id_display (ResourceId u))) True = 1 \<and>
    count_list (accepting parse_str (job_id_display (JobId u))) True = 1 \<and>
    count_list (accepting parse_str (deployment_id_display (DeploymentId u))) True = 1 \<and>
    count_list (accepting parse_str (domain_id_display (DomainId u))) True = 1"
  using assms by (simp add: accepting_def id_from_str_defs id_from_str_isl)

theorem ids_kinds_disjoint_witness:
  "count_list (accepting Some (resource_id_display (ResourceId ''0a1b''))) True = 1"
  using ids_kinds_disjoint [of Some "''0a1b''"] by simp

end
