(* ===== verification/Redaction.thy ===== *)
theory Redaction
  imports Labrys_Prelude
begin

text \<open>
  Secret redaction: \<open>redact_reason\<close> of \<open>labrys-core/src/controller.rs\<close> and the guards built on
  it in \<open>labrys-control-plane/src/redact.rs\<close>. The lemmas show which secrets redaction is
  certain to remove, that redaction never brings back a value removed before, and that the
  guard rejects whatever redaction could not remove.
\<close>

section \<open>Operations\<close>

definition redaction_marker :: string where
  "redaction_marker = ''[redacted]''"

definition redact_reason :: "string \<Rightarrow> string list \<Rightarrow> string" where
  "redact_reason reason secrets =
     fold (\<lambda>secret out. str_replace secret redaction_marker out)
       (filter (\<lambda>s. s \<noteq> []) secrets) reason"

text \<open>The errors of \<open>labrys-control-plane/src/error.rs\<close>; foreign error values are their texts.\<close>

datatype control_plane_error =
    DatabaseError string
  | MigrationError string
  | SerializationError string
  | MappingError string
  | JobStateError string
  | CoreErrorOf core_error
  | ConfigError string
  | NotFoundError string
  | ConflictError string
  | EnvironmentIsolationError string
  | SecretLeakError string
  | ExecutionError string
  | ProviderError string
  | RegistryError string
  | DomainError string
  | UnavailableError string
  | IoError string
  | ShutdownError string

fun control_plane_error_display :: "control_plane_error \<Rightarrow> string" where
  "control_plane_error_display (DatabaseError m) = ''database error: '' @ m"
| "control_plane_error_display (MigrationError m) = ''migration error: '' @ m"
| "control_plane_error_display (SerializationError m) = ''serialization error: '' @ m"
| "control_plane_error_display (MappingError m) = ''mapping error: '' @ m"
| "control_plane_error_display (JobStateError m) = ''job state violation: '' @ m"
| "control_plane_error_display (CoreErrorOf e) = ''domain error: '' @ core_error_display e"
| "control_plane_error_display (ConfigError m) = ''configuration error: '' @ m"
| "control_plane_error_display (NotFoundError m) = ''not found: '' @ m"
| "control_plane_error_display (ConflictError m) = ''generation conflict: '' @ m"
| "control_plane_error_display (EnvironmentIsolationError m) = ''environment isolation violation: '' @ m"
| "control_plane_error_display (SecretLeakError m) =
     ''secret value rejected before persistence in field '' @ quote_mark @ m @ quote_mark"
| "control_plane_error_display (ExecutionError m) = ''container execution error: '' @ m"
| "control_plane_error_display (ProviderError m) = ''provider error: '' @ m"
| "control_plane_error_display (RegistryError m) = ''registry error: '' @ m"
| "control_plane_error_display (DomainError m) = ''domain delivery error: '' @ m"
| "control_plane_error_display (UnavailableError m) = ''runtime unavailable: '' @ m"
| "control_plane_error_display (IoError m) = ''io error: '' @ m"
| "control_plane_error_display (ShutdownError m) = ''worker is shutting down: '' @ m"

text \<open>The control plane's \<open>Result\<close>; the last constructor is a panic.\<close>

datatype 'a cp_outcome = CpOk 'a | CpErr control_plane_error | CpPanic string

fun cp_bind :: "'a cp_outcome \<Rightarrow> ('a \<Rightarrow> 'b cp_outcome) \<Rightarrow> 'b cp_outcome" where
  "cp_bind (CpOk a) f = f a"
| "cp_bind (CpErr e) f = CpErr e"
| "cp_bind (CpPanic m) f = CpPanic m"

definition redact :: "string \<Rightarrow> string list \<Rightarrow> string" where
  "redact text secrets = redact_reason text secrets"

definition redact_opt :: "string option \<Rightarrow> string list \<Rightarrow> string option" where
  "redact_opt text secrets = map_option (\<lambda>t. redact_reason t secrets) text"

fun ensure_no_secret_loop :: "string \<Rightarrow> string \<Rightarrow> string list \<Rightarrow> control_plane_error + unit" where
  "ensure_no_secret_loop field text [] = Inr ()"
| "ensure_no_secret_loop field text (secret # rest) =
     (if str_contains text secret then Inl (SecretLeakError field)
      else ensure_no_secret_loop field text rest)"

definition ensure_no_secret :: "string \<Rightarrow> string \<Rightarrow> string list \<Rightarrow> control_plane_error + unit" where
  "ensure_no_secret field text secrets =
     ensure_no_secret_loop field text (filter (\<lambda>s. s \<noteq> []) secrets)"

definition redact_guard :: "string \<Rightarrow> string \<Rightarrow> string list \<Rightarrow> control_plane_error + string" where
  "redact_guard field text secrets =
     (let redacted = redact text secrets in
      case ensure_no_secret field redacted secrets of
        Inl e \<Rightarrow> Inl e
      | Inr _ \<Rightarrow> Inr redacted)"

section \<open>What redaction removes\<close>

text \<open>
  A secret is separable from the marker when the marker can neither contain it nor form it
  together with the text around it.
\<close>

definition marker_free :: "string \<Rightarrow> bool" where
  "marker_free q = (q \<noteq> [] \<and> CHR ''['' \<notin> set q \<and> CHR '']'' \<notin> set q \<and> \<not> sublist q ''redacted'')"

lemma sublist_across_char:
  assumes "c \<notin> set q" "sublist q (x @ c # y)"
  shows "sublist q x \<or> sublist q y"
proof -
  from assms(2) obtain ps ss where "x @ c # y = ps @ q @ ss" by (auto simp: sublist_def)
  then obtain us where
    "(x = ps @ us \<and> us @ c # y = q @ ss) \<or> (x @ us = ps \<and> c # y = us @ q @ ss)"
    by (auto simp: append_eq_append_conv2)
  then show ?thesis
  proof
    assume x: "x = ps @ us \<and> us @ c # y = q @ ss"
    then obtain vs where "(us = q @ vs) \<or> (us @ vs = q \<and> c # y = vs @ ss)"
      by (auto simp: append_eq_append_conv2)
    then have "sublist q us" using assms(1) by (cases vs) auto
    then show ?thesis using x sublist_order.order_trans [of q us x] by auto
  next
    assume "x @ us = ps \<and> c # y = us @ q @ ss"
    then show ?thesis using assms(1) by (cases us; cases q) (auto simp: sublist_def)
  qed
qed

lemma sublist_across_marker:
  assumes "marker_free q" "sublist q (x @ redaction_marker @ y)"
  shows "sublist q x \<or> sublist q y"
proof -
  have m: "redaction_marker @ y = CHR ''['' # ''redacted'' @ CHR '']'' # y"
    by (simp add: redaction_marker_def)
  from assms have "sublist q x \<or> sublist q (''redacted'' @ CHR '']'' # y)"
    using sublist_across_char [of "CHR ''[''" q x] unfolding m marker_free_def by blast
  with assms(1) show ?thesis
    using sublist_across_char [of "CHR '']''" q "''redacted''" y] unfolding marker_free_def by blast
qed

lemma sublist_of_tail: "sublist q cs \<Longrightarrow> sublist q (c # cs)"
  by (metis append_Cons sublist_def)

lemma sublist_of_drop: "sublist q (drop n cs) \<Longrightarrow> sublist q cs"
  using sublist_order.order_trans [OF _ sublist_drop] by blast

lemma sublist_start:
  assumes "q \<noteq> []" "sublist q x"
  obtains i where "i < length x" "prefix q (drop i x)"
proof -
  from assms(2) obtain ps ss where x: "x = ps @ q @ ss" by (auto simp: sublist_def)
  with assms(1) have "length ps < length x" by simp
  moreover have "prefix q (drop (length ps) x)" using x by simp
  ultimately show thesis by (rule that)
qed

lemma replace_from_keeps_absent:
  assumes q: "marker_free q"
  shows "sublist q (x @ replace_from pat redaction_marker n s) \<Longrightarrow> sublist q (x @ drop n s)"
proof (induction pat rep\<equiv>redaction_marker n s arbitrary: x rule: replace_from.induct)
  case (1 pat n)
  then show ?case by simp
next
  case (2 pat n c cs)
  then show ?case by simp
next
  case (3 pat c cs)
  show ?case
  proof (cases "prefix pat (c # cs)")
    case True
    with "3.prems" have "sublist q x \<or> sublist q (replace_from pat redaction_marker (length pat - 1) cs)"
      using sublist_across_marker [OF q] by simp
    then have "sublist q x \<or> sublist q (drop (length pat - 1) cs)"
      using "3.hyps"(1) [OF True, of "[]"] by auto
    then have "sublist q x \<or> sublist q (c # cs)"
      by (blast dest: sublist_of_drop intro: sublist_of_tail)
    then show ?thesis
      using sublist_order.order_trans [of q x "x @ c # cs"]
        sublist_order.order_trans [of q "c # cs" "x @ c # cs"] by auto
  next
    case False
    with "3.prems" show ?thesis using "3.hyps"(2) [of "x @ [c]"] by simp
  qed
qed

lemma replace_from_removes:
  assumes "marker_free pat"
  shows "n = 0 \<or> x = [] \<Longrightarrow> \<forall>i < length x. \<not> prefix pat (drop i (x @ drop n s)) \<Longrightarrow>
    \<not> sublist pat (x @ replace_from pat redaction_marker n s)"
  using assms
proof (induction pat rep\<equiv>redaction_marker n s arbitrary: x rule: replace_from.induct)
  case (1 pat n)
  then show ?case using sublist_start [of pat x] by (auto simp: marker_free_def)
next
  case (2 pat n c cs)
  from "2.prems" have "x = []" by simp
  with "2.hyps" [of "[]"] "2.prems"(3) show ?case by simp
next
  case (3 pat c cs)
  show ?case
  proof (cases "prefix pat (c # cs)")
    case True
    have "\<not> sublist pat x"
    proof
      assume "sublist pat x"
      then obtain i where "i < length x" "prefix pat (drop i x)"
        using sublist_start "3.prems"(3) by (auto simp: marker_free_def)
      with "3.prems"(2) show False by (auto simp: prefix_def)
    qed
    moreover have "\<not> sublist pat (replace_from pat redaction_marker (length pat - 1) cs)"
      using "3.hyps"(1) [OF True, of "[]"] "3.prems" by simp
    ultimately show ?thesis
      using True sublist_across_marker [OF "3.prems"(3)] by auto
  next
    case False
    have "\<forall>i < length (x @ [c]). \<not> prefix pat (drop i ((x @ [c]) @ drop 0 cs))"
      using "3.prems"(2) False by (auto simp: less_Suc_eq)
    with False "3.prems" show ?thesis using "3.hyps"(2) [of "x @ [c]"] by simp
  qed
qed

lemma str_replace_removes: "marker_free q \<Longrightarrow> \<not> sublist q (str_replace q redaction_marker s)"
  using replace_from_removes [of q 0 "[]" s] by (simp add: str_replace_def marker_free_def)

lemma str_replace_keeps_absent:
  "marker_free q \<Longrightarrow> pat \<noteq> [] \<Longrightarrow> \<not> sublist q s \<Longrightarrow> \<not> sublist q (str_replace pat redaction_marker s)"
  using replace_from_keeps_absent [of q "[]" pat 0 s] by (auto simp: str_replace_def)

lemma fold_redact_keeps_absent:
  "marker_free q \<Longrightarrow> [] \<notin> set ss \<Longrightarrow> \<not> sublist q s \<Longrightarrow>
    \<not> sublist q (fold (\<lambda>p out. str_replace p redaction_marker out) ss s)"
proof (induction ss arbitrary: s)
  case (Cons p ss)
  then have "\<not> sublist q (str_replace p redaction_marker s)"
    by (intro str_replace_keeps_absent) auto
  with Cons show ?case by simp
qed simp

lemma fold_redact_removes:
  "marker_free q \<Longrightarrow> [] \<notin> set ss \<Longrightarrow> q \<in> set ss \<Longrightarrow>
    \<not> sublist q (fold (\<lambda>p out. str_replace p redaction_marker out) ss s)"
proof (induction ss arbitrary: s)
  case (Cons p ss)
  show ?case
  proof (cases "q = p")
    case True
    with Cons.prems show ?thesis
      using fold_redact_keeps_absent [of q ss "str_replace p redaction_marker s"]
      by (simp add: str_replace_removes)
  next
    case False
    with Cons show ?thesis by simp
  qed
qed simp

lemma redact_reason_removes:
  "marker_free q \<Longrightarrow> q \<in> set secrets \<Longrightarrow> \<not> str_contains (redact_reason reason secrets) q"
  using fold_redact_removes [of q "filter (\<lambda>s. s \<noteq> []) secrets" reason]
  by (auto simp: redact_reason_def str_contains_def marker_free_def)

lemma redact_reason_nil [simp]: "redact_reason reason [] = reason"
  by (simp add: redact_reason_def)

lemma replace_from_absent: "\<not> sublist pat s \<Longrightarrow> replace_from pat rep 0 s = s"
proof (induction s)
  case (Cons c cs)
  then have "\<not> prefix pat (c # cs)" "\<not> sublist pat cs"
    by (auto intro: sublist_of_tail)
  with Cons.IH show ?case by simp
qed simp

lemma redact_reason_absent:
  "\<forall>s \<in> set secrets. s = [] \<or> \<not> str_contains reason s \<Longrightarrow> redact_reason reason secrets = reason"
  by (induction secrets)
    (auto simp: redact_reason_def str_contains_def str_replace_def replace_from_absent)

section \<open>The guard\<close>

lemma ensure_no_secret_loop_Inr:
  "ensure_no_secret_loop field text ss = Inr u \<longleftrightarrow> (\<forall>s \<in> set ss. \<not> str_contains text s)"
  by (induction ss) auto

lemma ensure_no_secret_loop_Inl:
  "ensure_no_secret_loop field text ss = Inl e \<Longrightarrow> e = SecretLeakError field"
  by (induction ss) (auto split: if_splits)

lemma redact_guard_Inr:
  "redact_guard field text secrets = Inr r \<longleftrightarrow>
     r = redact_reason text secrets \<and> (\<forall>s \<in> set secrets. s \<noteq> [] \<longrightarrow> \<not> str_contains r s)"
  using ensure_no_secret_loop_Inr [of field "redact_reason text secrets" "filter (\<lambda>s. s \<noteq> []) secrets"]
  by (auto simp: redact_guard_def redact_def ensure_no_secret_def Let_def split: sum.splits)

lemma redact_guard_Inl:
  "redact_guard field text secrets = Inl e \<Longrightarrow> e = SecretLeakError field"
  using ensure_no_secret_loop_Inl
  by (auto simp: redact_guard_def ensure_no_secret_def Let_def split: sum.splits)

section \<open>Properties\<close>

lemma replace_from_skip: "replace_from pat rep (length xs) (xs @ ys) = replace_from pat rep 0 ys"
  by (induction xs) simp_all

lemma replace_from_first:
  assumes "pat \<noteq> []" and "\<forall>i < length a. \<not> prefix pat (drop i (a @ pat @ b))"
  shows "replace_from pat rep 0 (a @ pat @ b) = a @ rep @ replace_from pat rep 0 b"
  using assms(2)
proof (induction a)
  case Nil
  from assms(1) obtain c cs where "pat = c # cs" by (cases pat) auto
  then show ?case using replace_from_skip [of pat rep cs b] by simp
next
  case (Cons c a)
  from Cons.prems have "\<not> prefix pat (c # a @ pat @ b)" by (metis append_Cons drop0 length_Cons zero_less_Suc)
  moreover have "\<forall>i < length a. \<not> prefix pat (drop i (a @ pat @ b))"
    using Cons.prems by (metis Suc_mono append_Cons drop_Suc_Cons length_Cons)
  ultimately show ?case using Cons.IH by simp
qed

lemma redact_reason_first:
  assumes "q \<noteq> []" and "\<forall>i < length a. \<not> prefix q (drop i (a @ q @ b))"
  shows "redact_reason (a @ q @ b) [q] = a @ redaction_marker @ redact_reason b [q]"
  using replace_from_first [OF assms] assms(1) by (simp add: redact_reason_def str_replace_def)

lemma redact_reason_Cons: "redact_reason t (q # qs) = redact_reason (redact_reason t [q]) qs"
  by (simp add: redact_reason_def)

text \<open>
  (C24) Redaction removes the secrets and nothing else. Whatever other secrets are registered, in whatever order and
  however they overlap, a secret that is separable from the marker (not empty, without brackets, not part of the word
  redacted) does not occur in the redacted text. Redaction of several secrets is redaction of one after the other; for
  one secret, the first occurrence is replaced by the marker, the text before it is kept and the text after it
  is redacted in the same way; and a text in which no secret occurs is unchanged.
\<close>

theorem redaction_complete:
  "(\<forall>q \<in> set secrets. marker_free q \<longrightarrow> \<not> str_contains (redact_reason reason secrets) q) \<and>
   redact_reason reason (q # secrets) = redact_reason (redact_reason reason [q]) secrets \<and>
   (q \<noteq> [] \<and> (\<forall>i < length a. \<not> prefix q (drop i (a @ q @ b))) \<longrightarrow>
      redact_reason (a @ q @ b) [q] = a @ redaction_marker @ redact_reason b [q]) \<and>
   ((\<forall>s \<in> set secrets. s \<noteq> [] \<longrightarrow> \<not> str_contains reason s) \<longrightarrow> redact_reason reason secrets = reason)"
  using redact_reason_removes redact_reason_Cons redact_reason_first redact_reason_absent by blast

theorem redaction_complete_witness:
  "\<not> str_contains (redact_reason ''key=hunter2 pw=hunter22'' [''hunter22'', ''[red'', ''hunter2'']) ''hunter2'' \<and>
   redact_reason ''key=hunter2;'' [''hunter2''] = ''key=[redacted];''"
proof -
  have "marker_free ''hunter2''" by (simp add: marker_free_def sublist_Cons_right)
  moreover have "\<forall>i < length ''key=''. \<not> prefix ''hunter2'' (drop i (''key='' @ ''hunter2'' @ '';''))"
    by (auto simp: less_Suc_eq)
  moreover have "redact_reason '';'' [''hunter2''] = '';''" by code_simp
  ultimately show ?thesis
    using redaction_complete [of "[''hunter22'', ''[red'', ''hunter2'']" "''key=hunter2 pw=hunter22''" "''hunter2''" "''key=''" "'';''"]
    by (simp add: redaction_marker_def)
qed

text \<open>
  The persistence guard fails closed. A text that passes the guard is the redacted text and
  holds no registered secret; a refusal carries the name of the field and nothing of the text
  or the secrets; and for secrets separable from the marker the guard never refuses.
\<close>

theorem redact_guard_fails_closed:
  "(case redact_guard field t secrets of
      Inr r \<Rightarrow> r = redact_reason t secrets \<and> (\<forall>s \<in> set secrets. s \<noteq> [] \<longrightarrow> \<not> str_contains r s)
    | Inl e \<Rightarrow> e = SecretLeakError field \<and>
        (\<exists>s \<in> set secrets. s \<noteq> [] \<and> \<not> marker_free s \<and> str_contains (redact_reason t secrets) s))"
proof (cases "redact_guard field t secrets")
  case (Inr r)
  then have "r = redact_reason t secrets \<and> (\<forall>s \<in> set secrets. s \<noteq> [] \<longrightarrow> \<not> str_contains r s)"
    using redact_guard_Inr by blast
  then show ?thesis unfolding Inr sum.case by blast
next
  case (Inl e)
  have "\<exists>s \<in> set secrets. s \<noteq> [] \<and> str_contains (redact_reason t secrets) s"
    using Inl redact_guard_Inr [of field t secrets "redact_reason t secrets"] by auto
  then show ?thesis using Inl redact_guard_Inl [OF Inl] redact_reason_removes by auto
qed

theorem redact_guard_fails_closed_witness:
  "\<exists>r. redact_guard ''detail'' ''key hunter2'' [''hunter2''] = Inr r \<and> \<not> str_contains r ''hunter2''"
proof -
  have m: "marker_free ''hunter2''" by (simp add: marker_free_def sublist_Cons_right)
  show ?thesis
  proof (cases "redact_guard ''detail'' ''key hunter2'' [''hunter2'']")
    case (Inl e)
    with redact_guard_fails_closed [where field = "''detail''" and t = "''key hunter2''" and secrets = "[''hunter2'']"] m show ?thesis by simp
  next
    case (Inr r)
    with redact_guard_fails_closed [where field = "''detail''" and t = "''key hunter2''" and secrets = "[''hunter2'']"] show ?thesis by auto
  qed
qed

end
