(* ===== verification/Health.thy ===== *)
theory Health
  imports Labrys_Prelude
begin

text \<open>
  Health aggregation of \<open>labrys-core/src/controller.rs\<close> (\<open>HealthState\<close>, \<open>HealthCheck\<close>,
  \<open>HealthReport::from_checks\<close>, \<open>aggregate_health\<close>). The lemmas characterise the aggregate as
  the most severe platform check and show that agent claims never take part in it.
\<close>

datatype health_state =
    HsUnknown | HsProvisioning | HsHealthy | HsDegraded | HsFailed | HsPaused

datatype check_source = CheckPlatformProbe | CheckAgentTool

record health_check =
  hc_name :: string
  hc_source :: check_source
  hc_state :: health_state
  hc_detail :: "string option"

definition health_check_probe :: "string \<Rightarrow> health_state \<Rightarrow> health_check" where
  "health_check_probe name st =
     \<lparr>hc_name = name, hc_source = CheckPlatformProbe, hc_state = st, hc_detail = None\<rparr>"

definition health_check_agent_claim :: "string \<Rightarrow> health_state \<Rightarrow> health_check" where
  "health_check_agent_claim name st =
     \<lparr>hc_name = name, hc_source = CheckAgentTool, hc_state = st, hc_detail = None\<rparr>"

record health_report =
  hr_state :: health_state
  hr_checks :: "health_check list"
  hr_ignored_agent_claims :: "string list"
  hr_at :: time

definition aggregate_health :: "health_state list \<Rightarrow> health_state" where
  "aggregate_health states =
     (if states = [] then HsUnknown
      else if HsFailed \<in> set states then HsFailed
      else if HsDegraded \<in> set states then HsDegraded
      else if HsUnknown \<in> set states then HsUnknown
      else if HsProvisioning \<in> set states then HsProvisioning
      else if HsPaused \<in> set states then HsPaused
      else HsHealthy)"

fun split_checks ::
  "health_check list \<Rightarrow> health_check list \<Rightarrow> string list \<Rightarrow> health_check list \<times> string list" where
  "split_checks [] platform ignored = (platform, ignored)"
| "split_checks (c # cs) platform ignored =
     (if hc_source c = CheckPlatformProbe then split_checks cs (platform @ [c]) ignored
      else split_checks cs platform (ignored @ [hc_name c]))"

definition from_checks :: "health_check list \<Rightarrow> time \<Rightarrow> health_report" where
  "from_checks checks at =
     (case split_checks checks [] [] of (platform, ignored) \<Rightarrow>
        \<lparr>hr_state = aggregate_health (map hc_state platform), hr_checks = platform,
         hr_ignored_agent_claims = ignored, hr_at = at\<rparr>)"

definition is_healthy :: "health_report \<Rightarrow> bool" where
  "is_healthy r = (hr_state r = HsHealthy)"

section \<open>The aggregate is the most severe check\<close>

text \<open>The documented precedence as a rank.\<close>

fun severity :: "health_state \<Rightarrow> nat" where
  "severity HsHealthy = 0"
| "severity HsPaused = 1"
| "severity HsProvisioning = 2"
| "severity HsUnknown = 3"
| "severity HsDegraded = 4"
| "severity HsFailed = 5"

lemma severity_inj: "severity a = severity b \<Longrightarrow> a = b"
  by (cases a; cases b) simp_all

lemma severity_bound: "severity s \<le> severity HsFailed"
  by (cases s) simp_all

lemma aggregate_in: "states \<noteq> [] \<Longrightarrow> aggregate_health states \<in> set states"
proof -
  assume ne: "states \<noteq> []"
  show ?thesis
  proof (cases "\<exists>s \<in> set states. s \<noteq> HsHealthy")
    case True
    then obtain s where "s \<in> set states" "s \<noteq> HsHealthy" by blast
    then show ?thesis using ne by (cases s rule: health_state.exhaust) (auto simp: aggregate_health_def)
  next
    case False
    moreover from ne obtain t where "t \<in> set states" by (cases states) auto
    ultimately show ?thesis by (auto simp: aggregate_health_def)
  qed
qed

lemma aggregate_dominates: "s \<in> set states \<Longrightarrow> severity s \<le> severity (aggregate_health states)"
  by (cases s) (auto simp: aggregate_health_def)

lemma aggregate_healthy_iff:
  "aggregate_health states = HsHealthy \<longleftrightarrow> states \<noteq> [] \<and> (\<forall>s \<in> set states. s = HsHealthy)"
proof
  assume h: "aggregate_health states = HsHealthy"
  then have "\<forall>s \<in> set states. severity s = severity HsHealthy"
    using aggregate_dominates by fastforce
  with h show "states \<noteq> [] \<and> (\<forall>s \<in> set states. s = HsHealthy)"
    using severity_inj by (auto simp: aggregate_health_def)
next
  assume "states \<noteq> [] \<and> (\<forall>s \<in> set states. s = HsHealthy)"
  then show "aggregate_health states = HsHealthy" using aggregate_in by blast
qed

lemma split_checks_eq:
  "split_checks cs platform ignored =
     (platform @ filter (\<lambda>c. hc_source c = CheckPlatformProbe) cs,
      ignored @ map hc_name (filter (\<lambda>c. hc_source c \<noteq> CheckPlatformProbe) cs))"
  by (induction cs arbitrary: platform ignored) auto

lemma from_checks_eq:
  "from_checks checks at =
     \<lparr>hr_state = aggregate_health (map hc_state (filter (\<lambda>c. hc_source c = CheckPlatformProbe) checks)),
      hr_checks = filter (\<lambda>c. hc_source c = CheckPlatformProbe) checks,
      hr_ignored_agent_claims = map hc_name (filter (\<lambda>c. hc_source c \<noteq> CheckPlatformProbe) checks),
      hr_at = at\<rparr>"
  by (simp add: from_checks_def split_checks_eq)

section \<open>Properties\<close>

text \<open>
  The aggregate is the most severe platform check. A report over at least one platform
  check has the state of one of them, none is more severe by the documented precedence, and
  without platform checks the report is unknown.
\<close>

theorem report_most_severe:
  "if \<exists>c \<in> set checks. hc_source c = CheckPlatformProbe
   then (\<exists>c \<in> set checks. hc_source c = CheckPlatformProbe \<and> hr_state (from_checks checks at) = hc_state c) \<and>
     (\<forall>c \<in> set checks. hc_source c = CheckPlatformProbe \<longrightarrow>
        severity (hc_state c) \<le> severity (hr_state (from_checks checks at)))
   else hr_state (from_checks checks at) = HsUnknown"
proof -
  let ?ps = "filter (\<lambda>c. hc_source c = CheckPlatformProbe) checks"
  have st: "hr_state (from_checks checks at) = aggregate_health (map hc_state ?ps)"
    by (simp add: from_checks_eq)
  show ?thesis
  proof (cases "\<exists>c \<in> set checks. hc_source c = CheckPlatformProbe")
    case True
    then have "map hc_state ?ps \<noteq> []" by (auto simp: filter_empty_conv)
    then have "aggregate_health (map hc_state ?ps) \<in> set (map hc_state ?ps)" by (rule aggregate_in)
    then show ?thesis using True aggregate_dominates [of _ "map hc_state ?ps"] by (auto simp: st)
  next
    case False
    then have "?ps = []" by (auto simp: filter_empty_conv)
    with False show ?thesis by (simp add: st aggregate_health_def)
  qed
qed

theorem report_most_severe_witness:
  "hr_state (from_checks [health_check_agent_claim ''tool'' HsHealthy] 0) = HsUnknown"
  using report_most_severe [of "[health_check_agent_claim ''tool'' HsHealthy]" 0]
  by (simp add: health_check_agent_claim_def)

text \<open>
  Agent claims cannot change a report: adding any number of agent-sourced checks anywhere
  leaves state and evidence as they were, each claim is listed as ignored, and a report is
  healthy exactly when there is a platform check and every platform check is healthy.
\<close>

theorem agent_claims_ignored:
  "hr_state (from_checks checks at) =
     hr_state (from_checks (filter (\<lambda>c. hc_source c \<noteq> CheckAgentTool) checks) at) \<and>
   hr_checks (from_checks checks at) = filter (\<lambda>c. hc_source c \<noteq> CheckAgentTool) checks \<and>
   hr_ignored_agent_claims (from_checks checks at) =
     map hc_name (filter (\<lambda>c. hc_source c = CheckAgentTool) checks) \<and>
   (is_healthy (from_checks checks at) \<longleftrightarrow>
     (\<exists>c \<in> set checks. hc_source c = CheckPlatformProbe) \<and>
     \<not> (\<exists>c \<in> set checks. hc_source c = CheckPlatformProbe \<and> hc_state c \<noteq> HsHealthy))"
proof -
  have "hc_source c = CheckPlatformProbe \<longleftrightarrow> hc_source c \<noteq> CheckAgentTool" for c :: health_check
    by (cases "hc_source c") simp_all
  then show ?thesis
    by (auto simp: from_checks_eq is_healthy_def aggregate_healthy_iff filter_empty_conv)
qed

end
