(* ===== verification/Resources.thy ===== *)
theory Resources
  imports Ids Redaction Health
begin

text \<open>
  Resource lifecycle and retry policy of \<open>labrys-core/src/controller.rs\<close>: the phase graph
  (\<open>ResourcePhase\<close>), the audited transitions of a \<open>Resource\<close>, exponential backoff
  (\<open>RetryPolicy::delay_for\<close>) and failure records. Increments of \<open>u32\<close> counters wrap, as they
  do in a release build. \<open>resource_wf\<close> is the invariant of the transition evidence; the
  locale \<open>lifecycle\<close> is interpreted on \<open>observe\<close>.
\<close>

section \<open>Phases\<close>

datatype resource_phase =
    Requested | Provisioning | Ready | Degraded | Failed | Deleting | Deleted

definition resource_phase_is_terminal :: "resource_phase \<Rightarrow> bool" where
  "resource_phase_is_terminal p = (p = Deleted)"

fun resource_can_transition_to :: "resource_phase \<Rightarrow> resource_phase \<Rightarrow> bool" where
  "resource_can_transition_to Requested n = (n \<in> {Provisioning, Failed, Deleting})"
| "resource_can_transition_to Provisioning n = (n \<in> {Ready, Degraded, Failed, Deleting})"
| "resource_can_transition_to Ready n = (n \<in> {Degraded, Failed, Provisioning, Deleting})"
| "resource_can_transition_to Degraded n = (n \<in> {Ready, Failed, Deleting})"
| "resource_can_transition_to Failed n = (n \<in> {Requested, Provisioning, Deleting})"
| "resource_can_transition_to Deleting n = (n = Deleted)"
| "resource_can_transition_to Deleted n = False"

fun resource_phase_health :: "resource_phase \<Rightarrow> health_state" where
  "resource_phase_health Requested = HsProvisioning"
| "resource_phase_health Provisioning = HsProvisioning"
| "resource_phase_health Ready = HsHealthy"
| "resource_phase_health Degraded = HsDegraded"
| "resource_phase_health Failed = HsFailed"
| "resource_phase_health Deleting = HsUnknown"
| "resource_phase_health Deleted = HsUnknown"

fun debug_resource_phase :: "resource_phase \<Rightarrow> string" where
  "debug_resource_phase Requested = ''Requested''"
| "debug_resource_phase Provisioning = ''Provisioning''"
| "debug_resource_phase Ready = ''Ready''"
| "debug_resource_phase Degraded = ''Degraded''"
| "debug_resource_phase Failed = ''Failed''"
| "debug_resource_phase Deleting = ''Deleting''"
| "debug_resource_phase Deleted = ''Deleted''"

datatype observation_source = PlatformProbe | ProviderCallback

record resource_transition =
  rt_from :: resource_phase
  rt_to :: resource_phase
  rt_at :: time
  rt_source :: observation_source
  rt_reason :: "string option"

section \<open>Retry policy\<close>

record retry_policy =
  rp_max_attempts :: u32
  rp_base_delay :: duration
  rp_factor :: u32
  rp_max_delay :: "duration option"

definition retry_policy_default :: retry_policy where
  "retry_policy_default =
     \<lparr>rp_max_attempts = 5, rp_base_delay = 5 * nanos_per_sec, rp_factor = 2,
      rp_max_delay = Some (300 * nanos_per_sec)\<rparr>"

text \<open>The backoff in seconds before it becomes a duration; \<open>attempt\<close> counts from one.\<close>

definition backoff_seconds :: "chrono_api \<Rightarrow> retry_policy \<Rightarrow> u32 \<Rightarrow> int" where
  "backoff_seconds C p attempt =
     (let factor = max (unat (rp_factor p)) 1;
          exponent = unat attempt - 1;
          multiplier = max (min u64_max (factor ^ min exponent 31)) 1
      in saturating_mul_i64 (dur_num_seconds C (max (rp_base_delay p) 0))
           (if int multiplier \<le> i64_max then int multiplier else i64_max))"

text \<open>No value: \<open>Duration::seconds\<close> panicked.\<close>

definition delay_for :: "chrono_api \<Rightarrow> retry_policy \<Rightarrow> u32 \<Rightarrow> duration option" where
  "delay_for C p attempt =
     (case dur_seconds C (backoff_seconds C p attempt) of
        None \<Rightarrow> None
      | Some delay \<Rightarrow>
          (case rp_max_delay p of
             Some cap \<Rightarrow> if delay > cap then Some cap else Some delay
           | None \<Rightarrow> Some delay))"

definition retry_at :: "chrono_api \<Rightarrow> retry_policy \<Rightarrow> u32 \<Rightarrow> time \<Rightarrow> time option" where
  "retry_at C p attempt at = Option.bind (delay_for C p attempt) (time_plus C at)"

section \<open>Resources\<close>

record failure_record =
  fr_reason :: string
  fr_policy :: retry_policy
  fr_attempts :: u32
  fr_next_retry_at :: time

record resource =
  res_id :: resource_id
  res_kind :: string
  res_desired_version :: u64
  res_phase :: resource_phase
  res_generation :: u32
  res_failure :: "failure_record option"
  res_transitions :: "resource_transition list"

definition resource_request :: "uuid \<Rightarrow> string \<Rightarrow> u64 \<Rightarrow> time \<Rightarrow> resource outcome" where
  "resource_request new_uuid kind desired_version at = Ok
     \<lparr>res_id = ResourceId new_uuid, res_kind = kind, res_desired_version = desired_version,
      res_phase = Requested, res_generation = 0, res_failure = None,
      res_transitions =
        [\<lparr>rt_from = Requested, rt_to = Requested, rt_at = at, rt_source = PlatformProbe,
          rt_reason = None\<rparr>]\<rparr>"

definition resource_observe ::
  "resource \<Rightarrow> resource_phase \<Rightarrow> observation_source \<Rightarrow> string option \<Rightarrow> time \<Rightarrow>
     resource \<times> resource_transition outcome" where
  "resource_observe r next source reason at =
     (if \<not> resource_can_transition_to (res_phase r) next
      then (r, Err (Reconciliation (''illegal resource transition '' @
              debug_resource_phase (res_phase r) @ '' -> '' @ debug_resource_phase next @
              '' for resource '' @ resource_id_display (res_id r))))
      else if next = res_phase r
      then (r, Err (Reconciliation (''resource '' @ resource_id_display (res_id r) @
              '' is already in phase '' @ debug_resource_phase next)))
      else let r1 = r\<lparr>res_phase := next\<rparr> in
        if res_transitions r1 = [] then (r1, Panic ''transitions are never empty'')
        else let t = \<lparr>rt_from = rt_to (last (res_transitions r1)), rt_to = next, rt_at = at,
                      rt_source = source, rt_reason = reason\<rparr>
             in (r1\<lparr>res_transitions := res_transitions r1 @ [t]\<rparr>, Ok t))"

definition resource_fail ::
  "chrono_api \<Rightarrow> resource \<Rightarrow> string \<Rightarrow> string list \<Rightarrow> retry_policy \<Rightarrow> time \<Rightarrow> resource \<times> unit outcome" where
  "resource_fail C r reason secrets policy at =
     and_then (resource_observe r Failed ProviderCallback (Some (redact_reason reason secrets)) at)
       (\<lambda>r1 _.
          let attempts = (case res_failure r1 of None \<Rightarrow> 1 | Some f \<Rightarrow> fr_attempts f + 1);
              r2 = r1\<lparr>res_generation := res_generation r1 + 1\<rparr>
          in case retry_at C policy attempts at of
               None \<Rightarrow> (r2, Panic ''duration out of bounds'')
             | Some next_retry_at \<Rightarrow>
                 (r2\<lparr>res_failure := Some
                       \<lparr>fr_reason = redact_reason reason secrets, fr_policy = policy,
                        fr_attempts = attempts, fr_next_retry_at = next_retry_at\<rparr>\<rparr>, Ok ()))"

definition begin_delete :: "resource \<Rightarrow> time \<Rightarrow> resource \<times> unit outcome" where
  "begin_delete r at =
     and_then (resource_observe r Deleting PlatformProbe None at) (\<lambda>r1 _. (r1, Ok ()))"

definition mark_deleted :: "resource \<Rightarrow> time \<Rightarrow> resource \<times> unit outcome" where
  "mark_deleted r at =
     and_then (resource_observe r Deleted ProviderCallback None at)
       (\<lambda>r1 _. (r1\<lparr>res_failure := None\<rparr>, Ok ()))"

definition is_ready :: "resource \<Rightarrow> bool" where
  "is_ready r = (res_phase r = Ready)"

definition is_gone :: "resource \<Rightarrow> bool" where
  "is_gone r = (res_phase r \<in> {Deleting, Deleted})"

definition convergence_version :: "resource \<Rightarrow> u64" where
  "convergence_version r =
     saturating_add_u64 (saturating_mul_u64 (res_desired_version r) 1000) (ucast (res_generation r))"

definition resource_event_detail :: "resource \<Rightarrow> string" where
  "resource_event_detail r =
     ''resource '' @ resource_id_display (res_id r) @ '' ('' @ res_kind r @ '') phase '' @
     debug_resource_phase (res_phase r) @ '' desired v'' @ show_u64 (res_desired_version r) @
     (case res_failure r of
        None \<Rightarrow> ''''
      | Some f \<Rightarrow> '' failure: '' @ fr_reason f @ '' (attempt '' @ show_u32 (fr_attempts f) @ ''/'' @
          show_u32 (rp_max_attempts (fr_policy f)) @ '')'')"

section \<open>Transition evidence\<close>

definition resource_log :: "resource \<Rightarrow> (resource_phase \<times> resource_phase) list" where
  "resource_log r = map (\<lambda>t. (rt_from t, rt_to t)) (res_transitions r)"

definition resource_wf :: "resource \<Rightarrow> bool" where
  "resource_wf r = (resource_log r \<noteq> [] \<and> hd (resource_log r) = (Requested, Requested) \<and>
     snd (last (resource_log r)) = res_phase r \<and> linked_log (resource_log r) \<and>
     legal_log resource_can_transition_to (resource_log r))"

lemma resource_no_self_loop: "\<not> resource_can_transition_to p p"
  by (cases p) simp_all

lemma resource_wf_nonempty [simp]: "resource_wf r \<Longrightarrow> res_transitions r \<noteq> []"
  by (auto simp: resource_wf_def resource_log_def)

lemma resource_wf_last:
  assumes "resource_wf r"
  shows "rt_to (last (res_transitions r)) = res_phase r"
proof -
  have "snd (last (resource_log r)) = res_phase r" using assms unfolding resource_wf_def by blast
  then show ?thesis using resource_wf_nonempty [OF assms] by (simp add: resource_log_def last_map)
qed

lemma resource_observe_illegal:
  "\<not> resource_can_transition_to (res_phase r) p \<Longrightarrow>
    \<exists>m. resource_observe r p src reason at = (r, Err (Reconciliation m))"
  by (simp add: resource_observe_def)

definition next_transition ::
  "resource \<Rightarrow> resource_phase \<Rightarrow> observation_source \<Rightarrow> string option \<Rightarrow> time \<Rightarrow> resource_transition" where
  "next_transition r p src reason at =
     \<lparr>rt_from = rt_to (last (res_transitions r)), rt_to = p, rt_at = at,
      rt_source = src, rt_reason = reason\<rparr>"

lemma resource_observe_legal:
  assumes "resource_can_transition_to (res_phase r) p" "res_transitions r \<noteq> []"
  shows "resource_observe r p src reason at =
    (r\<lparr>res_phase := p, res_transitions := res_transitions r @ [next_transition r p src reason at]\<rparr>,
     Ok (next_transition r p src reason at))"
  using assms resource_no_self_loop by (auto simp: resource_observe_def next_transition_def Let_def)

lemma resource_observe_OkD:
  assumes "resource_observe r p src reason at = (r', Ok t)"
  shows "resource_can_transition_to (res_phase r) p" "res_transitions r \<noteq> []"
    and "r' = r\<lparr>res_phase := p, res_transitions := res_transitions r @ [t]\<rparr>"
    and "t = next_transition r p src reason at"
  using assms by (auto simp: resource_observe_def next_transition_def Let_def split: if_splits)

definition resource_moved :: "resource \<Rightarrow> resource_phase \<Rightarrow> resource \<Rightarrow> bool" where
  "resource_moved r p r' = (\<exists>src reason at t. resource_observe r p src reason at = (r', Ok t))"

interpretation res_life: lifecycle resource_can_transition_to res_phase resource_log resource_moved
proof unfold_locales
  fix r p r'
  assume "resource_moved r p r'"
  then obtain src reason at t where obs: "resource_observe r p src reason at = (r', Ok t)"
    by (auto simp: resource_moved_def)
  note OkD = resource_observe_OkD [OF obs]
  show "resource_can_transition_to (res_phase r) p" by (rule OkD(1))
  show "res_phase r' = p" using OkD(3) by simp
  show "resource_log r \<noteq> [] \<and> resource_log r' = resource_log r @ [(snd (last (resource_log r)), p)]"
    using OkD by (auto simp: resource_log_def next_transition_def last_map)
qed

lemma resource_observe_wf:
  assumes "resource_wf r" "resource_observe r p src reason at = (r', res)"
  shows "resource_wf r'" "\<not> panics res"
proof -
  have "resource_wf r' \<and> \<not> panics res"
  proof (cases "resource_can_transition_to (res_phase r) p")
    case False
    with assms show ?thesis using resource_observe_illegal [OF False, of src reason at] by auto
  next
    case True
    then obtain t where "resource_observe r p src reason at = (r', Ok t)" "res = Ok t"
      using assms by (auto simp: resource_observe_legal)
    then have mv: "resource_moved r p r'" by (auto simp: resource_moved_def)
    have "hd (resource_log r') = hd (resource_log r)"
      using assms(1) res_life.moved_log [OF mv] by (simp add: resource_wf_def)
    with \<open>res = Ok t\<close> show ?thesis
      using assms(1) res_life.moved_wf [OF mv] by (simp add: resource_wf_def)
  qed
  then show "resource_wf r'" "\<not> panics res" by simp_all
qed

text \<open>Fields outside the log are irrelevant to the invariant.\<close>

lemma resource_wf_frame [simp]:
  "resource_wf (r\<lparr>res_failure := f\<rparr>) = resource_wf r"
  "resource_wf (r\<lparr>res_generation := g\<rparr>) = resource_wf r"
  by (simp_all add: resource_wf_def resource_log_def)

section \<open>Operation sequences\<close>

datatype resource_op =
    OpObserve resource_phase observation_source "string option" time
  | OpFail string "string list" retry_policy time
  | OpBeginDelete time
  | OpMarkDeleted time

fun resource_exec :: "chrono_api \<Rightarrow> resource \<Rightarrow> resource_op \<Rightarrow> resource" where
  "resource_exec C r (OpObserve p src reason at) = fst (resource_observe r p src reason at)"
| "resource_exec C r (OpFail reason secrets policy at) = fst (resource_fail C r reason secrets policy at)"
| "resource_exec C r (OpBeginDelete at) = fst (begin_delete r at)"
| "resource_exec C r (OpMarkDeleted at) = fst (mark_deleted r at)"

inductive resource_reachable :: "chrono_api \<Rightarrow> resource \<Rightarrow> bool" for C where
  requested: "resource_request u kind v at = Ok r \<Longrightarrow> resource_reachable C r"
| operated: "resource_reachable C r \<Longrightarrow> resource_reachable C (resource_exec C r oper)"

lemma and_then_fst:
  assumes "Q (fst p)" "\<And>a. snd p = Ok a \<Longrightarrow> Q (fst p) \<Longrightarrow> Q (fst (f (fst p) a))"
  shows "Q (fst (and_then p f))"
proof (cases p)
  case (Pair s res)
  with assms show ?thesis by (cases res) auto
qed

lemma resource_fail_wf: "resource_wf r \<Longrightarrow> resource_wf (fst (resource_fail C r reason secrets policy at))"
  unfolding resource_fail_def
  by (rule and_then_fst)
    (auto simp: Let_def split: option.splits intro: resource_observe_wf(1) prod.collapse [symmetric])

lemma resource_delete_wf:
  "resource_wf r \<Longrightarrow> resource_wf (fst (begin_delete r at))"
  "resource_wf r \<Longrightarrow> resource_wf (fst (mark_deleted r at))"
  unfolding begin_delete_def mark_deleted_def
  by (rule and_then_fst; auto intro: resource_observe_wf(1) prod.collapse [symmetric])+

lemma resource_exec_wf: "resource_wf r \<Longrightarrow> resource_wf (resource_exec C r oper)"
  by (cases oper)
    (auto simp: resource_fail_wf resource_delete_wf intro: resource_observe_wf(1) prod.collapse [symmetric])

lemma resource_request_wf: "resource_request u kind v at = Ok r \<Longrightarrow> resource_wf r"
  by (auto simp: resource_request_def resource_wf_def resource_log_def legal_log_def)

lemma resource_reachable_wf: "resource_reachable C r \<Longrightarrow> resource_wf r"
  by (induction rule: resource_reachable.induct) (auto intro: resource_request_wf resource_exec_wf)

lemma resource_terminal_exec: "res_phase r = Deleted \<Longrightarrow> resource_exec C r oper = r"
proof -
  assume "res_phase r = Deleted"
  then have "\<not> resource_can_transition_to (res_phase r) p" for p by simp
  note err = resource_observe_illegal [OF this]
  show ?thesis
  proof (cases oper)
    case (OpObserve p src reason at)
    with err [of p src reason at] show ?thesis by auto
  next
    case (OpFail reason secrets policy at)
    with err [of Failed ProviderCallback "Some (redact_reason reason secrets)" at] show ?thesis
      by (auto simp: resource_fail_def)
  next
    case (OpBeginDelete at)
    with err [of Deleting PlatformProbe None at] show ?thesis by (auto simp: begin_delete_def)
  next
    case (OpMarkDeleted at)
    with err [of Deleted ProviderCallback None at] show ?thesis by (auto simp: mark_deleted_def)
  qed
qed

section \<open>Backoff\<close>

text \<open>The delay before it is capped, on the values of the policy and with the saturation of the source.\<close>

lemma min_mult_mono:
  fixes a b c :: nat
  shows "a \<le> b \<Longrightarrow> max (min c a) 1 \<le> max (min c b) 1"
  by auto

lemma backoff_mono:
  assumes C: "chrono_laws C" and le: "a \<le> b"
  shows "backoff_seconds C p a \<le> backoff_seconds C p b"
proof -
  define f where "f = max (unat (rp_factor p)) 1"
  define mult where "mult n = max (min u64_max (f ^ min (unat n - 1) 31)) 1" for n :: u32
  define clip where "clip m = (if int m \<le> i64_max then int m else i64_max)" for m
  define base where "base = dur_num_seconds C (max (rp_base_delay p) 0)"
  have "unat a \<le> unat b" using le by (simp add: word_le_nat_alt)
  then have "f ^ min (unat a - 1) 31 \<le> f ^ min (unat b - 1) 31"
    by (intro power_increasing) (auto simp: f_def)
  then have "mult a \<le> mult b" unfolding mult_def by (rule min_mult_mono)
  then have "clip (mult a) \<le> clip (mult b)" by (auto simp: clip_def)
  moreover have "0 \<le> base" unfolding base_def by (rule chrono_laws.num_seconds_nonneg [OF C]) simp
  ultimately have "base * clip (mult a) \<le> base * clip (mult b)" by (rule mult_left_mono)
  then have "saturating_mul_i64 base (clip (mult a)) \<le> saturating_mul_i64 base (clip (mult b))"
    by (auto simp: saturating_mul_i64_def)
  then show ?thesis
    unfolding backoff_seconds_def Let_def f_def mult_def clip_def base_def .
qed

lemma delay_for_max_attempts [simp]: "delay_for C (p\<lparr>rp_max_attempts := n\<rparr>) a = delay_for C p a"
  by (simp add: delay_for_def backoff_seconds_def split: option.split)

lemma backoff_nonneg:
  assumes "chrono_laws C"
  shows "0 \<le> backoff_seconds C p a"
proof -
  define base where "base = dur_num_seconds C (max (rp_base_delay p) 0)"
  have "0 \<le> base" unfolding base_def by (rule chrono_laws.num_seconds_nonneg [OF assms]) simp
  then have "0 \<le> saturating_mul_i64 base m" if "0 \<le> m" for m
    using that mult_nonneg_nonneg [of base m]
    by (simp add: saturating_mul_i64_def i64_max_def le_max_iff_disj)
  then show ?thesis
    unfolding backoff_seconds_def Let_def base_def [symmetric] by (auto simp: i64_max_def)
qed

lemma delay_for_panics_iff:
  assumes "chrono_laws C"
  shows "delay_for C p a = None \<longleftrightarrow> i64_max div 1000 < backoff_seconds C p a"
  using backoff_nonneg [OF assms, of p a]
  by (auto simp: delay_for_def chrono_laws.seconds [OF assms] split: option.splits)

lemma delay_for_Some:
  assumes "chrono_laws C" "delay_for C p a = Some d"
  shows "d = (case rp_max_delay p of
      None \<Rightarrow> backoff_seconds C p a * nanos_per_sec
    | Some cap \<Rightarrow> min cap (backoff_seconds C p a * nanos_per_sec))"
  using assms(2)
  by (auto simp: delay_for_def chrono_laws.seconds [OF assms(1)] split: option.splits if_splits)

lemma saturating_mul_i64_exact:
  "0 \<le> a * b \<Longrightarrow> a * b \<le> i64_max \<Longrightarrow> saturating_mul_i64 a b = a * b"
  by (simp add: saturating_mul_i64_def i64_min_def)

lemma backoff_exact:
  fixes p :: retry_policy and a :: u32
  defines "m \<equiv> max (unat (rp_factor p)) 1 ^ min (unat a - 1) 31"
  assumes "chrono_laws C" "dur_num_seconds C (max (rp_base_delay p) 0) = b"
    and "int m \<le> i64_max" "b * int m \<le> i64_max"
  shows "backoff_seconds C p a = b * int m"
proof -
  have "0 \<le> b" using assms(3) chrono_laws.num_seconds_nonneg [OF assms(2), of "max (rp_base_delay p) 0"] by simp
  have "1 \<le> m" unfolding m_def by (rule one_le_power) simp
  moreover from assms(4) have "m \<le> u64_max" by (simp add: i64_max_def u64_max_def)
  ultimately have "max (min u64_max m) 1 = m" by simp
  then have "backoff_seconds C p a = saturating_mul_i64 b (int m)"
    using assms(3,4) unfolding backoff_seconds_def Let_def m_def by simp
  also have "\<dots> = b * int m"
    using \<open>0 \<le> b\<close> assms(5) by (intro saturating_mul_i64_exact) simp_all
  finally show ?thesis .
qed

lemma backoff_default:
  assumes "chrono_laws C"
  shows "backoff_seconds C retry_policy_default a = 5 * 2 ^ min (unat a - 1) 31"
proof -
  define n where "n = min (unat a - 1) 31"
  have "(2::int) ^ n \<le> 2 ^ 31" by (rule power_increasing) (auto simp: n_def)
  then have le: "(2::int) ^ n \<le> 2147483648" by simp
  have f: "max (unat (rp_factor retry_policy_default)) 1 = 2" by (simp add: retry_policy_default_def)
  have b: "dur_num_seconds C (max (rp_base_delay retry_policy_default) 0) = 5"
    by (simp add: chrono_laws.num_seconds [OF assms] trunc_div_def retry_policy_default_def)
  have "backoff_seconds C retry_policy_default a =
      5 * int (max (unat (rp_factor retry_policy_default)) 1 ^ min (unat a - 1) 31)"
    by (rule backoff_exact [OF assms b]) (use le in \<open>simp_all only: f n_def [symmetric] of_nat_power of_nat_numeral i64_max_def\<close>, simp_all)
  then show ?thesis unfolding f by simp
qed

lemma delay_for_default_value:
  assumes "chrono_laws C"
  shows "delay_for C retry_policy_default a =
    Some (min 300 (5 * 2 ^ min (unat a - 1) 31) * nanos_per_sec)"
proof -
  define b where "b = (5::int) * 2 ^ min (unat a - 1) 31"
  have "(2::int) ^ min (unat a - 1) 31 \<le> 2 ^ 31" by (rule power_increasing) auto
  then have "b \<le> 5 * 2147483648" by (simp add: b_def)
  moreover have "0 \<le> b" by (simp add: b_def)
  moreover have "backoff_seconds C retry_policy_default a = b"
    by (simp add: b_def backoff_default [OF assms])
  moreover have "rp_max_delay retry_policy_default = Some (300 * nanos_per_sec)"
    by (simp add: retry_policy_default_def)
  ultimately have "delay_for C retry_policy_default a = Some (min 300 b * nanos_per_sec)"
    by (simp add: delay_for_def chrono_laws.seconds [OF assms] i64_max_def)
  then show ?thesis by (simp only: b_def)
qed

lemma thousands_inj:
  fixes v w g h :: nat
  shows "g < 1000 \<Longrightarrow> h < 1000 \<Longrightarrow> v * 1000 + g = w * 1000 + h \<longleftrightarrow> v = w \<and> g = h"
proof -
  assume lt: "g < 1000" "h < 1000"
  show ?thesis
  proof
    assume eq: "v * 1000 + g = w * 1000 + h"
    have "(v * 1000 + g) mod 1000 = g" "(w * 1000 + h) mod 1000 = h" using lt by simp_all
    with eq show "v = w \<and> g = h" by simp
  qed simp
qed

lemma resource_requested:
  obtains r where "resource_request u kind v at = Ok r" "res_phase r = Requested"
    "res_failure r = None" "res_desired_version r = v" "res_generation r = 0" "res_transitions r \<noteq> []"
  by (rule that [OF resource_request_def]) simp_all

section \<open>Properties\<close>

text \<open>
  (C21) Transition evidence. A resource obtained by \<open>request\<close> and any sequence of
  observations, failures and deletions, successful or not, has a non-empty transition log that
  starts with its request, whose entries are linked and are edges of the lifecycle graph, and
  that ends in the current phase, which the graph reaches from \<open>Requested\<close>.
\<close>

theorem resource_evidence:
  assumes "resource_reachable C r"
  shows "res_transitions r \<noteq> [] \<and> hd (resource_log r) = (Requested, Requested) \<and>
    linked_log (resource_log r) \<and> legal_log resource_can_transition_to (resource_log r) \<and>
    rt_to (last (res_transitions r)) = res_phase r \<and>
    resource_can_transition_to\<^sup>*\<^sup>* Requested (res_phase r)"
proof -
  have wf: "resource_wf r" by (rule resource_reachable_wf [OF assms])
  then have "resource_can_transition_to\<^sup>*\<^sup>* (snd (hd (resource_log r))) (res_phase r)"
    by (intro res_life.wf_reaches) (simp_all add: resource_wf_def)
  moreover have "hd (resource_log r) = (Requested, Requested)"
    "linked_log (resource_log r)" "legal_log resource_can_transition_to (resource_log r)"
    using wf unfolding resource_wf_def by blast+
  ultimately show ?thesis using resource_wf_nonempty [OF wf] resource_wf_last [OF wf] by simp
qed

theorem resource_evidence_witness:
  "\<exists>r. resource_reachable chrono_ns r \<and> res_phase r = Provisioning \<and>
     legal_log resource_can_transition_to (resource_log r)"
proof -
  obtain r where r: "resource_request ''0a'' ''preview'' 1 0 = Ok r" "res_phase r = Requested"
    "res_transitions r \<noteq> []"
    by (rule resource_requested)
  let ?r = "resource_exec chrono_ns r (OpObserve Provisioning PlatformProbe None 1)"
  have reach: "resource_reachable chrono_ns ?r"
    by (intro resource_reachable.operated resource_reachable.requested [OF r(1)])
  have "res_phase ?r = Provisioning" using r by (simp add: resource_observe_legal)
  then show ?thesis using reach resource_evidence [OF reach] by blast
qed

text \<open>
  Observation, on every branch. A reachable resource accepts an observation exactly when
  the lifecycle graph has the edge; then the phase is the observed one and one transition with
  the given time, source and reason is appended, and nothing else changes. Otherwise the
  resource is untouched and the error is a reconciliation violation. It never panics.
\<close>

theorem resource_observe_total:
  assumes "resource_reachable C r"
  shows "if resource_can_transition_to (res_phase r) p
     then \<exists>t. resource_observe r p src reason at =
            (r\<lparr>res_phase := p, res_transitions := res_transitions r @ [t]\<rparr>, Ok t) \<and>
          rt_from t = res_phase r \<and> rt_to t = p \<and> rt_at t = at \<and> rt_source t = src \<and>
          rt_reason t = reason
     else \<exists>m. resource_observe r p src reason at = (r, Err (Reconciliation m))"
proof (cases "resource_can_transition_to (res_phase r) p")
  case True
  have wf: "resource_wf r" by (rule resource_reachable_wf [OF assms])
  with True resource_wf_last [OF wf] show ?thesis by (simp add: resource_observe_legal next_transition_def)
next
  case False
  then show ?thesis using resource_observe_illegal [OF False] by simp
qed

theorem resource_observe_total_witness:
  "\<exists>r m. resource_reachable chrono_ns r \<and>
     resource_observe r Ready PlatformProbe None 1 = (r, Err (Reconciliation m))"
proof -
  obtain r where r: "resource_request ''0a'' ''preview'' 1 0 = Ok r" "res_phase r = Requested"
    by (rule resource_requested)
  have reach: "resource_reachable chrono_ns r" by (rule resource_reachable.requested [OF r(1)])
  show ?thesis
    using reach resource_observe_total [OF reach, of Ready PlatformProbe None 1] r(2) by auto
qed

text \<open>
  Deletion is final: no operation changes a deleted resource.
\<close>

theorem resource_deleted_final:
  assumes "res_phase r = Deleted"
  shows "resource_exec C r oper = r"
  using resource_terminal_exec [OF assms] .

theorem resource_deleted_final_witness:
  "\<exists>r. res_phase r = Deleted \<and> resource_exec chrono_ns r (OpBeginDelete 7) = r"
proof -
  obtain r :: resource where r: "res_phase r = Deleted" by (metis resource.select_convs(4))
  show ?thesis using r resource_deleted_final [OF r, of chrono_ns "OpBeginDelete 7"] by blast
qed

text \<open>
  A recorded failure. From any phase the graph lets fail, \<open>fail\<close> moves the resource to
  \<open>Failed\<close>, advances its generation and stores a failure record that counts one attempt more
  than the previous record, schedules the retry after the policy's delay, and whose reason and
  transition reason contain none of the given secrets (secrets the marker itself cannot form).
\<close>

theorem resource_fail_records:
  assumes "resource_reachable C r" "chrono_laws C"
    and "resource_can_transition_to (res_phase r) Failed"
    and "delay_for C policy (case res_failure r of None \<Rightarrow> 1 | Some f \<Rightarrow> fr_attempts f + 1) = Some d"
    and "time_plus C at d = Some t" "marker_free q" "q \<in> set secrets"
  shows "\<exists>r' f. resource_fail C r reason secrets policy at = (r', Ok ()) \<and>
      res_phase r' = Failed \<and> res_generation r' = res_generation r + 1 \<and>
      res_failure r' = Some f \<and>
      fr_attempts f = (case res_failure r of None \<Rightarrow> 1 | Some g \<Rightarrow> fr_attempts g + 1) \<and>
      fr_next_retry_at f = at + d \<and> \<not> str_contains (fr_reason f) q \<and>
      rt_reason (last (res_transitions r')) = Some (fr_reason f)"
proof -
  have wf: "resource_wf r" by (rule resource_reachable_wf [OF assms(1)])
  have "t = at + d" by (rule chrono_laws.plus [OF assms(2,5)])
  moreover have "\<not> str_contains (redact_reason reason secrets) q"
    by (rule redact_reason_removes [OF assms(6,7)])
  ultimately show ?thesis using assms(3-5) wf
    by (simp add: resource_fail_def resource_observe_legal retry_at_def Let_def next_transition_def)
qed

theorem resource_fail_records_witness:
  "\<exists>r r' f. resource_reachable chrono_ns r \<and>
     resource_fail chrono_ns r ''password hunter2 refused'' [''hunter2''] retry_policy_default 9 =
       (r', Ok ()) \<and> res_failure r' = Some f \<and> \<not> str_contains (fr_reason f) ''hunter2''"
proof -
  obtain r where r: "resource_request ''0a'' ''preview'' 1 0 = Ok r" "res_phase r = Requested"
    "res_failure r = None"
    by (rule resource_requested)
  have reach: "resource_reachable chrono_ns r" by (rule resource_reachable.requested [OF r(1)])
  have d: "delay_for chrono_ns retry_policy_default 1 = Some (5 * nanos_per_sec)"
    by (simp add: delay_for_default_value [OF chrono_ns.chrono_laws_axioms])
  have m: "marker_free ''hunter2''" by (simp add: marker_free_def) code_simp
  show ?thesis
    using resource_fail_records [OF reach chrono_ns.chrono_laws_axioms, where q = "''hunter2''" and
        policy = retry_policy_default and at = 9 and secrets = "[''hunter2'']" and
        d = "5 * nanos_per_sec" and t = "9 + 5 * nanos_per_sec"
        and reason = "''password hunter2 refused''"] r(2,3) reach d m
    by (auto simp: chrono_ns_def)
qed

lemma saturating_mul_nonneg:
  assumes "0 \<le> (a::int)" "0 \<le> b"
  shows "saturating_mul_i64 a b = min i64_max (a * b)"
  using mult_nonneg_nonneg [OF assms] by (simp add: saturating_mul_i64_def i64_min_def i64_max_def)

text \<open>The two saturations and the conversion between the widths amount to one cut at the largest \<open>i64\<close>.\<close>

lemma backoff_closed:
  fixes p :: retry_policy and a :: u32
  defines "m \<equiv> int (max (unat (rp_factor p)) 1) ^ min (unat a - 1) 31"
  assumes "chrono_laws C"
  shows "backoff_seconds C p a = min i64_max (max (rp_base_delay p) 0 div nanos_per_sec * m)"
proof -
  define k where "k = max (unat (rp_factor p)) 1 ^ min (unat a - 1) 31"
  define base where "base = max (rp_base_delay p) 0 div nanos_per_sec"
  have m: "m = int k" by (simp add: m_def k_def)
  have k: "1 \<le> k" unfolding k_def by (rule one_le_power) simp
  have b: "dur_num_seconds C (max (rp_base_delay p) 0) = base" and b0: "0 \<le> base"
    by (simp_all add: chrono_laws.num_seconds [OF assms(2)] trunc_div_def base_def pos_imp_zdiv_nonneg_iff)
  have clip: "(let M = max (min u64_max k) 1 in if int M \<le> i64_max then int M else i64_max) = min i64_max (int k)"
    using k by (auto simp: Let_def u64_max_def i64_max_def min_def max_def)
  have "backoff_seconds C p a = saturating_mul_i64 base (min i64_max (int k))"
    unfolding clip [symmetric] unfolding backoff_seconds_def Let_def b k_def [symmetric] by (rule refl)
  also have "\<dots> = min i64_max (base * min i64_max (int k))"
    using b0 by (intro saturating_mul_nonneg) (simp_all add: i64_max_def)
  also have "\<dots> = min i64_max (base * int k)"
  proof (cases "base = 0 \<or> int k \<le> i64_max")
    case False
    then have "1 \<le> base" "i64_max < int k" using b0 by auto
    then have "i64_max \<le> base * i64_max" "i64_max \<le> base * int k"
      using mult_mono [of 1 base i64_max i64_max] mult_mono [of 1 base i64_max "int k"] by (auto simp: i64_max_def)
    then show ?thesis using \<open>i64_max < int k\<close> by simp
  qed (auto simp: min_def)
  finally show ?thesis by (simp add: m base_def)
qed

text \<open>
  (C25) Backoff in closed form. Attempt \<open>a\<close> waits the base delay in whole seconds times the factor (at least one) to
  the power \<open>a - 1\<close> (at most 31), cut at the largest \<open>i64\<close> and then by the policy's cap; the computation panics
  exactly when the seconds before the cap exceed what a duration holds; and where it returns, a later
  attempt never waits less than an earlier one.
\<close>

theorem delay_for_exact:
  assumes "chrono_laws C"
  shows "delay_for C p a =
    (let seconds = min i64_max (max (rp_base_delay p) 0 div nanos_per_sec *
           int (max (unat (rp_factor p)) 1) ^ min (unat a - 1) 31)
     in if i64_max div 1000 < seconds then None
        else Some (case rp_max_delay p of
            None \<Rightarrow> seconds * nanos_per_sec | Some cap \<Rightarrow> min cap (seconds * nanos_per_sec))) \<and>
    (a \<le> b \<and> delay_for C p a = Some d \<and> delay_for C p b = Some d' \<longrightarrow> d \<le> d')"
proof
  show "a \<le> b \<and> delay_for C p a = Some d \<and> delay_for C p b = Some d' \<longrightarrow> d \<le> d'"
    using backoff_mono [OF assms, of a b p] delay_for_Some [OF assms, of p a d] delay_for_Some [OF assms, of p b d']
    by (auto split: option.splits simp: min_le_iff_disj)
  show "delay_for C p a =
    (let seconds = min i64_max (max (rp_base_delay p) 0 div nanos_per_sec *
           int (max (unat (rp_factor p)) 1) ^ min (unat a - 1) 31)
     in if i64_max div 1000 < seconds then None
        else Some (case rp_max_delay p of
            None \<Rightarrow> seconds * nanos_per_sec | Some cap \<Rightarrow> min cap (seconds * nanos_per_sec)))"
    using delay_for_panics_iff [OF assms, of p a] delay_for_Some [OF assms, of p a]
    unfolding backoff_closed [OF assms, symmetric] Let_def by (cases "delay_for C p a") auto
qed

theorem delay_for_exact_witness:
  "delay_for chrono_ns retry_policy_default 4 = Some (40 * nanos_per_sec)"
  using delay_for_exact [OF chrono_ns.chrono_laws_axioms, of retry_policy_default 4]
  by (simp add: retry_policy_default_def i64_max_def)

text \<open>
  The default policy in closed form: attempt \<open>n\<close> waits \<open>5 * 2 ^ (n - 1)\<close> seconds, at
  most 300, and the computation returns for every attempt number.
\<close>

theorem delay_for_default:
  assumes "chrono_laws C"
  shows "delay_for C retry_policy_default a =
    Some (min 300 (5 * 2 ^ min (unat a - 1) 31) * nanos_per_sec)"
  by (rule delay_for_default_value [OF assms])

theorem delay_for_default_witness:
  "delay_for chrono_ns retry_policy_default 4 = Some (40 * nanos_per_sec)"
  using delay_for_default [OF chrono_ns.chrono_laws_axioms, of 4] by simp

text \<open>
  Saturation does not prevent a panic: with a base delay of one second and the largest
  factor, the third attempt saturates the product and building the duration fails, whatever
  cap the policy has.
\<close>

theorem delay_for_saturated_panics:
  assumes "chrono_laws C" "rp_base_delay p = nanos_per_sec" "rp_factor p = - 1"
  shows "delay_for C p 3 = None"
proof -
  have "unat (- 1 :: u32) = 4294967295"
    by (simp add: unsigned_minus_1_eq_mask mask_eq_exp_minus_1)
  moreover have "dur_num_seconds C nanos_per_sec = 1"
    by (simp add: chrono_laws.num_seconds [OF assms(1)] trunc_div_def)
  ultimately have "backoff_seconds C p 3 = i64_max"
    by (simp add: backoff_seconds_def assms saturating_mul_i64_def u64_max_def i64_max_def i64_min_def)
  then show ?thesis by (simp add: delay_for_panics_iff [OF assms(1)] i64_max_def)
qed

theorem delay_for_saturated_panics_witness:
  "delay_for chrono_ns \<lparr>rp_max_attempts = 5, rp_base_delay = nanos_per_sec, rp_factor = - 1,
     rp_max_delay = Some (300 * nanos_per_sec)\<rparr> 3 = None"
  by (rule delay_for_saturated_panics [OF chrono_ns.chrono_laws_axioms]) simp_all

text \<open>
  Convergence versions are exact: for generations below 1000 and desired versions that do
  not saturate, the version is the same for two resources exactly when both desired version
  and generation are.
\<close>

theorem convergence_version_injective:
  assumes "unat (res_generation a) < 1000" "unat (res_generation b) < 1000"
    and "unat (res_desired_version a) * 1000 + 999 \<le> u64_max"
    and "unat (res_desired_version b) * 1000 + 999 \<le> u64_max"
  shows "convergence_version a = convergence_version b \<longleftrightarrow>
    res_desired_version a = res_desired_version b \<and> res_generation a = res_generation b"
proof -
  have val: "unat (convergence_version r) = unat (res_desired_version r) * 1000 + unat (res_generation r)"
    if "unat (res_generation r) < 1000" "unat (res_desired_version r) * 1000 + 999 \<le> u64_max" for r
  proof -
    have "unat (ucast (res_generation r) :: u64) = unat (res_generation r)"
      using that(1) by (simp add: unsigned_ucast_eq take_bit_nat_eq_self)
    with that show ?thesis
      by (simp add: convergence_version_def unat_saturating_add_u64 unat_saturating_mul_u64)
  qed
  have "convergence_version a = convergence_version b \<longleftrightarrow>
      unat (res_desired_version a) * 1000 + unat (res_generation a) =
      unat (res_desired_version b) * 1000 + unat (res_generation b)"
    using val [OF assms(1,3)] val [OF assms(2,4)] by (simp add: word_unat_eq_iff)
  also have "\<dots> \<longleftrightarrow> unat (res_desired_version a) = unat (res_desired_version b) \<and>
      unat (res_generation a) = unat (res_generation b)"
    by (rule thousands_inj [OF assms(1,2)])
  finally show ?thesis by (simp add: word_unat_eq_iff)
qed

theorem convergence_version_injective_witness:
  "\<exists>a b. res_desired_version a = res_desired_version b \<and> res_generation a \<noteq> res_generation b \<and>
     convergence_version a \<noteq> convergence_version b"
proof -
  obtain r where r: "resource_request ''0a'' ''preview'' 1 0 = Ok r" "res_desired_version r = 1"
    "res_generation r = 0"
    by (rule resource_requested)
  then show ?thesis
    using convergence_version_injective [of r "r\<lparr>res_generation := 1\<rparr>"]
    by (intro exI [of _ r] exI [of _ "r\<lparr>res_generation := 1\<rparr>"]) (simp add: u64_max_def)
qed

end
