(* ===== verification/Job_Queue.thy ===== *)
theory Job_Queue
  imports Resources "HOL-Library.Product_Lexorder"
begin

text \<open>
  The idempotent job queue of \<open>labrys-core/src/controller.rs\<close> (\<open>JobAction\<close>,
  \<open>IdempotencyKey\<close>, \<open>Job\<close>, \<open>JobQueue\<close>). The queue is a \<open>BTreeMap\<close> from printed job
  identifiers to jobs; \<open>JobId::new\<close> is the first argument of \<open>enqueue\<close>. \<open>queue_wf\<close> is the
  invariant: every job is stored under its own identifier and no two jobs in flight share an
  idempotency key. \<open>budget_ok\<close> bounds the attempts of every job.
\<close>

section \<open>Jobs\<close>

datatype job_action = ActProvision | ActUpdate | ActRollout | ActVerify | ActDelete

fun job_action_as_str :: "job_action \<Rightarrow> string" where
  "job_action_as_str ActProvision = ''provision''"
| "job_action_as_str ActUpdate = ''update''"
| "job_action_as_str ActRollout = ''rollout''"
| "job_action_as_str ActVerify = ''verify''"
| "job_action_as_str ActDelete = ''delete''"

datatype idempotency_key = IdempotencyKey string

definition idempotency_key_new :: "string \<Rightarrow> job_action \<Rightarrow> u64 \<Rightarrow> idempotency_key" where
  "idempotency_key_new target action version =
     IdempotencyKey (target @ '':'' @ job_action_as_str action @ '':v'' @ show_u64 version)"

datatype job_status = Queued | Paused | Running | Succeeded | Dead

definition is_in_flight :: "job_status \<Rightarrow> bool" where
  "is_in_flight s = (s \<in> {Queued, Paused, Running})"

fun debug_job_status :: "job_status \<Rightarrow> string" where
  "debug_job_status Queued = ''Queued''"
| "debug_job_status Paused = ''Paused''"
| "debug_job_status Running = ''Running''"
| "debug_job_status Succeeded = ''Succeeded''"
| "debug_job_status Dead = ''Dead''"

record job =
  job_ident :: job_id
  job_target :: string
  job_act :: job_action
  job_key :: idempotency_key
  job_state :: job_status
  job_attempts :: u32
  job_policy :: retry_policy
  job_next_attempt_at :: time
  job_last_error :: "string option"
  job_enqueued_at :: time
  job_updated_at :: time

datatype enqueue_outcome = Enqueued job_id | Duplicate job_id

record job_queue =
  jq_jobs :: "(string, job) btree_map"

section \<open>Operations\<close>

definition job_queue_new :: job_queue where
  "job_queue_new = \<lparr>jq_jobs = []\<rparr>"

definition job_queue_get :: "job_queue \<Rightarrow> job_id \<Rightarrow> job option" where
  "job_queue_get q i = btm_get (jq_jobs q) (job_id_display i)"

definition job_queue_jobs :: "job_queue \<Rightarrow> job list" where
  "job_queue_jobs q = btm_values (jq_jobs q)"

text \<open>A write through \<open>get_mut\<close>, or the insertion of a new job, under the job's identifier.\<close>

definition store_job :: "job_queue \<Rightarrow> job \<Rightarrow> job_queue" where
  "store_job q j = q\<lparr>jq_jobs := btm_insert (job_id_display (job_ident j)) j (jq_jobs q)\<rparr>"

definition new_job ::
  "uuid \<Rightarrow> string \<Rightarrow> job_action \<Rightarrow> u64 \<Rightarrow> retry_policy \<Rightarrow> time \<Rightarrow> job" where
  "new_job new_uuid target action version policy at =
     \<lparr>job_ident = JobId new_uuid, job_target = target, job_act = action,
      job_key = idempotency_key_new target action version, job_state = Queued,
      job_attempts = 0, job_policy = policy, job_next_attempt_at = at, job_last_error = None,
      job_enqueued_at = at, job_updated_at = at\<rparr>"

definition enqueue ::
  "uuid \<Rightarrow> job_queue \<Rightarrow> string \<Rightarrow> job_action \<Rightarrow> u64 \<Rightarrow> retry_policy \<Rightarrow> time \<Rightarrow>
     job_queue \<times> enqueue_outcome" where
  "enqueue new_uuid q target action version policy at =
     (let key = idempotency_key_new target action version in
      case find (\<lambda>j. job_key j = key \<and> is_in_flight (job_state j)) (job_queue_jobs q) of
        Some existing \<Rightarrow> (q, Duplicate (job_ident existing))
      | None \<Rightarrow>
          let job = new_job new_uuid target action version policy at
          in (store_job q job, Enqueued (job_ident job)))"

definition claimable :: "time \<Rightarrow> job \<Rightarrow> bool" where
  "claimable now j = (job_state j = Queued \<and> job_next_attempt_at j \<le> now)"

definition claim_next :: "job_queue \<Rightarrow> time \<Rightarrow> job_queue \<times> job_id option outcome" where
  "claim_next q now =
     (case min_by_key (\<lambda>j. (job_next_attempt_at j, job_enqueued_at j))
             (filter (claimable now) (job_queue_jobs q)) of
        None \<Rightarrow> (q, Ok None)
      | Some candidate \<Rightarrow>
          (case job_queue_get q (job_ident candidate) of
             None \<Rightarrow> (q, Panic ''candidate came from the map'')
           | Some job \<Rightarrow>
               (store_job q (job\<lparr>job_state := Running, job_attempts := job_attempts job + 1,
                                 job_updated_at := now\<rparr>),
                Ok (Some (job_ident candidate)))))"

definition running_job :: "job_queue \<Rightarrow> job_id \<Rightarrow> job outcome" where
  "running_job q i =
     (case job_queue_get q i of
        None \<Rightarrow> Err (NotFound (''job '' @ job_id_display i))
      | Some job \<Rightarrow>
          if job_state job \<noteq> Running
          then Err (Reconciliation (''job '' @ job_id_display i @ '' is not running ('' @
                 debug_job_status (job_state job) @ '')''))
          else Ok job)"

definition job_complete :: "job_queue \<Rightarrow> job_id \<Rightarrow> time \<Rightarrow> job_queue \<times> unit outcome" where
  "job_complete q i now =
     (case running_job q i of
        Ok job \<Rightarrow> (store_job q (job\<lparr>job_state := Succeeded, job_last_error := None,
                                    job_updated_at := now\<rparr>), Ok ())
      | Err e \<Rightarrow> (q, Err e)
      | Panic m \<Rightarrow> (q, Panic m))"

definition job_fail ::
  "chrono_api \<Rightarrow> job_queue \<Rightarrow> job_id \<Rightarrow> string \<Rightarrow> time \<Rightarrow> job_queue \<times> job_status outcome" where
  "job_fail C q i error now =
     (case running_job q i of
        Err e \<Rightarrow> (q, Err e)
      | Panic m \<Rightarrow> (q, Panic m)
      | Ok job \<Rightarrow>
          (case delay_for C (job_policy job) (max (job_attempts job) 1) of
             None \<Rightarrow> (q, Panic ''duration out of bounds'')
           | Some delay \<Rightarrow>
               let job1 = job\<lparr>job_last_error := Some (redact_reason error []), job_updated_at := now\<rparr>
               in if job_attempts job \<ge> rp_max_attempts (job_policy job)
                  then (store_job q (job1\<lparr>job_state := Dead\<rparr>), Ok Dead)
                  else (case time_plus C now delay of
                          None \<Rightarrow> (store_job q job1, Panic ''time out of bounds'')
                        | Some t \<Rightarrow>
                            (store_job q (job1\<lparr>job_next_attempt_at := t, job_state := Queued\<rparr>),
                             Ok Queued))))"

definition job_pause :: "job_queue \<Rightarrow> job_id \<Rightarrow> time \<Rightarrow> job_queue \<times> unit outcome" where
  "job_pause q i now =
     (case job_queue_get q i of
        None \<Rightarrow> (q, Err (NotFound (''job '' @ job_id_display i)))
      | Some job \<Rightarrow>
          if job_state job \<noteq> Queued
          then (q, Err (Reconciliation (''only queued jobs can be paused, job '' @ job_id_display i @
                 '' is '' @ debug_job_status (job_state job))))
          else (store_job q (job\<lparr>job_state := Paused, job_updated_at := now\<rparr>), Ok ()))"

definition job_resume :: "job_queue \<Rightarrow> job_id \<Rightarrow> time \<Rightarrow> job_queue \<times> unit outcome" where
  "job_resume q i now =
     (case job_queue_get q i of
        None \<Rightarrow> (q, Err (NotFound (''job '' @ job_id_display i)))
      | Some job \<Rightarrow>
          if job_state job \<noteq> Paused
          then (q, Err (Reconciliation (''only paused jobs can be resumed, job '' @ job_id_display i @
                 '' is '' @ debug_job_status (job_state job))))
          else (store_job q (job\<lparr>job_state := Queued, job_next_attempt_at := now,
                                 job_updated_at := now\<rparr>), Ok ()))"

definition job_requeue :: "job_queue \<Rightarrow> job_id \<Rightarrow> time \<Rightarrow> job_queue \<times> unit outcome" where
  "job_requeue q i now =
     (case job_queue_get q i of
        None \<Rightarrow> (q, Err (NotFound (''job '' @ job_id_display i)))
      | Some job \<Rightarrow>
          if job_state job \<noteq> Dead
          then (q, Err (Reconciliation (''only dead jobs can be requeued, job '' @ job_id_display i @
                 '' is '' @ debug_job_status (job_state job))))
          else (store_job q (job\<lparr>job_state := Queued, job_attempts := 0,
                                 job_next_attempt_at := now, job_updated_at := now\<rparr>), Ok ()))"

definition dead_letters :: "job_queue \<Rightarrow> job_id list" where
  "dead_letters q = map job_ident (filter (\<lambda>j. job_state j = Dead) (job_queue_jobs q))"

definition is_quiet :: "job_queue \<Rightarrow> bool" where
  "is_quiet q = list_all (\<lambda>j. \<not> is_in_flight (job_state j)) (job_queue_jobs q)"

section \<open>The store\<close>

abbreviation job_store_key :: "job \<Rightarrow> string" where
  "job_store_key j \<equiv> job_id_display (job_ident j)"

interpretation job_store: keyed_store "[] :: (string, job) btree_map" btm_get btm_insert
  btm_values btm_inv job_store_key
  by unfold_locales

definition well_keyed :: "job_queue \<Rightarrow> bool" where
  "well_keyed q = (btm_inv (jq_jobs q) \<and>
     (\<forall>k j. btm_get (jq_jobs q) k = Some j \<longrightarrow> job_store_key j = k))"

lemma well_keyedD:
  assumes "well_keyed q"
  shows "btm_inv (jq_jobs q)" "\<And>k j. btm_get (jq_jobs q) k = Some j \<Longrightarrow> job_store_key j = k"
  using assms by (auto simp: well_keyed_def)

lemma well_keyed_new [simp]: "well_keyed job_queue_new"
  by (simp add: well_keyed_def job_queue_new_def btm_inv_def btm_get_def)

lemma jobs_new [simp]: "job_queue_jobs job_queue_new = []"
  by (simp add: job_queue_jobs_def job_queue_new_def btm_values_def)

lemma well_keyed_store:
  assumes "well_keyed q"
  shows "well_keyed (store_job q j)"
proof -
  have "job_store_key x = k" if "btm_get (btm_insert (job_store_key j) j (jq_jobs q)) k = Some x" for k x
    using job_store.keyed_put [OF well_keyedD(1) [OF assms] well_keyedD(2) [OF assms] that] .
  then show ?thesis
    using btm_inv_insert [OF well_keyedD(1) [OF assms]] by (simp add: well_keyed_def store_job_def)
qed

lemma jobs_store:
  assumes "well_keyed q"
  shows "x \<in> set (job_queue_jobs (store_job q j)) \<longleftrightarrow>
     x = j \<or> (x \<in> set (job_queue_jobs q) \<and> job_ident x \<noteq> job_ident j)"
  using job_store.keyed_vals_put [OF well_keyedD(1) [OF assms] well_keyedD(2) [OF assms], where v = x and x = j]
  by (simp add: job_queue_jobs_def store_job_def)

lemma get_in_jobs:
  assumes "well_keyed q"
  shows "job_queue_get q i = Some j \<longleftrightarrow> j \<in> set (job_queue_jobs q) \<and> job_ident j = i"
proof -
  have "j \<in> set (job_queue_jobs q) \<longleftrightarrow> btm_get (jq_jobs q) (job_store_key j) = Some j"
    using job_store.keyed_vals [OF well_keyedD(1) [OF assms] well_keyedD(2) [OF assms], where v = j]
    by (simp add: job_queue_jobs_def)
  moreover have "job_ident j = i" if "btm_get (jq_jobs q) (job_id_display i) = Some j"
    using well_keyedD(2) [OF assms that] by simp
  ultimately show ?thesis by (auto simp: job_queue_get_def)
qed

lemma get_store:
  "job_queue_get (store_job q j) i = (if i = job_ident j then Some j else job_queue_get q i)"
  by (simp add: job_queue_get_def store_job_def btm_get_insert)

section \<open>The state machine of one job\<close>

text \<open>
  What a queue operation may do to a stored job. \<open>aborted\<close> is the failure whose retry time
  leaves the calendar: the panic comes after the error text was written.
\<close>

inductive job_step :: "chrono_api \<Rightarrow> job \<Rightarrow> job \<Rightarrow> bool" for C where
  claimed: "claimable now j \<Longrightarrow>
    job_step C j (j\<lparr>job_state := Running, job_attempts := job_attempts j + 1, job_updated_at := now\<rparr>)"
| completed: "job_state j = Running \<Longrightarrow>
    job_step C j (j\<lparr>job_state := Succeeded, job_last_error := None, job_updated_at := now\<rparr>)"
| gave_up: "job_state j = Running \<Longrightarrow> job_attempts j \<ge> rp_max_attempts (job_policy j) \<Longrightarrow>
    job_step C j (j\<lparr>job_last_error := Some e, job_updated_at := now, job_state := Dead\<rparr>)"
| retried: "job_state j = Running \<Longrightarrow> job_attempts j < rp_max_attempts (job_policy j) \<Longrightarrow>
    delay_for C (job_policy j) (max (job_attempts j) 1) = Some d \<Longrightarrow> time_plus C now d = Some t \<Longrightarrow>
    job_step C j (j\<lparr>job_last_error := Some e, job_updated_at := now, job_next_attempt_at := t,
                    job_state := Queued\<rparr>)"
| aborted: "job_state j = Running \<Longrightarrow>
    job_step C j (j\<lparr>job_last_error := Some e, job_updated_at := now\<rparr>)"
| paused: "job_state j = Queued \<Longrightarrow> job_step C j (j\<lparr>job_state := Paused, job_updated_at := now\<rparr>)"
| resumed: "job_state j = Paused \<Longrightarrow>
    job_step C j (j\<lparr>job_state := Queued, job_next_attempt_at := now, job_updated_at := now\<rparr>)"
| requeued: "job_state j = Dead \<Longrightarrow>
    job_step C j (j\<lparr>job_state := Queued, job_attempts := 0, job_next_attempt_at := now,
                    job_updated_at := now\<rparr>)"

lemma job_step_frame:
  "job_step C j j' \<Longrightarrow> job_ident j' = job_ident j \<and> job_key j' = job_key j \<and>
    job_policy j' = job_policy j \<and> job_target j' = job_target j \<and> job_act j' = job_act j \<and>
    job_enqueued_at j' = job_enqueued_at j"
  by (induction rule: job_step.induct) simp_all

lemma job_step_in_flight:
  "job_step C j j' \<Longrightarrow> is_in_flight (job_state j') \<Longrightarrow> is_in_flight (job_state j) \<or> job_state j = Dead"
  by (induction rule: job_step.induct) (simp_all add: is_in_flight_def claimable_def)

lemma job_step_succeeded: "job_step C j j' \<Longrightarrow> job_state j \<noteq> Succeeded"
  by (induction rule: job_step.induct) (simp_all add: claimable_def)

text \<open>The attempt budget: the last attempt is the one that reaches the policy's limit.\<close>

definition budget_ok :: "job \<Rightarrow> bool" where
  "budget_ok j = (job_attempts j \<le> max 1 (rp_max_attempts (job_policy j)) \<and>
     (job_state j \<in> {Queued, Paused} \<longrightarrow>
        job_attempts j = 0 \<or> job_attempts j < rp_max_attempts (job_policy j)))"

lemma u32_Suc_le: "(a :: u32) < b \<Longrightarrow> a + 1 \<le> b"
  using inc_le by blast

lemma job_step_budget: "job_step C j j' \<Longrightarrow> budget_ok j \<Longrightarrow> budget_ok j'"
proof (induction rule: job_step.induct)
  case (claimed now j)
  then have "job_attempts j = 0 \<or> job_attempts j < rp_max_attempts (job_policy j)"
    by (simp add: budget_ok_def claimable_def)
  then have "job_attempts j + 1 \<le> max 1 (rp_max_attempts (job_policy j))"
    using u32_Suc_le [of "job_attempts j" "rp_max_attempts (job_policy j)"]
    by (auto simp: le_max_iff_disj)
  then show ?case by (simp add: budget_ok_def)
qed (simp_all add: budget_ok_def)

section \<open>Every operation is a job step\<close>

definition queue_delta :: "chrono_api \<Rightarrow> job_queue \<Rightarrow> job_queue \<Rightarrow> bool" where
  "queue_delta C q q' = (q' = q \<or>
     (\<exists>j \<in> set (job_queue_jobs q). \<exists>j'. job_step C j j' \<and> q' = store_job q j'))"

lemma queue_delta_storeI:
  "well_keyed q \<Longrightarrow> job_queue_get q i = Some j \<Longrightarrow> job_step C j j' \<Longrightarrow> queue_delta C q (store_job q j')"
  using get_in_jobs [of q i j] by (auto simp: queue_delta_def)

lemma queue_delta_refl [simp]: "queue_delta C q q"
  by (simp add: queue_delta_def)

lemma running_job_cases:
  "running_job q i = (case job_queue_get q i of
      None \<Rightarrow> Err (NotFound (''job '' @ job_id_display i))
    | Some j \<Rightarrow> if job_state j = Running then Ok j else
        Err (Reconciliation (''job '' @ job_id_display i @ '' is not running ('' @
                 debug_job_status (job_state j) @ '')'')))"
  by (simp add: running_job_def split: option.splits)

lemma claim_candidate:
  assumes "well_keyed q"
    and "min_by_key (\<lambda>j. (job_next_attempt_at j, job_enqueued_at j))
           (filter (claimable now) (job_queue_jobs q)) = Some c"
  shows "c \<in> set (job_queue_jobs q)" "claimable now c" "job_queue_get q (job_ident c) = Some c"
    and "\<And>j. j \<in> set (job_queue_jobs q) \<Longrightarrow> claimable now j \<Longrightarrow>
      (job_next_attempt_at c, job_enqueued_at c) \<le> (job_next_attempt_at j, job_enqueued_at j)"
  using min_by_key_Some [OF assms(2)] get_in_jobs [OF assms(1)] by auto

lemma claim_next_delta:
  assumes "well_keyed q"
  shows "queue_delta C q (fst (claim_next q now))" "\<not> panics (snd (claim_next q now))"
proof -
  have "queue_delta C q (fst (claim_next q now)) \<and> \<not> panics (snd (claim_next q now))"
  proof (cases "min_by_key (\<lambda>j. (job_next_attempt_at j, job_enqueued_at j))
           (filter (claimable now) (job_queue_jobs q))")
    case None
    then show ?thesis by (simp add: claim_next_def)
  next
    case (Some c)
    note cand = claim_candidate [OF assms Some]
    then show ?thesis
      using queue_delta_storeI [OF assms cand(3) job_step.claimed [OF cand(2)]]
      by (simp add: claim_next_def Some)
  qed
  then show "queue_delta C q (fst (claim_next q now))" "\<not> panics (snd (claim_next q now))"
    by simp_all
qed

lemma job_complete_delta: "well_keyed q \<Longrightarrow> queue_delta C q (fst (job_complete q i now))"
  by (auto simp: job_complete_def running_job_cases split: option.splits
      intro: queue_delta_storeI job_step.completed)

lemma job_fail_delta: "well_keyed q \<Longrightarrow> queue_delta C q (fst (job_fail C q i e now))"
  by (auto simp: job_fail_def running_job_cases Let_def not_le split: option.splits if_splits
      intro: queue_delta_storeI job_step.gave_up job_step.retried job_step.aborted)

lemma job_pause_delta: "well_keyed q \<Longrightarrow> queue_delta C q (fst (job_pause q i now))"
  by (auto simp: job_pause_def split: option.splits intro: queue_delta_storeI job_step.paused)

lemma job_resume_delta: "well_keyed q \<Longrightarrow> queue_delta C q (fst (job_resume q i now))"
  by (auto simp: job_resume_def split: option.splits intro: queue_delta_storeI job_step.resumed)

lemma job_requeue_delta: "well_keyed q \<Longrightarrow> queue_delta C q (fst (job_requeue q i now))"
  by (auto simp: job_requeue_def split: option.splits intro: queue_delta_storeI job_step.requeued)

lemmas queue_deltas =
  claim_next_delta(1) job_complete_delta job_fail_delta job_pause_delta job_resume_delta
  job_requeue_delta

lemma queue_delta_well_keyed: "well_keyed q \<Longrightarrow> queue_delta C q q' \<Longrightarrow> well_keyed q'"
  by (auto simp: queue_delta_def well_keyed_store)

section \<open>Operation sequences\<close>

datatype queue_op =
    QEnqueue uuid string job_action u64 retry_policy time
  | QClaim time
  | QComplete job_id time
  | QFail job_id string time
  | QPause job_id time
  | QResume job_id time
  | QRequeue job_id time

fun queue_exec :: "chrono_api \<Rightarrow> job_queue \<Rightarrow> queue_op \<Rightarrow> job_queue" where
  "queue_exec C q (QEnqueue u target action version policy at) =
     fst (enqueue u q target action version policy at)"
| "queue_exec C q (QClaim now) = fst (claim_next q now)"
| "queue_exec C q (QComplete i now) = fst (job_complete q i now)"
| "queue_exec C q (QFail i e now) = fst (job_fail C q i e now)"
| "queue_exec C q (QPause i now) = fst (job_pause q i now)"
| "queue_exec C q (QResume i now) = fst (job_resume q i now)"
| "queue_exec C q (QRequeue i now) = fst (job_requeue q i now)"

fun queue_run :: "chrono_api \<Rightarrow> job_queue \<Rightarrow> queue_op list \<Rightarrow> job_queue" where
  "queue_run C q [] = q"
| "queue_run C q (x # xs) = queue_run C (queue_exec C q x) xs"

text \<open>
  The environment of the queue: \<open>Uuid::new_v4\<close> returns an identifier not in use, and a dead
  job is requeued only while no job with its key is in flight (the source does not check it).
\<close>

fun admissible :: "job_queue \<Rightarrow> queue_op \<Rightarrow> bool" where
  "admissible q (QEnqueue u target action version policy at) = (job_queue_get q (JobId u) = None)"
| "admissible q (QRequeue i now) =
     (case job_queue_get q i of
        None \<Rightarrow> True
      | Some j \<Rightarrow> list_all (\<lambda>x. job_key x = job_key j \<longrightarrow> \<not> is_in_flight (job_state x)) (job_queue_jobs q))"
| "admissible q _ = True"

fun admissible_run :: "chrono_api \<Rightarrow> job_queue \<Rightarrow> queue_op list \<Rightarrow> bool" where
  "admissible_run C q [] = True"
| "admissible_run C q (x # xs) = (admissible q x \<and> admissible_run C (queue_exec C q x) xs)"

definition unique_in_flight :: "job_queue \<Rightarrow> bool" where
  "unique_in_flight q = (\<forall>a \<in> set (job_queue_jobs q). \<forall>b \<in> set (job_queue_jobs q).
     job_key a = job_key b \<longrightarrow> is_in_flight (job_state a) \<longrightarrow> is_in_flight (job_state b) \<longrightarrow> a = b)"

definition queue_wf :: "job_queue \<Rightarrow> bool" where
  "queue_wf q = (well_keyed q \<and> unique_in_flight q)"

lemma well_keyed_unique:
  "well_keyed q \<Longrightarrow> a \<in> set (job_queue_jobs q) \<Longrightarrow> b \<in> set (job_queue_jobs q) \<Longrightarrow>
    job_ident a = job_ident b \<Longrightarrow> a = b"
  using get_in_jobs [of q "job_ident a"] by (metis option.inject)

text \<open>Storing a job keeps uniqueness when no other job in flight has its key.\<close>

lemma unique_store:
  assumes "well_keyed q" "unique_in_flight q"
    and "is_in_flight (job_state j) \<Longrightarrow> \<forall>x \<in> set (job_queue_jobs q).
      job_ident x \<noteq> job_ident j \<longrightarrow> job_key x = job_key j \<longrightarrow> \<not> is_in_flight (job_state x)"
  shows "unique_in_flight (store_job q j)"
  unfolding unique_in_flight_def
proof (intro ballI impI)
  fix a b
  assume a: "a \<in> set (job_queue_jobs (store_job q j))" and b: "b \<in> set (job_queue_jobs (store_job q j))"
    and k: "job_key a = job_key b" "is_in_flight (job_state a)" "is_in_flight (job_state b)"
  note split = a [unfolded jobs_store [OF assms(1)]] b [unfolded jobs_store [OF assms(1)]]
  consider "a = j" "b = j" | "a = j" "b \<noteq> j" | "a \<noteq> j" "b = j" | "a \<noteq> j" "b \<noteq> j" by blast
  then show "a = b"
  proof cases
    case 1
    then show ?thesis by simp
  next
    case 2
    with split k assms(3) show ?thesis by metis
  next
    case 3
    with split k assms(3) show ?thesis by metis
  next
    case 4
    with split k assms(2) show ?thesis by (auto simp: unique_in_flight_def)
  qed
qed

lemma unique_in_flightD:
  "unique_in_flight q \<Longrightarrow> a \<in> set (job_queue_jobs q) \<Longrightarrow> b \<in> set (job_queue_jobs q) \<Longrightarrow>
    job_key a = job_key b \<Longrightarrow> is_in_flight (job_state a) \<Longrightarrow> is_in_flight (job_state b) \<Longrightarrow> a = b"
  by (auto simp: unique_in_flight_def)

lemma unique_step:
  assumes "well_keyed q" "unique_in_flight q" "j \<in> set (job_queue_jobs q)" "job_step C j j'"
    and "job_state j = Dead \<Longrightarrow>
      \<forall>x \<in> set (job_queue_jobs q). job_key x = job_key j \<longrightarrow> \<not> is_in_flight (job_state x)"
  shows "unique_in_flight (store_job q j')"
proof (rule unique_store [OF assms(1,2)], intro ballI impI)
  fix x
  assume fl: "is_in_flight (job_state j')" and x: "x \<in> set (job_queue_jobs q)"
    and ne: "job_ident x \<noteq> job_ident j'" and k: "job_key x = job_key j'"
  have fr: "job_ident j' = job_ident j" "job_key j' = job_key j"
    using job_step_frame [OF assms(4)] by simp_all
  show "\<not> is_in_flight (job_state x)"
  proof
    assume "is_in_flight (job_state x)"
    then have "job_state j \<noteq> Dead" using assms(5) x k fr by auto
    then have "is_in_flight (job_state j)" using job_step_in_flight [OF assms(4) fl] by blast
    then have "x = j" using unique_in_flightD [OF assms(2) x assms(3)] k fr \<open>is_in_flight (job_state x)\<close> by simp
    with ne fr show False by simp
  qed
qed

lemma enqueue_cases:
  fixes target action version
  defines "key \<equiv> idempotency_key_new target action version"
  obtains (duplicate) x where "x \<in> set (job_queue_jobs q)" "job_key x = key" "is_in_flight (job_state x)"
      "enqueue u q target action version policy at = (q, Duplicate (job_ident x))"
    | (fresh) "\<forall>x \<in> set (job_queue_jobs q). job_key x = key \<longrightarrow> \<not> is_in_flight (job_state x)"
      "enqueue u q target action version policy at =
         (store_job q (new_job u target action version policy at), Enqueued (JobId u))"
proof (cases "find (\<lambda>j. job_key j = key \<and> is_in_flight (job_state j)) (job_queue_jobs q)")
  case None
  then have "\<forall>x \<in> set (job_queue_jobs q). job_key x = key \<longrightarrow> \<not> is_in_flight (job_state x)"
    by (auto simp: find_None_iff)
  moreover have "enqueue u q target action version policy at =
      (store_job q (new_job u target action version policy at), Enqueued (JobId u))"
    using None by (simp add: enqueue_def key_def Let_def new_job_def)
  ultimately show thesis by (rule fresh)
next
  case (Some x)
  then have "x \<in> set (job_queue_jobs q)" "job_key x = key" "is_in_flight (job_state x)"
    by (auto simp: find_Some_iff)
  moreover have "enqueue u q target action version policy at = (q, Duplicate (job_ident x))"
    using Some by (simp add: enqueue_def key_def Let_def)
  ultimately show thesis by (rule duplicate)
qed

lemma new_job_sel [simp]:
  "job_ident (new_job u t a v p at) = JobId u" "job_key (new_job u t a v p at) = idempotency_key_new t a v"
  "job_state (new_job u t a v p at) = Queued" "job_attempts (new_job u t a v p at) = 0"
  "job_policy (new_job u t a v p at) = p" "job_next_attempt_at (new_job u t a v p at) = at"
  by (simp_all add: new_job_def)

lemma queue_exec_delta:
  assumes "well_keyed q"
  shows "queue_delta C q (queue_exec C q x) \<or>
    (\<exists>u t a v p at. x = QEnqueue u t a v p at \<and> queue_exec C q x = store_job q (new_job u t a v p at))"
proof (cases x)
  case (QEnqueue u t a v p at)
  show ?thesis
    by (rule enqueue_cases [of q t a v u p at]) (simp_all add: QEnqueue)
qed (simp_all add: queue_deltas [OF assms])

lemma queue_exec_well_keyed: "well_keyed q \<Longrightarrow> well_keyed (queue_exec C q x)"
  using queue_exec_delta [of q C x] queue_delta_well_keyed [of q C] well_keyed_store by metis

lemma queue_exec_unique:
  assumes "queue_wf q" "admissible q x"
  shows "unique_in_flight (queue_exec C q x)"
proof -
  have wk: "well_keyed q" and un: "unique_in_flight q" using assms(1) by (simp_all add: queue_wf_def)
  show ?thesis
  proof (cases x)
    case (QEnqueue u t a v p at)
    show ?thesis
    proof (rule enqueue_cases [of q t a v u p at])
      fix y
      assume "enqueue u q t a v p at = (q, Duplicate (job_ident y))"
      then show ?thesis using un by (simp add: QEnqueue)
    next
      assume "\<forall>x \<in> set (job_queue_jobs q). job_key x = idempotency_key_new t a v \<longrightarrow> \<not> is_in_flight (job_state x)"
        "enqueue u q t a v p at = (store_job q (new_job u t a v p at), Enqueued (JobId u))"
      then show ?thesis using unique_store [OF wk un, of "new_job u t a v p at"] by (simp add: QEnqueue)
    qed
  next
    case (QRequeue i now)
    show ?thesis
    proof (cases "job_queue_get q i")
      case (Some j)
      then have j: "j \<in> set (job_queue_jobs q)" using get_in_jobs [OF wk] by blast
      have "\<forall>x \<in> set (job_queue_jobs q). job_key x = job_key j \<longrightarrow> \<not> is_in_flight (job_state x)"
        using assms(2) Some by (simp add: QRequeue list_all_iff)
      then show ?thesis
        using Some un unique_step [OF wk un j job_step.requeued [of j C now]]
        by (simp add: QRequeue job_requeue_def)
    qed (simp add: QRequeue job_requeue_def un)
  next
    case (QClaim now)
    show ?thesis
    proof (cases "min_by_key (\<lambda>j. (job_next_attempt_at j, job_enqueued_at j))
        (filter (claimable now) (job_queue_jobs q))")
      case (Some c)
      note cand = claim_candidate [OF wk Some]
      have "job_state c \<noteq> Dead" using cand(2) by (simp add: claimable_def)
      then show ?thesis
        using unique_step [OF wk un cand(1) job_step.claimed [OF cand(2), of C]] cand(3)
        by (simp add: QClaim claim_next_def Some)
    qed (simp add: QClaim claim_next_def un)
  qed (auto simp: job_complete_def job_fail_def job_pause_def job_resume_def running_job_cases Let_def
      get_in_jobs [OF wk] un not_le split: option.splits if_splits
      intro!: unique_step [OF wk un, of _ C] intro: job_step.intros)
qed

lemma queue_run_wf:
  "queue_wf q \<Longrightarrow> admissible_run C q xs \<Longrightarrow> queue_wf (queue_run C q xs)"
  by (induction xs arbitrary: q)
    (auto simp: queue_exec_unique queue_wf_def queue_exec_well_keyed)

lemma queue_run_well_keyed: "well_keyed q \<Longrightarrow> well_keyed (queue_run C q xs)"
  by (induction xs arbitrary: q) (auto simp: queue_exec_well_keyed)

lemma queue_wf_new [simp]: "queue_wf job_queue_new"
  by (simp add: queue_wf_def unique_in_flight_def)

definition budgets_ok :: "job_queue \<Rightarrow> bool" where
  "budgets_ok q = (\<forall>j \<in> set (job_queue_jobs q). budget_ok j)"

lemma budgets_exec: "well_keyed q \<Longrightarrow> budgets_ok q \<Longrightarrow> budgets_ok (queue_exec C q x)"
  using queue_exec_delta [of q C x] job_step_budget [of C]
  by (fastforce simp: budgets_ok_def queue_delta_def jobs_store budget_ok_def)

lemma budgets_run: "well_keyed q \<Longrightarrow> budgets_ok q \<Longrightarrow> budgets_ok (queue_run C q xs)"
  by (induction xs arbitrary: q) (auto simp: budgets_exec queue_exec_well_keyed)

section \<open>Idempotency keys\<close>

lemma job_action_as_str_inj: "job_action_as_str a = job_action_as_str b \<Longrightarrow> a = b"
  by (cases a; cases b) simp_all

lemma colon_not_in_action: "CHR '':'' \<notin> set (job_action_as_str a)"
  by (cases a) simp_all

lemma colon_not_in_version: "CHR '':'' \<notin> set (CHR ''v'' # show_u64 v)"
proof
  assume "CHR '':'' \<in> set (CHR ''v'' # show_u64 v)"
  then have "CHR '':'' \<in> set (show_nat (unat v))" by (simp add: show_u64_def)
  then have "(of_char CHR '':'' :: nat) < 58" using show_nat_chars by blast
  then show False by simp
qed

section \<open>Properties\<close>

text \<open>
  (C2) At most one job in flight per idempotency key. Whatever sequence of queue operations
  runs on a new queue, as long as minted identifiers are new and a dead job is requeued only
  while its key is free, every job is stored under its own identifier and two stored jobs that
  are both queued, paused or running with the same key are the same job.
\<close>

theorem queue_in_flight_unique:
  assumes "admissible_run C job_queue_new ops"
    and "a \<in> set (job_queue_jobs (queue_run C job_queue_new ops))"
    and "b \<in> set (job_queue_jobs (queue_run C job_queue_new ops))"
    and "job_key a = job_key b" "is_in_flight (job_state a)" "is_in_flight (job_state b)"
  shows "a = b \<and> job_queue_get (queue_run C job_queue_new ops) (job_ident a) = Some a"
proof -
  have wf: "queue_wf (queue_run C job_queue_new ops)" by (rule queue_run_wf [OF _ assms(1)]) simp
  then have "a = b" using unique_in_flightD assms(2-6) by (auto simp: queue_wf_def)
  then show ?thesis using wf assms(2) by (simp add: queue_wf_def get_in_jobs)
qed

theorem queue_in_flight_unique_witness:
  "\<exists>ops a. length ops = 3 \<and> admissible_run chrono_ns job_queue_new ops \<and>
     a \<in> set (job_queue_jobs (queue_run chrono_ns job_queue_new ops)) \<and> job_state a = Running \<and>
     (\<forall>b \<in> set (job_queue_jobs (queue_run chrono_ns job_queue_new ops)).
        job_key a = job_key b \<longrightarrow> is_in_flight (job_state b) \<longrightarrow> a = b)"
proof -
  let ?ops = "[QEnqueue ''0a'' ''res_1'' ActProvision 1 retry_policy_default 0, QClaim 5,
     QEnqueue ''0b'' ''res_1'' ActProvision 1 retry_policy_default 6]"
  let ?j = "(new_job ''0a'' ''res_1'' ActProvision 1 retry_policy_default 0)
     \<lparr>job_state := Running, job_attempts := 1, job_updated_at := 5\<rparr>"
  have adm: "admissible_run chrono_ns job_queue_new ?ops"
    and mem: "?j \<in> set (job_queue_jobs (queue_run chrono_ns job_queue_new ?ops))"
    by (simp_all add: enqueue_def claim_next_def job_queue_get_def job_queue_new_def job_queue_jobs_def
        btm_get_def btm_values_def store_job_def new_job_def claimable_def is_in_flight_def Let_def)
  have fl: "is_in_flight (job_state ?j)" by (simp add: is_in_flight_def)
  show ?thesis
  proof (intro exI [of _ ?ops] exI [of _ ?j] conjI ballI impI)
    show "admissible_run chrono_ns job_queue_new ?ops" by (rule adm)
    show "?j \<in> set (job_queue_jobs (queue_run chrono_ns job_queue_new ?ops))" by (rule mem)
    show "?j = b" if "b \<in> set (job_queue_jobs (queue_run chrono_ns job_queue_new ?ops))"
      "job_key ?j = job_key b" "is_in_flight (job_state b)" for b
      using queue_in_flight_unique [OF adm mem that(1,2) fl that(3)] by (rule conjunct1)
  qed simp_all
qed

text \<open>
  Requeueing can put two jobs with one key in flight. After a job is dead-lettered, a job
  with the same key is accepted, and requeueing the dead one makes both claimable: the queue
  then holds two distinct queued jobs with the same idempotency key.
\<close>

theorem requeue_duplicates_key:
  "\<exists>ops a b. a \<in> set (job_queue_jobs (queue_run chrono_ns job_queue_new ops)) \<and>
     b \<in> set (job_queue_jobs (queue_run chrono_ns job_queue_new ops)) \<and> a \<noteq> b \<and>
     job_key a = job_key b \<and> job_state a = Queued \<and> job_state b = Queued"
proof -
  define p where "p = retry_policy_default\<lparr>rp_max_attempts := 1\<rparr>"
  have d: "delay_for chrono_ns p 1 = Some (5 * nanos_per_sec)" and m: "rp_max_attempts p = 1"
    by (simp_all add: p_def delay_for_default_value [OF chrono_ns.chrono_laws_axioms])
  let ?ops = "[QEnqueue ''0a'' ''res_1'' ActProvision 1 p 0, QClaim 1, QFail (JobId ''0a'') ''x'' 2,
     QEnqueue ''0b'' ''res_1'' ActProvision 1 p 3, QRequeue (JobId ''0a'') 4]"
  let ?a = "(new_job ''0a'' ''res_1'' ActProvision 1 p 0)
     \<lparr>job_last_error := Some ''x'', job_next_attempt_at := 4, job_updated_at := 4\<rparr>"
  let ?b = "new_job ''0b'' ''res_1'' ActProvision 1 p 3"
  have "job_queue_jobs (queue_run chrono_ns job_queue_new ?ops) = [?a, ?b]"
    by (simp add: enqueue_def claim_next_def job_fail_def job_requeue_def running_job_def
        job_queue_get_def job_queue_new_def job_queue_jobs_def btm_get_def btm_values_def
        store_job_def new_job_def claimable_def is_in_flight_def Let_def d m)
  moreover have "?a \<noteq> ?b" by (simp add: new_job_def)
  ultimately show ?thesis by (intro exI [of _ ?ops] exI [of _ ?a] exI [of _ ?b]) simp
qed

text \<open>
  Enqueueing is idempotent. If a job with the key is in flight, the queue is unchanged and
  the answer names such a job; otherwise exactly one job is added, queued, due at the given
  time, with no attempts, and every other stored job is kept.
\<close>

theorem enqueue_idempotent:
  assumes "queue_wf q" "job_queue_get q (JobId u) = None"
    and "enqueue u q target action version policy at = (q', out)"
  shows "if \<exists>x \<in> set (job_queue_jobs q). job_key x = idempotency_key_new target action version \<and>
            is_in_flight (job_state x)
     then q' = q \<and> (\<exists>x \<in> set (job_queue_jobs q). out = Duplicate (job_ident x) \<and>
            job_key x = idempotency_key_new target action version \<and> is_in_flight (job_state x))
     else out = Enqueued (JobId u) \<and>
          set (job_queue_jobs q') =
            insert (new_job u target action version policy at) (set (job_queue_jobs q))"
proof (rule enqueue_cases [of q target action version u policy at])
  fix x
  assume "x \<in> set (job_queue_jobs q)" "job_key x = idempotency_key_new target action version"
    "is_in_flight (job_state x)"
    "enqueue u q target action version policy at = (q, Duplicate (job_ident x))"
  then show ?thesis using assms(3) by auto
next
  assume *: "\<forall>x \<in> set (job_queue_jobs q). job_key x = idempotency_key_new target action version \<longrightarrow>
      \<not> is_in_flight (job_state x)"
    "enqueue u q target action version policy at =
      (store_job q (new_job u target action version policy at), Enqueued (JobId u))"
  have wk: "well_keyed q" using assms(1) by (simp add: queue_wf_def)
  have "job_ident x \<noteq> JobId u" if "x \<in> set (job_queue_jobs q)" for x
    using that assms(2) get_in_jobs [OF wk, of "JobId u" x] by auto
  then have "set (job_queue_jobs (store_job q (new_job u target action version policy at))) =
      insert (new_job u target action version policy at) (set (job_queue_jobs q))"
    using jobs_store [OF wk] by auto
  with * assms(3) show ?thesis by auto
qed

theorem enqueue_idempotent_witness:
  "\<exists>q' out. enqueue ''0a'' job_queue_new ''res_1'' ActProvision 1 retry_policy_default 7 = (q', out) \<and>
     out = Enqueued (JobId ''0a'') \<and> job_queue_get job_queue_new (JobId ''0a'') = None"
proof -
  obtain q' out where e: "enqueue ''0a'' job_queue_new ''res_1'' ActProvision 1 retry_policy_default 7 = (q', out)"
    by force
  have n: "job_queue_get job_queue_new (JobId ''0a'') = None"
    by (simp add: job_queue_get_def job_queue_new_def btm_get_def)
  show ?thesis using enqueue_idempotent [OF queue_wf_new n e] e n by simp
qed

text \<open>
  Claiming takes the earliest due job. On a well-keyed queue it never panics; it returns
  nothing, and changes nothing, exactly when no queued job is due; otherwise the job it
  returns was queued and due, no due queued job comes before it in the order of next attempt
  and enqueue time, and the only change to the queue is that this job runs with one more
  attempt.
\<close>

theorem claim_next_earliest:
  assumes "queue_wf q"
  shows "(\<nexists>j. j \<in> set (job_queue_jobs q) \<and> claimable now j) \<and> claim_next q now = (q, Ok None) \<or>
    (\<exists>j \<in> set (job_queue_jobs q). claimable now j \<and>
       (\<forall>x \<in> set (job_queue_jobs q). claimable now x \<longrightarrow>
          (job_next_attempt_at j, job_enqueued_at j) \<le> (job_next_attempt_at x, job_enqueued_at x)) \<and>
       claim_next q now =
         (store_job q (j\<lparr>job_state := Running, job_attempts := job_attempts j + 1, job_updated_at := now\<rparr>),
          Ok (Some (job_ident j))))"
proof (cases "min_by_key (\<lambda>j. (job_next_attempt_at j, job_enqueued_at j))
    (filter (claimable now) (job_queue_jobs q))")
  case None
  then have "filter (claimable now) (job_queue_jobs q) = []" by simp
  then have "\<nexists>j. j \<in> set (job_queue_jobs q) \<and> claimable now j" by (auto simp: filter_empty_conv)
  with None show ?thesis by (simp add: claim_next_def)
next
  case (Some c)
  note cand = claim_candidate [OF assms [unfolded queue_wf_def, THEN conjunct1] Some]
  have "claim_next q now =
      (store_job q (c\<lparr>job_state := Running, job_attempts := job_attempts c + 1, job_updated_at := now\<rparr>),
       Ok (Some (job_ident c)))"
    by (simp add: claim_next_def Some cand(3))
  with cand show ?thesis by blast
qed

theorem claim_next_earliest_witness: "claim_next job_queue_new 3 = (job_queue_new, Ok None)"
  using claim_next_earliest [OF queue_wf_new, of 3] by simp

text \<open>
  (C9) The attempt budget. In every reachable queue, whatever the order of operations, no job
  has been attempted more often than its policy allows (once, for a policy that allows none),
  and a job that waits for another attempt has budget left.
\<close>

theorem attempts_within_budget:
  assumes "j \<in> set (job_queue_jobs (queue_run C job_queue_new ops))"
  shows "job_attempts j \<le> max 1 (rp_max_attempts (job_policy j)) \<and>
    (job_state j \<in> {Queued, Paused} \<longrightarrow>
       job_attempts j = 0 \<or> job_attempts j < rp_max_attempts (job_policy j))"
proof -
  have "budgets_ok (queue_run C job_queue_new ops)"
    by (rule budgets_run) (simp_all add: budgets_ok_def)
  with assms show ?thesis by (simp add: budgets_ok_def budget_ok_def)
qed

theorem attempts_within_budget_witness:
  "\<exists>ops j. j \<in> set (job_queue_jobs (queue_run chrono_ns job_queue_new ops)) \<and> job_state j = Running \<and>
     job_attempts j \<le> max 1 (rp_max_attempts (job_policy j))"
proof -
  let ?ops = "[QEnqueue ''0a'' ''res_1'' ActProvision 1 retry_policy_default 0, QClaim 5]"
  let ?j = "(new_job ''0a'' ''res_1'' ActProvision 1 retry_policy_default 0)
     \<lparr>job_state := Running, job_attempts := 1, job_updated_at := 5\<rparr>"
  have mem: "?j \<in> set (job_queue_jobs (queue_run chrono_ns job_queue_new ?ops))"
    by (simp add: enqueue_def claim_next_def job_queue_get_def job_queue_new_def job_queue_jobs_def
        btm_get_def btm_values_def store_job_def new_job_def claimable_def is_in_flight_def Let_def)
  then show ?thesis
    using attempts_within_budget [OF mem] by (intro exI [of _ ?ops] exI [of _ ?j]) simp
qed

text \<open>
  Failing an attempt. For a running job whose backoff is representable, \<open>fail\<close> answers
  \<open>Dead\<close> exactly when the attempts reached the policy's limit, and otherwise requeues the job
  for the current time plus the backoff of this attempt; the error text is kept, and all other
  jobs are untouched. A job that is not running, or not stored, is an error and the queue is
  unchanged.
\<close>

theorem job_fail_total:
  assumes "\<And>j. job_queue_get q i = Some j \<Longrightarrow> job_state j = Running \<Longrightarrow>
      \<exists>d t. delay_for C (job_policy j) (max (job_attempts j) 1) = Some d \<and> time_plus C now d = Some t"
  shows "case job_queue_get q i of
      None \<Rightarrow> job_fail C q i e now = (q, Err (NotFound (''job '' @ job_id_display i)))
    | Some j \<Rightarrow>
        if job_state j \<noteq> Running then \<exists>m. job_fail C q i e now = (q, Err (Reconciliation m))
        else if job_attempts j \<ge> rp_max_attempts (job_policy j)
        then job_fail C q i e now =
          (store_job q (j\<lparr>job_last_error := Some e, job_updated_at := now, job_state := Dead\<rparr>), Ok Dead)
        else \<exists>d t. delay_for C (job_policy j) (max (job_attempts j) 1) = Some d \<and>
          time_plus C now d = Some t \<and>
          job_fail C q i e now =
            (store_job q (j\<lparr>job_last_error := Some e, job_updated_at := now,
               job_next_attempt_at := t, job_state := Queued\<rparr>), Ok Queued)"
proof (cases "job_queue_get q i")
  case None
  then show ?thesis by (simp add: job_fail_def running_job_def)
next
  case (Some j)
  show ?thesis
  proof (cases "job_state j = Running")
    case True
    then obtain d t where "delay_for C (job_policy j) (max (job_attempts j) 1) = Some d"
      "time_plus C now d = Some t"
      using assms [OF Some] by blast
    with True Some show ?thesis by (simp add: job_fail_def running_job_def Let_def)
  next
    case False
    with Some show ?thesis by (simp add: job_fail_def running_job_def)
  qed
qed

theorem job_fail_total_witness:
  "job_fail chrono_ns job_queue_new (JobId ''0a'') ''boom'' 4 =
     (job_queue_new, Err (NotFound ''job job_0a''))"
  using job_fail_total [of job_queue_new "JobId ''0a''" chrono_ns 4 "''boom''"]
  by (simp add: job_queue_get_def job_queue_new_def btm_get_def)

text \<open>
  Idempotency keys identify the convergence step: the printed key determines the target,
  the action and the version, for any target text.
\<close>

theorem idempotency_key_injective:
  "idempotency_key_new t a v = idempotency_key_new t' a' v' \<longleftrightarrow> t = t' \<and> a = a' \<and> v = v'"
proof
  assume "idempotency_key_new t a v = idempotency_key_new t' a' v'"
  then have eq: "(t @ '':'' @ job_action_as_str a) @ CHR '':'' # (CHR ''v'' # show_u64 v) =
      (t' @ '':'' @ job_action_as_str a') @ CHR '':'' # (CHR ''v'' # show_u64 v')"
    by (simp add: idempotency_key_new_def)
  have "t @ '':'' @ job_action_as_str a = t' @ '':'' @ job_action_as_str a' \<and>
      CHR ''v'' # show_u64 v = CHR ''v'' # show_u64 v'"
    by (rule split_at_last_inj [OF eq colon_not_in_version colon_not_in_version])
  moreover from this have "t @ CHR '':'' # job_action_as_str a = t' @ CHR '':'' # job_action_as_str a'"
    by simp
  then have "t = t' \<and> job_action_as_str a = job_action_as_str a'"
    by (rule split_at_last_inj) (rule colon_not_in_action)+
  ultimately show "t = t' \<and> a = a' \<and> v = v'"
    using show_u64_inj job_action_as_str_inj by simp
qed simp

end
