(* ===== verification/Json_Value.thy ===== *)
theory Json_Value
  imports Labrys_Prelude
begin

text \<open>
  The values of \<open>serde_json\<close>, as the application state and the plugin protocol hold them. A number is an unsigned
  integer, a negative one or a double, given by its bits; an object is a sorted list of pairs, like the crate's
  default map. The crate never builds a number from the bits of an infinity or of no number, nor a
  negative integer from a word without its top bit; no statement of the development depends on such values.
\<close>

datatype json_number = NumU64 u64 | NumI64 "64 word" | NumF64 u64

datatype json =
    JNull
  | JBool bool
  | JNumber json_number
  | JString string
  | JArray "json list"
  | JObject "(string \<times> json) list"

end
