(* ===== verification/App_Model.thy ===== *)
theory App_Model
  imports Ids Json_Value
begin

text \<open>
  The application aggregate of \<open>labrys-core/src/state.rs\<close>, \<open>environment.rs\<close>, \<open>origin.rs\<close>,
  \<open>application.rs\<close> and \<open>repository.rs\<close>. \<open>Utc::now\<close> and the minted identifiers are arguments.
  The trait \<open>ApplicationRepository\<close> is the locale \<open>application_repository\<close>, interpreted on the
  in-memory implementation; a poisoned lock is a flag of its state.
\<close>

section \<open>Desired and observed state\<close>

record desired_state =
  ds_version :: u64
  ds_profiles :: "(string, json) btree_map"
  ds_config :: json

datatype observed_status = ObsUnknown | ObsHealthy | ObsDegraded | ObsUnhealthy

record observed_state =
  os_desired_version :: u64
  os_status :: observed_status
  os_last_observed_at :: time
  os_detail :: "string option"

definition desired_initial :: desired_state where
  "desired_initial = \<lparr>ds_version = 1, ds_profiles = [], ds_config = JNull\<rparr>"

definition with_config :: "desired_state \<Rightarrow> json \<Rightarrow> desired_state" where
  "with_config d config =
     \<lparr>ds_version = ds_version d + 1, ds_profiles = ds_profiles d, ds_config = config\<rparr>"

definition observed_unknown :: "u64 \<Rightarrow> time \<Rightarrow> observed_state" where
  "observed_unknown desired_version now =
     \<lparr>os_desired_version = desired_version, os_status = ObsUnknown, os_last_observed_at = now,
      os_detail = None\<rparr>"

definition is_stale :: "observed_state \<Rightarrow> desired_state \<Rightarrow> bool" where
  "is_stale obs d = (os_desired_version obs \<noteq> ds_version d)"

section \<open>Environments and origins\<close>

datatype environment_kind = Development | Preview string | Production

definition is_preview :: "environment_kind \<Rightarrow> bool" where
  "is_preview k = (case k of Preview _ \<Rightarrow> True | _ \<Rightarrow> False)"

record environment_refs =
  er_runtime :: "(string, string) btree_map"
  er_capabilities :: "(string, string) btree_map"
  er_resources :: "(string, string) btree_map"
  er_secrets :: "(string, string) btree_map"
  er_deployments :: "(string, string) btree_map"
  er_domains :: "(string, string) btree_map"

definition environment_refs_default :: environment_refs where
  "environment_refs_default =
     \<lparr>er_runtime = [], er_capabilities = [], er_resources = [], er_secrets = [],
      er_deployments = [], er_domains = []\<rparr>"

record environment =
  env_id :: environment_id
  env_application_id :: application_id
  env_kind :: environment_kind
  env_name :: string
  env_refs :: environment_refs

definition environment_new :: "uuid \<Rightarrow> application_id \<Rightarrow> environment_kind \<Rightarrow> string \<Rightarrow> environment" where
  "environment_new new_uuid app kind name =
     \<lparr>env_id = EnvironmentId new_uuid, env_application_id = app, env_kind = kind,
      env_name = name, env_refs = environment_refs_default\<rparr>"

definition environment_development :: "uuid \<Rightarrow> application_id \<Rightarrow> environment" where
  "environment_development new_uuid app = environment_new new_uuid app Development ''development''"

definition environment_production :: "uuid \<Rightarrow> application_id \<Rightarrow> environment" where
  "environment_production new_uuid app = environment_new new_uuid app Production ''production''"

definition environment_preview :: "uuid \<Rightarrow> application_id \<Rightarrow> string \<Rightarrow> environment" where
  "environment_preview new_uuid app name = environment_new new_uuid app (Preview name) name"

datatype origin =
    Generated "string option"
  | ImportedGit string string "string option"
  | ImportedLocal string
  | Template string "string option"
  | Fork application_id
  | External string

fun origin_kind :: "origin \<Rightarrow> string" where
  "origin_kind (Generated _) = ''generated''"
| "origin_kind (ImportedGit _ _ _) = ''imported_git''"
| "origin_kind (ImportedLocal _) = ''imported_local''"
| "origin_kind (Template _ _) = ''template''"
| "origin_kind (Fork _) = ''fork''"
| "origin_kind (External _) = ''external''"

section \<open>Applications\<close>

datatype application_status = Draft | Active | Archived

record audit_metadata =
  am_created_by :: string
  am_updated_by :: "string option"
  am_audit_event_ids :: "string list"

record lifecycle_collections =
  lc_workspaces :: "string list"
  lc_agent_sessions :: "string list"
  lc_capabilities :: "string list"
  lc_resources :: "string list"
  lc_providers :: "string list"
  lc_secrets :: "string list"
  lc_previews :: "string list"
  lc_deployments :: "string list"
  lc_domains :: "string list"
  lc_jobs :: "string list"
  lc_artifacts :: "string list"
  lc_logs :: "string list"
  lc_audit_events :: "string list"

definition lifecycle_collections_default :: lifecycle_collections where
  "lifecycle_collections_default =
     \<lparr>lc_workspaces = [], lc_agent_sessions = [], lc_capabilities = [], lc_resources = [],
      lc_providers = [], lc_secrets = [], lc_previews = [], lc_deployments = [],
      lc_domains = [], lc_jobs = [], lc_artifacts = [], lc_logs = [], lc_audit_events = []\<rparr>"

record application =
  app_id :: application_id
  app_name :: string
  app_origin :: origin
  app_status :: application_status
  app_created_at :: time
  app_updated_at :: time
  app_audit :: audit_metadata
  app_environments :: "environment list"
  app_desired_state :: desired_state
  app_observed_state :: observed_state
  app_collections :: lifecycle_collections

text \<open>The three identifiers are minted in the order application, development, production.\<close>

definition application_new ::
  "uuid \<Rightarrow> uuid \<Rightarrow> uuid \<Rightarrow> time \<Rightarrow> string \<Rightarrow> origin \<Rightarrow> string \<Rightarrow> application" where
  "application_new app_uuid dev_uuid prod_uuid now name org created_by =
     (let i = ApplicationId app_uuid in
      \<lparr>app_id = i, app_name = name, app_origin = org, app_status = Draft,
       app_created_at = now, app_updated_at = now,
       app_audit = \<lparr>am_created_by = created_by, am_updated_by = None, am_audit_event_ids = []\<rparr>,
       app_environments = [environment_development dev_uuid i, environment_production prod_uuid i],
       app_desired_state = desired_initial,
       app_observed_state = observed_unknown (ds_version desired_initial) now,
       app_collections = lifecycle_collections_default\<rparr>)"

definition touch :: "application \<Rightarrow> string \<Rightarrow> time \<Rightarrow> application" where
  "touch app updated_by now =
     app\<lparr>app_updated_at := now, app_audit := (app_audit app)\<lparr>am_updated_by := Some updated_by\<rparr>\<rparr>"

definition update_desired_state :: "application \<Rightarrow> desired_state \<Rightarrow> string \<Rightarrow> time \<Rightarrow> application" where
  "update_desired_state app next updated_by now =
     touch (app\<lparr>app_desired_state := next\<rparr>) updated_by now"

definition record_observation :: "application \<Rightarrow> observed_state \<Rightarrow> time \<Rightarrow> application" where
  "record_observation app obs now = app\<lparr>app_observed_state := obs, app_updated_at := now\<rparr>"

definition add_preview_environment ::
  "uuid \<Rightarrow> application \<Rightarrow> string \<Rightarrow> time \<Rightarrow> application \<times> environment" where
  "add_preview_environment new_uuid app name now =
     (let env = environment_preview new_uuid (app_id app) name
      in (app\<lparr>app_environments := app_environments app @ [env], app_updated_at := now\<rparr>, env))"

definition environment_by_name :: "application \<Rightarrow> string \<Rightarrow> environment option" where
  "environment_by_name app name = find (\<lambda>env. env_name env = name) (app_environments app)"

text \<open>A write \<open>f\<close> through the reference that \<open>environment_by_name_mut\<close> returns.\<close>

fun update_first :: "('a \<Rightarrow> bool) \<Rightarrow> ('a \<Rightarrow> 'a) \<Rightarrow> 'a list \<Rightarrow> 'a list" where
  "update_first P f [] = []"
| "update_first P f (x # xs) = (if P x then f x # xs else x # update_first P f xs)"

definition environment_by_name_mut ::
  "application \<Rightarrow> string \<Rightarrow> (environment \<Rightarrow> environment) \<Rightarrow> application" where
  "environment_by_name_mut app name f =
     app\<lparr>app_environments := update_first (\<lambda>env. env_name env = name) f (app_environments app)\<rparr>"

section \<open>Repositories\<close>

record app_repository =
  repo_poisoned :: bool
  repo_inner :: "(string, application) btree_map"

definition repository_new :: app_repository where
  "repository_new = \<lparr>repo_poisoned = False, repo_inner = []\<rparr>"

definition lock_poisoned :: core_error where
  "lock_poisoned = InvalidManifest ''repository lock poisoned''"

definition repo_save :: "app_repository \<Rightarrow> application \<Rightarrow> app_repository \<times> unit outcome" where
  "repo_save r app =
     (if repo_poisoned r then (r, Err lock_poisoned)
      else (r\<lparr>repo_inner := btm_insert (application_id_display (app_id app)) app (repo_inner r)\<rparr>, Ok ()))"

definition repo_get :: "app_repository \<Rightarrow> application_id \<Rightarrow> application outcome" where
  "repo_get r i =
     (if repo_poisoned r then Err lock_poisoned
      else case btm_get (repo_inner r) (application_id_display i) of
             Some app \<Rightarrow> Ok app
           | None \<Rightarrow> Err (NotFound (application_id_display i)))"

definition repo_list :: "app_repository \<Rightarrow> application list" where
  "repo_list r = (if repo_poisoned r then [] else btm_values (repo_inner r))"

definition repo_delete :: "app_repository \<Rightarrow> application_id \<Rightarrow> app_repository \<times> unit outcome" where
  "repo_delete r i =
     (if repo_poisoned r then (r, Err lock_poisoned)
      else case btm_get (repo_inner r) (application_id_display i) of
             Some _ \<Rightarrow> (r\<lparr>repo_inner := btm_remove (application_id_display i) (repo_inner r)\<rparr>, Ok ())
           | None \<Rightarrow> (r, Err (NotFound (application_id_display i))))"

text \<open>The contract of the trait, for states that satisfy \<open>usable\<close>.\<close>

locale application_repository =
  fixes save :: "'r \<Rightarrow> application \<Rightarrow> 'r \<times> unit outcome"
    and get :: "'r \<Rightarrow> application_id \<Rightarrow> application outcome"
    and listing :: "'r \<Rightarrow> application list"
    and delete :: "'r \<Rightarrow> application_id \<Rightarrow> 'r \<times> unit outcome"
    and usable :: "'r \<Rightarrow> bool"
  assumes save_ok: "usable r \<Longrightarrow> snd (save r app) = Ok () \<and> usable (fst (save r app))"
    and get_save: "usable r \<Longrightarrow> get (fst (save r app)) i = (if i = app_id app then Ok app else get r i)"
    and get_result: "usable r \<Longrightarrow> (\<exists>app. get r i = Ok app \<and> app_id app = i) \<or>
        get r i = Err (NotFound (application_id_display i))"
    and listing_get: "usable r \<Longrightarrow> app \<in> set (listing r) \<longleftrightarrow> get r (app_id app) = Ok app"
    and delete_ok: "usable r \<Longrightarrow> usable (fst (delete r i)) \<and>
        snd (delete r i) = (if is_ok (get r i) then Ok () else Err (NotFound (application_id_display i)))"
    and get_delete: "usable r \<Longrightarrow> get (fst (delete r i)) j =
        (if j = i then Err (NotFound (application_id_display i)) else get r j)"
begin

lemma saved_is_listed: "usable r \<Longrightarrow> app \<in> set (listing (fst (save r app)))"
  using save_ok [of r app] by (simp add: listing_get get_save)

lemma deleted_not_listed:
  "usable r \<Longrightarrow> app \<in> set (listing (fst (delete r i))) \<longleftrightarrow> app \<in> set (listing r) \<and> app_id app \<noteq> i"
  using delete_ok [of r i] by (simp add: listing_get get_delete)

lemma save_then_delete:
  "usable r \<Longrightarrow> get (fst (delete (fst (save r app)) (app_id app))) j =
     (if j = app_id app then Err (NotFound (application_id_display (app_id app))) else get r j)"
  using save_ok [of r app] by (simp add: get_delete get_save)

end

abbreviation app_store_key :: "application \<Rightarrow> string" where
  "app_store_key app \<equiv> application_id_display (app_id app)"

interpretation app_store: keyed_store "[] :: (string, application) btree_map" btm_get btm_insert
  btm_values btm_inv app_store_key
  by unfold_locales

definition repo_wf :: "app_repository \<Rightarrow> bool" where
  "repo_wf r = (\<not> repo_poisoned r \<and> btm_inv (repo_inner r) \<and>
     (\<forall>k app. btm_get (repo_inner r) k = Some app \<longrightarrow> app_store_key app = k))"

lemma repo_wf_keyed: "repo_wf r \<Longrightarrow> btm_get (repo_inner r) (application_id_display i) = Some app \<Longrightarrow> app_id app = i"
  unfolding repo_wf_def by (metis application_id_display_inj)

interpretation memory_repo: application_repository repo_save repo_get repo_list repo_delete repo_wf
proof unfold_locales
  fix r app i j
  assume wf: "repo_wf r"
  then have inv: "btm_inv (repo_inner r)" "\<not> repo_poisoned r"
    and keyed: "\<And>k a. btm_get (repo_inner r) k = Some a \<Longrightarrow> app_store_key a = k"
    by (auto simp: repo_wf_def)
  show "snd (repo_save r app) = Ok () \<and> repo_wf (fst (repo_save r app))"
    using inv keyed by (auto simp: repo_save_def repo_wf_def btm_inv_insert btm_get_insert)
  show "repo_get (fst (repo_save r app)) i = (if i = app_id app then Ok app else repo_get r i)"
    using inv by (simp add: repo_save_def repo_get_def btm_get_insert)
  show "(\<exists>app. repo_get r i = Ok app \<and> app_id app = i) \<or>
      repo_get r i = Err (NotFound (application_id_display i))"
    using inv repo_wf_keyed [OF wf] by (auto simp: repo_get_def split: option.splits)
  show "app \<in> set (repo_list r) \<longleftrightarrow> repo_get r (app_id app) = Ok app"
    using inv app_store.keyed_vals [OF inv(1) keyed] by (auto simp: repo_list_def repo_get_def split: option.splits)
  show "repo_wf (fst (repo_delete r i)) \<and>
      snd (repo_delete r i) = (if is_ok (repo_get r i) then Ok () else Err (NotFound (application_id_display i)))"
    using inv keyed wf
    by (auto simp: repo_delete_def repo_get_def repo_wf_def btm_inv_remove btm_get_remove split: option.splits)
  show "repo_get (fst (repo_delete r i)) j =
      (if j = i then Err (NotFound (application_id_display i)) else repo_get r j)"
    using inv by (auto simp: repo_delete_def repo_get_def btm_get_remove split: option.splits)
qed

lemma repo_wf_new [simp]: "repo_wf repository_new"
  by (simp add: repo_wf_def repository_new_def btm_inv_def btm_get_def)

section \<open>Properties\<close>

lemma find_update_first:
  assumes "\<And>x. env_name (f x) = env_name x"
  shows "find (\<lambda>e. env_name e = n) (update_first (\<lambda>e. env_name e = name) f es) =
    (if n = name then map_option f (find (\<lambda>e. env_name e = n) es) else find (\<lambda>e. env_name e = n) es)"
  by (induction es) (auto simp: assms)

lemma update_first_other:
  "length (update_first P f xs) = length xs"
  "i < length xs \<Longrightarrow> \<not> P (xs ! i) \<Longrightarrow> update_first P f xs ! i = xs ! i"
  by (induction xs arbitrary: i) (auto simp: nth_Cons')

lemma find_append: "find P (xs @ ys) = (case find P xs of Some x \<Rightarrow> Some x | None \<Rightarrow> find P ys)"
  by (induction xs) auto

text \<open>
  Desired and observed state are separate. Updating the desired state keeps the
  observation, recording an observation keeps the desired state, and an observation that was
  current becomes stale as soon as the configuration is replaced.
\<close>

theorem desired_observed_separate:
  "app_observed_state (update_desired_state app next by now) = app_observed_state app \<and>
   app_desired_state (record_observation app obs now) = app_desired_state app \<and>
   (is_stale obs d \<or> is_stale obs (with_config d c))"
  by (simp add: update_desired_state_def record_observation_def touch_def is_stale_def with_config_def)

text \<open>
  Environment isolation. A write through \<open>environment_by_name_mut\<close> that keeps names
  changes what is found under its own name only: every other name, production included, finds
  the same environment as before, and no other field of the application changes.
\<close>

theorem environment_isolation:
  assumes "\<And>e. env_name (f e) = env_name e"
  shows "environment_by_name (environment_by_name_mut app name f) n =
      (if n = name then map_option f (environment_by_name app n) else environment_by_name app n) \<and>
    length (app_environments (environment_by_name_mut app name f)) = length (app_environments app) \<and>
    (\<forall>i < length (app_environments app). env_name (app_environments app ! i) \<noteq> name \<longrightarrow>
       app_environments (environment_by_name_mut app name f) ! i = app_environments app ! i) \<and>
    (environment_by_name_mut app name f)\<lparr>app_environments := app_environments app\<rparr> = app"
  using find_update_first [OF assms]
  by (simp add: environment_by_name_mut_def environment_by_name_def update_first_other)

theorem environment_isolation_witness:
  "environment_by_name
     (environment_by_name_mut (application_new ''1'' ''2'' ''3'' 0 ''shop'' (External ''x'') ''ada'')
        ''development'' (\<lambda>e. e\<lparr>env_refs := (env_refs e)\<lparr>er_secrets := [(''k'', ''v'')]\<rparr>\<rparr>)) ''production'' =
   environment_by_name (application_new ''1'' ''2'' ''3'' 0 ''shop'' (External ''x'') ''ada'') ''production''"
  using environment_isolation [of "\<lambda>e. e\<lparr>env_refs := (env_refs e)\<lparr>er_secrets := [(''k'', ''v'')]\<rparr>\<rparr>"
      "application_new ''1'' ''2'' ''3'' 0 ''shop'' (External ''x'') ''ada''" "''development''" "''production''"]
  by simp

text \<open>
  Adding a preview never redirects an existing name: names that were found keep their
  environment, even when the preview reuses one, and the preview is found under its name
  exactly when the name was free. The new environment belongs to the application.
\<close>

theorem preview_never_shadows:
  assumes "add_preview_environment u app name now = (app', env)"
  shows "environment_by_name app' n =
      (case environment_by_name app n of
         Some e \<Rightarrow> Some e
       | None \<Rightarrow> if n = name then Some env else None) \<and>
    env_application_id env = app_id app' \<and> env_kind env = Preview name \<and>
    app_desired_state app' = app_desired_state app \<and> app_observed_state app' = app_observed_state app"
  using assms
  by (auto simp: add_preview_environment_def environment_by_name_def environment_preview_def
      environment_new_def find_append Let_def split: option.splits)

theorem preview_never_shadows_witness:
  "\<exists>app' env. add_preview_environment ''9'' (application_new ''1'' ''2'' ''3'' 0 ''shop'' (External ''x'') ''ada'')
       ''production'' 5 = (app', env) \<and>
     environment_by_name app' ''production'' = Some (environment_production ''3'' (ApplicationId ''1''))"
proof -
  let ?app = "application_new ''1'' ''2'' ''3'' 0 ''shop'' (External ''x'') ''ada''"
  obtain app' env where a: "add_preview_environment ''9'' ?app ''production'' 5 = (app', env)" by force
  have "environment_by_name ?app ''production'' = Some (environment_production ''3'' (ApplicationId ''1''))"
    by (simp add: environment_by_name_def application_new_def environment_development_def
        environment_production_def environment_new_def Let_def)
  then show ?thesis using a preview_never_shadows [OF a, of "''production''"] by auto
qed

text \<open>
  The in-memory repository is a map. On a usable repository a saved application is read
  back and listed, saving and deleting leave every other application as it was, and reading or
  deleting an absent one is \<open>NotFound\<close>; a poisoned lock fails every operation and changes
  nothing.
\<close>

theorem repository_roundtrip:
  assumes "repo_wf r"
  shows "repo_get (fst (repo_save r app)) i = (if i = app_id app then Ok app else repo_get r i) \<and>
    app \<in> set (repo_list (fst (repo_save r app))) \<and>
    repo_get (fst (repo_delete r i)) j =
      (if j = i then Err (NotFound (application_id_display i)) else repo_get r j) \<and>
    snd (repo_delete r i) =
      (if is_ok (repo_get r i) then Ok () else Err (NotFound (application_id_display i))) \<and>
    repo_wf (fst (repo_save r app)) \<and> repo_wf (fst (repo_delete r i)) \<and>
    repo_save (r\<lparr>repo_poisoned := True\<rparr>) app = (r\<lparr>repo_poisoned := True\<rparr>, Err lock_poisoned) \<and>
    repo_delete (r\<lparr>repo_poisoned := True\<rparr>) i = (r\<lparr>repo_poisoned := True\<rparr>, Err lock_poisoned)"
  using memory_repo.get_save [OF assms] memory_repo.saved_is_listed [OF assms]
    memory_repo.get_delete [OF assms] memory_repo.delete_ok [OF assms] memory_repo.save_ok [OF assms]
  by (simp add: repo_save_def repo_delete_def)

theorem repository_roundtrip_witness:
  "repo_get (fst (repo_save repository_new
      (application_new ''1'' ''2'' ''3'' 0 ''shop'' (External ''x'') ''ada''))) (ApplicationId ''1'') =
   Ok (application_new ''1'' ''2'' ''3'' 0 ''shop'' (External ''x'') ''ada'')"
  using repository_roundtrip [OF repo_wf_new, of "application_new ''1'' ''2'' ''3'' 0 ''shop'' (External ''x'') ''ada''" "ApplicationId ''1''"]
  by (simp add: application_new_def Let_def)

end
