(* ===== verification/Controllers.thy ===== *)
theory Controllers
  imports Job_Queue App_Model
begin

text \<open>
  The five reconciliation controllers of \<open>labrys-core/src/controller.rs\<close>. The trait object
  \<open>dyn Controller\<close> is the datatype \<open>controller\<close> with \<open>reconcile\<close> dispatching on it. A pass
  does not write the controller, so it returns the queue and its \<open>Reconciliation\<close>; the
  identifiers \<open>enqueue\<close> may mint are arguments (two, as two controllers have two enqueue calls).
  The locale \<open>convergence\<close> states what a controller promises the worker and derives that
  passes repeat without effect; it is interpreted on \<open>reconcile\<close>.
\<close>

section \<open>Reconciliation results\<close>

datatype drift_kind = DkMissing | DkStale | DkUnhealthy | DkTerminated

record drift =
  dr_kind :: drift_kind
  dr_detail :: string

record reconciliation =
  rc_controller :: string
  rc_target :: string
  rc_desired_version :: u64
  rc_observed_version :: u64
  rc_in_sync :: bool
  rc_drift :: "drift list"
  rc_actions :: "idempotency_key list"
  rc_at :: time

definition is_mismatch :: "reconciliation \<Rightarrow> bool" where
  "is_mismatch rc = (\<not> rc_in_sync rc)"

definition reconciliation_event_detail :: "reconciliation \<Rightarrow> string" where
  "reconciliation_event_detail rc =
     rc_controller rc @ '' '' @ quoted (rc_target rc) @ '' desired v'' @
     show_u64 (rc_desired_version rc) @ '' observed v'' @ show_u64 (rc_observed_version rc) @ '' '' @
     (if rc_in_sync rc then ''in sync'' else ''MISMATCH'') @ '' ('' @
     show_nat (length (rc_drift rc)) @ '' drift, '' @ show_nat (length (rc_actions rc)) @ '' actions)''"

definition result ::
  "string \<Rightarrow> string \<Rightarrow> u64 \<Rightarrow> u64 \<Rightarrow> bool \<Rightarrow> drift list \<Rightarrow> idempotency_key list \<Rightarrow> time \<Rightarrow> reconciliation" where
  "result name target desired_version observed_version in_sync dr actions at =
     \<lparr>rc_controller = name, rc_target = target, rc_desired_version = desired_version,
      rc_observed_version = observed_version, rc_in_sync = in_sync, rc_drift = dr,
      rc_actions = actions, rc_at = at\<rparr>"

text \<open>An enqueue whose answer the controller ignores.\<close>

definition enqueue_default ::
  "uuid \<Rightarrow> job_queue \<Rightarrow> string \<Rightarrow> job_action \<Rightarrow> u64 \<Rightarrow> time \<Rightarrow> job_queue" where
  "enqueue_default u q target action version now =
     fst (enqueue u q target action version retry_policy_default now)"

definition u64_of_bool :: "bool \<Rightarrow> u64" where
  "u64_of_bool b = (if b then 1 else 0)"

section \<open>Application controller\<close>

record application_controller =
  ac_application_id :: application_id
  ac_desired :: desired_state
  ac_observed :: observed_state

fun debug_observed_status :: "observed_status \<Rightarrow> string" where
  "debug_observed_status ObsUnknown = ''Unknown''"
| "debug_observed_status ObsHealthy = ''Healthy''"
| "debug_observed_status ObsDegraded = ''Degraded''"
| "debug_observed_status ObsUnhealthy = ''Unhealthy''"

definition application_controller_observe ::
  "application_controller \<Rightarrow> observed_state \<Rightarrow> application_controller" where
  "application_controller_observe c obs = c\<lparr>ac_observed := obs\<rparr>"

definition application_reconcile ::
  "uuid \<Rightarrow> application_controller \<Rightarrow> job_queue \<Rightarrow> time \<Rightarrow> job_queue \<times> reconciliation outcome" where
  "application_reconcile u c q now =
     (let stale = (if is_stale (ac_observed c) (ac_desired c)
                   then [\<lparr>dr_kind = DkStale,
                          dr_detail = ''observation at v'' @ show_u64 (os_desired_version (ac_observed c)) @
                            '' lags desired v'' @ show_u64 (ds_version (ac_desired c))\<rparr>]
                   else []);
          unhealthy = (if os_status (ac_observed c) \<noteq> ObsHealthy
                   then [\<lparr>dr_kind = DkUnhealthy,
                          dr_detail = ''observed status '' @ debug_observed_status (os_status (ac_observed c))\<rparr>]
                   else []);
          dr = stale @ unhealthy;
          target = application_id_display (ac_application_id c);
          version = ds_version (ac_desired c);
          (q1, actions) =
            (if dr = [] then (q, [])
             else (enqueue_default u q target ActUpdate version now,
                   [idempotency_key_new target ActUpdate version]))
      in (q1, Ok (result ''application'' target version (os_desired_version (ac_observed c))
                    (dr = []) dr actions now)))"

section \<open>Resource controller\<close>

record resource_controller =
  rsc_resource :: resource
  rsc_desired_present :: bool
  rsc_observed_present :: "bool option"

definition resource_controller_new :: "resource \<Rightarrow> resource_controller" where
  "resource_controller_new r =
     \<lparr>rsc_resource = r, rsc_desired_present = True, rsc_observed_present = None\<rparr>"

definition resource_controller_observe ::
  "resource_controller \<Rightarrow> bool \<Rightarrow> resource_phase option \<Rightarrow> observation_source \<Rightarrow> string option \<Rightarrow> time \<Rightarrow>
     resource_controller \<times> unit outcome" where
  "resource_controller_observe c present phase source reason at =
     (let c1 = c\<lparr>rsc_observed_present := Some present\<rparr> in
      case phase of
        None \<Rightarrow> (c1, Ok ())
      | Some p \<Rightarrow>
          if p \<noteq> res_phase (rsc_resource c1)
          then (case resource_observe (rsc_resource c1) p source reason at of
                  (r, Ok _) \<Rightarrow> (c1\<lparr>rsc_resource := r\<rparr>, Ok ())
                | (r, Err e) \<Rightarrow> (c1\<lparr>rsc_resource := r\<rparr>, Err e)
                | (r, Panic m) \<Rightarrow> (c1\<lparr>rsc_resource := r\<rparr>, Panic m))
          else (c1, Ok ()))"

definition resource_controller_health :: "resource_controller \<Rightarrow> health_state" where
  "resource_controller_health c =
     (if rsc_observed_present c = Some False then HsUnknown
      else resource_phase_health (res_phase (rsc_resource c)))"

definition resource_reconcile ::
  "uuid \<Rightarrow> uuid \<Rightarrow> resource_controller \<Rightarrow> job_queue \<Rightarrow> time \<Rightarrow> job_queue \<times> reconciliation outcome" where
  "resource_reconcile u1 u2 c q now =
     (let r = rsc_resource c;
          target = resource_id_display (res_id r);
          version = convergence_version r;
          missing = (rsc_desired_present c \<and> rsc_observed_present c \<noteq> Some True);
          (q1, drift1, actions1) =
            (if missing
             then (enqueue_default u1 q target ActProvision version now,
                   [\<lparr>dr_kind = DkMissing,
                     dr_detail = ''desired '' @ res_kind r @ '' present at v'' @
                       show_u64 (res_desired_version r) @ '' but observed '' @
                       debug_option show_bool (rsc_observed_present c)\<rparr>],
                   [idempotency_key_new target ActProvision version])
             else (q, [], []));
          drift2 = (case res_failure r of
                      None \<Rightarrow> []
                    | Some f \<Rightarrow> [\<lparr>dr_kind = DkTerminated,
                        dr_detail = ''attempt '' @ show_u32 (fr_attempts f) @ ''/'' @
                          show_u32 (rp_max_attempts (fr_policy f)) @ '' failed: '' @ fr_reason f\<rparr>]);
          drift3 = (if rsc_desired_present c \<and> rsc_observed_present c = Some True \<and>
                       res_phase r \<noteq> Ready \<and> \<not> missing
                    then [\<lparr>dr_kind = DkUnhealthy,
                           dr_detail = ''resource phase '' @ debug_resource_phase (res_phase r)\<rparr>]
                    else []);
          (q2, drift4, actions2) =
            (if \<not> rsc_desired_present c \<and> res_phase r \<noteq> Deleted
             then (enqueue_default u2 q1 target ActDelete version now,
                   [\<lparr>dr_kind = DkStale,
                     dr_detail = ''resource should be deleted but is '' @
                       debug_resource_phase (res_phase r)\<rparr>],
                   [idempotency_key_new target ActDelete version])
             else (q1, [], []));
          dr = drift1 @ drift2 @ drift3 @ drift4
      in (q2, Ok (result ''resource'' target (res_desired_version r)
                    (case rsc_observed_present c of None \<Rightarrow> 0 | Some _ \<Rightarrow> res_desired_version r)
                    (dr = []) dr (actions1 @ actions2) now)))"

section \<open>Capability controller\<close>

record capability_controller =
  cc_capability :: string
  cc_resource_id :: resource_id
  cc_desired_ready :: bool
  cc_phase :: resource_phase
  cc_agent_claims_ignored :: u32

definition capability_controller_new :: "string \<Rightarrow> resource_id \<Rightarrow> capability_controller" where
  "capability_controller_new capability i =
     \<lparr>cc_capability = capability, cc_resource_id = i, cc_desired_ready = True,
      cc_phase = Provisioning, cc_agent_claims_ignored = 0\<rparr>"

definition observe_readiness :: "capability_controller \<Rightarrow> resource_phase \<Rightarrow> capability_controller" where
  "observe_readiness c phase = c\<lparr>cc_phase := phase\<rparr>"

definition accept_agent_completion :: "capability_controller \<Rightarrow> capability_controller" where
  "accept_agent_completion c = c\<lparr>cc_agent_claims_ignored := cc_agent_claims_ignored c + 1\<rparr>"

definition capability_controller_health :: "capability_controller \<Rightarrow> health_state" where
  "capability_controller_health c = resource_phase_health (cc_phase c)"

text \<open>The cast of a phase to its discriminant.\<close>

fun phase_discriminant :: "resource_phase \<Rightarrow> u64" where
  "phase_discriminant Requested = 0"
| "phase_discriminant Provisioning = 1"
| "phase_discriminant Ready = 2"
| "phase_discriminant Degraded = 3"
| "phase_discriminant Failed = 4"
| "phase_discriminant Deleting = 5"
| "phase_discriminant Deleted = 6"

definition capability_reconcile ::
  "uuid \<Rightarrow> capability_controller \<Rightarrow> job_queue \<Rightarrow> time \<Rightarrow> job_queue \<times> reconciliation outcome" where
  "capability_reconcile u c q now =
     (let target = resource_id_display (cc_resource_id c);
          (q1, dr, actions) =
            (if cc_desired_ready c \<and> cc_phase c \<noteq> Ready
             then (enqueue_default u q target ActProvision 1 now,
                   [\<lparr>dr_kind = DkUnhealthy,
                     dr_detail = ''capability '' @ quoted (cc_capability c) @ '' phase '' @
                       debug_resource_phase (cc_phase c)\<rparr>],
                   [idempotency_key_new target ActProvision 1])
             else (q, [], []))
      in (q1, Ok (result ''capability'' target (u64_of_bool (cc_desired_ready c))
                    (phase_discriminant (cc_phase c)) (dr = []) dr actions now)))"

section \<open>Preview controller\<close>

record preview_controller =
  pc_preview_id :: preview_id
  pc_desired_live :: bool
  pc_observed_live :: bool
  pc_observed_healthy :: bool

definition preview_controller_new :: "preview_id \<Rightarrow> preview_controller" where
  "preview_controller_new i =
     \<lparr>pc_preview_id = i, pc_desired_live = True, pc_observed_live = False, pc_observed_healthy = False\<rparr>"

definition preview_controller_observe :: "preview_controller \<Rightarrow> bool \<Rightarrow> bool \<Rightarrow> preview_controller" where
  "preview_controller_observe c live healthy =
     c\<lparr>pc_observed_live := live, pc_observed_healthy := healthy\<rparr>"

definition preview_controller_health :: "preview_controller \<Rightarrow> health_state" where
  "preview_controller_health c =
     (if \<not> pc_desired_live c then HsPaused
      else (case (pc_observed_live c, pc_observed_healthy c) of
              (False, _) \<Rightarrow> HsProvisioning
            | (True, True) \<Rightarrow> HsHealthy
            | (True, False) \<Rightarrow> HsDegraded))"

definition preview_reconcile ::
  "uuid \<Rightarrow> uuid \<Rightarrow> preview_controller \<Rightarrow> job_queue \<Rightarrow> time \<Rightarrow> job_queue \<times> reconciliation outcome" where
  "preview_reconcile u1 u2 c q now =
     (let target = preview_id_display (pc_preview_id c);
          (q1, drift1, actions1) =
            (if pc_desired_live c \<and> \<not> pc_observed_live c
             then (enqueue_default u1 q target ActProvision 1 now,
                   [\<lparr>dr_kind = DkMissing, dr_detail = ''preview desired live but not running''\<rparr>],
                   [idempotency_key_new target ActProvision 1])
             else (q, [], []));
          (q2, drift2, actions2) =
            (if pc_desired_live c \<and> pc_observed_live c \<and> \<not> pc_observed_healthy c
             then (enqueue_default u2 q1 target ActVerify 1 now,
                   [\<lparr>dr_kind = DkUnhealthy, dr_detail = ''preview failing health checks''\<rparr>],
                   [idempotency_key_new target ActVerify 1])
             else (q1, [], []));
          dr = drift1 @ drift2
      in (q2, Ok (result ''preview'' target (u64_of_bool (pc_desired_live c))
                    (u64_of_bool (pc_observed_live c)) (dr = []) dr (actions1 @ actions2) now)))"

section \<open>Deployment controller\<close>

record deployment_controller =
  dc_key :: string
  dc_desired_artifact :: string
  dc_observed_artifact :: "string option"
  dc_observed_ready :: bool

definition deployment_controller_new :: "string \<Rightarrow> string \<Rightarrow> deployment_controller" where
  "deployment_controller_new key desired =
     \<lparr>dc_key = key, dc_desired_artifact = desired, dc_observed_artifact = None, dc_observed_ready = False\<rparr>"

definition deployment_controller_observe ::
  "deployment_controller \<Rightarrow> string \<Rightarrow> bool \<Rightarrow> deployment_controller" where
  "deployment_controller_observe c artifact ready =
     c\<lparr>dc_observed_artifact := Some artifact, dc_observed_ready := ready\<rparr>"

definition deployment_controller_health :: "deployment_controller \<Rightarrow> health_state" where
  "deployment_controller_health c =
     (case dc_observed_artifact c of
        None \<Rightarrow> HsUnknown
      | Some artifact \<Rightarrow>
          if dc_observed_ready c
          then (if artifact = dc_desired_artifact c then HsHealthy else HsDegraded)
          else HsProvisioning)"

definition deployment_reconcile ::
  "uuid \<Rightarrow> deployment_controller \<Rightarrow> job_queue \<Rightarrow> time \<Rightarrow> job_queue \<times> reconciliation outcome" where
  "deployment_reconcile u c q now =
     (let (q1, dr, actions) =
            (if dc_observed_artifact c \<noteq> Some (dc_desired_artifact c)
             then (enqueue_default u q (dc_key c) ActRollout 1 now,
                   [\<lparr>dr_kind = DkStale,
                     dr_detail = ''observed '' @ debug_option debug_str (dc_observed_artifact c) @
                       '' != desired '' @ quoted (dc_desired_artifact c)\<rparr>],
                   [idempotency_key_new (dc_key c) ActRollout 1])
             else (q, [], []))
      in (q1, Ok (result ''deployment'' (dc_key c) 1
                    (u64_of_bool (dc_observed_artifact c \<noteq> None)) (dr = []) dr actions now)))"

section \<open>Dispatch\<close>

datatype controller =
    ApplicationCtl application_controller
  | ResourceCtl resource_controller
  | CapabilityCtl capability_controller
  | PreviewCtl preview_controller
  | DeploymentCtl deployment_controller

fun reconcile ::
  "uuid \<Rightarrow> uuid \<Rightarrow> controller \<Rightarrow> job_queue \<Rightarrow> time \<Rightarrow> job_queue \<times> reconciliation outcome" where
  "reconcile u1 u2 (ApplicationCtl c) q now = application_reconcile u1 c q now"
| "reconcile u1 u2 (ResourceCtl c) q now = resource_reconcile u1 u2 c q now"
| "reconcile u1 u2 (CapabilityCtl c) q now = capability_reconcile u1 c q now"
| "reconcile u1 u2 (PreviewCtl c) q now = preview_reconcile u1 u2 c q now"
| "reconcile u1 u2 (DeploymentCtl c) q now = deployment_reconcile u1 c q now"

section \<open>The contract\<close>

text \<open>The convergence step a controller wants, from its desired and observed state alone.\<close>

fun planned :: "controller \<Rightarrow> (string \<times> job_action \<times> u64) option" where
  "planned (ApplicationCtl c) =
     (if is_stale (ac_observed c) (ac_desired c) \<or> os_status (ac_observed c) \<noteq> ObsHealthy
      then Some (application_id_display (ac_application_id c), ActUpdate, ds_version (ac_desired c))
      else None)"
| "planned (ResourceCtl c) =
     (let r = rsc_resource c; t = resource_id_display (res_id r); v = convergence_version r in
      if rsc_desired_present c
      then (if rsc_observed_present c \<noteq> Some True then Some (t, ActProvision, v) else None)
      else (if res_phase r \<noteq> Deleted then Some (t, ActDelete, v) else None))"
| "planned (CapabilityCtl c) =
     (if cc_desired_ready c \<and> cc_phase c \<noteq> Ready
      then Some (resource_id_display (cc_resource_id c), ActProvision, 1) else None)"
| "planned (PreviewCtl c) =
     (if \<not> pc_desired_live c then None
      else if \<not> pc_observed_live c then Some (preview_id_display (pc_preview_id c), ActProvision, 1)
      else if \<not> pc_observed_healthy c then Some (preview_id_display (pc_preview_id c), ActVerify, 1)
      else None)"
| "planned (DeploymentCtl c) =
     (if dc_observed_artifact c \<noteq> Some (dc_desired_artifact c)
      then Some (dc_key c, ActRollout, 1) else None)"

definition key_in_flight :: "job_queue \<Rightarrow> idempotency_key \<Rightarrow> bool" where
  "key_in_flight q k = list_ex (\<lambda>j. job_key j = k \<and> is_in_flight (job_state j)) (job_queue_jobs q)"

lemma key_in_flight_iff:
  "key_in_flight q k \<longleftrightarrow> (\<exists>j \<in> set (job_queue_jobs q). job_key j = k \<and> is_in_flight (job_state j))"
  by (auto simp: key_in_flight_def list_ex_iff)

lemma enqueue_default_in_flight:
  assumes "well_keyed q"
  shows "key_in_flight (enqueue_default u q t a v now) (idempotency_key_new t a v)"
proof (rule enqueue_cases [of q t a v u retry_policy_default now])
  fix x
  assume "x \<in> set (job_queue_jobs q)" "job_key x = idempotency_key_new t a v" "is_in_flight (job_state x)"
    "enqueue u q t a v retry_policy_default now = (q, Duplicate (job_ident x))"
  then show ?thesis by (auto simp: enqueue_default_def key_in_flight_iff)
next
  assume "enqueue u q t a v retry_policy_default now =
    (store_job q (new_job u t a v retry_policy_default now), Enqueued (JobId u))"
  moreover have "new_job u t a v retry_policy_default now \<in>
      set (job_queue_jobs (store_job q (new_job u t a v retry_policy_default now)))"
    using jobs_store [OF assms] by blast
  ultimately show ?thesis
    by (force simp: enqueue_default_def key_in_flight_iff is_in_flight_def)
qed

lemma enqueue_default_again:
  assumes "key_in_flight q (idempotency_key_new t a v)"
  shows "enqueue_default u q t a v now = q"
  by (rule enqueue_cases [of q t a v u retry_policy_default now])
    (use assms in \<open>auto simp: enqueue_default_def key_in_flight_iff\<close>)

lemma enqueue_default_exec:
  "enqueue_default u q t a v now = queue_exec C q (QEnqueue u t a v retry_policy_default now)"
  by (simp add: enqueue_default_def)

locale convergence =
  fixes pass :: "uuid \<Rightarrow> uuid \<Rightarrow> 'c \<Rightarrow> job_queue \<Rightarrow> time \<Rightarrow> job_queue \<times> reconciliation outcome"
    and plan :: "'c \<Rightarrow> (string \<times> job_action \<times> u64) option"
  assumes pass_idle: "plan c = None \<Longrightarrow>
      \<exists>rc. pass u1 u2 c q now = (q, Ok rc) \<and> rc_actions rc = [] \<and> (rc_in_sync rc \<longleftrightarrow> rc_drift rc = [])"
    and pass_acts: "plan c = Some (t, a, v) \<Longrightarrow>
      \<exists>rc. \<exists>u \<in> {u1, u2}. pass u1 u2 c q now = (enqueue_default u q t a v now, Ok rc) \<and>
        rc_actions rc = [idempotency_key_new t a v] \<and> rc_drift rc \<noteq> [] \<and> \<not> rc_in_sync rc"
begin

lemma pass_cases:
  obtains (idle) rc where "plan c = None" "pass u1 u2 c q now = (q, Ok rc)" "rc_actions rc = []"
      "rc_in_sync rc \<longleftrightarrow> rc_drift rc = []"
    | (acts) rc u t a v where "plan c = Some (t, a, v)" "u = u1 \<or> u = u2"
      "pass u1 u2 c q now = (enqueue_default u q t a v now, Ok rc)"
      "rc_actions rc = [idempotency_key_new t a v]" "rc_drift rc \<noteq> []" "\<not> rc_in_sync rc"
proof (cases "plan c")
  case None
  then show thesis using pass_idle [of c u1 u2 q now] idle by blast
next
  case (Some p)
  then show thesis using pass_acts [of c _ _ _ u1 u2 q now] acts by (cases p) blast
qed

lemma pass_in_flight:
  assumes "well_keyed q" "pass u1 u2 c q now = (q', Ok rc)" "k \<in> set (rc_actions rc)"
  shows "key_in_flight q' k"
  by (cases rule: pass_cases [of c u1 u2 q now])
    (use assms enqueue_default_in_flight [OF assms(1)] in auto)

lemma pass_repeats:
  assumes "well_keyed q" "pass u1 u2 c q now = (q', r)"
  shows "fst (pass u3 u4 c q' now') = q'"
proof (cases rule: pass_cases [of c u1 u2 q now])
  case (idle rc)
  then show ?thesis using pass_idle [of c u3 u4 q' now'] by auto
next
  case (acts rc u t a v)
  then have "key_in_flight q' (idempotency_key_new t a v)"
    using assms enqueue_default_in_flight [OF assms(1)] by auto
  then have "enqueue_default w q' t a v now' = q'" for w by (rule enqueue_default_again)
  then show ?thesis using acts(1) pass_acts [of c t a v u3 u4 q' now'] by auto
qed

lemma pass_wf:
  assumes "queue_wf q" "job_queue_get q (JobId u1) = None" "job_queue_get q (JobId u2) = None"
    and "pass u1 u2 c q now = (q', r)"
  shows "queue_wf q'"
proof (cases rule: pass_cases [of c u1 u2 q now])
  case (idle rc)
  then show ?thesis using assms by simp
next
  case (acts rc u t a v)
  have "queue_wf (queue_run C q [QEnqueue u t a v retry_policy_default now])" for C
    using assms(1-3) acts(2) by (intro queue_run_wf) auto
  then show ?thesis using acts assms(4) by (simp add: enqueue_default_def)
qed

end

text \<open>What every pass reports when it acts: one key, some drift, and no claim to be in sync.\<close>

definition reports_action :: "reconciliation \<Rightarrow> idempotency_key \<Rightarrow> bool" where
  "reports_action rc k = (rc_actions rc = [k] \<and> rc_drift rc \<noteq> [] \<and> \<not> rc_in_sync rc)"

definition reports_idle :: "reconciliation \<Rightarrow> bool" where
  "reports_idle rc = (rc_actions rc = [] \<and> (rc_in_sync rc \<longleftrightarrow> rc_drift rc = []))"

lemmas report_defs = reports_action_def reports_idle_def result_def

lemma application_pass:
  "planned (ApplicationCtl c) = None \<Longrightarrow>
    \<exists>rc. application_reconcile u c q now = (q, Ok rc) \<and> reports_idle rc"
  "planned (ApplicationCtl c) = Some (t, a, v) \<Longrightarrow>
    \<exists>rc. application_reconcile u c q now = (enqueue_default u q t a v now, Ok rc) \<and>
      reports_action rc (idempotency_key_new t a v)"
  by (auto simp: application_reconcile_def report_defs Let_def split: if_splits)

lemma capability_pass:
  "planned (CapabilityCtl c) = None \<Longrightarrow>
    \<exists>rc. capability_reconcile u c q now = (q, Ok rc) \<and> reports_idle rc"
  "planned (CapabilityCtl c) = Some (t, a, v) \<Longrightarrow>
    \<exists>rc. capability_reconcile u c q now = (enqueue_default u q t a v now, Ok rc) \<and>
      reports_action rc (idempotency_key_new t a v)"
  by (auto simp: capability_reconcile_def report_defs Let_def split: if_splits)

lemma deployment_pass:
  "planned (DeploymentCtl c) = None \<Longrightarrow>
    \<exists>rc. deployment_reconcile u c q now = (q, Ok rc) \<and> reports_idle rc"
  "planned (DeploymentCtl c) = Some (t, a, v) \<Longrightarrow>
    \<exists>rc. deployment_reconcile u c q now = (enqueue_default u q t a v now, Ok rc) \<and>
      reports_action rc (idempotency_key_new t a v)"
  by (auto simp: deployment_reconcile_def report_defs Let_def split: if_splits)

lemma preview_pass:
  "planned (PreviewCtl c) = None \<Longrightarrow>
    \<exists>rc. preview_reconcile u1 u2 c q now = (q, Ok rc) \<and> reports_idle rc"
  "planned (PreviewCtl c) = Some (t, a, v) \<Longrightarrow>
    \<exists>rc. preview_reconcile u1 u2 c q now =
        (enqueue_default (if a = ActProvision then u1 else u2) q t a v now, Ok rc) \<and>
      reports_action rc (idempotency_key_new t a v)"
  by (auto simp: preview_reconcile_def report_defs Let_def split: if_splits)

lemma resource_pass:
  "planned (ResourceCtl c) = None \<Longrightarrow>
    \<exists>rc. resource_reconcile u1 u2 c q now = (q, Ok rc) \<and> reports_idle rc"
  "planned (ResourceCtl c) = Some (t, a, v) \<Longrightarrow>
    \<exists>rc. resource_reconcile u1 u2 c q now =
        (enqueue_default (if a = ActProvision then u1 else u2) q t a v now, Ok rc) \<and>
      reports_action rc (idempotency_key_new t a v)"
  by (cases "rsc_desired_present c"; cases "rsc_observed_present c = Some True";
      cases "res_phase (rsc_resource c) = Deleted";
      auto simp: resource_reconcile_def report_defs Let_def)+

lemma reconcile_idle:
  "planned c = None \<Longrightarrow> \<exists>rc. reconcile u1 u2 c q now = (q, Ok rc) \<and> reports_idle rc"
  using application_pass(1) capability_pass(1) deployment_pass(1) preview_pass(1) resource_pass(1)
  by (cases c) (simp_all only: reconcile.simps)

lemma reconcile_acts:
  assumes "planned c = Some (t, a, v)"
  shows "\<exists>rc. \<exists>u \<in> {u1, u2}. reconcile u1 u2 c q now = (enqueue_default u q t a v now, Ok rc) \<and>
      reports_action rc (idempotency_key_new t a v)"
proof -
  have "\<exists>rc u. (u = u1 \<or> u = u2) \<and> reconcile u1 u2 c q now = (enqueue_default u q t a v now, Ok rc) \<and>
      reports_action rc (idempotency_key_new t a v)"
  proof (cases c)
    case (ApplicationCtl x)
    then show ?thesis using assms application_pass(2) [of x t a v u1 q now] by auto
  next
    case (ResourceCtl x)
    then show ?thesis using assms resource_pass(2) [of x t a v u1 u2 q now]
      by (intro ex_comm [THEN iffD1, OF exI [of _ "if a = ActProvision then u1 else u2"]]) auto
  next
    case (CapabilityCtl x)
    then show ?thesis using assms capability_pass(2) [of x t a v u1 q now] by auto
  next
    case (PreviewCtl x)
    then show ?thesis using assms preview_pass(2) [of x t a v u1 u2 q now]
      by (intro ex_comm [THEN iffD1, OF exI [of _ "if a = ActProvision then u1 else u2"]]) auto
  next
    case (DeploymentCtl x)
    then show ?thesis using assms deployment_pass(2) [of x t a v u1 q now] by auto
  qed
  then show ?thesis by blast
qed

interpretation ctl: convergence reconcile planned
proof unfold_locales
  show "\<exists>rc. reconcile u1 u2 c q now = (q, Ok rc) \<and> rc_actions rc = [] \<and>
      (rc_in_sync rc \<longleftrightarrow> rc_drift rc = [])" if "planned c = None" for c u1 u2 q now
    using reconcile_idle [OF that] by (simp add: reports_idle_def)
  show "\<exists>rc. \<exists>u \<in> {u1, u2}. reconcile u1 u2 c q now = (enqueue_default u q t a v now, Ok rc) \<and>
      rc_actions rc = [idempotency_key_new t a v] \<and> rc_drift rc \<noteq> [] \<and> \<not> rc_in_sync rc"
    if "planned c = Some (t, a, v)" for c t a v u1 u2 q now
    using reconcile_acts [OF that] by (simp add: reports_action_def)
qed

lemma resource_in_sync_iff:
  assumes "resource_reconcile u1 u2 c q now = (q', Ok rc)"
  shows "rc_in_sync rc \<longleftrightarrow> res_failure (rsc_resource c) = None \<and>
    (if rsc_desired_present c then rsc_observed_present c = Some True \<and> res_phase (rsc_resource c) = Ready
     else res_phase (rsc_resource c) = Deleted)"
  using assms
  by (cases "rsc_desired_present c"; cases "rsc_observed_present c = Some True";
      cases "res_phase (rsc_resource c) = Deleted")
    (auto simp: resource_reconcile_def result_def Let_def split: option.splits if_splits)

section \<open>Properties\<close>

text \<open>
  (C5) A pass does what the controller plans. Each of the five controllers succeeds, and either
  has nothing to do, leaves the queue alone and is in sync exactly when it reports no drift, or
  enqueues exactly the one step that \<open>planned\<close> derives from desired and observed state,
  reports its key, reports drift and is not in sync.
\<close>

theorem reconcile_follows_plan:
  "case planned c of
     None \<Rightarrow> \<exists>rc. reconcile u1 u2 c q now = (q, Ok rc) \<and> rc_actions rc = [] \<and>
       (rc_in_sync rc \<longleftrightarrow> rc_drift rc = [])
   | Some (t, a, v) \<Rightarrow> \<exists>rc. \<exists>u \<in> {u1, u2}.
       reconcile u1 u2 c q now =
         (fst (enqueue u q t a v retry_policy_default now), Ok rc) \<and>
       rc_actions rc = [idempotency_key_new t a v] \<and> rc_drift rc \<noteq> [] \<and> \<not> rc_in_sync rc"
proof (cases "planned c")
  case None
  then show ?thesis using ctl.pass_idle [OF None] by simp
next
  case (Some p)
  obtain t a v where p: "p = (t, a, v)" by (cases p) auto
  show ?thesis using ctl.pass_acts [of c t a v u1 u2 q now] Some p by (simp add: enqueue_default_def)
qed

text \<open>
  Reconciliation is repeatable. Whatever a controller enqueued, a later pass of the same
  controller over the resulting queue changes nothing, at any time and with any fresh
  identifiers, and every key the first pass reported is in flight after it.
\<close>

theorem reconcile_repeatable:
  assumes "queue_wf q" "reconcile u1 u2 c q now = (q', Ok rc)"
  shows "fst (reconcile u3 u4 c q' now') = q' \<and>
    (\<forall>k \<in> set (rc_actions rc). \<exists>j \<in> set (job_queue_jobs q'). job_key j = k \<and> is_in_flight (job_state j))"
proof -
  have wk: "well_keyed q" using assms(1) by (simp add: queue_wf_def)
  show ?thesis
    using ctl.pass_repeats [OF wk assms(2)] ctl.pass_in_flight [OF wk assms(2)]
    by (auto simp: key_in_flight_iff)
qed

theorem reconcile_repeatable_witness:
  "\<exists>q' rc. reconcile ''a'' ''b'' (PreviewCtl (preview_controller_new (PreviewId ''7''))) job_queue_new 3 =
       (q', Ok rc) \<and> rc_actions rc \<noteq> [] \<and>
     fst (reconcile ''c'' ''d'' (PreviewCtl (preview_controller_new (PreviewId ''7''))) q' 9) = q'"
proof -
  let ?c = "PreviewCtl (preview_controller_new (PreviewId ''7''))"
  have "planned ?c = Some (''prv_7'', ActProvision, 1)" by (simp add: preview_controller_new_def)
  then obtain rc u where r: "reconcile ''a'' ''b'' ?c job_queue_new 3 =
      (enqueue_default u job_queue_new ''prv_7'' ActProvision 1 3, Ok rc)" "rc_actions rc \<noteq> []"
    using reconcile_acts [of ?c "''prv_7''" ActProvision 1 "''a''" "''b''" job_queue_new 3]
    by (auto simp: reports_action_def)
  show ?thesis using r reconcile_repeatable [OF queue_wf_new r(1), of "''c''" "''d''" 9] by blast
qed

text \<open>
  Controllers keep the queue invariant: a pass over a well-formed queue with identifiers
  not in use leaves a well-formed queue, so no controller can put a second job with a key in
  flight.
\<close>

theorem reconcile_keeps_queue:
  assumes "queue_wf q" "job_queue_get q (JobId u1) = None" "job_queue_get q (JobId u2) = None"
    and "reconcile u1 u2 c q now = (q', r)"
  shows "queue_wf q'"
  by (rule ctl.pass_wf [OF assms])

theorem reconcile_keeps_queue_witness:
  "queue_wf (fst (reconcile ''a'' ''b'' (DeploymentCtl (deployment_controller_new ''web'' ''sha256:1''))
     job_queue_new 3))"
proof -
  have n: "job_queue_get job_queue_new i = None" for i
    by (simp add: job_queue_get_def job_queue_new_def btm_get_def)
  show ?thesis
    by (rule reconcile_keeps_queue [OF queue_wf_new n n]) (rule prod.collapse [symmetric])
qed

text \<open>
  A recovered resource that is out of sync. Being in sync needs an empty failure record: here a resource
  that failed, was provisioned again, is ready and observed present reports a mismatch in every pass,
  and no pass enqueues anything for it.
\<close>

theorem recovered_resource_out_of_sync:
  "\<exists>c. resource_reachable chrono_ns (rsc_resource c) \<and> rsc_desired_present c \<and>
     rsc_observed_present c = Some True \<and> res_phase (rsc_resource c) = Ready \<and>
     resource_controller_health c = HsHealthy \<and>
     (\<forall>u1 u2 q now. \<exists>rc. resource_reconcile u1 u2 c q now = (q, Ok rc) \<and>
        \<not> rc_in_sync rc \<and> rc_actions rc = [])"
proof -
  obtain r0 where r0: "resource_request ''0a'' ''preview'' 1 0 = Ok r0" "res_phase r0 = Requested"
    "res_transitions r0 \<noteq> []" "res_failure r0 = None"
    by (rule resource_requested)
  let ?r1 = "resource_exec chrono_ns r0 (OpFail ''boom'' [] retry_policy_default 1)"
  let ?r2 = "resource_exec chrono_ns ?r1 (OpObserve Provisioning PlatformProbe None 2)"
  let ?r3 = "resource_exec chrono_ns ?r2 (OpObserve Ready PlatformProbe None 3)"
  have reach: "resource_reachable chrono_ns ?r3"
    by (intro resource_reachable.operated resource_reachable.requested [OF r0(1)])
  have d: "retry_at chrono_ns retry_policy_default 1 1 = Some (1 + 5 * nanos_per_sec)"
    by (simp add: retry_at_def delay_for_default_value [OF chrono_ns.chrono_laws_axioms])
      (simp add: chrono_ns_def)
  have r1: "res_phase ?r1 = Failed" "res_transitions ?r1 \<noteq> []" "res_failure ?r1 \<noteq> None"
    using r0 d by (simp_all add: resource_fail_def resource_observe_legal Let_def)
  then have r2: "res_phase ?r2 = Provisioning" "res_transitions ?r2 \<noteq> []" "res_failure ?r2 \<noteq> None"
    by (simp_all add: resource_observe_legal)
  then have r3: "res_phase ?r3 = Ready" "res_failure ?r3 \<noteq> None"
    by (simp_all add: resource_observe_legal)
  define c where "c = \<lparr>rsc_resource = ?r3, rsc_desired_present = True, rsc_observed_present = Some True\<rparr>"
  have c: "rsc_resource c = ?r3" "rsc_desired_present c" "rsc_observed_present c = Some True"
    by (simp_all add: c_def)
  then have idle: "planned (ResourceCtl c) = None" by simp
  have "\<exists>rc. resource_reconcile u1 u2 c q now = (q, Ok rc) \<and> \<not> rc_in_sync rc \<and> rc_actions rc = []"
    for u1 u2 q now
  proof -
    obtain rc where rc: "resource_reconcile u1 u2 c q now = (q, Ok rc)" "reports_idle rc"
      using resource_pass(1) [OF idle] by blast
    have "\<not> rc_in_sync rc" using resource_in_sync_iff [OF rc(1)] r3(2) c(1) by metis
    with rc show ?thesis by (auto simp: reports_idle_def)
  qed
  moreover have "resource_controller_health c = HsHealthy"
    using c(3) r3(1) unfolding resource_controller_health_def c(1) by simp
  ultimately show ?thesis using reach r3(1) c by metis
qed

text \<open>
  When a resource is in sync: exactly when it has no failure record and is either wanted,
  observed present and ready, or unwanted and deleted.
\<close>

theorem resource_in_sync_exact:
  assumes "reconcile u1 u2 (ResourceCtl c) q now = (q', Ok rc)"
  shows "rc_in_sync rc \<longleftrightarrow> res_failure (rsc_resource c) = None \<and>
    (if rsc_desired_present c then rsc_observed_present c = Some True \<and> res_phase (rsc_resource c) = Ready
     else res_phase (rsc_resource c) = Deleted)"
  using resource_in_sync_iff assms by simp

theorem resource_in_sync_exact_witness:
  "\<exists>r q' rc. reconcile ''a'' ''b'' (ResourceCtl (resource_controller_new r)) job_queue_new 3 = (q', Ok rc) \<and>
     \<not> rc_in_sync rc"
proof -
  obtain r where r: "resource_request ''0a'' ''preview'' 1 0 = Ok r" "res_phase r = Requested"
    by (rule resource_requested)
  let ?c = "resource_controller_new r"
  have "planned (ResourceCtl ?c) \<noteq> None" by (simp add: resource_controller_new_def Let_def)
  then obtain t a v where "planned (ResourceCtl ?c) = Some (t, a, v)" by auto
  then obtain q' rc where e: "reconcile ''a'' ''b'' (ResourceCtl ?c) job_queue_new 3 = (q', Ok rc)"
    using reconcile_acts by blast
  show ?thesis
    using e resource_in_sync_exact [OF e] r(2) by (auto simp: resource_controller_new_def)
qed

text \<open>
  Health comes from platform observations only. No controller is healthy without them: a
  capability exactly when its observed phase is ready, however often an agent claims completion;
  a resource exactly when it is ready and not observed absent; a preview exactly when it is
  wanted, observed live and observed healthy; a deployment exactly when the desired artifact is
  observed ready.
\<close>

theorem health_needs_observation:
  "capability_controller_health (accept_agent_completion cc) = capability_controller_health cc \<and>
   (capability_controller_health cc = HsHealthy \<longleftrightarrow> cc_phase cc = Ready) \<and>
   (resource_controller_health rc = HsHealthy \<longleftrightarrow>
      res_phase (rsc_resource rc) = Ready \<and> rsc_observed_present rc \<noteq> Some False) \<and>
   (preview_controller_health pc = HsHealthy \<longleftrightarrow>
      pc_desired_live pc \<and> pc_observed_live pc \<and> pc_observed_healthy pc) \<and>
   (deployment_controller_health dc = HsHealthy \<longleftrightarrow>
      dc_observed_ready dc \<and> dc_observed_artifact dc = Some (dc_desired_artifact dc))"
proof -
  have "resource_phase_health p = HsHealthy \<longleftrightarrow> p = Ready" for p by (cases p) simp_all
  then show ?thesis
    by (auto simp: capability_controller_health_def accept_agent_completion_def
        resource_controller_health_def preview_controller_health_def deployment_controller_health_def
        split: bool.splits option.splits)
qed

end
