(* ===== verification/Runtime_Model.thy ===== *)
theory Runtime_Model
  imports Labrys_Prelude
begin

text \<open>
  The runtime vocabulary of \<open>labrys-core/src/runtime.rs\<close> that deployments and previews use:
  runtime kinds and profiles, endpoints, sandbox limits, build results, the simulated build,
  the run-time limits and the health evaluation; and, from \<open>inspector.rs\<close>, the explicit human
  approval and the gate on the order of broad changes. Detection of runtimes and framework
  conventions are not here.
\<close>

type_synonym u16 = "16 word"

definition show_u16 :: "u16 \<Rightarrow> string" where
  "show_u16 w = show_nat (unat w)"

section \<open>Kinds, profiles, endpoints\<close>

datatype runtime_kind = RkGeneric | RkNode | RkDotNet | RkPython | RkRust | RkExpo

fun runtime_canonical_name :: "runtime_kind \<Rightarrow> string" where
  "runtime_canonical_name RkGeneric = ''generic''"
| "runtime_canonical_name RkNode = ''node''"
| "runtime_canonical_name RkDotNet = ''dotnet''"
| "runtime_canonical_name RkPython = ''python''"
| "runtime_canonical_name RkRust = ''rust''"
| "runtime_canonical_name RkExpo = ''expo''"

datatype support_tier = Tier0 | Tier1 | Tier2 | Tier3

datatype runtime_profile = ProfileDevelopment | ProfileProduction

datatype health_status =
    HealthStarting | HealthHealthy | HealthUnhealthy string | HealthUnknown string

definition health_status_is_healthy :: "health_status \<Rightarrow> bool" where
  "health_status_is_healthy h = (h = HealthHealthy)"

record endpoint =
  ep_host :: string
  ep_port :: u16
  ep_exposed :: bool

definition endpoint_new :: "string \<Rightarrow> u16 \<Rightarrow> bool \<Rightarrow> endpoint outcome" where
  "endpoint_new host port exposed =
     (if port = 0 then Err (InvalidRuntime ''port must be in 1..=65535'')
      else Ok \<lparr>ep_host = host, ep_port = port, ep_exposed = exposed\<rparr>)"

definition endpoint_loopback :: "u16 \<Rightarrow> bool \<Rightarrow> endpoint outcome" where
  "endpoint_loopback port exposed = endpoint_new ''127.0.0.1'' port exposed"

section \<open>Sandbox limits\<close>

datatype network_mode = NetDisabled | NetIsolated | NetBridged

record sandbox_limits =
  sl_cpu_millicpus :: u32
  sl_memory_mb :: u32
  sl_timeout_secs :: u64
  sl_readonly_root :: bool
  sl_network :: network_mode
  sl_drop_capabilities :: "string list"
  sl_max_processes :: u32

definition docker_default :: sandbox_limits where
  "docker_default =
     \<lparr>sl_cpu_millicpus = 1000, sl_memory_mb = 512, sl_timeout_secs = 600, sl_readonly_root = True,
      sl_network = NetIsolated, sl_drop_capabilities = [''ALL''], sl_max_processes = 128\<rparr>"

definition limits_validate :: "sandbox_limits \<Rightarrow> unit outcome" where
  "limits_validate l =
     (if sl_cpu_millicpus l = 0 then Err (InvalidRuntime ''sandbox cpu_millicpus must be > 0'')
      else if sl_memory_mb l = 0 then Err (InvalidRuntime ''sandbox memory_mb must be > 0'')
      else if sl_timeout_secs l = 0 then Err (InvalidRuntime ''sandbox timeout_secs must be > 0'')
      else if sl_max_processes l = 0 then Err (InvalidRuntime ''sandbox max_processes must be > 0'')
      else Ok ())"

definition allows_port_exposure :: "sandbox_limits \<Rightarrow> bool" where
  "allows_port_exposure l = (sl_network l \<noteq> NetDisabled)"

record runtime_config =
  cfg_kind :: runtime_kind
  cfg_tier :: support_tier
  cfg_profile :: runtime_profile
  cfg_port :: u16
  cfg_healthcheck_path :: "string option"
  cfg_dockerfile :: "string option"
  cfg_run_command :: "string list"
  cfg_oci_image :: "string option"
  cfg_limits :: sandbox_limits

definition config_endpoint :: "runtime_config \<Rightarrow> endpoint outcome" where
  "config_endpoint cfg = endpoint_loopback (cfg_port cfg) (allows_port_exposure (cfg_limits cfg))"

section \<open>Builds\<close>

datatype build_status = BuildSucceeded | BuildFailed | BuildCancelled

fun debug_build_status :: "build_status \<Rightarrow> string" where
  "debug_build_status BuildSucceeded = ''Succeeded''"
| "debug_build_status BuildFailed = ''Failed''"
| "debug_build_status BuildCancelled = ''Cancelled''"

record build_result =
  br_status :: build_status
  br_cancelled :: bool
  br_limit_enforced :: "string option"
  br_recovery :: "string option"
  br_detail :: string

definition build_succeeded :: "string \<Rightarrow> build_result" where
  "build_succeeded detail =
     \<lparr>br_status = BuildSucceeded, br_cancelled = False, br_limit_enforced = None,
      br_recovery = None, br_detail = detail\<rparr>"

definition build_failed :: "string \<Rightarrow> build_result" where
  "build_failed detail =
     \<lparr>br_status = BuildFailed, br_cancelled = False, br_limit_enforced = None,
      br_recovery = None, br_detail = detail\<rparr>"

definition build_timed_out :: "u64 \<Rightarrow> u64 \<Rightarrow> build_result" where
  "build_timed_out timeout_secs elapsed_secs =
     \<lparr>br_status = BuildCancelled, br_cancelled = True,
      br_limit_enforced = Some (''timeout_secs='' @ show_u64 timeout_secs),
      br_recovery = Some ''increase sandbox timeout_secs or reduce build work, then retry'',
      br_detail = ''build exceeded timeout: elapsed '' @ show_u64 elapsed_secs @ ''s > limit '' @
        show_u64 timeout_secs @ ''s''\<rparr>"

definition build_limit_cancelled :: "string \<Rightarrow> string \<Rightarrow> build_result" where
  "build_limit_cancelled limit detail =
     \<lparr>br_status = BuildCancelled, br_cancelled = True, br_limit_enforced = Some limit,
      br_recovery = Some ''raise the enforced sandbox limit or reduce usage, then retry'',
      br_detail = detail\<rparr>"

definition build_is_success :: "build_result \<Rightarrow> bool" where
  "build_is_success b = (br_status b = BuildSucceeded)"

definition simulate_build :: "runtime_config \<Rightarrow> u64 \<Rightarrow> build_result" where
  "simulate_build cfg elapsed_secs =
     (if elapsed_secs > sl_timeout_secs (cfg_limits cfg)
      then build_timed_out (sl_timeout_secs (cfg_limits cfg)) elapsed_secs
      else build_succeeded (runtime_canonical_name (cfg_kind cfg) @ '' build finished in '' @
             show_u64 elapsed_secs @ ''s on port '' @ show_u16 (cfg_port cfg)))"

definition enforce_run_usage :: "runtime_config \<Rightarrow> u32 \<Rightarrow> u32 \<Rightarrow> unit outcome" where
  "enforce_run_usage cfg processes memory_mb =
     (let l = cfg_limits cfg in
      if processes > sl_max_processes l
      then Err (LimitExceeded (''max_processes='' @ show_u32 (sl_max_processes l))
             (''process count '' @ show_u32 processes @ '' exceeds sandbox limit '' @
              show_u32 (sl_max_processes l)))
      else if memory_mb > sl_memory_mb l
      then Err (LimitExceeded (''memory_mb='' @ show_u32 (sl_memory_mb l))
             (''memory usage '' @ show_u32 memory_mb @ ''MiB exceeds sandbox limit '' @
              show_u32 (sl_memory_mb l) @ ''MiB''))
      else Ok ())"

definition evaluate_health ::
  "runtime_config \<Rightarrow> u16 option \<Rightarrow> string option \<Rightarrow> health_status" where
  "evaluate_health cfg http_status path =
     (case http_status of
        None \<Rightarrow>
          if cfg_healthcheck_path cfg = None then HealthUnknown ''no health signal reported''
          else HealthUnhealthy ''no health signal reported''
      | Some status \<Rightarrow>
          (case cfg_profile cfg of
             ProfileDevelopment \<Rightarrow>
               if 200 \<le> status \<and> status < 400 then HealthHealthy
               else HealthUnhealthy (''dev server answered '' @ show_u16 status)
           | ProfileProduction \<Rightarrow>
               (let expected = cfg_healthcheck_path cfg;
                    path_ok = (case (expected, path) of
                                 (None, _) \<Rightarrow> True
                               | (Some _, None) \<Rightarrow> False
                               | (Some e, Some p) \<Rightarrow> e = p)
                in if 200 \<le> status \<and> status < 300 \<and> path_ok then HealthHealthy
                   else HealthUnhealthy (''production health check failed: status '' @ show_u16 status @
                          '' on path '' @ (case path of Some p \<Rightarrow> p | None \<Rightarrow> ''<none>'') @
                          '' (expected '' @ (case expected of Some e \<Rightarrow> e | None \<Rightarrow> ''<tcp>'') @ '')''))))"

section \<open>Approvals and the change sequence\<close>

record explicit_approval =
  ea_approved :: bool
  ea_approver :: string
  ea_proposal_summary :: string

definition approval_granted :: "string \<Rightarrow> string \<Rightarrow> explicit_approval" where
  "approval_granted approver summary =
     \<lparr>ea_approved = True, ea_approver = approver, ea_proposal_summary = summary\<rparr>"

definition approval_denied :: "string \<Rightarrow> string \<Rightarrow> explicit_approval" where
  "approval_denied approver summary =
     \<lparr>ea_approved = False, ea_approver = approver, ea_proposal_summary = summary\<rparr>"

text \<open>The condition every approval gate tests: granted, and by someone with a name.\<close>

definition granted_and_named :: "explicit_approval \<Rightarrow> bool" where
  "granted_and_named a = (ea_approved a \<and> trim (ea_approver a) \<noteq> [])"

datatype change_step = Inspect | Understand | ModelStep | Propose | Apply

fun predecessors :: "change_step \<Rightarrow> change_step list" where
  "predecessors Inspect = []"
| "predecessors Understand = [Inspect]"
| "predecessors ModelStep = [Inspect, Understand]"
| "predecessors Propose = [Inspect, Understand, ModelStep]"
| "predecessors Apply = [Inspect, Understand, ModelStep, Propose]"

fun debug_change_step :: "change_step \<Rightarrow> string" where
  "debug_change_step Inspect = ''Inspect''"
| "debug_change_step Understand = ''Understand''"
| "debug_change_step ModelStep = ''Model''"
| "debug_change_step Propose = ''Propose''"
| "debug_change_step Apply = ''Apply''"

fun join :: "string \<Rightarrow> string list \<Rightarrow> string" where
  "join sep [] = []"
| "join sep [x] = x"
| "join sep (x # y # xs) = x @ sep @ join sep (y # xs)"

definition right_arrow :: string where
  "right_arrow = [CHR '' '', CHR 0xE2, CHR 0x86, CHR 0x92, CHR '' '']"

definition change_gate_check :: "change_step list \<Rightarrow> change_step \<Rightarrow> unit outcome" where
  "change_gate_check completed requested =
     (let missing = filter (\<lambda>s. s \<notin> set completed) (predecessors requested) in
      if missing = [] then Ok ()
      else Err (SequenceViolation (''broad changes require '' @
             join right_arrow [''inspect'', ''understand'', ''model'', ''propose'', ''apply''] @
             ''; missing ['' @ join '', '' (map debug_change_step missing) @ ''] before '' @
             debug_change_step requested)))"

section \<open>Properties\<close>

text \<open>
  Production health needs the configured path to answer 2xx. A production workload is
  reported healthy exactly when a status in 200..299 was observed and, if a health path is
  configured, on that very path; without any status it is never healthy in either profile.
\<close>

theorem production_health_gate:
  assumes "cfg_profile cfg = ProfileProduction"
  shows "evaluate_health cfg status path = HealthHealthy \<longleftrightarrow>
    (\<exists>s. status = Some s \<and> 200 \<le> s \<and> s < 300) \<and>
    (cfg_healthcheck_path cfg = None \<or> cfg_healthcheck_path cfg = path)"
  using assms by (auto simp: evaluate_health_def Let_def split: option.splits)

theorem production_health_gate_witness:
  "\<exists>cfg. cfg_profile cfg = ProfileProduction \<and> cfg_healthcheck_path cfg = Some ''/healthz'' \<and>
     evaluate_health cfg (Some 302) (Some ''/healthz'') \<noteq> HealthHealthy \<and>
     evaluate_health cfg (Some 204) (Some ''/healthz'') = HealthHealthy"
proof -
  define cfg where "cfg = \<lparr>cfg_kind = RkNode, cfg_tier = Tier1, cfg_profile = ProfileProduction, cfg_port = 80,
    cfg_healthcheck_path = Some ''/healthz'', cfg_dockerfile = None, cfg_run_command = [],
    cfg_oci_image = None, cfg_limits = docker_default\<rparr>"
  have c: "cfg_profile cfg = ProfileProduction" "cfg_healthcheck_path cfg = Some ''/healthz''"
    by (simp_all add: cfg_def)
  show ?thesis using c production_health_gate [OF c(1)] by (intro exI [of _ cfg]) simp
qed

text \<open>
  The change gate admits a step exactly when every earlier step of inspect, understand,
  model, propose is among the completed ones, so along any sequence of admitted steps each
  step comes after all its predecessors.
\<close>

theorem change_gate_order:
  "(change_gate_check completed requested = Ok () \<longleftrightarrow> set (predecessors requested) \<subseteq> set completed) \<and>
   (\<not> set (predecessors requested) \<subseteq> set completed \<longleftrightarrow>
      (\<exists>m. change_gate_check completed requested = Err (SequenceViolation m)))"
  by (auto simp: change_gate_check_def Let_def filter_empty_conv)

end
