(* ===== verification/Deployment.thy ===== *)
theory Deployment
  imports Runtime_Model Redaction Ids
begin

text \<open>
  Production deployments, images, domains, rollouts and rollbacks: \<open>labrys-core/src/deployment.rs\<close>.

  A deployment is a record that moves on the graph \<open>deployment_can_transition_to\<close> and logs each
  move; a rollout is the ordered history of one environment with the deployment that serves.
  \<open>execute_rollback\<close> restores a deployment to healthy outside that graph, so the logs of a
  rollout are legal for the larger relation \<open>rollout_edge\<close>. The environment of a rollout is the
  inductive predicate \<open>rollout_reachable\<close>; its invariant \<open>rollout_wf\<close> carries the health gate.
  A minted \<open>DeploymentId\<close> is an argument of the operation that mints it.
\<close>

section \<open>Revisions, images and logs\<close>

definition database_data_warning :: string where
  "database_data_warning =
     ''deployment rollback restores the application image only; database data is not '' @
     ''automatically rolled back. Review migrations applied since the target revision '' @
     ''and restore data through an explicit, approved data operation.''"

definition configuration_data_warning :: string where
  "configuration_data_warning =
     ''configuration rollback changes platform configuration only; it does not revert '' @
     ''the running image or database data.''"

record revision =
  rev_source_sha :: string
  rev_config_hash :: string
  rev_capability_hash :: "string option"
  rev_introduces_migration :: bool

definition revision_new :: "string \<Rightarrow> string \<Rightarrow> string option \<Rightarrow> revision" where
  "revision_new source_sha config_hash capability_hash =
     \<lparr>rev_source_sha = source_sha, rev_config_hash = config_hash,
      rev_capability_hash = capability_hash, rev_introduces_migration = False\<rparr>"

definition with_migration :: "revision \<Rightarrow> bool \<Rightarrow> revision" where
  "with_migration r introduces = r\<lparr>rev_introduces_migration := introduces\<rparr>"

datatype image_source = ImageGeneric | ImageNative

fun image_source_label :: "image_source \<Rightarrow> string" where
  "image_source_label ImageGeneric = ''generic container runtime''"
| "image_source_label ImageNative = ''native runtime adapter''"

record image =
  img_reference :: string
  img_digest :: string
  img_source :: image_source
  img_runtime_kind :: runtime_kind
  img_revision_sha :: string

definition is_addressable :: "image \<Rightarrow> bool" where
  "is_addressable i = (starts_with (img_digest i) ''sha256:'' \<and> img_reference i \<noteq> [])"

datatype log_level = LogInfo | LogWarn | LogError

record deployment_log =
  dl_level :: log_level
  dl_message :: string
  dl_at :: time

definition digest_of :: "string \<Rightarrow> string \<Rightarrow> string" where
  "digest_of base revision_sha =
     (let hash = fold fnv_step (base @ revision_sha) 0xcbf29ce484222325;
          second = fold fnv_step (revision_sha @ base) hash
      in hex16 hash @ hex16 second)"

definition build_image ::
  "runtime_config \<Rightarrow> build_result \<Rightarrow> revision \<Rightarrow> string list \<Rightarrow> image outcome" where
  "build_image cfg build revision secrets =
     (if cfg_profile cfg \<noteq> ProfileProduction
      then Err (DeploymentError ''development profiles never mint an OCI image'')
      else if br_status build \<noteq> BuildSucceeded
      then Err (DeploymentError (''cannot build image from '' @ debug_build_status (br_status build) @
             '' build: '' @ redact_reason (br_detail build) secrets))
      else (case cfg_oci_image cfg of
              None \<Rightarrow> Err (DeploymentError (''runtime '' @ quoted (runtime_canonical_name (cfg_kind cfg)) @
                        '' produces no OCI artifact''))
            | Some base \<Rightarrow>
                (let source = (if cfg_kind cfg = RkGeneric then ImageGeneric else ImageNative);
                     digest = ''sha256:'' @ digest_of base (rev_source_sha revision)
                 in Ok \<lparr>img_reference = base @ ''@'' @ digest, img_digest = digest, img_source = source,
                        img_runtime_kind = cfg_kind cfg, img_revision_sha = rev_source_sha revision\<rparr>)))"

section \<open>Domains\<close>

record domain =
  dom_id :: domain_id
  dom_environment_id :: environment_id
  dom_hostname :: string
  dom_tls :: bool
  dom_deployment :: "deployment_id option"

definition domain_new :: "uuid \<Rightarrow> environment_id \<Rightarrow> string \<Rightarrow> bool \<Rightarrow> domain" where
  "domain_new u environment_id hostname tls =
     \<lparr>dom_id = DomainId u, dom_environment_id = environment_id, dom_hostname = hostname,
      dom_tls = tls, dom_deployment = None\<rparr>"

definition is_routable :: "domain \<Rightarrow> bool" where
  "is_routable d = (trim (dom_hostname d) \<noteq> [] \<and> \<not> list_ex is_whitespace (dom_hostname d))"

section \<open>The deployment lifecycle\<close>

datatype deployment_phase =
    DpPending | DpBuilding | DpDeploying | DpHealthy | DpDegraded | DpFailed | DpSuperseded
  | DpRolledBack

fun debug_deployment_phase :: "deployment_phase \<Rightarrow> string" where
  "debug_deployment_phase DpPending = ''Pending''"
| "debug_deployment_phase DpBuilding = ''Building''"
| "debug_deployment_phase DpDeploying = ''Deploying''"
| "debug_deployment_phase DpHealthy = ''Healthy''"
| "debug_deployment_phase DpDegraded = ''Degraded''"
| "debug_deployment_phase DpFailed = ''Failed''"
| "debug_deployment_phase DpSuperseded = ''Superseded''"
| "debug_deployment_phase DpRolledBack = ''RolledBack''"

definition deployment_is_terminal :: "deployment_phase \<Rightarrow> bool" where
  "deployment_is_terminal p = (p = DpRolledBack)"

definition serves_traffic :: "deployment_phase \<Rightarrow> bool" where
  "serves_traffic p = (p = DpHealthy)"

fun deployment_can_transition_to :: "deployment_phase \<Rightarrow> deployment_phase \<Rightarrow> bool" where
  "deployment_can_transition_to DpPending next = (next \<in> {DpBuilding, DpFailed})"
| "deployment_can_transition_to DpBuilding next = (next \<in> {DpDeploying, DpFailed})"
| "deployment_can_transition_to DpDeploying next = (next \<in> {DpHealthy, DpDegraded, DpFailed})"
| "deployment_can_transition_to DpHealthy next = (next \<in> {DpDegraded, DpSuperseded, DpRolledBack})"
| "deployment_can_transition_to DpDegraded next = (next \<in> {DpHealthy, DpFailed, DpRolledBack})"
| "deployment_can_transition_to DpFailed next = (next = DpRolledBack)"
| "deployment_can_transition_to DpSuperseded next = (next = DpRolledBack)"
| "deployment_can_transition_to DpRolledBack next = False"

record deployment_transition =
  dt_from :: deployment_phase
  dt_to :: deployment_phase
  dt_at :: time
  dt_reason :: "string option"

record deployment =
  dp_id :: deployment_id
  dp_application_id :: application_id
  dp_environment_id :: environment_id
  dp_revision :: revision
  dp_build :: "build_result option"
  dp_image :: "image option"
  dp_runtime :: runtime_config
  dp_resources :: "resource_id list"
  dp_endpoint :: "endpoint option"
  dp_health :: health_status
  dp_phase :: deployment_phase
  dp_logs :: "deployment_log list"
  dp_rollback_target :: "deployment_id option"
  dp_transitions :: "deployment_transition list"

definition deployment_new ::
  "uuid \<Rightarrow> application_id \<Rightarrow> environment_id \<Rightarrow> revision \<Rightarrow> runtime_config \<Rightarrow> resource_id list \<Rightarrow>
   deployment_id option \<Rightarrow> time \<Rightarrow> deployment outcome" where
  "deployment_new u application_id environment_id revision runtime resources rollback_target at =
     (if cfg_profile runtime \<noteq> ProfileProduction
      then Err (DeploymentError ''deployments require a production runtime profile'')
      else Ok \<lparr>dp_id = DeploymentId u, dp_application_id = application_id,
        dp_environment_id = environment_id, dp_revision = revision, dp_build = None,
        dp_image = None, dp_runtime = runtime, dp_resources = resources, dp_endpoint = None,
        dp_health = HealthStarting, dp_phase = DpPending, dp_logs = [],
        dp_rollback_target = rollback_target,
        dp_transitions = [\<lparr>dt_from = DpPending, dt_to = DpPending, dt_at = at, dt_reason = None\<rparr>]\<rparr>)"

definition deployment_move_to ::
  "deployment \<Rightarrow> deployment_phase \<Rightarrow> string option \<Rightarrow> time \<Rightarrow> deployment \<times> unit outcome" where
  "deployment_move_to d next reason at =
     (if \<not> deployment_can_transition_to (dp_phase d) next
      then (d, Err (DeploymentError (''illegal deployment transition '' @ debug_deployment_phase (dp_phase d) @
             '' -> '' @ debug_deployment_phase next @ '' for '' @ deployment_id_display (dp_id d))))
      else if next = dp_phase d
      then (d, Err (DeploymentError (''deployment '' @ deployment_id_display (dp_id d) @ '' is already '' @
             debug_deployment_phase next)))
      else (let d1 = d\<lparr>dp_phase := next\<rparr> in
            if dp_transitions d1 = [] then (d1, Panic ''never empty'')
            else (d1\<lparr>dp_transitions := dp_transitions d1 @
                    [\<lparr>dt_from = dt_to (last (dp_transitions d1)), dt_to = next, dt_at = at,
                      dt_reason = reason\<rparr>]\<rparr>, Ok ())))"

definition push_log :: "deployment \<Rightarrow> log_level \<Rightarrow> string \<Rightarrow> time \<Rightarrow> deployment" where
  "push_log d level message at =
     d\<lparr>dp_logs := dp_logs d @ [\<lparr>dl_level = level, dl_message = message, dl_at = at\<rparr>]\<rparr>"

definition start_build :: "deployment \<Rightarrow> time \<Rightarrow> deployment \<times> unit outcome" where
  "start_build d at = deployment_move_to d DpBuilding None at"

definition record_build ::
  "deployment \<Rightarrow> build_result \<Rightarrow> string list \<Rightarrow> time \<Rightarrow> deployment \<times> unit outcome" where
  "record_build d build secrets at =
     (if dp_phase d \<noteq> DpBuilding
      then (d, Err (DeploymentError (''deployment '' @ deployment_id_display (dp_id d) @
             '' cannot record a build while '' @ debug_deployment_phase (dp_phase d))))
      else
        (let d1 = d\<lparr>dp_build := Some build\<rparr> in
         if \<not> build_is_success build
         then (let detail = redact_reason (br_detail build) secrets
               in deployment_move_to (push_log d1 LogError detail at) DpFailed (Some detail) at)
         else and_then (d1, build_image (dp_runtime d1) build (dp_revision d1) secrets)
                (\<lambda>d1 img.
                   deployment_move_to
                     ((push_log d1 LogInfo
                         (''image '' @ img_digest img @ '' built from '' @
                          image_source_label (img_source img)) at)\<lparr>dp_image := Some img\<rparr>)
                     DpDeploying None at)))"

definition record_health ::
  "deployment \<Rightarrow> health_status \<Rightarrow> string list \<Rightarrow> time \<Rightarrow> deployment \<times> unit outcome" where
  "record_health d health secrets at =
     (case health of
        HealthHealthy \<Rightarrow> deployment_move_to (d\<lparr>dp_health := health\<rparr>) DpHealthy None at
      | HealthUnhealthy reason \<Rightarrow>
          (let target = (if dp_phase d = DpDeploying then DpFailed else DpDegraded);
               reason = redact_reason reason secrets
           in deployment_move_to (d\<lparr>dp_health := HealthUnhealthy reason\<rparr>) target (Some reason) at)
      | _ \<Rightarrow> (d\<lparr>dp_health := health\<rparr>, Ok ()))"

definition mark_superseded :: "deployment \<Rightarrow> time \<Rightarrow> deployment \<times> unit outcome" where
  "mark_superseded d at = deployment_move_to d DpSuperseded (Some ''newer revision promoted'') at"

definition mark_rolled_back :: "deployment \<Rightarrow> string \<Rightarrow> time \<Rightarrow> deployment \<times> unit outcome" where
  "mark_rolled_back d reason at = deployment_move_to d DpRolledBack (Some reason) at"

definition attach_endpoint :: "deployment \<Rightarrow> endpoint \<Rightarrow> deployment \<times> unit outcome" where
  "attach_endpoint d e =
     (if \<not> ep_exposed e
      then (d, Err (DeploymentError ''cannot attach a non-exposed endpoint to a deployment''))
      else (d\<lparr>dp_endpoint := Some e\<rparr>, Ok ()))"

definition is_promoted :: "deployment \<Rightarrow> bool" where
  "is_promoted d = serves_traffic (dp_phase d)"

text \<open>\<open>{:?}\<close> of an identifier shows the UUID with its hyphens.\<close>

definition hyphenated :: "uuid \<Rightarrow> string" where
  "hyphenated u = take 8 u @ ''-'' @ take 4 (drop 8 u) @ ''-'' @ take 4 (drop 12 u) @ ''-'' @
     take 4 (drop 16 u) @ ''-'' @ drop 20 u"

fun debug_deployment_id :: "deployment_id \<Rightarrow> string" where
  "debug_deployment_id (DeploymentId u) = ''DeploymentId('' @ hyphenated u @ '')''"

definition deployment_event_detail :: "deployment \<Rightarrow> string" where
  "deployment_event_detail d =
     ''deployment '' @ deployment_id_display (dp_id d) @ '' ('' @
     runtime_canonical_name (cfg_kind (dp_runtime d)) @ '') phase '' @ debug_deployment_phase (dp_phase d) @
     '' revision '' @ rev_source_sha (dp_revision d) @ '' image '' @
     (case dp_image d of Some i \<Rightarrow> img_digest i | None \<Rightarrow> ''no-image'') @ '' rollback '' @
     debug_option debug_deployment_id (dp_rollback_target d)"

section \<open>Rollouts\<close>

record rollout =
  ro_deployments :: "deployment list"
  ro_current :: "deployment_id option"

definition rollout_new :: rollout where
  "rollout_new = \<lparr>ro_deployments = [], ro_current = None\<rparr>"

definition rollout_get :: "rollout \<Rightarrow> deployment_id \<Rightarrow> deployment option" where
  "rollout_get ro did = find (\<lambda>d. dp_id d = did) (ro_deployments ro)"

text \<open>A write through the reference \<open>get_mut\<close> returns: the first deployment with the id.\<close>

fun put_deployment :: "deployment_id \<Rightarrow> deployment \<Rightarrow> deployment list \<Rightarrow> deployment list" where
  "put_deployment did d' [] = []"
| "put_deployment did d' (d # ds) = (if dp_id d = did then d' # ds else d # put_deployment did d' ds)"

definition rollout_put :: "rollout \<Rightarrow> deployment_id \<Rightarrow> deployment \<Rightarrow> rollout" where
  "rollout_put ro did d' = ro\<lparr>ro_deployments := put_deployment did d' (ro_deployments ro)\<rparr>"

definition rollback_target :: "rollout \<Rightarrow> deployment_id option" where
  "rollback_target ro =
     map_option dp_id
       (find (\<lambda>d. dp_phase d \<in> {DpHealthy, DpSuperseded} \<and> dp_image d \<noteq> None)
         (rev (ro_deployments ro)))"

definition rollout_begin ::
  "uuid \<Rightarrow> rollout \<Rightarrow> application_id \<Rightarrow> environment_id \<Rightarrow> revision \<Rightarrow> runtime_config \<Rightarrow>
   resource_id list \<Rightarrow> time \<Rightarrow> rollout \<times> deployment_id outcome" where
  "rollout_begin u ro application_id environment_id revision runtime resources at =
     and_then (ro, deployment_new u application_id environment_id revision runtime resources
                     (rollback_target ro) at)
       (\<lambda>ro d. (ro\<lparr>ro_deployments := ro_deployments ro @ [d]\<rparr>, Ok (dp_id d)))"

definition promote :: "rollout \<Rightarrow> deployment_id \<Rightarrow> time \<Rightarrow> rollout \<times> unit outcome" where
  "promote ro did at =
     (case rollout_get ro did of
        None \<Rightarrow> (ro, Err (NotFound (''deployment '' @ deployment_id_display did)))
      | Some d \<Rightarrow>
          if dp_phase d \<noteq> DpHealthy
          then (ro, Err (DeploymentError (''only a healthy deployment can be promoted, '' @
                 deployment_id_display did @ '' is '' @ debug_deployment_phase (dp_phase d))))
          else and_then
            (case ro_current ro of
               Some previous \<Rightarrow>
                 if previous \<noteq> did
                 then (case rollout_get ro previous of
                         Some old \<Rightarrow>
                           if dp_phase old = DpHealthy
                           then (let (old', r) = mark_superseded old at
                                 in (rollout_put ro previous old', r))
                           else (ro, Ok ())
                       | None \<Rightarrow> (ro, Ok ()))
                 else (ro, Ok ())
             | None \<Rightarrow> (ro, Ok ()))
            (\<lambda>ro _. (ro\<lparr>ro_current := Some did\<rparr>, Ok ())))"

definition current_digest :: "rollout \<Rightarrow> string option" where
  "current_digest ro =
     (case ro_current ro of
        None \<Rightarrow> None
      | Some did \<Rightarrow>
          (case rollout_get ro did of None \<Rightarrow> None | Some d \<Rightarrow> map_option img_digest (dp_image d)))"

section \<open>Rollback\<close>

datatype rollback_kind = RollbackSource | RollbackDeployment | RollbackConfiguration

fun debug_rollback_kind :: "rollback_kind \<Rightarrow> string" where
  "debug_rollback_kind RollbackSource = ''Source''"
| "debug_rollback_kind RollbackDeployment = ''Deployment''"
| "debug_rollback_kind RollbackConfiguration = ''Configuration''"

definition touches_runtime_image :: "rollback_kind \<Rightarrow> bool" where
  "touches_runtime_image k = (k = RollbackDeployment)"

record rollback_plan =
  rb_kind :: rollback_kind
  rb_from :: deployment_id
  rb_to :: deployment_id
  rb_warnings :: "string list"
  rb_migration_in_delta :: bool
  rb_requires_approval :: bool

definition source_rollback_warning :: string where
  "source_rollback_warning =
     ''source rollback rebuilds from an earlier revision; it does not revert the '' @
     ''currently running image until the rebuild is promoted''"

definition migration_warning :: string where
  "migration_warning =
     ''the delta includes a database migration; schema and data may be ahead of the '' @
     ''rollback target''"

definition plan_rollback :: "rollback_kind \<Rightarrow> deployment \<Rightarrow> deployment \<Rightarrow> rollback_plan outcome" where
  "plan_rollback kind from to =
     (if dp_id from = dp_id to
      then Err (DeploymentError ''rollback target must differ from the current deployment'')
      else if dp_image to = None
      then Err (DeploymentError (''rollback target '' @ deployment_id_display (dp_id to) @
             '' has no built image''))
      else
        (let migration_in_delta = rev_introduces_migration (dp_revision from);
             warnings = (case kind of
                 RollbackDeployment \<Rightarrow> [database_data_warning]
               | RollbackSource \<Rightarrow> [source_rollback_warning]
               | RollbackConfiguration \<Rightarrow> [configuration_data_warning]);
             warnings = (if migration_in_delta \<and> kind \<noteq> RollbackConfiguration
                         then warnings @ [migration_warning] else warnings)
         in Ok \<lparr>rb_kind = kind, rb_from = dp_id from, rb_to = dp_id to, rb_warnings = warnings,
                rb_migration_in_delta = migration_in_delta, rb_requires_approval = True\<rparr>))"

definition select_rollback_target :: "rollout \<Rightarrow> deployment_id \<Rightarrow> deployment_id option" where
  "select_rollback_target ro current =
     map_option dp_id
       (find (\<lambda>d. dp_id d \<noteq> current \<and> dp_image d \<noteq> None \<and> dp_phase d \<noteq> DpFailed)
         (rev (ro_deployments ro)))"

record rollback_outcome =
  ou_kind :: rollback_kind
  ou_from :: deployment_id
  ou_to :: deployment_id
  ou_traffic_moved :: bool
  ou_detail :: string

text \<open>The first write of a rollback: the source leaves service.\<close>

definition roll_back_source ::
  "rollout \<Rightarrow> rollback_plan \<Rightarrow> explicit_approval \<Rightarrow> time \<Rightarrow> rollout \<times> unit outcome" where
  "roll_back_source ro plan approval at =
     (case rollout_get ro (rb_from plan) of
        Some source \<Rightarrow>
          if dp_phase source = DpHealthy \<or> dp_phase source = DpDegraded
          then (let (source', r) = mark_rolled_back source
                      (''rolled back to '' @ deployment_id_display (rb_to plan) @ '' by '' @
                       ea_approver approval) at
                in (rollout_put ro (rb_from plan) source', r))
          else (ro, Ok ())
      | None \<Rightarrow> (ro, Ok ()))"

text \<open>The second: the target is healthy, with the phase it had before any write in its log.\<close>

definition restored :: "deployment \<Rightarrow> deployment_phase \<Rightarrow> time \<Rightarrow> deployment" where
  "restored target target_phase at =
     target\<lparr>dp_phase := DpHealthy,
            dp_transitions := dp_transitions target @
              [\<lparr>dt_from = target_phase, dt_to = DpHealthy, dt_at = at,
                dt_reason = Some ''restored by rollback''\<rparr>]\<rparr>"

definition restore_target :: "rollout \<Rightarrow> rollback_plan \<Rightarrow> deployment_phase \<Rightarrow> time \<Rightarrow> rollout" where
  "restore_target ro plan target_phase at =
     (case rollout_get ro (rb_to plan) of
        Some target \<Rightarrow>
          if dp_phase target \<noteq> DpHealthy
          then rollout_put ro (rb_to plan) (restored target target_phase at)
          else ro
      | None \<Rightarrow> ro)"

definition repoint_domain :: "rollback_plan \<Rightarrow> domain \<Rightarrow> domain" where
  "repoint_domain plan dmn =
     (if dom_deployment dmn = Some (rb_from plan) then dmn\<lparr>dom_deployment := Some (rb_to plan)\<rparr> else dmn)"

definition execute_rollback ::
  "rollout \<Rightarrow> rollback_plan \<Rightarrow> explicit_approval \<Rightarrow> domain list \<Rightarrow> time \<Rightarrow>
   (rollout \<times> domain list) \<times> rollback_outcome outcome" where
  "execute_rollback ro plan approval domains at =
     (if \<not> ea_approved approval \<or> trim (ea_approver approval) = []
      then ((ro, domains), Err (ApprovalRequired (''rollback '' @ debug_rollback_kind (rb_kind plan) @ '' '' @
             deployment_id_display (rb_from plan) @ '' -> '' @ deployment_id_display (rb_to plan) @
             '' requires a granted, named human approval'')))
      else if rb_kind plan \<noteq> RollbackDeployment
      then ((ro, domains), Ok \<lparr>ou_kind = rb_kind plan, ou_from = rb_from plan, ou_to = rb_to plan,
             ou_traffic_moved = False, ou_detail = join '' | '' (rb_warnings plan)\<rparr>)
      else
        (case rollout_get ro (rb_to plan) of
           None \<Rightarrow> ((ro, domains), Err (NotFound (''deployment '' @ deployment_id_display (rb_to plan))))
         | Some target \<Rightarrow>
             (let target_phase = dp_phase target in
              if target_phase \<notin> {DpSuperseded, DpRolledBack, DpHealthy}
              then ((ro, domains), Err (DeploymentError (''rollback target '' @
                     deployment_id_display (rb_to plan) @ '' is '' @ debug_deployment_phase target_phase @
                     '', not a safe target'')))
              else
                (case roll_back_source ro plan approval at of
                   (ro1, Ok _) \<Rightarrow>
                     (((restore_target ro1 plan target_phase at)\<lparr>ro_current := Some (rb_to plan)\<rparr>,
                       map (repoint_domain plan) domains),
                      Ok \<lparr>ou_kind = rb_kind plan, ou_from = rb_from plan, ou_to = rb_to plan,
                          ou_traffic_moved = True, ou_detail = database_data_warning\<rparr>)
                 | (ro1, Err e) \<Rightarrow> ((ro1, domains), Err e)
                 | (ro1, Panic m) \<Rightarrow> ((ro1, domains), Panic m)))))"

definition attach_domain ::
  "domain \<Rightarrow> deployment \<Rightarrow> explicit_approval \<Rightarrow> domain \<times> unit outcome" where
  "attach_domain dmn d approval =
     (if \<not> ea_approved approval \<or> trim (ea_approver approval) = []
      then (dmn, Err (ApprovalRequired (''domain change for '' @ quoted (dom_hostname dmn) @
             '' requires explicit approval'')))
      else if \<not> is_routable dmn
      then (dmn, Err (DeploymentError (''domain '' @ quoted (dom_hostname dmn) @ '' is not routable'')))
      else if \<not> is_promoted d
      then (dmn, Err (DeploymentError (''cannot route '' @ quoted (dom_hostname dmn) @
             '' to unpromoted deployment '' @ deployment_id_display (dp_id d) @ '' ('' @
             debug_deployment_phase (dp_phase d) @ '')'')))
      else (dmn\<lparr>dom_deployment := Some (dp_id d)\<rparr>, Ok ()))"

section \<open>Lifecycle and logs\<close>

definition phase_log :: "deployment \<Rightarrow> (deployment_phase \<times> deployment_phase) list" where
  "phase_log d = map (\<lambda>t. (dt_from t, dt_to t)) (dp_transitions d)"

text \<open>The graph together with the restorations \<open>execute_rollback\<close> writes past it.\<close>

definition rollout_edge :: "deployment_phase \<Rightarrow> deployment_phase \<Rightarrow> bool" where
  "rollout_edge p q =
     (deployment_can_transition_to p q \<or> (p \<in> {DpSuperseded, DpRolledBack} \<and> q = DpHealthy))"

definition deployment_moved :: "deployment \<Rightarrow> deployment_phase \<Rightarrow> deployment \<Rightarrow> bool" where
  "deployment_moved d p d' = (\<exists>reason at. deployment_move_to d p reason at = (d', Ok ()))"

definition log_wf :: "deployment \<Rightarrow> bool" where
  "log_wf d = (phase_log d \<noteq> [] \<and> hd (phase_log d) = (DpPending, DpPending) \<and>
     snd (last (phase_log d)) = dp_phase d \<and> linked_log (phase_log d) \<and>
     legal_log rollout_edge (phase_log d))"

definition rollout_moved :: "deployment \<Rightarrow> deployment_phase \<Rightarrow> deployment \<Rightarrow> bool" where
  "rollout_moved d p d' =
     (deployment_moved d p d' \<or>
      (log_wf d \<and> p = DpHealthy \<and> dp_phase d \<in> {DpSuperseded, DpRolledBack} \<and>
       (\<exists>at. d' = restored d (dp_phase d) at)))"

lemma phase_log_nonempty [simp]: "phase_log d = [] \<longleftrightarrow> dp_transitions d = []"
  by (simp add: phase_log_def)

lemma deployment_no_self_loop [simp]: "\<not> deployment_can_transition_to p p"
  by (cases p) simp_all

text \<open>The deployment a legal move leaves behind.\<close>

definition moved_to ::
  "deployment \<Rightarrow> deployment_phase \<Rightarrow> string option \<Rightarrow> time \<Rightarrow> deployment" where
  "moved_to d p reason at =
     d\<lparr>dp_phase := p, dp_transitions := dp_transitions d @
        [\<lparr>dt_from = dt_to (last (dp_transitions d)), dt_to = p, dt_at = at, dt_reason = reason\<rparr>]\<rparr>"

lemma move_to_illegal:
  "\<not> deployment_can_transition_to (dp_phase d) p \<Longrightarrow>
   \<exists>m. deployment_move_to d p reason at = (d, Err (DeploymentError m))"
  by (simp add: deployment_move_to_def)

lemma move_to_legal:
  assumes "deployment_can_transition_to (dp_phase d) p" "dp_transitions d \<noteq> []"
  shows "deployment_move_to d p reason at = (moved_to d p reason at, Ok ())"
proof -
  from assms(1) have "p \<noteq> dp_phase d" by auto
  with assms show ?thesis by (simp add: deployment_move_to_def moved_to_def Let_def)
qed

lemma move_to_OkD:
  assumes "deployment_move_to d p reason at = (d', Ok ())"
  shows "deployment_can_transition_to (dp_phase d) p" "dp_transitions d \<noteq> []"
    and "d' = moved_to d p reason at"
proof -
  show *: "deployment_can_transition_to (dp_phase d) p" "dp_transitions d \<noteq> []"
    using assms by (auto simp: deployment_move_to_def Let_def split: if_splits)
  show "d' = moved_to d p reason at" using move_to_legal [OF *] assms by simp
qed

lemma phase_log_moved_to [simp]:
  "dp_transitions d \<noteq> [] \<Longrightarrow>
   phase_log (moved_to d p reason at) = phase_log d @ [(snd (last (phase_log d)), p)]"
  by (simp add: phase_log_def moved_to_def last_map)

lemma moved_to_fields [simp]:
  "dp_phase (moved_to d p reason at) = p" "dp_image (moved_to d p reason at) = dp_image d"
  "dp_id (moved_to d p reason at) = dp_id d" "dp_health (moved_to d p reason at) = dp_health d"
  by (simp_all add: moved_to_def)

lemma restored_fields [simp]:
  "dp_phase (restored d p at) = DpHealthy" "dp_image (restored d p at) = dp_image d"
  "dp_id (restored d p at) = dp_id d" "dp_health (restored d p at) = dp_health d"
  "phase_log (restored d p at) = phase_log d @ [(p, DpHealthy)]"
  by (simp_all add: restored_def phase_log_def)

interpretation deploy_life: lifecycle deployment_can_transition_to dp_phase phase_log deployment_moved
proof unfold_locales
  fix d p d'
  assume "deployment_moved d p d'"
  then obtain reason at where m: "deployment_move_to d p reason at = (d', Ok ())"
    by (auto simp: deployment_moved_def)
  note f = move_to_OkD [OF m]
  from f(1) show "deployment_can_transition_to (dp_phase d) p" .
  from f show "dp_phase d' = p" by simp
  from f show "phase_log d \<noteq> [] \<and>
      phase_log d' = phase_log d @ [(snd (last (phase_log d)), p)]" by simp
qed

interpretation rollout_life: lifecycle rollout_edge dp_phase phase_log rollout_moved
proof unfold_locales
  fix d p d'
  assume m: "rollout_moved d p d'"
  show "rollout_edge (dp_phase d) p"
    using m deploy_life.moved_legal unfolding rollout_moved_def rollout_edge_def by blast
  show "dp_phase d' = p"
    using m deploy_life.moved_phase unfolding rollout_moved_def by auto
  show "phase_log d \<noteq> [] \<and> phase_log d' = phase_log d @ [(snd (last (phase_log d)), p)]"
    using m deploy_life.moved_log unfolding rollout_moved_def log_wf_def by auto
qed

lemma log_wf_moved:
  assumes "rollout_moved d p d'" "log_wf d"
  shows "log_wf d'"
proof -
  from assms(2) have w: "snd (last (phase_log d)) = dp_phase d" "linked_log (phase_log d)"
    "legal_log rollout_edge (phase_log d)" "phase_log d \<noteq> []"
    "hd (phase_log d) = (DpPending, DpPending)"
    unfolding log_wf_def by blast+
  have "hd (phase_log d') = (DpPending, DpPending)"
    using rollout_life.moved_log [OF assms(1)] w(4,5) by simp
  with rollout_life.moved_wf [OF assms(1) w(1-3)] show ?thesis unfolding log_wf_def by blast
qed

text \<open>The health gate: a deployment that was promoted once passed from deploying to healthy.\<close>

definition passed_gate :: "deployment \<Rightarrow> bool" where
  "passed_gate d = ((DpDeploying, DpHealthy) \<in> set (phase_log d))"

definition gated :: "deployment \<Rightarrow> bool" where
  "gated d =
     ((dp_phase d \<in> {DpDeploying, DpHealthy, DpDegraded, DpSuperseded, DpRolledBack} \<longrightarrow>
         dp_image d \<noteq> None) \<and>
      (dp_phase d \<in> {DpHealthy, DpDegraded, DpSuperseded, DpRolledBack} \<longrightarrow> passed_gate d))"

definition deployment_wf :: "deployment \<Rightarrow> bool" where
  "deployment_wf d = (log_wf d \<and> gated d)"

lemma log_wf_nonempty: "log_wf d \<Longrightarrow> dp_transitions d \<noteq> []"
  by (simp add: log_wf_def)

lemma log_wf_last: "log_wf d \<Longrightarrow> snd (last (phase_log d)) = dp_phase d"
  by (simp add: log_wf_def)

lemma passed_gate_moved_to:
  "log_wf d \<Longrightarrow> passed_gate (moved_to d p reason at) \<longleftrightarrow>
     passed_gate d \<or> (dp_phase d = DpDeploying \<and> p = DpHealthy)"
  using log_wf_nonempty [of d] log_wf_last [of d] by (auto simp: passed_gate_def)

lemma passed_gate_restored [simp]:
  "passed_gate (restored d p at) \<longleftrightarrow> passed_gate d \<or> p = DpDeploying"
  by (auto simp: passed_gate_def)

lemma wf_frame [simp]:
  "log_wf (d\<lparr>dp_health := h\<rparr>) = log_wf d" "log_wf (d\<lparr>dp_build := b\<rparr>) = log_wf d"
  "log_wf (d\<lparr>dp_image := i\<rparr>) = log_wf d" "log_wf (d\<lparr>dp_endpoint := e\<rparr>) = log_wf d"
  "log_wf (d\<lparr>dp_logs := l\<rparr>) = log_wf d"
  "passed_gate (d\<lparr>dp_health := h\<rparr>) = passed_gate d" "passed_gate (d\<lparr>dp_build := b\<rparr>) = passed_gate d"
  "passed_gate (d\<lparr>dp_image := i\<rparr>) = passed_gate d" "passed_gate (d\<lparr>dp_endpoint := e\<rparr>) = passed_gate d"
  "passed_gate (d\<lparr>dp_logs := l\<rparr>) = passed_gate d"
  by (simp_all add: log_wf_def phase_log_def passed_gate_def)

lemma gated_frame [simp]:
  "gated (d\<lparr>dp_health := h\<rparr>) = gated d" "gated (d\<lparr>dp_build := b\<rparr>) = gated d"
  "gated (d\<lparr>dp_endpoint := e\<rparr>) = gated d" "gated (d\<lparr>dp_logs := l\<rparr>) = gated d"
  by (simp_all add: gated_def)

text \<open>A move keeps the invariant when the image is there for the phases that need it.\<close>

lemma move_to_wf:
  assumes "log_wf d" "gated d"
    and "p = DpDeploying \<Longrightarrow> dp_image d \<noteq> None" "p = DpDegraded \<Longrightarrow> dp_phase d \<noteq> DpDeploying"
    and "p = DpRolledBack \<Longrightarrow> dp_phase d \<noteq> DpFailed"
  shows "deployment_wf (fst (deployment_move_to d p reason at))"
proof (cases "deployment_can_transition_to (dp_phase d) p")
  case False
  then show ?thesis using move_to_illegal [OF False, of reason at] assms(1,2)
    by (auto simp: deployment_wf_def)
next
  case True
  have r: "deployment_move_to d p reason at = (moved_to d p reason at, Ok ())"
    by (rule move_to_legal [OF True log_wf_nonempty [OF assms(1)]])
  then have "rollout_moved d p (moved_to d p reason at)"
    by (auto simp: rollout_moved_def deployment_moved_def)
  then have "log_wf (moved_to d p reason at)" using log_wf_moved assms(1) by blast
  moreover have "gated (moved_to d p reason at)"
    using True assms unfolding gated_def passed_gate_moved_to [OF assms(1)]
    by (cases "dp_phase d"; cases p) simp_all
  ultimately show ?thesis by (simp add: r deployment_wf_def)
qed

section \<open>Runs of a rollout\<close>

datatype deployment_op =
    OpStartBuild time
  | OpRecordBuild build_result "string list" time
  | OpRecordHealth health_status "string list" time
  | OpMarkSuperseded time
  | OpMarkRolledBack string time
  | OpAttachEndpoint endpoint
  | OpPushLog log_level string time

fun deployment_exec :: "deployment \<Rightarrow> deployment_op \<Rightarrow> deployment \<times> unit outcome" where
  "deployment_exec d (OpStartBuild at) = start_build d at"
| "deployment_exec d (OpRecordBuild b secrets at) = record_build d b secrets at"
| "deployment_exec d (OpRecordHealth h secrets at) = record_health d h secrets at"
| "deployment_exec d (OpMarkSuperseded at) = mark_superseded d at"
| "deployment_exec d (OpMarkRolledBack reason at) = mark_rolled_back d reason at"
| "deployment_exec d (OpAttachEndpoint e) = attach_endpoint d e"
| "deployment_exec d (OpPushLog level message at) = (push_log d level message at, Ok ())"

datatype rollout_op =
    RoBegin uuid application_id environment_id revision runtime_config "resource_id list" time
  | RoUpdate deployment_id deployment_op
  | RoPromote deployment_id time
  | RoRollback rollback_plan explicit_approval time

fun rollout_exec :: "rollout \<Rightarrow> rollout_op \<Rightarrow> rollout" where
  "rollout_exec ro (RoBegin u app env revn rt res at) = fst (rollout_begin u ro app env revn rt res at)"
| "rollout_exec ro (RoUpdate did oper) =
     (case rollout_get ro did of
        None \<Rightarrow> ro
      | Some d \<Rightarrow> rollout_put ro did (fst (deployment_exec d oper)))"
| "rollout_exec ro (RoPromote did at) = fst (promote ro did at)"
| "rollout_exec ro (RoRollback plan approval at) = fst (fst (execute_rollback ro plan approval [] at))"

text \<open>
  What a caller respects: a minted id is new, a plan joins two different deployments (as
  \<open>plan_rollback\<close> makes them), and a failed deployment is not marked rolled back by hand.
\<close>

fun rollout_admissible :: "rollout \<Rightarrow> rollout_op \<Rightarrow> bool" where
  "rollout_admissible ro (RoBegin u app env revn rt res at) = (rollout_get ro (DeploymentId u) = None)"
| "rollout_admissible ro (RoUpdate did (OpMarkRolledBack reason at)) =
     (case rollout_get ro did of None \<Rightarrow> True | Some d \<Rightarrow> dp_phase d \<noteq> DpFailed)"
| "rollout_admissible ro (RoRollback plan approval at) = (rb_from plan \<noteq> rb_to plan)"
| "rollout_admissible ro oper = True"

inductive rollout_reachable :: "rollout \<Rightarrow> bool" where
  start: "rollout_reachable rollout_new"
| step: "rollout_reachable ro \<Longrightarrow> rollout_admissible ro oper \<Longrightarrow> rollout_reachable (rollout_exec ro oper)"

fun rollout_run :: "rollout \<Rightarrow> rollout_op list \<Rightarrow> rollout" where
  "rollout_run ro [] = ro"
| "rollout_run ro (oper # opers) = rollout_run (rollout_exec ro oper) opers"

fun rollout_admissible_run :: "rollout \<Rightarrow> rollout_op list \<Rightarrow> bool" where
  "rollout_admissible_run ro [] = True"
| "rollout_admissible_run ro (oper # opers) =
     (rollout_admissible ro oper \<and> rollout_admissible_run (rollout_exec ro oper) opers)"

lemma rollout_run_reachable:
  "rollout_reachable ro \<Longrightarrow> rollout_admissible_run ro opers \<Longrightarrow> rollout_reachable (rollout_run ro opers)"
  by (induction opers arbitrary: ro) (auto intro: rollout_reachable.step)

definition rollout_wf :: "rollout \<Rightarrow> bool" where
  "rollout_wf ro =
     (distinct (map dp_id (ro_deployments ro)) \<and>
      (\<forall>d \<in> set (ro_deployments ro). deployment_wf d) \<and>
      (\<forall>c. ro_current ro = Some c \<longrightarrow> (\<exists>d. rollout_get ro c = Some d \<and> passed_gate d)))"

lemma rollout_getD:
  "rollout_get ro i = Some d \<Longrightarrow> d \<in> set (ro_deployments ro) \<and> dp_id d = i"
  by (auto simp: rollout_get_def find_Some_iff)

lemma find_put_deployment:
  assumes "dp_id d' = i"
  shows "find (\<lambda>d. dp_id d = j) (put_deployment i d' ds) =
    (if j = i \<and> find (\<lambda>d. dp_id d = i) ds \<noteq> None then Some d' else find (\<lambda>d. dp_id d = j) ds)"
  using assms by (induction ds) auto

lemma put_deployment_facts:
  "dp_id d' = i \<Longrightarrow> map dp_id (put_deployment i d' ds) = map dp_id ds"
  "set (put_deployment i d' ds) \<subseteq> insert d' (set ds)"
  by (induction ds) auto

lemma rollout_get_put:
  assumes "dp_id d' = i"
  shows "rollout_get (rollout_put ro i d') j =
    (if j = i \<and> rollout_get ro i \<noteq> None then Some d' else rollout_get ro j)"
  using find_put_deployment [OF assms] by (simp add: rollout_get_def rollout_put_def)

lemma rollout_get_current [simp]: "rollout_get (ro\<lparr>ro_current := c\<rparr>) i = rollout_get ro i"
  by (simp add: rollout_get_def)

lemma rollout_put_current [simp]: "ro_current (rollout_put ro i d) = ro_current ro"
  by (simp add: rollout_put_def)

text \<open>Replacing a deployment by one with its id, its gate and the invariant keeps the rollout.\<close>

lemma rollout_put_wf:
  assumes "rollout_wf ro" "rollout_get ro i = Some d" "dp_id d' = i" "deployment_wf d'"
    and "passed_gate d \<Longrightarrow> passed_gate d'"
  shows "rollout_wf (rollout_put ro i d')"
  unfolding rollout_wf_def
proof (intro conjI allI impI)
  let ?ds = "put_deployment i d' (ro_deployments ro)"
  have ds: "ro_deployments (rollout_put ro i d') = ?ds" by (simp add: rollout_put_def)
  show "distinct (map dp_id (ro_deployments (rollout_put ro i d')))"
    using assms(1) put_deployment_facts(1) [OF assms(3)] by (simp add: ds rollout_wf_def)
  show "\<forall>d \<in> set (ro_deployments (rollout_put ro i d')). deployment_wf d"
    using assms(1,4) put_deployment_facts(2) [of i d' "ro_deployments ro"]
    by (auto simp: ds rollout_wf_def)
  fix c
  assume "ro_current (rollout_put ro i d') = Some c"
  then obtain e where "rollout_get ro c = Some e" "passed_gate e"
    using assms(1) by (auto simp: rollout_wf_def)
  with assms show "\<exists>d. rollout_get (rollout_put ro i d') c = Some d \<and> passed_gate d"
    by (auto simp: rollout_get_put)
qed

lemma rollout_wf_get: "rollout_wf ro \<Longrightarrow> rollout_get ro i = Some d \<Longrightarrow> deployment_wf d \<and> dp_id d = i"
  using rollout_getD by (auto simp: rollout_wf_def)

lemma rollout_set_current_wf:
  "rollout_wf ro \<Longrightarrow> rollout_get ro i = Some d \<Longrightarrow> passed_gate d \<Longrightarrow>
   rollout_wf (ro\<lparr>ro_current := Some i\<rparr>)"
  by (simp add: rollout_wf_def)

lemma move_to_frame [simp]:
  "dp_id (fst (deployment_move_to d p reason at)) = dp_id d"
  "dp_image (fst (deployment_move_to d p reason at)) = dp_image d"
  "passed_gate d \<Longrightarrow> passed_gate (fst (deployment_move_to d p reason at))"
  by (auto simp: deployment_move_to_def Let_def passed_gate_def phase_log_def)

lemmas deployment_op_defs = start_build_def record_build_def record_health_def mark_superseded_def
  mark_rolled_back_def attach_endpoint_def push_log_def

lemma record_build_frame:
  "dp_id (fst (record_build d b secrets at)) = dp_id d"
  "passed_gate d \<Longrightarrow> passed_gate (fst (record_build d b secrets at))"
  by (cases "build_image (dp_runtime d) b (dp_revision d) secrets";
      simp add: record_build_def push_log_def Let_def)+

lemma exec_frame:
  "dp_id (fst (deployment_exec d oper)) = dp_id d"
  "passed_gate d \<Longrightarrow> passed_gate (fst (deployment_exec d oper))"
  by (cases oper; simp add: record_build_frame start_build_def record_health_def mark_superseded_def
        mark_rolled_back_def attach_endpoint_def push_log_def Let_def split: health_status.split)+

lemma record_build_wf:
  assumes "deployment_wf d"
  shows "deployment_wf (fst (record_build d b secrets at))"
proof (cases "dp_phase d = DpBuilding")
  case False
  with assms show ?thesis by (simp add: record_build_def)
next
  case True
  have wf: "log_wf d" "gated d" using assms by (simp_all add: deployment_wf_def)
  have g: "gated (d\<lparr>dp_build := b', dp_logs := l, dp_image := i\<rparr>)" for b' i l
    using True by (simp add: gated_def)
  show ?thesis
  proof (cases "build_is_success b")
    case False
    with True show ?thesis
      using move_to_wf [of "d\<lparr>dp_build := Some b, dp_logs := l\<rparr>" DpFailed for l] wf
      by (simp add: record_build_def push_log_def Let_def)
  next
    case ok: True
    show ?thesis
    proof (cases "build_image (dp_runtime d) b (dp_revision d) secrets")
      case (Ok img)
      show ?thesis
        using move_to_wf [of "d\<lparr>dp_build := Some b, dp_logs := l, dp_image := Some img\<rparr>" DpDeploying for l]
          wf g True ok Ok by (simp add: record_build_def push_log_def Let_def)
    qed (use True ok assms in \<open>simp_all add: record_build_def Let_def deployment_wf_def\<close>)
  qed
qed

lemma record_health_wf:
  "deployment_wf d \<Longrightarrow> deployment_wf (fst (record_health d h secrets at))"
  by (cases h) (auto simp: record_health_def Let_def deployment_wf_def [of d]
      intro!: move_to_wf, simp_all add: deployment_wf_def)

lemma deployment_wf_frame [simp]:
  "deployment_wf (d\<lparr>dp_endpoint := e\<rparr>) = deployment_wf d" "deployment_wf (d\<lparr>dp_logs := l\<rparr>) = deployment_wf d"
  by (simp_all add: deployment_wf_def)

lemma exec_wf:
  assumes "deployment_wf d" "\<And>reason at. oper = OpMarkRolledBack reason at \<Longrightarrow> dp_phase d \<noteq> DpFailed"
  shows "deployment_wf (fst (deployment_exec d oper))"
proof -
  have wf: "log_wf d" "gated d" using assms(1) by (simp_all add: deployment_wf_def)
  show ?thesis
    using assms wf by (cases oper)
      (auto simp: record_build_wf record_health_wf start_build_def mark_superseded_def mark_rolled_back_def
        attach_endpoint_def push_log_def intro!: move_to_wf)
qed

text \<open>The source of a rollback after its first write.\<close>

definition withdrawn :: "rollback_plan \<Rightarrow> explicit_approval \<Rightarrow> time \<Rightarrow> deployment \<Rightarrow> deployment" where
  "withdrawn plan approval at d =
     (if dp_phase d = DpHealthy \<or> dp_phase d = DpDegraded
      then moved_to d DpRolledBack (Some (''rolled back to '' @ deployment_id_display (rb_to plan) @
             '' by '' @ ea_approver approval)) at
      else d)"

lemma withdrawn_fields [simp]:
  "dp_id (withdrawn plan approval at d) = dp_id d"
  "dp_phase (withdrawn plan approval at d) =
     (if dp_phase d = DpHealthy \<or> dp_phase d = DpDegraded then DpRolledBack else dp_phase d)"
  by (simp_all add: withdrawn_def)

lemma roll_back_source_effect:
  assumes "rollout_wf ro"
  obtains ro1 where "roll_back_source ro plan approval at = (ro1, Ok ())" "rollout_wf ro1"
    "ro_current ro1 = ro_current ro"
    "\<And>i. rollout_get ro1 i = (if i = rb_from plan
        then map_option (withdrawn plan approval at) (rollout_get ro i) else rollout_get ro i)"
proof (cases "\<exists>d. rollout_get ro (rb_from plan) = Some d \<and> (dp_phase d = DpHealthy \<or> dp_phase d = DpDegraded)")
  case False
  then show ?thesis using that [of ro] assms
    by (cases "rollout_get ro (rb_from plan)") (auto simp: roll_back_source_def withdrawn_def)
next
  case True
  then obtain d where d: "rollout_get ro (rb_from plan) = Some d"
    and p: "dp_phase d = DpHealthy \<or> dp_phase d = DpDegraded" by blast
  from assms d have wf: "deployment_wf d" and i: "dp_id d = rb_from plan" using rollout_wf_get by blast+
  then have l: "log_wf d" "gated d" by (simp_all add: deployment_wf_def)
  let ?m = "''rolled back to '' @ deployment_id_display (rb_to plan) @ '' by '' @ ea_approver approval"
  have can: "deployment_can_transition_to (dp_phase d) DpRolledBack" using p by auto
  have mv: "deployment_move_to d DpRolledBack (Some ?m) at = (withdrawn plan approval at d, Ok ())"
    using move_to_legal [OF can log_wf_nonempty [OF l(1)]] p by (simp add: withdrawn_def)
  have w: "deployment_wf (withdrawn plan approval at d)"
    using move_to_wf [OF l, of DpRolledBack "Some ?m" at] mv p by auto
  have g: "passed_gate d \<Longrightarrow> passed_gate (withdrawn plan approval at d)"
    using move_to_frame(3) [of d DpRolledBack "Some ?m" at] unfolding mv fst_conv .
  let ?ro1 = "rollout_put ro (rb_from plan) (withdrawn plan approval at d)"
  have i': "dp_id (withdrawn plan approval at d) = rb_from plan" using i by simp
  show ?thesis
  proof (rule that [of ?ro1])
    show "roll_back_source ro plan approval at = (?ro1, Ok ())"
      using d p mv by (simp add: roll_back_source_def mark_rolled_back_def)
    show "rollout_wf ?ro1" by (rule rollout_put_wf [OF assms d i' w g])
    show "rollout_get ?ro1 j = (if j = rb_from plan
        then map_option (withdrawn plan approval at) (rollout_get ro j) else rollout_get ro j)" for j
      using d by (simp add: rollout_get_put [OF i'])
  qed simp
qed

lemma restored_wf:
  assumes "deployment_wf d" "dp_phase d \<in> {DpSuperseded, DpRolledBack}"
  shows "deployment_wf (restored d (dp_phase d) at)"
proof -
  have "rollout_moved d DpHealthy (restored d (dp_phase d) at)"
    using assms by (auto simp: rollout_moved_def deployment_wf_def)
  then have "log_wf (restored d (dp_phase d) at)" using assms(1) log_wf_moved by (auto simp: deployment_wf_def)
  then show ?thesis using assms by (auto simp: deployment_wf_def gated_def)
qed

lemma restore_target_effect:
  fixes at :: time
  assumes "rollout_wf ro" "rollout_get ro (rb_to plan) = Some t"
    and "dp_phase t \<in> {DpSuperseded, DpRolledBack, DpHealthy}"
  defines "t' \<equiv> if dp_phase t = DpHealthy then t else restored t (dp_phase t) at"
  shows "rollout_wf (restore_target ro plan (dp_phase t) at)"
    and "ro_current (restore_target ro plan (dp_phase t) at) = ro_current ro"
    and "rollout_get (restore_target ro plan (dp_phase t) at) i =
      (if i = rb_to plan then Some t' else rollout_get ro i)"
proof -
  have wf: "deployment_wf t" "dp_id t = rb_to plan" using rollout_wf_get [OF assms(1,2)] by auto
  have i: "dp_id (restored t (dp_phase t) at) = rb_to plan" using wf by simp
  show "rollout_wf (restore_target ro plan (dp_phase t) at)"
    using assms restored_wf [OF wf(1), of at]
      rollout_put_wf [OF assms(1,2) i] by (auto simp: restore_target_def)
  show "ro_current (restore_target ro plan (dp_phase t) at) = ro_current ro"
    using assms(2) by (simp add: restore_target_def)
  show "rollout_get (restore_target ro plan (dp_phase t) at) i =
      (if i = rb_to plan then Some t' else rollout_get ro i)"
    using assms(2) by (simp add: restore_target_def rollout_get_put [OF i] t'_def)
qed

text \<open>The effect of an approved deployment rollback to a safe target.\<close>

lemma execute_rollback_effect:
  assumes "rollout_wf ro" "rb_from plan \<noteq> rb_to plan" "granted_and_named approval"
    and "rb_kind plan = RollbackDeployment" "rollout_get ro (rb_to plan) = Some t"
    and "dp_phase t \<in> {DpSuperseded, DpRolledBack, DpHealthy}"
  obtains ro' oc where
    "execute_rollback ro plan approval domains at =
       ((ro', map (repoint_domain plan) domains), Ok oc)"
    "ou_traffic_moved oc" "ou_detail oc = database_data_warning" "rollout_wf ro'" "ro_current ro' = Some (rb_to plan)"
    "\<And>i. rollout_get ro' i =
       (if i = rb_to plan then Some (if dp_phase t = DpHealthy then t else restored t (dp_phase t) at)
        else if i = rb_from plan then map_option (withdrawn plan approval at) (rollout_get ro i)
        else rollout_get ro i)"
proof -
  obtain ro1 where r1: "roll_back_source ro plan approval at = (ro1, Ok ())" "rollout_wf ro1"
    "\<And>i. rollout_get ro1 i = (if i = rb_from plan
        then map_option (withdrawn plan approval at) (rollout_get ro i) else rollout_get ro i)"
    using roll_back_source_effect [OF assms(1)] by metis
  have t1: "rollout_get ro1 (rb_to plan) = Some t" using r1(3) assms(2,5) by simp
  let ?ro2 = "restore_target ro1 plan (dp_phase t) at"
  note r2 = restore_target_effect [OF r1(2) t1 assms(6), of at]
  let ?t' = "if dp_phase t = DpHealthy then t else restored t (dp_phase t) at"
  have "passed_gate t"
    using rollout_wf_get [OF assms(1,5)] assms(6) by (auto simp: deployment_wf_def gated_def)
  then have wf3: "rollout_wf (?ro2\<lparr>ro_current := Some (rb_to plan)\<rparr>)"
    using rollout_set_current_wf [OF r2(1), of "rb_to plan" ?t'] r2(3) by simp
  let ?oc = "\<lparr>ou_kind = RollbackDeployment, ou_from = rb_from plan, ou_to = rb_to plan,
    ou_traffic_moved = True, ou_detail = database_data_warning\<rparr>"
  have "execute_rollback ro plan approval domains at =
      ((?ro2\<lparr>ro_current := Some (rb_to plan)\<rparr>, map (repoint_domain plan) domains), Ok ?oc)"
    using assms r1(1) by (simp add: execute_rollback_def granted_and_named_def Let_def)
  then show ?thesis by (rule that [OF _ _ _ wf3]) (use r1(3) r2(3) in simp_all)
qed

lemma execute_rollback_refused:
  assumes "\<not> (granted_and_named approval \<and> rb_kind plan = RollbackDeployment \<and>
    (\<exists>t. rollout_get ro (rb_to plan) = Some t \<and> dp_phase t \<in> {DpSuperseded, DpRolledBack, DpHealthy}))"
  shows "fst (execute_rollback ro plan approval domains at) = (ro, domains)"
    and "\<not> panics (snd (execute_rollback ro plan approval domains at))"
    and "snd (execute_rollback ro plan approval domains at) = Ok oc \<Longrightarrow>
      granted_and_named approval \<and> rb_kind plan \<noteq> RollbackDeployment \<and> \<not> ou_traffic_moved oc"
  using assms
  by (auto simp: execute_rollback_def granted_and_named_def Let_def split: option.splits if_splits)

lemma find_snoc: "find P (xs @ [x]) = (case find P xs of Some y \<Rightarrow> Some y | None \<Rightarrow> if P x then Some x else None)"
  by (induction xs) auto

lemma rollout_begin_wf:
  assumes "rollout_wf ro" "rollout_get ro (DeploymentId u) = None"
  shows "rollout_wf (fst (rollout_begin u ro app env revn rt res at))"
proof (cases "deployment_new u app env revn rt res (rollback_target ro) at")
  case (Ok d)
  then have d: "dp_id d = DeploymentId u" "deployment_wf d"
    by (auto simp: deployment_new_def deployment_wf_def log_wf_def phase_log_def legal_log_def
        gated_def split: if_splits)
  have f: "dp_id e \<noteq> DeploymentId u" if "e \<in> set (ro_deployments ro)" for e
    using assms(2) that by (auto simp: rollout_get_def find_None_iff)
  have g: "rollout_get ro i = Some e \<Longrightarrow> rollout_get (ro\<lparr>ro_deployments := ro_deployments ro @ [d]\<rparr>) i = Some e"
    for i e by (simp add: rollout_get_def find_snoc)
  show ?thesis using assms(1) Ok d f g by (fastforce simp: rollout_begin_def rollout_wf_def)
qed (use assms in \<open>simp_all add: rollout_begin_def\<close>)

definition superseded_at :: "time \<Rightarrow> deployment \<Rightarrow> deployment" where
  "superseded_at at d =
     (if dp_phase d = DpHealthy then moved_to d DpSuperseded (Some ''newer revision promoted'') at else d)"

lemma superseded_at_fields [simp]:
  "dp_id (superseded_at at d) = dp_id d"
  "dp_phase (superseded_at at d) = (if dp_phase d = DpHealthy then DpSuperseded else dp_phase d)"
  by (simp_all add: superseded_at_def)

lemma superseded_at_wf:
  assumes "deployment_wf d" "dp_phase d = DpHealthy"
  shows "mark_superseded d at = (superseded_at at d, Ok ())" "deployment_wf (superseded_at at d)"
    and "passed_gate d \<Longrightarrow> passed_gate (superseded_at at d)"
proof -
  have l: "log_wf d" "gated d" using assms by (simp_all add: deployment_wf_def)
  let ?r = "Some ''newer revision promoted''"
  have can: "deployment_can_transition_to (dp_phase d) DpSuperseded" using assms(2) by simp
  have mv: "deployment_move_to d DpSuperseded ?r at = (superseded_at at d, Ok ())"
    using move_to_legal [OF can log_wf_nonempty [OF l(1)]] assms(2) by (simp add: superseded_at_def)
  show "mark_superseded d at = (superseded_at at d, Ok ())" using mv by (simp add: mark_superseded_def)
  show "deployment_wf (superseded_at at d)"
    using move_to_wf [OF l, of DpSuperseded ?r at] unfolding mv fst_conv by simp
  show "passed_gate d \<Longrightarrow> passed_gate (superseded_at at d)"
    using move_to_frame(3) [of d DpSuperseded ?r at] unfolding mv fst_conv .
qed

lemma promote_effect:
  assumes wf: "rollout_wf ro" and d: "rollout_get ro did = Some d" "dp_phase d = DpHealthy"
  obtains ro' where "promote ro did at = (ro', Ok ())" "rollout_wf ro'" "ro_current ro' = Some did"
    "\<And>i. rollout_get ro' i = (if ro_current ro = Some i \<and> i \<noteq> did
        then map_option (superseded_at at) (rollout_get ro i) else rollout_get ro i)"
proof -
  have g: "passed_gate d" using rollout_wf_get [OF wf d(1)] d(2) by (simp add: deployment_wf_def gated_def)
  show ?thesis
  proof (cases "\<exists>p old. ro_current ro = Some p \<and> p \<noteq> did \<and> rollout_get ro p = Some old \<and> dp_phase old = DpHealthy")
    case False
    have "promote ro did at = (ro\<lparr>ro_current := Some did\<rparr>, Ok ())"
      using d False by (auto simp: promote_def split: option.splits)
    moreover have "rollout_wf (ro\<lparr>ro_current := Some did\<rparr>)" by (rule rollout_set_current_wf [OF wf d(1) g])
    moreover have "rollout_get ro i = (if ro_current ro = Some i \<and> i \<noteq> did
        then map_option (superseded_at at) (rollout_get ro i) else rollout_get ro i)" for i
      using False by (cases "rollout_get ro i") (auto simp: superseded_at_def)
    ultimately show ?thesis by (intro that [of "ro\<lparr>ro_current := Some did\<rparr>"]) simp_all
  next
    case True
    then obtain p old where p: "ro_current ro = Some p" "p \<noteq> did" "rollout_get ro p = Some old"
      "dp_phase old = DpHealthy" by blast
    note o = rollout_wf_get [OF wf p(3)]
    note s = superseded_at_wf [OF conjunct1 [OF o] p(4), of at]
    have i: "dp_id (superseded_at at old) = p" using o by simp
    let ?ro1 = "rollout_put ro p (superseded_at at old)"
    have "promote ro did at = (?ro1\<lparr>ro_current := Some did\<rparr>, Ok ())"
      using d p s(1) by (simp add: promote_def)
    moreover have "rollout_wf ?ro1" by (rule rollout_put_wf [OF wf p(3) i s(2,3)])
    then have "rollout_wf (?ro1\<lparr>ro_current := Some did\<rparr>)"
      by (rule rollout_set_current_wf [of _ _ d]) (use d p g in \<open>simp_all add: rollout_get_put [OF i]\<close>)
    ultimately show ?thesis
      using p by (intro that [of "?ro1\<lparr>ro_current := Some did\<rparr>"]) (simp_all add: rollout_get_put [OF i])
  qed
qed

lemma promote_refused:
  assumes "\<not> (\<exists>d. rollout_get ro did = Some d \<and> dp_phase d = DpHealthy)"
  shows "\<exists>e. promote ro did at = (ro, Err e)"
  using assms by (auto simp: promote_def split: option.split)

lemma rollout_exec_wf:
  assumes "rollout_wf ro" "rollout_admissible ro oper"
  shows "rollout_wf (rollout_exec ro oper)"
proof (cases oper)
  case (RoBegin u app env revn rt res at)
  then show ?thesis using assms rollout_begin_wf by simp
next
  case (RoUpdate did dop)
  show ?thesis
  proof (cases "rollout_get ro did")
    case None
    then show ?thesis using assms(1) RoUpdate by simp
  next
    case (Some d)
    note w = rollout_wf_get [OF assms(1) Some]
    have "deployment_wf (fst (deployment_exec d dop))"
      by (rule exec_wf) (use w assms(2) RoUpdate Some in auto)
    then show ?thesis using RoUpdate Some w rollout_put_wf [OF assms(1) Some] exec_frame by simp
  qed
next
  case (RoPromote did at)
  then show ?thesis using promote_effect [OF assms(1), of did _ at] promote_refused [of ro did at] assms(1)
    by (metis fst_conv rollout_exec.simps(3))
next
  case (RoRollback plan approval at)
  with assms(2) have "rb_from plan \<noteq> rb_to plan" by simp
  then show ?thesis
    using RoRollback execute_rollback_effect [OF assms(1), of plan approval _ "[]" at]
      execute_rollback_refused(1) [of approval plan ro "[]" at] assms(1)
    by (metis fst_conv rollout_exec.simps(4))
qed

lemma rollout_reachable_wf: "rollout_reachable ro \<Longrightarrow> rollout_wf ro"
proof (induction rule: rollout_reachable.induct)
  case start
  then show ?case by (simp add: rollout_wf_def rollout_new_def)
next
  case (step ro oper)
  then show ?case using rollout_exec_wf by blast
qed

section \<open>A sample rollout\<close>

definition sample_config :: runtime_config where
  "sample_config = \<lparr>cfg_kind = RkNode, cfg_tier = Tier1, cfg_profile = ProfileProduction, cfg_port = 80,
     cfg_healthcheck_path = None, cfg_dockerfile = None, cfg_run_command = [],
     cfg_oci_image = Some ''registry/app'', cfg_limits = docker_default\<rparr>"

definition sample_rollout :: "uuid \<Rightarrow> health_status \<Rightarrow> rollout_op list" where
  "sample_rollout u h =
     [RoBegin u (ApplicationId ''a'') (EnvironmentId ''e'') (revision_new u ''c'' None) sample_config [] 0,
      RoUpdate (DeploymentId u) (OpStartBuild 1),
      RoUpdate (DeploymentId u) (OpRecordBuild (build_succeeded ''ok'') [] 2),
      RoUpdate (DeploymentId u) (OpRecordHealth h [] 3)]"

definition sample_ops :: "rollout_op list" where
  "sample_ops = sample_rollout ''1'' HealthHealthy @ [RoPromote (DeploymentId ''1'') 4] @
     sample_rollout ''2'' HealthHealthy @ [RoPromote (DeploymentId ''2'') 5]"

lemmas sample_eval = sample_rollout_def rollout_new_def rollout_begin_def deployment_new_def
  sample_config_def rollout_get_def rollout_put_def start_build_def record_build_def record_health_def
  mark_superseded_def mark_rolled_back_def build_image_def build_is_success_def build_succeeded_def
  push_log_def promote_def deployment_move_to_def Let_def

lemma sample_ops_run:
  "map (\<lambda>d. (dp_id d, dp_phase d)) (ro_deployments (rollout_run rollout_new sample_ops)) =
     [(DeploymentId ''1'', DpSuperseded), (DeploymentId ''2'', DpHealthy)]"
  "ro_current (rollout_run rollout_new sample_ops) = Some (DeploymentId ''2'')"
  "rollout_admissible_run rollout_new sample_ops"
  by (simp_all add: sample_ops_def sample_eval)

lemma sample_ops_reachable: "rollout_reachable (rollout_run rollout_new sample_ops)"
  using sample_ops_run(3) rollout_run_reachable rollout_reachable.start by blast

lemma sample_members:
  obtains t cur where "t \<in> set (ro_deployments (rollout_run rollout_new sample_ops))"
    "cur \<in> set (ro_deployments (rollout_run rollout_new sample_ops))"
    "dp_id t = DeploymentId ''1''" "dp_phase t = DpSuperseded" "dp_id cur = DeploymentId ''2''"
proof -
  have "\<exists>t cur. xs = [t, cur] \<and> dp_id t = a \<and> dp_phase t = p \<and> dp_id cur = b"
    if "map (\<lambda>d. (dp_id d, dp_phase d)) xs = [(a, p), (b, q)]" for xs :: "deployment list" and a p b q
    using that by auto
  from this [OF sample_ops_run(1)] obtain t cur where
    "ro_deployments (rollout_run rollout_new sample_ops) = [t, cur]" "dp_id t = DeploymentId ''1''"
    "dp_phase t = DpSuperseded" "dp_id cur = DeploymentId ''2''" by blast
  then show ?thesis by (intro that [of t cur]) simp_all
qed

lemma rollout_get_in:
  "rollout_wf ro \<Longrightarrow> rollout_get ro i = Some d \<longleftrightarrow> d \<in> set (ro_deployments ro) \<and> dp_id d = i"
proof
  assume "rollout_wf ro" "d \<in> set (ro_deployments ro) \<and> dp_id d = i"
  then have "inj_on dp_id (set (ro_deployments ro))" "d \<in> set (ro_deployments ro)" "dp_id d = i"
    by (auto simp: rollout_wf_def distinct_map)
  moreover from this obtain e where e: "rollout_get ro i = Some e"
    by (cases "rollout_get ro i") (auto simp: rollout_get_def find_None_iff)
  ultimately show "rollout_get ro i = Some d" using rollout_getD [OF e] by (metis inj_onD)
qed (use rollout_getD in blast)

lemma exec_no_panic:
  assumes "log_wf d"
  shows "\<not> panics (snd (deployment_exec d oper))"
proof -
  have mv: "\<not> panics (snd (deployment_move_to e p reason at))" if "log_wf e" for e p reason at
    using log_wf_nonempty [OF that] by (simp add: deployment_move_to_def Let_def)
  have img: "\<not> panics (build_image cfg b revn secrets)" for cfg b revn secrets
    by (simp add: build_image_def Let_def split: option.split)
  have "\<not> panics (snd (record_build d b secrets at))" for b secrets at
    using assms mv img [of "dp_runtime d" b "dp_revision d" secrets]
    by (cases "build_image (dp_runtime d) b (dp_revision d) secrets")
      (auto simp: record_build_def push_log_def Let_def)
  then show ?thesis using assms mv
    by (cases oper) (auto simp: start_build_def mark_superseded_def mark_rolled_back_def
        attach_endpoint_def record_health_def Let_def split: health_status.split)
qed

lemma find_split:
  assumes "find P xs = Some x"
  shows "\<exists>ys zs. xs = ys @ x # zs \<and> P x \<and> (\<forall>y \<in> set ys. \<not> P y)"
  using assms
proof (induction xs)
  case (Cons a xs)
  show ?case
  proof (cases "P a")
    case True
    with Cons.prems show ?thesis by (intro exI [of _ "[]"] exI [of _ xs]) auto
  next
    case False
    with Cons obtain ys zs where "xs = ys @ x # zs" "P x" "\<forall>y \<in> set ys. \<not> P y" by auto
    with False show ?thesis by (intro exI [of _ "a # ys"] exI [of _ zs]) auto
  qed
qed simp

section \<open>Properties\<close>

text \<open>
  (C1) The health gate of a rollout. In every history of admissible operations (new ids, plans
  between different deployments, no failed deployment marked rolled back by hand), whatever the
  order of builds, health observations, promotions and rollbacks, a deployment that serves
  traffic has a built image and once passed from deploying to healthy, and so has the
  deployment the rollout calls current; identifiers are not duplicated.
\<close>

theorem rollout_health_gate:
  assumes "rollout_reachable ro"
  shows "distinct (map dp_id (ro_deployments ro)) \<and>
    (\<forall>d \<in> set (ro_deployments ro). is_promoted d \<longrightarrow>
       dp_image d \<noteq> None \<and> (DpDeploying, DpHealthy) \<in> set (phase_log d)) \<and>
    (\<forall>c. ro_current ro = Some c \<longrightarrow>
       (\<exists>d \<in> set (ro_deployments ro). dp_id d = c \<and> (DpDeploying, DpHealthy) \<in> set (phase_log d)))"
proof -
  have wf: "rollout_wf ro" by (rule rollout_reachable_wf [OF assms])
  then have "dp_image d \<noteq> None \<and> (DpDeploying, DpHealthy) \<in> set (phase_log d)"
    if "d \<in> set (ro_deployments ro)" "is_promoted d" for d
    using that by (auto simp: rollout_wf_def deployment_wf_def gated_def passed_gate_def
        is_promoted_def serves_traffic_def)
  moreover have "\<exists>d \<in> set (ro_deployments ro). dp_id d = c \<and> (DpDeploying, DpHealthy) \<in> set (phase_log d)"
    if c: "ro_current ro = Some c" for c
  proof -
    obtain d where "rollout_get ro c = Some d" "passed_gate d" using wf c by (auto simp: rollout_wf_def)
    then show ?thesis using rollout_getD unfolding passed_gate_def by blast
  qed
  ultimately show ?thesis using wf by (simp add: rollout_wf_def)
qed

theorem rollout_health_gate_witness:
  "rollout_reachable (rollout_run rollout_new sample_ops) \<and>
   (\<exists>d \<in> set (ro_deployments (rollout_run rollout_new sample_ops)).
      dp_id d = DeploymentId ''2'' \<and> (DpDeploying, DpHealthy) \<in> set (phase_log d))"
  using rollout_health_gate [OF sample_ops_reachable] sample_ops_run(2) sample_ops_reachable by blast

text \<open>
  (C22) Evidence. In every such history the transition log of each deployment starts with its
  creation, is linked, ends in its phase, and every entry is an edge of the rollout graph or the
  restoration of a superseded or rolled back deployment; no operation on a deployment of the
  history, no promotion and no rollback panics.
\<close>

theorem rollout_evidence:
  assumes "rollout_reachable ro" "d \<in> set (ro_deployments ro)"
  shows "hd (phase_log d) = (DpPending, DpPending) \<and> linked_log (phase_log d) \<and>
    snd (last (phase_log d)) = dp_phase d \<and>
    (\<forall>(p, q) \<in> set (tl (phase_log d)). deployment_can_transition_to p q \<or>
       (p \<in> {DpSuperseded, DpRolledBack} \<and> q = DpHealthy)) \<and>
    \<not> panics (snd (deployment_exec d oper)) \<and> \<not> panics (snd (promote ro (dp_id d) at)) \<and>
    (rb_from plan \<noteq> rb_to plan \<longrightarrow> \<not> panics (snd (execute_rollback ro plan approval domains at)))"
proof -
  have wf: "rollout_wf ro" by (rule rollout_reachable_wf [OF assms(1)])
  then have l: "log_wf d" using assms(2) by (auto simp: rollout_wf_def deployment_wf_def)
  have "\<not> panics (snd (promote ro (dp_id d) at))"
    using promote_effect [OF wf, of "dp_id d" _ at] promote_refused [of ro "dp_id d" at]
    by (metis panics_simps(1,2) snd_conv)
  moreover have "\<not> panics (snd (execute_rollback ro plan approval domains at))" if "rb_from plan \<noteq> rb_to plan"
    using execute_rollback_effect [OF wf that, of approval _ domains at]
      execute_rollback_refused(2) [of approval plan ro domains at]
    by (metis panics_simps(1) snd_conv)
  moreover have "deployment_can_transition_to p q \<or> (p \<in> {DpSuperseded, DpRolledBack} \<and> q = DpHealthy)"
    if "(p, q) \<in> set (tl (phase_log d))" for p q
    using l that unfolding log_wf_def legal_log_def list_all_iff rollout_edge_def by fastforce
  ultimately show ?thesis using l exec_no_panic [OF l] unfolding log_wf_def by blast
qed

theorem rollout_evidence_witness:
  "\<exists>d \<in> set (ro_deployments (rollout_run rollout_new sample_ops)).
     dp_phase d = DpSuperseded \<and> snd (last (phase_log d)) = DpSuperseded \<and>
     \<not> panics (snd (deployment_exec d (OpStartBuild 9)))"
proof -
  obtain d where d: "d \<in> set (ro_deployments (rollout_run rollout_new sample_ops))" "dp_phase d = DpSuperseded"
    using sample_members by metis
  show ?thesis using rollout_evidence [OF sample_ops_reachable d(1), of "OpStartBuild 9"] d by auto
qed

text \<open>
  Promotion needs an observation. An operation on a deployment makes it healthy exactly
  when it records a healthy observation while the deployment is deploying or degraded; a failed
  readiness while deploying fails it, a starting or unknown probe leaves its phase; and a
  build that did not succeed never leads past failed.
\<close>

theorem promotion_needs_observation:
  assumes "\<not> is_promoted d"
  shows "(is_promoted (fst (deployment_exec d oper)) \<longleftrightarrow>
      (\<exists>secrets at. oper = OpRecordHealth HealthHealthy secrets at) \<and> dp_phase d \<in> {DpDeploying, DpDegraded}) \<and>
    (dp_phase d = DpDeploying \<longrightarrow>
       dp_phase (fst (record_health d (HealthUnhealthy reason) secrets at)) = DpFailed \<and>
       dp_phase (fst (record_health d HealthStarting secrets at)) = DpDeploying \<and>
       dp_phase (fst (record_health d (HealthUnknown reason) secrets at)) = DpDeploying) \<and>
    (dp_phase d = DpBuilding \<and> br_status build \<noteq> BuildSucceeded \<longrightarrow>
       dp_phase (fst (record_build d build secrets at)) = DpFailed)"
proof -
  have mv: "dp_phase (fst (deployment_move_to e p r t)) =
      (if deployment_can_transition_to (dp_phase e) p then p else dp_phase e)" for e p r t
    by (auto simp: deployment_move_to_def Let_def)
  have b: "dp_phase d \<noteq> DpHealthy \<Longrightarrow> dp_phase (fst (record_build d b secrets at)) \<noteq> DpHealthy" for b secrets at
    by (cases "build_image (dp_runtime d) b (dp_revision d) secrets")
      (auto simp: record_build_def push_log_def Let_def mv)
  show ?thesis using assms b
    by (cases oper; cases "dp_phase d")
      (auto simp: mv start_build_def mark_superseded_def mark_rolled_back_def attach_endpoint_def push_log_def
        record_health_def record_build_def [of _ build] build_is_success_def Let_def is_promoted_def
        serves_traffic_def split: health_status.splits)
qed

theorem promotion_needs_observation_witness:
  "\<exists>d. dp_phase d = DpDeploying \<and> is_promoted (fst (deployment_exec d (OpRecordHealth HealthHealthy [] 1))) \<and>
     \<not> is_promoted (fst (deployment_exec d (OpStartBuild 1)))"
proof -
  define d where "d = \<lparr>dp_id = DeploymentId ''1'', dp_application_id = ApplicationId ''a'',
    dp_environment_id = EnvironmentId ''e'',
    dp_revision = revision_new ''s'' ''c'' None, dp_build = None, dp_image = None, dp_runtime = sample_config,
    dp_resources = [], dp_endpoint = None, dp_health = HealthStarting, dp_phase = DpDeploying, dp_logs = [],
    dp_rollback_target = None, dp_transitions = []\<rparr>"
  have p: "dp_phase d = DpDeploying" by (simp add: d_def)
  then have n: "\<not> is_promoted d" by (simp add: is_promoted_def serves_traffic_def)
  from promotion_needs_observation [OF n] p show ?thesis by blast
qed

text \<open>
  Restoration can bypass the gate. When a failed deployment is marked rolled back, which the
  graph allows, an approved deployment rollback accepts it as a target and makes it the healthy,
  current deployment although it never passed a health check: here the second deployment failed
  its readiness check and serves traffic in the end, with its health record still unhealthy.
\<close>

theorem failed_deployment_restored:
  "let ro = rollout_run rollout_new
         (sample_rollout ''1'' HealthHealthy @ [RoPromote (DeploymentId ''1'') 4] @
          sample_rollout ''2'' (HealthUnhealthy ''down'') @
          [RoUpdate (DeploymentId ''2'') (OpMarkRolledBack ''cleanup'' 5)]);
       plan = \<lparr>rb_kind = RollbackDeployment, rb_from = DeploymentId ''1'', rb_to = DeploymentId ''2'',
               rb_warnings = [database_data_warning], rb_migration_in_delta = False,
               rb_requires_approval = True\<rparr>;
       ro' = rollout_exec ro (RoRollback plan (approval_granted ''ops'' ''r'') 6)
   in select_rollback_target ro (DeploymentId ''1'') = Some (DeploymentId ''2'') \<and>
      map_option (\<lambda>d1. map_option (plan_rollback RollbackDeployment d1) (rollout_get ro (DeploymentId ''2'')))
        (rollout_get ro (DeploymentId ''1'')) = Some (Some (Ok plan)) \<and>
      ro_current ro' = Some (DeploymentId ''2'') \<and>
      map_option (\<lambda>d. (is_promoted d, passed_gate d, dp_health d)) (rollout_get ro' (DeploymentId ''2'')) =
        Some (True, False, HealthUnhealthy ''down'')"
  by (simp add: sample_eval revision_new_def select_rollback_target_def plan_rollback_def execute_rollback_def
      approval_granted_def trim_def is_whitespace_def roll_back_source_def restore_target_def restored_def
      is_promoted_def serves_traffic_def passed_gate_def phase_log_def)

text \<open>
  (C23) Promotion. On a reachable rollout \<open>promote\<close> succeeds exactly for a known healthy deployment;
  it then becomes current, the previous current deployment, if it was healthy, is superseded
  with an audited transition, and every other deployment is as before; a refusal changes nothing.
\<close>

theorem promote_total:
  assumes "rollout_reachable ro" "promote ro did at = (ro', r)"
  shows "(r = Ok () \<longleftrightarrow> (\<exists>d. rollout_get ro did = Some d \<and> dp_phase d = DpHealthy)) \<and>
    (r \<noteq> Ok () \<longrightarrow> ro' = ro \<and> (\<exists>e. r = Err e)) \<and>
    (r = Ok () \<longrightarrow> ro_current ro' = Some did \<and>
       (\<forall>i. rollout_get ro' i =
          (if ro_current ro = Some i \<and> i \<noteq> did then map_option (superseded_at at) (rollout_get ro i)
           else rollout_get ro i)))"
proof -
  have wf: "rollout_wf ro" by (rule rollout_reachable_wf [OF assms(1)])
  show ?thesis
  proof (cases "\<exists>d. rollout_get ro did = Some d \<and> dp_phase d = DpHealthy")
    case True
    then obtain d where d: "rollout_get ro did = Some d" "dp_phase d = DpHealthy" by blast
    show ?thesis by (rule promote_effect [OF wf d, of at]) (use assms(2) d in auto)
  next
    case False
    then show ?thesis using promote_refused [OF False, of at] assms(2) by auto
  qed
qed

theorem promote_total_witness:
  "\<exists>ro'. promote (rollout_run rollout_new sample_ops) (DeploymentId ''1'') 9 = (ro', Err (DeploymentError
      ''only a healthy deployment can be promoted, dep_1 is Superseded'')) \<and>
    ro' = rollout_run rollout_new sample_ops"
proof -
  let ?ro = "rollout_run rollout_new sample_ops"
  obtain ro' r where p: "promote ?ro (DeploymentId ''1'') 9 = (ro', r)" by force
  have r: "r = Err (DeploymentError ''only a healthy deployment can be promoted, dep_1 is Superseded'')"
    using p by (simp add: sample_ops_def sample_eval)
  with p promote_total [OF sample_ops_reachable p] show ?thesis by simp
qed

text \<open>A deployment after a move that its log records, from the phase it had.\<close>

definition logged_move :: "deployment \<Rightarrow> deployment_phase \<Rightarrow> string \<Rightarrow> time \<Rightarrow> deployment" where
  "logged_move d p reason at =
     d\<lparr>dp_phase := p,
       dp_transitions := dp_transitions d @ [\<lparr>dt_from = dp_phase d, dt_to = p, dt_at = at, dt_reason = Some reason\<rparr>]\<rparr>"

lemma restored_logged: "restored t (dp_phase t) at = logged_move t DpHealthy ''restored by rollback'' at"
  by (simp add: restored_def logged_move_def)

lemma withdrawn_logged:
  assumes "rollout_wf ro" "rollout_get ro i = Some d"
  shows "withdrawn plan approval at d =
    (if dp_phase d \<in> {DpHealthy, DpDegraded}
     then logged_move d DpRolledBack (''rolled back to '' @ deployment_id_display (rb_to plan) @ '' by '' @ ea_approver approval) at
     else d)"
proof -
  have "log_wf d" using rollout_wf_get [OF assms] by (simp add: deployment_wf_def)
  then have "dt_to (last (dp_transitions d)) = dp_phase d"
    using log_wf_last [of d] log_wf_nonempty [of d] by (simp add: phase_log_def last_map)
  then show ?thesis by (simp add: withdrawn_def moved_to_def logged_move_def)
qed

text \<open>
  (C3) Rollback moves traffic only when approved and only to a safe target, and then changes exactly what it should. On a
  reachable rollout and a plan between two different deployments, traffic moves exactly when the approval is granted
  and named, the plan is a deployment rollback and its target is superseded, rolled back or healthy.
  Then the target is current and, unless it was healthy already, moved to healthy with a log entry from its old phase; a
  source that was healthy or degraded is moved to rolled back with a log entry naming the target and the approver;
  no other deployment changes; every domain of the source and no other is repointed; and the outcome
  restates the database warning. In all other cases rollout and domains are unchanged.
\<close>

theorem execute_rollback_total:
  assumes "rollout_reachable ro" "rb_from plan \<noteq> rb_to plan"
    and "execute_rollback ro plan approval domains at = ((ro', domains'), r)"
  defines "moves \<equiv> granted_and_named approval \<and> rb_kind plan = RollbackDeployment \<and>
    (\<exists>t. rollout_get ro (rb_to plan) = Some t \<and> dp_phase t \<in> {DpSuperseded, DpRolledBack, DpHealthy})"
  shows "((\<exists>oc. r = Ok oc \<and> ou_traffic_moved oc) \<longleftrightarrow> moves) \<and>
    (\<not> moves \<longrightarrow> ro' = ro \<and> domains' = domains) \<and>
    (moves \<longrightarrow> ro_current ro' = Some (rb_to plan) \<and>
       (\<exists>t. rollout_get ro (rb_to plan) = Some t \<and> rollout_get ro' (rb_to plan) =
          Some (if dp_phase t = DpHealthy then t else logged_move t DpHealthy ''restored by rollback'' at)) \<and>
       rollout_get ro' (rb_from plan) =
         map_option (\<lambda>s. if dp_phase s \<in> {DpHealthy, DpDegraded}
           then logged_move s DpRolledBack
             (''rolled back to '' @ deployment_id_display (rb_to plan) @ '' by '' @ ea_approver approval) at
           else s) (rollout_get ro (rb_from plan)) \<and>
       (\<forall>i. i \<notin> {rb_from plan, rb_to plan} \<longrightarrow> rollout_get ro' i = rollout_get ro i) \<and>
       domains' = map (\<lambda>d. if dom_deployment d = Some (rb_from plan)
                           then d\<lparr>dom_deployment := Some (rb_to plan)\<rparr> else d) domains \<and>
       (\<exists>oc. r = Ok oc \<and> ou_detail oc = database_data_warning))"
proof (cases moves)
  case False
  note f = execute_rollback_refused [of approval plan ro domains at]
  have "ro' = ro \<and> domains' = domains" using f(1) False assms(3) unfolding moves_def by auto
  moreover have "\<not> (\<exists>oc. r = Ok oc \<and> ou_traffic_moved oc)"
    using f(3) False assms(3) unfolding moves_def by auto
  ultimately show ?thesis using False by blast
next
  case True
  then obtain t where t: "rollout_get ro (rb_to plan) = Some t" "dp_phase t \<in> {DpSuperseded, DpRolledBack, DpHealthy}"
    unfolding moves_def by blast
  have k: "granted_and_named approval" "rb_kind plan = RollbackDeployment" using True unfolding moves_def by auto
  have wf: "rollout_wf ro" by (rule rollout_reachable_wf [OF assms(1)])
  obtain ro2 oc where e:
    "execute_rollback ro plan approval domains at = ((ro2, map (repoint_domain plan) domains), Ok oc)"
    "ou_traffic_moved oc" "ou_detail oc = database_data_warning" "ro_current ro2 = Some (rb_to plan)"
    "\<And>i. rollout_get ro2 i =
       (if i = rb_to plan then Some (if dp_phase t = DpHealthy then t else restored t (dp_phase t) at)
        else if i = rb_from plan then map_option (withdrawn plan approval at) (rollout_get ro i)
        else rollout_get ro i)"
    using execute_rollback_effect [OF wf assms(2) k t, of domains at] by metis
  have r: "ro' = ro2" "domains' = map (repoint_domain plan) domains" "r = Ok oc" using assms(3) e(1) by simp_all
  have "rollout_get ro' (rb_from plan) = map_option (\<lambda>s. if dp_phase s \<in> {DpHealthy, DpDegraded}
      then logged_move s DpRolledBack
        (''rolled back to '' @ deployment_id_display (rb_to plan) @ '' by '' @ ea_approver approval) at
      else s) (rollout_get ro (rb_from plan))"
    using e(5) [of "rb_from plan"] assms(2) withdrawn_logged [OF wf] unfolding r(1)
    by (cases "rollout_get ro (rb_from plan)") simp_all
  moreover have "rollout_get ro' (rb_to plan) =
      Some (if dp_phase t = DpHealthy then t else logged_move t DpHealthy ''restored by rollback'' at)"
    by (simp add: r(1) e(5) restored_logged)
  moreover have "\<forall>i. i \<notin> {rb_from plan, rb_to plan} \<longrightarrow> rollout_get ro' i = rollout_get ro i"
    by (simp add: r(1) e(5))
  moreover have "domains' = map (\<lambda>d. if dom_deployment d = Some (rb_from plan)
      then d\<lparr>dom_deployment := Some (rb_to plan)\<rparr> else d) domains"
    by (simp add: r(2) repoint_domain_def)
  ultimately show ?thesis using True t(1) r(1,3) e(2-4) by blast
qed

definition sample_plan :: rollback_plan where
  "sample_plan = \<lparr>rb_kind = RollbackDeployment, rb_from = DeploymentId ''2'', rb_to = DeploymentId ''1'',
     rb_warnings = [database_data_warning], rb_migration_in_delta = False, rb_requires_approval = True\<rparr>"

theorem execute_rollback_total_witness:
  "\<exists>ro' oc. execute_rollback (rollout_run rollout_new sample_ops) sample_plan (approval_granted ''ops'' ''r'') [] 9 =
      ((ro', []), Ok oc) \<and> ro_current ro' = Some (DeploymentId ''1'') \<and>
    (\<exists>t. rollout_get ro' (DeploymentId ''1'') = Some t \<and> dp_phase t = DpHealthy)"
proof -
  let ?ro = "rollout_run rollout_new sample_ops"
  obtain ro' ds r where e:
    "execute_rollback ?ro sample_plan (approval_granted ''ops'' ''r'') [] 9 = ((ro', ds), r)" by (metis surj_pair)
  have p: "rb_from sample_plan \<noteq> rb_to sample_plan" "rb_to sample_plan = DeploymentId ''1''"
    "rb_kind sample_plan = RollbackDeployment" by (simp_all add: sample_plan_def)
  obtain t where "rollout_get ?ro (DeploymentId ''1'') = Some t" "dp_phase t = DpSuperseded"
    using sample_members rollout_get_in [OF rollout_reachable_wf [OF sample_ops_reachable]] by metis
  moreover have "granted_and_named (approval_granted ''ops'' ''r'')"
    by (simp add: granted_and_named_def approval_granted_def trim_def is_whitespace_def)
  ultimately show ?thesis
    using execute_rollback_total [OF sample_ops_reachable p(1) e] e p by (auto simp: logged_move_def)
qed

lemma selected_target:
  assumes "rollout_wf ro" "select_rollback_target ro c = Some i"
  shows "\<exists>t older newer. rollout_get ro i = Some t \<and> ro_deployments ro = older @ t # newer \<and>
    i \<noteq> c \<and> dp_id t = i \<and> dp_image t \<noteq> None \<and> dp_phase t \<noteq> DpFailed \<and>
    (\<forall>d \<in> set newer. dp_id d = c \<or> dp_image d = None \<or> dp_phase d = DpFailed)"
proof -
  let ?P = "\<lambda>d. dp_id d \<noteq> c \<and> dp_image d \<noteq> None \<and> dp_phase d \<noteq> DpFailed"
  from assms(2) obtain t where f: "find ?P (rev (ro_deployments ro)) = Some t" and i: "dp_id t = i"
    unfolding select_rollback_target_def by blast
  obtain ys zs where s: "rev (ro_deployments ro) = ys @ t # zs" "?P t" "\<forall>y \<in> set ys. \<not> ?P y"
    using find_split [OF f] by blast
  then have d: "ro_deployments ro = rev zs @ t # rev ys" by (simp add: rev_swap)
  then have "rollout_get ro i = Some t" using rollout_get_in [OF assms(1), of i t] i by simp
  with s d i show ?thesis by (intro exI [of _ t] exI [of _ "rev zs"] exI [of _ "rev ys"]) simp
qed

lemma plan_rollback_Ok:
  assumes "dp_id cur \<noteq> dp_id t" "dp_image t \<noteq> None"
  shows "\<exists>plan. plan_rollback kind cur t = Ok plan \<and> rb_from plan = dp_id cur \<and> rb_to plan = dp_id t \<and>
      rb_requires_approval plan \<and>
      (kind = RollbackDeployment \<longrightarrow> hd (rb_warnings plan) = database_data_warning) \<and>
      length (rb_warnings plan) =
        (if rev_introduces_migration (dp_revision cur) \<and> kind \<noteq> RollbackConfiguration then 2 else 1)"
  using assms by (cases kind) (auto simp: plan_rollback_def Let_def)

text \<open>
  Targets and plans. On a reachable rollout the selected target is a deployment of the
  history, not the current one, built and not failed; it is the last such deployment; it always has a
  plan, which names both ends, needs approval, and whose first warning states for a
  deployment rollback that database data is not restored; a migration adds a second warning
  except for a configuration rollback. Nothing is selected exactly when no deployment qualifies.
\<close>

theorem rollback_plan_total:
  assumes "rollout_reachable ro"
  shows "(select_rollback_target ro (dp_id cur) = None \<longleftrightarrow>
      (\<forall>d \<in> set (ro_deployments ro). dp_id d = dp_id cur \<or> dp_image d = None \<or> dp_phase d = DpFailed)) \<and>
    (\<forall>i. select_rollback_target ro (dp_id cur) = Some i \<longrightarrow>
       (\<exists>t older newer plan. rollout_get ro i = Some t \<and> ro_deployments ro = older @ t # newer \<and>
          i \<noteq> dp_id cur \<and> dp_phase t \<noteq> DpFailed \<and>
          (\<forall>d \<in> set newer. dp_id d = dp_id cur \<or> dp_image d = None \<or> dp_phase d = DpFailed) \<and>
          plan_rollback kind cur t = Ok plan \<and> rb_from plan = dp_id cur \<and> rb_to plan = i \<and>
          rb_requires_approval plan \<and>
          (kind = RollbackDeployment \<longrightarrow> hd (rb_warnings plan) = database_data_warning) \<and>
          length (rb_warnings plan) =
            (if rev_introduces_migration (dp_revision cur) \<and> kind \<noteq> RollbackConfiguration then 2 else 1)))" (is "_ \<and> (\<forall>i. _ \<longrightarrow> ?Q i)")
proof (rule conjI)
  show "select_rollback_target ro (dp_id cur) = None \<longleftrightarrow>
      (\<forall>d \<in> set (ro_deployments ro). dp_id d = dp_id cur \<or> dp_image d = None \<or> dp_phase d = DpFailed)"
    by (auto simp: select_rollback_target_def find_None_iff)
  have wf: "rollout_wf ro" by (rule rollout_reachable_wf [OF assms])
  show "\<forall>i. select_rollback_target ro (dp_id cur) = Some i \<longrightarrow> ?Q i"
  proof (intro allI impI)
    fix i
    assume "select_rollback_target ro (dp_id cur) = Some i"
    from selected_target [OF wf this] obtain t older newer where s: "rollout_get ro i = Some t"
      "ro_deployments ro = older @ t # newer" "i \<noteq> dp_id cur" "dp_id t = i" "dp_image t \<noteq> None"
      "dp_phase t \<noteq> DpFailed"
      "\<forall>d \<in> set newer. dp_id d = dp_id cur \<or> dp_image d = None \<or> dp_phase d = DpFailed" by blast
    from plan_rollback_Ok [of cur t kind] s obtain pl where "plan_rollback kind cur t = Ok pl"
      "rb_from pl = dp_id cur" "rb_to pl = i" "rb_requires_approval pl"
      "kind = RollbackDeployment \<longrightarrow> hd (rb_warnings pl) = database_data_warning"
      "length (rb_warnings pl) =
        (if rev_introduces_migration (dp_revision cur) \<and> kind \<noteq> RollbackConfiguration then 2 else 1)"
      by metis
    with s show "?Q i" by (intro exI [of _ t] exI [of _ older] exI [of _ newer] exI [of _ pl]) simp
  qed
qed

theorem rollback_plan_total_witness:
  "\<exists>cur t plan. rollout_get (rollout_run rollout_new sample_ops) (DeploymentId ''1'') = Some t \<and>
     dp_id cur = DeploymentId ''2'' \<and> plan_rollback RollbackDeployment cur t = Ok plan \<and>
     hd (rb_warnings plan) = database_data_warning"
proof -
  let ?ro = "rollout_run rollout_new sample_ops"
  obtain cur :: deployment where c: "dp_id cur = DeploymentId ''2''" by (rule sample_members) blast
  have "select_rollback_target ?ro (DeploymentId ''2'') = Some (DeploymentId ''1'')"
    by (simp add: sample_ops_def sample_eval select_rollback_target_def)
  then have sel: "select_rollback_target ?ro (dp_id cur) = Some (DeploymentId ''1'')" using c by simp
  obtain t plan where "rollout_get ?ro (DeploymentId ''1'') = Some t"
    "plan_rollback RollbackDeployment cur t = Ok plan" "hd (rb_warnings plan) = database_data_warning"
    using rollback_plan_total [OF sample_ops_reachable, of cur RollbackDeployment,
        THEN conjunct2, rule_format, OF sel] by metis
  with c show ?thesis by blast
qed

lemma hex_digit_range: "d < 16 \<Longrightarrow> hex_digit d \<in> set ''0123456789abcdef''"
proof -
  have "list_all (\<lambda>d. hex_digit d \<in> set ''0123456789abcdef'') [0..<16]" by code_simp
  then show "d < 16 \<Longrightarrow> ?thesis" by (simp only: list_all_iff set_upt atLeastLessThan_iff le0 simp_thms)
qed

lemma hex16_shape: "length (hex16 w) = 16" "set (hex16 w) \<subseteq> set ''0123456789abcdef''"
proof -
  show "length (hex16 w) = 16" by (simp add: hex16_def)
  have "unat (v AND 15 :: u64) < 16" for v
    using word_and_le1 [of v 15] by (simp add: word_le_nat_alt)
  then show "set (hex16 w) \<subseteq> set ''0123456789abcdef''"
    using hex_digit_range unfolding hex16_def set_map by blast
qed

lemma digest_of_shape:
  "length (digest_of base sha) = 32" "set (digest_of base sha) \<subseteq> set ''0123456789abcdef''"
  using hex16_shape unfolding digest_of_def Let_def by (simp_all only: length_append set_append) auto

text \<open>
  Images. A build makes an image exactly from a successful production build of a runtime
  with an image base; the image is then addressable, its digest is the prefix and 32
  hexadecimal digits, its reference is the base at that digest, and it carries the revision;
  every other input is an error of the deployment kind.
\<close>

theorem build_image_total:
  "(is_ok (build_image cfg build revn secrets) \<longleftrightarrow>
      cfg_profile cfg = ProfileProduction \<and> build_is_success build \<and> cfg_oci_image cfg \<noteq> None) \<and>
   (case build_image cfg build revn secrets of
      Ok img \<Rightarrow> is_addressable img \<and> length (img_digest img) = 39 \<and>
        set (drop 7 (img_digest img)) \<subseteq> set ''0123456789abcdef'' \<and>
        Some (img_reference img) = map_option (\<lambda>base. base @ ''@'' @ img_digest img) (cfg_oci_image cfg) \<and>
        img_revision_sha img = rev_source_sha revn \<and>
        (img_source img = ImageGeneric \<longleftrightarrow> cfg_kind cfg = RkGeneric)
    | Err e \<Rightarrow> (\<exists>m. e = DeploymentError m)
    | Panic m \<Rightarrow> False)"
  using digest_of_shape
  by (auto simp: build_image_def build_is_success_def is_addressable_def starts_with_def Let_def
      split: option.splits)

text \<open>
  Domains route only to verified deployments. Attaching a domain succeeds exactly with a
  granted, named approval, a routable host name and a promoted deployment, and then points the
  domain at it; every refusal leaves the domain as it was.
\<close>

theorem attach_domain_gate:
  "(snd (attach_domain dmn d approval) = Ok () \<longleftrightarrow>
      granted_and_named approval \<and> is_routable dmn \<and> dp_phase d = DpHealthy) \<and>
   fst (attach_domain dmn d approval) =
     (if granted_and_named approval \<and> is_routable dmn \<and> dp_phase d = DpHealthy
      then dmn\<lparr>dom_deployment := Some (dp_id d)\<rparr> else dmn)"
  by (auto simp: attach_domain_def granted_and_named_def is_promoted_def serves_traffic_def)

end
