(* ===== verification/Provider.thy ===== *)
theory Provider
  imports Deployment Resources
begin

text \<open>
  Provider operations, registry delivery and domain delivery: \<open>labrys-core/src/provider.rs\<close>.

  Every function of that file is here: the plan of a scoped operation and its approval gate, the
  observation of a provider and the resource phase it stands for, the registry gates, and the
  delivery of a domain with its DNS, TLS and traffic state. A history of a delivery is a list
  of \<open>delivery_op\<close>; DNS and TLS observations are writes to the public fields.
\<close>

section \<open>Operations\<close>

definition provider_failure_recovery :: string where
  "provider_failure_recovery =
     ''retry with backoff; inspect redacted provider diagnostics and re-run the platform readiness probe before promoting''"

definition digest_mismatch_recovery :: string where
  "digest_mismatch_recovery =
     ''registry digest differs from the recorded build artifact; do not promote. Re-push the verified production image and re-verify the digest before deploying''"

definition certificate_failure_recovery :: string where
  "certificate_failure_recovery =
     ''TLS issuance failed; traffic was not attached. Fix DNS/issuer configuration and re-issue the certificate before attaching traffic''"

datatype provider_kind = PkPostgres | PkAuth | PkFileStorage | PkObjectStorage | PkGeneric

fun supplies :: "provider_kind \<Rightarrow> string \<Rightarrow> bool" where
  "supplies PkPostgres capability = (capability = ''database.postgres'' \<or> capability = ''database'')"
| "supplies PkAuth capability = (capability = ''auth'' \<or> capability = ''auth.session'')"
| "supplies PkFileStorage capability = (capability = ''storage.file'' \<or> capability = ''storage'')"
| "supplies PkObjectStorage capability = (capability = ''storage.object'' \<or> capability = ''storage'')"
| "supplies PkGeneric capability = True"

fun debug_provider_kind :: "provider_kind \<Rightarrow> string" where
  "debug_provider_kind PkPostgres = ''Postgres''"
| "debug_provider_kind PkAuth = ''Auth''"
| "debug_provider_kind PkFileStorage = ''FileStorage''"
| "debug_provider_kind PkObjectStorage = ''ObjectStorage''"
| "debug_provider_kind PkGeneric = ''Generic''"

datatype provider_action = PaProvision | PaReadinessCheck | PaReplace | PaMigrate | PaAdopt | PaDelete

definition is_destructive :: "provider_action \<Rightarrow> bool" where
  "is_destructive a = (a \<in> {PaDelete, PaReplace, PaMigrate, PaAdopt})"

fun debug_provider_action :: "provider_action \<Rightarrow> string" where
  "debug_provider_action PaProvision = ''Provision''"
| "debug_provider_action PaReadinessCheck = ''ReadinessCheck''"
| "debug_provider_action PaReplace = ''Replace''"
| "debug_provider_action PaMigrate = ''Migrate''"
| "debug_provider_action PaAdopt = ''Adopt''"
| "debug_provider_action PaDelete = ''Delete''"

fun action_label :: "provider_action \<Rightarrow> string" where
  "action_label PaProvision = ''provision''"
| "action_label PaReadinessCheck = ''readiness-check''"
| "action_label PaReplace = ''replace''"
| "action_label PaMigrate = ''migrate''"
| "action_label PaAdopt = ''adopt''"
| "action_label PaDelete = ''delete''"

record provider_operation =
  po_application_id :: application_id
  po_environment_id :: "environment_id option"
  po_resource_id :: resource_id
  po_capability :: string
  po_provider_key :: string
  po_kind :: provider_kind
  po_action :: provider_action
  po_idempotency_key :: string
  po_trace_id :: string
  po_secret_refs :: "string list"
  po_attempt :: u32

definition operation_plan ::
  "application_id \<Rightarrow> environment_id option \<Rightarrow> resource_id \<Rightarrow> string \<Rightarrow> string \<Rightarrow> provider_kind \<Rightarrow>
   provider_action \<Rightarrow> string \<Rightarrow> provider_operation outcome" where
  "operation_plan application_id environment_id resource_id capability provider_key kind action trace_id =
     (if trim capability = []
      then Err (CapabilityBinding ''provider operation requires a capability key'')
      else if trim provider_key = []
      then Err (CapabilityBinding ''provider operation requires a provider key'')
      else if trim trace_id = []
      then Err (CapabilityBinding ''provider operation requires a trace id'')
      else if \<not> supplies kind capability
      then Err (CapabilityBinding (''provider kind '' @ debug_provider_kind kind @
             '' does not supply capability '' @ quoted capability))
      else Ok \<lparr>po_application_id = application_id, po_environment_id = environment_id,
             po_resource_id = resource_id, po_capability = capability, po_provider_key = provider_key,
             po_kind = kind, po_action = action,
             po_idempotency_key = resource_id_display resource_id @ '':'' @ provider_key @ '':'' @
               action_label action @ '':'' @ trace_id,
             po_trace_id = trace_id, po_secret_refs = [], po_attempt = 1\<rparr>)"

definition with_secret_refs :: "provider_operation \<Rightarrow> string list \<Rightarrow> provider_operation" where
  "with_secret_refs oper refs = oper\<lparr>po_secret_refs := refs\<rparr>"

definition with_attempt :: "provider_operation \<Rightarrow> u32 \<Rightarrow> provider_operation" where
  "with_attempt oper attempt = oper\<lparr>po_attempt := max attempt 1\<rparr>"

definition require_approval :: "provider_operation \<Rightarrow> explicit_approval option \<Rightarrow> unit outcome" where
  "require_approval oper approval =
     (if \<not> is_destructive (po_action oper) then Ok ()
      else case approval of
        None \<Rightarrow> Err (ApprovalRequired (''provider '' @ debug_provider_action (po_action oper) @
                  '' on resource '' @ resource_id_display (po_resource_id oper) @
                  '' requires a granted, named human approval''))
      | Some a \<Rightarrow>
          if \<not> ea_approved a \<or> trim (ea_approver a) = []
          then Err (ApprovalRequired (''provider '' @ debug_provider_action (po_action oper) @
                 '' on resource '' @ resource_id_display (po_resource_id oper) @
                 '' was denied or unnamed; no provider call occurred''))
          else if \<not> str_contains (ea_proposal_summary a) (resource_id_display (po_resource_id oper)) \<and>
                  \<not> str_contains (ea_proposal_summary a) (po_capability oper)
          then Err (ApprovalRequired (''approval scope '' @ quoted (ea_proposal_summary a) @
                 '' does not match resource '' @ resource_id_display (po_resource_id oper) @
                 '' capability '' @ quoted (po_capability oper) @ ''; no provider call occurred''))
          else Ok ())"

section \<open>Observations\<close>

datatype provider_observation =
    PoAccepted string | PoReady string | PoDegraded string | PoFailed string string

definition sanitize_failure :: "string \<Rightarrow> string list \<Rightarrow> string \<times> string" where
  "sanitize_failure reason secrets = (redact_reason reason secrets, provider_failure_recovery)"

definition observation_accepted :: "string \<Rightarrow> provider_observation" where
  "observation_accepted detail = PoAccepted detail"

definition observation_failed :: "string \<Rightarrow> string list \<Rightarrow> provider_observation" where
  "observation_failed reason secrets =
     (let (reason, recovery) = sanitize_failure reason secrets in PoFailed reason recovery)"

fun target_phase :: "provider_observation \<Rightarrow> resource_phase" where
  "target_phase (PoAccepted _) = Provisioning"
| "target_phase (PoReady _) = Ready"
| "target_phase (PoDegraded _) = Degraded"
| "target_phase (PoFailed _ _) = Failed"

fun observation_event_detail :: "provider_observation \<Rightarrow> string" where
  "observation_event_detail (PoAccepted detail) = ''provider accepted: '' @ detail"
| "observation_event_detail (PoReady detail) = ''provider ready: '' @ detail"
| "observation_event_detail (PoDegraded reason) = ''provider degraded: '' @ reason"
| "observation_event_detail (PoFailed reason recovery) =
     ''provider failed: '' @ reason @ '' | recovery: '' @ recovery"

definition note_agent_claim_ignored :: "u32 \<Rightarrow> u32" where
  "note_agent_claim_ignored claims_ignored = saturating_add_u32 claims_ignored 1"

section \<open>Registry delivery\<close>

record registry_artifact =
  ra_reference :: string
  ra_digest :: string
  ra_revision_sha :: string
  ra_verified_production_build :: bool

definition registry_artifact_new :: "string \<Rightarrow> string \<Rightarrow> string \<Rightarrow> bool \<Rightarrow> registry_artifact" where
  "registry_artifact_new reference digest revision_sha verified =
     \<lparr>ra_reference = reference, ra_digest = digest, ra_revision_sha = revision_sha,
      ra_verified_production_build = verified\<rparr>"

definition is_digest_addressable :: "registry_artifact \<Rightarrow> bool" where
  "is_digest_addressable a = (starts_with (ra_digest a) ''sha256:'' \<and> ra_reference a \<noteq> [])"

definition gate_registry_push :: "registry_artifact \<Rightarrow> unit outcome" where
  "gate_registry_push a =
     (if \<not> ra_verified_production_build a
      then Err (DeploymentError ''registry push requires a verified production build; development or unverified artifacts are refused'')
      else if \<not> is_digest_addressable a
      then Err (DeploymentError (''registry push refused for non-digest-addressable artifact '' @
             quoted (ra_reference a)))
      else Ok ())"

definition verify_registry_digest :: "string \<Rightarrow> string \<Rightarrow> unit outcome" where
  "verify_registry_digest expected reported =
     (if expected = reported then Ok ()
      else Err (DeploymentError (''registry digest mismatch: recorded '' @ expected @
             '' but registry reported '' @ reported @ ''. '' @ digest_mismatch_recovery)))"

section \<open>Domain delivery\<close>

datatype dns_state = DnsPending | DnsPropagated | DnsFailed string

datatype certificate_state = CertPending | CertIssued | CertRenewing | CertFailed string

fun debug_dns_state :: "dns_state \<Rightarrow> string" where
  "debug_dns_state DnsPending = ''Pending''"
| "debug_dns_state DnsPropagated = ''Propagated''"
| "debug_dns_state (DnsFailed reason) = ''Failed { reason: '' @ debug_str reason @ '' }''"

fun debug_certificate_state :: "certificate_state \<Rightarrow> string" where
  "debug_certificate_state CertPending = ''Pending''"
| "debug_certificate_state CertIssued = ''Issued''"
| "debug_certificate_state CertRenewing = ''Renewing''"
| "debug_certificate_state (CertFailed reason) = ''Failed { reason: '' @ debug_str reason @ '' }''"

definition certificate_failed :: "string \<Rightarrow> string list \<Rightarrow> certificate_state" where
  "certificate_failed reason secrets = CertFailed (redact_reason reason secrets)"

definition is_issued :: "certificate_state \<Rightarrow> bool" where
  "is_issued c = (c = CertIssued \<or> c = CertRenewing)"

record domain_delivery =
  dd_domain_id :: domain_id
  dd_deployment_id :: "deployment_id option"
  dd_dns :: dns_state
  dd_tls :: certificate_state
  dd_traffic_attached :: bool
  dd_detail :: "string option"

definition domain_delivery_new :: "domain_id \<Rightarrow> domain_delivery" where
  "domain_delivery_new i =
     \<lparr>dd_domain_id = i, dd_deployment_id = None, dd_dns = DnsPending, dd_tls = CertPending,
      dd_traffic_attached = False, dd_detail = None\<rparr>"

definition delivery_is_healthy :: "domain_delivery \<Rightarrow> bool" where
  "delivery_is_healthy d =
     (dd_traffic_attached d \<and> dd_deployment_id d \<noteq> None \<and> dd_dns d = DnsPropagated \<and> is_issued (dd_tls d))"

definition report_certificate_failure :: "domain_delivery \<Rightarrow> string \<Rightarrow> string list \<Rightarrow> domain_delivery" where
  "report_certificate_failure d reason secrets =
     (let d1 = d\<lparr>dd_tls := certificate_failed reason secrets, dd_traffic_attached := False\<rparr> in
      case dd_tls d1 of
        CertFailed reason \<Rightarrow>
          d1\<lparr>dd_detail := Some (''certificate issuance failed: '' @ reason @ ''. '' @
               certificate_failure_recovery)\<rparr>
      | _ \<Rightarrow> d1)"

definition delivery_event_detail :: "domain_delivery \<Rightarrow> string" where
  "delivery_event_detail d =
     ''domain '' @ domain_id_display (dd_domain_id d) @ '' dns '' @ debug_dns_state (dd_dns d) @ '' tls '' @
     debug_certificate_state (dd_tls d) @ '' traffic '' @ show_bool (dd_traffic_attached d) @
     '' deployment '' @ debug_option debug_deployment_id (dd_deployment_id d) @ '' '' @
     (case dd_detail d of Some s \<Rightarrow> s | None \<Rightarrow> [])"

definition plan_traffic_attachment ::
  "domain_delivery \<Rightarrow> domain \<Rightarrow> deployment \<Rightarrow> explicit_approval \<Rightarrow> domain_delivery \<times> unit outcome" where
  "plan_traffic_attachment dl dmn d approval =
     (if \<not> ea_approved approval \<or> trim (ea_approver approval) = []
      then (dl, Err (ApprovalRequired (''domain traffic change for '' @ quoted (dom_hostname dmn) @
             '' requires explicit approval'')))
      else if \<not> is_routable dmn
      then (dl, Err (DeploymentError (''domain '' @ quoted (dom_hostname dmn) @ '' is not routable'')))
      else if dd_dns dl \<noteq> DnsPropagated
      then (dl, Err (DeploymentError (''domain '' @ quoted (dom_hostname dmn) @
             '' has no propagated DNS; traffic not attached'')))
      else
        (case dd_tls dl of
           CertFailed reason \<Rightarrow>
             (dl, Err (DeploymentError (''certificate issuance failed for '' @ quoted (dom_hostname dmn) @
                '': '' @ reason @ ''. '' @ certificate_failure_recovery)))
         | state \<Rightarrow>
             if \<not> is_issued state
             then (dl, Err (DeploymentError (''domain '' @ quoted (dom_hostname dmn) @
                    '' has no issued TLS certificate; traffic not attached'')))
             else if \<not> is_promoted d
             then (dl, Err (DeploymentError (''cannot route '' @ quoted (dom_hostname dmn) @
                    '' to unpromoted deployment '' @ deployment_id_display (dp_id d) @ '' ('' @
                    debug_deployment_phase (dp_phase d) @ '')'')))
             else (dl\<lparr>dd_deployment_id := Some (dp_id d), dd_traffic_attached := True,
                      dd_detail := Some (''traffic attached to promoted deployment '' @
                        deployment_id_display (dp_id d) @ '' by '' @ ea_approver approval)\<rparr>, Ok ())))"

section \<open>Histories of a delivery\<close>

datatype delivery_op =
    ObserveDns dns_state
  | ObserveTls certificate_state
  | CertificateFailure string "string list"
  | AttachTraffic domain deployment explicit_approval

fun delivery_exec :: "domain_delivery \<Rightarrow> delivery_op \<Rightarrow> domain_delivery" where
  "delivery_exec dl (ObserveDns s) = dl\<lparr>dd_dns := s\<rparr>"
| "delivery_exec dl (ObserveTls s) = dl\<lparr>dd_tls := s\<rparr>"
| "delivery_exec dl (CertificateFailure reason secrets) = report_certificate_failure dl reason secrets"
| "delivery_exec dl (AttachTraffic dmn d approval) = fst (plan_traffic_attachment dl dmn d approval)"

definition delivery_run :: "domain_delivery \<Rightarrow> delivery_op list \<Rightarrow> domain_delivery" where
  "delivery_run dl opers = foldl delivery_exec dl opers"

definition traffic_gate :: "domain_delivery \<Rightarrow> domain \<Rightarrow> deployment \<Rightarrow> explicit_approval \<Rightarrow> bool" where
  "traffic_gate dl dmn d approval =
     (granted_and_named approval \<and> is_routable dmn \<and> dd_dns dl = DnsPropagated \<and>
      is_issued (dd_tls dl) \<and> is_promoted d)"

lemma plan_traffic_result:
  "fst (plan_traffic_attachment dl dmn d approval) =
     (if traffic_gate dl dmn d approval
      then dl\<lparr>dd_deployment_id := Some (dp_id d), dd_traffic_attached := True,
              dd_detail := Some (''traffic attached to promoted deployment '' @
                deployment_id_display (dp_id d) @ '' by '' @ ea_approver approval)\<rparr>
      else dl)"
  "traffic_gate dl dmn d approval \<Longrightarrow> snd (plan_traffic_attachment dl dmn d approval) = Ok ()"
  "\<not> traffic_gate dl dmn d approval \<Longrightarrow> \<exists>e. snd (plan_traffic_attachment dl dmn d approval) = Err e"
  by (auto simp: plan_traffic_attachment_def traffic_gate_def granted_and_named_def is_issued_def
      split: certificate_state.split)

lemma report_certificate_failure_fields [simp]:
  "dd_traffic_attached (report_certificate_failure dl reason secrets) = False"
  "dd_tls (report_certificate_failure dl reason secrets) = CertFailed (redact_reason reason secrets)"
  by (simp_all add: report_certificate_failure_def certificate_failed_def Let_def)

lemma delivery_attached_history:
  assumes "dd_traffic_attached (delivery_run (domain_delivery_new i) opers)"
  shows "\<exists>pre dmn d approval post. opers = pre @ AttachTraffic dmn d approval # post \<and>
    traffic_gate (delivery_run (domain_delivery_new i) pre) dmn d approval \<and>
    dd_deployment_id (delivery_run (domain_delivery_new i) opers) = Some (dp_id d) \<and>
    (\<forall>oper \<in> set post. \<not> (\<exists>reason secrets. oper = CertificateFailure reason secrets))"
  using assms
proof (induction opers rule: rev_induct)
  case Nil
  then show ?case by (simp add: delivery_run_def domain_delivery_new_def)
next
  case (snoc oper opers)
  let ?dl = "delivery_run (domain_delivery_new i) opers"
  have run: "delivery_run (domain_delivery_new i) (opers @ [oper]) = delivery_exec ?dl oper"
    by (simp add: delivery_run_def)
  show ?case
  proof (cases "\<exists>dmn d approval. oper = AttachTraffic dmn d approval \<and> traffic_gate ?dl dmn d approval")
    case True
    then obtain dmn d approval where o: "oper = AttachTraffic dmn d approval" "traffic_gate ?dl dmn d approval"
      by blast
    have "dd_deployment_id (delivery_exec ?dl oper) = Some (dp_id d)"
      using o by (simp add: plan_traffic_result(1))
    then show ?thesis
      using o run by (intro exI [of _ opers] exI [of _ dmn] exI [of _ d] exI [of _ approval] exI [of _ "[]"]) simp
  next
    case False
    have kept: "dd_traffic_attached (delivery_exec ?dl oper) = dd_traffic_attached ?dl \<and>
        dd_deployment_id (delivery_exec ?dl oper) = dd_deployment_id ?dl"
      if "\<not> (\<exists>reason secrets. oper = CertificateFailure reason secrets)"
    proof (cases oper)
      case (AttachTraffic dmn d approval)
      then show ?thesis using False by (auto simp: plan_traffic_result(1))
    qed (use that in auto)
    have nc: "\<not> (\<exists>reason secrets. oper = CertificateFailure reason secrets)"
      using snoc.prems run by auto
    with kept snoc.prems run have "dd_traffic_attached ?dl" by simp
    from snoc.IH [OF this] obtain pre dmn d approval post where
      "opers = pre @ AttachTraffic dmn d approval # post"
      "traffic_gate (delivery_run (domain_delivery_new i) pre) dmn d approval"
      "dd_deployment_id ?dl = Some (dp_id d)"
      "\<forall>oper \<in> set post. \<not> (\<exists>reason secrets. oper = CertificateFailure reason secrets)" by blast
    with nc kept [OF nc] run show ?thesis
      by (intro exI [of _ pre] exI [of _ dmn] exI [of _ d] exI [of _ approval] exI [of _ "post @ [oper]"]) auto
  qed
qed

section \<open>Properties\<close>

text \<open>
  Destructive actions need a matching approval. Delete, replace, migrate and adopt pass the gate
  exactly with a granted approval by a named human whose summary contains the resource id or
  the capability; provisioning and readiness checks always pass; every refusal is the approval error.
\<close>

theorem destructive_needs_approval:
  "(require_approval oper approval = Ok () \<longleftrightarrow>
      po_action oper \<in> {PaProvision, PaReadinessCheck} \<or>
      (\<exists>a. approval = Some a \<and> granted_and_named a \<and>
         (sublist (resource_id_display (po_resource_id oper)) (ea_proposal_summary a) \<or>
          sublist (po_capability oper) (ea_proposal_summary a)))) \<and>
   (case require_approval oper approval of
      Ok _ \<Rightarrow> True | Err e \<Rightarrow> (\<exists>m. e = ApprovalRequired m) | Panic m \<Rightarrow> False)"
  by (cases "po_action oper")
    (auto simp: require_approval_def is_destructive_def granted_and_named_def str_contains_def
      split: option.split)

text \<open>
  (C8) Traffic of a domain. Along any sequence of DNS and TLS observations, certificate failures and
  attachment attempts, a delivery that reports healthy was attached by an attempt that had a
  granted, named approval, a routable domain, propagated DNS, an issued certificate and a
  promoted deployment, it serves that deployment, and no certificate failure was reported since.
\<close>

theorem healthy_delivery_was_gated:
  assumes "delivery_is_healthy (delivery_run (domain_delivery_new i) opers)"
  shows "\<exists>pre dmn d approval post. opers = pre @ AttachTraffic dmn d approval # post \<and>
    granted_and_named approval \<and> is_routable dmn \<and> dp_phase d = DpHealthy \<and>
    dd_dns (delivery_run (domain_delivery_new i) pre) = DnsPropagated \<and>
    is_issued (dd_tls (delivery_run (domain_delivery_new i) pre)) \<and>
    dd_deployment_id (delivery_run (domain_delivery_new i) opers) = Some (dp_id d) \<and>
    (\<forall>oper \<in> set post. \<not> (\<exists>reason secrets. oper = CertificateFailure reason secrets))"
proof -
  have "dd_traffic_attached (delivery_run (domain_delivery_new i) opers)"
    using assms by (simp add: delivery_is_healthy_def)
  from delivery_attached_history [OF this] show ?thesis
    unfolding traffic_gate_def is_promoted_def serves_traffic_def by blast
qed

theorem healthy_delivery_was_gated_witness:
  "\<exists>dmn d approval. delivery_is_healthy (delivery_run (domain_delivery_new (DomainId ''d''))
       [ObserveDns DnsPropagated, ObserveTls CertIssued, AttachTraffic dmn d approval]) \<and>
     granted_and_named approval \<and> dp_phase d = DpHealthy"
proof -
  define d :: deployment where "d = \<lparr>dp_id = DeploymentId ''1'', dp_application_id = ApplicationId ''a'',
    dp_environment_id = EnvironmentId ''e'',
    dp_revision = revision_new ''s'' ''c'' None, dp_build = None, dp_image = None, dp_runtime = sample_config,
    dp_resources = [], dp_endpoint = None, dp_health = HealthHealthy, dp_phase = DpHealthy, dp_logs = [],
    dp_rollback_target = None, dp_transitions = []\<rparr>"
  define dmn where "dmn = domain_new ''d'' (EnvironmentId ''e'') ''example.org'' True"
  define a where "a = approval_granted ''ops'' ''go live''"
  let ?opers = "[ObserveDns DnsPropagated, ObserveTls CertIssued, AttachTraffic dmn d a]"
  have h: "delivery_is_healthy (delivery_run (domain_delivery_new (DomainId ''d'')) ?opers)"
    by (simp add: delivery_run_def domain_delivery_new_def plan_traffic_result(1) traffic_gate_def
        delivery_is_healthy_def is_issued_def granted_and_named_def a_def approval_granted_def trim_def
        is_whitespace_def is_routable_def dmn_def domain_new_def is_promoted_def serves_traffic_def d_def)
  from healthy_delivery_was_gated [OF h] obtain dmn' d' a' where
    "AttachTraffic dmn' d' a' \<in> set ?opers" "granted_and_named a'" "dp_phase d' = DpHealthy"
    by (metis in_set_conv_decomp)
  with h show ?thesis by auto
qed

text \<open>
  Attachment step by step. The attempt succeeds exactly at the gate, then the delivery is
  healthy and serves that deployment; a refused attempt changes nothing; a certificate
  failure always detaches, never reads as healthy, and its text has no registered secret.
\<close>

theorem traffic_attachment_total:
  assumes "\<And>s. s \<in> set secrets \<Longrightarrow> marker_free s"
  shows "(snd (plan_traffic_attachment dl dmn d approval) = Ok () \<longleftrightarrow> traffic_gate dl dmn d approval) \<and>
    (traffic_gate dl dmn d approval \<longrightarrow>
       delivery_is_healthy (fst (plan_traffic_attachment dl dmn d approval)) \<and>
       dd_deployment_id (fst (plan_traffic_attachment dl dmn d approval)) = Some (dp_id d)) \<and>
    (\<not> traffic_gate dl dmn d approval \<longrightarrow> fst (plan_traffic_attachment dl dmn d approval) = dl) \<and>
    \<not> delivery_is_healthy (report_certificate_failure dl reason secrets) \<and>
    (\<exists>text. dd_tls (report_certificate_failure dl reason secrets) = CertFailed text \<and>
       (\<forall>s \<in> set secrets. \<not> str_contains text s))"
  using plan_traffic_result(2,3) [of dl dmn d approval] redact_reason_removes [of _ secrets reason] assms
  by (auto simp: plan_traffic_result(1) delivery_is_healthy_def traffic_gate_def)

theorem traffic_attachment_total_witness:
  "marker_free ''hunter2'' \<and>
   (\<exists>text. dd_tls (report_certificate_failure (domain_delivery_new (DomainId ''d'')) ''denied for hunter2'' [''hunter2'']) =
      CertFailed text \<and> \<not> str_contains text ''hunter2'')"
proof -
  have m: "marker_free ''hunter2''" by (simp add: marker_free_def sublist_Cons_right)
  then have "\<And>s. s \<in> set [''hunter2''] \<Longrightarrow> marker_free s" by simp
  from traffic_attachment_total [of "[''hunter2'']", OF this, where reason = "''denied for hunter2''"] m
  show ?thesis by auto
qed

end
