(* ===== verification/Workspace_Model.thy ===== *)
theory Workspace_Model
  imports Runtime_Model Ids
begin

text \<open>
  Session worktrees, previews, mobile shares and feedback: \<open>labrys-core/src/workspace.rs\<close>.

  A workspace moves from active to merged or discarded; the registry allocates one per session and
  application and forgets finished ones; a web preview has a URL only while it is available. The
  histories are lists of operations: \<open>registry_op\<close> for a registry whose callers
  write back what the workspace operations return, \<open>preview_op\<close> for a preview. Minted identifiers
  are arguments; \<open>to_rfc3339\<close> is the parameter \<open>rfc3339\<close>; the JSON forms are not here.
\<close>

section \<open>Workspaces\<close>

record canonical_repository =
  cr_application_id :: application_id
  cr_default_branch :: string
  cr_head_sha :: string

definition canonical_repository_new :: "application_id \<Rightarrow> string \<Rightarrow> string \<Rightarrow> canonical_repository outcome" where
  "canonical_repository_new application_id default_branch head_sha =
     (if trim default_branch = []
      then Err (WorkspaceState ''canonical repository requires a default branch'')
      else if trim head_sha = []
      then Err (WorkspaceState ''canonical repository requires a head sha'')
      else Ok \<lparr>cr_application_id = application_id, cr_default_branch = default_branch,
               cr_head_sha = head_sha\<rparr>)"

datatype worktree_status = WtActive | WtMerged | WtDiscarded

fun debug_worktree_status :: "worktree_status \<Rightarrow> string" where
  "debug_worktree_status WtActive = ''Active''"
| "debug_worktree_status WtMerged = ''Merged''"
| "debug_worktree_status WtDiscarded = ''Discarded''"

record workspace_diff =
  wd_files_changed :: "string list"
  wd_additions :: u32
  wd_deletions :: u32
  wd_summary :: string

definition workspace_diff_new :: "string list \<Rightarrow> u32 \<Rightarrow> u32 \<Rightarrow> string \<Rightarrow> workspace_diff outcome" where
  "workspace_diff_new files_changed additions deletions summary =
     (if files_changed = []
      then Err (WorkspaceState ''workspace diff must name at least one changed file'')
      else if trim summary = []
      then Err (WorkspaceState ''workspace diff requires a summary'')
      else Ok \<lparr>wd_files_changed = files_changed, wd_additions = additions, wd_deletions = deletions,
               wd_summary = summary\<rparr>)"

definition is_empty_change :: "workspace_diff \<Rightarrow> bool" where
  "is_empty_change d = (wd_additions d = 0 \<and> wd_deletions d = 0)"

record rollback_info =
  ri_base_sha :: string
  ri_base_branch :: string
  ri_worktree_path :: string

record session_workspace =
  sw_id :: workspace_id
  sw_application_id :: application_id
  sw_environment_name :: string
  sw_session_id :: agent_session_id
  sw_worktree_path :: string
  sw_branch :: string
  sw_base_sha :: string
  sw_status :: worktree_status
  sw_diff :: "workspace_diff option"

definition workspace_open ::
  "uuid \<Rightarrow> canonical_repository \<Rightarrow> agent_session_id \<Rightarrow> string \<Rightarrow> session_workspace outcome" where
  "workspace_open u repo session_id environment_name =
     (if trim environment_name = []
      then Err (WorkspaceState ''workspace requires an environment name'')
      else Ok \<lparr>sw_id = WorkspaceId u, sw_application_id = cr_application_id repo,
               sw_environment_name = environment_name, sw_session_id = session_id,
               sw_worktree_path = ''worktrees/'' @ agent_session_id_display session_id,
               sw_branch = ''session/'' @ agent_session_id_display session_id,
               sw_base_sha = cr_head_sha repo, sw_status = WtActive, sw_diff = None\<rparr>)"

definition record_diff :: "session_workspace \<Rightarrow> workspace_diff \<Rightarrow> session_workspace \<times> unit outcome" where
  "record_diff w diff =
     (if sw_status w \<noteq> WtActive
      then (w, Err (WorkspaceState (''cannot record diff while workspace '' @
             workspace_id_display (sw_id w) @ '' is '' @ debug_worktree_status (sw_status w))))
      else (w\<lparr>sw_diff := Some diff\<rparr>, Ok ()))"

definition workspace_rollback_info :: "session_workspace \<Rightarrow> rollback_info" where
  "workspace_rollback_info w =
     \<lparr>ri_base_sha = sw_base_sha w, ri_base_branch = sw_branch w, ri_worktree_path = sw_worktree_path w\<rparr>"

definition merge_ready :: "session_workspace \<Rightarrow> workspace_diff outcome" where
  "merge_ready w =
     (if sw_status w \<noteq> WtActive
      then Err (WorkspaceState (''workspace '' @ workspace_id_display (sw_id w) @ '' is '' @
             debug_worktree_status (sw_status w) @ '', not mergeable''))
      else (case sw_diff w of
              Some d \<Rightarrow> Ok d
            | None \<Rightarrow> Err (WorkspaceState (''workspace '' @ workspace_id_display (sw_id w) @
                '' has no exposed diff; merge requires review''))))"

record merge_request =
  mr_workspace_id :: workspace_id
  mr_diff :: workspace_diff
  mr_approved_by :: "string option"

definition workspace_merge ::
  "session_workspace \<Rightarrow> explicit_approval \<Rightarrow> session_workspace \<times> merge_request outcome" where
  "workspace_merge w approval =
     and_then (w, merge_ready w)
       (\<lambda>w diff.
          if is_empty_change diff
          then (w, Err (WorkspaceState (''workspace '' @ workspace_id_display (sw_id w) @
                 '' diff is empty; nothing to merge'')))
          else if \<not> ea_approved approval
          then (w, Err (ApprovalRequired (''workspace '' @ workspace_id_display (sw_id w) @
                 '' merge requires explicit approval'')))
          else if trim (ea_approver approval) = []
          then (w, Err (ApprovalRequired ''workspace merge approval must name an approver''))
          else (w\<lparr>sw_status := WtMerged\<rparr>,
                Ok \<lparr>mr_workspace_id = sw_id w, mr_diff = diff, mr_approved_by = Some (ea_approver approval)\<rparr>))"

definition workspace_discard :: "session_workspace \<Rightarrow> session_workspace \<times> unit outcome" where
  "workspace_discard w =
     (if sw_status w \<noteq> WtActive
      then (w, Err (WorkspaceState (''cannot discard workspace '' @ workspace_id_display (sw_id w) @
             '' while '' @ debug_worktree_status (sw_status w))))
      else (w\<lparr>sw_status := WtDiscarded, sw_diff := None\<rparr>, Ok ()))"

definition needs_cleanup :: "session_workspace \<Rightarrow> bool" where
  "needs_cleanup w = (sw_status w \<noteq> WtActive)"

definition merge_request_propose :: "session_workspace \<Rightarrow> merge_request outcome" where
  "merge_request_propose w =
     outcome_bind (merge_ready w)
       (\<lambda>diff. Ok \<lparr>mr_workspace_id = sw_id w, mr_diff = diff, mr_approved_by = None\<rparr>)"

definition merge_request_approve :: "merge_request \<Rightarrow> explicit_approval \<Rightarrow> merge_request \<times> unit outcome" where
  "merge_request_approve mr approval =
     (if \<not> ea_approved approval then (mr, Err (ApprovalRequired ''merge proposal was denied''))
      else if trim (ea_approver approval) = []
      then (mr, Err (ApprovalRequired ''merge approval must name an approver''))
      else (mr\<lparr>mr_approved_by := Some (ea_approver approval)\<rparr>, Ok ()))"

definition merge_request_is_approved :: "merge_request \<Rightarrow> bool" where
  "merge_request_is_approved mr = (mr_approved_by mr \<noteq> None)"

section \<open>The registry\<close>

type_synonym workspace_registry = "session_workspace list"

definition registry_allocate ::
  "uuid \<Rightarrow> workspace_registry \<Rightarrow> canonical_repository \<Rightarrow> agent_session_id \<Rightarrow> string \<Rightarrow>
   workspace_registry \<times> session_workspace outcome" where
  "registry_allocate u ws repo session_id environment_name =
     (if list_ex (\<lambda>w. sw_session_id w = session_id \<and> sw_application_id w = cr_application_id repo) ws
      then (ws, Err (WorkspaceState (''session '' @ agent_session_id_display session_id @
             '' already owns a worktree'')))
      else and_then (ws, workspace_open u repo session_id environment_name)
             (\<lambda>ws w. (ws @ [w], Ok w)))"

definition registry_get :: "workspace_registry \<Rightarrow> workspace_id \<Rightarrow> session_workspace option" where
  "registry_get ws i = find (\<lambda>w. sw_id w = i) ws"

definition active_for_application :: "workspace_registry \<Rightarrow> application_id \<Rightarrow> session_workspace list" where
  "active_for_application ws app = filter (\<lambda>w. sw_application_id w = app \<and> sw_status w = WtActive) ws"

fun registry_sync :: "workspace_registry \<Rightarrow> session_workspace \<Rightarrow> workspace_registry" where
  "registry_sync [] w = []"
| "registry_sync (x # xs) w = (if sw_id x = sw_id w then w # xs else x # registry_sync xs w)"

definition cleanup_finished :: "workspace_registry \<Rightarrow> workspace_registry \<times> nat" where
  "cleanup_finished ws =
     (let before = length ws; ws' = filter (\<lambda>w. \<not> needs_cleanup w) ws in (ws', before - length ws'))"

section \<open>Web previews\<close>

datatype preview_access = AccessPrivate | AccessShareableLink

datatype preview_status = PvPending | PvBuilding | PvAvailable | PvUnavailable string | PvExpired

fun debug_preview_status :: "preview_status \<Rightarrow> string" where
  "debug_preview_status PvPending = ''Pending''"
| "debug_preview_status PvBuilding = ''Building''"
| "debug_preview_status PvAvailable = ''Available''"
| "debug_preview_status (PvUnavailable reason) = ''Unavailable { reason: '' @ debug_str reason @ '' }''"
| "debug_preview_status PvExpired = ''Expired''"

record web_preview =
  wp_id :: preview_id
  wp_workspace_id :: workspace_id
  wp_session_id :: agent_session_id
  wp_access :: preview_access
  wp_status :: preview_status
  wp_health :: "health_status option"
  wp_url :: "string option"
  wp_build_error :: "string option"
  wp_expires_at :: "time option"

definition web_preview_new :: "uuid \<Rightarrow> session_workspace \<Rightarrow> preview_access \<Rightarrow> time option \<Rightarrow> web_preview" where
  "web_preview_new u w access expires_at =
     \<lparr>wp_id = PreviewId u, wp_workspace_id = sw_id w, wp_session_id = sw_session_id w,
      wp_access = access, wp_status = PvPending, wp_health = None, wp_url = None,
      wp_build_error = None, wp_expires_at = expires_at\<rparr>"

definition temporary_url :: "web_preview \<Rightarrow> string option" where
  "temporary_url p = (if wp_status p = PvAvailable then wp_url p else None)"

definition is_shareable :: "web_preview \<Rightarrow> bool" where
  "is_shareable p = (wp_status p = PvAvailable \<and> wp_access p = AccessShareableLink)"

definition notify_build_started :: "web_preview \<Rightarrow> web_preview \<times> unit outcome" where
  "notify_build_started p =
     (if wp_status p \<noteq> PvPending
      then (p, Err (PreviewUnavailable (''preview '' @ preview_id_display (wp_id p) @
             '' cannot start a build while '' @ debug_preview_status (wp_status p))))
      else (p\<lparr>wp_status := PvBuilding\<rparr>, Ok ()))"

definition status_label :: "build_result \<Rightarrow> string" where
  "status_label result = (if br_cancelled result then ''cancelled'' else ''failed'')"

definition preview_record_build :: "web_preview \<Rightarrow> build_result \<Rightarrow> web_preview \<times> unit outcome" where
  "preview_record_build p result =
     (if wp_status p = PvAvailable \<or> wp_status p = PvExpired
      then (p, Err (PreviewUnavailable (''preview '' @ preview_id_display (wp_id p) @
             '' cannot record a build while '' @ debug_preview_status (wp_status p))))
      else if build_is_success result
      then (let p1 = (if wp_status p = PvPending then p\<lparr>wp_status := PvBuilding\<rparr> else p)
            in (p1\<lparr>wp_build_error := None\<rparr>, Ok ()))
      else
        (let reason = ''preview build '' @ status_label result @ '': '' @ br_detail result @
               (case br_limit_enforced result of Some limit \<Rightarrow> '' (limit '' @ limit @ '')'' | None \<Rightarrow> []) @
               (case br_recovery result of Some recovery \<Rightarrow> ''; recovery: '' @ recovery | None \<Rightarrow> [])
         in (p\<lparr>wp_build_error := Some reason, wp_status := PvUnavailable reason\<rparr>, Ok ())))"

definition preview_record_health :: "web_preview \<Rightarrow> health_status \<Rightarrow> web_preview \<times> unit outcome" where
  "preview_record_health p health =
     (if wp_status p = PvExpired
      then (p, Err (PreviewUnavailable (''preview '' @ preview_id_display (wp_id p) @ '' is expired'')))
      else
        (let p1 = p\<lparr>wp_health := Some health\<rparr> in
         (case health of
            HealthHealthy \<Rightarrow>
              (let p2 = (if wp_url p1 = None
                         then p1\<lparr>wp_url := Some (''https://'' @ preview_id_display (wp_id p1) @
                                ''.preview.labrys.local'')\<rparr>
                         else p1)
               in p2\<lparr>wp_status := PvAvailable\<rparr>)
          | HealthStarting \<Rightarrow>
              if wp_status p1 = PvPending then p1\<lparr>wp_status := PvBuilding\<rparr> else p1
          | HealthUnhealthy reason \<Rightarrow>
              p1\<lparr>wp_status := PvUnavailable (''preview health failed: '' @ reason)\<rparr>
          | HealthUnknown reason \<Rightarrow>
              p1\<lparr>wp_status := PvUnavailable (''preview health failed: '' @ reason)\<rparr>,
          Ok ())))"

definition preview_event_detail :: "web_preview \<Rightarrow> string" where
  "preview_event_detail p =
     (case wp_status p of
        PvAvailable \<Rightarrow> ''preview '' @ preview_id_display (wp_id p) @ '' for workspace '' @
          workspace_id_display (wp_workspace_id p) @ '' available at '' @
          (case wp_url p of Some u \<Rightarrow> u | None \<Rightarrow> ''<pending url>'')
      | PvUnavailable reason \<Rightarrow> ''preview '' @ preview_id_display (wp_id p) @ '' for workspace '' @
          workspace_id_display (wp_workspace_id p) @ '' unavailable: '' @ reason
      | other \<Rightarrow> ''preview '' @ preview_id_display (wp_id p) @ '' for workspace '' @
          workspace_id_display (wp_workspace_id p) @ '' '' @ debug_preview_status other)"

definition preview_expire :: "web_preview \<Rightarrow> web_preview" where
  "preview_expire p = p\<lparr>wp_status := PvExpired\<rparr>"

definition preview_is_live :: "web_preview \<Rightarrow> time \<Rightarrow> bool" where
  "preview_is_live p now =
     (if wp_status p \<noteq> PvAvailable then False
      else case wp_expires_at p of Some expiry \<Rightarrow> now < expiry | None \<Rightarrow> True)"

section \<open>Mobile shares\<close>

datatype expo_transport = ExpoGo | DevelopmentBuild

fun expo_transport_name :: "expo_transport \<Rightarrow> string" where
  "expo_transport_name ExpoGo = ''expo_go''"
| "expo_transport_name DevelopmentBuild = ''development_build''"

definition is_expo_go :: "expo_transport \<Rightarrow> bool" where
  "is_expo_go t = (t = ExpoGo)"

datatype expo_share_status = ShareActive | ShareExpired | ShareRevoked

fun debug_expo_share_status :: "expo_share_status \<Rightarrow> string" where
  "debug_expo_share_status ShareActive = ''Active''"
| "debug_expo_share_status ShareExpired = ''Expired''"
| "debug_expo_share_status ShareRevoked = ''Revoked''"

record expo_share =
  xs_id :: preview_id
  xs_workspace_id :: workspace_id
  xs_session_id :: agent_session_id
  xs_project_slug :: string
  xs_dev_server_url :: string
  xs_transport :: expo_transport
  xs_status :: expo_share_status
  xs_expires_at :: time
  xs_qr_payload :: string

definition discover_server_url :: "string \<Rightarrow> u16 \<Rightarrow> string outcome" where
  "discover_server_url host port =
     (if trim host = [] then Err (PreviewUnavailable ''expo server discovery requires a host'')
      else if port = 0
      then Err (PreviewUnavailable ''expo server discovery requires a port in 1..=65535'')
      else Ok (''exp://'' @ host @ '':'' @ show_u16 port))"

definition qr_payload_for :: "string \<Rightarrow> string \<Rightarrow> agent_session_id \<Rightarrow> expo_transport \<Rightarrow> string" where
  "qr_payload_for dev_server_url project_slug session_id transport =
     dev_server_url @ ''/--/expo?project='' @ project_slug @ ''&session='' @
     agent_session_id_display session_id @ ''&transport='' @ expo_transport_name transport"

definition expo_share_new ::
  "uuid \<Rightarrow> session_workspace \<Rightarrow> string \<Rightarrow> string \<Rightarrow> expo_transport \<Rightarrow> time \<Rightarrow> expo_share outcome" where
  "expo_share_new u w project_slug dev_server_url transport expires_at =
     (if trim project_slug = []
      then Err (PreviewUnavailable ''expo share requires a project slug'')
      else if trim dev_server_url = []
      then Err (PreviewUnavailable ''expo share requires a dev server url'')
      else Ok \<lparr>xs_id = PreviewId u, xs_workspace_id = sw_id w, xs_session_id = sw_session_id w,
               xs_project_slug = project_slug, xs_dev_server_url = dev_server_url,
               xs_transport = transport, xs_status = ShareActive, xs_expires_at = expires_at,
               xs_qr_payload = qr_payload_for dev_server_url project_slug (sw_session_id w) transport\<rparr>)"

definition expo_is_active :: "expo_share \<Rightarrow> time \<Rightarrow> bool" where
  "expo_is_active s now = (xs_status s = ShareActive \<and> now < xs_expires_at s)"

definition expo_expire :: "expo_share \<Rightarrow> expo_share" where
  "expo_expire s = s\<lparr>xs_status := ShareExpired\<rparr>"

definition expo_revoke :: "expo_share \<Rightarrow> expo_share" where
  "expo_revoke s = s\<lparr>xs_status := ShareRevoked\<rparr>"

definition expo_event_detail :: "(time \<Rightarrow> string) \<Rightarrow> expo_share \<Rightarrow> string" where
  "expo_event_detail rfc3339 s =
     ''expo share '' @ preview_id_display (xs_id s) @ '' project '' @ quoted (xs_project_slug s) @
     '' server '' @ xs_dev_server_url s @ '' expires '' @ rfc3339 (xs_expires_at s) @ '' transport '' @
     expo_transport_name (xs_transport s) @ '' status '' @ debug_expo_share_status (xs_status s)"

section \<open>Feedback\<close>

record feedback =
  fb_id :: feedback_id
  fb_workspace_id :: workspace_id
  fb_session_id :: agent_session_id
  fb_preview_id :: "preview_id option"
  fb_author :: string
  fb_body :: string
  fb_created_at :: time

definition feedback_new :: "uuid \<Rightarrow> session_workspace \<Rightarrow> string \<Rightarrow> string \<Rightarrow> time \<Rightarrow> feedback outcome" where
  "feedback_new u w author body created_at =
     (if trim author = [] then Err (WorkspaceState ''feedback requires an author'')
      else if trim body = [] then Err (WorkspaceState ''feedback requires a body'')
      else Ok \<lparr>fb_id = FeedbackId u, fb_workspace_id = sw_id w, fb_session_id = sw_session_id w,
               fb_preview_id = None, fb_author = author, fb_body = body, fb_created_at = created_at\<rparr>)"

definition feedback_for_web_preview ::
  "uuid \<Rightarrow> session_workspace \<Rightarrow> web_preview \<Rightarrow> string \<Rightarrow> string \<Rightarrow> time \<Rightarrow> feedback outcome" where
  "feedback_for_web_preview u w preview author body created_at =
     (if wp_workspace_id preview \<noteq> sw_id w
      then Err (WorkspaceState (''feedback preview '' @ preview_id_display (wp_id preview) @
             '' does not belong to workspace '' @ workspace_id_display (sw_id w)))
      else outcome_bind (feedback_new u w author body created_at)
             (\<lambda>f. Ok (f\<lparr>fb_preview_id := Some (wp_id preview)\<rparr>)))"

definition feedback_for_expo_share ::
  "uuid \<Rightarrow> session_workspace \<Rightarrow> expo_share \<Rightarrow> string \<Rightarrow> string \<Rightarrow> time \<Rightarrow> feedback outcome" where
  "feedback_for_expo_share u w share author body created_at =
     (if xs_workspace_id share \<noteq> sw_id w
      then Err (WorkspaceState (''feedback expo share '' @ preview_id_display (xs_id share) @
             '' does not belong to workspace '' @ workspace_id_display (sw_id w)))
      else outcome_bind (feedback_new u w author body created_at)
             (\<lambda>f. Ok (f\<lparr>fb_preview_id := Some (xs_id share)\<rparr>)))"

section \<open>Worktree isolation\<close>

text \<open>What never changes about a workspace once it is opened.\<close>

definition same_worktree :: "session_workspace \<Rightarrow> session_workspace \<Rightarrow> bool" where
  "same_worktree x w =
     (sw_session_id w = sw_session_id x \<and> sw_application_id w = sw_application_id x \<and>
      sw_worktree_path w = sw_worktree_path x \<and> sw_branch w = sw_branch x \<and> sw_base_sha w = sw_base_sha x)"

text \<open>
  A registry as its callers use it: they allocate, write back a workspace that descends from the one
  they took out, and collect finished ones.
\<close>

inductive registry_step :: "workspace_registry \<Rightarrow> workspace_registry \<Rightarrow> bool" where
  allocate: "registry_step ws (fst (registry_allocate u ws repo session_id environment_name))"
| write_back: "(\<And>x. x \<in> set ws \<Longrightarrow> sw_id x = sw_id w \<Longrightarrow> same_worktree x w) \<Longrightarrow>
    registry_step ws (registry_sync ws w)"
| collect: "registry_step ws (fst (cleanup_finished ws))"

definition owner :: "session_workspace \<Rightarrow> agent_session_id \<times> application_id" where
  "owner w = (sw_session_id w, sw_application_id w)"

definition names_session :: "session_workspace \<Rightarrow> bool" where
  "names_session w =
     (sw_worktree_path w = ''worktrees/'' @ agent_session_id_display (sw_session_id w) \<and>
      sw_branch w = ''session/'' @ agent_session_id_display (sw_session_id w))"

definition registry_wf :: "workspace_registry \<Rightarrow> bool" where
  "registry_wf ws = (distinct (map owner ws) \<and> (\<forall>w \<in> set ws. names_session w))"

lemma same_worktree_names: "same_worktree x w \<Longrightarrow> names_session w = names_session x"
  by (simp add: same_worktree_def names_session_def)

lemma allocate_wf:
  assumes "registry_wf ws"
  shows "registry_wf (fst (registry_allocate u ws repo session_id environment_name))"
proof (cases "trim environment_name = [] \<or>
    list_ex (\<lambda>w. sw_session_id w = session_id \<and> sw_application_id w = cr_application_id repo) ws")
  case True
  then show ?thesis using assms by (auto simp: registry_allocate_def workspace_open_def)
next
  case False
  then show ?thesis using assms
    by (auto simp: registry_allocate_def workspace_open_def registry_wf_def names_session_def owner_def list_ex_iff)
qed

lemma sync_owner:
  "(\<And>x. x \<in> set ws \<Longrightarrow> sw_id x = sw_id w \<Longrightarrow> same_worktree x w) \<Longrightarrow>
   map owner (registry_sync ws w) = map owner ws"
  by (induction ws) (auto simp: owner_def same_worktree_def)

lemma sync_names:
  assumes "x \<in> set (registry_sync ws w)"
    and "\<And>x. x \<in> set ws \<Longrightarrow> sw_id x = sw_id w \<Longrightarrow> same_worktree x w"
  obtains y where "y \<in> set ws" "same_worktree y x"
proof -
  have "\<exists>y \<in> set ws. same_worktree y x"
    using assms by (induction ws) (auto simp: same_worktree_def split: if_splits)
  then show thesis using that by blast
qed

lemma registry_step_wf: "registry_step ws ws' \<Longrightarrow> registry_wf ws \<Longrightarrow> registry_wf ws'"
proof (induction rule: registry_step.induct)
  case (allocate ws u repo session_id environment_name)
  then show ?case by (rule allocate_wf)
next
  case (write_back ws w)
  have "names_session x" if x: "x \<in> set (registry_sync ws w)" for x
  proof -
    obtain y where "y \<in> set ws" "same_worktree y x" using sync_names [OF x] write_back(1) by blast
    then show ?thesis using write_back(2) by (simp add: registry_wf_def same_worktree_names)
  qed
  then show ?case using write_back sync_owner [of ws w] by (simp add: registry_wf_def)
next
  case (collect ws)
  then show ?case by (auto simp: registry_wf_def cleanup_finished_def Let_def distinct_map_filter)
qed

lemma registry_reachable_wf: "registry_step\<^sup>*\<^sup>* [] ws \<Longrightarrow> registry_wf ws"
proof (induction rule: rtranclp_induct)
  case base
  then show ?case by (simp add: registry_wf_def)
next
  case (step ws ws')
  then show ?case by (blast intro: registry_step_wf)
qed

lemma agent_session_id_display_eq: "agent_session_id_display a = agent_session_id_display b \<longleftrightarrow> a = b"
  by (cases a; cases b) simp

text \<open>
  (C12) Sessions never share a worktree. In every registry its callers can reach from the empty one, two entries
  of one application belong to different sessions and have different paths and different branches; and a
  session that already owns a worktree of the application is refused a second one, with the registry
  unchanged.
\<close>

theorem worktrees_isolated:
  assumes "registry_step\<^sup>*\<^sup>* [] ws"
  shows "(\<forall>i j. i < j \<longrightarrow> j < length ws \<longrightarrow> sw_application_id (ws ! i) = sw_application_id (ws ! j) \<longrightarrow>
      sw_session_id (ws ! i) \<noteq> sw_session_id (ws ! j) \<and>
      sw_worktree_path (ws ! i) \<noteq> sw_worktree_path (ws ! j) \<and> sw_branch (ws ! i) \<noteq> sw_branch (ws ! j)) \<and>
    (\<forall>w \<in> set ws. \<forall>u repo env. cr_application_id repo = sw_application_id w \<longrightarrow>
      (\<exists>m. registry_allocate u ws repo (sw_session_id w) env = (ws, Err (WorkspaceState m))))"
proof (intro conjI allI impI ballI)
  fix i j assume ij: "i < j" "j < length ws" "sw_application_id (ws ! i) = sw_application_id (ws ! j)"
  have wf: "registry_wf ws" using assms by (rule registry_reachable_wf)
  then have "owner (ws ! i) \<noteq> owner (ws ! j)"
    using ij by (auto simp: registry_wf_def distinct_conv_nth)
  then show ne: "sw_session_id (ws ! i) \<noteq> sw_session_id (ws ! j)" using ij by (simp add: owner_def)
  have "ws ! i \<in> set ws" "ws ! j \<in> set ws" using ij by auto
  then show "sw_worktree_path (ws ! i) \<noteq> sw_worktree_path (ws ! j)" "sw_branch (ws ! i) \<noteq> sw_branch (ws ! j)"
    using wf ne by (simp_all add: registry_wf_def names_session_def agent_session_id_display_eq)
next
  fix w u env and repo :: canonical_repository assume "w \<in> set ws" "cr_application_id repo = sw_application_id w"
  then have "list_ex (\<lambda>x. sw_session_id x = sw_session_id w \<and> sw_application_id x = cr_application_id repo) ws"
    by (auto simp: list_ex_iff)
  then show "\<exists>m. registry_allocate u ws repo (sw_session_id w) env = (ws, Err (WorkspaceState m))"
    by (simp add: registry_allocate_def)
qed

definition sample_repo :: canonical_repository where
  "sample_repo = \<lparr>cr_application_id = ApplicationId ''1'', cr_default_branch = ''main'', cr_head_sha = ''c0''\<rparr>"

definition sample_workspace :: "string \<Rightarrow> session_workspace" where
  "sample_workspace n =
     \<lparr>sw_id = WorkspaceId n, sw_application_id = ApplicationId ''1'', sw_environment_name = ''preview'',
      sw_session_id = AgentSessionId n, sw_worktree_path = ''worktrees/agt_'' @ n,
      sw_branch = ''session/agt_'' @ n, sw_base_sha = ''c0'', sw_status = WtActive, sw_diff = None\<rparr>"

lemma sample_allocate:
  "\<forall>w \<in> set ws. sw_session_id w \<noteq> AgentSessionId n \<Longrightarrow>
   registry_allocate n ws sample_repo (AgentSessionId n) ''preview'' =
     (ws @ [sample_workspace n], Ok (sample_workspace n))"
  by (auto simp: registry_allocate_def workspace_open_def sample_repo_def sample_workspace_def trim_def
      is_whitespace_def list_ex_iff)

theorem worktrees_isolated_witness:
  "sw_worktree_path (sample_workspace ''8'') \<noteq> sw_worktree_path (sample_workspace ''9'') \<and>
   (\<exists>m. registry_allocate ''10'' [sample_workspace ''8'', sample_workspace ''9''] sample_repo
          (AgentSessionId ''8'') ''qa'' = ([sample_workspace ''8'', sample_workspace ''9''], Err (WorkspaceState m)))"
proof -
  let ?ws = "[sample_workspace ''8'', sample_workspace ''9'']"
  have "registry_step [] [sample_workspace ''8'']"
    using registry_step.allocate [of "[]" "''8''" sample_repo "AgentSessionId ''8''" "''preview''"]
    by (simp add: sample_allocate)
  moreover have "registry_step [sample_workspace ''8''] ?ws"
    using registry_step.allocate [of "[sample_workspace ''8'']" "''9''" sample_repo "AgentSessionId ''9''" "''preview''"]
    by (simp add: sample_allocate sample_workspace_def [of "''8''"])
  ultimately have r: "registry_step\<^sup>*\<^sup>* [] ?ws" by (meson converse_rtranclp_into_rtranclp rtranclp.rtrancl_refl)
  have "sw_application_id (?ws ! 0) = sw_application_id (?ws ! 1)" "sample_workspace ''8'' \<in> set ?ws"
    "cr_application_id sample_repo = sw_application_id (sample_workspace ''8'')"
    "sw_session_id (sample_workspace ''8'') = AgentSessionId ''8''"
    by (simp_all add: sample_workspace_def sample_repo_def)
  moreover have "0 < (1::nat)" "1 < length ?ws" by simp_all
  ultimately show ?thesis using worktrees_isolated [OF r] by (metis nth_Cons_0 nth_Cons_Suc One_nat_def)
qed

section \<open>Merging and discarding\<close>

datatype workspace_op = WoDiff workspace_diff | WoMerge explicit_approval | WoDiscard

fun workspace_exec :: "workspace_op \<Rightarrow> session_workspace \<Rightarrow> session_workspace" where
  "workspace_exec (WoDiff d) w = fst (record_diff w d)"
| "workspace_exec (WoMerge a) w = fst (workspace_merge w a)"
| "workspace_exec WoDiscard w = fst (workspace_discard w)"

lemma workspace_exec_final: "sw_status w \<noteq> WtActive \<Longrightarrow> workspace_exec op w = w"
  by (cases op) (simp_all add: record_diff_def workspace_merge_def merge_ready_def workspace_discard_def)

lemma workspace_run_final: "sw_status w \<noteq> WtActive \<Longrightarrow> fold workspace_exec ops w = w"
  by (induction ops) (simp_all add: workspace_exec_final)

lemma workspace_merge_cases:
  "(\<exists>d. sw_status w = WtActive \<and> sw_diff w = Some d \<and> \<not> is_empty_change d \<and> ea_approved approval \<and>
      trim (ea_approver approval) \<noteq> [] \<and>
      workspace_merge w approval =
        (w\<lparr>sw_status := WtMerged\<rparr>,
         Ok \<lparr>mr_workspace_id = sw_id w, mr_diff = d, mr_approved_by = Some (ea_approver approval)\<rparr>)) \<or>
   (\<exists>e. \<not> (sw_status w = WtActive \<and> (\<exists>d. sw_diff w = Some d \<and> \<not> is_empty_change d) \<and>
          ea_approved approval \<and> trim (ea_approver approval) \<noteq> []) \<and>
      workspace_merge w approval = (w, Err e))"
  by (cases "sw_diff w") (simp_all add: workspace_merge_def merge_ready_def)

text \<open>
  (C14) The merge gate is exact and final. A merge succeeds exactly when the workspace is active, exposes a diff
  that changes at least one line, and the approval is a grant that names its approver; then the request
  carries that very diff and approver and the workspace is merged, and no later operation changes it.
  Otherwise the call fails and leaves the workspace untouched.
\<close>

theorem merge_gate_exact:
  "(if sw_status w = WtActive \<and> (\<exists>d. sw_diff w = Some d \<and> \<not> is_empty_change d) \<and>
       ea_approved approval \<and> trim (ea_approver approval) \<noteq> []
    then \<exists>w' mr. workspace_merge w approval = (w', Ok mr) \<and> sw_status w' = WtMerged \<and>
           sw_diff w = Some (mr_diff mr) \<and> mr_workspace_id mr = sw_id w \<and>
           mr_approved_by mr = Some (ea_approver approval) \<and> fold workspace_exec later w' = w'
    else \<exists>e. workspace_merge w approval = (w, Err e))"
  using workspace_merge_cases [of w approval]
  by (auto simp: workspace_run_final)

section \<open>Preview availability\<close>

datatype preview_op = PoStarted | PoBuild build_result | PoHealth health_status | PoExpire

fun preview_exec :: "preview_op \<Rightarrow> web_preview \<Rightarrow> web_preview" where
  "preview_exec PoStarted p = fst (notify_build_started p)"
| "preview_exec (PoBuild r) p = fst (preview_record_build p r)"
| "preview_exec (PoHealth h) p = fst (preview_record_health p h)"
| "preview_exec PoExpire p = preview_expire p"

text \<open>The reports that take an available preview down.\<close>

fun takes_down :: "preview_op \<Rightarrow> bool" where
  "takes_down (PoHealth (HealthUnhealthy _)) = True"
| "takes_down (PoHealth (HealthUnknown _)) = True"
| "takes_down PoExpire = True"
| "takes_down _ = False"

definition served_by :: "preview_op list \<Rightarrow> bool" where
  "served_by ops =
     (PoExpire \<notin> set ops \<and>
      (\<exists>before after. ops = before @ PoHealth HealthHealthy # after \<and> \<not> list_ex takes_down after))"

lemma served_by_snoc:
  "served_by (ops @ [op]) \<longleftrightarrow>
     op = PoHealth HealthHealthy \<and> PoExpire \<notin> set ops \<or> \<not> takes_down op \<and> served_by ops"
proof
  assume "served_by (ops @ [op])"
  then obtain before after where *: "ops @ [op] = before @ PoHealth HealthHealthy # after"
    "\<not> list_ex takes_down after" "PoExpire \<notin> set (ops @ [op])"
    unfolding served_by_def by blast
  then show "op = PoHealth HealthHealthy \<and> PoExpire \<notin> set ops \<or> \<not> takes_down op \<and> served_by ops"
    by (cases after rule: rev_cases) (auto simp: served_by_def)
next
  assume "op = PoHealth HealthHealthy \<and> PoExpire \<notin> set ops \<or> \<not> takes_down op \<and> served_by ops"
  then show "served_by (ops @ [op])"
  proof
    assume "op = PoHealth HealthHealthy \<and> PoExpire \<notin> set ops"
    then show ?thesis unfolding served_by_def
      by (intro conjI exI [of _ ops] exI [of _ "[]"]) simp_all
  next
    assume *: "\<not> takes_down op \<and> served_by ops"
    then obtain before after where "ops = before @ PoHealth HealthHealthy # after" "\<not> list_ex takes_down after"
      "PoExpire \<notin> set ops" by (auto simp: served_by_def)
    then show ?thesis using * unfolding served_by_def
      by (intro conjI exI [of _ before] exI [of _ "after @ [op]"]) auto
  qed
qed

lemmas preview_ops_def = notify_build_started_def preview_record_build_def preview_record_health_def
  preview_expire_def Let_def

lemma preview_exec_expired: "wp_status (preview_exec op p) = PvExpired \<longleftrightarrow> op = PoExpire \<or> wp_status p = PvExpired"
  by (cases op rule: takes_down.cases; cases "wp_status p") (simp_all add: preview_ops_def)

lemma preview_exec_available:
  "wp_status (preview_exec op p) = PvAvailable \<longleftrightarrow>
     op = PoHealth HealthHealthy \<and> wp_status p \<noteq> PvExpired \<or> \<not> takes_down op \<and> wp_status p = PvAvailable"
  by (cases op rule: takes_down.cases; cases "wp_status p") (simp_all add: preview_ops_def)

definition preview_address :: "preview_id \<Rightarrow> string" where
  "preview_address i = ''https://'' @ preview_id_display i @ ''.preview.labrys.local''"

lemma preview_exec_url:
  "wp_id (preview_exec op p) = wp_id p \<and>
   (wp_url p \<in> {None, Some (preview_address (wp_id p))} \<longrightarrow>
    wp_url (preview_exec op p) \<in> {None, Some (preview_address (wp_id p))}) \<and>
   (wp_status p = PvAvailable \<longrightarrow> wp_url p \<noteq> None \<longrightarrow> wp_url (preview_exec op p) \<noteq> None) \<and>
   (wp_status (preview_exec op p) = PvAvailable \<longrightarrow> wp_status p \<noteq> PvAvailable \<longrightarrow> wp_url (preview_exec op p) \<noteq> None)"
  by (cases op rule: takes_down.cases; cases "wp_status p") (auto simp: preview_ops_def preview_address_def)

lemma preview_run_invariant:
  fixes ops :: "preview_op list" and u w access expires_at
  defines "p \<equiv> fold preview_exec ops (web_preview_new u w access expires_at)"
  shows "(wp_status p = PvExpired \<longleftrightarrow> PoExpire \<in> set ops) \<and> (wp_status p = PvAvailable \<longleftrightarrow> served_by ops) \<and>
    wp_id p = PreviewId u \<and> wp_url p \<in> {None, Some (preview_address (PreviewId u))} \<and>
    (wp_status p = PvAvailable \<longrightarrow> wp_url p \<noteq> None)"
  unfolding p_def
proof (induction ops rule: rev_induct)
  case Nil
  then show ?case by (simp add: web_preview_new_def served_by_def)
next
  case (snoc op ops)
  let ?p = "fold preview_exec ops (web_preview_new u w access expires_at)"
  have step: "fold preview_exec (ops @ [op]) (web_preview_new u w access expires_at) = preview_exec op ?p" by simp
  note IH = snoc.IH and facts = preview_exec_url [of op ?p] preview_exec_available [of op ?p]
    preview_exec_expired [of op ?p]
  show ?case unfolding step
  proof (intro conjI)
    show "(wp_status (preview_exec op ?p) = PvExpired) = (PoExpire \<in> set (ops @ [op]))"
      unfolding facts(3) using IH by auto
    show "(wp_status (preview_exec op ?p) = PvAvailable) = served_by (ops @ [op])"
      unfolding facts(2) served_by_snoc using IH by blast
    show "wp_id (preview_exec op ?p) = PreviewId u" using IH facts(1) by argo
    show "wp_url (preview_exec op ?p) \<in> {None, Some (preview_address (PreviewId u))}"
      using IH facts(1) by argo
    show "wp_status (preview_exec op ?p) = PvAvailable \<longrightarrow> wp_url (preview_exec op ?p) \<noteq> None"
      using IH facts(1) by argo
  qed
qed

text \<open>
  (C13) When a preview serves traffic. After any sequence of build starts, build results, health reports and
  expiry, a preview hands out a URL exactly when it was never expired and some report said healthy with no
  unhealthy or unknown report after it; the URL is then the one derived from its identifier. A
  build result never brings a preview up, and an expired preview never comes back. A failed build or a starting
  report on a served preview leaves it served.
\<close>

theorem preview_served_exactly:
  "let p = fold preview_exec ops (web_preview_new u w access expires_at)
   in temporary_url p =
        (if served_by ops then Some (''https://'' @ preview_id_display (PreviewId u) @ ''.preview.labrys.local'')
         else None) \<and>
      (wp_status p = PvExpired \<longleftrightarrow> PoExpire \<in> set ops) \<and>
      is_shareable p = (served_by ops \<and> wp_access p = AccessShareableLink)"
  using preview_run_invariant [of ops u w access expires_at]
  by (auto simp: Let_def temporary_url_def preview_address_def is_shareable_def)

end
