(* ===== verification/Capability.thy ===== *)
theory Capability
  imports Runtime_Model Ids
begin

text \<open>
  Capabilities, providers, bindings and modes: the first half of \<open>labrys-core/src/capability.rs\<close>
  (the secret store of the same file is in \<open>Secret_Store\<close>).

  An environment contract is a \<open>BTreeMap\<close>; a mode transition writes the mode before it reads the
  history, so a bound capability with an empty history panics half way, and the model says so. The
  lifecycle contract of the prelude is interpreted on mode transitions. Minted identifiers are
  arguments; the JSON forms are not here.
\<close>

section \<open>Contracts\<close>

definition capability_contract_version :: u32 where
  "capability_contract_version = 1"

datatype env_source = EnvLiteral string | EnvSecretRef string | EnvResourceField string

type_synonym env_contract = "(string, env_source) btree_map"

record capability =
  cp_key :: string
  cp_version :: u32
  cp_dependencies :: "string list"

definition capability_new :: "string \<Rightarrow> u32 \<Rightarrow> capability" where
  "capability_new key version = \<lparr>cp_key = key, cp_version = version, cp_dependencies = []\<rparr>"

definition with_dependencies :: "capability \<Rightarrow> string list \<Rightarrow> capability" where
  "with_dependencies c dependencies = c\<lparr>cp_dependencies := dependencies\<rparr>"

datatype capability_mode = ModeManaged | ModeExternal | ModeAdopted

fun debug_capability_mode :: "capability_mode \<Rightarrow> string" where
  "debug_capability_mode ModeManaged = ''Managed''"
| "debug_capability_mode ModeExternal = ''External''"
| "debug_capability_mode ModeAdopted = ''Adopted''"

record capability_provider =
  pr_key :: string
  pr_capability :: string
  pr_version :: u32
  pr_supports_reversal :: bool
  pr_modes :: "capability_mode list"

definition capability_provider_new ::
  "string \<Rightarrow> string \<Rightarrow> u32 \<Rightarrow> bool \<Rightarrow> capability_mode list \<Rightarrow> capability_provider" where
  "capability_provider_new key capability version supports_reversal modes =
     \<lparr>pr_key = key, pr_capability = capability, pr_version = version,
      pr_supports_reversal = supports_reversal, pr_modes = modes\<rparr>"

definition provider_supplies :: "capability_provider \<Rightarrow> string \<Rightarrow> bool" where
  "provider_supplies p capability_key = (pr_capability p = capability_key)"

definition supports_mode :: "capability_provider \<Rightarrow> capability_mode \<Rightarrow> bool" where
  "supports_mode p mode = (mode \<in> set (pr_modes p))"

datatype binding_kind = FrameworkBinding string | GenericBinding

record cap_binding =
  bd_key :: string
  bd_capability :: string
  bd_provider :: string
  bd_version :: u32
  bd_kind :: binding_kind
  bd_env :: env_contract

definition cap_binding_new ::
  "string \<Rightarrow> string \<Rightarrow> string \<Rightarrow> u32 \<Rightarrow> binding_kind \<Rightarrow> env_contract \<Rightarrow> cap_binding" where
  "cap_binding_new key capability provider version kind env =
     \<lparr>bd_key = key, bd_capability = capability, bd_provider = provider, bd_version = version,
      bd_kind = kind, bd_env = env\<rparr>"

definition is_generic :: "cap_binding \<Rightarrow> bool" where
  "is_generic b = (bd_kind b = GenericBinding)"

definition binding_framework :: "cap_binding \<Rightarrow> string option" where
  "binding_framework b =
     (case bd_kind b of FrameworkBinding framework \<Rightarrow> Some framework | GenericBinding \<Rightarrow> None)"

fun secret_ref_of :: "env_source \<Rightarrow> string option" where
  "secret_ref_of (EnvSecretRef i) = Some i"
| "secret_ref_of _ = None"

definition binding_secret_refs :: "cap_binding \<Rightarrow> string list" where
  "binding_secret_refs b = List.map_filter secret_ref_of (btm_values (bd_env b))"

record resource_ref =
  rr_id :: resource_id
  rr_capability :: string
  rr_provider :: string
  rr_external_ref :: string

definition resource_ref_new :: "uuid \<Rightarrow> string \<Rightarrow> string \<Rightarrow> string \<Rightarrow> resource_ref" where
  "resource_ref_new u capability provider external_ref =
     \<lparr>rr_id = ResourceId u, rr_capability = capability, rr_provider = provider,
      rr_external_ref = external_ref\<rparr>"

section \<open>Binding resolution\<close>

definition connects :: "string \<Rightarrow> string \<Rightarrow> cap_binding \<Rightarrow> bool" where
  "connects capability_key provider_key b = (bd_capability b = capability_key \<and> bd_provider b = provider_key)"

definition resolve_generic ::
  "cap_binding list \<Rightarrow> string \<Rightarrow> string \<Rightarrow> string option \<Rightarrow> cap_binding outcome" where
  "resolve_generic candidates capability_key provider_key framework =
     (case filter is_generic candidates of
        [b] \<Rightarrow> Ok b
      | [] \<Rightarrow> Err (CapabilityBinding (''no generic binding for '' @
            quoted (capability_key @ ''/'' @ provider_key) @ '' and no framework binding matches '' @
            debug_option debug_str framework))
      | generic \<Rightarrow> Err (CapabilityBinding (''binding conflict: '' @ show_nat (length generic) @
            '' generic bindings for '' @ quoted (capability_key @ ''/'' @ provider_key))))"

definition resolve_binding ::
  "cap_binding list \<Rightarrow> capability_provider list \<Rightarrow> string \<Rightarrow> string \<Rightarrow> string option \<Rightarrow> cap_binding outcome" where
  "resolve_binding bindings providers capability_key provider_key framework =
     (case find (\<lambda>p. pr_key p = provider_key) providers of
        None \<Rightarrow> Err (CapabilityBinding (''unknown provider '' @ quoted provider_key))
      | Some provider \<Rightarrow>
          if \<not> provider_supplies provider capability_key
          then Err (CapabilityBinding (''provider '' @ quoted provider_key @ '' supplies '' @
                 quoted (pr_capability provider) @ '', not '' @ quoted capability_key))
          else
            (let candidates = filter (connects capability_key provider_key) bindings in
             if candidates = []
             then Err (CapabilityBinding (''no binding connects capability '' @ quoted capability_key @
                    '' to provider '' @ quoted provider_key))
             else
               (case framework of
                  None \<Rightarrow> resolve_generic candidates capability_key provider_key framework
                | Some name \<Rightarrow>
                    (case filter (\<lambda>b. binding_framework b = Some name) candidates of
                       [] \<Rightarrow> resolve_generic candidates capability_key provider_key framework
                     | [b] \<Rightarrow> Ok b
                     | deep \<Rightarrow> Err (CapabilityBinding (''binding conflict: '' @ show_nat (length deep) @
                         '' bindings for framework '' @ quoted name @ '' on '' @
                         quoted (capability_key @ ''/'' @ provider_key)))))))"

definition generic_postgres_binding :: "string \<Rightarrow> cap_binding" where
  "generic_postgres_binding provider_key =
     cap_binding_new ''postgres.generic'' ''database.postgres'' provider_key 1 GenericBinding
       (btm_insert ''DATABASE_URL'' (EnvSecretRef (provider_key @ ''.database_url'')) [])"

definition generic_object_storage_binding :: "string \<Rightarrow> cap_binding" where
  "generic_object_storage_binding provider_key =
     cap_binding_new ''object-storage.generic'' ''storage.object'' provider_key 1 GenericBinding
       (btm_insert ''OBJECT_STORAGE_SECRET_KEY'' (EnvSecretRef (provider_key @ ''.secret_key''))
       (btm_insert ''OBJECT_STORAGE_ACCESS_KEY'' (EnvSecretRef (provider_key @ ''.access_key''))
       (btm_insert ''OBJECT_STORAGE_BUCKET'' (EnvResourceField ''bucket'')
       (btm_insert ''OBJECT_STORAGE_URL'' (EnvResourceField ''endpoint'') []))))"

definition generic_auth_binding :: "string \<Rightarrow> cap_binding" where
  "generic_auth_binding provider_key =
     cap_binding_new ''auth.generic'' ''auth'' provider_key 1 GenericBinding
       (btm_insert ''AUTH_SECRET_KEY'' (EnvSecretRef (provider_key @ ''.signing_key''))
       (btm_insert ''AUTH_URL'' (EnvResourceField ''issuer'') []))"

definition generic_file_storage_binding :: "string \<Rightarrow> cap_binding" where
  "generic_file_storage_binding provider_key =
     cap_binding_new ''file-storage.generic'' ''storage.file'' provider_key 1 GenericBinding
       (btm_insert ''FILE_STORAGE_TOKEN'' (EnvSecretRef (provider_key @ ''.token''))
       (btm_insert ''FILE_STORAGE_URL'' (EnvResourceField ''root'') []))"

section \<open>Bound capabilities\<close>

record mode_transition =
  mt_from :: capability_mode
  mt_to :: capability_mode
  mt_approved_by :: string
  mt_at :: time
  mt_reversible :: bool
  mt_source :: "string option"

definition mode_transition_detail :: "mode_transition \<Rightarrow> string" where
  "mode_transition_detail t =
     ''mode '' @ debug_capability_mode (mt_from t) @ '' -> '' @ debug_capability_mode (mt_to t) @
     '' approved by '' @ mt_approved_by t @
     (case mt_source t of Some s \<Rightarrow> '' source: '' @ s | None \<Rightarrow> []) @
     '' reversible: '' @ show_bool (mt_reversible t)"

record bound_capability =
  bc_id :: binding_id
  bc_application_id :: application_id
  bc_environment_name :: string
  bc_capability :: string
  bc_provider :: string
  bc_binding :: string
  bc_mode :: capability_mode
  bc_resource :: resource_ref
  bc_history :: "mode_transition list"

definition capability_bind ::
  "uuid \<Rightarrow> application_id \<Rightarrow> string \<Rightarrow> cap_binding \<Rightarrow> capability_provider \<Rightarrow> capability_mode \<Rightarrow> resource_ref \<Rightarrow>
   string \<Rightarrow> time \<Rightarrow> bound_capability outcome" where
  "capability_bind u application_id environment_name b provider mode resource actor at =
     (if bd_capability b \<noteq> rr_capability resource \<or> bd_provider b \<noteq> rr_provider resource
      then Err (CapabilityBinding (''resource '' @ resource_id_display (rr_id resource) @
             '' does not match binding '' @ quoted (bd_capability b @ ''/'' @ bd_provider b)))
      else if \<not> provider_supplies provider (bd_capability b) \<or> pr_key provider \<noteq> bd_provider b
      then Err (CapabilityBinding (''provider '' @ quoted (pr_key provider) @ '' does not supply binding '' @
             quoted (bd_capability b @ ''/'' @ bd_provider b)))
      else if \<not> supports_mode provider mode
      then Err (CapabilityBinding (''provider '' @ quoted (pr_key provider) @ '' does not operate in mode '' @
             debug_capability_mode mode))
      else Ok \<lparr>bc_id = BindingId u, bc_application_id = application_id, bc_environment_name = environment_name,
               bc_capability = bd_capability b, bc_provider = bd_provider b, bc_binding = bd_key b,
               bc_mode = mode, bc_resource = resource,
               bc_history = [\<lparr>mt_from = mode, mt_to = mode, mt_approved_by = actor, mt_at = at,
                 mt_reversible = pr_supports_reversal provider, mt_source = None\<rparr>]\<rparr>)"

definition mode_source :: "bound_capability \<Rightarrow> capability_mode \<Rightarrow> string option" where
  "mode_source c next =
     (if next = ModeAdopted then Some (bc_provider c @ '':'' @ rr_external_ref (bc_resource c)) else None)"

definition mode_change ::
  "bound_capability \<Rightarrow> capability_mode \<Rightarrow> capability_provider \<Rightarrow> explicit_approval \<Rightarrow> time \<Rightarrow>
   bound_capability \<times> mode_transition outcome" where
  "mode_change c next provider approval at =
     (if \<not> ea_approved approval
      then (c, Err (ApprovalRequired (''capability '' @ quoted (bc_capability c) @ '' mode change to '' @
             debug_capability_mode next @ '' requires explicit approval'')))
      else if trim (ea_approver approval) = []
      then (c, Err (ApprovalRequired ''mode transition approval must name an approver''))
      else if next = bc_mode c
      then (c, Err (CapabilityBinding (''capability '' @ quoted (bc_capability c) @ '' is already in mode '' @
             debug_capability_mode next)))
      else if \<not> supports_mode provider next
      then (c, Err (CapabilityBinding (''provider '' @ quoted (pr_key provider) @ '' cannot operate in mode '' @
             debug_capability_mode next)))
      else if bc_mode c = ModeAdopted \<and> next \<noteq> ModeAdopted \<and> \<not> pr_supports_reversal provider
      then (c, Err (CapabilityBinding (''provider '' @ quoted (pr_key provider) @
             '' does not support reversal out of Adopted'')))
      else
        (let source = mode_source c next; c1 = c\<lparr>bc_mode := next\<rparr> in
         if bc_history c1 = [] then (c1, Panic ''history is never empty'')
         else (let t = \<lparr>mt_from = mt_to (last (bc_history c1)), mt_to = next,
                        mt_approved_by = ea_approver approval, mt_at = at,
                        mt_reversible = pr_supports_reversal provider, mt_source = source\<rparr>
               in (c1\<lparr>bc_history := bc_history c1 @ [t]\<rparr>, Ok t))))"

definition bound_event_detail :: "bound_capability \<Rightarrow> string" where
  "bound_event_detail c =
     ''capability '' @ quoted (bc_capability c) @ '' via provider '' @ quoted (bc_provider c) @ '' binding '' @
     quoted (bc_binding c) @ '' in mode '' @ debug_capability_mode (bc_mode c) @ '' (resource '' @
     resource_id_display (rr_id (bc_resource c)) @ '')''"

section \<open>Resolution is exact\<close>

text \<open>
  (C32) Which binding a project gets. Resolution succeeds with a binding exactly when the provider is known and
  supplies the capability and the binding is the only one for the project's framework on this capability
  and provider, or, when there is none for the framework, the only generic one.
\<close>

theorem resolve_binding_exact:
  "resolve_binding bindings providers capability_key provider_key framework = Ok b \<longleftrightarrow>
     (\<exists>p. find (\<lambda>p. pr_key p = provider_key) providers = Some p \<and> pr_capability p = capability_key) \<and>
     (let deep = filter (\<lambda>x. connects capability_key provider_key x \<and> framework \<noteq> None \<and>
                   binding_framework x = framework) bindings;
          generic = filter (\<lambda>x. connects capability_key provider_key x \<and> is_generic x) bindings
      in if deep = [] then generic = [b] else deep = [b])"
proof -
  let ?cands = "filter (connects capability_key provider_key) bindings"
  have g: "resolve_generic ?cands capability_key provider_key framework = Ok b \<longleftrightarrow>
      filter (\<lambda>x. connects capability_key provider_key x \<and> is_generic x) bindings = [b]"
    by (auto simp: resolve_generic_def filter_filter conj_commute split: list.splits)
  have d: "filter (\<lambda>x. binding_framework x = Some n) ?cands =
      filter (\<lambda>x. connects capability_key provider_key x \<and> binding_framework x = Some n) bindings" for n
    by (simp add: filter_filter conj_commute)
  have e: "?cands = [] \<Longrightarrow> filter (\<lambda>x. connects capability_key provider_key x \<and> P x) bindings = []" for P
    by (simp add: filter_empty_conv)
  show ?thesis
  proof (cases framework)
    case None
    then show ?thesis using e
      by (auto simp: resolve_binding_def provider_supplies_def Let_def g [unfolded None] split: option.splits)
  next
    case (Some n)
    then show ?thesis using e
      by (auto simp: resolve_binding_def provider_supplies_def Let_def d g [unfolded Some]
          split: option.splits list.splits)
  qed
qed

section \<open>Mode histories\<close>

definition mode_log :: "bound_capability \<Rightarrow> (capability_mode \<times> capability_mode) list" where
  "mode_log c = map (\<lambda>t. (mt_from t, mt_to t)) (bc_history c)"

definition mode_moved :: "bound_capability \<Rightarrow> capability_mode \<Rightarrow> bound_capability \<Rightarrow> bool" where
  "mode_moved c next c' = (\<exists>provider approval at t. mode_change c next provider approval at = (c', Ok t))"

lemma mode_change_cases:
  "(\<exists>e. mode_change c next provider approval at = (c, Err e)) \<or>
   (granted_and_named approval \<and> next \<noteq> bc_mode c \<and> supports_mode provider next \<and>
    (bc_mode c = ModeAdopted \<longrightarrow> pr_supports_reversal provider) \<and>
    mode_change c next provider approval at =
      (if bc_history c = [] then (c\<lparr>bc_mode := next\<rparr>, Panic ''history is never empty'')
       else let t = \<lparr>mt_from = mt_to (last (bc_history c)), mt_to = next,
               mt_approved_by = ea_approver approval, mt_at = at,
               mt_reversible = pr_supports_reversal provider, mt_source = mode_source c next\<rparr>
            in (c\<lparr>bc_mode := next, bc_history := bc_history c @ [t]\<rparr>, Ok t)))"
  by (simp add: mode_change_def granted_and_named_def Let_def) metis

lemma mode_movedE:
  assumes "mode_moved c next c'"
  obtains t where "next \<noteq> bc_mode c" "bc_history c \<noteq> []" "mt_from t = mt_to (last (bc_history c))" "mt_to t = next"
    "trim (mt_approved_by t) \<noteq> []" "mt_source t = mode_source c next"
    "c' = c\<lparr>bc_mode := next, bc_history := bc_history c @ [t]\<rparr>"
proof -
  obtain provider approval at t where run: "mode_change c next provider approval at = (c', Ok t)"
    using assms by (auto simp: mode_moved_def)
  have h: "bc_history c \<noteq> []" "granted_and_named approval" "next \<noteq> bc_mode c"
    using run mode_change_cases [of c "next" provider approval at] by (auto split: if_splits)
  show thesis
    by (rule that [of t])
      (use h run mode_change_cases [of c "next" provider approval at] in
        \<open>auto simp: Let_def granted_and_named_def\<close>)
qed

interpretation modes: lifecycle "\<lambda>a b. a \<noteq> b" bc_mode mode_log mode_moved
proof unfold_locales
  fix c p c' assume "mode_moved c p c'"
  then obtain t where t: "p \<noteq> bc_mode c" "bc_history c \<noteq> []" "mt_from t = mt_to (last (bc_history c))"
    "mt_to t = p" "c' = c\<lparr>bc_mode := p, bc_history := bc_history c @ [t]\<rparr>"
    by (rule mode_movedE)
  then show "bc_mode c \<noteq> p" "bc_mode c' = p" by auto
  show "mode_log c \<noteq> [] \<and> mode_log c' = mode_log c @ [(snd (last (mode_log c)), p)]"
    using t by (simp add: mode_log_def last_map)
qed

definition mode_audited :: "bound_capability \<Rightarrow> mode_transition \<Rightarrow> bool" where
  "mode_audited c t =
     (trim (mt_approved_by t) \<noteq> [] \<and>
      mt_source t = (if mt_to t = ModeAdopted
        then Some (bc_provider c @ '':'' @ rr_external_ref (bc_resource c)) else None))"

definition bound_wf :: "bound_capability \<Rightarrow> bool" where
  "bound_wf c =
     (mode_log c \<noteq> [] \<and> snd (last (mode_log c)) = bc_mode c \<and> linked_log (mode_log c) \<and>
      legal_log (\<lambda>a b. a \<noteq> b) (mode_log c) \<and> (\<forall>t \<in> set (tl (bc_history c)). mode_audited c t))"

lemma mode_moved_wf:
  assumes "mode_moved c next c'" "bound_wf c"
  shows "bound_wf c' \<and> bc_resource c' = bc_resource c \<and> bc_provider c' = bc_provider c \<and>
    prefix (bc_history c) (bc_history c')"
proof -
  obtain t where t: "bc_history c \<noteq> []" "trim (mt_approved_by t) \<noteq> []" "mt_to t = next"
    "mt_source t = mode_source c next" "c' = c\<lparr>bc_mode := next, bc_history := bc_history c @ [t]\<rparr>"
    using assms(1) by (rule mode_movedE)
  then have keep: "bc_resource c' = bc_resource c" "bc_provider c' = bc_provider c"
    "bc_history c' = bc_history c @ [t]" by simp_all
  have "mode_audited c t" using t by (simp add: mode_audited_def mode_source_def)
  then have "\<forall>u \<in> set (tl (bc_history c')). mode_audited c' u"
    using assms(2) t(1) keep by (auto simp: bound_wf_def mode_audited_def)
  then show ?thesis using modes.moved_wf [OF assms(1)] assms(2) keep by (simp add: bound_wf_def)
qed

type_synonym mode_attempt = "capability_mode \<times> capability_provider \<times> explicit_approval \<times> time"

fun mode_attempt :: "mode_attempt \<Rightarrow> bound_capability \<Rightarrow> bound_capability" where
  "mode_attempt (next, provider, approval, at) c = fst (mode_change c next provider approval at)"

lemma mode_change_outcome:
  assumes "bound_wf c"
  shows "(\<exists>e. mode_change c next provider approval at = (c, Err e)) \<or>
    (\<exists>c' t. mode_change c next provider approval at = (c', Ok t) \<and> mode_moved c next c')"
proof -
  have "bc_history c \<noteq> []" using assms by (simp add: bound_wf_def mode_log_def)
  then show ?thesis using mode_change_cases [of c "next" provider approval at]
    unfolding mode_moved_def Let_def by (metis (no_types, lifting))
qed

lemma mode_run_wf:
  "bound_wf c \<Longrightarrow>
   bound_wf (fold mode_attempt as c) \<and> bc_resource (fold mode_attempt as c) = bc_resource c \<and>
   bc_provider (fold mode_attempt as c) = bc_provider c \<and> prefix (bc_history c) (bc_history (fold mode_attempt as c))"
proof (induction as arbitrary: c)
  case (Cons a as)
  obtain "next" provider approval at where a: "a = (next, provider, approval, at)" by (cases a)
  from mode_change_outcome [OF Cons.prems, of "next" provider approval at] consider "mode_attempt a c = c"
    | "mode_moved c next (mode_attempt a c)" by (auto simp: a)
  then show ?case
  proof cases
    case 1
    then show ?thesis using Cons by simp
  next
    case 2
    note m = mode_moved_wf [OF 2 Cons.prems]
    then show ?thesis using Cons.IH [of "mode_attempt a c"] prefix_order.trans by auto
  qed
qed simp

lemma capability_bind_wf:
  "capability_bind u app env b provider mode resource actor at = Ok c \<Longrightarrow>
   bound_wf c \<and> bc_resource c = resource \<and> bc_provider c = bd_provider b"
  by (auto simp: capability_bind_def bound_wf_def mode_log_def legal_log_def split: if_splits)

text \<open>
  (C31) The mode history of a bound capability is complete. After any attempts to change its mode, with any
  providers and approvals: the history is a linked sequence that ends in the current mode, every entry
  after the first changes the mode, names an approver, and records the adopted source exactly when it
  enters Adopted; earlier entries are never rewritten, the resource is the one bound at the start,
  and no attempt can panic.
\<close>

theorem mode_history_complete:
  fixes attempts :: "mode_attempt list"
  assumes "capability_bind u app env b provider mode resource actor at = Ok c"
  defines "c' \<equiv> fold mode_attempt attempts c"
  shows "linked_log (mode_log c') \<and> legal_log (\<lambda>a b. a \<noteq> b) (mode_log c') \<and>
    snd (last (mode_log c')) = bc_mode c' \<and> prefix (bc_history c) (bc_history c') \<and> bc_resource c' = resource \<and>
    (\<forall>t \<in> set (tl (bc_history c')). trim (mt_approved_by t) \<noteq> [] \<and>
       mt_source t = (if mt_to t = ModeAdopted
         then Some (bd_provider b @ '':'' @ rr_external_ref resource) else None)) \<and>
    (\<forall>next q approval now. \<not> panics (snd (mode_change c' next q approval now)))"
proof -
  note c = capability_bind_wf [OF assms(1)]
  then have wf: "bound_wf c'" "bc_resource c' = resource" "bc_provider c' = bd_provider b"
    "prefix (bc_history c) (bc_history c')"
    using mode_run_wf [of c attempts] unfolding c'_def by auto
  have "\<not> panics (snd (mode_change c' next q approval now))" for "next" q approval now
    using mode_change_outcome [OF wf(1), of "next" q approval now] by auto
  then show ?thesis using wf unfolding bound_wf_def mode_audited_def by simp
qed

definition sample_provider :: capability_provider where
  "sample_provider = capability_provider_new ''pg'' ''database.postgres'' 1 False [ModeManaged, ModeExternal, ModeAdopted]"

definition sample_resource :: resource_ref where
  "sample_resource = resource_ref_new ''r'' ''database.postgres'' ''pg'' ''prod-db''"

definition sample_bound :: bound_capability where
  "sample_bound =
     \<lparr>bc_id = BindingId ''b'', bc_application_id = ApplicationId ''a'', bc_environment_name = ''production'',
      bc_capability = ''database.postgres'', bc_provider = ''pg'', bc_binding = ''postgres.generic'',
      bc_mode = ModeExternal, bc_resource = sample_resource,
      bc_history = [\<lparr>mt_from = ModeExternal, mt_to = ModeExternal, mt_approved_by = ''ada'', mt_at = 0,
        mt_reversible = False, mt_source = None\<rparr>]\<rparr>"

lemma sample_bind:
  "capability_bind ''b'' (ApplicationId ''a'') ''production'' (generic_postgres_binding ''pg'') sample_provider
     ModeExternal sample_resource ''ada'' 0 = Ok sample_bound"
  by (simp add: capability_bind_def generic_postgres_binding_def cap_binding_new_def sample_provider_def
      capability_provider_new_def sample_resource_def resource_ref_new_def sample_bound_def provider_supplies_def
      supports_mode_def)

theorem mode_history_complete_witness:
  "snd (last (mode_log (fold mode_attempt
     [(ModeAdopted, sample_provider, approval_granted ''ops'' ''adopt'', 5)] sample_bound))) =
   bc_mode (fold mode_attempt [(ModeAdopted, sample_provider, approval_granted ''ops'' ''adopt'', 5)] sample_bound)"
  using mode_history_complete [OF sample_bind,
      of "[(ModeAdopted, sample_provider, approval_granted ''ops'' ''adopt'', 5)]"] by blast

text \<open>
  The ban on leaving Adopted holds for the provider the caller passes, not for the one that is bound: a
  capability adopted through a provider without reversal is handed back by naming another provider in the
  call.
\<close>

theorem reversal_ban_bypassed:
  "\<exists>adopted t c'. mode_change sample_bound ModeAdopted sample_provider (approval_granted ''ops'' ''adopt'') 5 =
       (adopted, Ok t) \<and>
     (\<exists>e. mode_change adopted ModeExternal sample_provider (approval_granted ''ops'' ''back'') 6 = (adopted, Err e)) \<and>
     (\<exists>t'. mode_change adopted ModeExternal
        (capability_provider_new ''s3'' ''storage.object'' 1 True [ModeExternal])
        (approval_granted ''ops'' ''back'') 6 = (c', Ok t')) \<and>
     bc_provider c' = ''pg'' \<and> bc_mode c' = ModeExternal"
  by (simp add: mode_change_def sample_bound_def sample_provider_def capability_provider_new_def
      approval_granted_def trim_def is_whitespace_def supports_mode_def Let_def)

end
