(* ===== verification/Agent.thy ===== *)
theory Agent
  imports Runtime_Model Ids
begin

text \<open>
  The agent protocol and the session boundary: \<open>labrys-core/src/agent.rs\<close>.

  The trait \<open>AgentBackend\<close> is the record \<open>agent_backend\<close> of its three methods over an arbitrary backend
  state \<open>'b\<close>; \<open>native_backend\<close> and \<open>external_backend\<close> are its two implementations. A session is
  the record \<open>agent_session\<close>; its methods are functions to the state they leave behind and their
  outcome, since several of them write before they can fail. Sequence numbers and counters are 64-bit
  words. The identifier minted by \<open>open\<close> is an argument. The JSON forms and the \<open>Debug\<close>
  rendering of a session are not here.
\<close>

section \<open>Vocabulary\<close>

definition agent_protocol_version :: u32 where
  "agent_protocol_version = 1"

datatype agent_backend_kind = BackendNative | BackendExternal

record backend_identity =
  bi_kind :: agent_backend_kind
  bi_name :: string

definition identity_native :: backend_identity where
  "identity_native = \<lparr>bi_kind = BackendNative, bi_name = ''labrys-native''\<rparr>"

definition identity_external :: "string \<Rightarrow> backend_identity" where
  "identity_external name = \<lparr>bi_kind = BackendExternal, bi_name = name\<rparr>"

datatype agent_event_kind =
    AePlanning | AeFileChanged | AeCommandRun | AeCapabilityRequested | AeBuild | AePreview | AeDeployment
  | AeVerification | AeApprovalRequested | AeDenied | AeInterrupted | AeResumed | AeTimedOut | AeCompleted

fun agent_event_name :: "agent_event_kind \<Rightarrow> string" where
  "agent_event_name AePlanning = ''planning''"
| "agent_event_name AeFileChanged = ''file_changed''"
| "agent_event_name AeCommandRun = ''command_run''"
| "agent_event_name AeCapabilityRequested = ''capability_requested''"
| "agent_event_name AeBuild = ''build''"
| "agent_event_name AePreview = ''preview''"
| "agent_event_name AeDeployment = ''deployment''"
| "agent_event_name AeVerification = ''verification''"
| "agent_event_name AeApprovalRequested = ''approval_requested''"
| "agent_event_name AeDenied = ''denied''"
| "agent_event_name AeInterrupted = ''interrupted''"
| "agent_event_name AeResumed = ''resumed''"
| "agent_event_name AeTimedOut = ''timed_out''"
| "agent_event_name AeCompleted = ''completed''"

definition normalized_event_names :: "string list" where
  "normalized_event_names =
     [''planning'', ''file_changed'', ''command_run'', ''capability_requested'', ''build'', ''preview'',
      ''deployment'', ''verification'', ''approval_requested'', ''denied'', ''interrupted'', ''resumed'',
      ''timed_out'', ''completed'']"

record agent_event =
  ae_sequence :: u64
  ae_session_id :: agent_session_id
  ae_backend :: backend_identity
  ae_kind :: agent_event_kind
  ae_detail :: string

record secret_reference =
  sref_id :: string
  sref_redacted_hint :: "string option"

definition secret_reference_new :: "string \<Rightarrow> secret_reference" where
  "secret_reference_new i = \<lparr>sref_id = i, sref_redacted_hint = None\<rparr>"

definition secret_reference_with_hint :: "secret_reference \<Rightarrow> string \<Rightarrow> secret_reference" where
  "secret_reference_with_hint r hint = r\<lparr>sref_redacted_hint := Some hint\<rparr>"

datatype tool_tier = PlatformApi | FrameworkTool | GenericTool | RawShell

fun tool_rank :: "tool_tier \<Rightarrow> nat" where
  "tool_rank PlatformApi = 0"
| "tool_rank FrameworkTool = 1"
| "tool_rank GenericTool = 2"
| "tool_rank RawShell = 3"

definition select_preferred_tool :: "tool_tier list \<Rightarrow> tool_tier option" where
  "select_preferred_tool candidates = min_by_key tool_rank candidates"

datatype action_kind =
    ReadOnly | PreviewDeploy | ProductionDeploy | DestructiveResource | DestructiveMigration
  | SecretReplacement | DomainChange | BillingChange | ExternalWrite

fun requires_approval :: "action_kind \<Rightarrow> bool" where
  "requires_approval ReadOnly = False"
| "requires_approval PreviewDeploy = False"
| "requires_approval _ = True"

fun action_kind_label :: "action_kind \<Rightarrow> string" where
  "action_kind_label ReadOnly = ''read-only inspection''"
| "action_kind_label PreviewDeploy = ''preview deployment''"
| "action_kind_label ProductionDeploy = ''production deployment''"
| "action_kind_label DestructiveResource = ''destructive resource action''"
| "action_kind_label DestructiveMigration = ''destructive migration''"
| "action_kind_label SecretReplacement = ''secret replacement''"
| "action_kind_label DomainChange = ''domain change''"
| "action_kind_label BillingChange = ''billing change''"
| "action_kind_label ExternalWrite = ''external write''"

record agent_context =
  ac_application_id :: application_id
  ac_environment_name :: string
  ac_production :: bool
  ac_principal :: string

definition agent_context_new :: "application_id \<Rightarrow> string \<Rightarrow> bool \<Rightarrow> string \<Rightarrow> agent_context" where
  "agent_context_new application_id environment_name production by_principal =
     \<lparr>ac_application_id = application_id, ac_environment_name = environment_name,
      ac_production = production, ac_principal = by_principal\<rparr>"

record agent_input =
  in_text :: string
  in_secret_refs :: "secret_reference list"
  in_requested_action :: "action_kind option"
  in_tool :: "tool_tier option"

definition agent_input_new :: "string \<Rightarrow> agent_input" where
  "agent_input_new t = \<lparr>in_text = t, in_secret_refs = [], in_requested_action = None, in_tool = None\<rparr>"

definition with_action :: "agent_input \<Rightarrow> action_kind \<Rightarrow> agent_input" where
  "with_action i a = i\<lparr>in_requested_action := Some a\<rparr>"

definition with_tool :: "agent_input \<Rightarrow> tool_tier \<Rightarrow> agent_input" where
  "with_tool i t = i\<lparr>in_tool := Some t\<rparr>"

definition with_secret_ref :: "agent_input \<Rightarrow> secret_reference \<Rightarrow> agent_input" where
  "with_secret_ref i r = i\<lparr>in_secret_refs := in_secret_refs i @ [r]\<rparr>"

record agent_capability_request =
  cq_capability :: string
  cq_action :: string
  cq_secret_refs :: "secret_reference list"
  cq_reason :: string

definition capability_request_detail :: "agent_capability_request \<Rightarrow> string" where
  "capability_request_detail r =
     ''capability '' @ quoted (cq_capability r) @ '' action '' @ quoted (cq_action r) @ '' refs:['' @
     join '','' (map sref_id (cq_secret_refs r)) @ ''] reason: '' @ cq_reason r"

datatype resource_operation = RoRead | RoCreate | RoUpdate | RoDelete

fun debug_resource_operation :: "resource_operation \<Rightarrow> string" where
  "debug_resource_operation RoRead = ''Read''"
| "debug_resource_operation RoCreate = ''Create''"
| "debug_resource_operation RoUpdate = ''Update''"
| "debug_resource_operation RoDelete = ''Delete''"

record agent_resource_request =
  rq_resource :: string
  rq_operation :: resource_operation
  rq_secret_refs :: "secret_reference list"
  rq_reason :: string

definition resource_request_detail :: "agent_resource_request \<Rightarrow> string" where
  "resource_request_detail r =
     ''resource '' @ quoted (rq_resource r) @ '' operation '' @
     quoted (debug_resource_operation (rq_operation r)) @ '' refs:['' @
     join '','' (map sref_id (rq_secret_refs r)) @ ''] reason: '' @ rq_reason r"

record approval_request =
  aq_id :: string
  aq_session_id :: agent_session_id
  aq_action :: action_kind
  aq_reason :: string
  aq_requested_by :: string

datatype session_status = SsActive | SsInterrupted | SsCompleted | SsTimedOut

fun debug_session_status :: "session_status \<Rightarrow> string" where
  "debug_session_status SsActive = ''Active''"
| "debug_session_status SsInterrupted = ''Interrupted''"
| "debug_session_status SsCompleted = ''Completed''"
| "debug_session_status SsTimedOut = ''TimedOut''"

definition ensure_protocol_version :: "u32 \<Rightarrow> unit outcome" where
  "ensure_protocol_version found =
     (if found = agent_protocol_version then Ok () else Err (ProtocolVersion found agent_protocol_version))"

text \<open>\<open>Policy::authorize\<close>.\<close>

definition authorize :: "action_kind option \<Rightarrow> tool_tier option \<Rightarrow> bool \<Rightarrow> unit outcome" where
  "authorize action tool production =
     (if production \<and> tool = Some RawShell
      then Err (PolicyDenied ''raw shell is denied in production; use a platform, framework, or generic tool'')
      else Ok ())"

section \<open>Backends\<close>

record 'b agent_backend =
  ab_identity :: "'b \<Rightarrow> backend_identity"
  ab_protocol_version :: "'b \<Rightarrow> u32"
  ab_draft_events :: "'b \<Rightarrow> agent_context \<Rightarrow> agent_input \<Rightarrow> u64 \<Rightarrow>
    'b \<times> (agent_event_kind \<times> string) list outcome"

datatype native_phase = NpPlan | NpAct | NpObserve | NpVerify | NpRetry

fun as_event_kind :: "native_phase \<Rightarrow> agent_event_kind" where
  "as_event_kind NpPlan = AePlanning"
| "as_event_kind NpAct = AeCommandRun"
| "as_event_kind NpObserve = AeFileChanged"
| "as_event_kind NpVerify = AeVerification"
| "as_event_kind NpRetry = AePlanning"

fun native_phase_detail :: "native_phase \<Rightarrow> string \<Rightarrow> string" where
  "native_phase_detail NpPlan prompt = ''native plan for prompt: '' @ prompt"
| "native_phase_detail NpAct prompt = ''native act for prompt: '' @ prompt"
| "native_phase_detail NpObserve prompt = ''native observe for prompt: '' @ prompt"
| "native_phase_detail NpVerify prompt = ''native verify for prompt: '' @ prompt"
| "native_phase_detail NpRetry prompt = ''native retry for prompt: '' @ prompt"

record native_agent =
  na_identity :: backend_identity

definition native_agent_new :: native_agent where
  "native_agent_new = \<lparr>na_identity = identity_native\<rparr>"

definition reference_flow :: "native_phase list" where
  "reference_flow = [NpPlan, NpAct, NpObserve, NpVerify]"

definition native_draft_events ::
  "native_agent \<Rightarrow> agent_context \<Rightarrow> agent_input \<Rightarrow> u64 \<Rightarrow>
   native_agent \<times> (agent_event_kind \<times> string) list outcome" where
  "native_draft_events a ctx input start =
     (a, Ok (map (\<lambda>p. (as_event_kind p, native_phase_detail p (in_text input))) reference_flow))"

definition native_backend :: "native_agent agent_backend" where
  "native_backend = \<lparr>ab_identity = na_identity, ab_protocol_version = (\<lambda>_. agent_protocol_version),
     ab_draft_events = native_draft_events\<rparr>"

record external_agent =
  xa_identity :: backend_identity
  xa_protocol_version :: u32
  xa_command :: "string list"
  xa_scripted :: "(agent_event_kind \<times> string) list"

definition external_agent_new :: "string \<Rightarrow> u32 \<Rightarrow> string list \<Rightarrow> external_agent" where
  "external_agent_new name version command =
     \<lparr>xa_identity = identity_external name, xa_protocol_version = version, xa_command = command,
      xa_scripted = []\<rparr>"

definition with_scripted :: "external_agent \<Rightarrow> (agent_event_kind \<times> string) list \<Rightarrow> external_agent" where
  "with_scripted a scripted = a\<lparr>xa_scripted := scripted\<rparr>"

definition external_draft_events ::
  "external_agent \<Rightarrow> agent_context \<Rightarrow> agent_input \<Rightarrow> u64 \<Rightarrow>
   external_agent \<times> (agent_event_kind \<times> string) list outcome" where
  "external_draft_events a ctx input start =
     and_then (a, ensure_protocol_version (xa_protocol_version a))
       (\<lambda>a _. if xa_scripted a = []
              then (a, Ok [(AePlanning, ''external '' @ quoted (bi_name (xa_identity a)) @
                     '' planned the prompt'')])
              else (a\<lparr>xa_scripted := []\<rparr>, Ok (xa_scripted a)))"

definition external_backend :: "external_agent agent_backend" where
  "external_backend = \<lparr>ab_identity = xa_identity, ab_protocol_version = xa_protocol_version,
     ab_draft_events = external_draft_events\<rparr>"

section \<open>Normalising external event names\<close>

definition kind_of_candidate :: "string \<Rightarrow> agent_event_kind option" where
  "kind_of_candidate s =
     (if s \<in> {''planning'', ''plan''} then Some AePlanning
      else if s \<in> {''file_changed'', ''file'', ''files'', ''observe''} then Some AeFileChanged
      else if s \<in> {''command_run'', ''command'', ''act'', ''exec''} then Some AeCommandRun
      else if s \<in> {''capability_requested'', ''capability''} then Some AeCapabilityRequested
      else if s = ''build'' then Some AeBuild
      else if s = ''preview'' then Some AePreview
      else if s \<in> {''deployment'', ''deploy''} then Some AeDeployment
      else if s \<in> {''verification'', ''verify''} then Some AeVerification
      else if s \<in> {''completed'', ''complete'', ''done''} then Some AeCompleted
      else None)"

fun first_suffix_kind :: "string list \<Rightarrow> agent_event_kind option" where
  "first_suffix_kind [] = None"
| "first_suffix_kind (p # ps) =
     (case kind_of_candidate (join ''_'' (p # ps)) of
        Some k \<Rightarrow> Some k
      | None \<Rightarrow> first_suffix_kind ps)"

definition normalize :: "external_agent \<Rightarrow> string \<Rightarrow> string \<Rightarrow> (agent_event_kind \<times> string) outcome" where
  "normalize a raw_name detail =
     (let normalized = map (\<lambda>c. if c = CHR ''.'' \<or> c = CHR ''-'' then CHR ''_'' else c)
            (map ascii_lower (trim raw_name));
          parts = split_at_char (CHR ''_'') normalized
      in case first_suffix_kind parts of
           Some kind \<Rightarrow> Ok (kind, detail)
         | None \<Rightarrow> Err (SessionState (''unknown backend event '' @ quoted raw_name @ '' from '' @
             quoted (bi_name (xa_identity a)) @ ''; consumers require the normalized vocabulary'')))"

section \<open>Sessions\<close>

record agent_session =
  se_id :: agent_session_id
  se_context :: agent_context
  se_backend :: backend_identity
  se_status :: session_status
  se_events :: "agent_event list"
  se_next_sequence :: u64
  se_deadline :: "time option"
  se_pending_approvals :: "approval_request list"
  se_approval_counter :: u64
  se_protected_secrets :: "string list"

definition session_open ::
  "uuid \<Rightarrow> 'b agent_backend \<Rightarrow> 'b \<Rightarrow> agent_context \<Rightarrow> string list \<Rightarrow> agent_session outcome" where
  "session_open u B b ctx secrets =
     outcome_bind (ensure_protocol_version (ab_protocol_version B b))
       (\<lambda>_. Ok \<lparr>se_id = AgentSessionId u, se_context = ctx, se_backend = ab_identity B b,
               se_status = SsActive, se_events = [], se_next_sequence = 0, se_deadline = None,
               se_pending_approvals = [], se_approval_counter = 0, se_protected_secrets = secrets\<rparr>)"

definition set_deadline :: "agent_session \<Rightarrow> time \<Rightarrow> agent_session" where
  "set_deadline s deadline = s\<lparr>se_deadline := Some deadline\<rparr>"

definition scan_text :: "agent_session \<Rightarrow> string \<Rightarrow> unit outcome" where
  "scan_text s t =
     (if list_ex (\<lambda>p. p \<noteq> [] \<and> str_contains t p) (se_protected_secrets s)
      then Err (SecretLeak ''agent context contains a protected secret value; use a secret reference instead'')
      else Ok ())"

fun scan_refs :: "agent_session \<Rightarrow> secret_reference list \<Rightarrow> unit outcome" where
  "scan_refs s [] = Ok ()"
| "scan_refs s (r # rs) = outcome_bind (scan_text s (sref_id r)) (\<lambda>_. scan_refs s rs)"

definition append_normalized ::
  "agent_session \<Rightarrow> agent_event_kind \<Rightarrow> string \<Rightarrow> backend_identity \<Rightarrow> agent_session \<times> agent_event outcome" where
  "append_normalized s kind detail backend =
     and_then (s, scan_text s detail)
       (\<lambda>s _. let event = \<lparr>ae_sequence = se_next_sequence s, ae_session_id = se_id s, ae_backend = backend,
                ae_kind = kind, ae_detail = detail\<rparr>
              in (s\<lparr>se_next_sequence := se_next_sequence s + 1, se_events := se_events s @ [event]\<rparr>, Ok event))"

definition append_system_event ::
  "agent_session \<Rightarrow> agent_event_kind \<Rightarrow> string \<Rightarrow> agent_session \<times> agent_event outcome" where
  "append_system_event s kind detail = append_normalized s kind detail (se_backend s)"

definition require_status :: "agent_session \<Rightarrow> session_status \<Rightarrow> string \<Rightarrow> unit outcome" where
  "require_status s expected operation =
     (if se_status s = expected then Ok ()
      else Err (SessionState (''cannot '' @ operation @ '' while session is '' @
             debug_session_status (se_status s) @ '' (expected '' @ debug_session_status expected @ '')'')))"

definition check_timeout :: "agent_session \<Rightarrow> time \<Rightarrow> agent_session \<times> unit outcome" where
  "check_timeout s now =
     (case se_deadline s of
        Some deadline \<Rightarrow>
          if now > deadline
          then (fst (append_system_event (s\<lparr>se_status := SsTimedOut\<rparr>) AeTimedOut ''agent prompt timed out''),
                Err (Timeout ''agent prompt exceeded its deadline''))
          else (s, Ok ())
      | None \<Rightarrow> (s, Ok ()))"

definition session_require_approval :: "agent_session \<Rightarrow> action_kind \<Rightarrow> agent_session \<times> core_error" where
  "session_require_approval s action =
     (let s = s\<lparr>se_approval_counter := se_approval_counter s + 1\<rparr>;
          request = \<lparr>aq_id = ''apr_'' @ agent_session_id_display (se_id s) @ ''_'' @
              show_u64 (se_approval_counter s),
            aq_session_id = se_id s, aq_action = action,
            aq_reason = action_kind_label action @ '' requires human approval before execution'',
            aq_requested_by = bi_name (se_backend s)\<rparr>;
          detail = ''approval '' @ aq_id request @ '' requested: '' @ aq_reason request;
          s = s\<lparr>se_pending_approvals := se_pending_approvals s @ [request]\<rparr>
      in (fst (append_system_event s AeApprovalRequested detail),
          ApprovalRequired (action_kind_label action @ '' blocked until a human approval is recorded'')))"

fun append_candidates ::
  "agent_session \<Rightarrow> backend_identity \<Rightarrow> (agent_event_kind \<times> string) list \<Rightarrow> agent_event list \<Rightarrow>
   agent_session \<times> agent_event list outcome" where
  "append_candidates s backend [] appended = (s, Ok appended)"
| "append_candidates s backend ((kind, detail) # cs) appended =
     and_then (append_normalized s kind detail backend)
       (\<lambda>s e. append_candidates s backend cs (appended @ [e]))"

text \<open>The part of \<open>prompt\<close> after its checks: draft, then append one by one.\<close>

definition prompt_backend ::
  "'b agent_backend \<Rightarrow> agent_session \<Rightarrow> 'b \<Rightarrow> agent_input \<Rightarrow> (agent_session \<times> 'b) \<times> agent_event list outcome" where
  "prompt_backend B s b input =
     (case ab_draft_events B b (se_context s) input (se_next_sequence s) of
        (b, Ok candidates) \<Rightarrow>
          (case append_candidates s (ab_identity B b) candidates [] of (s, r) \<Rightarrow> ((s, b), r))
      | (b, Err e) \<Rightarrow> ((s, b), Err e)
      | (b, Panic m) \<Rightarrow> ((s, b), Panic m))"

definition prompt ::
  "'b agent_backend \<Rightarrow> agent_session \<Rightarrow> 'b \<Rightarrow> agent_input \<Rightarrow> time \<Rightarrow>
   (agent_session \<times> 'b) \<times> agent_event list outcome" where
  "prompt B s b input now =
     and_then ((s, b), ensure_protocol_version (ab_protocol_version B b)) (\<lambda>(s, b) _.
     and_then ((s, b), require_status s SsActive ''prompt'') (\<lambda>(s, b) _.
     and_then (case check_timeout s now of (s, r) \<Rightarrow> ((s, b), r)) (\<lambda>(s, b) _.
     and_then ((s, b), scan_text s (in_text input)) (\<lambda>(s, b) _.
     and_then ((s, b), scan_refs s (in_secret_refs input)) (\<lambda>(s, b) _.
       (case authorize (in_requested_action input) (in_tool input) (ac_production (se_context s)) of
          Err denied \<Rightarrow>
            ((fst (append_system_event s AeDenied (''prompt denied: '' @ core_error_display denied)), b),
             Err denied)
        | Panic m \<Rightarrow> ((s, b), Panic m)
        | Ok _ \<Rightarrow>
            (case in_requested_action input of
               Some action \<Rightarrow>
                 if requires_approval action
                 then (case session_require_approval s action of (s, e) \<Rightarrow> ((s, b), Err e))
                 else prompt_backend B s b input
             | None \<Rightarrow> prompt_backend B s b input)))))))"

definition interrupt :: "agent_session \<Rightarrow> agent_session \<times> agent_event outcome" where
  "interrupt s =
     and_then (s, require_status s SsActive ''interrupt'')
       (\<lambda>s _. append_system_event (s\<lparr>se_status := SsInterrupted\<rparr>) AeInterrupted ''session interrupted'')"

definition resume :: "agent_session \<Rightarrow> agent_session \<times> agent_event list outcome" where
  "resume s =
     and_then (s, require_status s SsInterrupted ''resume'')
       (\<lambda>s _. and_then (append_system_event (s\<lparr>se_status := SsActive\<rparr>) AeResumed ''session resumed'')
          (\<lambda>s _. (s, Ok (se_events s))))"

definition complete :: "agent_session \<Rightarrow> agent_session \<times> agent_event outcome" where
  "complete s =
     and_then (s, require_status s SsActive ''complete'')
       (\<lambda>s _. append_system_event (s\<lparr>se_status := SsCompleted\<rparr>) AeCompleted ''session completed'')"

definition replay_event :: "agent_session \<Rightarrow> agent_event \<Rightarrow> agent_session \<times> unit outcome" where
  "replay_event s e =
     (if ae_session_id e \<noteq> se_id s
      then (s, Err (SessionState (''event belongs to session '' @ agent_session_id_display (ae_session_id e) @
             '', not '' @ agent_session_id_display (se_id s))))
      else if ae_backend e \<noteq> se_backend s
      then (s, Err (SessionState (''event backend '' @ quoted (bi_name (ae_backend e)) @
             '' does not match session backend '' @ quoted (bi_name (se_backend s)))))
      else if ae_sequence e \<noteq> se_next_sequence s
      then (s, Err (SessionState (''event out of order: got sequence '' @ show_u64 (ae_sequence e) @
             '', expected '' @ show_u64 (se_next_sequence s))))
      else and_then (s, scan_text s (ae_detail e))
        (\<lambda>s _. (s\<lparr>se_next_sequence := se_next_sequence s + 1, se_events := se_events s @ [e]\<rparr>, Ok ())))"

text \<open>\<open>Iterator::position\<close> of a request and \<open>Vec::remove\<close> there.\<close>

definition request_position :: "agent_session \<Rightarrow> string \<Rightarrow> nat option" where
  "request_position s request_id =
     find (\<lambda>i. aq_id (se_pending_approvals s ! i) = request_id) [0..<length (se_pending_approvals s)]"

definition remove_request :: "agent_session \<Rightarrow> nat \<Rightarrow> agent_session" where
  "remove_request s i =
     s\<lparr>se_pending_approvals := take i (se_pending_approvals s) @ drop (Suc i) (se_pending_approvals s)\<rparr>"

definition resolve_approval ::
  "agent_session \<Rightarrow> string \<Rightarrow> explicit_approval \<Rightarrow> agent_session \<times> agent_event outcome" where
  "resolve_approval s request_id approval =
     (case request_position s request_id of
        None \<Rightarrow> (s, Err (ApprovalRequired (''unknown approval request '' @ quoted request_id)))
      | Some position \<Rightarrow>
          if \<not> ea_approved approval
          then and_then (append_system_event s AeDenied (''approval '' @ request_id @ '' denied by '' @
                 ea_approver approval))
                 (\<lambda>s e. (remove_request s position, Ok e))
          else if trim (ea_approver approval) = []
          then (s, Err (ApprovalRequired ''approval must name an approver''))
          else and_then (append_system_event s AeVerification (''approval '' @ request_id @ '' granted by '' @
                 ea_approver approval))
                 (\<lambda>s e. (remove_request s position, Ok e)))"

section \<open>The session invariant\<close>

definition leak_free :: "string list \<Rightarrow> string \<Rightarrow> bool" where
  "leak_free secrets t = (\<forall>p \<in> set secrets. p \<noteq> [] \<longrightarrow> \<not> str_contains t p)"

definition session_wf :: "agent_session \<Rightarrow> bool" where
  "session_wf s =
     (se_next_sequence s = word_of_nat (length (se_events s)) \<and>
      (\<forall>i < length (se_events s). ae_sequence (se_events s ! i) = word_of_nat i) \<and>
      (\<forall>e \<in> set (se_events s). ae_session_id e = se_id s \<and> leak_free (se_protected_secrets s) (ae_detail e)))"

text \<open>What every method keeps: identity, context, backend and secrets, the log as a prefix, the invariant.\<close>

definition session_grows :: "agent_session \<Rightarrow> agent_session \<Rightarrow> bool" where
  "session_grows s s' =
     (se_id s' = se_id s \<and> se_context s' = se_context s \<and> se_backend s' = se_backend s \<and>
      se_protected_secrets s' = se_protected_secrets s \<and> prefix (se_events s) (se_events s') \<and>
      (session_wf s \<longrightarrow> session_wf s'))"

lemma session_growsD:
  assumes "session_grows s s'"
  shows "prefix (se_events s) (se_events s')" "session_wf s \<Longrightarrow> session_wf s'" "se_id s' = se_id s"
    "se_backend s' = se_backend s" "se_protected_secrets s' = se_protected_secrets s"
    "se_context s' = se_context s"
  using assms by (simp_all add: session_grows_def)

lemma session_grows_refl [simp, intro]: "session_grows s s"
  by (simp add: session_grows_def)

lemma session_grows_trans [trans]: "session_grows s s' \<Longrightarrow> session_grows s' s'' \<Longrightarrow> session_grows s s''"
  unfolding session_grows_def by (metis prefix_order.trans)

lemma session_grows_fields [simp]:
  "session_grows s (t\<lparr>se_status := x\<rparr>) = session_grows s t"
  "session_grows s (t\<lparr>se_deadline := d\<rparr>) = session_grows s t"
  "session_grows s (t\<lparr>se_pending_approvals := q\<rparr>) = session_grows s t"
  "session_grows s (t\<lparr>se_approval_counter := n\<rparr>) = session_grows s t"
  "session_grows (t\<lparr>se_status := x\<rparr>) s = session_grows t s"
  by (simp_all add: session_grows_def session_wf_def)

lemma scan_text_Ok: "scan_text s t = Ok () \<longleftrightarrow> leak_free (se_protected_secrets s) t"
  by (auto simp: scan_text_def leak_free_def list_ex_iff)

lemma scan_text_Err: "\<not> leak_free (se_protected_secrets s) t \<Longrightarrow> \<exists>m. scan_text s t = Err (SecretLeak m)"
  by (auto simp: scan_text_def leak_free_def list_ex_iff)

lemma scan_text_cases:
  obtains (clean) "scan_text s t = Ok ()" "leak_free (se_protected_secrets s) t"
  | (leak) m where "scan_text s t = Err (SecretLeak m)" "\<not> leak_free (se_protected_secrets s) t"
proof (cases "leak_free (se_protected_secrets s) t")
  case True
  then show ?thesis using scan_text_Ok clean by blast
next
  case False
  with scan_text_Err obtain m where "scan_text s t = Err (SecretLeak m)" by blast
  then show ?thesis using False by (rule leak)
qed

lemma session_wf_snoc:
  assumes "session_wf s" "ae_sequence e = se_next_sequence s" "ae_session_id e = se_id s"
    and "leak_free (se_protected_secrets s) (ae_detail e)"
  shows "session_wf (s\<lparr>se_next_sequence := se_next_sequence s + 1, se_events := se_events s @ [e]\<rparr>)"
  using assms by (auto simp: session_wf_def nth_append less_Suc_eq add.commute)

lemma append_normalized_grows: "session_grows s (fst (append_normalized s kind detail backend))"
proof (cases rule: scan_text_cases [of s detail])
  case clean
  then show ?thesis using session_wf_snoc
    by (auto simp: append_normalized_def Let_def session_grows_def)
next
  case (leak m)
  then show ?thesis by (simp add: append_normalized_def)
qed

lemma append_normalized_Ok:
  "snd (append_normalized s kind detail backend) = Ok e \<Longrightarrow>
   fst (append_normalized s kind detail backend) =
     s\<lparr>se_next_sequence := se_next_sequence s + 1, se_events := se_events s @ [e]\<rparr> \<and>
   ae_kind e = kind \<and> ae_detail e = detail \<and> ae_backend e = backend"
  by (cases rule: scan_text_cases [of s detail]) (auto simp: append_normalized_def Let_def)

lemma append_normalized_no_panic [simp]: "\<not> panics (snd (append_normalized s kind detail backend))"
  by (cases rule: scan_text_cases [of s detail]) (auto simp: append_normalized_def Let_def)

lemma append_candidates_grows: "session_grows s (fst (append_candidates s backend cs es))"
proof (induction cs arbitrary: s es)
  case (Cons c cs)
  obtain kind detail where c: "c = (kind, detail)" by force
  obtain t r where a: "append_normalized s kind detail backend = (t, r)" by force
  then have "session_grows s t" using append_normalized_grows [of s kind detail backend] by simp
  then show ?case using Cons.IH session_grows_trans by (cases r) (auto simp: c a)
qed simp

lemma append_candidates_Ok:
  "append_candidates s backend cs es = (s', Ok es') \<Longrightarrow>
   \<exists>new. es' = es @ new \<and> se_events s' = se_events s @ new \<and>
     map (\<lambda>e. (ae_kind e, ae_detail e)) new = cs \<and> se_status s' = se_status s"
proof (induction cs arbitrary: s es)
  case (Cons c cs)
  obtain kind detail where c: "c = (kind, detail)" by force
  obtain t r where a: "append_normalized s kind detail backend = (t, r)" by force
  with Cons.prems obtain e where r: "r = Ok e" by (cases r) (auto simp: c)
  note t = append_normalized_Ok [of s kind detail backend e]
  from Cons.prems a r have "append_candidates t backend cs (es @ [e]) = (s', Ok es')" by (simp add: c)
  from Cons.IH [OF this] obtain new where "es' = es @ e # new" "se_events s' = se_events t @ new"
    "map (\<lambda>e. (ae_kind e, ae_detail e)) new = cs" "se_status s' = se_status t" by auto
  then show ?case using t a r by (intro exI [of _ "e # new"]) (auto simp: c)
qed simp

lemma append_system_event_grows: "session_grows s (fst (append_system_event s kind detail))"
  by (simp add: append_system_event_def append_normalized_grows)

lemma check_timeout_grows: "session_grows s (fst (check_timeout s now))"
  using append_system_event_grows [of "s\<lparr>se_status := SsTimedOut\<rparr>"]
  by (simp add: check_timeout_def split: option.split)

lemma session_require_approval_grows: "session_grows s (fst (session_require_approval s action))"
  unfolding session_require_approval_def Let_def fst_conv
  by (rule session_grows_trans [OF _ append_system_event_grows]) simp

lemma prompt_backend_grows: "session_grows s (fst (fst (prompt_backend B s b input)))"
proof -
  obtain b' r where d: "ab_draft_events B b (se_context s) input (se_next_sequence s) = (b', r)" by force
  show ?thesis
  proof (cases r)
    case (Ok cs)
    then show ?thesis using append_candidates_grows [of s "ab_identity B b'" cs "[]"]
      by (auto simp: prompt_backend_def d split: prod.split)
  qed (simp_all add: prompt_backend_def d)
qed

lemma check_timeout_Ok:
  "snd (check_timeout s now) = Ok u \<Longrightarrow> fst (check_timeout s now) = s \<and>
     (\<forall>d. se_deadline s = Some d \<longrightarrow> now \<le> d)"
  by (auto simp: check_timeout_def split: option.splits if_splits)

lemma scan_refs_Ok: "scan_refs s rs = Ok () \<longleftrightarrow> (\<forall>r \<in> set rs. leak_free (se_protected_secrets s) (sref_id r))"
proof (induction rs)
  case (Cons r rs)
  then show ?case by (cases rule: scan_text_cases [of s "sref_id r"]) auto
qed simp

lemma scan_refs_no_panic: "scan_refs s rs \<noteq> Panic m"
proof (induction rs)
  case (Cons r rs)
  then show ?case by (cases rule: scan_text_cases [of s "sref_id r"]) auto
qed simp

lemma scan_refs_Err: "scan_refs s rs \<noteq> Ok () \<Longrightarrow> \<exists>e. scan_refs s rs = Err e"
  using scan_refs_no_panic by (cases "scan_refs s rs") auto

text \<open>Everything \<open>prompt\<close> checks before it calls the backend, read off as one predicate.\<close>

definition prompt_admitted :: "'b agent_backend \<Rightarrow> agent_session \<Rightarrow> 'b \<Rightarrow> agent_input \<Rightarrow> time \<Rightarrow> bool" where
  "prompt_admitted B s b input now =
     (ab_protocol_version B b = agent_protocol_version \<and> se_status s = SsActive \<and>
      (case se_deadline s of Some d \<Rightarrow> now \<le> d | None \<Rightarrow> True) \<and>
      leak_free (se_protected_secrets s) (in_text input) \<and>
      (\<forall>r \<in> set (in_secret_refs input). leak_free (se_protected_secrets s) (sref_id r)) \<and>
      \<not> (ac_production (se_context s) \<and> in_tool input = Some RawShell) \<and>
      (case in_requested_action input of Some a \<Rightarrow> \<not> requires_approval a | None \<Rightarrow> True))"

lemma prompt_admitted_runs:
  assumes "prompt_admitted B s b input now"
  shows "prompt B s b input now = prompt_backend B s b input"
proof -
  have "check_timeout s now = (s, Ok ())"
    using assms by (auto simp: prompt_admitted_def check_timeout_def split: option.splits)
  moreover have "scan_text s (in_text input) = Ok ()" "scan_refs s (in_secret_refs input) = Ok ()"
    using assms by (auto simp: prompt_admitted_def scan_text_Ok scan_refs_Ok)
  ultimately show ?thesis using assms
    by (auto simp: prompt_admitted_def prompt_def ensure_protocol_version_def require_status_def authorize_def
        split: option.splits)
qed

lemma prompt_refused_keeps:
  assumes "\<not> prompt_admitted B s b input now"
  shows "\<exists>s' e. prompt B s b input now = ((s', b), Err e) \<and> session_grows s s'"
proof -
  have "check_timeout s now = (s, Ok ()) \<or> (\<exists>d. se_deadline s = Some d \<and> now > d)"
    by (auto simp: check_timeout_def split: option.split)
  then consider (version) "ab_protocol_version B b \<noteq> agent_protocol_version \<or> se_status s \<noteq> SsActive"
    | (late) d where "ab_protocol_version B b = agent_protocol_version" "se_status s = SsActive"
        "se_deadline s = Some d" "now > d"
    | (checked) "ab_protocol_version B b = agent_protocol_version" "se_status s = SsActive"
        "check_timeout s now = (s, Ok ())"
    by blast
  then show ?thesis
  proof cases
    case version
    then show ?thesis by (auto simp: prompt_def ensure_protocol_version_def require_status_def)
  next
    case late
    then show ?thesis using check_timeout_grows [of s now]
      by (auto simp: prompt_def ensure_protocol_version_def require_status_def check_timeout_def)
  next
    case checked
    note run = prompt_def ensure_protocol_version_def require_status_def checked
    show ?thesis
    proof (cases rule: scan_text_cases [of s "in_text input"])
      case leak
      then show ?thesis by (simp add: run)
    next
      case clean
      show ?thesis
      proof (cases "scan_refs s (in_secret_refs input) = Ok ()")
        case False
        with scan_refs_Err obtain e where "scan_refs s (in_secret_refs input) = Err e" by blast
        then show ?thesis by (simp add: run clean)
      next
        case True
        show ?thesis
        proof (cases "ac_production (se_context s) \<and> in_tool input = Some RawShell")
          case denied: True
          then show ?thesis
            by (auto simp: run clean True authorize_def append_system_event_grows)
        next
          case False
          then obtain a where "in_requested_action input = Some a" "requires_approval a"
            using assms checked clean True
            by (auto simp: prompt_admitted_def scan_refs_Ok check_timeout_def split: option.splits if_splits)
          then show ?thesis using False session_require_approval_grows [of s a]
            by (auto simp: run clean True authorize_def split: prod.split)
        qed
      qed
    qed
  qed
qed

text \<open>The published vocabulary is the range of the canonical names.\<close>

lemma normalized_event_names_exact: "set normalized_event_names = range agent_event_name"
proof
  show "set normalized_event_names \<subseteq> range agent_event_name"
    unfolding normalized_event_names_def by (auto simp flip: agent_event_name.simps)
  show "range agent_event_name \<subseteq> set normalized_event_names"
  proof
    fix n assume "n \<in> range agent_event_name"
    then obtain k where "n = agent_event_name k" by blast
    then show "n \<in> set normalized_event_names" by (cases k) (simp_all add: normalized_event_names_def)
  qed
qed

section \<open>Histories of a session\<close>

lemma prompt_grows: "session_grows s (fst (fst (prompt B s b input now)))"
proof (cases "prompt_admitted B s b input now")
  case True
  then show ?thesis by (simp add: prompt_admitted_runs prompt_backend_grows)
next
  case False
  from prompt_refused_keeps [OF this] show ?thesis by auto
qed

lemma interrupt_grows: "session_grows s (fst (interrupt s))"
  using append_system_event_grows [of "s\<lparr>se_status := SsInterrupted\<rparr>"]
  by (simp add: interrupt_def require_status_def)

lemma complete_grows: "session_grows s (fst (complete s))"
  using append_system_event_grows [of "s\<lparr>se_status := SsCompleted\<rparr>"]
  by (simp add: complete_def require_status_def)

lemma fst_and_then_return: "(\<And>s x. fst (k s x) = f s) \<Longrightarrow> P (fst r) \<Longrightarrow> P (f (fst r)) \<Longrightarrow> P (fst (and_then r k))"
  by (cases "(r, k)" rule: and_then.cases) auto

lemma resume_grows: "session_grows s (fst (resume s))"
proof (cases "se_status s = SsInterrupted")
  case True
  have "session_grows s (fst (append_system_event (s\<lparr>se_status := SsActive\<rparr>) AeResumed ''session resumed''))"
    using append_system_event_grows [of "s\<lparr>se_status := SsActive\<rparr>"] by simp
  then show ?thesis using True
    by (simp add: resume_def require_status_def fst_and_then_return [where f = "\<lambda>s. s"])
qed (simp add: resume_def require_status_def)

lemma replay_event_grows: "session_grows s (fst (replay_event s e))"
proof (cases rule: scan_text_cases [of s "ae_detail e"])
  case clean
  then show ?thesis using session_wf_snoc by (auto simp: replay_event_def session_grows_def)
qed (simp add: replay_event_def)

lemma remove_request_grows [simp]: "session_grows s (remove_request t i) = session_grows s t"
  by (simp add: remove_request_def)

lemma append_then_remove_grows:
  "session_grows s (fst (and_then (append_system_event s kind detail) (\<lambda>s e. (remove_request s i, Ok e))))"
  by (rule fst_and_then_return [where f = "\<lambda>s. remove_request s i"])
    (simp_all only: fst_conv remove_request_grows append_system_event_grows)

lemma resolve_approval_grows: "session_grows s (fst (resolve_approval s request_id approval))"
proof (cases "request_position s request_id")
  case (Some i)
  show ?thesis
    unfolding resolve_approval_def Some option.case
    by (cases "ea_approved approval"; cases "trim (ea_approver approval) = []")
      (simp_all only: append_then_remove_grows if_True if_False not_True_eq_False not_False_eq_True fst_conv
        session_grows_refl simp_thms)
qed (simp add: resolve_approval_def)

datatype 'b session_op =
    OpPrompt "'b agent_backend" 'b agent_input time
  | OpInterrupt
  | OpResume
  | OpComplete
  | OpReplay agent_event
  | OpResolve string explicit_approval
  | OpDeadline time

fun session_exec :: "'b session_op \<Rightarrow> agent_session \<Rightarrow> agent_session" where
  "session_exec (OpPrompt B b input now) s = fst (fst (prompt B s b input now))"
| "session_exec OpInterrupt s = fst (interrupt s)"
| "session_exec OpResume s = fst (resume s)"
| "session_exec OpComplete s = fst (complete s)"
| "session_exec (OpReplay e) s = fst (replay_event s e)"
| "session_exec (OpResolve i approval) s = fst (resolve_approval s i approval)"
| "session_exec (OpDeadline d) s = set_deadline s d"

lemma session_exec_grows: "session_grows s (session_exec op s)"
  by (cases op) (simp_all add: prompt_grows interrupt_grows resume_grows complete_grows replay_event_grows
      resolve_approval_grows set_deadline_def)

lemma session_run_grows: "session_grows s (fold session_exec ops s)"
proof (induction ops arbitrary: s)
  case (Cons op ops)
  then show ?case using session_exec_grows session_grows_trans by (metis fold_simps(2))
qed simp

lemma session_open_wf:
  "session_open u B b ctx secrets = Ok s \<Longrightarrow>
   session_wf s \<and> se_id s = AgentSessionId u \<and> se_backend s = ab_identity B b \<and>
   se_protected_secrets s = secrets \<and> se_events s = []"
  by (auto simp: session_open_def ensure_protocol_version_def session_wf_def split: if_splits)

section \<open>Properties\<close>

text \<open>
  (C10) The log of a session. Whatever sequence of prompts (with any backends), interruptions, resumptions,
  completions, replays, approval decisions and deadline changes a session goes through, its log is only
  ever extended; the event at position \<open>i\<close> carries sequence number \<open>i\<close> and the session's own
  identifier; and no event detail contains a non-empty protected secret.
\<close>

theorem session_log_integrity:
  fixes before after :: "'c session_op list"
  assumes "session_open u B b ctx secrets = Ok s"
  defines "t \<equiv> fold session_exec before s"
  defines "t' \<equiv> fold session_exec after t"
  shows "prefix (se_events t) (se_events t') \<and> se_id t' = AgentSessionId u \<and>
    se_next_sequence t' = word_of_nat (length (se_events t')) \<and>
    (\<forall>i < length (se_events t'). ae_sequence (se_events t' ! i) = word_of_nat i) \<and>
    (\<forall>e \<in> set (se_events t'). ae_session_id e = AgentSessionId u \<and>
       (\<forall>p \<in> set secrets. p \<noteq> [] \<longrightarrow> \<not> str_contains (ae_detail e) p))"
proof -
  have "session_grows s t'"
    unfolding t_def t'_def using session_run_grows session_grows_trans by blast
  from session_growsD [OF this] session_open_wf [OF assms(1)]
  have t': "session_wf t'" "se_id t' = AgentSessionId u" "se_protected_secrets t' = secrets" by simp_all
  have "session_grows t t'" unfolding t'_def by (rule session_run_grows)
  from session_growsD(1) [OF this] t'(1) show ?thesis
    unfolding session_wf_def leak_free_def t'(2,3) by blast
qed

definition sample_app :: application_id where
  "sample_app = ApplicationId ''7''"

definition sample_context :: agent_context where
  "sample_context = agent_context_new sample_app ''preview'' False ''dev''"

definition sample_session :: agent_session where
  "sample_session =
     \<lparr>se_id = AgentSessionId ''5'', se_context = sample_context, se_backend = identity_native,
      se_status = SsActive, se_events = [], se_next_sequence = 0, se_deadline = None,
      se_pending_approvals = [], se_approval_counter = 0, se_protected_secrets = [''hunter2'']\<rparr>"

lemma sample_session_open:
  "session_open ''5'' native_backend native_agent_new sample_context [''hunter2''] = Ok sample_session"
  by (simp add: session_open_def ensure_protocol_version_def native_backend_def native_agent_new_def
      sample_session_def)

theorem session_log_integrity_witness:
  "let t = fold session_exec [OpPrompt native_backend native_agent_new (agent_input_new ''add a page'') 3]
         sample_session;
       t' = fold session_exec [OpInterrupt, OpResume :: native_agent session_op] t
   in prefix (se_events t) (se_events t') \<and>
      se_next_sequence t' = word_of_nat (length (se_events t'))"
  using session_log_integrity [OF sample_session_open,
      of "[OpPrompt native_backend native_agent_new (agent_input_new ''add a page'') 3]"
         "[OpInterrupt, OpResume :: native_agent session_op]"]
  unfolding Let_def by blast

text \<open>
  (C11) The policy gate of a prompt is exact. A prompt that passes every check (protocol version, active status,
  deadline, no protected secret in the text or in a reference, no raw shell in production, no action that
  needs approval) does what the backend drafts; any other prompt is refused with an error, leaves the
  backend as it was, without calling it, and keeps the log. On success exactly the drafted events
  have been appended and returned, under the backend's identity.
\<close>

theorem prompt_gate_exact:
  "(if prompt_admitted B s b input now
    then prompt B s b input now = prompt_backend B s b input
    else (\<exists>s' e. prompt B s b input now = ((s', b), Err e) \<and> prefix (se_events s) (se_events s'))) \<and>
   (\<forall>s' b' es. prompt B s b input now = ((s', b'), Ok es) \<longrightarrow>
      prompt_admitted B s b input now \<and>
      ab_draft_events B b (se_context s) input (se_next_sequence s) =
        (b', Ok (map (\<lambda>e. (ae_kind e, ae_detail e)) es)) \<and>
      se_events s' = se_events s @ es \<and> se_status s' = SsActive)"
proof (intro conjI allI impI)
  show "if prompt_admitted B s b input now
    then prompt B s b input now = prompt_backend B s b input
    else (\<exists>s' e. prompt B s b input now = ((s', b), Err e) \<and> prefix (se_events s) (se_events s'))"
    using prompt_admitted_runs prompt_refused_keeps unfolding session_grows_def by (smt (verit))
next
  fix s' b' es assume run: "prompt B s b input now = ((s', b'), Ok es)"
  show adm: "prompt_admitted B s b input now" using run prompt_refused_keeps [of B s b input now] by auto
  then have "prompt_backend B s b input = ((s', b'), Ok es)" using run by (simp add: prompt_admitted_runs)
  then obtain cs where cs: "ab_draft_events B b (se_context s) input (se_next_sequence s) = (b', Ok cs)"
    "append_candidates s (ab_identity B b') cs [] = (s', Ok es)"
    by (auto simp: prompt_backend_def split: prod.splits outcome.splits)
  from append_candidates_Ok [OF cs(2)] show "se_events s' = se_events s @ es" "se_status s' = SsActive"
    "ab_draft_events B b (se_context s) input (se_next_sequence s) =
       (b', Ok (map (\<lambda>e. (ae_kind e, ae_detail e)) es))"
    using adm cs(1) by (auto simp: prompt_admitted_def)
qed

lemma sample_prompt_admitted:
  "prompt_admitted native_backend sample_session native_agent_new (agent_input_new ''add a page'') 3"
  by (simp add: prompt_admitted_def native_backend_def sample_session_def agent_input_new_def leak_free_def
      str_contains_def sublist_Cons_right)

theorem prompt_gate_exact_witness:
  "prompt native_backend sample_session native_agent_new (agent_input_new ''add a page'') 3 =
     prompt_backend native_backend sample_session native_agent_new (agent_input_new ''add a page'') \<and>
   (\<exists>s' e. prompt native_backend sample_session native_agent_new (agent_input_new ''use hunter2'') 3 =
      ((s', native_agent_new), Err e))"
proof -
  have no: "\<not> prompt_admitted native_backend sample_session native_agent_new (agent_input_new ''use hunter2'') 3"
    by (simp add: prompt_admitted_def sample_session_def agent_input_new_def leak_free_def
      str_contains_def sublist_Cons_right)
  show ?thesis
    using prompt_gate_exact [of native_backend sample_session native_agent_new "agent_input_new ''add a page''" 3]
      prompt_gate_exact [of native_backend sample_session native_agent_new "agent_input_new ''use hunter2''" 3]
    unfolding if_P [OF sample_prompt_admitted] if_not_P [OF no] by blast
qed

end
