(* ===== verification/Secret_Store.thy ===== *)
theory Secret_Store
  imports Capability Agent
begin

text \<open>
  The sealed secret store: the second half of \<open>labrys-core/src/capability.rs\<close>.

  Text is its UTF-8 bytes and \<open>from_utf8\<close> is the validator of the standard library. The crates
  \<open>sha2\<close> and \<open>chacha20poly1305\<close> are the parameter \<open>aead_api\<close>; what the store relies on, that
  decryption undoes encryption under the same key, nonce and associated data, is the hypothesis
  \<open>aead_sound\<close>. Randomness (nonces, generated keys), the process environment and file contents
  are arguments. The retired XOR cipher is modelled in full. The \<open>Debug\<close> renderings and
  \<open>zeroize\<close> are not here.
\<close>

section \<open>Bytes\<close>

type_synonym bytes = "u8 list"

definition as_bytes :: "string \<Rightarrow> bytes" where
  "as_bytes s = map of_char s"

definition utf8_continuation :: "nat \<Rightarrow> nat \<Rightarrow> u8 \<Rightarrow> bool" where
  "utf8_continuation lo hi b = (lo \<le> unat b \<and> unat b \<le> hi)"

text \<open>
  The ranges of well-formed UTF-8: the second byte of a sequence is restricted after E0, ED, F0 and
  F4, which excludes overlong forms, surrogates and values above U+10FFFF.
\<close>

fun utf8_valid :: "bytes \<Rightarrow> bool" where
  "utf8_valid [] = True"
| "utf8_valid (b # bs) =
     (let n = unat b; cont = utf8_continuation 128 191 in
      if n < 128 then utf8_valid bs
      else if 194 \<le> n \<and> n \<le> 223 then
        1 \<le> length bs \<and> cont (bs ! 0) \<and> utf8_valid (drop 1 bs)
      else if 224 \<le> n \<and> n \<le> 239 then
        2 \<le> length bs \<and>
        utf8_continuation (if n = 224 then 160 else 128) (if n = 237 then 159 else 191) (bs ! 0) \<and>
        cont (bs ! 1) \<and> utf8_valid (drop 2 bs)
      else if 240 \<le> n \<and> n \<le> 244 then
        3 \<le> length bs \<and>
        utf8_continuation (if n = 240 then 144 else 128) (if n = 244 then 143 else 191) (bs ! 0) \<and>
        cont (bs ! 1) \<and> cont (bs ! 2) \<and> utf8_valid (drop 3 bs)
      else False)"

definition from_utf8 :: "bytes \<Rightarrow> string option" where
  "from_utf8 bs = (if utf8_valid bs then Some (map (\<lambda>b. char_of (unat b)) bs) else None)"

text \<open>The values of the Rust type: byte sequences that are valid UTF-8.\<close>

definition rust_str :: "string \<Rightarrow> bool" where
  "rust_str s = utf8_valid (as_bytes s)"

definition to_le_bytes :: "u64 \<Rightarrow> bytes" where
  "to_le_bytes w = map (\<lambda>i. ucast (drop_bit (8 * i) w)) [0..<8]"

section \<open>Keys and envelopes\<close>

record aead_api =
  aead_encrypt :: "bytes \<Rightarrow> bytes \<Rightarrow> bytes \<Rightarrow> bytes \<Rightarrow> bytes"
  aead_decrypt :: "bytes \<Rightarrow> bytes \<Rightarrow> bytes \<Rightarrow> bytes \<Rightarrow> bytes option"
  sha256 :: "bytes \<Rightarrow> bytes"

definition secret_envelope_legacy_xor :: u32 where
  "secret_envelope_legacy_xor = 0"

definition secret_envelope_version :: u32 where
  "secret_envelope_version = 1"

datatype master_key = MasterKey bytes

fun key_material :: "master_key \<Rightarrow> bytes" where
  "key_material (MasterKey bs) = bs"

definition aead_key :: "aead_api \<Rightarrow> master_key \<Rightarrow> bytes" where
  "aead_key A k = sha256 A (key_material k)"

definition master_key_eq :: "aead_api \<Rightarrow> master_key \<Rightarrow> master_key \<Rightarrow> bool" where
  "master_key_eq A k k' = (aead_key A k = aead_key A k')"

definition master_key_new :: "bytes \<Rightarrow> master_key outcome" where
  "master_key_new bs =
     (if bs = [] then Err (CapabilityBinding ''master key must not be empty'') else Ok (MasterKey bs))"

text \<open>\<open>from_env\<close> on what the process environment holds under the name.\<close>

definition master_key_from_env :: "string option \<Rightarrow> string \<Rightarrow> master_key outcome" where
  "master_key_from_env value var =
     (case value of
        None \<Rightarrow> Err (CapabilityBinding (''master key environment variable '' @ quoted var @
          '' is not set; export it from process configuration and retry''))
      | Some v \<Rightarrow>
          if trim v = []
          then Err (CapabilityBinding (''master key environment variable '' @ quoted var @
                 '' is empty; provide key material from process configuration and retry''))
          else Ok (MasterKey (as_bytes v)))"

text \<open>\<open>from_file\<close> on the result of reading the file, an error text or its bytes.\<close>

definition trim_newlines :: "bytes \<Rightarrow> bytes" where
  "trim_newlines bs = rev (dropWhile (\<lambda>b. b = 10 \<or> b = 13) (rev bs))"

definition master_key_from_file :: "(string + bytes) \<Rightarrow> string \<Rightarrow> master_key outcome" where
  "master_key_from_file content path =
     (case content of
        Inl e \<Rightarrow> Err (CapabilityBinding (''cannot read master key file '' @ quoted path @ '': '' @ e @
          ''; check the path and file permissions, then retry''))
      | Inr bs \<Rightarrow>
          (let material = trim_newlines bs in
           if material = []
           then Err (CapabilityBinding (''master key file '' @ quoted path @
                  '' holds no key material; write key material from process configuration and retry''))
           else Ok (MasterKey material)))"

definition master_key_generate :: "bytes \<Rightarrow> master_key" where
  "master_key_generate random = MasterKey random"

record injection_grant =
  ig_application_id :: application_id
  ig_environment_name :: string
  ig_production :: bool

definition injection_grant_new :: "application_id \<Rightarrow> string \<Rightarrow> bool \<Rightarrow> injection_grant" where
  "injection_grant_new application_id environment_name production =
     \<lparr>ig_application_id = application_id, ig_environment_name = environment_name, ig_production = production\<rparr>"

record sealed_secret =
  sl_ref_id :: string
  sl_version :: u64
  sl_scope :: injection_grant
  sl_cipher_version :: u32
  sl_nonce :: bytes
  sl_ciphertext :: bytes

definition sealed_reference :: "sealed_secret \<Rightarrow> secret_reference" where
  "sealed_reference s =
     secret_reference_with_hint (secret_reference_new (sl_ref_id s)) (''v'' @ show_u64 (sl_version s))"

definition envelope_aad :: "string \<Rightarrow> u64 \<Rightarrow> bytes" where
  "envelope_aad ref_id version =
     as_bytes (''labrys-secret v'' @ show_u32 secret_envelope_version @ '':'' @ ref_id @ '':v'' @ show_u64 version)"

text \<open>\<open>seal\<close> with the nonce it draws as an argument; the ciphertext is its result.\<close>

definition seal :: "aead_api \<Rightarrow> bytes \<Rightarrow> master_key \<Rightarrow> string \<Rightarrow> u64 \<Rightarrow> string \<Rightarrow> bytes \<times> bytes" where
  "seal A nonce key ref_id version plaintext =
     (nonce, aead_encrypt A (aead_key A key) nonce (envelope_aad ref_id version) (as_bytes plaintext))"

subsection \<open>The retired cipher\<close>

definition mix :: "bytes \<Rightarrow> u64 \<Rightarrow> u64" where
  "mix bs hash = fold (\<lambda>b h. (h XOR ucast b) * 0x100000001b3) bs hash"

function keystream_loop :: "nat \<Rightarrow> u64 \<Rightarrow> u64 \<Rightarrow> bytes \<Rightarrow> bytes" where
  "keystream_loop len hash counter out =
     (if length out < len
      then (let hash = mix (to_le_bytes counter) hash
            in keystream_loop len hash (counter + 1) (out @ to_le_bytes hash))
      else take len out)"
  by pat_completeness auto
termination
  by (relation "measure (\<lambda>(len, _, _, out). len - length out)") (auto simp: to_le_bytes_def)

declare keystream_loop.simps [simp del]

definition keystream :: "master_key \<Rightarrow> string \<Rightarrow> nat \<Rightarrow> bytes" where
  "keystream key ref_id len =
     keystream_loop len (mix (as_bytes ref_id) (mix (key_material key) 0xcbf29ce484222325)) 0 []"

definition xor_stream :: "bytes \<Rightarrow> bytes \<Rightarrow> bytes" where
  "xor_stream bs stream = map (\<lambda>(b, k). b XOR k) (zip bs stream)"

definition seal_legacy :: "master_key \<Rightarrow> string \<Rightarrow> string \<Rightarrow> bytes" where
  "seal_legacy key ref_id plaintext =
     xor_stream (as_bytes plaintext) (keystream key ref_id (length (as_bytes plaintext)))"

definition open_legacy :: "master_key \<Rightarrow> sealed_secret \<Rightarrow> string option" where
  "open_legacy key sealed =
     from_utf8 (xor_stream (sl_ciphertext sealed) (keystream key (sl_ref_id sealed) (length (sl_ciphertext sealed))))"

definition open_sealed :: "aead_api \<Rightarrow> master_key \<Rightarrow> sealed_secret \<Rightarrow> string option" where
  "open_sealed A key sealed =
     (if sl_cipher_version sealed = secret_envelope_version
      then (case aead_decrypt A (aead_key A key) (sl_nonce sealed)
                   (envelope_aad (sl_ref_id sealed) (sl_version sealed)) (sl_ciphertext sealed) of
              Some plain \<Rightarrow> from_utf8 plain
            | None \<Rightarrow> None)
      else if sl_cipher_version sealed = secret_envelope_legacy_xor then open_legacy key sealed
      else None)"

section \<open>The store\<close>

datatype secret_action = SaStore | SaRotate | SaReplace | SaDelete

fun debug_secret_action :: "secret_action \<Rightarrow> string" where
  "debug_secret_action SaStore = ''Store''"
| "debug_secret_action SaRotate = ''Rotate''"
| "debug_secret_action SaReplace = ''Replace''"
| "debug_secret_action SaDelete = ''Delete''"

record secret_audit =
  sa_ref_id :: string
  sa_action :: secret_action
  sa_version :: u64
  sa_actor :: string
  sa_at :: time
  sa_approved_by :: "string option"

definition secret_audit_detail :: "secret_audit \<Rightarrow> string" where
  "secret_audit_detail a =
     ''secret '' @ quoted (sa_ref_id a) @ '' '' @ debug_secret_action (sa_action a) @ '' v'' @
     show_u64 (sa_version a) @ '' by '' @ sa_actor a @
     (case sa_approved_by a of Some approver \<Rightarrow> '' approved by '' @ approver | None \<Rightarrow> [])"

record secret_store =
  ss_master_key :: master_key
  ss_secrets :: "(string, sealed_secret) btree_map"
  ss_audit :: "secret_audit list"

definition secret_store_new :: "master_key \<Rightarrow> secret_store" where
  "secret_store_new key = \<lparr>ss_master_key = key, ss_secrets = [], ss_audit = []\<rparr>"

definition store_contains :: "secret_store \<Rightarrow> string \<Rightarrow> bool" where
  "store_contains s ref_id = (btm_get (ss_secrets s) ref_id \<noteq> None)"

definition store_sealed :: "secret_store \<Rightarrow> string \<Rightarrow> sealed_secret option" where
  "store_sealed s ref_id = btm_get (ss_secrets s) ref_id"

definition secret_put ::
  "aead_api \<Rightarrow> bytes \<Rightarrow> secret_store \<Rightarrow> string \<Rightarrow> string \<Rightarrow> injection_grant \<Rightarrow> string \<Rightarrow> time \<Rightarrow>
   secret_store \<times> sealed_secret outcome" where
  "secret_put A nonce s ref_id value scope actor at =
     (if trim ref_id = []
      then (s, Err (SecretNotFound ''secret reference id must not be empty''))
      else
        (let version = (case btm_get (ss_secrets s) ref_id of None \<Rightarrow> 1 | Some old \<Rightarrow> sl_version old + 1);
             (nonce, ciphertext) = seal A nonce (ss_master_key s) ref_id version value;
             sealed = \<lparr>sl_ref_id = ref_id, sl_version = version, sl_scope = scope,
               sl_cipher_version = secret_envelope_version, sl_nonce = nonce, sl_ciphertext = ciphertext\<rparr>
         in (s\<lparr>ss_secrets := btm_insert ref_id sealed (ss_secrets s),
               ss_audit := ss_audit s @ [\<lparr>sa_ref_id = ref_id, sa_action = SaStore, sa_version = version,
                 sa_actor = actor, sa_at = at, sa_approved_by = None\<rparr>]\<rparr>,
             Ok sealed)))"

definition em_dash :: string where
  "em_dash = [CHR 0xE2, CHR 0x80, CHR 0x94]"

definition open_envelope :: "aead_api \<Rightarrow> secret_store \<Rightarrow> sealed_secret \<Rightarrow> string outcome" where
  "open_envelope A s sealed =
     (case open_sealed A (ss_master_key s) sealed of
        Some value \<Rightarrow> Ok value
      | None \<Rightarrow> Err (Verification (''secret '' @ quoted (sl_ref_id sealed) @
          '' failed authentication (tampered envelope or wrong key); no plaintext was exposed '' @ em_dash @
          '' re-seal from a trusted source and rotate'')))"

definition secret_inject :: "aead_api \<Rightarrow> secret_store \<Rightarrow> injection_grant \<Rightarrow> string \<Rightarrow> string outcome" where
  "secret_inject A s grant ref_id =
     (case btm_get (ss_secrets s) ref_id of
        None \<Rightarrow> Err (SecretNotFound (''secret '' @ quoted ref_id @ '' not found''))
      | Some sealed \<Rightarrow>
          if ig_application_id (sl_scope sealed) \<noteq> ig_application_id grant \<or>
             ig_environment_name (sl_scope sealed) \<noteq> ig_environment_name grant
          then Err (CapabilityBinding (''secret '' @ quoted ref_id @ '' is not authorized for environment '' @
                 quoted (ig_environment_name grant)))
          else open_envelope A s sealed)"

fun inject_env ::
  "aead_api \<Rightarrow> secret_store \<Rightarrow> injection_grant \<Rightarrow> env_contract \<Rightarrow> (string, string) btree_map \<Rightarrow>
   (string, string) btree_map outcome" where
  "inject_env A s grant [] out = Ok out"
| "inject_env A s grant ((name, EnvSecretRef ref_id) # env) out =
     outcome_bind (secret_inject A s grant ref_id) (\<lambda>v. inject_env A s grant env (btm_insert name v out))"
| "inject_env A s grant ((name, source) # env) out = inject_env A s grant env out"

definition inject_binding ::
  "aead_api \<Rightarrow> secret_store \<Rightarrow> injection_grant \<Rightarrow> cap_binding \<Rightarrow> (string, string) btree_map outcome" where
  "inject_binding A s grant b = inject_env A s grant (bd_env b) []"

definition approver_of :: "explicit_approval \<Rightarrow> string option" where
  "approver_of approval =
     (if ea_approved approval \<and> trim (ea_approver approval) \<noteq> [] then Some (ea_approver approval) else None)"

definition secret_rotate ::
  "aead_api \<Rightarrow> bytes \<Rightarrow> secret_store \<Rightarrow> string \<Rightarrow> explicit_approval \<Rightarrow> string \<Rightarrow> time \<Rightarrow>
   secret_store \<times> u64 outcome" where
  "secret_rotate A nonce s ref_id approval actor at =
     (case btm_get (ss_secrets s) ref_id of
        None \<Rightarrow> (s, Err (SecretNotFound (''secret '' @ quoted ref_id @ '' not found'')))
      | Some sealed \<Rightarrow>
          (let approved = ea_approved approval \<and> trim (ea_approver approval) \<noteq> [] in
           if ig_production (sl_scope sealed) \<and> \<not> approved
           then (s, Err (ApprovalRequired (''production rotation of secret '' @ quoted ref_id @
             '' requires explicit human approval; request a granted named approval and retry'')))
           else and_then (s, open_envelope A s sealed)
             (\<lambda>s value.
               let version = sl_version sealed + 1;
                   (nonce, ciphertext) = seal A nonce (ss_master_key s) ref_id version value
               in (s\<lparr>ss_secrets := btm_insert ref_id \<lparr>sl_ref_id = ref_id, sl_version = version,
                         sl_scope = sl_scope sealed, sl_cipher_version = secret_envelope_version,
                         sl_nonce = nonce, sl_ciphertext = ciphertext\<rparr> (ss_secrets s),
                     ss_audit := ss_audit s @ [\<lparr>sa_ref_id = ref_id, sa_action = SaRotate,
                         sa_version = version, sa_actor = actor, sa_at = at,
                         sa_approved_by = approver_of approval\<rparr>]\<rparr>,
                   Ok version))))"

text \<open>The two loops of \<open>rotate_key\<close>: open everything, then re-seal one by one.\<close>

fun open_all ::
  "aead_api \<Rightarrow> secret_store \<Rightarrow> (string \<times> sealed_secret) list \<Rightarrow>
   (string \<times> u64 \<times> injection_grant \<times> string) list outcome" where
  "open_all A s [] = Ok []"
| "open_all A s ((ref_id, sealed) # rest) =
     outcome_bind (open_envelope A s sealed)
       (\<lambda>value. outcome_bind (open_all A s rest)
         (\<lambda>ps. Ok ((ref_id, sl_version sealed + 1, sl_scope sealed, value) # ps)))"

definition reseal ::
  "aead_api \<Rightarrow> (string \<Rightarrow> bytes) \<Rightarrow> master_key \<Rightarrow> explicit_approval \<Rightarrow> string \<Rightarrow> time \<Rightarrow>
   string \<times> u64 \<times> injection_grant \<times> string \<Rightarrow> secret_store \<Rightarrow> secret_store" where
  "reseal A nonces new_key approval actor at p s =
     (case p of (ref_id, version, scope, value) \<Rightarrow>
        (let (nonce, ciphertext) = seal A (nonces ref_id) new_key ref_id version value
         in s\<lparr>ss_secrets := btm_insert ref_id \<lparr>sl_ref_id = ref_id, sl_version = version, sl_scope = scope,
                  sl_cipher_version = secret_envelope_version, sl_nonce = nonce, sl_ciphertext = ciphertext\<rparr>
                (ss_secrets s),
              ss_audit := ss_audit s @ [\<lparr>sa_ref_id = ref_id, sa_action = SaRotate, sa_version = version,
                  sa_actor = actor, sa_at = at, sa_approved_by = approver_of approval\<rparr>]\<rparr>))"

definition rotate_key ::
  "aead_api \<Rightarrow> (string \<Rightarrow> bytes) \<Rightarrow> secret_store \<Rightarrow> master_key \<Rightarrow> explicit_approval \<Rightarrow> string \<Rightarrow> time \<Rightarrow>
   secret_store \<times> nat outcome" where
  "rotate_key A nonces s new_key approval actor at =
     (let approved = ea_approved approval \<and> trim (ea_approver approval) \<noteq> [];
          production_refs = map fst (filter (\<lambda>p. ig_production (sl_scope (snd p))) (ss_secrets s))
      in if production_refs \<noteq> [] \<and> \<not> approved
         then (s, Err (ApprovalRequired (''key rotation over production secrets ('' @ join '', '' production_refs @
           '') requires explicit human approval; request a granted named approval and retry'')))
         else and_then (s, open_all A s (ss_secrets s))
           (\<lambda>s plaintexts.
             let s = fold (reseal A nonces new_key approval actor at) plaintexts s
             in (s\<lparr>ss_master_key := new_key\<rparr>, Ok (length plaintexts))))"

definition secret_replace ::
  "aead_api \<Rightarrow> bytes \<Rightarrow> secret_store \<Rightarrow> string \<Rightarrow> string \<Rightarrow> injection_grant \<Rightarrow> explicit_approval \<Rightarrow> string \<Rightarrow> time \<Rightarrow>
   secret_store \<times> secret_audit outcome" where
  "secret_replace A nonce s ref_id new_value grant approval actor at =
     (let approved = ea_approved approval \<and> trim (ea_approver approval) \<noteq> [] in
      if ig_production grant \<and> \<not> approved
      then (s, Err (ApprovalRequired (''production replacement of secret '' @ quoted ref_id @
        '' requires explicit human approval'')))
      else if \<not> store_contains s ref_id
      then (s, Err (SecretNotFound (''cannot replace unknown secret '' @ quoted ref_id)))
      else and_then (secret_put A nonce s ref_id new_value grant actor at)
        (\<lambda>s _. case store_sealed s ref_id of
            None \<Rightarrow> (s, Panic ''just stored'')
          | Some sealed \<Rightarrow>
              (let audit = \<lparr>sa_ref_id = ref_id, sa_action = SaReplace, sa_version = sl_version sealed,
                     sa_actor = actor, sa_at = at, sa_approved_by = approver_of approval\<rparr>
               in (s\<lparr>ss_audit := ss_audit s @ [audit]\<rparr>, Ok audit))))"

definition secret_delete :: "secret_store \<Rightarrow> string \<Rightarrow> string \<Rightarrow> time \<Rightarrow> secret_store \<times> unit outcome" where
  "secret_delete s ref_id actor at =
     (case btm_get (ss_secrets s) ref_id of
        None \<Rightarrow> (s, Err (SecretNotFound (''cannot delete unknown secret '' @ quoted ref_id)))
      | Some _ \<Rightarrow>
          (s\<lparr>ss_secrets := btm_remove ref_id (ss_secrets s),
             ss_audit := ss_audit s @ [\<lparr>sa_ref_id = ref_id, sa_action = SaDelete, sa_version = 0,
               sa_actor = actor, sa_at = at, sa_approved_by = None\<rparr>]\<rparr>, Ok ()))"

definition redact_step :: "aead_api \<Rightarrow> master_key \<Rightarrow> sealed_secret \<Rightarrow> string \<Rightarrow> string" where
  "redact_step A key sealed out =
     (case open_sealed A key sealed of
        Some value \<Rightarrow>
          if value \<noteq> [] \<and> str_contains out value
          then str_replace value (''[redacted:'' @ sl_ref_id sealed @ '']'') out
          else out
      | None \<Rightarrow> out)"

definition store_redact :: "aead_api \<Rightarrow> secret_store \<Rightarrow> string \<Rightarrow> string" where
  "store_redact A s t = fold (redact_step A (ss_master_key s)) (btm_values (ss_secrets s)) t"

definition leaks :: "aead_api \<Rightarrow> master_key \<Rightarrow> string \<Rightarrow> sealed_secret \<Rightarrow> bool" where
  "leaks A key redacted sealed =
     (case open_sealed A key sealed of
        Some value \<Rightarrow> value \<noteq> [] \<and> str_contains redacted value
      | None \<Rightarrow> False)"

definition guard_text :: "aead_api \<Rightarrow> secret_store \<Rightarrow> string \<Rightarrow> string \<Rightarrow> string outcome" where
  "guard_text A s field t =
     (let redacted = store_redact A s t in
      if list_ex (leaks A (ss_master_key s) redacted) (btm_values (ss_secrets s))
      then Err (SecretLeak (''secret value rejected before persistence in field '' @ quoted field))
      else Ok redacted)"

section \<open>Round trips\<close>

lemma of_char_u8_inverse: "of_char (char_of (unat (b :: u8))) = b"
proof -
  have "unat b < 256" using unsigned_less [of b] by simp
  then have "(of_char (char_of (unat b)) :: nat) = unat b" by simp
  then have "(of_nat (of_char (char_of (unat b))) :: u8) = of_nat (unat b)" by (simp only:)
  then show ?thesis unfolding of_nat_of_char by simp
qed

lemma unat_of_char_u8: "unat (of_char c :: u8) = of_char c"
proof -
  have "(of_char c :: nat) < 256" by simp
  moreover have "(of_char c :: u8) = word_of_nat (of_char c)" by (simp add: of_nat_of_char)
  ultimately show ?thesis by (simp only: unat_of_nat take_bit_eq_mod) simp
qed

lemma from_utf8_as_bytes: "rust_str s \<Longrightarrow> from_utf8 (as_bytes s) = Some s"
  by (simp add: from_utf8_def rust_str_def as_bytes_def unat_of_char_u8 map_idI)

lemma from_utf8_rust_str: "from_utf8 bs = Some s \<Longrightarrow> rust_str s \<and> as_bytes s = bs"
  by (auto simp: from_utf8_def rust_str_def as_bytes_def of_char_u8_inverse map_idI split: if_splits)

lemma as_bytes_inj: "as_bytes s = as_bytes t \<Longrightarrow> s = t"
proof -
  assume "as_bytes s = as_bytes t"
  then have "map (\<lambda>b. char_of (unat b)) (as_bytes s) = map (\<lambda>b. char_of (unat b)) (as_bytes t)" by simp
  then show "s = t" by (simp add: as_bytes_def unat_of_char_u8 map_idI)
qed

lemma ascii_rust_str: "list_all (\<lambda>c. (of_char c :: nat) < 128) s \<Longrightarrow> rust_str s"
  unfolding rust_str_def by (induction s) (simp_all add: as_bytes_def unat_of_char_u8)

lemma length_keystream_loop: "length (keystream_loop len hash counter out) = len"
proof (induction len hash counter out rule: keystream_loop.induct)
  case (1 len hash counter out)
  then show ?case by (subst keystream_loop.simps) (simp add: Let_def)
qed

lemma xor_stream_twice: "length bs = length ks \<Longrightarrow> xor_stream (xor_stream bs ks) ks = bs"
  by (induction bs ks rule: list_induct2) (simp_all add: xor_stream_def xor.assoc)

lemma length_xor_stream: "length (xor_stream bs ks) = min (length bs) (length ks)"
  by (simp add: xor_stream_def)

definition aead_sound :: "aead_api \<Rightarrow> bool" where
  "aead_sound A = (\<forall>k n a m. aead_decrypt A k n a (aead_encrypt A k n a m) = Some m)"

text \<open>An instantiation of the parameter: the associated data is prepended and checked.\<close>

definition aead_plain :: aead_api where
  "aead_plain = \<lparr>aead_encrypt = (\<lambda>k n a m. a @ m),
     aead_decrypt = (\<lambda>k n a c. if take (length a) c = a then Some (drop (length a) c) else None),
     sha256 = (\<lambda>m. m)\<rparr>"

lemma aead_plain_sound: "aead_sound aead_plain"
  by (simp add: aead_sound_def aead_plain_def)

text \<open>
  (C30) Envelopes of the retired cipher stay readable: whatever the key, the reference and the value (any text),
  the XOR stream that sealed a value opens it again, and the keystream loop always delivers a stream of
  exactly the length asked for.
\<close>

theorem legacy_envelope_roundtrip:
  assumes "rust_str value"
  shows "length (keystream key ref_id n) = n \<and>
    open_sealed A key \<lparr>sl_ref_id = ref_id, sl_version = version, sl_scope = scope,
      sl_cipher_version = secret_envelope_legacy_xor, sl_nonce = nonce,
      sl_ciphertext = seal_legacy key ref_id value\<rparr> = Some value"
proof -
  have len: "length (keystream key ref_id n) = n" for n
    by (simp add: keystream_def length_keystream_loop)
  then show ?thesis using assms
    by (simp add: open_sealed_def secret_envelope_legacy_xor_def secret_envelope_version_def open_legacy_def
        seal_legacy_def length_xor_stream xor_stream_twice from_utf8_as_bytes)
qed

theorem legacy_envelope_roundtrip_witness:
  "open_sealed aead_plain (MasterKey [7, 7]) \<lparr>sl_ref_id = ''db.url'', sl_version = 1,
      sl_scope = injection_grant_new (ApplicationId ''a'') ''production'' True,
      sl_cipher_version = secret_envelope_legacy_xor, sl_nonce = [],
      sl_ciphertext = seal_legacy (MasterKey [7, 7]) ''db.url'' ''old-s3cr3t''\<rparr> = Some ''old-s3cr3t''"
  by (rule conjunct2 [OF legacy_envelope_roundtrip]) (simp add: ascii_rust_str)

text \<open>An envelope as \<open>put\<close>, \<open>rotate\<close> and \<open>rotate_key\<close> mint it.\<close>

definition minted ::
  "aead_api \<Rightarrow> bytes \<Rightarrow> master_key \<Rightarrow> string \<Rightarrow> u64 \<Rightarrow> injection_grant \<Rightarrow> string \<Rightarrow> sealed_secret" where
  "minted A nonce key ref_id version scope value =
     \<lparr>sl_ref_id = ref_id, sl_version = version, sl_scope = scope,
      sl_cipher_version = secret_envelope_version, sl_nonce = fst (seal A nonce key ref_id version value),
      sl_ciphertext = snd (seal A nonce key ref_id version value)\<rparr>"

lemma minted_fields [simp]:
  "sl_ref_id (minted A nonce key ref_id version scope value) = ref_id"
  "sl_version (minted A nonce key ref_id version scope value) = version"
  "sl_scope (minted A nonce key ref_id version scope value) = scope"
  by (simp_all add: minted_def)

lemma open_minted:
  "aead_sound A \<Longrightarrow> rust_str value \<Longrightarrow>
   open_sealed A key (minted A nonce key ref_id version scope value) = Some value"
  by (simp add: open_sealed_def minted_def seal_def aead_sound_def from_utf8_as_bytes)

lemma open_sealed_rust_str: "open_sealed A key sealed = Some v \<Longrightarrow> rust_str v"
  using from_utf8_rust_str by (auto simp: open_sealed_def open_legacy_def split: if_splits option.splits)

lemma show_u64_no_colon: "CHR '':'' \<notin> set (show_u64 v)"
  using show_nat_chars [of "CHR '':''" "unat v"] by (auto simp: show_u64_def)

lemma envelope_aad_inj: "envelope_aad r v = envelope_aad r' v' \<Longrightarrow> r = r' \<and> v = v'"
proof -
  assume "envelope_aad r v = envelope_aad r' v'"
  from as_bytes_inj [OF this [unfolded envelope_aad_def]]
  have "r @ CHR '':'' # (CHR ''v'' # show_u64 v) = r' @ CHR '':'' # (CHR ''v'' # show_u64 v')" by simp
  from split_at_last_inj [OF this] show_u64_no_colon have "r = r' \<and> show_u64 v = show_u64 v'" by auto
  then show "r = r' \<and> v = v'" using show_u64_inj by blast
qed

text \<open>
  (C27) An envelope is bound to its reference and version. A sealed value opens under the reference and version
  it was sealed for; if the same ciphertext ever opens under another reference or another version, then the
  cipher has authenticated one ciphertext under two different associated data.
\<close>

theorem envelope_bound_to_reference:
  fixes key nonce scope
  assumes "aead_sound A" "rust_str value"
    and "ref_id' \<noteq> ref_id \<or> version' \<noteq> version"
  defines "sealed \<equiv> minted A nonce key ref_id version scope value"
  shows "open_sealed A key sealed = Some value \<and>
    (open_sealed A key (sealed\<lparr>sl_ref_id := ref_id', sl_version := version'\<rparr>) \<noteq> None \<longrightarrow>
     (\<exists>aad aad' m'. aad \<noteq> aad' \<and>
        aead_decrypt A (aead_key A key) nonce aad (sl_ciphertext sealed) = Some (as_bytes value) \<and>
        aead_decrypt A (aead_key A key) nonce aad' (sl_ciphertext sealed) = Some m'))"
proof (intro conjI impI)
  show "open_sealed A key sealed = Some value" unfolding sealed_def using assms(1,2) by (rule open_minted)
  assume "open_sealed A key (sealed\<lparr>sl_ref_id := ref_id', sl_version := version'\<rparr>) \<noteq> None"
  then have "\<exists>m'. aead_decrypt A (aead_key A key) nonce (envelope_aad ref_id' version') (sl_ciphertext sealed) = Some m'"
    by (auto simp: open_sealed_def sealed_def minted_def seal_def split: option.splits)
  moreover have "aead_decrypt A (aead_key A key) nonce (envelope_aad ref_id version) (sl_ciphertext sealed) =
      Some (as_bytes value)"
    using assms(1) by (simp add: sealed_def minted_def seal_def aead_sound_def)
  moreover have "envelope_aad ref_id version \<noteq> envelope_aad ref_id' version'"
    using assms(3) envelope_aad_inj by blast
  ultimately show "\<exists>aad aad' m'. aad \<noteq> aad' \<and>
        aead_decrypt A (aead_key A key) nonce aad (sl_ciphertext sealed) = Some (as_bytes value) \<and>
        aead_decrypt A (aead_key A key) nonce aad' (sl_ciphertext sealed) = Some m'" by blast
qed

theorem envelope_bound_to_reference_witness:
  "open_sealed aead_plain (MasterKey [1]) (minted aead_plain [2] (MasterKey [1]) ''db'' 1
     (injection_grant_new (ApplicationId ''a'') ''production'' True) ''v'') = Some ''v''"
  by (rule conjunct1 [OF envelope_bound_to_reference [OF aead_plain_sound, where version' = 2]])
    (simp_all add: ascii_rust_str)

section \<open>The store refines a map of values\<close>

text \<open>
  The specification: a map from references to the value, its version and its scope. It knows nothing of
  keys, nonces and envelopes.
\<close>

type_synonym secret_view = "string \<rightharpoonup> (string \<times> u64 \<times> injection_grant)"

datatype secret_op =
    SoPut bytes string string injection_grant string time
  | SoRotate bytes string explicit_approval string time
  | SoRotateKey "string \<Rightarrow> bytes" master_key explicit_approval string time
  | SoReplace bytes string string injection_grant explicit_approval string time
  | SoDelete string string time

fun secret_exec :: "aead_api \<Rightarrow> secret_op \<Rightarrow> secret_store \<Rightarrow> secret_store" where
  "secret_exec A (SoPut nonce ref_id v scope actor at) s = fst (secret_put A nonce s ref_id v scope actor at)"
| "secret_exec A (SoRotate nonce ref_id approval actor at) s = fst (secret_rotate A nonce s ref_id approval actor at)"
| "secret_exec A (SoRotateKey nonces key approval actor at) s = fst (rotate_key A nonces s key approval actor at)"
| "secret_exec A (SoReplace nonce ref_id v grant approval actor at) s =
     fst (secret_replace A nonce s ref_id v grant approval actor at)"
| "secret_exec A (SoDelete ref_id actor at) s = fst (secret_delete s ref_id actor at)"

definition spec_put :: "string \<Rightarrow> string \<Rightarrow> injection_grant \<Rightarrow> secret_view \<Rightarrow> secret_view" where
  "spec_put ref_id v scope m =
     (if trim ref_id = [] then m
      else m(ref_id \<mapsto> (v, (case m ref_id of None \<Rightarrow> 1 | Some (_, n, _) \<Rightarrow> n + 1), scope)))"

definition spec_rotate :: "string \<Rightarrow> bool \<Rightarrow> secret_view \<Rightarrow> secret_view" where
  "spec_rotate ref_id approved m =
     (case m ref_id of
        Some (v, n, scope) \<Rightarrow> if ig_production scope \<and> \<not> approved then m else m(ref_id \<mapsto> (v, n + 1, scope))
      | None \<Rightarrow> m)"

definition spec_rotate_key :: "bool \<Rightarrow> secret_view \<Rightarrow> secret_view" where
  "spec_rotate_key approved m =
     (if (\<exists>r v n scope. m r = Some (v, n, scope) \<and> ig_production scope) \<and> \<not> approved then m
      else (\<lambda>r. map_option (\<lambda>(v, n, scope). (v, n + 1, scope)) (m r)))"

fun secret_spec :: "secret_op \<Rightarrow> secret_view \<Rightarrow> secret_view" where
  "secret_spec (SoPut nonce ref_id v scope actor at) m = spec_put ref_id v scope m"
| "secret_spec (SoRotate nonce ref_id approval actor at) m = spec_rotate ref_id (granted_and_named approval) m"
| "secret_spec (SoRotateKey nonces key approval actor at) m = spec_rotate_key (granted_and_named approval) m"
| "secret_spec (SoReplace nonce ref_id v grant approval actor at) m =
     (if ig_production grant \<and> \<not> granted_and_named approval \<or> m ref_id = None then m
      else spec_put ref_id v grant m)"
| "secret_spec (SoDelete ref_id actor at) m = m(ref_id := None)"

definition envelope_view :: "aead_api \<Rightarrow> master_key \<Rightarrow> sealed_secret \<Rightarrow> (string \<times> u64 \<times> injection_grant) option" where
  "envelope_view A key sealed =
     map_option (\<lambda>v. (v, sl_version sealed, sl_scope sealed)) (open_sealed A key sealed)"

definition store_view :: "aead_api \<Rightarrow> secret_store \<Rightarrow> secret_view" where
  "store_view A s ref_id = Option.bind (btm_get (ss_secrets s) ref_id) (envelope_view A (ss_master_key s))"

text \<open>Every stored envelope sits under its own reference and opens under the key of the store.\<close>

definition store_wf :: "aead_api \<Rightarrow> secret_store \<Rightarrow> bool" where
  "store_wf A s =
     (btm_inv (ss_secrets s) \<and>
      (\<forall>r sealed. btm_get (ss_secrets s) r = Some sealed \<longrightarrow>
         sl_ref_id sealed = r \<and> open_sealed A (ss_master_key s) sealed \<noteq> None))"

interpretation secrets: keyed_store "[] :: (string, sealed_secret) btree_map" btm_get btm_insert btm_values
  btm_inv sl_ref_id
  by unfold_locales

lemma store_view_get:
  assumes "store_wf A s" "btm_get (ss_secrets s) r = Some sealed"
  obtains v where "open_sealed A (ss_master_key s) sealed = Some v" "rust_str v" "sl_ref_id sealed = r"
    "store_view A s r = Some (v, sl_version sealed, sl_scope sealed)"
proof -
  obtain v where v: "open_sealed A (ss_master_key s) sealed = Some v" "sl_ref_id sealed = r"
    using assms by (auto simp: store_wf_def)
  then show thesis using that [of v] open_sealed_rust_str assms(2)
    by (simp add: store_view_def envelope_view_def)
qed

lemma store_view_None: "store_wf A s \<Longrightarrow> store_view A s r = None \<longleftrightarrow> btm_get (ss_secrets s) r = None"
  by (cases "btm_get (ss_secrets s) r") (auto simp: store_view_def envelope_view_def store_wf_def)

lemma store_view_cong [simp]: "store_view A (s\<lparr>ss_audit := l\<rparr>) = store_view A s"
  by (simp add: store_view_def fun_eq_iff)

lemma store_wf_cong [simp]: "store_wf A (s\<lparr>ss_audit := l\<rparr>) = store_wf A s"
  by (simp add: store_wf_def)

lemma store_insert:
  fixes r nonce n scope
  assumes "store_wf A s" "aead_sound A" "rust_str v"
  defines "t \<equiv> s\<lparr>ss_secrets := btm_insert r (minted A nonce (ss_master_key s) r n scope v) (ss_secrets s)\<rparr>"
  shows "store_wf A t \<and> store_view A t = (store_view A s)(r \<mapsto> (v, n, scope))"
  using assms(1) open_minted [OF assms(2,3)]
  by (auto simp: t_def store_wf_def store_view_def envelope_view_def btm_get_insert btm_inv_insert fun_eq_iff)

lemma secret_put_refines:
  assumes "store_wf A s" "aead_sound A" "rust_str v"
  shows "store_wf A (fst (secret_put A nonce s r v scope actor at)) \<and>
    store_view A (fst (secret_put A nonce s r v scope actor at)) = spec_put r v scope (store_view A s)"
proof (cases "trim r = []")
  case True
  then show ?thesis using assms(1) by (simp add: secret_put_def spec_put_def)
next
  case False
  define n where "n = (case btm_get (ss_secrets s) r of None \<Rightarrow> 1 | Some old \<Rightarrow> sl_version old + 1)"
  have "n = (case store_view A s r of None \<Rightarrow> 1 | Some (_, k, _) \<Rightarrow> k + 1)"
  proof (cases "btm_get (ss_secrets s) r")
    case None
    then show ?thesis by (simp add: n_def store_view_def)
  next
    case (Some sealed)
    then obtain w where "store_view A s r = Some (w, sl_version sealed, sl_scope sealed)"
      by (rule store_view_get [OF assms(1)])
    then show ?thesis by (simp add: n_def Some)
  qed
  then have spec: "spec_put r v scope (store_view A s) = (store_view A s)(r \<mapsto> (v, n, scope))"
    using False by (simp add: spec_put_def)
  have run: "fst (secret_put A nonce s r v scope actor at) =
      s\<lparr>ss_secrets := btm_insert r (minted A nonce (ss_master_key s) r n scope v) (ss_secrets s),
        ss_audit := ss_audit s @ [\<lparr>sa_ref_id = r, sa_action = SaStore, sa_version = n,
          sa_actor = actor, sa_at = at, sa_approved_by = None\<rparr>]\<rparr>"
    using False by (simp add: secret_put_def minted_def n_def Let_def split: prod.split)
  show ?thesis unfolding run spec using store_insert [OF assms, of r nonce n scope] by simp
qed

lemma approver_of_eq: "approver_of approval = (if granted_and_named approval then Some (ea_approver approval) else None)"
  by (simp add: approver_of_def granted_and_named_def)

lemma secret_rotate_cases:
  assumes "store_wf A s"
  shows "(\<exists>e. secret_rotate A nonce s r approval actor at = (s, Err e) \<and>
      (btm_get (ss_secrets s) r = None \<or>
       (\<exists>sealed m. btm_get (ss_secrets s) r = Some sealed \<and> ig_production (sl_scope sealed) \<and>
          \<not> granted_and_named approval \<and> e = ApprovalRequired m))) \<or>
   (\<exists>sealed v. btm_get (ss_secrets s) r = Some sealed \<and> open_sealed A (ss_master_key s) sealed = Some v \<and>
      (ig_production (sl_scope sealed) \<longrightarrow> granted_and_named approval) \<and>
      secret_rotate A nonce s r approval actor at =
        (s\<lparr>ss_secrets := btm_insert r
             (minted A nonce (ss_master_key s) r (sl_version sealed + 1) (sl_scope sealed) v) (ss_secrets s),
           ss_audit := ss_audit s @ [\<lparr>sa_ref_id = r, sa_action = SaRotate, sa_version = sl_version sealed + 1,
             sa_actor = actor, sa_at = at, sa_approved_by = approver_of approval\<rparr>]\<rparr>,
         Ok (sl_version sealed + 1)))"
proof (cases "btm_get (ss_secrets s) r")
  case None
  then show ?thesis by (simp add: secret_rotate_def)
next
  case (Some sealed)
  obtain v where v: "open_sealed A (ss_master_key s) sealed = Some v" using store_view_get [OF assms Some] .
  show ?thesis
  proof (cases "ig_production (sl_scope sealed) \<and> \<not> granted_and_named approval")
    case True
    then show ?thesis using Some by (simp add: secret_rotate_def granted_and_named_def Let_def)
  next
    case False
    then have "secret_rotate A nonce s r approval actor at =
        (s\<lparr>ss_secrets := btm_insert r
             (minted A nonce (ss_master_key s) r (sl_version sealed + 1) (sl_scope sealed) v) (ss_secrets s),
           ss_audit := ss_audit s @ [\<lparr>sa_ref_id = r, sa_action = SaRotate, sa_version = sl_version sealed + 1,
             sa_actor = actor, sa_at = at, sa_approved_by = approver_of approval\<rparr>]\<rparr>,
         Ok (sl_version sealed + 1))"
      using Some v
      by (simp add: secret_rotate_def granted_and_named_def open_envelope_def minted_def Let_def split: prod.split)
    then show ?thesis using Some v False by blast
  qed
qed

lemma secret_rotate_refines:
  assumes "store_wf A s" "aead_sound A"
  shows "store_wf A (fst (secret_rotate A nonce s r approval actor at)) \<and>
    store_view A (fst (secret_rotate A nonce s r approval actor at)) =
      spec_rotate r (granted_and_named approval) (store_view A s)"
  using secret_rotate_cases [OF assms(1), of nonce r approval actor at]
proof (elim disjE exE conjE)
  fix e assume "secret_rotate A nonce s r approval actor at = (s, Err e)" "btm_get (ss_secrets s) r = None"
  then show ?thesis using assms(1) by (simp add: spec_rotate_def store_view_def)
next
  fix e sealed m assume run: "secret_rotate A nonce s r approval actor at = (s, Err e)"
    and c: "btm_get (ss_secrets s) r = Some sealed" "ig_production (sl_scope sealed)" "\<not> granted_and_named approval"
  obtain v where "store_view A s r = Some (v, sl_version sealed, sl_scope sealed)"
    using store_view_get [OF assms(1) c(1)] .
  then show ?thesis using assms(1) run c by (simp add: spec_rotate_def)
next
  fix sealed v
  assume c: "btm_get (ss_secrets s) r = Some sealed" "open_sealed A (ss_master_key s) sealed = Some v"
    "ig_production (sl_scope sealed) \<longrightarrow> granted_and_named approval"
    and run: "secret_rotate A nonce s r approval actor at =
        (s\<lparr>ss_secrets := btm_insert r
             (minted A nonce (ss_master_key s) r (sl_version sealed + 1) (sl_scope sealed) v) (ss_secrets s),
           ss_audit := ss_audit s @ [\<lparr>sa_ref_id = r, sa_action = SaRotate, sa_version = sl_version sealed + 1,
             sa_actor = actor, sa_at = at, sa_approved_by = approver_of approval\<rparr>]\<rparr>,
         Ok (sl_version sealed + 1))"
  have "store_view A s r = Some (v, sl_version sealed, sl_scope sealed)"
    using c by (simp add: store_view_def envelope_view_def)
  moreover have "rust_str v" using c(2) by (rule open_sealed_rust_str)
  ultimately show ?thesis
    using store_insert [OF assms, of v r nonce "sl_version sealed + 1" "sl_scope sealed"] run c(3)
    by (auto simp: spec_rotate_def)
qed

subsection \<open>Key rotation\<close>

lemma open_all_Ok:
  "(\<forall>(r, sealed) \<in> set entries. open_sealed A (ss_master_key s) sealed \<noteq> None) \<Longrightarrow>
   open_all A s entries = Ok (map (\<lambda>(r, sealed). (r, sl_version sealed + 1, sl_scope sealed,
     the (open_sealed A (ss_master_key s) sealed))) entries)"
  by (induction entries) (auto simp: open_envelope_def)

lemma reseal_secrets:
  "ss_secrets (reseal A nonces key approval actor at (r, n, scope, v) s) =
     btm_insert r (minted A (nonces r) key r n scope v) (ss_secrets s)"
  "ss_master_key (reseal A nonces key approval actor at p s) = ss_master_key s"
  "ss_audit (reseal A nonces key approval actor at (r, n, scope, v) s) =
     ss_audit s @ [\<lparr>sa_ref_id = r, sa_action = SaRotate, sa_version = n,
       sa_actor = actor, sa_at = at, sa_approved_by = approver_of approval\<rparr>]"
  by (simp_all add: reseal_def minted_def Let_def split: prod.split)

lemma fold_reseal_get:
  assumes "distinct (map fst ps)"
  shows "btm_get (ss_secrets (fold (reseal A nonces key approval actor at) ps s)) r =
    (case map_of ps r of
       Some (n, scope, v) \<Rightarrow> Some (minted A (nonces r) key r n scope v)
     | None \<Rightarrow> btm_get (ss_secrets s) r)"
  using assms
proof (induction ps arbitrary: s)
  case (Cons p ps)
  obtain k n scope v where p: "p = (k, n, scope, v)" by (cases p)
  have "map_of ps k = None" using Cons.prems by (simp add: p map_of_eq_None_iff)
  then show ?case using Cons by (auto simp: p reseal_secrets btm_get_insert split: option.split)
qed simp

lemma fold_reseal_inv:
  "btm_inv (ss_secrets s) \<Longrightarrow> btm_inv (ss_secrets (fold (reseal A nonces key approval actor at) ps s))"
proof (induction ps arbitrary: s)
  case (Cons p ps)
  obtain k n scope v where "p = (k, n, scope, v)" by (cases p)
  then show ?case using Cons by (simp add: reseal_secrets btm_inv_insert)
qed simp

lemma store_entry: "store_wf A s \<Longrightarrow> (r, sealed) \<in> set (ss_secrets s) \<longleftrightarrow> btm_get (ss_secrets s) r = Some sealed"
  using btm_inv_distinct [of "ss_secrets s"] by (auto simp: store_wf_def btm_get_def)

lemma store_production_iff:
  assumes "store_wf A s"
  shows "(\<exists>r v n scope. store_view A s r = Some (v, n, scope) \<and> ig_production scope) \<longleftrightarrow>
      filter (\<lambda>p. ig_production (sl_scope (snd p))) (ss_secrets s) \<noteq> []" (is "?l \<longleftrightarrow> ?r")
proof
  assume ?l
  then obtain r v n scope where *: "store_view A s r = Some (v, n, scope)" "ig_production scope" by blast
  then obtain sealed where "btm_get (ss_secrets s) r = Some sealed" "sl_scope sealed = scope"
    by (auto simp: store_view_def envelope_view_def bind_eq_Some_conv)
  then have "(r, sealed) \<in> set (ss_secrets s)" "ig_production (sl_scope (snd (r, sealed)))"
    using * by (simp_all add: store_entry [OF assms])
  then show ?r unfolding filter_empty_conv by blast
next
  assume ?r
  then obtain r sealed where *: "(r, sealed) \<in> set (ss_secrets s)" "ig_production (sl_scope sealed)"
    by (auto simp: filter_empty_conv)
  obtain v where "store_view A s r = Some (v, sl_version sealed, sl_scope sealed)"
    using store_view_get [OF assms *(1) [unfolded store_entry [OF assms]]] .
  then show ?l using * by blast
qed

text \<open>The store after a key rotation: every envelope re-sealed under the new key, one version up.\<close>

lemma rotate_key_run:
  assumes "store_wf A s"
    and "\<not> (filter (\<lambda>p. ig_production (sl_scope (snd p))) (ss_secrets s) \<noteq> [] \<and> \<not> granted_and_named approval)"
  obtains t where "rotate_key A nonces s key approval actor at = (t, Ok (length (ss_secrets s)))"
    "ss_master_key t = key" "btm_inv (ss_secrets t)"
    "\<And>r. btm_get (ss_secrets t) r = map_option (\<lambda>sealed. minted A (nonces r) key r (sl_version sealed + 1)
        (sl_scope sealed) (the (open_sealed A (ss_master_key s) sealed))) (btm_get (ss_secrets s) r)"
proof -
  define ps where "ps = map (\<lambda>(r, sealed). (r, sl_version sealed + 1, sl_scope sealed,
      the (open_sealed A (ss_master_key s) sealed))) (ss_secrets s)"
  define t where "t = (fold (reseal A nonces key approval actor at) ps s)\<lparr>ss_master_key := key\<rparr>"
  have inv: "btm_inv (ss_secrets s)" using assms(1) by (simp add: store_wf_def)
  have "\<forall>(r, sealed) \<in> set (ss_secrets s). open_sealed A (ss_master_key s) sealed \<noteq> None"
    using assms(1) store_entry [OF assms(1)] unfolding store_wf_def by blast
  then have "open_all A s (ss_secrets s) = Ok ps" unfolding ps_def by (rule open_all_Ok)
  then have run: "rotate_key A nonces s key approval actor at = (t, Ok (length (ss_secrets s)))"
    using assms(2) by (auto simp: rotate_key_def granted_and_named_def Let_def t_def ps_def)
  have keys: "map fst ps = map fst (ss_secrets s)" by (auto simp: ps_def)
  have of: "map_of ps r = map_option (\<lambda>sealed. (sl_version sealed + 1, sl_scope sealed,
      the (open_sealed A (ss_master_key s) sealed))) (btm_get (ss_secrets s) r)" for r
    unfolding ps_def btm_get_def by (simp add: map_of_map)
  show thesis
  proof (rule that [of t])
    show "btm_get (ss_secrets t) r = map_option (\<lambda>sealed. minted A (nonces r) key r (sl_version sealed + 1)
        (sl_scope sealed) (the (open_sealed A (ss_master_key s) sealed))) (btm_get (ss_secrets s) r)" for r
      using fold_reseal_get [of ps A nonces key approval actor at s r] btm_inv_distinct [OF inv]
      by (simp add: keys of t_def split: option.split)
  qed (use run fold_reseal_inv [OF inv] in \<open>simp_all add: t_def\<close>)
qed

lemma rotate_key_refines:
  assumes "store_wf A s" "aead_sound A"
  shows "store_wf A (fst (rotate_key A nonces s key approval actor at)) \<and>
    store_view A (fst (rotate_key A nonces s key approval actor at)) =
      spec_rotate_key (granted_and_named approval) (store_view A s)"
proof (cases "filter (\<lambda>p. ig_production (sl_scope (snd p))) (ss_secrets s) \<noteq> [] \<and> \<not> granted_and_named approval")
  case True
  then have "fst (rotate_key A nonces s key approval actor at) = s"
    by (simp add: rotate_key_def granted_and_named_def Let_def)
  then show ?thesis using assms(1) True store_production_iff [OF assms(1)] by (simp add: spec_rotate_key_def)
next
  case False
  obtain t where t: "rotate_key A nonces s key approval actor at = (t, Ok (length (ss_secrets s)))"
    "ss_master_key t = key" "btm_inv (ss_secrets t)"
    "\<And>r. btm_get (ss_secrets t) r = map_option (\<lambda>sealed. minted A (nonces r) key r (sl_version sealed + 1)
        (sl_scope sealed) (the (open_sealed A (ss_master_key s) sealed))) (btm_get (ss_secrets s) r)"
    using rotate_key_run [OF assms(1) False] by blast
  have view: "store_view A t r = map_option (\<lambda>(v, n, scope). (v, n + 1, scope)) (store_view A s r) \<and>
      (\<forall>x. btm_get (ss_secrets t) r = Some x \<longrightarrow> sl_ref_id x = r \<and> open_sealed A key x \<noteq> None)" for r
  proof (cases "btm_get (ss_secrets s) r")
    case None
    then show ?thesis using t(4) [of r] by (simp add: store_view_def)
  next
    case (Some sealed)
    then obtain v where v: "open_sealed A (ss_master_key s) sealed = Some v" "rust_str v"
      by (rule store_view_get [OF assms(1)])
    then show ?thesis using t(2) t(4) [of r] Some open_minted [OF assms(2) v(2)]
      by (simp add: store_view_def envelope_view_def)
  qed
  then have "store_wf A t" using t(2,3) by (simp add: store_wf_def)
  then show ?thesis using t(1) view False store_production_iff [OF assms(1)]
    by (auto simp: spec_rotate_key_def fun_eq_iff)
qed

lemma secret_replace_run:
  "secret_replace A nonce s r v grant approval actor at =
     (if ig_production grant \<and> \<not> granted_and_named approval
      then (s, Err (ApprovalRequired (''production replacement of secret '' @ quoted r @
        '' requires explicit human approval'')))
      else if btm_get (ss_secrets s) r = None
      then (s, Err (SecretNotFound (''cannot replace unknown secret '' @ quoted r)))
      else and_then (secret_put A nonce s r v grant actor at)
        (\<lambda>s' sealed. let audit = \<lparr>sa_ref_id = r, sa_action = SaReplace, sa_version = sl_version sealed,
               sa_actor = actor, sa_at = at, sa_approved_by = approver_of approval\<rparr>
           in (s'\<lparr>ss_audit := ss_audit s' @ [audit]\<rparr>, Ok audit)))"
proof -
  have "and_then (secret_put A nonce s r v grant actor at)
        (\<lambda>s _. case store_sealed s r of
            None \<Rightarrow> (s, Panic ''just stored'')
          | Some sealed \<Rightarrow>
              (let audit = \<lparr>sa_ref_id = r, sa_action = SaReplace, sa_version = sl_version sealed,
                     sa_actor = actor, sa_at = at, sa_approved_by = approver_of approval\<rparr>
               in (s\<lparr>ss_audit := ss_audit s @ [audit]\<rparr>, Ok audit))) =
      and_then (secret_put A nonce s r v grant actor at)
        (\<lambda>s' sealed. let audit = \<lparr>sa_ref_id = r, sa_action = SaReplace, sa_version = sl_version sealed,
               sa_actor = actor, sa_at = at, sa_approved_by = approver_of approval\<rparr>
           in (s'\<lparr>ss_audit := ss_audit s' @ [audit]\<rparr>, Ok audit))"
    by (cases "trim r = []") (simp_all add: secret_put_def store_sealed_def btm_get_insert Let_def split: prod.split)
  then show ?thesis
    by (simp only: secret_replace_def store_contains_def granted_and_named_def simp_thms not_not
        Let_def [of "ea_approved approval \<and> trim (ea_approver approval) \<noteq> []"])
qed

lemma secret_replace_refines:
  assumes "store_wf A s" "aead_sound A" "rust_str v"
  shows "store_wf A (fst (secret_replace A nonce s r v grant approval actor at)) \<and>
    store_view A (fst (secret_replace A nonce s r v grant approval actor at)) =
      secret_spec (SoReplace nonce r v grant approval actor at) (store_view A s)"
proof (cases "ig_production grant \<and> \<not> granted_and_named approval \<or> btm_get (ss_secrets s) r = None")
  case True
  then have "fst (secret_replace A nonce s r v grant approval actor at) = s" by (auto simp: secret_replace_run)
  then show ?thesis using True assms(1) store_view_None [OF assms(1)] by auto
next
  case False
  obtain t res where put: "secret_put A nonce s r v grant actor at = (t, res)" by force
  have "store_wf A t \<and> store_view A t = spec_put r v grant (store_view A s)"
    using secret_put_refines [OF assms, of nonce r grant actor at] put by simp
  moreover have "secret_spec (SoReplace nonce r v grant approval actor at) (store_view A s) =
      spec_put r v grant (store_view A s)"
    using False store_view_None [OF assms(1)] by auto
  moreover have "\<exists>l. fst (secret_replace A nonce s r v grant approval actor at) = t\<lparr>ss_audit := l\<rparr>"
    using False put by (cases res) (auto simp: secret_replace_run Let_def intro: exI [of _ "ss_audit t"])
  ultimately show ?thesis by auto
qed

lemma secret_delete_refines:
  assumes "store_wf A s"
  shows "store_wf A (fst (secret_delete s r actor at)) \<and>
    store_view A (fst (secret_delete s r actor at)) = (store_view A s)(r := None)"
proof (cases "btm_get (ss_secrets s) r")
  case None
  then have "store_view A s r = None" by (simp add: store_view_def)
  then show ?thesis using assms None by (simp add: secret_delete_def fun_upd_idem)
next
  case (Some sealed)
  then show ?thesis using assms
    by (auto simp: secret_delete_def store_wf_def store_view_def btm_get_remove btm_inv_remove fun_eq_iff)
qed

text \<open>The values a history writes are texts.\<close>

fun writes_text :: "secret_op \<Rightarrow> bool" where
  "writes_text (SoPut nonce r v scope actor at) = rust_str v"
| "writes_text (SoReplace nonce r v grant approval actor at) = rust_str v"
| "writes_text _ = True"

lemma secret_exec_refines:
  assumes "store_wf A s" "aead_sound A" "writes_text op"
  shows "store_wf A (secret_exec A op s) \<and> store_view A (secret_exec A op s) = secret_spec op (store_view A s)"
proof (cases op)
  case (SoPut nonce r v scope actor at)
  then show ?thesis using secret_put_refines [OF assms(1,2)] assms(3) by simp
next
  case (SoRotate nonce r approval actor at)
  then show ?thesis using secret_rotate_refines [OF assms(1,2)] by simp
next
  case (SoRotateKey nonces key approval actor at)
  then show ?thesis using rotate_key_refines [OF assms(1,2)] by simp
next
  case (SoReplace nonce r v grant approval actor at)
  then show ?thesis using secret_replace_refines [OF assms(1,2)] assms(3) by (simp del: secret_spec.simps)
next
  case (SoDelete r actor at)
  then show ?thesis using secret_delete_refines [OF assms(1)] by simp
qed

lemma secret_run_refines:
  assumes "store_wf A s" "aead_sound A" "list_all writes_text ops"
  shows "store_wf A (fold (secret_exec A) ops s) \<and>
    store_view A (fold (secret_exec A) ops s) = fold secret_spec ops (store_view A s)"
  using assms
proof (induction ops arbitrary: s)
  case (Cons op ops)
  then show ?case using secret_exec_refines [of A s op] by simp
qed simp

lemma secret_store_new_wf: "store_wf A (secret_store_new key) \<and> store_view A (secret_store_new key) = Map.empty"
  by (simp add: secret_store_new_def store_wf_def store_view_def btm_inv_def btm_get_def fun_eq_iff)

lemma secret_inject_view:
  assumes "store_wf A s"
  shows "secret_inject A s grant r = Ok v \<longleftrightarrow>
    (\<exists>n scope. store_view A s r = Some (v, n, scope) \<and> ig_application_id scope = ig_application_id grant \<and>
       ig_environment_name scope = ig_environment_name grant)"
proof (cases "btm_get (ss_secrets s) r")
  case None
  then show ?thesis by (simp add: secret_inject_def store_view_def)
next
  case (Some sealed)
  then obtain w where "open_sealed A (ss_master_key s) sealed = Some w"
    "store_view A s r = Some (w, sl_version sealed, sl_scope sealed)" by (rule store_view_get [OF assms])
  then show ?thesis by (auto simp: secret_inject_def open_envelope_def Some)
qed

section \<open>Properties\<close>

text \<open>
  (C26) The store is a map of values. After any sequence of puts, rotations, key rotations, replacements and
  deletions, with any nonces and keys, what the store holds, as opened under its current key, is exactly
  what the specification holds: rotation and key rotation keep every value and its scope and count the version up,
  a refused operation changes nothing. And \<open>inject\<close> reveals a value exactly to a grant for the
  application and environment the value is scoped to.
\<close>

theorem secret_store_refines:
  assumes "aead_sound A" "list_all writes_text ops"
  shows "let s = fold (secret_exec A) ops (secret_store_new key); m = fold secret_spec ops Map.empty
    in store_view A s = m \<and>
       (\<forall>grant r v. secret_inject A s grant r = Ok v \<longleftrightarrow>
          (\<exists>n scope. m r = Some (v, n, scope) \<and> ig_application_id scope = ig_application_id grant \<and>
             ig_environment_name scope = ig_environment_name grant))"
  using secret_run_refines [OF _ assms, of "secret_store_new key"] secret_store_new_wf [of A key]
    secret_inject_view by (simp add: Let_def)

theorem secret_store_refines_witness:
  "let scope = injection_grant_new (ApplicationId ''a'') ''production'' True;
       ops = [SoPut [1] ''db'' ''hunter2'' scope ''ada'' 0,
              SoRotateKey (\<lambda>_. [2]) (MasterKey [9]) (approval_granted ''ops'' ''rotate'') ''ada'' 1];
       s = fold (secret_exec aead_plain) ops (secret_store_new (MasterKey [7]))
   in secret_inject aead_plain s scope ''db'' = Ok ''hunter2''"
proof -
  define scope where "scope = injection_grant_new (ApplicationId ''a'') ''production'' True"
  define ops where "ops = [SoPut [1] ''db'' ''hunter2'' scope ''ada'' 0,
    SoRotateKey (\<lambda>_. [2]) (MasterKey [9]) (approval_granted ''ops'' ''rotate'') ''ada'' 1]"
  have ok: "list_all writes_text ops" by (simp add: ops_def ascii_rust_str)
  have g: "granted_and_named (approval_granted ''ops'' ''rotate'')" "trim ''db'' \<noteq> []"
    by (simp_all add: granted_and_named_def approval_granted_def trim_def is_whitespace_def)
  have "fold secret_spec ops Map.empty ''db'' = Some (''hunter2'', 2, scope)"
    using g by (simp add: ops_def spec_put_def spec_rotate_key_def)
  then show ?thesis
    using secret_store_refines [OF aead_plain_sound ok, of "MasterKey [7]"]
    unfolding Let_def scope_def [symmetric] ops_def [symmetric] by blast
qed

text \<open>
  (C28) Rotating production secrets needs a named human. In every store its operations can produce, rotating a
  production secret, or the key while any production secret is stored, without a granted and named
  approval fails with \<open>ApprovalRequired\<close> and changes nothing; an accepted rotation of a secret appends one
  audit record that carries the new version and, for a production secret, the approver.
\<close>

theorem production_rotation_gated:
  fixes key
  assumes "aead_sound A" "list_all writes_text ops"
  defines "s \<equiv> fold (secret_exec A) ops (secret_store_new key)"
  shows "(\<forall>nonce r approval actor at sealed.
      btm_get (ss_secrets s) r = Some sealed \<longrightarrow> ig_production (sl_scope sealed) \<longrightarrow>
      \<not> granted_and_named approval \<longrightarrow>
      (\<exists>m. secret_rotate A nonce s r approval actor at = (s, Err (ApprovalRequired m))) \<and>
      (\<forall>nonces key'. \<exists>m. rotate_key A nonces s key' approval actor at = (s, Err (ApprovalRequired m)))) \<and>
    (\<forall>nonce r approval actor at s' n. secret_rotate A nonce s r approval actor at = (s', Ok n) \<longrightarrow>
      (\<exists>sealed a. btm_get (ss_secrets s) r = Some sealed \<and> ss_audit s' = ss_audit s @ [a] \<and>
         sa_ref_id a = r \<and> sa_version a = n \<and> n = sl_version sealed + 1 \<and>
         (ig_production (sl_scope sealed) \<longrightarrow> sa_approved_by a = Some (ea_approver approval))))"
proof (intro conjI allI impI)
  have wf: "store_wf A s"
    unfolding s_def using secret_run_refines [OF _ assms(1,2)] secret_store_new_wf [of A key] by blast
  fix nonce r approval actor at sealed
  assume c: "btm_get (ss_secrets s) r = Some sealed" "ig_production (sl_scope sealed)" "\<not> granted_and_named approval"
  then show "\<exists>m. secret_rotate A nonce s r approval actor at = (s, Err (ApprovalRequired m))"
    by (simp add: secret_rotate_def granted_and_named_def Let_def)
  have "(r, sealed) \<in> set (ss_secrets s)" using c(1) by (simp add: store_entry [OF wf])
  then have "filter (\<lambda>p. ig_production (sl_scope (snd p))) (ss_secrets s) \<noteq> []"
    using c(2) by (force simp: filter_empty_conv)
  then show "\<exists>m. rotate_key A nonces s key' approval actor at = (s, Err (ApprovalRequired m))" for nonces key'
    using c(3) by (simp add: rotate_key_def granted_and_named_def Let_def)
next
  have wf: "store_wf A s"
    unfolding s_def using secret_run_refines [OF _ assms(1,2)] secret_store_new_wf [of A key] by blast
  fix nonce r approval actor at s' n
  assume "secret_rotate A nonce s r approval actor at = (s', Ok n)"
  then show "\<exists>sealed a. btm_get (ss_secrets s) r = Some sealed \<and> ss_audit s' = ss_audit s @ [a] \<and>
         sa_ref_id a = r \<and> sa_version a = n \<and> n = sl_version sealed + 1 \<and>
         (ig_production (sl_scope sealed) \<longrightarrow> sa_approved_by a = Some (ea_approver approval))"
    using secret_rotate_cases [OF wf, of nonce r approval actor at] by (auto simp: approver_of_eq)
qed

definition sample_scope :: injection_grant where
  "sample_scope = injection_grant_new (ApplicationId ''a'') ''production'' True"

definition sample_put :: secret_op where
  "sample_put = SoPut [1] ''db'' ''hunter2'' sample_scope ''ada'' 0"

definition sample_store :: secret_store where
  "sample_store = fold (secret_exec aead_plain) [sample_put] (secret_store_new (MasterKey [7]))"

lemma sample_store_entry:
  "btm_get (ss_secrets sample_store) ''db'' =
     Some (minted aead_plain [1] (MasterKey [7]) ''db'' 1 sample_scope ''hunter2'')"
  by (simp add: sample_store_def sample_put_def secret_put_def secret_store_new_def minted_def btm_get_def
      trim_def is_whitespace_def Let_def split: prod.split)

lemma sample_put_text: "list_all writes_text [sample_put]"
  by (simp add: sample_put_def ascii_rust_str)

theorem production_rotation_gated_witness:
  "\<exists>m. secret_rotate aead_plain [3] sample_store ''db'' (approval_denied ''ops'' ''no'') ''ada'' 1 =
     (sample_store, Err (ApprovalRequired m))"
proof -
  have "\<not> granted_and_named (approval_denied ''ops'' ''no'')"
    by (simp add: granted_and_named_def approval_denied_def)
  moreover have "ig_production (sl_scope (minted aead_plain [1] (MasterKey [7]) ''db'' 1 sample_scope ''hunter2''))"
    by (simp add: sample_scope_def injection_grant_new_def)
  ultimately show ?thesis
    using production_rotation_gated [OF aead_plain_sound sample_put_text, of "MasterKey [7]"] sample_store_entry
    unfolding sample_store_def [symmetric] by blast
qed

text \<open>
  Replacement looks at the wrong scope. \<open>replace\<close> asks for approval when the grant the caller passes is a
  production grant, not when the stored secret is: with a grant that says non-production, any stored
  secret, production ones included, is replaced and re-scoped without approval; and \<open>put\<close> never asks at
  all.
\<close>

theorem replacement_skips_approval:
  assumes "btm_get (ss_secrets s) r = Some old" "trim r \<noteq> []" "\<not> ig_production grant"
  shows "(\<exists>s' a sealed. secret_replace A nonce s r v grant (approval_denied approver summary) actor at = (s', Ok a) \<and>
      sa_approved_by a = None \<and> store_sealed s' r = Some sealed \<and> sl_scope sealed = grant \<and>
      sl_version sealed = sl_version old + 1) \<and>
    (\<exists>s' sealed. secret_put A nonce s r v grant actor at = (s', Ok sealed) \<and>
      store_sealed s' r = Some sealed \<and> sl_scope sealed = grant)"
proof -
  let ?sealed = "minted A nonce (ss_master_key s) r (sl_version old + 1) grant v"
  have put: "\<exists>s'. secret_put A nonce s r v grant actor at = (s', Ok ?sealed) \<and> store_sealed s' r = Some ?sealed"
    using assms by (simp add: secret_put_def store_sealed_def btm_get_insert minted_def Let_def split: prod.split)
  then show ?thesis using assms(1,3)
    by (auto simp: secret_replace_run approver_of_def approval_denied_def store_sealed_def Let_def)
qed

theorem replacement_skips_approval_witness:
  "\<exists>s' a sealed. secret_replace aead_plain [4] sample_store ''db'' ''mine''
       (injection_grant_new (ApplicationId ''evil'') ''dev'' False) (approval_denied [] []) ''agent'' 1 = (s', Ok a) \<and>
     store_sealed s' ''db'' = Some sealed \<and> ig_environment_name (sl_scope sealed) = ''dev''"
proof -
  have "trim ''db'' \<noteq> []" "\<not> ig_production (injection_grant_new (ApplicationId ''evil'') ''dev'' False)"
    "ig_environment_name (injection_grant_new (ApplicationId ''evil'') ''dev'' False) = ''dev''"
    by (simp_all add: trim_def is_whitespace_def injection_grant_new_def)
  with replacement_skips_approval [OF sample_store_entry this(1,2), of aead_plain "[4]" "''mine''" "[]" "[]" "''agent''" 1]
  show ?thesis by metis
qed

lemma store_redact_clean:
  assumes "\<And>sealed v. sealed \<in> set envs \<Longrightarrow> open_sealed A key sealed = Some v \<Longrightarrow> v \<noteq> [] \<Longrightarrow> \<not> str_contains t v"
  shows "fold (redact_step A key) envs t = t"
  using assms
proof (induction envs)
  case (Cons e envs)
  have "redact_step A key e t = t"
    using Cons.prems [of e] by (auto simp: redact_step_def split: option.split)
  moreover have "fold (redact_step A key) envs t = t"
    by (rule Cons.IH) (use Cons.prems in auto)
  ultimately show ?case by simp
qed simp

text \<open>
  (C29) The persistence guard fails closed. A text the guard lets through contains no non-empty value the
  store can open; a refusal names the field and nothing else; and a text without any such value is
  returned as it is.
\<close>

theorem store_guard_fails_closed:
  "case guard_text A s field t of
     Ok out \<Rightarrow> (\<forall>sealed v. sealed \<in> set (btm_values (ss_secrets s)) \<and>
         open_sealed A (ss_master_key s) sealed = Some v \<and> v \<noteq> [] \<longrightarrow> \<not> str_contains out v) \<and>
       ((\<forall>sealed v. sealed \<in> set (btm_values (ss_secrets s)) \<and>
         open_sealed A (ss_master_key s) sealed = Some v \<and> v \<noteq> [] \<longrightarrow> \<not> str_contains t v) \<longrightarrow> out = t)
   | Err e \<Rightarrow> e = SecretLeak (''secret value rejected before persistence in field '' @ quoted field)
   | Panic m \<Rightarrow> False"
proof -
  have "t = store_redact A s t" if "\<forall>sealed v. sealed \<in> set (btm_values (ss_secrets s)) \<and>
         open_sealed A (ss_master_key s) sealed = Some v \<and> v \<noteq> [] \<longrightarrow> \<not> str_contains t v"
    using store_redact_clean [of "btm_values (ss_secrets s)" A "ss_master_key s" t] that
    by (simp add: store_redact_def)
  moreover have "leaks A (ss_master_key s) r sealed \<longleftrightarrow>
      (\<exists>v. open_sealed A (ss_master_key s) sealed = Some v \<and> v \<noteq> [] \<and> str_contains r v)" for r sealed
    by (simp add: leaks_def split: option.split)
  ultimately show ?thesis by (auto simp: guard_text_def Let_def list_ex_iff)
qed

theorem store_guard_fails_closed_witness:
  "guard_text aead_plain sample_store ''log'' ''pw hunter2'' = Ok ''pw [redacted:db]'' \<and>
   \<not> str_contains ''pw [redacted:db]'' ''hunter2''"
proof -
  let ?e = "minted aead_plain [1] (MasterKey [7]) ''db'' 1 sample_scope ''hunter2''"
  have store: "btm_values (ss_secrets sample_store) = [?e]" "ss_master_key sample_store = MasterKey [7]"
    by (simp_all add: sample_store_def sample_put_def secret_put_def secret_store_new_def minted_def
        btm_get_def btm_values_def trim_def is_whitespace_def Let_def split: prod.split)
  have op: "open_sealed aead_plain (MasterKey [7]) ?e = Some ''hunter2''"
    by (rule open_minted [OF aead_plain_sound]) (simp add: ascii_rust_str)
  have "guard_text aead_plain sample_store ''log'' ''pw hunter2'' = Ok ''pw [redacted:db]''"
    by (simp add: guard_text_def store_redact_def store redact_step_def leaks_def op str_contains_def
        str_replace_def sublist_Cons_right Let_def)
  with store_guard_fails_closed [where A = aead_plain and s = sample_store and field = "''log''" and t = "''pw hunter2''"] show ?thesis
    using op by (simp add: store)
qed

end
