(* ===== verification/Inspector.thy ===== *)
theory Inspector
  imports Runtime_Model Complex_Main "HOL-Library.Product_Lexorder"
begin

text \<open>
  Deterministic project inspection and the adoption plan: \<open>labrys-core/src/inspector.rs\<close> (its
  approvals and the change gate are in \<open>Runtime_Model\<close>).

  A snapshot is the sorted map from path to content; each detection stage is a function on the
  profile builder, and \<open>inspect\<close> composes them in the order of the code. A plugin is a name
  and a function from the snapshot to its findings. A confidence is an \<open>f32\<close> with its exact
  rational value, the infinities and NaN, because a plugin can report any of them.
\<close>

section \<open>Single precision confidences\<close>

datatype f32 = F32NaN | F32NegInf | F32Fin rat | F32PosInf

fun f32_less :: "f32 \<Rightarrow> f32 \<Rightarrow> bool" where
  "f32_less (F32Fin a) (F32Fin b) = (a < b)"
| "f32_less F32NegInf (F32Fin b) = True"
| "f32_less F32NegInf F32PosInf = True"
| "f32_less (F32Fin a) F32PosInf = True"
| "f32_less _ _ = False"

fun f32_ge :: "f32 \<Rightarrow> f32 \<Rightarrow> bool" where
  "f32_ge F32NaN _ = False"
| "f32_ge _ F32NaN = False"
| "f32_ge a b = (\<not> f32_less a b)"

text \<open>A literal between a quarter and one, by its significand over \<open>2^25\<close>.\<close>

definition f32_lit :: "nat \<Rightarrow> f32" where
  "f32_lit n = F32Fin (of_nat n / 33554432)"

definition f32_zero :: f32 where
  "f32_zero = F32Fin 0"

abbreviation f32_1_0 :: f32 where "f32_1_0 \<equiv> f32_lit 33554432"
abbreviation f32_0_95 :: f32 where "f32_0_95 \<equiv> f32_lit 31876710"
abbreviation f32_0_9 :: f32 where "f32_0_9 \<equiv> f32_lit 30198988"
abbreviation f32_0_85 :: f32 where "f32_0_85 \<equiv> f32_lit 28521268"
abbreviation f32_0_8 :: f32 where "f32_0_8 \<equiv> f32_lit 26843546"
abbreviation f32_0_7 :: f32 where "f32_0_7 \<equiv> f32_lit 23488102"
abbreviation f32_0_6 :: f32 where "f32_0_6 \<equiv> f32_lit 20132660"
abbreviation f32_0_5 :: f32 where "f32_0_5 \<equiv> f32_lit 16777216"
abbreviation f32_0_3 :: f32 where "f32_0_3 \<equiv> f32_lit 10066330"

text \<open>\<open>clamp(0.0, 1.0)\<close>, which keeps NaN.\<close>

definition f32_clamp :: "f32 \<Rightarrow> f32" where
  "f32_clamp x = (if f32_less x f32_zero then f32_zero else if f32_less f32_1_0 x then f32_1_0 else x)"

section \<open>Stages and snapshots\<close>

definition inspection_order :: "string list" where
  "inspection_order = [''dockerfile'', ''compose'', ''manifest'', ''framework_convention'', ''configuration'',
     ''ci'', ''source'']"

fun position :: "('a \<Rightarrow> bool) \<Rightarrow> 'a list \<Rightarrow> nat option" where
  "position P [] = None"
| "position P (x # xs) = (if P x then Some 0 else map_option Suc (position P xs))"

definition stage_order :: "string \<Rightarrow> nat" where
  "stage_order stage = (case position (\<lambda>s. s = stage) inspection_order of
     Some i \<Rightarrow> i | None \<Rightarrow> length inspection_order)"

type_synonym project_snapshot = "(string, string) btree_map"

definition normalize_path :: "string \<Rightarrow> string" where
  "normalize_path path =
     (let p = str_replace [CHR 0x5C] ''/'' path
      in case strip_prefix p ''./'' of Some q \<Rightarrow> q | None \<Rightarrow> p)"

definition file_name :: "string \<Rightarrow> string" where
  "file_name path = last (split_at_char (CHR ''/'') path)"

definition snapshot_new :: "(string \<times> string) list \<Rightarrow> project_snapshot" where
  "snapshot_new files = fold (\<lambda>(p, c). btm_insert (normalize_path p) c) files []"

definition snapshot_get :: "project_snapshot \<Rightarrow> string \<Rightarrow> string option" where
  "snapshot_get s path = btm_get s (normalize_path path)"

definition has_file :: "project_snapshot \<Rightarrow> string \<Rightarrow> bool" where
  "has_file s path = (btm_get s (normalize_path path) \<noteq> None)"

definition files_with_name :: "project_snapshot \<Rightarrow> string \<Rightarrow> (string \<times> string) list" where
  "files_with_name s name = filter (\<lambda>(p, _). file_name p = name) s"

definition files_with_extension :: "project_snapshot \<Rightarrow> string \<Rightarrow> (string \<times> string) list" where
  "files_with_extension s extension = filter (\<lambda>(p, _). ends_with p extension) s"

definition files_named_anywhere :: "project_snapshot \<Rightarrow> string list \<Rightarrow> (string \<times> string) list" where
  "files_named_anywhere s names = filter (\<lambda>(p, _). file_name p \<in> set names) s"

definition has_dir :: "project_snapshot \<Rightarrow> string \<Rightarrow> bool" where
  "has_dir s pre = list_ex (\<lambda>(p, _). p = pre \<or> starts_with p (pre @ ''/'')) s"

definition has_dir_anywhere :: "project_snapshot \<Rightarrow> string \<Rightarrow> bool" where
  "has_dir_anywhere s name =
     list_ex (\<lambda>(p, _). p = name \<or> starts_with p (name @ ''/'') \<or> str_contains p (''/'' @ name @ ''/'')) s"

definition any_content_contains :: "project_snapshot \<Rightarrow> string \<Rightarrow> (string \<times> string) option" where
  "any_content_contains s needle = find (\<lambda>(_, c). str_contains c needle) s"

definition any_content_contains_insensitive :: "project_snapshot \<Rightarrow> string \<Rightarrow> (string \<times> string) option" where
  "any_content_contains_insensitive s needle =
     find (\<lambda>(_, c). str_contains (to_ascii_lowercase c) (to_ascii_lowercase needle)) s"

text \<open>\<open>sort_by(|a, b| a.0.cmp(b.0))\<close> followed by \<open>first\<close>.\<close>

definition first_by_path :: "(string \<times> string) list \<Rightarrow> (string \<times> string) option" where
  "first_by_path found = (case sort_key fst found of [] \<Rightarrow> None | x # _ \<Rightarrow> Some x)"

section \<open>Evidence, profiles and plugins\<close>

record evidence =
  evi_source :: string
  evi_stage :: string
  evi_detail :: string
  evi_confidence :: f32

definition inspection_evidence :: "string \<Rightarrow> string \<Rightarrow> string \<Rightarrow> f32 \<Rightarrow> evidence" where
  "inspection_evidence src stage detail confidence =
     \<lparr>evi_source = src, evi_stage = stage, evi_detail = detail, evi_confidence = f32_clamp confidence\<rparr>"

record unknown =
  un_field :: string
  un_reason :: string
  un_considered :: "string list"

record fact =
  fa_name :: string
  fa_value :: string
  fa_evidence :: evidence

record application_profile =
  ap_container_compatible :: bool
  ap_language :: "string option"
  ap_framework :: "string option"
  ap_facts :: "fact list"
  ap_unknowns :: "unknown list"
  ap_evidence :: "evidence list"

definition profile_fact :: "application_profile \<Rightarrow> string \<Rightarrow> fact option" where
  "profile_fact p name = find (\<lambda>f. fa_name f = name) (ap_facts p)"

definition is_unknown :: "application_profile \<Rightarrow> string \<Rightarrow> bool" where
  "is_unknown p field = list_ex (\<lambda>u. un_field u = field) (ap_unknowns p)"

record plugin_finding =
  pf_field :: string
  pf_value :: string
  pf_evidence :: evidence
  pf_confidence :: f32

definition plugin_finding_new :: "string \<Rightarrow> string \<Rightarrow> evidence \<Rightarrow> f32 \<Rightarrow> plugin_finding" where
  "plugin_finding_new field v ev confidence =
     \<lparr>pf_field = field, pf_value = v, pf_evidence = ev, pf_confidence = f32_clamp confidence\<rparr>"

record inspector_plugin =
  ip_name :: string
  ip_detect :: "project_snapshot \<Rightarrow> plugin_finding list"

record field_state =
  fs_value :: "string option"
  fs_confidence :: f32
  fs_evidence :: "evidence option"
  fs_candidates :: "(string \<times> evidence \<times> f32) list"

record profile_builder =
  pb_container_compatible :: bool
  pb_language :: field_state
  pb_framework :: field_state
  pb_facts :: "fact list"
  pb_unknowns :: "unknown list"
  pb_evidence :: "evidence list"

definition field_state_default :: field_state where
  "field_state_default = \<lparr>fs_value = None, fs_confidence = f32_zero, fs_evidence = None, fs_candidates = []\<rparr>"

definition profile_builder_default :: profile_builder where
  "profile_builder_default =
     \<lparr>pb_container_compatible = False, pb_language = field_state_default, pb_framework = field_state_default,
      pb_facts = [], pb_unknowns = [], pb_evidence = []\<rparr>"

definition push_evidence :: "evidence \<Rightarrow> profile_builder \<Rightarrow> profile_builder" where
  "push_evidence ev b = b\<lparr>pb_evidence := pb_evidence b @ [ev]\<rparr>"

definition push_fact :: "string \<Rightarrow> string \<Rightarrow> evidence \<Rightarrow> profile_builder \<Rightarrow> profile_builder" where
  "push_fact name v ev b =
     (let b = push_evidence ev b
      in b\<lparr>pb_facts := pb_facts b @ [\<lparr>fa_name = name, fa_value = v, fa_evidence = ev\<rparr>]\<rparr>)"

text \<open>The field \<open>language\<close>, and the framework for every other name.\<close>

definition field_of :: "string \<Rightarrow> profile_builder \<Rightarrow> field_state" where
  "field_of field b = (if field = ''language'' then pb_language b else pb_framework b)"

definition put_field :: "string \<Rightarrow> field_state \<Rightarrow> profile_builder \<Rightarrow> profile_builder" where
  "put_field field fs b =
     (if field = ''language'' then b\<lparr>pb_language := fs\<rparr> else b\<lparr>pb_framework := fs\<rparr>)"

definition set_field :: "string \<Rightarrow> string \<Rightarrow> evidence \<Rightarrow> f32 \<Rightarrow> profile_builder \<Rightarrow> profile_builder" where
  "set_field field v ev confidence b =
     (let fs = field_of field b;
          fs' = (if fs_value fs = None
                 then fs\<lparr>fs_value := Some v, fs_confidence := confidence, fs_evidence := Some ev\<rparr>
                 else fs\<lparr>fs_candidates := fs_candidates fs @ [(v, ev, confidence)]\<rparr>)
      in push_evidence ev (put_field field fs' b))"

definition push_unknown :: "unknown \<Rightarrow> profile_builder \<Rightarrow> profile_builder" where
  "push_unknown u b = b\<lparr>pb_unknowns := pb_unknowns b @ [u]\<rparr>"

definition candidate_sources :: "field_state \<Rightarrow> string list" where
  "candidate_sources fs = map (\<lambda>(_, e, _). evi_source e) (fs_candidates fs)"

text \<open>The first candidate that contradicts the value of a field with at least its confidence.\<close>

definition rival :: "field_state \<Rightarrow> string \<Rightarrow> string option" where
  "rival fs current =
     map_option fst (find (\<lambda>(v, _, c). \<not> eq_ignore_ascii_case v current \<and> f32_ge c (fs_confidence fs))
       (fs_candidates fs))"

definition resolve_field :: "string \<Rightarrow> profile_builder \<Rightarrow> profile_builder" where
  "resolve_field name b =
     (let fs = field_of name b in
      case fs_value fs of
        None \<Rightarrow> b
      | Some current \<Rightarrow>
          (case rival fs current of
             None \<Rightarrow> b
           | Some other \<Rightarrow>
               put_field name (fs\<lparr>fs_value := None\<rparr>)
                 (push_unknown \<lparr>un_field = name,
                    un_reason = ''conflicting evidence: '' @ quoted current @ '' vs '' @ quoted other @
                      ''; recorded as unknown rather than inventing a value'',
                    un_considered = (case fs_evidence fs of Some e \<Rightarrow> evi_source e | None \<Rightarrow> []) #
                      candidate_sources fs\<rparr> b)))"

definition finish_deterministic :: "profile_builder \<Rightarrow> profile_builder" where
  "finish_deterministic b = resolve_field ''framework'' (resolve_field ''language'' b)"

definition report_missing :: "string \<Rightarrow> profile_builder \<Rightarrow> profile_builder" where
  "report_missing name b =
     (let fs = field_of name b in
      if fs_value fs = None \<and> \<not> list_ex (\<lambda>u. un_field u = name) (pb_unknowns b)
      then push_unknown \<lparr>un_field = name,
             un_reason = ''no recognized evidence; recorded as unknown rather than inventing a value'',
             un_considered = candidate_sources fs\<rparr> b
      else b)"

definition profile_build :: "profile_builder \<Rightarrow> application_profile" where
  "profile_build b =
     (let b = report_missing ''framework'' (report_missing ''language'' b)
      in \<lparr>ap_container_compatible = pb_container_compatible b, ap_language = fs_value (pb_language b),
          ap_framework = fs_value (pb_framework b), ap_facts = pb_facts b, ap_unknowns = pb_unknowns b,
          ap_evidence = pb_evidence b\<rparr>)"

section \<open>Detection stages\<close>

definition from_images :: "string \<Rightarrow> string list" where
  "from_images content =
     List.map_filter (\<lambda>line.
       let t = trim line in
       if starts_with (to_ascii_uppercase t) ''FROM ''
       then (case split_whitespace t of _ # img # _ \<Rightarrow> Some img | _ \<Rightarrow> None)
       else None) (str_lines content)"

definition docker_language :: "string \<Rightarrow> (string \<times> string) option" where
  "docker_language lower =
     (if str_contains lower ''node:'' \<or> lower = ''node'' \<or> starts_with lower ''node-'' \<or> str_contains lower ''/node''
      then Some (''node'', ''Node'')
      else if str_contains lower ''dotnet'' \<or> str_contains lower ''mcr.microsoft.com'' then Some (''dotnet'', ''.NET'')
      else if str_contains lower ''python'' then Some (''python'', ''Python'')
      else if str_contains lower ''rust'' then Some (''rust'', ''Rust'')
      else None)"

definition detect_docker :: "project_snapshot \<Rightarrow> profile_builder \<Rightarrow> profile_builder" where
  "detect_docker s b =
     (case first_by_path (files_with_name s ''Dockerfile'') of
        None \<Rightarrow> b
      | Some (path, content) \<Rightarrow>
          (let first_image = (case from_images content of [] \<Rightarrow> [] | i # _ \<Rightarrow> i);
               b = push_evidence (inspection_evidence path ''dockerfile''
                     (''Dockerfile present (base: '' @ first_image @ '')'') f32_1_0)
                     (b\<lparr>pb_container_compatible := True\<rparr>)
           in case docker_language (to_ascii_lowercase first_image) of
                Some (language, label) \<Rightarrow>
                  set_field ''language'' language (inspection_evidence path ''dockerfile''
                    (''base image suggests '' @ label @ '' ('' @ first_image @ '')'') f32_0_9) f32_0_9 b
              | None \<Rightarrow>
                  push_unknown \<lparr>un_field = ''docker_base_language'',
                    un_reason = ''unrecognized base image '' @ quoted first_image @
                      ''; language stays to later stages'',
                    un_considered = [path]\<rparr> b))"

definition detect_compose :: "project_snapshot \<Rightarrow> profile_builder \<Rightarrow> profile_builder" where
  "detect_compose s b =
     (case first_by_path (files_named_anywhere s
        [''docker-compose.yml'', ''docker-compose.yaml'', ''compose.yml'', ''compose.yaml'']) of
        Some (path, _) \<Rightarrow>
          push_fact ''compose'' ''present'' (inspection_evidence path ''compose'' ''compose file present'' f32_1_0) b
      | None \<Rightarrow> b)"

record manifest_hit =
  mh_language :: string
  mh_confidence :: f32
  mh_detail :: string
  mh_source :: string
  mh_framework :: "(string \<times> f32 \<times> string) option"

definition apply_manifest_hit :: "manifest_hit \<Rightarrow> string \<Rightarrow> profile_builder \<Rightarrow> profile_builder" where
  "apply_manifest_hit hit stage b =
     (let b = set_field ''language'' (mh_language hit)
                (inspection_evidence (mh_source hit) stage (mh_detail hit) (mh_confidence hit)) (mh_confidence hit) b
      in case mh_framework hit of
           Some (framework, confidence, detail) \<Rightarrow>
             set_field ''framework'' framework (inspection_evidence (mh_source hit) stage detail confidence) confidence b
         | None \<Rightarrow> b)"

definition double_quoted :: "string \<Rightarrow> string" where
  "double_quoted s = CHR 0x22 # s @ [CHR 0x22]"

definition detect_node_framework :: "string \<Rightarrow> (string \<times> f32 \<times> string) option" where
  "detect_node_framework content =
     (if str_contains content (double_quoted ''next'') \<or> str_contains content (quoted ''next'')
      then Some (''next.js'', f32_0_9, ''next dependency in package.json'')
      else if str_contains content ''@nestjs/core''
      then Some (''nestjs'', f32_0_9, ''nestjs dependency in package.json'')
      else if str_contains content (double_quoted ''expo'')
      then Some (''expo'', f32_0_9, ''expo dependency in package.json'')
      else if str_contains content (double_quoted ''express'')
      then Some (''express'', f32_0_9, ''express dependency in package.json'')
      else if str_contains content (double_quoted ''react'')
      then Some (''react'', f32_0_7, ''react dependency in package.json'')
      else None)"

definition detect_node_manifest :: "project_snapshot \<Rightarrow> profile_builder \<Rightarrow> profile_builder" where
  "detect_node_manifest s b =
     (case first_by_path (files_with_name s ''package.json'') of
        Some (path, content) \<Rightarrow>
          apply_manifest_hit \<lparr>mh_language = ''node'', mh_confidence = f32_1_0,
            mh_detail = ''package.json manifest present'', mh_source = path,
            mh_framework = detect_node_framework content\<rparr> ''manifest'' b
      | None \<Rightarrow> b)"

definition first_of :: "'a list \<Rightarrow> 'a option" where
  "first_of xs = (case xs of [] \<Rightarrow> None | x # _ \<Rightarrow> Some x)"

definition or_else :: "'a option \<Rightarrow> 'a option \<Rightarrow> 'a option" where
  "or_else a b = (case a of Some x \<Rightarrow> Some x | None \<Rightarrow> b)"

definition detect_dotnet_manifest :: "project_snapshot \<Rightarrow> profile_builder \<Rightarrow> profile_builder" where
  "detect_dotnet_manifest s b =
     (let sln = files_with_extension s ''.sln'' in
      case or_else (or_else (first_by_path (files_with_extension s ''.csproj'')) (first_of sln))
             (first_of (files_with_name s ''global.json'')) of
        Some (path, content) \<Rightarrow>
          apply_manifest_hit \<lparr>mh_language = ''dotnet'', mh_confidence = f32_1_0,
            mh_detail = file_name path @ '' manifest present'', mh_source = path,
            mh_framework =
              (if str_contains content ''Microsoft.NET.Sdk.Web''
               then Some (''aspnetcore'', f32_0_9, ''Web SDK in project file'')
               else if str_contains content ''Microsoft.NET.Sdk'' \<or> sln \<noteq> []
               then Some (''dotnet-sdk'', f32_0_7, ''.NET SDK project layout'')
               else None)\<rparr> ''manifest'' b
      | None \<Rightarrow> b)"

definition detect_python_manifest :: "project_snapshot \<Rightarrow> profile_builder \<Rightarrow> profile_builder" where
  "detect_python_manifest s b =
     (case first_by_path (concat (map (files_with_name s)
        [''requirements.txt'', ''pyproject.toml'', ''setup.py'', ''setup.cfg'', ''Pipfile'', ''poetry.lock''])) of
        Some (path, content) \<Rightarrow>
          (let lower = to_ascii_lowercase content in
           apply_manifest_hit \<lparr>mh_language = ''python'', mh_confidence = f32_1_0,
             mh_detail = file_name path @ '' manifest present'', mh_source = path,
             mh_framework =
               (if str_contains lower ''django'' then Some (''django'', f32_0_9, ''django dependency declared'')
                else if str_contains lower ''fastapi''
                then Some (''fastapi'', f32_0_9, ''fastapi dependency declared'')
                else if str_contains lower ''flask'' then Some (''flask'', f32_0_9, ''flask dependency declared'')
                else None)\<rparr> ''manifest'' b)
      | None \<Rightarrow> b)"

definition detect_rust_manifest :: "project_snapshot \<Rightarrow> profile_builder \<Rightarrow> profile_builder" where
  "detect_rust_manifest s b =
     (case first_by_path (files_with_name s ''Cargo.toml'') of
        Some (path, content) \<Rightarrow>
          (let lower = to_ascii_lowercase content in
           apply_manifest_hit \<lparr>mh_language = ''rust'', mh_confidence = f32_1_0,
             mh_detail = ''Cargo.toml manifest present'', mh_source = path,
             mh_framework =
               (if str_contains lower ''axum'' then Some (''axum'', f32_0_9, ''axum dependency declared'')
                else if str_contains lower ''actix-web''
                then Some (''actix-web'', f32_0_9, ''actix-web dependency declared'')
                else if str_contains lower ''rocket''
                then Some (''rocket'', f32_0_9, ''rocket dependency declared'')
                else None)\<rparr> ''manifest'' b)
      | None \<Rightarrow> b)"

definition detect_git :: "project_snapshot \<Rightarrow> profile_builder \<Rightarrow> profile_builder" where
  "detect_git s b =
     (if has_dir s ''.git'' \<or> has_file s ''.git/config'' \<or> has_file s ''.git/HEAD''
      then push_fact ''git'' ''present'' (inspection_evidence ''.git'' ''manifest'' ''git metadata present'' f32_1_0) b
      else b)"

definition detect_manifests :: "project_snapshot \<Rightarrow> profile_builder \<Rightarrow> profile_builder" where
  "detect_manifests s b =
     detect_git s (detect_rust_manifest s (detect_python_manifest s (detect_dotnet_manifest s
       (detect_node_manifest s b))))"

definition framework_conventions_table :: "(string list \<times> string \<times> string \<times> f32 \<times> string) list" where
  "framework_conventions_table =
     [([''next.config.js'', ''next.config.mjs'', ''next.config.ts''], ''framework'', ''next.js'', f32_0_8,
        ''Next.js config convention''),
      ([''manage.py''], ''framework'', ''django'', f32_0_8, ''Django manage.py convention''),
      ([''Program.cs'', ''Startup.cs''], ''framework'', ''aspnetcore'', f32_0_6,
        ''ASP.NET Core entrypoint convention''),
      ([''main.py'', ''app.py''], ''framework'', ''fastapi'', f32_0_5, ''Python app entrypoint convention''),
      ([''src/main.rs''], ''language'', ''rust'', f32_0_6, ''Rust binary entrypoint convention'')]"

definition apply_convention ::
  "project_snapshot \<Rightarrow> string list \<times> string \<times> string \<times> f32 \<times> string \<Rightarrow> profile_builder \<Rightarrow> profile_builder" where
  "apply_convention s convention b =
     (case convention of (names, field, v, confidence, detail) \<Rightarrow>
        (case first_by_path (files_named_anywhere s names) of
           None \<Rightarrow> b
         | Some (path, _) \<Rightarrow>
             (let ev = inspection_evidence path ''framework_convention'' detail confidence in
              if f32_less (fs_confidence (field_of field b)) confidence
              then set_field field v ev confidence b
              else push_evidence ev b)))"

definition detect_framework_conventions :: "project_snapshot \<Rightarrow> profile_builder \<Rightarrow> profile_builder" where
  "detect_framework_conventions s b = fold (apply_convention s) framework_conventions_table b"

definition convention :: "string \<Rightarrow> string \<Rightarrow> f32 \<Rightarrow> evidence" where
  "convention src detail confidence = inspection_evidence src ''framework_convention'' detail confidence"

definition deep_django :: "project_snapshot \<Rightarrow> profile_builder \<Rightarrow> profile_builder" where
  "deep_django s b =
     (let settings = files_named_anywhere s [''settings.py''];
          b = (case first_by_path settings of
                 Some (path, _) \<Rightarrow> set_field ''framework'' ''django''
                   (convention path ''Django settings module discovered'' f32_0_85) f32_0_85 b
               | None \<Rightarrow> b)
      in if has_file s ''manage.py''
         then (let b = (if settings \<noteq> [] \<and> has_dir_anywhere s ''migrations''
                        then set_field ''framework'' ''django''
                          (convention ''manage.py'' ''Django layout fully resolved (manage.py, settings, migrations)''
                            f32_0_95) f32_0_95 b
                        else b);
                   b = push_fact ''migration_runner'' ''manage.py migrate''
                         (convention ''manage.py'' ''Django migration runner convention'' f32_0_9) b
               in push_fact ''test_runner'' ''manage.py test''
                    (convention ''manage.py'' ''Django test runner convention'' f32_0_8) b)
         else b)"

definition deep_fastapi :: "project_snapshot \<Rightarrow> profile_builder \<Rightarrow> profile_builder" where
  "deep_fastapi s b =
     (let entries = sort_key fst (files_named_anywhere s [''main.py'', ''app.py'']);
          b = (case find (\<lambda>(_, content). str_contains content ''FastAPI'') entries of
                 Some (path, _) \<Rightarrow> set_field ''framework'' ''fastapi''
                   (convention path ''FastAPI application entry discovered'' f32_0_85) f32_0_85 b
               | None \<Rightarrow> b);
          b = (if has_file s ''alembic.ini'' \<or> has_dir_anywhere s ''alembic''
               then push_fact ''migration_runner'' ''alembic upgrade head''
                 (convention ''alembic.ini'' ''Alembic migration runner convention'' f32_0_9) b
               else b)
      in if has_file s ''pytest.ini'' \<or> has_dir_anywhere s ''tests'' \<or>
            any_content_contains_insensitive s ''pytest'' \<noteq> None
         then push_fact ''test_runner'' ''pytest'' (convention ''pytest'' ''pytest test runner convention'' f32_0_8) b
         else b)"

definition deep_rust :: "project_snapshot \<Rightarrow> profile_builder \<Rightarrow> profile_builder" where
  "deep_rust s b =
     (let mains = sort_key fst (files_with_name s ''main.rs'');
          b = (case find (\<lambda>(_, c). str_contains c ''axum'') mains of
                 Some (path, _) \<Rightarrow> set_field ''framework'' ''axum''
                   (convention path ''Axum application entry discovered'' f32_0_85) f32_0_85 b
               | None \<Rightarrow> b);
          cargo = (case snapshot_get s ''Cargo.toml'' of Some c \<Rightarrow> c | None \<Rightarrow> []);
          b = (if str_contains cargo ''sqlx''
               then push_fact ''migration_runner'' ''sqlx migrate run''
                 (convention ''Cargo.toml'' ''sqlx migration runner convention'' f32_0_9) b
               else if str_contains cargo ''diesel'' \<or> has_file s ''diesel.toml''
               then push_fact ''migration_runner'' ''diesel migration run''
                 (convention ''Cargo.toml'' ''diesel migration runner convention'' f32_0_9) b
               else if has_dir_anywhere s ''migrations'' \<and> has_file s ''Cargo.toml''
               then push_fact ''migration_runner'' ''cargo migration runner (unresolved tool)''
                 (convention ''migrations/'' ''migrations layout without a resolved tool'' f32_0_6) b
               else b)
      in if has_file s ''Cargo.toml'' \<and> str_contains cargo ''[workspace]''
         then push_fact ''workspace'' ''cargo workspace'' (convention ''Cargo.toml'' ''Cargo workspace layout'' f32_0_9) b
         else b)"

definition deep_expo :: "project_snapshot \<Rightarrow> profile_builder \<Rightarrow> profile_builder" where
  "deep_expo s b =
     (let b = (if has_file s ''eas.json''
               then push_fact ''build_profile'' ''eas''
                 (convention ''eas.json'' ''Expo Application Services build profiles'' f32_0_9) b
               else b)
      in if has_dir_anywhere s ''app'' \<and> has_file s ''app.json''
         then set_field ''framework'' ''expo''
           (convention ''app/'' ''Expo file-based routing discovered'' f32_0_85) f32_0_85 b
         else b)"

definition detect_deep_framework_conventions :: "project_snapshot \<Rightarrow> profile_builder \<Rightarrow> profile_builder" where
  "detect_deep_framework_conventions s b = deep_expo s (deep_rust s (deep_fastapi s (deep_django s b)))"

definition detect_auth :: "project_snapshot \<Rightarrow> profile_builder \<Rightarrow> profile_builder" where
  "detect_auth s b =
     (let b = (case any_content_contains s ''GOOGLE_CLIENT_ID'' of
                 Some (path, _) \<Rightarrow> push_fact ''auth_provider'' ''google-oauth''
                   (inspection_evidence path ''configuration'' ''Google OAuth client reference configured'' f32_0_9) b
               | None \<Rightarrow>
                   (case any_content_contains_insensitive s ''accounts.google.com'' of
                      Some (path, _) \<Rightarrow>
                        if any_content_contains_insensitive s ''oauth'' \<noteq> None
                        then push_fact ''auth_provider'' ''google-oauth''
                          (inspection_evidence path ''configuration'' ''Google OAuth endpoint configured'' f32_0_8) b
                        else b
                    | None \<Rightarrow> b))
      in case any_content_contains s ''GITHUB_CLIENT_ID'' of
           Some (path, _) \<Rightarrow> push_fact ''auth_provider'' ''github-oauth''
             (inspection_evidence path ''configuration'' ''GitHub OAuth client reference configured'' f32_0_9) b
         | None \<Rightarrow> b)"

text \<open>\<open>dedup_by\<close> on the path: of neighbours with one path the first stays.\<close>

fun dedup_by_path :: "(string \<times> string) list \<Rightarrow> (string \<times> string) list" where
  "dedup_by_path [] = []"
| "dedup_by_path [x] = [x]"
| "dedup_by_path (x # y # xs) =
     (if fst y = fst x then dedup_by_path (x # xs) else x # dedup_by_path (y # xs))"

definition configuration_files :: "project_snapshot \<Rightarrow> string \<Rightarrow> (string \<times> string) list" where
  "configuration_files s name =
     dedup_by_path (sort_key fst (files_with_name s name @
       (if name = ''.env''
        then files_with_extension s ''.env'' @
          filter (\<lambda>(p, _). starts_with (file_name p) ''.env.'') (files_named_anywhere s [])
        else [])))"

definition detect_configuration_file :: "project_snapshot \<Rightarrow> string \<Rightarrow> profile_builder \<Rightarrow> profile_builder" where
  "detect_configuration_file s name b =
     (case configuration_files s name of
        [] \<Rightarrow> b
      | (path, _) # _ \<Rightarrow>
          push_fact ''configuration'' (file_name path)
            (inspection_evidence path ''configuration'' (file_name path @ '' configuration present'') f32_0_8) b)"

definition detect_configuration :: "project_snapshot \<Rightarrow> profile_builder \<Rightarrow> profile_builder" where
  "detect_configuration s b =
     fold (detect_configuration_file s)
       [''.env'', ''appsettings.json'', ''application.yml'', ''application.yaml'', ''config.yaml'']
       (detect_auth s b)"

definition ci_findings :: "project_snapshot \<Rightarrow> (string \<times> string \<times> string) list" where
  "ci_findings s =
     (if has_dir s ''.github/workflows''
      then (case min_by_key fst (filter (\<lambda>(p, _). starts_with p ''.github/workflows/'') s) of
              Some (path, _) \<Rightarrow> [(path, ''github-actions'', ''GitHub Actions workflow present'')]
            | None \<Rightarrow> [])
      else []) @
     filter (\<lambda>(name, _, _). has_file s name)
       [(''.gitlab-ci.yml'', ''gitlab-ci'', ''GitLab CI configuration present''),
        (''azure-pipelines.yml'', ''azure-pipelines'', ''Azure Pipelines configuration present''),
        (''Jenkinsfile'', ''jenkins'', ''Jenkinsfile present''),
        (''.circleci/config.yml'', ''circleci'', ''CircleCI configuration present'')]"

definition detect_ci :: "project_snapshot \<Rightarrow> profile_builder \<Rightarrow> profile_builder" where
  "detect_ci s b =
     fold (\<lambda>(path, v, detail). push_fact ''ci'' v (inspection_evidence path ''ci'' detail f32_0_9)) (ci_findings s) b"

definition source_hints :: "(string \<times> string) list" where
  "source_hints = [(''.ts'', ''node''), (''.tsx'', ''node''), (''.js'', ''node''), (''.jsx'', ''node''),
     (''.cs'', ''dotnet''), (''.py'', ''python''), (''.rs'', ''rust'')]"

definition push_candidate :: "string \<Rightarrow> string \<times> evidence \<times> f32 \<Rightarrow> profile_builder \<Rightarrow> profile_builder" where
  "push_candidate field c b =
     (let fs = field_of field b in put_field field (fs\<lparr>fs_candidates := fs_candidates fs @ [c]\<rparr>) b)"

definition apply_hint :: "project_snapshot \<Rightarrow> string \<times> string \<Rightarrow> profile_builder \<Rightarrow> profile_builder" where
  "apply_hint s hint b =
     (case hint of (extension, language) \<Rightarrow>
        (case first_by_path (files_with_extension s extension) of
           Some (path, _) \<Rightarrow>
             (let ev = inspection_evidence path ''source''
                    (extension @ '' source file without a recognized manifest'') f32_0_3
              in push_evidence ev (push_candidate ''language'' (language, ev, f32_0_3) b))
         | None \<Rightarrow> b))"

definition detect_source_fallback :: "project_snapshot \<Rightarrow> profile_builder \<Rightarrow> profile_builder" where
  "detect_source_fallback s b =
     (if fs_value (pb_language b) \<noteq> None then b else fold (apply_hint s) source_hints b)"

section \<open>Plugins and the inspector\<close>

definition apply_field_finding :: "string \<Rightarrow> plugin_finding \<Rightarrow> evidence \<Rightarrow> profile_builder \<Rightarrow> profile_builder" where
  "apply_field_finding plugin f ev b =
     (let fs = field_of (pf_field f) b; confidence = f32_clamp (pf_confidence f) in
      case fs_value fs of
        None \<Rightarrow> push_evidence ev (push_candidate (pf_field f) (pf_value f, ev, confidence) b)
      | Some current \<Rightarrow>
          if eq_ignore_ascii_case current (pf_value f) then push_evidence ev b
          else if f32_ge confidence (fs_confidence fs)
          then push_evidence (inspection_evidence (''plugin:'' @ plugin) ''plugin''
                 (''conflicting hypothesis '' @ quoted (pf_value f) @ '' recorded'') confidence)
               (put_field (pf_field f) (fs\<lparr>fs_value := None\<rparr>)
                 (push_unknown \<lparr>un_field = pf_field f,
                    un_reason = ''conflicting evidence: '' @ quoted current @ '' vs plugin '' @ quoted plugin @
                      '' hypothesis '' @ quoted (pf_value f) @ ''; recorded as unknown'',
                    un_considered = [evi_source ev]\<rparr> b))
          else push_fact (''candidate_'' @ pf_field f) (pf_value f) ev b)"

definition apply_finding :: "string \<Rightarrow> plugin_finding \<Rightarrow> profile_builder \<Rightarrow> profile_builder" where
  "apply_finding plugin f b =
     (let ev = (pf_evidence f)\<lparr>evi_stage := ''plugin'',
            evi_source := ''plugin:'' @ plugin @ '':'' @ evi_source (pf_evidence f)\<rparr>
      in if pf_field f \<in> {''language'', ''framework''} then apply_field_finding plugin f ev b
         else push_fact (case strip_prefix (pf_field f) ''fact:'' of Some n \<Rightarrow> n | None \<Rightarrow> pf_field f)
                (pf_value f) ev b)"

definition apply_plugin :: "project_snapshot \<Rightarrow> inspector_plugin \<Rightarrow> profile_builder \<Rightarrow> profile_builder" where
  "apply_plugin s plugin b = fold (apply_finding (ip_name plugin)) (ip_detect plugin s) b"

definition inspect_deterministic :: "project_snapshot \<Rightarrow> profile_builder" where
  "inspect_deterministic s =
     finish_deterministic (detect_source_fallback s (detect_ci s (detect_configuration s
       (detect_deep_framework_conventions s (detect_framework_conventions s (detect_manifests s
         (detect_compose s (detect_docker s profile_builder_default))))))))"

definition inspect :: "inspector_plugin list \<Rightarrow> project_snapshot \<Rightarrow> application_profile" where
  "inspect plugins s = profile_build (fold (apply_plugin s) plugins (inspect_deterministic s))"

section \<open>Adoption plans\<close>

datatype adoption_item_kind = Keep | Adopt | OptionalMigration

record adoption_item =
  ai_kind :: adoption_item_kind
  ai_subject :: string
  ai_rationale :: string
  ai_evidence :: "evidence list"

record adoption_plan =
  pn_items :: "adoption_item list"
  pn_profile_digest :: string
  pn_applied :: bool

definition adoption_item_of :: "adoption_item_kind \<Rightarrow> string \<Rightarrow> string \<Rightarrow> evidence list \<Rightarrow> adoption_item" where
  "adoption_item_of kind subject rationale evs =
     \<lparr>ai_kind = kind, ai_subject = subject, ai_rationale = rationale, ai_evidence = evs\<rparr>"

definition keep_item :: "fact \<Rightarrow> adoption_item option" where
  "keep_item f =
     (if fa_name f = ''auth_provider''
      then Some (adoption_item_of Keep (''auth integration ('' @ fa_value f @ '')'')
             ''Existing auth is preserved; the platform must not rewrite it.'' [fa_evidence f])
      else if fa_name f = ''ci''
      then Some (adoption_item_of Keep (''CI configuration ('' @ fa_value f @ '')'')
             ''Existing CI keeps running; adoption must not replace it silently.'' [fa_evidence f])
      else if fa_name f = ''compose''
      then Some (adoption_item_of Keep ''compose definition''
             ''Existing compose topology is preserved as declared infrastructure.'' [fa_evidence f])
      else if fa_name f = ''git''
      then Some (adoption_item_of Keep ''git history and remotes''
             ''Version history stays authoritative in the source repository.'' [fa_evidence f])
      else None)"

definition runner_item :: "fact \<Rightarrow> adoption_item option" where
  "runner_item f =
     (if fa_name f = ''migration_runner''
      then Some (adoption_item_of Adopt (''database migrations via '' @ fa_value f)
             (''Proposed migration command from detected framework layout; '' @
              ''requires review and never runs automatically.'') [fa_evidence f])
      else if fa_name f = ''test_runner''
      then Some (adoption_item_of Adopt (''test suite via '' @ fa_value f)
             (''Proposed test command from detected framework layout; '' @
              ''requires review and never runs automatically.'') [fa_evidence f])
      else None)"

definition container_items :: "application_profile \<Rightarrow> adoption_item list" where
  "container_items p =
     (if ap_container_compatible p
      then [adoption_item_of Keep ''Dockerfile / container definition''
              ''Existing container definition is preserved as the runtime contract.''
              (case find (\<lambda>e. evi_stage e = ''dockerfile'') (ap_evidence p) of Some e \<Rightarrow> [e] | None \<Rightarrow> [])]
      else [])"

definition capability_items :: "adoption_item list" where
  "capability_items =
     map (\<lambda>subject. adoption_item_of Adopt subject
            ''Proposed platform capability; requires review and never applies automatically.'' [])
       [''secrets management'', ''preview environments'', ''deployment pipeline'', ''log aggregation'']"

definition profile_digest :: "application_profile \<Rightarrow> string" where
  "profile_digest p =
     (let facts = sort (map (\<lambda>f. (fa_name f, fa_value f)) (ap_facts p));
          text = show_bool (ap_container_compatible p) @
            (case ap_language p of Some l \<Rightarrow> l | None \<Rightarrow> ''?'') @
            (case ap_framework p of Some l \<Rightarrow> l | None \<Rightarrow> ''?'') @
            concat (map (\<lambda>(n, v). n @ v) facts)
      in hex16 (fold fnv_step text 0xcbf29ce484222325))"

definition plan_generate :: "application_profile \<Rightarrow> adoption_plan" where
  "plan_generate p =
     \<lparr>pn_items = List.map_filter keep_item (ap_facts p) @ container_items p @ capability_items @
        List.map_filter runner_item (ap_facts p) @
        [adoption_item_of OptionalMigration ''storage replacement / framework migration''
           ''Presented with affected evidence; never applied without explicit approval.'' (ap_evidence p)],
      pn_profile_digest = profile_digest p, pn_applied = False\<rparr>"

definition plan_apply :: "adoption_plan \<Rightarrow> explicit_approval \<Rightarrow> adoption_plan \<times> unit outcome" where
  "plan_apply plan approval =
     (if \<not> ea_approved approval
      then (plan, Err (ApprovalRequired ''adoption plan requires explicit approval before apply''))
      else if trim (ea_approver approval) = []
      then (plan, Err (ApprovalRequired ''adoption plan approval must name an approver''))
      else (plan\<lparr>pn_applied := True\<rparr>, Ok ()))"

definition items_of_kind :: "adoption_plan \<Rightarrow> adoption_item_kind \<Rightarrow> adoption_item list" where
  "items_of_kind plan kind = filter (\<lambda>i. ai_kind i = kind) (pn_items plan)"

section \<open>What a stage may do\<close>

text \<open>
  A detection stage only appends: evidence of its own stage, facts whose evidence it appended, and
  unknowns about other fields than the language and the framework.
\<close>

definition grew :: "string \<Rightarrow> profile_builder \<Rightarrow> profile_builder \<Rightarrow> bool" where
  "grew stage b b' =
     (\<exists>es fs us. pb_evidence b' = pb_evidence b @ es \<and> pb_facts b' = pb_facts b @ fs \<and>
        pb_unknowns b' = pb_unknowns b @ us \<and> (\<forall>e \<in> set es. evi_stage e = stage) \<and>
        (\<forall>f \<in> set fs. fa_evidence f \<in> set es) \<and> (\<forall>u \<in> set us. un_field u \<notin> {''language'', ''framework''}))"

named_theorems grows \<open>operations on the builder that only append\<close>

lemma grewI:
  assumes "pb_evidence b' = pb_evidence b @ es" "pb_facts b' = pb_facts b @ fs" "pb_unknowns b' = pb_unknowns b @ us"
    and "\<forall>e \<in> set es. evi_stage e = stage" "\<forall>f \<in> set fs. fa_evidence f \<in> set es"
    and "\<forall>u \<in> set us. un_field u \<notin> {''language'', ''framework''}"
  shows "grew stage b b'"
  using assms unfolding grew_def by blast

lemma grew_refl [grows]: "grew stage b b"
  by (rule grewI [of _ _ "[]" "[]" "[]"]) simp_all

lemma grew_trans [trans]: "grew stage a b \<Longrightarrow> grew stage b c \<Longrightarrow> grew stage a c"
proof -
  assume "grew stage a b" "grew stage b c"
  then obtain es fs us es' fs' us' where
    "pb_evidence b = pb_evidence a @ es" "pb_facts b = pb_facts a @ fs" "pb_unknowns b = pb_unknowns a @ us"
    "\<forall>e \<in> set es. evi_stage e = stage" "\<forall>f \<in> set fs. fa_evidence f \<in> set es"
    "\<forall>u \<in> set us. un_field u \<notin> {''language'', ''framework''}"
    "pb_evidence c = pb_evidence b @ es'" "pb_facts c = pb_facts b @ fs'" "pb_unknowns c = pb_unknowns b @ us'"
    "\<forall>e \<in> set es'. evi_stage e = stage" "\<forall>f \<in> set fs'. fa_evidence f \<in> set es'"
    "\<forall>u \<in> set us'. un_field u \<notin> {''language'', ''framework''}"
    unfolding grew_def by blast
  then show ?thesis by (intro grewI [of c a "es @ es'" "fs @ fs'" "us @ us'"]) auto
qed

lemma put_field_frame [simp]:
  "pb_evidence (put_field field fs b) = pb_evidence b" "pb_facts (put_field field fs b) = pb_facts b"
  "pb_unknowns (put_field field fs b) = pb_unknowns b"
  "pb_container_compatible (put_field field fs b) = pb_container_compatible b"
  by (simp_all add: put_field_def)

lemma evidence_new_stage [simp]: "evi_stage (inspection_evidence src stage detail c) = stage"
  by (simp add: inspection_evidence_def)

lemma convention_evi_stage [simp]: "evi_stage (convention src detail c) = ''framework_convention''"
  by (simp add: convention_def)

lemma grew_push_evidence [grows]: "grew stage a b \<Longrightarrow> evi_stage ev = stage \<Longrightarrow> grew stage a (push_evidence ev b)"
  by (erule grew_trans, rule grewI [of _ _ "[ev]" "[]" "[]"]) (simp_all add: push_evidence_def)

lemma grew_put_field [grows]: "grew stage a b \<Longrightarrow> grew stage a (put_field field fs b)"
  by (erule grew_trans, rule grewI [of _ _ "[]" "[]" "[]"]) simp_all

lemma grew_push_fact [grows]: "grew stage a b \<Longrightarrow> evi_stage ev = stage \<Longrightarrow> grew stage a (push_fact name v ev b)"
  by (erule grew_trans, rule grewI [of _ _ "[ev]" "[\<lparr>fa_name = name, fa_value = v, fa_evidence = ev\<rparr>]" "[]"])
    (simp_all add: push_fact_def push_evidence_def)

lemma grew_set_field [grows]: "grew stage a b \<Longrightarrow> evi_stage ev = stage \<Longrightarrow> grew stage a (set_field field v ev c b)"
  by (simp add: set_field_def Let_def grew_push_evidence grew_put_field)

lemma grew_push_candidate [grows]: "grew stage a b \<Longrightarrow> grew stage a (push_candidate field c b)"
  by (simp add: push_candidate_def Let_def grew_put_field)

lemma grew_push_unknown [grows]:
  "grew stage a b \<Longrightarrow> un_field u \<notin> {''language'', ''framework''} \<Longrightarrow> grew stage a (push_unknown u b)"
  by (erule grew_trans, rule grewI [of _ _ "[]" "[]" "[u]"]) (simp_all add: push_unknown_def)

lemma grew_container [grows]: "grew stage a b \<Longrightarrow> grew stage a (b\<lparr>pb_container_compatible := c\<rparr>)"
  by (erule grew_trans, rule grewI [of _ _ "[]" "[]" "[]"]) simp_all

lemma grew_fold: "(\<And>x c. x \<in> set xs \<Longrightarrow> grew stage c (f x c)) \<Longrightarrow> grew stage b (fold f xs b)"
proof (induction xs arbitrary: b)
  case Nil
  then show ?case by (simp add: grew_refl)
next
  case (Cons x xs)
  have "grew stage b (f x b)" by (rule Cons.prems) simp
  also have "grew stage (f x b) (fold f xs (f x b))" by (rule Cons.IH) (rule Cons.prems, simp)
  finally show ?case by simp
qed

lemma apply_manifest_hit_grows: "grew stage a b \<Longrightarrow> grew stage a (apply_manifest_hit hit stage b)"
  by (auto simp: apply_manifest_hit_def Let_def intro!: grows split: option.split prod.split)

text \<open>The contract of a detection stage, and what it gives for the order of the evidence.\<close>

definition evidence_ordered :: "nat \<Rightarrow> profile_builder \<Rightarrow> bool" where
  "evidence_ordered n b =
     (sorted (map (\<lambda>e. stage_order (evi_stage e)) (pb_evidence b)) \<and>
      (\<forall>e \<in> set (pb_evidence b). stage_order (evi_stage e) \<le> n \<and> evi_stage e \<in> set (inspection_order @ [''plugin''])) \<and>
      (\<forall>f \<in> set (pb_facts b). fa_evidence f \<in> set (pb_evidence b)))"

definition fields_unreported :: "profile_builder \<Rightarrow> bool" where
  "fields_unreported b = (\<forall>u \<in> set (pb_unknowns b). un_field u \<notin> {''language'', ''framework''})"

lemma grew_ordered:
  assumes "grew stage b b'" "evidence_ordered n b" "n \<le> stage_order stage"
    and "stage \<in> set (inspection_order @ [''plugin''])"
  shows "evidence_ordered (stage_order stage) b'"
proof -
  from assms(1) obtain es fs where
    e: "pb_evidence b' = pb_evidence b @ es" "pb_facts b' = pb_facts b @ fs"
      "\<forall>e \<in> set es. evi_stage e = stage" "\<forall>f \<in> set fs. fa_evidence f \<in> set es"
    unfolding grew_def by blast
  have "map (\<lambda>e. stage_order (evi_stage e)) es = replicate (length es) (stage_order stage)"
    using e(3) by (induction es) simp_all
  then have "sorted (map (\<lambda>e. stage_order (evi_stage e)) (pb_evidence b'))"
    using assms(2,3) e(1) by (auto simp: evidence_ordered_def sorted_append)
  moreover have "stage_order (evi_stage e) \<le> stage_order stage \<and> evi_stage e \<in> set (inspection_order @ [''plugin''])"
    if "e \<in> set (pb_evidence b')" for e
    using that assms(2,3,4) e(1,3) unfolding evidence_ordered_def by (metis Un_iff le_trans order_refl set_append)
  moreover have "fa_evidence f \<in> set (pb_evidence b')" if "f \<in> set (pb_facts b')" for f
    using that assms(2) e unfolding evidence_ordered_def by auto
  ultimately show ?thesis unfolding evidence_ordered_def by blast
qed

lemma grew_unreported: "grew stage b b' \<Longrightarrow> fields_unreported b \<Longrightarrow> fields_unreported b'"
  by (auto simp: grew_def fields_unreported_def)

locale evidence_stage =
  fixes stage :: string
    and detect :: "project_snapshot \<Rightarrow> profile_builder \<Rightarrow> profile_builder"
  assumes detect_grows: "grew stage b (detect s b)"
    and stage_known: "stage \<in> set inspection_order"
begin

lemma detect_ordered:
  "evidence_ordered n b \<Longrightarrow> n \<le> stage_order stage \<Longrightarrow> evidence_ordered (stage_order stage) (detect s b)"
  using grew_ordered [OF detect_grows] stage_known by simp

lemma detect_unreported: "fields_unreported b \<Longrightarrow> fields_unreported (detect s b)"
  by (rule grew_unreported [OF detect_grows])

end

section \<open>The stages keep the contract\<close>

lemma detect_docker_grows: "grew ''dockerfile'' b (detect_docker s b)"
  by (auto simp: detect_docker_def Let_def intro!: grows split: option.split)

lemma detect_compose_grows: "grew ''compose'' b (detect_compose s b)"
  by (auto simp: detect_compose_def intro!: grows split: option.split)

lemma detect_manifests_grows: "grew ''manifest'' b (detect_manifests s b)"
proof -
  have "grew ''manifest'' b (detect_node_manifest s b)"
    by (auto simp: detect_node_manifest_def intro!: apply_manifest_hit_grows grew_refl split: option.split)
  also have "grew ''manifest'' \<dots> (detect_dotnet_manifest s \<dots>)"
    by (auto simp: detect_dotnet_manifest_def Let_def intro!: apply_manifest_hit_grows grew_refl split: option.split)
  also have "grew ''manifest'' \<dots> (detect_python_manifest s \<dots>)"
    by (auto simp: detect_python_manifest_def Let_def intro!: apply_manifest_hit_grows grew_refl split: option.split)
  also have "grew ''manifest'' \<dots> (detect_rust_manifest s \<dots>)"
    by (auto simp: detect_rust_manifest_def Let_def intro!: apply_manifest_hit_grows grew_refl split: option.split)
  also have "grew ''manifest'' \<dots> (detect_git s \<dots>)"
    by (auto simp: detect_git_def intro!: grows)
  finally show ?thesis by (simp add: detect_manifests_def)
qed

lemma detect_framework_conventions_grows:
  "grew ''framework_convention'' b (detect_framework_conventions s b)"
  unfolding detect_framework_conventions_def
  by (rule grew_fold) (auto simp: apply_convention_def Let_def intro!: grows split: option.split prod.split)

lemma detect_deep_grows: "grew ''framework_convention'' b (detect_deep_framework_conventions s b)"
proof -
  have "grew ''framework_convention'' b (deep_django s b)"
    by (auto simp: deep_django_def Let_def intro!: grows split: option.split)
  also have "grew ''framework_convention'' \<dots> (deep_fastapi s \<dots>)"
    by (auto simp: deep_fastapi_def Let_def intro!: grows split: option.split)
  also have "grew ''framework_convention'' \<dots> (deep_rust s \<dots>)"
    by (auto simp: deep_rust_def Let_def intro!: grows split: option.split)
  also have "grew ''framework_convention'' \<dots> (deep_expo s \<dots>)"
    by (auto simp: deep_expo_def Let_def intro!: grows)
  finally show ?thesis by (simp add: detect_deep_framework_conventions_def)
qed

lemma detect_configuration_grows: "grew ''configuration'' b (detect_configuration s b)"
proof -
  have "grew ''configuration'' b (detect_auth s b)"
    by (auto simp: detect_auth_def Let_def intro!: grows split: option.split)
  also have "grew ''configuration'' \<dots> (detect_configuration s b)"
    unfolding detect_configuration_def
    by (rule grew_fold) (auto simp: detect_configuration_file_def intro!: grows split: list.split)
  finally show ?thesis .
qed

lemma detect_ci_grows: "grew ''ci'' b (detect_ci s b)"
  unfolding detect_ci_def by (rule grew_fold) (auto intro!: grows)

lemma detect_source_grows: "grew ''source'' b (detect_source_fallback s b)"
  unfolding detect_source_fallback_def
  by (auto simp: apply_hint_def Let_def intro!: grew_fold grows split: option.split prod.split)

lemmas stage_simps = inspection_order_def stage_order_def

interpretation docker_stage: evidence_stage "''dockerfile''" detect_docker
  by unfold_locales (simp_all add: detect_docker_grows inspection_order_def)

interpretation compose_stage: evidence_stage "''compose''" detect_compose
  by unfold_locales (simp_all add: detect_compose_grows inspection_order_def)

interpretation manifest_stage: evidence_stage "''manifest''" detect_manifests
  by unfold_locales (simp_all add: detect_manifests_grows inspection_order_def)

interpretation convention_stage: evidence_stage "''framework_convention''" detect_framework_conventions
  by unfold_locales (simp_all add: detect_framework_conventions_grows inspection_order_def)

interpretation deep_stage: evidence_stage "''framework_convention''" detect_deep_framework_conventions
  by unfold_locales (simp_all add: detect_deep_grows inspection_order_def)

interpretation configuration_stage: evidence_stage "''configuration''" detect_configuration
  by unfold_locales (simp_all add: detect_configuration_grows inspection_order_def)

interpretation ci_stage: evidence_stage "''ci''" detect_ci
  by unfold_locales (simp_all add: detect_ci_grows inspection_order_def)

interpretation source_stage: evidence_stage "''source''" detect_source_fallback
  by unfold_locales (simp_all add: detect_source_grows inspection_order_def)

section \<open>Fields\<close>

lemma field_of_put_field:
  "field_of f (put_field g fs b) = (if (f = ''language'') = (g = ''language'') then fs else field_of f b)"
  by (simp add: field_of_def put_field_def)

lemma field_of_push [simp]:
  "field_of f (push_evidence ev b) = field_of f b" "field_of f (push_fact n v ev b) = field_of f b"
  "field_of f (push_unknown u b) = field_of f b"
  by (simp_all add: field_of_def push_evidence_def push_fact_def push_unknown_def Let_def)

text \<open>
  A reported field has no value: the invariant from the end of the deterministic stages on. Plugins
  change the builder only by \<open>plugin_effect\<close>: they append, and a field keeps its value, or loses it and is
  reported.
\<close>

definition reported :: "profile_builder \<Rightarrow> string \<Rightarrow> bool" where
  "reported b field = (\<exists>u \<in> set (pb_unknowns b). un_field u = field)"

definition reports_lost :: "profile_builder \<Rightarrow> bool" where
  "reports_lost b = (\<forall>field \<in> {''language'', ''framework''}. reported b field \<longrightarrow> fs_value (field_of field b) = None)"

lemma resolve_field_frame:
  "pb_evidence (resolve_field name b) = pb_evidence b" "pb_facts (resolve_field name b) = pb_facts b"
  by (simp_all add: resolve_field_def push_unknown_def Let_def split: option.split)

lemma resolve_field_value:
  "fs_value (field_of name (resolve_field name b)) =
     (case fs_value (field_of name b) of
        Some v \<Rightarrow> (if rival (field_of name b) v = None then Some v else None)
      | None \<Rightarrow> None)"
  by (simp add: resolve_field_def Let_def field_of_put_field split: option.split)

lemma resolve_field_other:
  "(f = ''language'') \<noteq> (name = ''language'') \<Longrightarrow> field_of f (resolve_field name b) = field_of f b"
  by (simp add: resolve_field_def Let_def field_of_put_field split: option.split)

lemma resolve_field_confidence: "fs_confidence (field_of f (resolve_field name b)) = fs_confidence (field_of f b)"
  by (auto simp: resolve_field_def Let_def field_of_put_field split: option.split) (auto simp: field_of_def)

lemma resolve_field_reported:
  "reported (resolve_field name b) f \<longleftrightarrow>
     reported b f \<or> (f = name \<and> (\<exists>v. fs_value (field_of name b) = Some v \<and> rival (field_of name b) v \<noteq> None))"
  by (auto simp: resolve_field_def Let_def reported_def push_unknown_def split: option.split)

lemma finish_reports_lost: "fields_unreported b \<Longrightarrow> reports_lost (finish_deterministic b)"
proof -
  assume "fields_unreported b"
  then have none: "\<not> reported b ''language''" "\<not> reported b ''framework''"
    by (auto simp: fields_unreported_def reported_def)
  let ?l = "resolve_field ''language'' b"
  have "fs_value (field_of ''language'' (resolve_field ''framework'' ?l)) = None"
    if "reported (resolve_field ''framework'' ?l) ''language''"
    using that none resolve_field_other [of "''language''" "''framework''" ?l]
    by (auto simp: resolve_field_reported resolve_field_value)
  moreover have "fs_value (field_of ''framework'' (resolve_field ''framework'' ?l)) = None"
    if "reported (resolve_field ''framework'' ?l) ''framework''"
    using that none by (auto simp: resolve_field_reported resolve_field_value)
  ultimately show ?thesis by (simp add: reports_lost_def finish_deterministic_def)
qed

lemma finish_ordered: "evidence_ordered n (finish_deterministic b) \<longleftrightarrow> evidence_ordered n b"
  by (simp add: evidence_ordered_def finish_deterministic_def resolve_field_frame)

definition observations :: "project_snapshot \<Rightarrow> profile_builder" where
  "observations s =
     detect_source_fallback s (detect_ci s (detect_configuration s
       (detect_deep_framework_conventions s (detect_framework_conventions s (detect_manifests s
         (detect_compose s (detect_docker s profile_builder_default)))))))"

lemma inspect_deterministic_observations: "inspect_deterministic s = finish_deterministic (observations s)"
  by (simp add: inspect_deterministic_def observations_def)

lemma stage_orders:
  "stage_order ''dockerfile'' = 0" "stage_order ''compose'' = 1" "stage_order ''manifest'' = 2"
  "stage_order ''framework_convention'' = 3" "stage_order ''configuration'' = 4" "stage_order ''ci'' = 5"
  "stage_order ''source'' = 6" "stage_order ''plugin'' = 7"
  by (simp_all add: stage_order_def inspection_order_def)

lemma observations_ordered: "evidence_ordered 6 (observations s)"
proof -
  have "evidence_ordered 0 profile_builder_default"
    by (simp add: evidence_ordered_def profile_builder_default_def)
  then have "evidence_ordered 0 (detect_docker s profile_builder_default)"
    using docker_stage.detect_ordered by (simp add: stage_orders)
  then have "evidence_ordered 1 (detect_compose s (detect_docker s profile_builder_default))"
    using compose_stage.detect_ordered by (simp add: stage_orders)
  then have "evidence_ordered 2 (detect_manifests s (detect_compose s (detect_docker s profile_builder_default)))"
    using manifest_stage.detect_ordered by (simp add: stage_orders)
  from configuration_stage.detect_ordered [OF deep_stage.detect_ordered [OF convention_stage.detect_ordered [OF this]]]
  have "evidence_ordered 4 (detect_configuration s (detect_deep_framework_conventions s
     (detect_framework_conventions s (detect_manifests s (detect_compose s (detect_docker s profile_builder_default))))))"
    by (simp add: stage_orders)
  from source_stage.detect_ordered [OF ci_stage.detect_ordered [OF this]]
  show ?thesis by (simp add: stage_orders observations_def)
qed

lemma observations_unreported: "fields_unreported (observations s)"
proof -
  have "fields_unreported profile_builder_default" by (simp add: fields_unreported_def profile_builder_default_def)
  then show ?thesis
    unfolding observations_def
    by (intro docker_stage.detect_unreported compose_stage.detect_unreported manifest_stage.detect_unreported
        convention_stage.detect_unreported deep_stage.detect_unreported configuration_stage.detect_unreported
        ci_stage.detect_unreported source_stage.detect_unreported)
qed

section \<open>Plugins\<close>

text \<open>Whether a finding takes the value of a field away, by the value and confidence before all plugins.\<close>

definition contradicts :: "field_state \<Rightarrow> string \<Rightarrow> plugin_finding \<Rightarrow> bool" where
  "contradicts fs field f =
     (pf_field f = field \<and> (\<exists>v. fs_value fs = Some v \<and> \<not> eq_ignore_ascii_case v (pf_value f)) \<and>
      f32_ge (f32_clamp (pf_confidence f)) (fs_confidence fs))"

definition contradicted :: "field_state \<Rightarrow> string \<Rightarrow> plugin_finding list \<Rightarrow> bool" where
  "contradicted fs field findings = list_ex (contradicts fs field) findings"

definition plugin_effect :: "profile_builder \<Rightarrow> plugin_finding list \<Rightarrow> profile_builder \<Rightarrow> bool" where
  "plugin_effect b findings b' =
     (pb_container_compatible b' = pb_container_compatible b \<and>
      (\<exists>es fs. pb_evidence b' = pb_evidence b @ es \<and> pb_facts b' = pb_facts b @ fs \<and>
         (\<forall>e \<in> set es. evi_stage e = ''plugin'') \<and> (\<forall>x \<in> set fs. fa_evidence x \<in> set es)) \<and>
      (\<forall>field \<in> {''language'', ''framework''}.
         fs_confidence (field_of field b') = fs_confidence (field_of field b) \<and>
         fs_value (field_of field b') =
           (if contradicted (field_of field b) field findings then None else fs_value (field_of field b)) \<and>
         (reported b' field \<longleftrightarrow> reported b field \<or> contradicted (field_of field b) field findings)))"

lemma plugin_effectI:
  assumes "pb_container_compatible b' = pb_container_compatible b"
    and "pb_evidence b' = pb_evidence b @ es" "pb_facts b' = pb_facts b @ fs"
    and "\<forall>e \<in> set es. evi_stage e = ''plugin''" "\<forall>x \<in> set fs. fa_evidence x \<in> set es"
    and "\<And>field. field \<in> {''language'', ''framework''} \<Longrightarrow>
         fs_confidence (field_of field b') = fs_confidence (field_of field b) \<and>
         fs_value (field_of field b') =
           (if contradicted (field_of field b) field findings then None else fs_value (field_of field b)) \<and>
         (reported b' field \<longleftrightarrow> reported b field \<or> contradicted (field_of field b) field findings)"
  shows "plugin_effect b findings b'"
  using assms unfolding plugin_effect_def by blast

lemma reported_push [simp]:
  "reported (push_evidence ev b) f = reported b f" "reported (push_fact n v ev b) f = reported b f"
  "reported (put_field g fs b) f = reported b f" "reported (push_candidate g c b) f = reported b f"
  "reported (push_unknown u b) f \<longleftrightarrow> reported b f \<or> un_field u = f"
  by (auto simp: reported_def push_evidence_def push_fact_def push_unknown_def push_candidate_def Let_def)

lemma push_frame:
  "pb_container_compatible (push_evidence ev b) = pb_container_compatible b"
  "pb_container_compatible (push_fact n v ev b) = pb_container_compatible b"
  "pb_container_compatible (push_unknown u b) = pb_container_compatible b"
  "pb_container_compatible (push_candidate g c b) = pb_container_compatible b"
  "pb_evidence (push_evidence ev b) = pb_evidence b @ [ev]" "pb_facts (push_evidence ev b) = pb_facts b"
  "pb_evidence (push_fact n v ev b) = pb_evidence b @ [ev]"
  "pb_facts (push_fact n v ev b) = pb_facts b @ [\<lparr>fa_name = n, fa_value = v, fa_evidence = ev\<rparr>]"
  "pb_evidence (push_unknown u b) = pb_evidence b" "pb_facts (push_unknown u b) = pb_facts b"
  "pb_evidence (push_candidate g c b) = pb_evidence b" "pb_facts (push_candidate g c b) = pb_facts b"
  by (simp_all add: push_evidence_def push_fact_def push_unknown_def push_candidate_def Let_def)

lemma push_candidate_field:
  "fs_value (field_of f (push_candidate g c b)) = fs_value (field_of f b)"
  "fs_confidence (field_of f (push_candidate g c b)) = fs_confidence (field_of f b)"
  by (auto simp: push_candidate_def Let_def field_of_put_field) (auto simp: field_of_def)

lemma apply_field_finding_step:
  assumes "pf_field f \<in> {''language'', ''framework''}" "evi_stage ev = ''plugin''"
  shows "plugin_effect b [f] (apply_field_finding plugin f ev b)"
proof (cases "fs_value (field_of (pf_field f) b)")
  case None
  then show ?thesis
    using assms unfolding apply_field_finding_def Let_def
    by (intro plugin_effectI [where es = "[ev]" and fs = "[]"])
      (auto simp: push_frame push_candidate_field contradicted_def contradicts_def)
next
  case (Some current)
  consider "eq_ignore_ascii_case current (pf_value f)"
    | "\<not> eq_ignore_ascii_case current (pf_value f)"
      "f32_ge (f32_clamp (pf_confidence f)) (fs_confidence (field_of (pf_field f) b))"
    | "\<not> eq_ignore_ascii_case current (pf_value f)"
      "\<not> f32_ge (f32_clamp (pf_confidence f)) (fs_confidence (field_of (pf_field f) b))"
    by blast
  then show ?thesis
  proof cases
    case 1
    then show ?thesis using assms Some unfolding apply_field_finding_def Let_def
      by (intro plugin_effectI [where es = "[ev]" and fs = "[]"]) (auto simp: push_frame contradicted_def contradicts_def)
  next
    case 2
    then show ?thesis using assms Some unfolding apply_field_finding_def Let_def
      by (intro plugin_effectI [where es = "[inspection_evidence (''plugin:'' @ plugin) ''plugin''
           (''conflicting hypothesis '' @ quoted (pf_value f) @ '' recorded'') (f32_clamp (pf_confidence f))]" and fs = "[]"])
        (auto simp: push_frame contradicted_def contradicts_def field_of_put_field)
  next
    case 3
    then show ?thesis using assms Some unfolding apply_field_finding_def Let_def
      by (intro plugin_effectI [where es = "[ev]" and
           fs = "[\<lparr>fa_name = ''candidate_'' @ pf_field f, fa_value = pf_value f, fa_evidence = ev\<rparr>]"])
        (auto simp: push_frame contradicted_def contradicts_def)
  qed
qed

lemma apply_finding_step: "plugin_effect b [f] (apply_finding plugin f b)"
proof -
  define ev where "ev = (pf_evidence f)\<lparr>evi_stage := ''plugin'',
    evi_source := ''plugin:'' @ plugin @ '':'' @ evi_source (pf_evidence f)\<rparr>"
  have stage: "evi_stage ev = ''plugin''" by (simp add: ev_def)
  show ?thesis
  proof (cases "pf_field f \<in> {''language'', ''framework''}")
    case True
    then show ?thesis
      using apply_field_finding_step [OF True stage] by (simp only: apply_finding_def Let_def ev_def if_True)
  next
    case False
    define n where "n = (case strip_prefix (pf_field f) ''fact:'' of Some n \<Rightarrow> n | None \<Rightarrow> pf_field f)"
    have "apply_finding plugin f b = push_fact n (pf_value f) ev b"
      using False by (simp only: apply_finding_def Let_def ev_def n_def if_False)
    moreover have "plugin_effect b [f] (push_fact n (pf_value f) ev b)"
      using False stage
      by (intro plugin_effectI [where es = "[ev]" and fs = "[\<lparr>fa_name = n, fa_value = pf_value f, fa_evidence = ev\<rparr>]"])
        (auto simp: push_frame contradicted_def contradicts_def)
    ultimately show ?thesis by simp
  qed
qed

lemma plugin_effect_trans:
  assumes "plugin_effect a fs b" "plugin_effect b gs c"
  shows "plugin_effect a (fs @ gs) c"
proof -
  from assms(1) obtain es xs where ab: "pb_container_compatible b = pb_container_compatible a"
    "pb_evidence b = pb_evidence a @ es" "pb_facts b = pb_facts a @ xs"
    "\<forall>e \<in> set es. evi_stage e = ''plugin''" "\<forall>x \<in> set xs. fa_evidence x \<in> set es"
    unfolding plugin_effect_def by blast
  from assms(2) obtain es' xs' where bc: "pb_container_compatible c = pb_container_compatible b"
    "pb_evidence c = pb_evidence b @ es'" "pb_facts c = pb_facts b @ xs'"
    "\<forall>e \<in> set es'. evi_stage e = ''plugin''" "\<forall>x \<in> set xs'. fa_evidence x \<in> set es'"
    unfolding plugin_effect_def by blast
  show ?thesis
  proof (rule plugin_effectI [where es = "es @ es'" and fs = "xs @ xs'"])
    fix field
    assume field: "field \<in> {''language'', ''framework''}"
    let ?a = "field_of field a" and ?b = "field_of field b" and ?c = "field_of field c"
    have 1: "fs_confidence ?b = fs_confidence ?a"
      "fs_value ?b = (if contradicted ?a field fs then None else fs_value ?a)"
      "reported b field \<longleftrightarrow> reported a field \<or> contradicted ?a field fs"
      using assms(1) field unfolding plugin_effect_def by blast+
    have 2: "fs_confidence ?c = fs_confidence ?b"
      "fs_value ?c = (if contradicted ?b field gs then None else fs_value ?b)"
      "reported c field \<longleftrightarrow> reported b field \<or> contradicted ?b field gs"
      using assms(2) field unfolding plugin_effect_def by blast+
    have "contradicted ?b field gs \<longleftrightarrow> \<not> contradicted ?a field fs \<and> contradicted ?a field gs"
      by (auto simp: contradicted_def contradicts_def list_ex_iff 1)
    then show "fs_confidence ?c = fs_confidence ?a \<and>
        fs_value ?c = (if contradicted ?a field (fs @ gs) then None else fs_value ?a) \<and>
        (reported c field \<longleftrightarrow> reported a field \<or> contradicted ?a field (fs @ gs))"
      using 1 2 by (auto simp: contradicted_def)
  qed (use ab bc in auto)
qed

lemma plugin_effect_refl: "plugin_effect b [] b"
  by (rule plugin_effectI [where es = "[]" and fs = "[]"]) (simp_all add: contradicted_def)

lemma apply_findings_effect: "plugin_effect b fs (fold (apply_finding plugin) fs b)"
proof (induction fs arbitrary: b)
  case Nil
  then show ?case by (simp add: plugin_effect_refl)
next
  case (Cons f fs)
  from plugin_effect_trans [OF apply_finding_step Cons.IH] show ?case by simp
qed

lemma apply_plugins_effect:
  "plugin_effect b (concat (map (\<lambda>p. ip_detect p s) plugins)) (fold (apply_plugin s) plugins b)"
proof (induction plugins arbitrary: b)
  case Nil
  then show ?case by (simp add: plugin_effect_refl)
next
  case (Cons p plugins)
  have "plugin_effect b (ip_detect p s) (apply_plugin s p b)"
    unfolding apply_plugin_def by (rule apply_findings_effect)
  from plugin_effect_trans [OF this Cons.IH] show ?case by simp
qed

lemma plugin_effect_grew:
  assumes "plugin_effect b fs b'"
  obtains es xs where "pb_evidence b' = pb_evidence b @ es" "pb_facts b' = pb_facts b @ xs"
    "\<forall>e \<in> set es. evi_stage e = ''plugin''" "\<forall>x \<in> set xs. fa_evidence x \<in> set es"
  using assms unfolding plugin_effect_def by blast

lemma plugin_effect_ordered:
  assumes "plugin_effect b fs b'" "evidence_ordered n b" "n \<le> 7"
  shows "evidence_ordered 7 b'"
proof -
  obtain es xs where e: "pb_evidence b' = pb_evidence b @ es" "pb_facts b' = pb_facts b @ xs"
    "\<forall>e \<in> set es. evi_stage e = ''plugin''" "\<forall>x \<in> set xs. fa_evidence x \<in> set es"
    by (rule plugin_effect_grew [OF assms(1)])
  have "grew ''plugin'' b (b\<lparr>pb_evidence := pb_evidence b @ es, pb_facts := pb_facts b @ xs\<rparr>)"
    using e by (intro grewI [of _ _ es xs "[]"]) simp_all
  from grew_ordered [OF this assms(2)] assms(3)
  have "evidence_ordered 7 (b\<lparr>pb_evidence := pb_evidence b @ es, pb_facts := pb_facts b @ xs\<rparr>)"
    by (simp add: stage_orders)
  then show ?thesis using e(1,2) by (simp add: evidence_ordered_def)
qed

lemma plugin_effect_reports_lost: "plugin_effect b fs b' \<Longrightarrow> reports_lost b \<Longrightarrow> reports_lost b'"
  unfolding plugin_effect_def reports_lost_def by (metis (no_types, lifting))

section \<open>Profiles\<close>

lemma report_missing_frame:
  "pb_evidence (report_missing n b) = pb_evidence b" "pb_facts (report_missing n b) = pb_facts b"
  "field_of f (report_missing n b) = field_of f b"
  "pb_container_compatible (report_missing n b) = pb_container_compatible b"
  by (simp_all add: report_missing_def Let_def push_frame)

lemma report_missing_reported:
  "reported (report_missing n b) f \<longleftrightarrow> reported b f \<or> (f = n \<and> fs_value (field_of n b) = None)"
  by (auto simp: report_missing_def Let_def) (auto simp: reported_def list_ex_iff)

lemma profile_build_fields:
  "ap_language (profile_build b) = fs_value (field_of ''language'' b)"
  "ap_framework (profile_build b) = fs_value (field_of ''framework'' b)"
  "ap_evidence (profile_build b) = pb_evidence b" "ap_facts (profile_build b) = pb_facts b"
  "ap_container_compatible (profile_build b) = pb_container_compatible b"
proof -
  define b' where "b' = report_missing ''framework'' (report_missing ''language'' b)"
  have f: "field_of x b' = field_of x b" for x by (simp add: b'_def report_missing_frame)
  show "ap_language (profile_build b) = fs_value (field_of ''language'' b)"
    "ap_framework (profile_build b) = fs_value (field_of ''framework'' b)"
    using f [of "''language''"] f [of "''framework''"]
    by (simp_all add: profile_build_def Let_def b'_def [symmetric]) (simp_all add: field_of_def)
qed (simp_all add: profile_build_def Let_def report_missing_frame)

lemma profile_build_unknown:
  assumes "field \<in> {''language'', ''framework''}" "reports_lost b"
  shows "is_unknown (profile_build b) field \<longleftrightarrow> fs_value (field_of field b) = None"
proof -
  have "is_unknown (profile_build b) field \<longleftrightarrow>
      reported (report_missing ''framework'' (report_missing ''language'' b)) field"
    by (simp add: is_unknown_def profile_build_def reported_def Let_def list_ex_iff)
  then show ?thesis
    using assms by (auto simp: report_missing_reported report_missing_frame reports_lost_def)
qed

lemma inspect_reports_lost: "reports_lost (fold (apply_plugin s) plugins (inspect_deterministic s))"
  using plugin_effect_reports_lost [OF apply_plugins_effect] finish_reports_lost [OF observations_unreported]
  by (simp add: inspect_deterministic_observations)

section \<open>Properties\<close>

text \<open>
  Evidence comes in the documented order. Whatever the project and whatever the plugins report, the
  evidence of a profile is sorted by stage (Dockerfiles, compose files, manifests, conventions,
  configuration, CI, sources) with everything a plugin said last, every observation carries one of these
  stages, and every fact rests on an observation of the list.
\<close>

theorem inspection_evidence_ordered:
  "let p = inspect plugins s
   in sorted (map (\<lambda>e. stage_order (evi_stage e)) (ap_evidence p)) \<and>
      (\<forall>e \<in> set (ap_evidence p). evi_stage e \<in> set (inspection_order @ [''plugin''])) \<and>
      (\<forall>f \<in> set (ap_facts p). fa_evidence f \<in> set (ap_evidence p))"
proof -
  have "evidence_ordered 6 (inspect_deterministic s)"
    by (simp add: inspect_deterministic_observations finish_ordered observations_ordered)
  from plugin_effect_ordered [OF apply_plugins_effect this]
  have "evidence_ordered 7 (fold (apply_plugin s) plugins (inspect_deterministic s))" by simp
  then show ?thesis unfolding inspect_def Let_def profile_build_fields evidence_ordered_def by blast
qed

text \<open>
  Unknown rather than invented. In every profile the language is missing exactly when it is listed among the
  unknowns, and so is the framework; both come from the deterministic stages alone: with
  plugins each is what it is without them, or it is withheld, and it is withheld exactly when some finding of
  a plugin names another value with at least the confidence of the deterministic evidence. Plugins
  otherwise only append facts and evidence.
\<close>

theorem plugins_never_invent:
  "let p = inspect plugins s; q = inspect [] s; b = inspect_deterministic s;
       findings = concat (map (\<lambda>plugin. ip_detect plugin s) plugins)
   in (is_unknown p ''language'' \<longleftrightarrow> ap_language p = None) \<and>
      (is_unknown p ''framework'' \<longleftrightarrow> ap_framework p = None) \<and>
      ap_language p = (if contradicted (field_of ''language'' b) ''language'' findings then None else ap_language q) \<and>
      ap_framework p = (if contradicted (field_of ''framework'' b) ''framework'' findings then None else ap_framework q) \<and>
      ap_container_compatible p = ap_container_compatible q \<and>
      prefix (ap_facts q) (ap_facts p) \<and> prefix (ap_evidence q) (ap_evidence p)"
proof -
  define b where "b = inspect_deterministic s"
  define b' where "b' = fold (apply_plugin s) plugins b"
  define findings where "findings = concat (map (\<lambda>plugin. ip_detect plugin s) plugins)"
  have eff: "plugin_effect b findings b'" unfolding b'_def findings_def by (rule apply_plugins_effect)
  then have field: "fs_value (field_of f b') = (if contradicted (field_of f b) f findings then None else fs_value (field_of f b))"
    if "f \<in> {''language'', ''framework''}" for f
    using that unfolding plugin_effect_def by blast
  have lost: "reports_lost b'" unfolding b'_def b_def by (rule inspect_reports_lost)
  have p: "inspect plugins s = profile_build b'" and q: "inspect [] s = profile_build b"
    by (simp_all add: inspect_def b'_def b_def)
  have "prefix (pb_facts b) (pb_facts b')" "prefix (pb_evidence b) (pb_evidence b')"
    "pb_container_compatible b' = pb_container_compatible b"
    using eff unfolding plugin_effect_def by auto
  then show ?thesis
    unfolding Let_def p q b_def [symmetric] findings_def [symmetric]
    using profile_build_unknown [OF _ lost] field [of "''language''"] field [of "''framework''"]
    by (simp add: profile_build_fields)
qed

definition sample_finding :: plugin_finding where
  "sample_finding = \<lparr>pf_field = ''fact:queue'', pf_value = ''rabbitmq'',
     pf_evidence = inspection_evidence ''README.md'' ''source'' ''mentions a queue'' f32_0_5, pf_confidence = f32_0_5\<rparr>"

definition sample_plugin :: inspector_plugin where
  "sample_plugin = \<lparr>ip_name = ''readme'', ip_detect = (\<lambda>_. [sample_finding])\<rparr>"

lemmas empty_snapshot_simps = first_by_path_def files_with_name_def files_with_extension_def files_named_anywhere_def
  has_file_def has_dir_def has_dir_anywhere_def any_content_contains_def any_content_contains_insensitive_def
  snapshot_get_def btm_get_def first_of_def or_else_def

lemma inspect_empty: "pb_evidence (inspect_deterministic []) = []" "pb_facts (inspect_deterministic []) = []"
proof -
  have "observations [] = profile_builder_default"
    by (simp add: observations_def detect_docker_def detect_compose_def detect_manifests_def detect_node_manifest_def
        detect_dotnet_manifest_def detect_python_manifest_def detect_rust_manifest_def detect_git_def
        detect_framework_conventions_def framework_conventions_table_def apply_convention_def
        detect_deep_framework_conventions_def deep_django_def deep_fastapi_def deep_rust_def deep_expo_def
        detect_configuration_def detect_auth_def detect_configuration_file_def configuration_files_def detect_ci_def
        ci_findings_def detect_source_fallback_def source_hints_def apply_hint_def empty_snapshot_simps Let_def
        str_contains_def)
  then show "pb_evidence (inspect_deterministic []) = []" "pb_facts (inspect_deterministic []) = []"
    by (simp_all add: inspect_deterministic_observations finish_deterministic_def resolve_field_frame
        profile_builder_default_def)
qed

theorem inspection_evidence_ordered_witness:
  "let p = inspect [sample_plugin] []
   in map evi_stage (ap_evidence p) = [''plugin''] \<and> map fa_name (ap_facts p) = [''queue''] \<and>
      sorted (map (\<lambda>e. stage_order (evi_stage e)) (ap_evidence p)) \<and>
      (\<forall>f \<in> set (ap_facts p). fa_evidence f \<in> set (ap_evidence p))"
proof -
  have "map evi_stage (ap_evidence (inspect [sample_plugin] [])) = [''plugin'']"
    "map fa_name (ap_facts (inspect [sample_plugin] [])) = [''queue'']"
    by (simp_all add: inspect_def profile_build_fields apply_plugin_def sample_plugin_def apply_finding_def
        sample_finding_def Let_def push_frame inspect_empty strip_prefix_def)
  then show ?thesis using inspection_evidence_ordered [of "[sample_plugin]" "[]"] unfolding Let_def by blast
qed

text \<open>
  The plan keeps what exists. A generated plan is not applied; it keeps every auth integration, CI
  configuration, compose file and git history the profile found, with its evidence, and the Dockerfile of a
  container compatible project; every kept item is one of these, and the only migration item carries all the evidence of
  the profile. Applying marks the plan and nothing else, and only for a granted approval with a named
  approver.
\<close>

theorem adoption_plan_keeps_integrations:
  "let plan = plan_generate p; kept = items_of_kind plan Keep
   in \<not> pn_applied plan \<and> kept = List.map_filter keep_item (ap_facts p) @ container_items p \<and>
      (\<forall>f \<in> set (ap_facts p). fa_name f \<in> {''auth_provider'', ''ci'', ''compose'', ''git''} \<longrightarrow>
         (\<exists>i \<in> set kept. ai_evidence i = [fa_evidence f])) \<and>
      map ai_evidence (items_of_kind plan OptionalMigration) = [ap_evidence p] \<and>
      plan_apply plan approval =
        (if granted_and_named approval then (plan\<lparr>pn_applied := True\<rparr>, Ok ())
         else (plan, Err (ApprovalRequired
           (if ea_approved approval then ''adoption plan approval must name an approver''
            else ''adoption plan requires explicit approval before apply''))))"
proof -
  have keep: "i \<in> set (List.map_filter keep_item fs) \<Longrightarrow> ai_kind i = Keep" for i fs
    by (auto simp: map_filter_def keep_item_def adoption_item_of_def split: if_splits)
  have run: "i \<in> set (List.map_filter runner_item fs) \<Longrightarrow> ai_kind i = Adopt" for i fs
    by (auto simp: map_filter_def runner_item_def adoption_item_of_def split: if_splits)
  have cont: "i \<in> set (container_items p) \<Longrightarrow> ai_kind i = Keep" for i
    by (auto simp: container_items_def adoption_item_of_def split: if_splits)
  have cap: "i \<in> set capability_items \<Longrightarrow> ai_kind i = Adopt" for i
    by (auto simp: capability_items_def adoption_item_of_def)
  have kept: "items_of_kind (plan_generate p) Keep = List.map_filter keep_item (ap_facts p) @ container_items p"
    using keep run cont cap by (auto simp: items_of_kind_def plan_generate_def filter_id_conv filter_empty_conv
        adoption_item_of_def)
  have migr: "items_of_kind (plan_generate p) OptionalMigration =
      [adoption_item_of OptionalMigration ''storage replacement / framework migration''
         ''Presented with affected evidence; never applied without explicit approval.'' (ap_evidence p)]"
    using keep run cont cap by (auto simp: items_of_kind_def plan_generate_def filter_empty_conv adoption_item_of_def)
  have each: "\<exists>i \<in> set (items_of_kind (plan_generate p) Keep). ai_evidence i = [fa_evidence f]"
    if f: "f \<in> set (ap_facts p)" and name: "fa_name f \<in> {''auth_provider'', ''ci'', ''compose'', ''git''}" for f
  proof -
    obtain i where "keep_item f = Some i" "ai_evidence i = [fa_evidence f]"
      using name by (fastforce simp: keep_item_def adoption_item_of_def)
    then show ?thesis using f unfolding kept by (auto simp: map_filter_def intro!: bexI [of _ i] image_eqI)
  qed
  show ?thesis
    using each unfolding Let_def kept migr
    by (auto simp: plan_generate_def plan_apply_def granted_and_named_def adoption_item_of_def)
qed

definition sample_profile :: application_profile where
  "sample_profile = \<lparr>ap_container_compatible = False, ap_language = None, ap_framework = None,
     ap_facts = [\<lparr>fa_name = ''ci'', fa_value = ''jenkins'', fa_evidence = pf_evidence sample_finding\<rparr>],
     ap_unknowns = [], ap_evidence = []\<rparr>"

theorem adoption_plan_keeps_integrations_witness:
  "(\<exists>i \<in> set (items_of_kind (plan_generate sample_profile) Keep). ai_evidence i = [pf_evidence sample_finding]) \<and>
   snd (plan_apply (plan_generate sample_profile) (approval_denied ''ann'' ''plan'')) =
     Err (ApprovalRequired ''adoption plan requires explicit approval before apply'')"
proof -
  have "\<lparr>fa_name = ''ci'', fa_value = ''jenkins'', fa_evidence = pf_evidence sample_finding\<rparr> \<in> set (ap_facts sample_profile)"
    by (simp add: sample_profile_def)
  then have "\<exists>i \<in> set (items_of_kind (plan_generate sample_profile) Keep). ai_evidence i = [pf_evidence sample_finding]"
    using adoption_plan_keeps_integrations [of sample_profile "approval_denied ''ann'' ''plan''"] unfolding Let_def
    by fastforce
  moreover have "\<not> granted_and_named (approval_denied ''ann'' ''plan'')"
    "\<not> ea_approved (approval_denied ''ann'' ''plan'')"
    by (simp_all add: granted_and_named_def approval_denied_def)
  ultimately show ?thesis
    using adoption_plan_keeps_integrations [of sample_profile "approval_denied ''ann'' ''plan''"] unfolding Let_def
    by simp
qed

text \<open>
  Environment files with a suffix are never seen. The configuration stage looks for files like
  \<open>.env.local\<close> among the files named by an empty list, so only files called or ending in \<open>.env\<close> count;
  and the convention for \<open>src/main.rs\<close> compares it with file names, which have no slash, so the
  conventions never touch the language.
\<close>

lemma file_name_no_slash: "CHR ''/'' \<notin> set (file_name p)"
proof -
  have "\<forall>x \<in> set (split_at_char c p). c \<notin> set x" for c
    by (induction p) (auto split: list.split)
  moreover have "split_at_char c p \<noteq> []" for c by (cases p) (auto split: list.split)
  ultimately show ?thesis unfolding file_name_def by simp
qed

lemma dedup_by_path_subset: "set (dedup_by_path xs) \<subseteq> set xs"
  by (induction xs rule: dedup_by_path.induct) auto

theorem suffixed_environment_files_missed:
  "set (configuration_files s ''.env'') \<subseteq> {(p, c). file_name p = ''.env'' \<or> ends_with p ''.env''} \<and>
   pb_language (detect_framework_conventions s b) = pb_language b"
proof
  show "set (configuration_files s ''.env'') \<subseteq> {(p, c). file_name p = ''.env'' \<or> ends_with p ''.env''}"
    unfolding configuration_files_def
    by (rule subset_trans [OF dedup_by_path_subset])
      (auto simp: files_with_name_def files_with_extension_def files_named_anywhere_def)
next
  have "file_name p \<noteq> ''src/main.rs''" for p using file_name_no_slash [of p] by auto
  then have "files_named_anywhere s [''src/main.rs''] = []"
    by (auto simp: files_named_anywhere_def filter_empty_conv)
  then have dead: "apply_convention s ([''src/main.rs''], f, v, c, d) b = b" for f v c d b
    by (simp add: apply_convention_def first_by_path_def)
  have "pb_language (apply_convention s (names, ''framework'', v, c, d) b) = pb_language b" for names v c d b
    by (simp add: apply_convention_def Let_def set_field_def put_field_def push_evidence_def split: option.split prod.split)
  then show "pb_language (detect_framework_conventions s b) = pb_language b"
    by (simp add: detect_framework_conventions_def framework_conventions_table_def dead)
qed

end
