(* ===== verification/Runtime_Detect.thy ===== *)
theory Runtime_Detect
  imports Inspector
begin

text \<open>
  Runtime detection, framework conventions and planning: the second part of
  \<open>labrys-core/src/runtime.rs\<close> on the snapshots of \<open>Inspector\<close>. An adapter is the record of the
  methods of the trait \<open>RuntimeAdapter\<close>; \<open>detect_runtime\<close> tries the adapters in the order of the code
  and \<open>prepare\<close> plans a configuration.
\<close>

section \<open>Detections and conventions\<close>

record detected_runtime =
  dr_kind :: runtime_kind
  dr_tier :: support_tier
  dr_framework :: "string option"
  dr_prod_entry :: "string option"
  dr_migrate_command :: "string list"
  dr_test_command :: "string list"
  dr_evidence :: "string list"

definition detected_new :: "runtime_kind \<Rightarrow> support_tier \<Rightarrow> string list \<Rightarrow> detected_runtime" where
  "detected_new kind tier evs =
     \<lparr>dr_kind = kind, dr_tier = tier, dr_framework = None, dr_prod_entry = None, dr_migrate_command = [],
      dr_test_command = [], dr_evidence = evs\<rparr>"

definition with_framework :: "runtime_kind \<Rightarrow> string \<Rightarrow> string list \<Rightarrow> detected_runtime" where
  "with_framework kind framework evs =
     \<lparr>dr_kind = kind, dr_tier = Tier3, dr_framework = Some framework, dr_prod_entry = None,
      dr_migrate_command = [], dr_test_command = [], dr_evidence = evs\<rparr>"

record framework_conventions =
  fc_framework :: string
  fc_migrate_command :: "string list"
  fc_test_command :: "string list"
  fc_dev_command :: "string list"
  fc_prod_command :: "string list"
  fc_health_path :: "string option"
  fc_evidence :: "string list"

definition conventions_lookup :: "runtime_kind \<Rightarrow> string \<Rightarrow> string \<Rightarrow> framework_conventions option" where
  "conventions_lookup kind framework prod_entry =
     (let entry = trim prod_entry in
      if kind = RkPython \<and> framework = ''django'' \<and> entry \<noteq> []
      then Some \<lparr>fc_framework = ''django'', fc_migrate_command = [''python'', ''manage.py'', ''migrate''],
             fc_test_command = [''python'', ''manage.py'', ''test''],
             fc_dev_command = [''python'', ''manage.py'', ''runserver''],
             fc_prod_command = [''gunicorn'', entry @ ''.wsgi:application''], fc_health_path = None, fc_evidence = []\<rparr>
      else if kind = RkPython \<and> framework = ''fastapi'' \<and> entry \<noteq> []
      then Some \<lparr>fc_framework = ''fastapi'', fc_migrate_command = [], fc_test_command = [],
             fc_dev_command = [''python'', ''-m'', ''uvicorn'', entry @ '':app'', ''--reload''],
             fc_prod_command = [''python'', ''-m'', ''uvicorn'', entry @ '':app''],
             fc_health_path = Some ''/health'', fc_evidence = []\<rparr>
      else if kind = RkRust \<and> framework = ''axum''
      then Some \<lparr>fc_framework = ''axum'', fc_migrate_command = [], fc_test_command = [''cargo'', ''test''],
             fc_dev_command = [''cargo'', ''run''], fc_prod_command = [''cargo'', ''build'', ''--release''],
             fc_health_path = Some ''/health'', fc_evidence = []\<rparr>
      else if kind = RkRust \<and> framework = ''rust''
      then Some \<lparr>fc_framework = ''rust'', fc_migrate_command = [], fc_test_command = [''cargo'', ''test''],
             fc_dev_command = [''cargo'', ''run''], fc_prod_command = [''cargo'', ''build'', ''--release''],
             fc_health_path = None, fc_evidence = []\<rparr>
      else if kind = RkExpo \<and> framework = ''expo''
      then Some \<lparr>fc_framework = ''expo'', fc_migrate_command = [], fc_test_command = [],
             fc_dev_command = [''expo'', ''start''], fc_prod_command = [''expo'', ''export''],
             fc_health_path = None, fc_evidence = []\<rparr>
      else None)"

definition with_migrate :: "framework_conventions \<Rightarrow> string list \<Rightarrow> framework_conventions" where
  "with_migrate c command = c\<lparr>fc_migrate_command := command\<rparr>"

definition with_test :: "framework_conventions \<Rightarrow> string list \<Rightarrow> framework_conventions" where
  "with_test c command = c\<lparr>fc_test_command := command\<rparr>"

definition conventions :: "detected_runtime \<Rightarrow> framework_conventions option" where
  "conventions d =
     (case dr_framework d of
        None \<Rightarrow> None
      | Some framework \<Rightarrow>
          map_option (\<lambda>c. with_test (with_migrate c (dr_migrate_command d)) (dr_test_command d))
            (conventions_lookup (dr_kind d) framework (case dr_prod_entry d of Some e \<Rightarrow> e | None \<Rightarrow> [])))"

section \<open>Adapters\<close>

record runtime_adapter =
  ra_kind :: runtime_kind
  ra_tier :: support_tier
  ra_detect :: "project_snapshot \<Rightarrow> detected_runtime option"
  ra_dev_command :: "string list"
  ra_prod_command :: "string list"
  ra_prod_oci_image :: "string option"
  ra_health_path :: "string option"

definition dockerfiles :: "project_snapshot \<Rightarrow> (string \<times> string) list" where
  "dockerfiles s = files_named_anywhere s [''Dockerfile'', ''dockerfile'']"

definition has_from :: "string \<Rightarrow> bool" where
  "has_from content = list_ex (\<lambda>l. starts_with (to_ascii_uppercase (trim_start l)) ''FROM '') (str_lines content)"

definition has_dockerfile :: "project_snapshot \<Rightarrow> bool" where
  "has_dockerfile s = list_ex (\<lambda>(_, content). has_from content) (dockerfiles s)"

definition dockerfile_path :: "project_snapshot \<Rightarrow> string option" where
  "dockerfile_path s = map_option fst (first_by_path (dockerfiles s))"

definition generic_detect :: "project_snapshot \<Rightarrow> detected_runtime option" where
  "generic_detect s =
     (case dockerfile_path s of
        None \<Rightarrow> None
      | Some path \<Rightarrow> if \<not> has_dockerfile s then None else Some (detected_new RkGeneric Tier0 [path]))"

definition generic_adapter :: runtime_adapter where
  "generic_adapter = \<lparr>ra_kind = RkGeneric, ra_tier = Tier0, ra_detect = generic_detect,
     ra_dev_command = [''docker'', ''build'', ''.''], ra_prod_command = [''docker'', ''build'', ''.''],
     ra_prod_oci_image = Some ''oci://app:prod'', ra_health_path = None\<rparr>"

definition node_detect :: "project_snapshot \<Rightarrow> detected_runtime option" where
  "node_detect s =
     (if \<not> has_file s ''package.json'' then None
      else if files_named_anywhere s [''next.config.js'', ''next.config.mjs'', ''next.config.ts''] \<noteq> []
      then Some (detected_new RkNode Tier2 [''package.json'', ''next.config.*''])
      else Some (detected_new RkNode Tier1 [''package.json'']))"

definition node_adapter :: runtime_adapter where
  "node_adapter = \<lparr>ra_kind = RkNode, ra_tier = Tier1, ra_detect = node_detect,
     ra_dev_command = [''npm'', ''run'', ''dev''],
     ra_prod_command = [''npm'', ''run'', ''build'', ''&&'', ''npm'', ''start''],
     ra_prod_oci_image = Some ''oci://node-app:prod'', ra_health_path = Some ''/''\<rparr>"

definition has_project :: "project_snapshot \<Rightarrow> bool" where
  "has_project s = (files_with_extension s ''.csproj'' \<noteq> [] \<or> files_with_extension s ''.sln'' \<noteq> [])"

definition dotnet_detect :: "project_snapshot \<Rightarrow> detected_runtime option" where
  "dotnet_detect s =
     (if \<not> has_project s then None
      else if has_file s ''appsettings.json'' \<or> any_content_contains_insensitive s ''Microsoft.AspNetCore'' \<noteq> None
      then Some (detected_new RkDotNet Tier2 [''*.csproj'', ''appsettings.json|Microsoft.AspNetCore''])
      else Some (detected_new RkDotNet Tier1 [''*.csproj'']))"

definition dotnet_adapter :: runtime_adapter where
  "dotnet_adapter = \<lparr>ra_kind = RkDotNet, ra_tier = Tier1, ra_detect = dotnet_detect,
     ra_dev_command = [''dotnet'', ''watch''], ra_prod_command = [''dotnet'', ''publish'', ''-c'', ''Release''],
     ra_prod_oci_image = Some ''oci://dotnet-app:prod'', ra_health_path = Some ''/healthz''\<rparr>"

definition dotted :: "string \<Rightarrow> string" where
  "dotted path = str_replace ''/'' ''.'' path"

definition detect_django :: "project_snapshot \<Rightarrow> detected_runtime option" where
  "detect_django s =
     (case first_by_path (files_named_anywhere s [''settings.py'']) of
        None \<Rightarrow> None
      | Some (settings_path, _) \<Rightarrow>
          (case map_option (\<lambda>(dir, _). dotted dir) (rsplit_once (CHR ''/'') settings_path) of
             None \<Rightarrow> None
           | Some package \<Rightarrow>
               if package = [] then None
               else if \<not> has_dir_anywhere s ''migrations'' then None
               else Some ((with_framework RkPython ''django'' [''manage.py'', settings_path, ''migrations/''])
                      \<lparr>dr_prod_entry := Some package,
                       dr_migrate_command := [''python'', ''manage.py'', ''migrate''],
                       dr_test_command := [''python'', ''manage.py'', ''test'']\<rparr>)))"

definition detect_fastapi :: "project_snapshot \<Rightarrow> detected_runtime option" where
  "detect_fastapi s =
     (case find (\<lambda>(_, content). str_contains content ''FastAPI'')
             (sort_key fst (files_named_anywhere s [''main.py'', ''app.py''])) of
        None \<Rightarrow> None
      | Some (entry_path, _) \<Rightarrow>
          (let module = dotted (case strip_suffix entry_path ''.py'' of Some m \<Rightarrow> m | None \<Rightarrow> entry_path);
               has_uvicorn = (any_content_contains_insensitive s ''uvicorn'' \<noteq> None);
               has_alembic = (has_file s ''alembic.ini'' \<or> has_dir_anywhere s ''alembic'');
               has_pytest = (any_content_contains_insensitive s ''pytest'' \<noteq> None \<or> has_dir_anywhere s ''tests'')
           in if \<not> (has_uvicorn \<or> has_alembic \<or> has_pytest) then None
              else Some ((with_framework RkPython ''fastapi''
                     ([''requirements.txt|pyproject.toml|setup.py'', entry_path] @
                      (if has_alembic then [''alembic.ini|alembic/''] else [])))
                   \<lparr>dr_prod_entry := Some module,
                    dr_migrate_command := (if has_alembic then [''alembic'', ''upgrade'', ''head''] else []),
                    dr_test_command := (if has_pytest then [''pytest''] else [])\<rparr>)))"

definition python_detect :: "project_snapshot \<Rightarrow> detected_runtime option" where
  "python_detect s =
     (if \<not> (has_file s ''requirements.txt'' \<or> has_file s ''pyproject.toml'' \<or> has_file s ''setup.py'') then None
      else
     (case (if has_file s ''manage.py'' then detect_django s else None) of
        Some django \<Rightarrow> Some django
      | None \<Rightarrow>
     (case (if any_content_contains_insensitive s ''fastapi'' \<noteq> None then detect_fastapi s else None) of
        Some fastapi \<Rightarrow> Some fastapi
      | None \<Rightarrow>
          if has_file s ''manage.py'' \<or> any_content_contains_insensitive s ''fastapi'' \<noteq> None \<or>
             any_content_contains_insensitive s ''django'' \<noteq> None
          then Some (detected_new RkPython Tier2
                 [''requirements.txt|pyproject.toml|setup.py'', ''manage.py|fastapi|django''])
          else Some (detected_new RkPython Tier1 [''requirements.txt|pyproject.toml|setup.py'']))))"

definition python_adapter :: runtime_adapter where
  "python_adapter = \<lparr>ra_kind = RkPython, ra_tier = Tier1, ra_detect = python_detect,
     ra_dev_command = [''python'', ''-m'', ''uvicorn'', ''app:app'', ''--reload''],
     ra_prod_command = [''python'', ''-m'', ''gunicorn'', ''app:app''],
     ra_prod_oci_image = Some ''oci://python-app:prod'', ra_health_path = Some ''/healthz''\<rparr>"

definition sqlx_migrate :: "string list" where
  "sqlx_migrate = [''sqlx'', ''migrate'', ''run'']"

definition diesel_migrate :: "string list" where
  "diesel_migrate = [''diesel'', ''migration'', ''run'']"

definition detect_axum :: "project_snapshot \<Rightarrow> string \<Rightarrow> detected_runtime option" where
  "detect_axum s manifest =
     (if str_contains manifest ''axum'' \<and> has_file s ''src/main.rs'' \<and>
         (str_contains manifest ''sqlx'' \<or> str_contains manifest ''diesel'' \<or> has_dir_anywhere s ''migrations'' \<or>
          has_file s ''diesel.toml'')
      then (let d = with_framework RkRust ''axum'' [''Cargo.toml:axum'', ''src/main.rs''];
                d = (if str_contains manifest ''sqlx''
                     then d\<lparr>dr_migrate_command := sqlx_migrate, dr_evidence := dr_evidence d @ [''Cargo.toml:sqlx'']\<rparr>
                     else if str_contains manifest ''diesel'' \<or> has_file s ''diesel.toml''
                     then d\<lparr>dr_migrate_command := diesel_migrate,
                            dr_evidence := dr_evidence d @ [''Cargo.toml:diesel|diesel.toml'']\<rparr>
                     else d\<lparr>dr_evidence := dr_evidence d @ [''migrations/'']\<rparr>)
            in Some (d\<lparr>dr_test_command := [''cargo'', ''test'']\<rparr>))
      else None)"

definition detect_workspace :: "project_snapshot \<Rightarrow> string \<Rightarrow> detected_runtime option" where
  "detect_workspace s manifest =
     (if str_contains manifest ''[workspace]'' \<and> (str_contains manifest ''sqlx'' \<or> str_contains manifest ''diesel'') \<and>
         has_dir_anywhere s ''migrations''
      then Some ((with_framework RkRust ''rust'' [''Cargo.toml:[workspace]'', ''migrations/''])
             \<lparr>dr_migrate_command := (if str_contains manifest ''diesel'' then diesel_migrate else sqlx_migrate),
              dr_test_command := [''cargo'', ''test'']\<rparr>)
      else None)"

definition rust_detect :: "project_snapshot \<Rightarrow> detected_runtime option" where
  "rust_detect s =
     (case snapshot_get s ''Cargo.toml'' of
        None \<Rightarrow> None
      | Some manifest \<Rightarrow>
          (case detect_axum s manifest of
             Some d \<Rightarrow> Some d
           | None \<Rightarrow>
          (case detect_workspace s manifest of
             Some d \<Rightarrow> Some d
           | None \<Rightarrow>
               if str_contains manifest ''axum'' \<or> str_contains manifest ''actix-web'' \<or> str_contains manifest ''rocket''
               then Some (detected_new RkRust Tier2 [''Cargo.toml'', ''Cargo.toml:axum|actix-web|rocket''])
               else Some (detected_new RkRust Tier1 [''Cargo.toml'']))))"

definition rust_adapter :: runtime_adapter where
  "rust_adapter = \<lparr>ra_kind = RkRust, ra_tier = Tier1, ra_detect = rust_detect,
     ra_dev_command = [''cargo'', ''run''], ra_prod_command = [''cargo'', ''build'', ''--release''],
     ra_prod_oci_image = Some ''oci://rust-app:prod'', ra_health_path = Some ''/healthz''\<rparr>"

definition expo_detect :: "project_snapshot \<Rightarrow> detected_runtime option" where
  "expo_detect s =
     (case snapshot_get s ''package.json'' of
        None \<Rightarrow> None
      | Some package \<Rightarrow>
          if \<not> str_contains package ''expo'' \<or> \<not> has_file s ''app.json'' then None
          else if has_dir_anywhere s ''app'' \<or> has_file s ''eas.json''
          then Some ((with_framework RkExpo ''expo''
                 ([''package.json:expo'', ''app.json''] @ (if has_dir_anywhere s ''app'' then [''app/''] else []) @
                  (if has_file s ''eas.json'' then [''eas.json''] else [])))
               \<lparr>dr_test_command := (if str_contains package ''jest'' then [''jest''] else [])\<rparr>)
          else Some (detected_new RkExpo Tier1 [''package.json:expo'', ''app.json'']))"

definition expo_adapter :: runtime_adapter where
  "expo_adapter = \<lparr>ra_kind = RkExpo, ra_tier = Tier1, ra_detect = expo_detect,
     ra_dev_command = [''expo'', ''start''], ra_prod_command = [''expo'', ''export''],
     ra_prod_oci_image = None, ra_health_path = None\<rparr>"

fun adapter_of :: "runtime_kind \<Rightarrow> runtime_adapter" where
  "adapter_of RkGeneric = generic_adapter"
| "adapter_of RkNode = node_adapter"
| "adapter_of RkDotNet = dotnet_adapter"
| "adapter_of RkPython = python_adapter"
| "adapter_of RkRust = rust_adapter"
| "adapter_of RkExpo = expo_adapter"

fun first_detection :: "runtime_adapter list \<Rightarrow> project_snapshot \<Rightarrow> detected_runtime outcome" where
  "first_detection [] s = Err (UnsupportedRuntime ''no recognized manifest or Dockerfile; runtime unsupported'')"
| "first_detection (a # as) s = (case ra_detect a s of Some found \<Rightarrow> Ok found | None \<Rightarrow> first_detection as s)"

definition detect_runtime :: "project_snapshot \<Rightarrow> detected_runtime outcome" where
  "detect_runtime s =
     first_detection [expo_adapter, node_adapter, dotnet_adapter, python_adapter, rust_adapter, generic_adapter] s"

section \<open>Planning\<close>

definition unwrap_or :: "'a option \<Rightarrow> 'a \<Rightarrow> 'a" where
  "unwrap_or x d = (case x of Some v \<Rightarrow> v | None \<Rightarrow> d)"

text \<open>The development command, the image, the health path and the tier by runtime.\<close>

definition runtime_defaults ::
  "detected_runtime \<Rightarrow> string list \<times> string option \<times> string option \<times> support_tier" where
  "runtime_defaults d =
     (let c = conventions d; a = adapter_of (dr_kind d) in
      case dr_kind d of
        RkGeneric \<Rightarrow> (ra_dev_command a, ra_prod_oci_image a, None, Tier0)
      | RkNode \<Rightarrow> (ra_dev_command a, ra_prod_oci_image a, ra_health_path a, dr_tier d)
      | RkDotNet \<Rightarrow> (ra_dev_command a, ra_prod_oci_image a, ra_health_path a, dr_tier d)
      | RkPython \<Rightarrow>
          (unwrap_or (map_option fc_dev_command c) (ra_dev_command a), ra_prod_oci_image a,
           or_else (Option.bind c fc_health_path)
             (if dr_framework d = Some ''django'' then None else ra_health_path a), dr_tier d)
      | RkRust \<Rightarrow>
          (unwrap_or (map_option fc_dev_command c) (ra_dev_command a), ra_prod_oci_image a,
           or_else (Option.bind c fc_health_path) (ra_health_path a), dr_tier d)
      | RkExpo \<Rightarrow>
          (unwrap_or (map_option fc_dev_command c) (ra_dev_command a), None, ra_health_path a, dr_tier d))"

definition production_command :: "detected_runtime \<Rightarrow> string list" where
  "production_command d =
     (let c = conventions d; a = adapter_of (dr_kind d) in
      if dr_kind d \<in> {RkGeneric, RkNode, RkDotNet} then ra_prod_command a
      else unwrap_or (map_option fc_prod_command c) (ra_prod_command a))"

definition prepare ::
  "detected_runtime \<Rightarrow> runtime_profile \<Rightarrow> u16 \<Rightarrow> string option \<Rightarrow> string option \<Rightarrow> sandbox_limits \<Rightarrow>
   runtime_config outcome" where
  "prepare d profile port healthcheck_path dockerfile limits =
     (if port = 0 then Err (InvalidRuntime ''port must be in 1..=65535'')
      else outcome_bind (limits_validate limits) (\<lambda>_.
        let (dev_command, oci_image, health_path, tier) = runtime_defaults d;
            (run_command, oci_image) = (case profile of
                ProfileDevelopment \<Rightarrow> (dev_command, None)
              | ProfileProduction \<Rightarrow> (production_command d, oci_image))
        in Ok \<lparr>cfg_kind = dr_kind d, cfg_tier = tier, cfg_profile = profile, cfg_port = port,
               cfg_healthcheck_path = or_else healthcheck_path health_path,
               cfg_dockerfile = or_else dockerfile
                 (if dr_kind d = RkGeneric then first_of (dr_evidence d) else None),
               cfg_run_command = run_command, cfg_oci_image = oci_image, cfg_limits = limits\<rparr>))"

section \<open>Properties\<close>

lemma conventions_Some:
  "conventions d = Some c \<Longrightarrow> \<exists>framework entry c'. dr_framework d = Some framework \<and>
     conventions_lookup (dr_kind d) framework entry = Some c' \<and> fc_dev_command c = fc_dev_command c' \<and>
     fc_prod_command c = fc_prod_command c' \<and> fc_health_path c = fc_health_path c'"
  unfolding conventions_def with_test_def with_migrate_def
  by (cases "dr_framework d") (auto, blast)

lemma conventions_commands_differ:
  "conventions_lookup kind framework entry = Some c \<Longrightarrow> fc_dev_command c \<noteq> fc_prod_command c"
  by (auto simp: conventions_lookup_def Let_def split: if_splits)

lemmas adapter_defs = generic_adapter_def node_adapter_def dotnet_adapter_def python_adapter_def rust_adapter_def
  expo_adapter_def

text \<open>
  A plan is made exactly for a usable port and usable limits, otherwise the error names what is wrong. The plan has the
  requested profile, port and limits. A development plan never has an image, and a production plan has
  one for every runtime but Expo. A development command is the production command for no runtime but the
  generic container, which has the same build command in both.
\<close>

theorem prepare_total:
  "(case prepare d profile port healthcheck_path dockerfile limits of
      Ok cfg \<Rightarrow> port \<noteq> 0 \<and> is_ok (limits_validate limits) \<and>
        cfg_kind cfg = dr_kind d \<and> cfg_profile cfg = profile \<and> cfg_port cfg = port \<and> cfg_limits cfg = limits \<and>
        (cfg_oci_image cfg = None \<longleftrightarrow> profile = ProfileDevelopment \<or> dr_kind d = RkExpo) \<and>
        cfg_run_command cfg = (if profile = ProfileDevelopment then fst (runtime_defaults d) else production_command d)
    | Err e \<Rightarrow> (if port = 0 then e = InvalidRuntime ''port must be in 1..=65535'' else limits_validate limits = Err e)
    | Panic m \<Rightarrow> False) \<and>
   (fst (runtime_defaults d) = production_command d \<longleftrightarrow> dr_kind d = RkGeneric)"
proof -
  have image: "fst (snd (runtime_defaults d)) = None \<longleftrightarrow> dr_kind d = RkExpo"
    by (cases "dr_kind d") (simp_all add: runtime_defaults_def Let_def adapter_defs)
  have "limits_validate limits \<noteq> Panic m" for m by (simp add: limits_validate_def)
  then have "(case prepare d profile port healthcheck_path dockerfile limits of
      Ok cfg \<Rightarrow> port \<noteq> 0 \<and> is_ok (limits_validate limits) \<and>
        cfg_kind cfg = dr_kind d \<and> cfg_profile cfg = profile \<and> cfg_port cfg = port \<and> cfg_limits cfg = limits \<and>
        (cfg_oci_image cfg = None \<longleftrightarrow> profile = ProfileDevelopment \<or> dr_kind d = RkExpo) \<and>
        cfg_run_command cfg = (if profile = ProfileDevelopment then fst (runtime_defaults d) else production_command d)
    | Err e \<Rightarrow> (if port = 0 then e = InvalidRuntime ''port must be in 1..=65535'' else limits_validate limits = Err e)
    | Panic m \<Rightarrow> False)"
    using image
    by (cases "limits_validate limits"; cases profile; cases "runtime_defaults d") (simp_all add: prepare_def)
  moreover have "fst (runtime_defaults d) = production_command d \<longleftrightarrow> dr_kind d = RkGeneric"
  proof (cases "conventions d")
    case None
    then show ?thesis
      by (cases "dr_kind d") (simp_all add: runtime_defaults_def production_command_def Let_def adapter_defs unwrap_or_def)
  next
    case (Some c)
    then have "fc_dev_command c \<noteq> fc_prod_command c"
      using conventions_Some [OF Some] conventions_commands_differ by metis
    with Some show ?thesis
      by (cases "dr_kind d") (simp_all add: runtime_defaults_def production_command_def Let_def adapter_defs unwrap_or_def)
  qed
  ultimately show ?thesis by blast
qed

definition native_manifest :: "project_snapshot \<Rightarrow> bool" where
  "native_manifest s =
     (has_file s ''package.json'' \<or> has_project s \<or> has_file s ''requirements.txt'' \<or> has_file s ''pyproject.toml'' \<or>
      has_file s ''setup.py'' \<or> has_file s ''Cargo.toml'')"

lemma dockerfile_path_None: "dockerfile_path s = None \<longleftrightarrow> dockerfiles s = []"
proof -
  have "sort_key fst (dockerfiles s) = [] \<longleftrightarrow> dockerfiles s = []" by (metis length_0_conv length_sort)
  then show ?thesis by (cases "sort_key fst (dockerfiles s)") (simp_all add: dockerfile_path_def first_by_path_def)
qed

lemma has_dockerfile_path: "has_dockerfile s \<Longrightarrow> dockerfile_path s \<noteq> None"
  using dockerfile_path_None [of s] by (auto simp: has_dockerfile_def)

lemma detected_new_fields [simp]:
  "dr_kind (detected_new k t e) = k" "dr_tier (detected_new k t e) = t" "dr_framework (detected_new k t e) = None"
  "dr_evidence (detected_new k t e) = e"
  by (simp_all add: detected_new_def)

lemma with_framework_fields [simp]:
  "dr_kind (with_framework k f e) = k" "dr_tier (with_framework k f e) = Tier3"
  "dr_framework (with_framework k f e) = Some f" "dr_evidence (with_framework k f e) = e"
  by (simp_all add: with_framework_def)

definition sound_detection :: "runtime_kind \<Rightarrow> detected_runtime \<Rightarrow> bool" where
  "sound_detection kind d = (dr_kind d = kind \<and> (dr_tier d = Tier3 \<longleftrightarrow> dr_framework d \<noteq> None))"

lemma has_file_get: "has_file s p \<longleftrightarrow> snapshot_get s p \<noteq> None"
  by (simp add: has_file_def snapshot_get_def)

lemma sound_new: "sound_detection k (detected_new k t e) \<longleftrightarrow> t \<noteq> Tier3"
  by (simp add: sound_detection_def)

lemma sound_framework [simp]:
  "sound_detection k (with_framework k f e)"
  "sound_detection k (d\<lparr>dr_prod_entry := x\<rparr>) = sound_detection k d"
  "sound_detection k (d\<lparr>dr_migrate_command := y\<rparr>) = sound_detection k d"
  "sound_detection k (d\<lparr>dr_test_command := y\<rparr>) = sound_detection k d"
  "sound_detection k (d\<lparr>dr_evidence := y\<rparr>) = sound_detection k d"
  by (simp_all add: sound_detection_def)

lemma expo_detection: "expo_detect s = Some d \<Longrightarrow> sound_detection RkExpo d \<and> has_file s ''package.json''"
  unfolding expo_detect_def has_file_get [of s "''package.json''"]
  by (auto simp: sound_new split: option.splits if_splits)

lemma node_detection:
  "node_detect s = Some d \<Longrightarrow> sound_detection RkNode d" "node_detect s = None \<longleftrightarrow> \<not> has_file s ''package.json''"
  by (auto simp: node_detect_def sound_new split: if_splits)

lemma dotnet_detection:
  "dotnet_detect s = Some d \<Longrightarrow> sound_detection RkDotNet d" "dotnet_detect s = None \<longleftrightarrow> \<not> has_project s"
  by (auto simp: dotnet_detect_def sound_new split: if_splits)

lemma deep_detections:
  "detect_django s = Some d \<Longrightarrow> sound_detection RkPython d" "detect_fastapi s = Some d \<Longrightarrow> sound_detection RkPython d"
  "detect_axum s m = Some d \<Longrightarrow> sound_detection RkRust d" "detect_workspace s m = Some d \<Longrightarrow> sound_detection RkRust d"
proof -
  show "detect_django s = Some d \<Longrightarrow> sound_detection RkPython d"
    unfolding detect_django_def by (auto split: option.splits if_splits prod.splits)
  show "detect_fastapi s = Some d \<Longrightarrow> sound_detection RkPython d"
    unfolding detect_fastapi_def Let_def
    by (cases "find (\<lambda>(_, content). str_contains content ''FastAPI'')
             (sort_key fst (files_named_anywhere s [''main.py'', ''app.py'']))") (auto split: if_splits prod.splits)
  show "detect_axum s m = Some d \<Longrightarrow> sound_detection RkRust d"
    unfolding detect_axum_def Let_def by (auto split: if_splits)
  show "detect_workspace s m = Some d \<Longrightarrow> sound_detection RkRust d"
    unfolding detect_workspace_def by (auto split: if_splits)
qed

lemma python_detection:
  "python_detect s = Some d \<Longrightarrow> sound_detection RkPython d"
  "python_detect s = None \<longleftrightarrow>
     \<not> (has_file s ''requirements.txt'' \<or> has_file s ''pyproject.toml'' \<or> has_file s ''setup.py'')"
  using deep_detections(1,2) [of s d]
  by (auto simp: python_detect_def sound_new split: option.splits if_splits)

lemma rust_detection:
  "rust_detect s = Some d \<Longrightarrow> sound_detection RkRust d" "rust_detect s = None \<longleftrightarrow> \<not> has_file s ''Cargo.toml''"
  using deep_detections(3,4) [of s _ d] unfolding has_file_get [of s "''Cargo.toml''"]
  by (auto simp: rust_detect_def sound_new split: option.splits if_splits)

lemma generic_detection:
  "generic_detect s = Some d \<Longrightarrow> sound_detection RkGeneric d" "generic_detect s = None \<longleftrightarrow> \<not> has_dockerfile s"
  using has_dockerfile_path [of s]
  by (auto simp: generic_detect_def sound_new split: option.splits if_splits)

text \<open>
  Detection is total and evidence backed. A project is supported exactly when it has a root \<open>package.json\<close>, a
  project or solution file, a Python manifest, a root \<open>Cargo.toml\<close>, or a Dockerfile with a \<open>FROM\<close>
  line somewhere; the container fallback is used exactly when it has none of the native ones; and the third tier
  is reported exactly with a framework.
\<close>

theorem detect_runtime_total:
  "(case detect_runtime s of
      Ok d \<Rightarrow> (native_manifest s \<or> has_dockerfile s) \<and> ra_detect (adapter_of (dr_kind d)) s = Some d \<and>
        (dr_kind d = RkGeneric \<longleftrightarrow> \<not> native_manifest s) \<and> (dr_tier d = Tier3 \<longleftrightarrow> dr_framework d \<noteq> None)
    | Err e \<Rightarrow> \<not> native_manifest s \<and> \<not> has_dockerfile s \<and>
        e = UnsupportedRuntime ''no recognized manifest or Dockerfile; runtime unsupported''
    | Panic m \<Rightarrow> False)"
  using expo_detection [of s] node_detection [of s] dotnet_detection [of s] python_detection [of s]
    rust_detection [of s] generic_detection [of s]
  unfolding detect_runtime_def native_manifest_def
  by (auto simp: sound_detection_def adapter_defs split: option.split)

text \<open>
  The Dockerfile a detection names need not be the one that makes the project eligible: with two Dockerfiles
  the first by path is reported as evidence, and planned as the Dockerfile of the build, even when only the other
  one has a \<open>FROM\<close> line.
\<close>

theorem generic_detection_names_wrong_file:
  "\<exists>s d path content. detect_runtime s = Ok d \<and> dr_kind d = RkGeneric \<and> dr_evidence d = [path] \<and>
     btm_get s path = Some content \<and> \<not> has_from content \<and>
     (\<exists>cfg. prepare d ProfileProduction 8080 None None docker_default = Ok cfg \<and> cfg_dockerfile cfg = Some path)"
proof -
  define s where "s = [(''a/Dockerfile'', []), (''b/Dockerfile'', ''FROM scratch'')]"
  have d: "detect_runtime s = Ok (detected_new RkGeneric Tier0 [''a/Dockerfile''])" unfolding s_def by code_simp
  have "btm_get s ''a/Dockerfile'' = Some []" "\<not> has_from []" unfolding s_def by code_simp+
  moreover have "\<exists>cfg. prepare (detected_new RkGeneric Tier0 [''a/Dockerfile'']) ProfileProduction 8080 None None docker_default = Ok cfg
      \<and> cfg_dockerfile cfg = Some ''a/Dockerfile''"
    by (simp add: prepare_def docker_default_def limits_validate_def runtime_defaults_def Let_def or_else_def first_of_def)
  ultimately show ?thesis using d by fastforce
qed

end
