(* ===== verification/Manifest_Model.thy ===== *)
theory Manifest_Model
  imports App_Model Runtime_Detect
begin

text \<open>
  The portable \<open>labrys.yaml\<close> manifest: \<open>labrys-core/src/manifest.rs\<close>. The crate \<open>serde_yaml\<close> is the
  parameter \<open>yaml_api\<close>; the theorems are about the manifest value, so they assume nothing of it. Minted identifiers are arguments, those of imported environments a
  function of the environment's name.
\<close>

section \<open>Manifests\<close>

definition manifest_version :: u32 where
  "manifest_version = 1"

record runtime_notes =
  rn_kind :: runtime_kind
  rn_tier :: support_tier
  rn_framework :: "string option"
  rn_dev_command :: "string list"
  rn_prod_command :: "string list"
  rn_health_path :: "string option"

record manifest_environment =
  me_name :: string
  me_kind :: string

record manifest =
  mf_version :: u32
  mf_name :: string
  mf_origin :: origin
  mf_environments :: "manifest_environment list"
  mf_desired_state :: "desired_state option"
  mf_runtime_notes :: "runtime_notes option"

record yaml_api =
  yaml_print :: "manifest \<Rightarrow> string outcome"
  yaml_parse :: "string \<Rightarrow> manifest outcome"

definition notes_commands :: "detected_runtime \<Rightarrow> string list \<times> string list \<times> string option" where
  "notes_commands d =
     (let c = conventions d; a = adapter_of (dr_kind d);
          dev = unwrap_or (map_option fc_dev_command c) (ra_dev_command a);
          prd = unwrap_or (map_option fc_prod_command c) (ra_prod_command a);
          health = Option.bind c fc_health_path
      in case dr_kind d of
           RkGeneric \<Rightarrow> (ra_dev_command a, ra_prod_command a, None)
         | RkNode \<Rightarrow> (ra_dev_command a, ra_prod_command a, ra_health_path a)
         | RkDotNet \<Rightarrow> (ra_dev_command a, ra_prod_command a, ra_health_path a)
         | RkPython \<Rightarrow> (dev, prd, health)
         | RkRust \<Rightarrow> (dev, prd, health)
         | RkExpo \<Rightarrow> (dev, prd, None))"

definition from_detection :: "detected_runtime \<Rightarrow> runtime_notes" where
  "from_detection d =
     (case notes_commands d of (dev_command, prod_command, health_path) \<Rightarrow>
        \<lparr>rn_kind = dr_kind d, rn_tier = dr_tier d, rn_framework = dr_framework d, rn_dev_command = dev_command,
         rn_prod_command = prod_command, rn_health_path = health_path\<rparr>)"

fun manifest_kind :: "environment_kind \<Rightarrow> string" where
  "manifest_kind Development = ''development''"
| "manifest_kind Production = ''production''"
| "manifest_kind (Preview _) = ''preview''"

definition from_application :: "application \<Rightarrow> manifest" where
  "from_application app =
     \<lparr>mf_version = manifest_version, mf_name = app_name app, mf_origin = app_origin app,
      mf_environments = map (\<lambda>env. \<lparr>me_name = env_name env, me_kind = manifest_kind (env_kind env)\<rparr>)
        (app_environments app),
      mf_desired_state = Some (app_desired_state app), mf_runtime_notes = None\<rparr>"

definition to_yaml :: "yaml_api \<Rightarrow> manifest \<Rightarrow> string outcome" where
  "to_yaml Y m = yaml_print Y m"

definition from_yaml :: "yaml_api \<Rightarrow> string \<Rightarrow> manifest outcome" where
  "from_yaml Y yaml =
     outcome_bind (yaml_parse Y yaml) (\<lambda>m.
       if mf_version m \<noteq> manifest_version then Err (UnsupportedVersion (mf_version m) manifest_version)
       else if trim (mf_name m) = [] then Err (InvalidManifest ''manifest name must not be empty'')
       else Ok m)"

definition imported_kind :: "manifest_environment \<Rightarrow> environment_kind" where
  "imported_kind entry =
     (if me_kind entry = ''production'' then Production
      else if me_kind entry = ''preview'' then Preview (me_name entry)
      else Development)"

definition import_environment :: "(string \<Rightarrow> uuid) \<Rightarrow> manifest_environment \<Rightarrow> application \<Rightarrow> application" where
  "import_environment mint entry app =
     (if environment_by_name app (me_name entry) = None
      then app\<lparr>app_environments := app_environments app @
             [environment_new (mint (me_name entry)) (app_id app) (imported_kind entry) (me_name entry)]\<rparr>
      else app)"

definition import_application ::
  "(uuid \<times> uuid \<times> uuid) \<Rightarrow> (string \<Rightarrow> uuid) \<Rightarrow> time \<Rightarrow> manifest option \<Rightarrow> string \<Rightarrow> origin \<Rightarrow> string \<Rightarrow> application" where
  "import_application ids mint now m fallback_name fallback_origin created_by =
     (case ids of (u, dev, prd) \<Rightarrow>
        (case m of
           None \<Rightarrow> application_new u dev prd now fallback_name fallback_origin created_by
         | Some m \<Rightarrow>
             (let app = application_new u dev prd now (mf_name m) (mf_origin m) created_by;
                  app = (case mf_desired_state m of
                      Some desired \<Rightarrow> app\<lparr>app_desired_state := desired,
                        app_observed_state := observed_unknown (ds_version desired) now\<rparr>
                    | None \<Rightarrow> app)
              in fold (import_environment mint) (mf_environments m) app)))"

definition export_manifest_yaml :: "yaml_api \<Rightarrow> application \<Rightarrow> string outcome" where
  "export_manifest_yaml Y app = to_yaml Y (from_application app)"

definition import_manifest_yaml ::
  "yaml_api \<Rightarrow> (uuid \<times> uuid \<times> uuid) \<Rightarrow> (string \<Rightarrow> uuid) \<Rightarrow> time \<Rightarrow> string option \<Rightarrow> string \<Rightarrow> origin \<Rightarrow> string \<Rightarrow>
   application outcome" where
  "import_manifest_yaml Y ids mint now yaml fallback_name fallback_origin created_by =
     (case yaml of
        None \<Rightarrow> Ok (import_application ids mint now None fallback_name fallback_origin created_by)
      | Some text \<Rightarrow>
          outcome_bind (from_yaml Y text) (\<lambda>m.
            Ok (import_application ids mint now (Some m) fallback_name fallback_origin created_by)))"

section \<open>Properties\<close>

text \<open>
  The notes of a manifest reproduce the commands of the plan: whatever was detected, they are the run
  commands \<open>prepare\<close> plans for development and for production. The health path is not reproduced: where
  a Python or Rust project has no conventions the notes have none while the plan uses the adapter's.
\<close>

theorem notes_reproduce_commands:
  "rn_dev_command (from_detection d) = fst (runtime_defaults d) \<and>
   rn_prod_command (from_detection d) = production_command d \<and>
   (rn_health_path (from_detection d) = fst (snd (snd (runtime_defaults d))) \<longleftrightarrow>
      dr_kind d \<notin> {RkPython, RkRust} \<or> Option.bind (conventions d) fc_health_path \<noteq> None \<or>
      (dr_kind d = RkPython \<and> dr_framework d = Some ''django''))"
  by (cases "dr_kind d")
    (auto simp: from_detection_def notes_commands_def runtime_defaults_def production_command_def Let_def adapter_defs
      or_else_def unwrap_or_def split: option.splits)














end
