(* ===== verification/Durable_Queue.thy ===== *)
theory Durable_Queue
  imports Job_Queue
begin

text \<open>
  The durable job queue: \<open>labrys-control-plane/src/jobs.rs\<close>.

  The table \<open>jobs\<close> is the list of its rows, with its columns as the migration declares them; each SQL
  statement is a function on it, run atomically, as PostgreSQL runs a statement under its row locks.
  \<open>FOR UPDATE SKIP LOCKED\<close> makes the rows other transactions hold at that moment an argument of the claim;
  rows that tie in the order of a query come in table order.
  The policy column is stored through serde and kept as the policy; \<open>JobId::new\<close>, the instants and the
  parser of identifiers are arguments. A panic inside a transaction rolls it back.
\<close>

section \<open>Rows\<close>

record job_row =
  jr_id :: string
  jr_target :: string
  jr_action :: string
  jr_key :: string
  jr_status :: string
  jr_attempts :: int
  jr_policy :: retry_policy
  jr_next_attempt_at :: time
  jr_last_error :: "string option"
  jr_lease_owner :: "string option"
  jr_lease_expires_at :: "time option"
  jr_enqueued_at :: time
  jr_updated_at :: time

type_synonym job_table = "job_row list"

record claimed_job =
  cj_job :: job
  cj_lease_owner :: string
  cj_lease_expires_at :: time

definition parse_job_id :: "(string \<Rightarrow> uuid option) \<Rightarrow> string \<Rightarrow> job_id cp_outcome" where
  "parse_job_id parse t =
     (case job_id_from_str parse t of
        Inr i \<Rightarrow> CpOk i
      | Inl _ \<Rightarrow> CpErr (MappingError (''invalid job id '' @ t)))"

definition action_from_name :: "string \<Rightarrow> job_action cp_outcome" where
  "action_from_name name =
     (if name = ''provision'' then CpOk ActProvision
      else if name = ''update'' then CpOk ActUpdate
      else if name = ''rollout'' then CpOk ActRollout
      else if name = ''verify'' then CpOk ActVerify
      else if name = ''delete'' then CpOk ActDelete
      else CpErr (MappingError (''unknown job action '' @ name)))"

fun status_name :: "job_status \<Rightarrow> string" where
  "status_name Queued = ''queued''"
| "status_name Paused = ''paused''"
| "status_name Running = ''running''"
| "status_name Succeeded = ''succeeded''"
| "status_name Dead = ''dead''"

definition status_from_name :: "string \<Rightarrow> job_status cp_outcome" where
  "status_from_name name =
     (if name = ''queued'' then CpOk Queued
      else if name = ''paused'' then CpOk Paused
      else if name = ''running'' then CpOk Running
      else if name = ''succeeded'' then CpOk Succeeded
      else if name = ''dead'' then CpOk Dead
      else CpErr (MappingError (''unknown job status '' @ name)))"

definition decode_idempotency_key :: "string \<Rightarrow> idempotency_key" where
  "decode_idempotency_key stored = IdempotencyKey stored"

fun key_as_str :: "idempotency_key \<Rightarrow> string" where
  "key_as_str (IdempotencyKey s) = s"

definition job_from_row :: "(string \<Rightarrow> uuid option) \<Rightarrow> job_row \<Rightarrow> job cp_outcome" where
  "job_from_row parse r =
     cp_bind (parse_job_id parse (jr_id r)) (\<lambda>i.
     cp_bind (action_from_name (jr_action r)) (\<lambda>action.
     cp_bind (status_from_name (jr_status r)) (\<lambda>status.
       CpOk \<lparr>job_ident = i, job_target = jr_target r, job_act = action,
             job_key = decode_idempotency_key (jr_key r), job_state = status,
             job_attempts = of_int (jr_attempts r), job_policy = jr_policy r,
             job_next_attempt_at = jr_next_attempt_at r, job_last_error = jr_last_error r,
             job_enqueued_at = jr_enqueued_at r, job_updated_at = jr_updated_at r\<rparr>)))"

section \<open>Statements\<close>

text \<open>\<open>UPDATE ... WHERE\<close>, and the number of rows it affects.\<close>

definition sql_update :: "(job_row \<Rightarrow> bool) \<Rightarrow> (job_row \<Rightarrow> job_row) \<Rightarrow> job_table \<Rightarrow> job_table" where
  "sql_update P f T = map (\<lambda>r. if P r then f r else r) T"

definition rows_affected :: "(job_row \<Rightarrow> bool) \<Rightarrow> job_table \<Rightarrow> nat" where
  "rows_affected P T = length (filter P T)"

definition inserted_row :: "uuid \<Rightarrow> string \<Rightarrow> job_action \<Rightarrow> u64 \<Rightarrow> retry_policy \<Rightarrow> time \<Rightarrow> job_row" where
  "inserted_row new_uuid target action version policy at =
     \<lparr>jr_id = job_id_display (JobId new_uuid), jr_target = target, jr_action = job_action_as_str action,
      jr_key = key_as_str (idempotency_key_new target action version), jr_status = ''queued'',
      jr_attempts = 0, jr_policy = policy, jr_next_attempt_at = at, jr_last_error = None,
      jr_lease_owner = None, jr_lease_expires_at = None, jr_enqueued_at = at, jr_updated_at = at\<rparr>"

definition pg_enqueue ::
  "(string \<Rightarrow> uuid option) \<Rightarrow> uuid \<Rightarrow> job_table \<Rightarrow> string \<Rightarrow> job_action \<Rightarrow> u64 \<Rightarrow> retry_policy \<Rightarrow> time \<Rightarrow>
   job_table \<times> enqueue_outcome cp_outcome" where
  "pg_enqueue parse new_uuid T target action version policy at =
     (let key = key_as_str (idempotency_key_new target action version); i = JobId new_uuid in
      case find (\<lambda>r. jr_key r = key) T of
        Some existing \<Rightarrow> (T, cp_bind (parse_job_id parse (jr_id existing)) (\<lambda>j. CpOk (Duplicate j)))
      | None \<Rightarrow>
          if list_ex (\<lambda>r. jr_id r = job_id_display i) T
          then (T, CpErr (DatabaseError ''duplicate key value violates unique constraint''))
          else (T @ [inserted_row new_uuid target action version policy at],
                CpOk (Enqueued i)))"

definition next_candidate :: "job_table \<Rightarrow> time \<Rightarrow> string list \<Rightarrow> job_row option" where
  "next_candidate T now locked =
     min_by_key (\<lambda>r. (jr_next_attempt_at r, jr_enqueued_at r))
       (filter (\<lambda>r. jr_status r = ''queued'' \<and> jr_next_attempt_at r \<le> now \<and> jr_id r \<notin> set locked) T)"

definition claimed_row :: "string \<Rightarrow> time \<Rightarrow> time \<Rightarrow> job_row \<Rightarrow> job_row" where
  "claimed_row worker_id now expires r =
     r\<lparr>jr_status := ''running'', jr_attempts := jr_attempts r + 1, jr_lease_owner := Some worker_id,
       jr_lease_expires_at := Some expires, jr_updated_at := now\<rparr>"

definition i32_max :: int where
  "i32_max = 2 ^ 31 - 1"

definition pg_claim_next ::
  "(string \<Rightarrow> uuid option) \<Rightarrow> chrono_api \<Rightarrow> job_table \<Rightarrow> string list \<Rightarrow> string \<Rightarrow> time \<Rightarrow> duration \<Rightarrow>
   job_table \<times> claimed_job option cp_outcome" where
  "pg_claim_next parse C T locked worker_id now lease =
     (case time_plus C now lease of
        None \<Rightarrow> (T, CpPanic ''time out of bounds'')
      | Some expires \<Rightarrow>
          (case next_candidate T now locked of
             None \<Rightarrow> (T, CpOk None)
           | Some r \<Rightarrow>
               if jr_attempts r \<ge> i32_max then (T, CpErr (DatabaseError ''integer out of range''))
               else
                 (case job_from_row parse (claimed_row worker_id now expires r) of
                    CpOk job \<Rightarrow>
                      (sql_update (\<lambda>x. jr_id x = jr_id r) (claimed_row worker_id now expires) T,
                       CpOk (Some \<lparr>cj_job = job, cj_lease_owner = worker_id, cj_lease_expires_at = expires\<rparr>))
                  | CpErr e \<Rightarrow> (T, CpErr e)
                  | CpPanic m \<Rightarrow> (T, CpPanic m))))"

definition leased_to :: "job_id \<Rightarrow> string \<Rightarrow> job_row \<Rightarrow> bool" where
  "leased_to i worker_id r =
     (jr_id r = job_id_display i \<and> jr_status r = ''running'' \<and> jr_lease_owner r = Some worker_id)"

definition not_leased_error :: "job_id \<Rightarrow> string \<Rightarrow> control_plane_error" where
  "not_leased_error i worker_id =
     JobStateError (''job '' @ job_id_display i @ '' is not running under worker '' @ worker_id)"

definition completed_row :: "time \<Rightarrow> job_row \<Rightarrow> job_row" where
  "completed_row now r =
     r\<lparr>jr_status := ''succeeded'', jr_last_error := None, jr_lease_owner := None,
       jr_lease_expires_at := None, jr_updated_at := now\<rparr>"

definition pg_complete :: "job_table \<Rightarrow> job_id \<Rightarrow> string \<Rightarrow> time \<Rightarrow> job_table \<times> unit cp_outcome" where
  "pg_complete T i worker_id now =
     (let T' = sql_update (leased_to i worker_id) (completed_row now) T
      in if rows_affected (leased_to i worker_id) T = 0 then (T', CpErr (not_leased_error i worker_id))
         else (T', CpOk ()))"

definition failed_row :: "job_status \<Rightarrow> string \<Rightarrow> time \<Rightarrow> job_row \<Rightarrow> job_row" where
  "failed_row status error next_attempt_at r =
     r\<lparr>jr_status := status_name status, jr_last_error := Some error, jr_next_attempt_at := next_attempt_at,
       jr_lease_owner := None, jr_lease_expires_at := None, jr_updated_at := next_attempt_at\<rparr>"

definition pg_fail ::
  "chrono_api \<Rightarrow> job_table \<Rightarrow> job_id \<Rightarrow> string \<Rightarrow> string \<Rightarrow> time \<Rightarrow> job_table \<times> job_status cp_outcome" where
  "pg_fail C T i worker_id error now =
     (case find (leased_to i worker_id) T of
        None \<Rightarrow> (T, CpErr (not_leased_error i worker_id))
      | Some r \<Rightarrow>
          (let attempts = of_int (max (jr_attempts r) 1) :: u32 in
           case redact_guard ''job.last_error'' error [] of
             Inl e \<Rightarrow> (T, CpErr e)
           | Inr redacted \<Rightarrow>
               if attempts \<ge> rp_max_attempts (jr_policy r)
               then (sql_update (\<lambda>x. jr_id x = job_id_display i) (failed_row Dead redacted now) T, CpOk Dead)
               else
                 (case delay_for C (jr_policy r) attempts of
                    None \<Rightarrow> (T, CpPanic ''duration out of bounds'')
                  | Some delay \<Rightarrow>
                      (case time_plus C now delay of
                         None \<Rightarrow> (T, CpPanic ''time out of bounds'')
                       | Some t \<Rightarrow>
                           (sql_update (\<lambda>x. jr_id x = job_id_display i) (failed_row Queued redacted t) T,
                            CpOk Queued)))))"

definition in_state :: "job_id \<Rightarrow> string \<Rightarrow> job_row \<Rightarrow> bool" where
  "in_state i status r = (jr_id r = job_id_display i \<and> jr_status r = status)"

definition moved_row :: "string \<Rightarrow> time \<Rightarrow> bool \<Rightarrow> job_row \<Rightarrow> job_row" where
  "moved_row dest now reset_next r =
     r\<lparr>jr_status := dest, jr_next_attempt_at := (if reset_next then now else jr_next_attempt_at r),
       jr_updated_at := now\<rparr>"

definition pg_transition ::
  "job_table \<Rightarrow> job_id \<Rightarrow> string \<Rightarrow> string \<Rightarrow> time \<Rightarrow> bool \<Rightarrow> job_table \<times> unit cp_outcome" where
  "pg_transition T i source dest now reset_next =
     (let T' = sql_update (in_state i source) (moved_row dest now reset_next) T
      in if rows_affected (in_state i source) T = 0
         then (T', CpErr (JobStateError (''cannot move job '' @ job_id_display i @ '' from '' @ source @ '' to '' @ dest)))
         else (T', CpOk ()))"

definition pg_pause :: "job_table \<Rightarrow> job_id \<Rightarrow> time \<Rightarrow> job_table \<times> unit cp_outcome" where
  "pg_pause T i now = pg_transition T i ''queued'' ''paused'' now False"

definition pg_resume :: "job_table \<Rightarrow> job_id \<Rightarrow> time \<Rightarrow> job_table \<times> unit cp_outcome" where
  "pg_resume T i now = pg_transition T i ''paused'' ''queued'' now True"

definition requeued_row :: "time \<Rightarrow> job_row \<Rightarrow> job_row" where
  "requeued_row now r =
     r\<lparr>jr_status := ''queued'', jr_attempts := 0, jr_next_attempt_at := now, jr_last_error := None,
       jr_lease_owner := None, jr_lease_expires_at := None, jr_updated_at := now\<rparr>"

definition pg_requeue :: "job_table \<Rightarrow> job_id \<Rightarrow> time \<Rightarrow> job_table \<times> unit cp_outcome" where
  "pg_requeue T i now =
     (let T' = sql_update (in_state i ''dead'') (requeued_row now) T
      in if rows_affected (in_state i ''dead'') T = 0
         then (T', CpErr (JobStateError (''only dead jobs can be requeued; job '' @ job_id_display i @ '' is not dead'')))
         else (T', CpOk ()))"

definition lease_expired :: "time \<Rightarrow> job_row \<Rightarrow> bool" where
  "lease_expired now r =
     (jr_status r = ''running'' \<and> (case jr_lease_expires_at r of Some t \<Rightarrow> t \<le> now | None \<Rightarrow> False))"

fun parse_job_ids :: "(string \<Rightarrow> uuid option) \<Rightarrow> string list \<Rightarrow> job_id list cp_outcome" where
  "parse_job_ids parse [] = CpOk []"
| "parse_job_ids parse (t # ts) =
     cp_bind (parse_job_id parse t) (\<lambda>i. cp_bind (parse_job_ids parse ts) (\<lambda>is. CpOk (i # is)))"

definition recovered_row :: "time \<Rightarrow> job_row \<Rightarrow> job_row" where
  "recovered_row now r =
     r\<lparr>jr_status := ''queued'', jr_lease_owner := None, jr_lease_expires_at := None,
       jr_last_error := Some ''lease expired; job recovered for re-claim'', jr_updated_at := now\<rparr>"

definition pg_recover_expired_leases ::
  "(string \<Rightarrow> uuid option) \<Rightarrow> job_table \<Rightarrow> time \<Rightarrow> job_table \<times> job_id list cp_outcome" where
  "pg_recover_expired_leases parse T now =
     (sql_update (lease_expired now) (recovered_row now) T,
      parse_job_ids parse (map jr_id (filter (lease_expired now) T)))"

definition pg_get :: "(string \<Rightarrow> uuid option) \<Rightarrow> job_table \<Rightarrow> job_id \<Rightarrow> job cp_outcome" where
  "pg_get parse T i =
     (case find (\<lambda>r. jr_id r = job_id_display i) T of
        None \<Rightarrow> CpErr (NotFoundError (job_id_display i))
      | Some r \<Rightarrow> job_from_row parse r)"

definition pg_latest_for_target :: "(string \<Rightarrow> uuid option) \<Rightarrow> job_table \<Rightarrow> string \<Rightarrow> job option cp_outcome" where
  "pg_latest_for_target parse T target =
     (case min_by_key (\<lambda>r. (- jr_updated_at r, - jr_enqueued_at r)) (filter (\<lambda>r. jr_target r = target) T) of
        None \<Rightarrow> CpOk None
      | Some r \<Rightarrow> cp_bind (job_from_row parse r) (\<lambda>j. CpOk (Some j)))"

definition pg_dead_letters :: "(string \<Rightarrow> uuid option) \<Rightarrow> job_table \<Rightarrow> job_id list cp_outcome" where
  "pg_dead_letters parse T =
     parse_job_ids parse (map jr_id (sort_key jr_updated_at (filter (\<lambda>r. jr_status r = ''dead'') T)))"

definition pg_is_quiet :: "job_table \<Rightarrow> bool" where
  "pg_is_quiet T = (length (filter (\<lambda>r. jr_status r \<in> {''queued'', ''paused'', ''running''}) T) = 0)"


section \<open>The table invariant\<close>

text \<open>
  The constraints of the migration (primary key, unique idempotency key, the two \<open>CHECK\<close>s) and what the
  statements keep on top of them: a lease is held exactly by the running rows.
\<close>

definition row_ok :: "job_row \<Rightarrow> bool" where
  "row_ok r \<longleftrightarrow>
     jr_status r \<in> {''queued'', ''paused'', ''running'', ''succeeded'', ''dead''} \<and>
     jr_action r \<in> range job_action_as_str \<and> 0 \<le> jr_attempts r \<and> jr_attempts r \<le> i32_max \<and>
     (jr_status r = ''running'' \<longleftrightarrow> jr_lease_owner r \<noteq> None) \<and>
     (jr_status r = ''running'' \<longleftrightarrow> jr_lease_expires_at r \<noteq> None)"

definition table_ok :: "job_table \<Rightarrow> bool" where
  "table_ok T \<longleftrightarrow> distinct (map jr_id T) \<and> distinct (map jr_key T) \<and> (\<forall>r \<in> set T. row_ok r)"

lemma table_ok_Nil [simp]: "table_ok []"
  by (simp add: table_ok_def)

lemma table_ok_id: "table_ok T \<Longrightarrow> r \<in> set T \<Longrightarrow> r' \<in> set T \<Longrightarrow> jr_id r = jr_id r' \<Longrightarrow> r = r'"
  by (auto simp: table_ok_def distinct_map dest: inj_onD)

lemma table_ok_key: "table_ok T \<Longrightarrow> r \<in> set T \<Longrightarrow> r' \<in> set T \<Longrightarrow> jr_key r = jr_key r' \<Longrightarrow> r = r'"
  by (auto simp: table_ok_def distinct_map dest: inj_onD)

lemma table_ok_row: "table_ok T \<Longrightarrow> r \<in> set T \<Longrightarrow> row_ok r"
  by (simp add: table_ok_def)

lemma sql_update_keeps: "r \<in> set T \<Longrightarrow> \<not> P r \<Longrightarrow> r \<in> set (sql_update P f T)"
  by (auto simp: sql_update_def intro: rev_image_eqI)

lemma sql_update_new: "r' \<in> set (sql_update P f T) \<Longrightarrow> r' \<in> set T \<or> (\<exists>r \<in> set T. P r \<and> r' = f r)"
  by (auto simp: sql_update_def)

lemma sql_update_none: "(\<And>r. r \<in> set T \<Longrightarrow> \<not> P r) \<Longrightarrow> sql_update P f T = T"
  by (simp add: sql_update_def map_idI)

lemma rows_affected_0: "rows_affected P T = 0 \<longleftrightarrow> (\<forall>r \<in> set T. \<not> P r)"
  by (simp add: rows_affected_def filter_empty_conv)

text \<open>
  A statement that rewrites the rows it selects, one by one: it keeps the identifier, the key and the
  action of a row, and the row's consistency.
\<close>

locale row_statement =
  fixes sel :: "job_row \<Rightarrow> bool" and upd :: "job_row \<Rightarrow> job_row"
  assumes upd_id: "jr_id (upd r) = jr_id r"
    and upd_key: "jr_key (upd r) = jr_key r"
    and upd_ok: "row_ok r \<Longrightarrow> sel r \<Longrightarrow> row_ok (upd r)"
begin

lemma columns:
  "map jr_id (sql_update sel upd T) = map jr_id T" "map jr_key (sql_update sel upd T) = map jr_key T"
  by (auto simp: sql_update_def upd_id upd_key)

lemma keeps_table: "table_ok T \<Longrightarrow> table_ok (sql_update sel upd T)"
  using upd_ok by (auto simp: table_ok_def columns dest: sql_update_new)

lemma keeps_keys: "r \<in> set T \<Longrightarrow> \<exists>r' \<in> set (sql_update sel upd T). jr_id r' = jr_id r \<and> jr_key r' = jr_key r"
  by (rule bexI [of _ "if sel r then upd r else r"]) (auto simp: sql_update_def upd_id upd_key)

end

lemmas row_defs = completed_row_def failed_row_def moved_row_def requeued_row_def recovered_row_def
  claimed_row_def

interpretation complete_stmt: row_statement "leased_to i w" "completed_row now" for i w now
  by unfold_locales (auto simp: row_ok_def completed_row_def)

interpretation fail_stmt: row_statement "\<lambda>r. jr_id r = k" "failed_row (if dead then Dead else Queued) e t" for k dead e t
  by unfold_locales (auto simp: row_ok_def failed_row_def)

interpretation pause_stmt: row_statement "in_state i ''queued''" "moved_row ''paused'' now b" for i now b
  by unfold_locales (auto simp: row_ok_def moved_row_def in_state_def)

interpretation resume_stmt: row_statement "in_state i ''paused''" "moved_row ''queued'' now b" for i now b
  by unfold_locales (auto simp: row_ok_def moved_row_def in_state_def)

interpretation requeue_stmt: row_statement "in_state i ''dead''" "requeued_row now" for i now
  by unfold_locales (auto simp: row_ok_def requeued_row_def i32_max_def)

interpretation recover_stmt: row_statement "lease_expired now" "recovered_row now" for now
  by unfold_locales (auto simp: row_ok_def recovered_row_def)

interpretation claim_stmt: row_statement "\<lambda>r. jr_id r = k \<and> jr_attempts r < i32_max" "claimed_row w now e" for k w now e
  by unfold_locales (auto simp: row_ok_def claimed_row_def)

lemmas failed_dead = fail_stmt.keeps_table [where dead = True, unfolded if_True]
  and failed_queued = fail_stmt.keeps_table [where dead = False, unfolded if_False]

section \<open>Histories\<close>

datatype durable_op =
    DEnqueue uuid string job_action u64 retry_policy time
  | DClaim "string list" string time duration
  | DComplete job_id string time
  | DFail job_id string string time
  | DPause job_id time
  | DResume job_id time
  | DRequeue job_id time
  | DRecover time

fun durable_exec :: "(string \<Rightarrow> uuid option) \<Rightarrow> chrono_api \<Rightarrow> job_table \<Rightarrow> durable_op \<Rightarrow> job_table" where
  "durable_exec parse C T (DEnqueue u target action version policy at) =
     fst (pg_enqueue parse u T target action version policy at)"
| "durable_exec parse C T (DClaim locked w now lease) = fst (pg_claim_next parse C T locked w now lease)"
| "durable_exec parse C T (DComplete i w now) = fst (pg_complete T i w now)"
| "durable_exec parse C T (DFail i w e now) = fst (pg_fail C T i w e now)"
| "durable_exec parse C T (DPause i now) = fst (pg_pause T i now)"
| "durable_exec parse C T (DResume i now) = fst (pg_resume T i now)"
| "durable_exec parse C T (DRequeue i now) = fst (pg_requeue T i now)"
| "durable_exec parse C T (DRecover now) = fst (pg_recover_expired_leases parse T now)"

fun durable_run :: "(string \<Rightarrow> uuid option) \<Rightarrow> chrono_api \<Rightarrow> job_table \<Rightarrow> durable_op list \<Rightarrow> job_table" where
  "durable_run parse C T [] = T"
| "durable_run parse C T (x # xs) = durable_run parse C (durable_exec parse C T x) xs"

lemma durable_run_append: "durable_run parse C T (xs @ ys) = durable_run parse C (durable_run parse C T xs) ys"
  by (induction xs arbitrary: T) simp_all

lemma fst_if: "fst (if b then p else q) = (if b then fst p else fst q)"
  by simp

lemma fst_pg_complete: "fst (pg_complete T i w now) = sql_update (leased_to i w) (completed_row now) T"
  by (simp add: pg_complete_def Let_def)

lemma fst_pg_pause: "fst (pg_pause T i now) = sql_update (in_state i ''queued'') (moved_row ''paused'' now False) T"
  by (simp add: pg_pause_def pg_transition_def Let_def)

lemma fst_pg_resume: "fst (pg_resume T i now) = sql_update (in_state i ''paused'') (moved_row ''queued'' now True) T"
  by (simp add: pg_resume_def pg_transition_def Let_def)

lemma fst_pg_requeue: "fst (pg_requeue T i now) = sql_update (in_state i ''dead'') (requeued_row now) T"
  by (simp add: pg_requeue_def Let_def)

lemma fst_pg_recover:
  "fst (pg_recover_expired_leases parse T now) = sql_update (lease_expired now) (recovered_row now) T"
  by (simp add: pg_recover_expired_leases_def)

lemmas statement_results = fst_pg_complete fst_pg_pause fst_pg_resume fst_pg_requeue fst_pg_recover

text \<open>The candidate of a claim, and the three shapes a claim, a failure and an enqueue can have.\<close>

lemma next_candidate_Some:
  assumes "next_candidate T now locked = Some r"
  shows "r \<in> set T" "jr_status r = ''queued''" "jr_next_attempt_at r \<le> now" "jr_id r \<notin> set locked"
    and "r' \<in> set T \<Longrightarrow> jr_status r' = ''queued'' \<Longrightarrow> jr_next_attempt_at r' \<le> now \<Longrightarrow> jr_id r' \<notin> set locked \<Longrightarrow>
      (jr_next_attempt_at r, jr_enqueued_at r) \<le> (jr_next_attempt_at r', jr_enqueued_at r')"
  using min_by_key_Some [OF assms [unfolded next_candidate_def]] by auto

lemma next_candidate_None:
  "next_candidate T now locked = None \<longleftrightarrow>
     (\<forall>r \<in> set T. jr_status r = ''queued'' \<and> jr_next_attempt_at r \<le> now \<longrightarrow> jr_id r \<in> set locked)"
  by (auto simp: next_candidate_def filter_empty_conv)

lemma pg_claim_next_cases:
  obtains (unchanged) "fst (pg_claim_next parse C T locked w now lease) = T"
  | (claimed) r e where "next_candidate T now locked = Some r" "jr_attempts r < i32_max"
      "time_plus C now lease = Some e"
      "fst (pg_claim_next parse C T locked w now lease) = sql_update (\<lambda>x. jr_id x = jr_id r) (claimed_row w now e) T"
proof (cases "time_plus C now lease")
  case None
  then show ?thesis by (intro unchanged) (simp add: pg_claim_next_def)
next
  case e: (Some e)
  show ?thesis
  proof (cases "next_candidate T now locked")
    case None
    with e show ?thesis by (intro unchanged) (simp add: pg_claim_next_def)
  next
    case (Some r)
    with e show ?thesis
      by (cases "job_from_row parse (claimed_row w now e r)"; cases "jr_attempts r < i32_max")
        (auto intro: unchanged claimed simp: pg_claim_next_def)
  qed
qed

lemma pg_fail_cases:
  obtains (unchanged) "fst (pg_fail C T i w error now) = T"
  | (failed) r e t dead where "r \<in> set T" "leased_to i w r"
      "fst (pg_fail C T i w error now) =
         sql_update (\<lambda>x. jr_id x = job_id_display i) (failed_row (if dead then Dead else Queued) e t) T"
proof (cases "find (leased_to i w) T")
  case None
  then show ?thesis by (intro unchanged) (simp add: pg_fail_def)
next
  case (Some r)
  then have r: "r \<in> set T" "leased_to i w r" by (auto simp: find_Some_iff)
  have "fst (pg_fail C T i w error now) = T \<or>
    (\<exists>e t dead. fst (pg_fail C T i w error now) =
         sql_update (\<lambda>x. jr_id x = job_id_display i) (failed_row (if dead then Dead else Queued) e t) T)"
    unfolding pg_fail_def Some option.case Let_def
    by (auto split: sum.splits option.splits intro: exI [of _ True] exI [of _ False])
  then show ?thesis using unchanged failed [OF r] by blast
qed

lemma pg_enqueue_cases:
  obtains (unchanged) "fst (pg_enqueue parse u T target action version policy at) = T"
  | (inserted) "\<forall>r \<in> set T. jr_key r \<noteq> key_as_str (idempotency_key_new target action version)"
      "\<forall>r \<in> set T. jr_id r \<noteq> job_id_display (JobId u)"
      "fst (pg_enqueue parse u T target action version policy at) =
         T @ [inserted_row u target action version policy at]"
proof (cases "find (\<lambda>r. jr_key r = key_as_str (idempotency_key_new target action version)) T")
  case (Some r)
  then show ?thesis by (intro unchanged) (simp add: pg_enqueue_def Let_def)
next
  case None
  then have fresh: "\<forall>r \<in> set T. jr_key r \<noteq> key_as_str (idempotency_key_new target action version)"
    by (auto simp: find_None_iff)
  show ?thesis
  proof (cases "list_ex (\<lambda>r. jr_id r = job_id_display (JobId u)) T")
    case True
    with None show ?thesis by (intro unchanged) (simp add: pg_enqueue_def Let_def)
  next
    case False
    with None show ?thesis by (intro inserted fresh) (auto simp: pg_enqueue_def Let_def list_ex_iff)
  qed
qed

lemma inserted_row_ok [simp]: "row_ok (inserted_row u target action version policy at)"
  by (simp add: row_ok_def inserted_row_def i32_max_def)

lemma inserted_row_sel [simp]:
  "jr_id (inserted_row u target action version policy at) = job_id_display (JobId u)"
  "jr_key (inserted_row u target action version policy at) = key_as_str (idempotency_key_new target action version)"
  by (simp_all add: inserted_row_def)

lemma durable_exec_ok:
  assumes "table_ok T"
  shows "table_ok (durable_exec parse C T x)"
proof (cases x)
  case (DEnqueue u target action version policy at)
  show ?thesis unfolding DEnqueue durable_exec.simps
    by (rule pg_enqueue_cases [of parse u T target action version policy at])
      (use assms in \<open>auto simp: table_ok_def\<close>)
next
  case (DClaim locked w now lease)
  show ?thesis unfolding DClaim durable_exec.simps
  proof (rule pg_claim_next_cases [of parse C T locked w now lease])
    fix r e
    assume r: "next_candidate T now locked = Some r" "jr_attempts r < i32_max"
      and eq: "fst (pg_claim_next parse C T locked w now lease) =
        sql_update (\<lambda>x. jr_id x = jr_id r) (claimed_row w now e) T"
    have "sql_update (\<lambda>x. jr_id x = jr_id r) (claimed_row w now e) T =
        sql_update (\<lambda>x. jr_id x = jr_id r \<and> jr_attempts x < i32_max) (claimed_row w now e) T"
      unfolding sql_update_def using table_ok_id [OF assms _ next_candidate_Some(1) [OF r(1)]] r(2)
      by (intro map_cong) auto
    then show "table_ok (fst (pg_claim_next parse C T locked w now lease))"
      using claim_stmt.keeps_table [OF assms] eq by simp
  qed (use assms in simp)
next
  case (DFail i w e now)
  show ?thesis unfolding DFail durable_exec.simps
    by (rule pg_fail_cases [of C T i w e now]) (use assms fail_stmt.keeps_table [OF assms] in simp_all)
qed (use assms in \<open>simp_all add: statement_results complete_stmt.keeps_table pause_stmt.keeps_table
    resume_stmt.keeps_table requeue_stmt.keeps_table recover_stmt.keeps_table\<close>)

lemma durable_run_ok: "table_ok T \<Longrightarrow> table_ok (durable_run parse C T xs)"
  by (induction xs arbitrary: T) (simp_all add: durable_exec_ok)

text \<open>The rows an operation may rewrite; every other row survives it as it is.\<close>

fun touches :: "durable_op \<Rightarrow> job_row \<Rightarrow> bool" where
  "touches (DEnqueue u target action version policy at) r = False"
| "touches (DClaim locked w now lease) r = (jr_status r = ''queued'' \<and> jr_next_attempt_at r \<le> now)"
| "touches (DComplete i w now) r = leased_to i w r"
| "touches (DFail i w e now) r = leased_to i w r"
| "touches (DPause i now) r = in_state i ''queued'' r"
| "touches (DResume i now) r = in_state i ''paused'' r"
| "touches (DRequeue i now) r = in_state i ''dead'' r"
| "touches (DRecover now) r = lease_expired now r"

lemma untouched_row:
  assumes "table_ok T" "r \<in> set T" "\<not> touches x r"
  shows "r \<in> set (durable_exec parse C T x)"
proof (cases x)
  case (DEnqueue u target action version policy at)
  show ?thesis unfolding DEnqueue durable_exec.simps
    by (rule pg_enqueue_cases [of parse u T target action version policy at]) (use assms in simp_all)
next
  case (DClaim locked w now lease)
  show ?thesis unfolding DClaim durable_exec.simps
  proof (rule pg_claim_next_cases [of parse C T locked w now lease])
    fix r0 e
    assume r0: "next_candidate T now locked = Some r0"
      and eq: "fst (pg_claim_next parse C T locked w now lease) =
        sql_update (\<lambda>x. jr_id x = jr_id r0) (claimed_row w now e) T"
    from next_candidate_Some [OF r0] have "jr_id r \<noteq> jr_id r0"
      using assms(3) DClaim table_ok_id [OF assms(1,2), of r0] by auto
    then show "r \<in> set (fst (pg_claim_next parse C T locked w now lease))"
      unfolding eq by (intro sql_update_keeps assms)
  qed (use assms in simp)
next
  case (DFail i w e now)
  show ?thesis unfolding DFail durable_exec.simps
  proof (rule pg_fail_cases [of C T i w e now])
    fix r0 e' t dead
    assume r0: "r0 \<in> set T" "leased_to i w r0"
      and eq: "fst (pg_fail C T i w e now) =
        sql_update (\<lambda>x. jr_id x = job_id_display i) (failed_row (if dead then Dead else Queued) e' t) T"
    have "jr_id r \<noteq> job_id_display i"
      using assms(3) DFail r0 table_ok_id [OF assms(1,2) r0(1)] by (auto simp: leased_to_def)
    then show "r \<in> set (fst (pg_fail C T i w e now))" unfolding eq by (intro sql_update_keeps assms)
  qed (use assms in simp)
qed (use assms in \<open>simp_all add: statement_results sql_update_keeps\<close>)

lemma untouched_run:
  assumes "table_ok T" "r \<in> set T" "\<And>x. x \<in> set xs \<Longrightarrow> \<not> touches x r"
  shows "r \<in> set (durable_run parse C T xs)"
  using assms
  by (induction xs arbitrary: T) (simp_all add: durable_exec_ok untouched_row)

text \<open>Keys and identifiers stay paired: a row, once inserted, answers for its key in every later table.\<close>

lemma exec_keeps_keys:
  assumes "r \<in> set T"
  shows "\<exists>r' \<in> set (durable_exec parse C T x). jr_id r' = jr_id r \<and> jr_key r' = jr_key r"
proof (cases x)
  case (DEnqueue u target action version policy at)
  show ?thesis unfolding DEnqueue durable_exec.simps
    by (rule pg_enqueue_cases [of parse u T target action version policy at]) (use assms in auto)
next
  case (DClaim locked w now lease)
  have upd: "\<exists>r' \<in> set (sql_update P (claimed_row w now e) T). jr_id r' = jr_id r \<and> jr_key r' = jr_key r" for P e
    using assms by (intro bexI [of _ "if P r then claimed_row w now e r else r"])
      (auto simp: sql_update_def claimed_row_def)
  show ?thesis unfolding DClaim durable_exec.simps
    by (rule pg_claim_next_cases [of parse C T locked w now lease]) (use assms upd in auto)
next
  case (DFail i w e now)
  show ?thesis unfolding DFail durable_exec.simps
    by (rule pg_fail_cases [of C T i w e now]) (use assms fail_stmt.keeps_keys [OF assms] in auto)
qed (use assms in \<open>simp_all only: durable_exec.simps statement_results complete_stmt.keeps_keys pause_stmt.keeps_keys
    resume_stmt.keeps_keys requeue_stmt.keeps_keys recover_stmt.keeps_keys\<close>)

lemma run_keeps_keys:
  "r \<in> set T \<Longrightarrow> \<exists>r' \<in> set (durable_run parse C T xs). jr_id r' = jr_id r \<and> jr_key r' = jr_key r"
proof (induction xs arbitrary: T r)
  case (Cons x xs)
  obtain r1 where "r1 \<in> set (durable_exec parse C T x)" "jr_id r1 = jr_id r" "jr_key r1 = jr_key r"
    using exec_keeps_keys [OF Cons.prems] by blast
  with Cons.IH show ?case by fastforce
qed auto

text \<open>Only a claim by the worker itself makes a row its own.\<close>

lemma not_leased_moved [simp]:
  "\<not> leased_to i w (completed_row now r)" "\<not> leased_to i w (requeued_row now r)"
  "\<not> leased_to i w (recovered_row now r)" "\<not> leased_to i w (moved_row ''paused'' now b r)"
  "\<not> leased_to i w (moved_row ''queued'' now b r)"
  "\<not> leased_to i w (failed_row (if dead then Dead else Queued) e t r)"
  by (simp_all add: leased_to_def row_defs)

lemma not_leased_claimed: "w' \<noteq> w \<Longrightarrow> \<not> leased_to i w (claimed_row w' now e r)"
  by (simp add: leased_to_def claimed_row_def)

lemma not_leased_update:
  assumes "\<forall>r \<in> set T. \<not> leased_to i w r" "\<And>r. \<not> leased_to i w (f r)"
  shows "\<forall>r \<in> set (sql_update P f T). \<not> leased_to i w r"
  using assms by (auto dest!: sql_update_new)

definition claims_for :: "string \<Rightarrow> durable_op \<Rightarrow> bool" where
  "claims_for w x = (case x of DClaim _ w' _ _ \<Rightarrow> w' = w | _ \<Rightarrow> False)"

lemma not_leased_exec:
  assumes "\<forall>r \<in> set T. \<not> leased_to i w r" "\<not> claims_for w x"
  shows "\<forall>r \<in> set (durable_exec parse C T x). \<not> leased_to i w r"
proof (cases x)
  case (DEnqueue u target action version policy at)
  have new: "\<not> leased_to i w (inserted_row u target action version policy at)"
    by (simp add: leased_to_def inserted_row_def)
  show ?thesis unfolding DEnqueue durable_exec.simps
    by (rule pg_enqueue_cases [of parse u T target action version policy at]) (use assms(1) new in simp_all)
next
  case (DClaim locked w' now lease)
  then have "w' \<noteq> w" using assms(2) by (simp add: claims_for_def)
  note upd = not_leased_update [OF assms(1) not_leased_claimed [OF this]]
  show ?thesis unfolding DClaim durable_exec.simps
    by (rule pg_claim_next_cases [of parse C T locked w' now lease]) (use assms(1) upd in simp_all)
next
  case (DFail j w' e now)
  note upd = not_leased_update [OF assms(1) not_leased_moved(6)]
  show ?thesis unfolding DFail durable_exec.simps
    by (rule pg_fail_cases [of C T j w' e now]) (use assms(1) upd in \<open>simp_all only:\<close>)
qed (simp only: durable_exec.simps statement_results, rule not_leased_update [OF assms(1)],
    rule not_leased_moved)+

lemma not_leased_run:
  "\<forall>r \<in> set T. \<not> leased_to i w r \<Longrightarrow> \<forall>x \<in> set xs. \<not> claims_for w x \<Longrightarrow>
     \<forall>r \<in> set (durable_run parse C T xs). \<not> leased_to i w r"
proof (induction xs arbitrary: T)
  case (Cons x xs)
  from Cons.prems have "\<forall>r \<in> set (durable_exec parse C T x). \<not> leased_to i w r" by (intro not_leased_exec) simp_all
  with Cons show ?case by simp
qed simp

lemma not_leased_rejected:
  assumes "\<forall>r \<in> set T. \<not> leased_to i w r"
  shows "pg_complete T i w now = (T, CpErr (not_leased_error i w))"
    and "pg_fail C T i w e now = (T, CpErr (not_leased_error i w))"
proof -
  show "pg_complete T i w now = (T, CpErr (not_leased_error i w))"
    using assms by (simp add: pg_complete_def Let_def rows_affected_0 sql_update_none)
  have "find (leased_to i w) T = None" using assms by (simp add: find_None_iff)
  then show "pg_fail C T i w e now = (T, CpErr (not_leased_error i w))" by (simp add: pg_fail_def)
qed

text \<open>A success is final: no history of operations changes the row of a job that succeeded.\<close>

lemma durable_success_final:
  assumes "table_ok T" "r \<in> set T" "jr_status r = ''succeeded''"
  shows "r \<in> set (durable_run parse C T ops)"
proof (rule untouched_run [OF assms(1,2)])
  fix x
  show "\<not> touches x r"
    using assms(3) by (cases x) (auto simp: leased_to_def in_state_def lease_expired_def)
qed

lemma action_roundtrip [simp]: "action_from_name (job_action_as_str a) = CpOk a"
  by (cases a) (simp_all add: action_from_name_def)

lemma status_roundtrip [simp]: "status_from_name (status_name st) = CpOk st"
  by (cases st) (simp_all add: status_from_name_def)

lemma claimed_row_decodes:
  assumes "row_ok r" "parse_job_id parse (jr_id r) = CpOk i"
  shows "\<exists>job. job_from_row parse (claimed_row w now e r) = CpOk job \<and> job_ident job = i \<and> job_state job = Running \<and>
    job_attempts job = of_int (jr_attempts r + 1) \<and> job_target job = jr_target r"
proof -
  obtain a where "jr_action r = job_action_as_str a" using assms(1) by (auto simp: row_ok_def)
  with assms(2) show ?thesis
    by (simp add: job_from_row_def claimed_row_def status_from_name_def)
qed

section \<open>Properties\<close>

text \<open>
  (C19) The durable table is consistent after any history of queue operations, whoever issues them and in whatever
  order: identifiers and idempotency keys are unique over all jobs, terminal ones included, a lease is held
  exactly by the running jobs, statuses and actions are among those the migration allows and the
  attempt counter stays within its column.
\<close>

theorem durable_table_invariant:
  "table_ok (durable_run parse C [] ops)"
  by (simp add: durable_run_ok)

text \<open>
  A step is scheduled at most once, for ever. Once an enqueue of a target, action and version has created a
  job, every later enqueue of the same step, after any history and even when the job is dead or has
  succeeded, changes nothing and answers with that job.
\<close>

theorem durable_enqueue_once:
  assumes "pg_enqueue parse u T target action version policy at = (T', CpOk (Enqueued i))" "table_ok T"
    and "parse u = Some u"
  shows "pg_enqueue parse u' (durable_run parse C T' ops) target action version policy' at' =
    (durable_run parse C T' ops, CpOk (Duplicate i))"
proof -
  let ?k = "key_as_str (idempotency_key_new target action version)"
  let ?row = "inserted_row u target action version policy at"
  have i: "i = JobId u" and T': "T' = T @ [?row]"
    using assms(1) by (auto simp: pg_enqueue_def Let_def split: option.splits if_splits)
      (auto simp: parse_job_id_def split: sum.splits)
  have "T' = durable_exec parse C T (DEnqueue u target action version policy at)" using assms(1) by simp
  then have ok: "table_ok (durable_run parse C T' ops)" using durable_exec_ok assms(2) durable_run_ok by metis
  obtain r where r: "r \<in> set (durable_run parse C T' ops)" "jr_id r = job_id_display i" "jr_key r = ?k"
    using run_keeps_keys [of ?row T' parse C ops] i T' by auto
  then have "find (\<lambda>r. jr_key r = ?k) (durable_run parse C T' ops) \<noteq> None" by (auto simp: find_None_iff)
  then obtain r' where f: "find (\<lambda>r. jr_key r = ?k) (durable_run parse C T' ops) = Some r'" by blast
  then have "r' \<in> set (durable_run parse C T' ops)" "jr_key r' = ?k" by (auto simp: find_Some_iff)
  then have "r' = r" using ok r by (metis table_ok_key)
  moreover have "parse_job_id parse (job_id_display i) = CpOk i"
    using assms(3) id_from_str_roundtrip [of parse u "''job_''" "''job''" JobId]
    by (simp add: i parse_job_id_def job_id_from_str_def)
  ultimately show ?thesis using f r by (simp add: pg_enqueue_def)
qed

theorem durable_enqueue_once_witness:
  "pg_enqueue Some ''b2'' (durable_run Some chrono_ns
      (fst (pg_enqueue Some ''a1'' [] ''res_1'' ActProvision 1 retry_policy_default 5))
      [DClaim [] ''w1'' 6 60, DComplete (JobId ''a1'') ''w1'' 9]) ''res_1'' ActProvision 1 retry_policy_default 12 =
    (durable_run Some chrono_ns (fst (pg_enqueue Some ''a1'' [] ''res_1'' ActProvision 1 retry_policy_default 5))
      [DClaim [] ''w1'' 6 60, DComplete (JobId ''a1'') ''w1'' 9], CpOk (Duplicate (JobId ''a1'')))"
proof -
  have "pg_enqueue Some ''a1'' [] ''res_1'' ActProvision 1 retry_policy_default 5 =
      (fst (pg_enqueue Some ''a1'' [] ''res_1'' ActProvision 1 retry_policy_default 5), CpOk (Enqueued (JobId ''a1'')))"
    by (simp add: pg_enqueue_def Let_def)
  then show ?thesis by (rule durable_enqueue_once) simp_all
qed

text \<open>
  (C20) Leases are exclusive. While a worker holds a job, until it reports on it itself or the lease is recovered at
  or after its expiry, no history of operations by other workers, operators and recovery passes changes the
  job's row: nobody else can claim, finish, fail, pause or requeue it.
\<close>

theorem lease_exclusive:
  assumes "table_ok T" "r \<in> set T" "leased_to i w r" "jr_lease_expires_at r = Some e"
    and "\<And>x. x \<in> set ops \<Longrightarrow>
      (\<forall>w' now. x = DComplete i w' now \<longrightarrow> w' \<noteq> w) \<and> (\<forall>w' m now. x = DFail i w' m now \<longrightarrow> w' \<noteq> w) \<and>
      (\<forall>now. x = DRecover now \<longrightarrow> now < e)"
  shows "r \<in> set (durable_run parse C T ops)"
proof (rule untouched_run [OF assms(1,2)])
  fix x
  assume x: "x \<in> set ops"
  have r: "jr_id r = job_id_display i" "jr_status r = ''running''" "jr_lease_owner r = Some w"
    using assms(3) by (simp_all add: leased_to_def)
  have job: "j = i" if "jr_id r = job_id_display j" for j
    using that r(1) by (cases i; cases j) simp
  note own = assms(5) [OF x]
  show "\<not> touches x r"
  proof (cases x)
    case (DComplete j w' now)
    with own r job [of j] show ?thesis by (auto simp: leased_to_def)
  next
    case (DFail j w' m now)
    with own r job [of j] show ?thesis by (auto simp: leased_to_def)
  next
    case (DRecover now)
    with own assms(4) show ?thesis by (simp add: lease_expired_def)
  qed (simp_all add: r in_state_def)
qed

theorem lease_exclusive_witness:
  "let r = claimed_row ''w1'' 6 66 (inserted_row ''a1'' ''res_1'' ActProvision 1 retry_policy_default 5)
   in r \<in> set (durable_run Some chrono_ns [r]
        [DClaim [] ''w2'' 7 60, DComplete (JobId ''a1'') ''w2'' 8, DRecover 65, DRequeue (JobId ''a1'') 9])"
proof -
  let ?r = "claimed_row ''w1'' 6 66 (inserted_row ''a1'' ''res_1'' ActProvision 1 retry_policy_default 5)"
  have "row_ok ?r" by (rule claim_stmt.upd_ok [OF inserted_row_ok]) (simp add: inserted_row_def i32_max_def)
  then have "table_ok [?r]" by (simp add: table_ok_def)
  then show ?thesis unfolding Let_def
    by (rule lease_exclusive [where i = "JobId ''a1''" and w = "''w1''" and e = 66])
      (auto simp: leased_to_def claimed_row_def inserted_row_def)
qed

text \<open>
  A worker that lost its lease is fenced. Once a job does not run under a worker (its lease was recovered and
  perhaps taken by another), then after any further history in which that worker makes no claim, its late
  completion or failure report is rejected and changes nothing.
\<close>

theorem stale_worker_fenced:
  assumes "\<forall>r \<in> set T. \<not> leased_to i w r" "\<forall>x \<in> set ops. \<not> claims_for w x"
  shows "pg_complete (durable_run parse C T ops) i w now =
      (durable_run parse C T ops, CpErr (not_leased_error i w)) \<and>
    pg_fail C (durable_run parse C T ops) i w m now =
      (durable_run parse C T ops, CpErr (not_leased_error i w))"
  using not_leased_rejected [OF not_leased_run [OF assms]] by blast

theorem stale_worker_fenced_witness:
  "pg_complete (durable_run Some chrono_ns [] [DClaim [] ''w2'' 7 60]) (JobId ''a1'') ''w1'' 9 =
     (durable_run Some chrono_ns [] [DClaim [] ''w2'' 7 60], CpErr (not_leased_error (JobId ''a1'') ''w1''))"
  using stale_worker_fenced [of "[]" "JobId ''a1''" "''w1''" "[DClaim [] ''w2'' 7 60]" Some chrono_ns 9 "''m''"]
  by (simp add: claims_for_def)

text \<open>
  A claim takes the earliest due job that no other transaction holds. When identifiers parse, the attempt counter
  of the candidate is below its column's bound and the lease end exists, a claim returns nothing, and changes
  nothing, exactly when every due queued job is locked; otherwise it returns a queued, due, unlocked job that no
  other such job precedes in the order of next attempt and enqueue time, running with one more attempt
  under this worker until the lease ends, and that row is the only one that changes.
\<close>

theorem durable_claim_earliest:
  assumes "table_ok T" "time_plus C now lease = Some e"
    and "\<And>r. r \<in> set T \<Longrightarrow> (\<exists>i. parse_job_id parse (jr_id r) = CpOk i) \<and> jr_attempts r < i32_max"
  shows "if \<forall>r \<in> set T. jr_status r = ''queued'' \<and> jr_next_attempt_at r \<le> now \<longrightarrow> jr_id r \<in> set locked
    then pg_claim_next parse C T locked w now lease = (T, CpOk None)
    else \<exists>r i job. r \<in> set T \<and> jr_status r = ''queued'' \<and> jr_next_attempt_at r \<le> now \<and> jr_id r \<notin> set locked \<and>
      (\<forall>r' \<in> set T. jr_status r' = ''queued'' \<and> jr_next_attempt_at r' \<le> now \<and> jr_id r' \<notin> set locked \<longrightarrow>
         (jr_next_attempt_at r, jr_enqueued_at r) \<le> (jr_next_attempt_at r', jr_enqueued_at r')) \<and>
      pg_claim_next parse C T locked w now lease =
        (map (\<lambda>x. if x = r then claimed_row w now e r else x) T,
         CpOk (Some \<lparr>cj_job = job, cj_lease_owner = w, cj_lease_expires_at = e\<rparr>)) \<and>
      parse_job_id parse (jr_id r) = CpOk i \<and> job_ident job = i \<and> job_state job = Running \<and>
      job_attempts job = of_int (jr_attempts r + 1) \<and> job_target job = jr_target r"
proof (cases "next_candidate T now locked")
  case None
  with assms(2) have "pg_claim_next parse C T locked w now lease = (T, CpOk None)"
    by (simp add: pg_claim_next_def)
  with None show ?thesis unfolding next_candidate_None by simp
next
  case (Some r)
  note r = next_candidate_Some [OF Some]
  obtain i where i: "parse_job_id parse (jr_id r) = CpOk i" and att: "jr_attempts r < i32_max"
    using assms(3) [OF r(1)] by blast
  obtain job where job: "job_from_row parse (claimed_row w now e r) = CpOk job" "job_ident job = i"
    "job_state job = Running" "job_attempts job = of_int (jr_attempts r + 1)" "job_target job = jr_target r"
    using claimed_row_decodes [OF table_ok_row [OF assms(1) r(1)] i] by blast
  have "sql_update (\<lambda>x. jr_id x = jr_id r) (claimed_row w now e) T =
      map (\<lambda>x. if x = r then claimed_row w now e r else x) T"
    unfolding sql_update_def using table_ok_id [OF assms(1) _ r(1)] by (intro map_cong) auto
  then have claim: "pg_claim_next parse C T locked w now lease =
      (map (\<lambda>x. if x = r then claimed_row w now e r else x) T,
       CpOk (Some \<lparr>cj_job = job, cj_lease_owner = w, cj_lease_expires_at = e\<rparr>))"
    using assms(2) Some job(1) att by (simp add: pg_claim_next_def)
  have least: "\<forall>r' \<in> set T. jr_status r' = ''queued'' \<and> jr_next_attempt_at r' \<le> now \<and> jr_id r' \<notin> set locked \<longrightarrow>
      (jr_next_attempt_at r, jr_enqueued_at r) \<le> (jr_next_attempt_at r', jr_enqueued_at r')"
    using r(5) by blast
  have due: "\<not> (\<forall>r \<in> set T. jr_status r = ''queued'' \<and> jr_next_attempt_at r \<le> now \<longrightarrow> jr_id r \<in> set locked)"
    using r(1-4) by blast
  show ?thesis unfolding if_not_P [OF due]
    by (intro exI [of _ r] exI [of _ i] exI [of _ job] conjI r(1-4) least claim i job(2-5))
qed

theorem durable_claim_earliest_witness:
  "pg_claim_next Some chrono_ns [] [] ''w1'' 6 60 = ([], CpOk None)"
  using durable_claim_earliest [of "[]" chrono_ns 6 60 66 Some "[]" "''w1''"] by (simp add: chrono_ns_def)

text \<open>
  The attempt budget does not bound a job whose worker keeps disappearing: recovery puts an expired lease back in
  the queue without looking at the policy. After any number of claim and recovery rounds (up to the
  range of the column) the job, whatever its budget, is queued again with that many attempts made.
\<close>

definition crash_rounds :: "string \<Rightarrow> time \<Rightarrow> nat \<Rightarrow> durable_op list" where
  "crash_rounds w t n = concat (map (\<lambda>k. [DClaim [] w (t + 2 * int k) 1, DRecover (t + 2 * int k + 1)]) [0..<n])"

lemma crash_rounds_Suc:
  "crash_rounds w t (Suc n) = crash_rounds w t n @ [DClaim [] w (t + 2 * int n) 1, DRecover (t + 2 * int n + 1)]"
  by (simp add: crash_rounds_def)

lemma crash_round:
  assumes "row_ok r" "parse_job_id parse (jr_id r) = CpOk i" "jr_status r = ''queued''" "jr_next_attempt_at r \<le> t"
    and "jr_attempts r < i32_max"
  shows "durable_run parse chrono_ns [r] [DClaim [] w t 1, DRecover (t + 1)] =
    [recovered_row (t + 1) (claimed_row w t (t + 1) r)]"
proof -
  obtain job where "job_from_row parse (claimed_row w t (t + 1) r) = CpOk job"
    using claimed_row_decodes [OF assms(1,2)] by blast
  then have "fst (pg_claim_next parse chrono_ns [r] [] w t 1) = [claimed_row w t (t + 1) r]"
    using assms by (simp add: pg_claim_next_def chrono_ns_def next_candidate_def sql_update_def)
  then show ?thesis
    by (simp add: fst_pg_recover sql_update_def lease_expired_def claimed_row_def)
qed

theorem recovery_ignores_attempt_budget:
  assumes "int n \<le> i32_max" "parse u = Some u"
  shows "\<exists>r. durable_run parse chrono_ns [inserted_row u target action version policy t] (crash_rounds w t n) = [r] \<and>
    jr_id r = job_id_display (JobId u) \<and> jr_policy r = policy \<and> jr_status r = ''queued'' \<and>
    jr_attempts r = int n \<and> jr_next_attempt_at r = t \<and> row_ok r"
  using assms(1)
proof (induction n)
  case 0
  then show ?case by (simp add: crash_rounds_def inserted_row_def [of u] row_ok_def i32_max_def)
next
  case (Suc n)
  then obtain r where run: "durable_run parse chrono_ns [inserted_row u target action version policy t]
        (crash_rounds w t n) = [r]"
    and r: "jr_id r = job_id_display (JobId u)" "jr_policy r = policy" "jr_status r = ''queued''"
      "jr_attempts r = int n" "jr_next_attempt_at r = t" "row_ok r"
    by auto
  have i: "parse_job_id parse (jr_id r) = CpOk (JobId u)"
    using assms(2) id_from_str_roundtrip [of parse u "''job_''" "''job''" JobId]
    by (simp add: r(1) parse_job_id_def job_id_from_str_def)
  have lt: "jr_attempts r < i32_max" using Suc.prems r(4) by simp
  let ?t = "t + 2 * int n"
  have "row_ok (claimed_row w ?t (?t + 1) r)"
    by (rule claim_stmt.upd_ok [OF r(6), where k = "jr_id r"]) (simp add: lt)
  then have "row_ok (recovered_row (?t + 1) (claimed_row w ?t (?t + 1) r))"
    by (rule recover_stmt.upd_ok) (simp add: lease_expired_def claimed_row_def)
  then show ?case
    using crash_round [OF r(6) i r(3) _ lt, of ?t w] run r
    by (simp add: crash_rounds_Suc durable_run_append claimed_row_def recovered_row_def)
qed

theorem recovery_ignores_attempt_budget_witness:
  "\<exists>r. durable_run Some chrono_ns [inserted_row ''a1'' ''res_1'' ActProvision 1 retry_policy_default 5]
      (crash_rounds ''w1'' 5 40) = [r] \<and> jr_status r = ''queued'' \<and> jr_attempts r = 40 \<and>
    rp_max_attempts (jr_policy r) = 5"
  using recovery_ignores_attempt_budget
      [of 40 Some "''a1''" "''res_1''" ActProvision 1 retry_policy_default 5 "''w1''"]
  by (auto simp: i32_max_def retry_policy_default_def)

end
