(* ===== verification/Observability.thy ===== *)
theory Observability
  imports Deployment Health
begin

text \<open>
  Events, logs, health evidence, usage, the audit trail and the verifier:
  \<open>labrys-core/src/observability.rs\<close>.

  The stores are append-only lists; a sequence number is the length of the list as 64 bits plus
  one. The audit trail is chained by the FNV-1a digest \<open>audit_digest\<close>; \<open>to_rfc3339\<close> of the
  \<open>chrono\<close> crate is the parameter \<open>rfc3339\<close>. The stages of the verifier are ordered as they are
  declared, the order the derived \<open>Ord\<close> gives its \<open>BTreeMap\<close>. The additions of \<open>totals\<close> wrap as in a
  release build. The JSON form of a finding is not here.
\<close>

section \<open>Findings and attribution\<close>

record event_resource =
  er_kind :: string
  er_id :: string

definition event_resource_new :: "string \<Rightarrow> string \<Rightarrow> event_resource" where
  "event_resource_new kind i = \<lparr>er_kind = kind, er_id = i\<rparr>"

datatype severity = SevInfo | SevWarning | SevError

record finding =
  fi_code :: string
  fi_severity :: severity
  fi_message :: string
  fi_recovery :: "string option"
  fi_resource :: "event_resource option"

definition finding_new :: "string \<Rightarrow> severity \<Rightarrow> string \<Rightarrow> finding" where
  "finding_new code sev message =
     \<lparr>fi_code = code, fi_severity = sev, fi_message = message, fi_recovery = None, fi_resource = None\<rparr>"

definition finding_info :: "string \<Rightarrow> string \<Rightarrow> finding" where
  "finding_info code message = finding_new code SevInfo message"

definition finding_warning :: "string \<Rightarrow> string \<Rightarrow> finding" where
  "finding_warning code message = finding_new code SevWarning message"

definition finding_error :: "string \<Rightarrow> string \<Rightarrow> finding" where
  "finding_error code message = finding_new code SevError message"

definition finding_with_recovery :: "finding \<Rightarrow> string \<Rightarrow> finding" where
  "finding_with_recovery f recovery = f\<lparr>fi_recovery := Some recovery\<rparr>"

definition finding_on_resource :: "finding \<Rightarrow> event_resource \<Rightarrow> finding" where
  "finding_on_resource f resource = f\<lparr>fi_resource := Some resource\<rparr>"

record correlation =
  co_trace_id :: string
  co_session_id :: "agent_session_id option"
  co_application_id :: "application_id option"
  co_environment_id :: "environment_id option"

definition correlation_new :: "string \<Rightarrow> correlation" where
  "correlation_new trace_id =
     \<lparr>co_trace_id = trace_id, co_session_id = None, co_application_id = None, co_environment_id = None\<rparr>"

definition with_session :: "correlation \<Rightarrow> agent_session_id \<Rightarrow> correlation" where
  "with_session c i = c\<lparr>co_session_id := Some i\<rparr>"

definition with_application :: "correlation \<Rightarrow> application_id \<Rightarrow> correlation" where
  "with_application c i = c\<lparr>co_application_id := Some i\<rparr>"

definition with_environment :: "correlation \<Rightarrow> environment_id \<Rightarrow> correlation" where
  "with_environment c i = c\<lparr>co_environment_id := Some i\<rparr>"

datatype event_actor =
    ActorAgent agent_session_id string
  | ActorPlatform string
  | ActorHuman string
  | ActorProvider string

fun kind_label :: "event_actor \<Rightarrow> string" where
  "kind_label (ActorAgent _ _) = ''agent''"
| "kind_label (ActorPlatform _) = ''platform''"
| "kind_label (ActorHuman _) = ''human''"
| "kind_label (ActorProvider _) = ''provider''"

datatype event_action =
    CapabilityRequested | CapabilityDecision | ResourceProvisioned | SecretRotated | SecretReplaced
  | BuildStarted | BuildFinished | DeploymentRolledOut | DeploymentRolledBack | DomainChanged
  | HealthProbed | Reconciled | VerificationFinished | ApprovalRequested | ApprovalDecided

fun event_action_name :: "event_action \<Rightarrow> string" where
  "event_action_name CapabilityRequested = ''capability_requested''"
| "event_action_name CapabilityDecision = ''capability_decision''"
| "event_action_name ResourceProvisioned = ''resource_provisioned''"
| "event_action_name SecretRotated = ''secret_rotated''"
| "event_action_name SecretReplaced = ''secret_replaced''"
| "event_action_name BuildStarted = ''build_started''"
| "event_action_name BuildFinished = ''build_finished''"
| "event_action_name DeploymentRolledOut = ''deployment_rolled_out''"
| "event_action_name DeploymentRolledBack = ''deployment_rolled_back''"
| "event_action_name DomainChanged = ''domain_changed''"
| "event_action_name HealthProbed = ''health_probed''"
| "event_action_name Reconciled = ''reconciled''"
| "event_action_name VerificationFinished = ''verification_finished''"
| "event_action_name ApprovalRequested = ''approval_requested''"
| "event_action_name ApprovalDecided = ''approval_decided''"

datatype event_result = EvAccepted | EvDenied | EvSucceeded | EvFailed string | EvPending

fun event_result_is_failure :: "event_result \<Rightarrow> bool" where
  "event_result_is_failure (EvFailed _) = True"
| "event_result_is_failure _ = False"

fun debug_event_result :: "event_result \<Rightarrow> string" where
  "debug_event_result EvAccepted = ''Accepted''"
| "debug_event_result EvDenied = ''Denied''"
| "debug_event_result EvSucceeded = ''Succeeded''"
| "debug_event_result (EvFailed reason) = ''Failed { reason: '' @ debug_str reason @ '' }''"
| "debug_event_result EvPending = ''Pending''"

section \<open>The event log\<close>

record platform_event =
  ev_sequence :: u64
  ev_at :: time
  ev_actor :: event_actor
  ev_correlation :: correlation
  ev_action :: event_action
  ev_resource :: "event_resource option"
  ev_before :: "string option"
  ev_after :: "string option"
  ev_result :: event_result

definition platform_event_detail :: "platform_event \<Rightarrow> string" where
  "platform_event_detail e =
     ''e'' @ show_u64 (ev_sequence e) @ '' '' @ kind_label (ev_actor e) @ '' '' @
     event_action_name (ev_action e) @ '' via '' @ co_trace_id (ev_correlation e) @
     (case ev_resource e of
        Some r \<Rightarrow> '' resource '' @ er_id r @ ''('' @ er_kind r @ '')''
      | None \<Rightarrow> []) @ '' '' @ debug_event_result (ev_result e)"

record event_draft =
  dr_at :: time
  dr_actor :: event_actor
  dr_correlation :: correlation
  dr_action :: event_action
  dr_resource :: "event_resource option"
  dr_before :: "string option"
  dr_after :: "string option"
  dr_result :: event_result

definition event_draft_new ::
  "time \<Rightarrow> event_actor \<Rightarrow> correlation \<Rightarrow> event_action \<Rightarrow> event_result \<Rightarrow> event_draft" where
  "event_draft_new at actor correlation action result =
     \<lparr>dr_at = at, dr_actor = actor, dr_correlation = correlation, dr_action = action,
      dr_resource = None, dr_before = None, dr_after = None, dr_result = result\<rparr>"

definition draft_on_resource :: "event_draft \<Rightarrow> event_resource \<Rightarrow> event_draft" where
  "draft_on_resource d r = d\<lparr>dr_resource := Some r\<rparr>"

definition between :: "event_draft \<Rightarrow> string \<Rightarrow> string \<Rightarrow> event_draft" where
  "between d before after = d\<lparr>dr_before := Some before, dr_after := Some after\<rparr>"

type_synonym event_log = "platform_event list"

definition event_append :: "event_log \<Rightarrow> event_draft \<Rightarrow> string list \<Rightarrow> event_log \<times> platform_event" where
  "event_append events draft secrets =
     (let event = \<lparr>ev_sequence = word_of_nat (length events) + 1, ev_at = dr_at draft, ev_actor = dr_actor draft,
            ev_correlation = dr_correlation draft, ev_action = dr_action draft,
            ev_resource = dr_resource draft,
            ev_before = map_option (\<lambda>b. redact_reason b secrets) (dr_before draft),
            ev_after = map_option (\<lambda>a. redact_reason a secrets) (dr_after draft),
            ev_result = (case dr_result draft of
                           EvFailed reason \<Rightarrow> EvFailed (redact_reason reason secrets)
                         | other \<Rightarrow> other)\<rparr>
      in (events @ [event], event))"

definition events_for_application :: "event_log \<Rightarrow> application_id \<Rightarrow> platform_event list" where
  "events_for_application events i =
     filter (\<lambda>e. co_application_id (ev_correlation e) = Some i) events"

definition events_for_environment :: "event_log \<Rightarrow> environment_id \<Rightarrow> platform_event list" where
  "events_for_environment events i =
     filter (\<lambda>e. co_environment_id (ev_correlation e) = Some i) events"

definition events_for_session :: "event_log \<Rightarrow> agent_session_id \<Rightarrow> platform_event list" where
  "events_for_session events i = filter (\<lambda>e. co_session_id (ev_correlation e) = Some i) events"

definition events_for_trace :: "event_log \<Rightarrow> string \<Rightarrow> platform_event list" where
  "events_for_trace events i = filter (\<lambda>e. co_trace_id (ev_correlation e) = i) events"

section \<open>Logs\<close>

datatype log_source = LsAgent | LsBuild | LsRuntime | LsDeployment | LsCapability | LsResource

fun log_source_name :: "log_source \<Rightarrow> string" where
  "log_source_name LsAgent = ''agent''"
| "log_source_name LsBuild = ''build''"
| "log_source_name LsRuntime = ''runtime''"
| "log_source_name LsDeployment = ''deployment''"
| "log_source_name LsCapability = ''capability''"
| "log_source_name LsResource = ''resource''"

record log_entry =
  le_sequence :: u64
  le_at :: time
  le_source :: log_source
  le_level :: log_level
  le_correlation :: correlation
  le_message :: string

type_synonym log_store = "log_entry list"

definition log_append ::
  "log_store \<Rightarrow> log_source \<Rightarrow> log_level \<Rightarrow> correlation \<Rightarrow> string \<Rightarrow> string list \<Rightarrow> time \<Rightarrow>
   log_store \<times> log_entry" where
  "log_append entries source level correlation message secrets at =
     (let entry = \<lparr>le_sequence = word_of_nat (length entries) + 1, le_at = at, le_source = source,
            le_level = level, le_correlation = correlation, le_message = redact_reason message secrets\<rparr>
      in (entries @ [entry], entry))"

definition log_for_source :: "log_store \<Rightarrow> log_source \<Rightarrow> log_entry list" where
  "log_for_source entries source = filter (\<lambda>e. le_source e = source) entries"

definition log_errors :: "log_store \<Rightarrow> log_entry list" where
  "log_errors entries = filter (\<lambda>e. le_level e = LogError) entries"

section \<open>Health evidence and usage\<close>

record health_snapshot =
  hs_target :: string
  hs_state :: health_state
  hs_observed_at :: time
  hs_ttl :: duration
  hs_detail :: "string option"

definition health_snapshot_new :: "string \<Rightarrow> health_state \<Rightarrow> time \<Rightarrow> duration \<Rightarrow> health_snapshot" where
  "health_snapshot_new target state observed_at ttl =
     \<lparr>hs_target = target, hs_state = state, hs_observed_at = observed_at, hs_ttl = ttl, hs_detail = None\<rparr>"

definition snapshot_with_detail :: "health_snapshot \<Rightarrow> string \<Rightarrow> health_snapshot" where
  "snapshot_with_detail s detail = s\<lparr>hs_detail := Some detail\<rparr>"

definition snapshot_is_stale :: "health_snapshot \<Rightarrow> time \<Rightarrow> bool" where
  "snapshot_is_stale s now = (now - hs_observed_at s > hs_ttl s)"

definition effective_state :: "health_snapshot \<Rightarrow> time \<Rightarrow> health_state" where
  "effective_state s now = (if snapshot_is_stale s now then HsUnknown else hs_state s)"

record usage_record =
  us_application_id :: application_id
  us_environment_id :: environment_id
  us_period_start :: time
  us_period_end :: time
  us_cpu_millicore_seconds :: u64
  us_memory_mb_seconds :: u64
  us_build_seconds :: u64
  us_requests :: u64
  us_egress_bytes :: u64

record usage_totals =
  ut_cpu_millicore_seconds :: u64
  ut_memory_mb_seconds :: u64
  ut_build_seconds :: u64
  ut_requests :: u64
  ut_egress_bytes :: u64

definition usage_totals_default :: usage_totals where
  "usage_totals_default =
     \<lparr>ut_cpu_millicore_seconds = 0, ut_memory_mb_seconds = 0, ut_build_seconds = 0, ut_requests = 0,
      ut_egress_bytes = 0\<rparr>"

type_synonym usage_ledger = "usage_record list"

definition usage_record_push :: "usage_ledger \<Rightarrow> usage_record \<Rightarrow> usage_ledger" where
  "usage_record_push records r = records @ [r]"

definition usage_for_application :: "usage_ledger \<Rightarrow> application_id \<Rightarrow> usage_record list" where
  "usage_for_application records i = filter (\<lambda>r. us_application_id r = i) records"

definition usage_add :: "usage_totals \<Rightarrow> usage_record \<Rightarrow> usage_totals" where
  "usage_add t r =
     \<lparr>ut_cpu_millicore_seconds = ut_cpu_millicore_seconds t + us_cpu_millicore_seconds r,
      ut_memory_mb_seconds = ut_memory_mb_seconds t + us_memory_mb_seconds r,
      ut_build_seconds = ut_build_seconds t + us_build_seconds r,
      ut_requests = ut_requests t + us_requests r,
      ut_egress_bytes = ut_egress_bytes t + us_egress_bytes r\<rparr>"

definition totals :: "usage_ledger \<Rightarrow> application_id \<Rightarrow> usage_totals" where
  "totals records i = foldl usage_add usage_totals_default (usage_for_application records i)"

section \<open>The audit trail\<close>

record audit_record =
  ar_sequence :: u64
  ar_at :: time
  ar_actor :: string
  ar_action :: string
  ar_target :: string
  ar_detail :: string
  ar_prev_hash :: string
  ar_hash :: string

definition audit_digest :: "string list \<Rightarrow> string" where
  "audit_digest parts =
     (let hash = fold (\<lambda>part h. ((fold fnv_step part h) XOR 0x1f) * 0x100000001b3) parts 0xcbf29ce484222325;
          second = fold (\<lambda>part h. fold fnv_step part h) (rev parts) (hash XOR 0x51ed270b07a5ac65)
      in hex16 hash @ hex16 second)"

definition compute_hash :: "(time \<Rightarrow> string) \<Rightarrow> audit_record \<Rightarrow> string" where
  "compute_hash rfc3339 r =
     audit_digest [show_u64 (ar_sequence r), rfc3339 (ar_at r), ar_actor r, ar_action r, ar_target r,
       ar_detail r, ar_prev_hash r]"

definition audit_record_detail :: "audit_record \<Rightarrow> string" where
  "audit_record_detail r =
     ''audit a'' @ show_u64 (ar_sequence r) @ '' '' @ ar_action r @ '' '' @ ar_target r @ '' -> '' @
     ar_detail r @ '' by '' @ ar_actor r @ '' ('' @ ar_actor r @ '')''"

type_synonym audit_log = "audit_record list"

definition genesis :: string where
  "genesis = replicate 64 (CHR ''0'')"

definition audit_append ::
  "(time \<Rightarrow> string) \<Rightarrow> audit_log \<Rightarrow> time \<Rightarrow> string \<Rightarrow> string \<Rightarrow> string \<Rightarrow> string \<Rightarrow> string list \<Rightarrow>
   audit_log \<times> audit_record" where
  "audit_append rfc3339 records at actor action target detail secrets =
     (let prev_hash = (if records = [] then genesis else ar_hash (last records));
          r = \<lparr>ar_sequence = word_of_nat (length records) + 1, ar_at = at, ar_actor = actor,
               ar_action = action, ar_target = target, ar_detail = redact_reason detail secrets,
               ar_prev_hash = prev_hash, ar_hash = []\<rparr>;
          r = r\<lparr>ar_hash := compute_hash rfc3339 r\<rparr>
      in (records @ [r], r))"

definition audit_restore :: "audit_record list \<Rightarrow> audit_log" where
  "audit_restore records = records"

fun audit_verify_from :: "(time \<Rightarrow> string) \<Rightarrow> nat \<Rightarrow> string \<Rightarrow> audit_log \<Rightarrow> unit outcome" where
  "audit_verify_from rfc3339 index expected_prev [] = Ok ()"
| "audit_verify_from rfc3339 index expected_prev (r # rs) =
     (if ar_sequence r \<noteq> word_of_nat index + 1
      then Err (AuditIntegrity (''sequence gap at index '' @ show_nat index @ '': '' @ show_u64 (ar_sequence r)))
      else if ar_prev_hash r \<noteq> expected_prev
      then Err (AuditIntegrity (''chain break at record '' @ show_u64 (ar_sequence r)))
      else if ar_hash r \<noteq> compute_hash rfc3339 r
      then Err (AuditIntegrity (''digest mismatch at record '' @ show_u64 (ar_sequence r)))
      else audit_verify_from rfc3339 (Suc index) (ar_hash r) rs)"

definition audit_verify :: "(time \<Rightarrow> string) \<Rightarrow> audit_log \<Rightarrow> unit outcome" where
  "audit_verify rfc3339 records = audit_verify_from rfc3339 0 genesis records"

definition audit_log_detail :: "audit_log \<Rightarrow> string" where
  "audit_log_detail records =
     join [CHR 0x0A] (map (\<lambda>r. ''a'' @ show_u64 (ar_sequence r) @ '' '' @ ar_action r @ '' '' @ ar_target r @
        '' -> '' @ ar_detail r @ '' by '' @ ar_actor r) records)"

section \<open>Verification evidence\<close>

datatype verifier_stage =
    VsDeterministic | VsBuildTest | VsHealth | VsSchema | VsBrowser | VsAdvisory | VsHuman

definition is_blocking :: "verifier_stage \<Rightarrow> bool" where
  "is_blocking s = (s \<noteq> VsAdvisory)"

fun verifier_stage_name :: "verifier_stage \<Rightarrow> string" where
  "verifier_stage_name VsDeterministic = ''deterministic''"
| "verifier_stage_name VsBuildTest = ''build_test''"
| "verifier_stage_name VsHealth = ''health''"
| "verifier_stage_name VsSchema = ''schema''"
| "verifier_stage_name VsBrowser = ''browser''"
| "verifier_stage_name VsAdvisory = ''advisory''"
| "verifier_stage_name VsHuman = ''human''"

fun stage_index :: "verifier_stage \<Rightarrow> nat" where
  "stage_index VsDeterministic = 0"
| "stage_index VsBuildTest = 1"
| "stage_index VsHealth = 2"
| "stage_index VsSchema = 3"
| "stage_index VsBrowser = 4"
| "stage_index VsAdvisory = 5"
| "stage_index VsHuman = 6"

lemma stage_index_inj: "stage_index a = stage_index b \<Longrightarrow> a = b"
  by (cases a; cases b) simp_all

instantiation verifier_stage :: linorder
begin

definition less_eq_verifier_stage :: "verifier_stage \<Rightarrow> verifier_stage \<Rightarrow> bool" where
  "less_eq_verifier_stage a b = (stage_index a \<le> stage_index b)"

definition less_verifier_stage :: "verifier_stage \<Rightarrow> verifier_stage \<Rightarrow> bool" where
  "less_verifier_stage a b = (stage_index a < stage_index b)"

instance
  by standard (auto simp: less_eq_verifier_stage_def less_verifier_stage_def dest: stage_index_inj)

end

record verification_evidence =
  ve_id :: string
  ve_stage :: verifier_stage
  ve_check :: string
  ve_passed :: bool
  ve_summary :: string
  ve_resource :: "event_resource option"
  ve_recovery :: "string option"
  ve_at :: time

definition evidence_new ::
  "string \<Rightarrow> verifier_stage \<Rightarrow> string \<Rightarrow> bool \<Rightarrow> string \<Rightarrow> string list \<Rightarrow> time \<Rightarrow> verification_evidence" where
  "evidence_new i stage check passed summary secrets at =
     \<lparr>ve_id = i, ve_stage = stage, ve_check = check, ve_passed = passed,
      ve_summary = redact_reason summary secrets, ve_resource = None, ve_recovery = None, ve_at = at\<rparr>"

definition evidence_on_resource :: "verification_evidence \<Rightarrow> event_resource \<Rightarrow> verification_evidence" where
  "evidence_on_resource e r = e\<lparr>ve_resource := Some r\<rparr>"

definition evidence_with_recovery :: "verification_evidence \<Rightarrow> string \<Rightarrow> verification_evidence" where
  "evidence_with_recovery e recovery = e\<lparr>ve_recovery := Some recovery\<rparr>"

record failure_explanation =
  fe_stage :: verifier_stage
  fe_check :: string
  fe_what :: string
  fe_resource :: "string option"
  fe_recovery :: string

definition explanation :: "verification_evidence \<Rightarrow> failure_explanation" where
  "explanation e =
     \<lparr>fe_stage = ve_stage e, fe_check = ve_check e, fe_what = ve_summary e,
      fe_resource = map_option (\<lambda>r. er_id r @ '' ('' @ er_kind r @ '')'') (ve_resource e),
      fe_recovery = (case ve_recovery e of
         Some r \<Rightarrow> r
       | None \<Rightarrow> ''no automated recovery path recorded; escalate to the owning team'')\<rparr>"

definition evidence_event_detail :: "verification_evidence \<Rightarrow> string" where
  "evidence_event_detail e =
     ''evidence '' @ ve_id e @ '' ['' @ verifier_stage_name (ve_stage e) @ ''] '' @
     (if ve_passed e then ''PASS'' else ''FAIL'') @ '' '' @ ve_check e @ '': '' @ ve_summary e"

definition explanation_event_detail :: "failure_explanation \<Rightarrow> string" where
  "explanation_event_detail x =
     ''['' @ verifier_stage_name (fe_stage x) @ ''] '' @ fe_check x @ '' failed: '' @ fe_what x @
     (case fe_resource x of Some r \<Rightarrow> '' resource: '' @ r | None \<Rightarrow> []) @ ''; recovery: '' @ fe_recovery x"

section \<open>Retention\<close>

record retention_policy =
  rt_max_age :: duration
  rt_keep_latest :: nat

definition retention_policy_default :: retention_policy where
  "retention_policy_default = \<lparr>rt_max_age = 90 * 86400 * nanos_per_sec, rt_keep_latest = 10\<rparr>"

definition expired :: "retention_policy \<Rightarrow> time \<Rightarrow> verification_evidence \<Rightarrow> bool" where
  "expired p now e = (now - ve_at e > rt_max_age p)"

definition prune ::
  "retention_policy \<Rightarrow> verification_evidence list \<Rightarrow> time \<Rightarrow> verification_evidence list \<times> string list" where
  "prune p evidence now =
     (if length evidence \<le> rt_keep_latest p then (evidence, [])
      else
        (let protected_start = length evidence - rt_keep_latest p;
             old = filter (\<lambda>(i, e). i < protected_start \<and> expired p now e) (enumerate 0 evidence);
             kept = filter (\<lambda>(i, e). \<not> (i < protected_start \<and> expired p now e)) (enumerate 0 evidence)
         in (map snd kept, map (ve_id \<circ> snd) old)))"

record evidence_store =
  es_evidence :: "verification_evidence list"
  es_policy :: retention_policy

definition evidence_store_new :: "retention_policy \<Rightarrow> evidence_store" where
  "evidence_store_new p = \<lparr>es_evidence = [], es_policy = p\<rparr>"

definition evidence_append :: "evidence_store \<Rightarrow> verification_evidence \<Rightarrow> evidence_store" where
  "evidence_append st e = st\<lparr>es_evidence := es_evidence st @ [e]\<rparr>"

definition evidence_for_stage :: "evidence_store \<Rightarrow> verifier_stage \<Rightarrow> verification_evidence list" where
  "evidence_for_stage st stage = filter (\<lambda>e. ve_stage e = stage) (es_evidence st)"

definition blocking_failure :: "verification_evidence \<Rightarrow> bool" where
  "blocking_failure e = (\<not> ve_passed e \<and> is_blocking (ve_stage e))"

definition retain :: "evidence_store \<Rightarrow> time \<Rightarrow> evidence_store \<times> string list" where
  "retain st now =
     (if \<not> list_ex blocking_failure (es_evidence st)
      then (let (kept, removed) = prune (es_policy st) (es_evidence st) now
            in (st\<lparr>es_evidence := kept\<rparr>, removed))
      else
        (let gone = (\<lambda>e. expired (es_policy st) now e \<and> \<not> blocking_failure e)
         in (st\<lparr>es_evidence := filter (\<lambda>e. \<not> gone e) (es_evidence st)\<rparr>,
             map ve_id (filter gone (es_evidence st)))))"

section \<open>The verifier\<close>

record stage_result =
  sr_stage :: verifier_stage
  sr_applicable :: bool
  sr_evidence :: "verification_evidence list"

definition stage_not_applicable :: "verifier_stage \<Rightarrow> stage_result" where
  "stage_not_applicable s = \<lparr>sr_stage = s, sr_applicable = False, sr_evidence = []\<rparr>"

definition stage_passed :: "verifier_stage \<Rightarrow> verification_evidence list \<Rightarrow> stage_result" where
  "stage_passed s evidence = \<lparr>sr_stage = s, sr_applicable = True, sr_evidence = evidence\<rparr>"

definition stage_failed :: "verifier_stage \<Rightarrow> verification_evidence list \<Rightarrow> stage_result" where
  "stage_failed s evidence = stage_passed s evidence"

definition is_passed :: "stage_result \<Rightarrow> bool" where
  "is_passed r = (sr_applicable r \<and> sr_evidence r \<noteq> [] \<and> list_all ve_passed (sr_evidence r))"

definition is_failed :: "stage_result \<Rightarrow> bool" where
  "is_failed r = (sr_applicable r \<and> list_ex (\<lambda>e. \<not> ve_passed e) (sr_evidence r))"

datatype verification_verdict =
    VerdictIncomplete "verifier_stage list" | VerdictFailed verifier_stage | VerdictPassed

definition verdict_is_success :: "verification_verdict \<Rightarrow> bool" where
  "verdict_is_success v = (v = VerdictPassed)"

record verifier =
  vf_stages :: "(verifier_stage, stage_result) btree_map"
  vf_agent_claim :: "string option"
  vf_disagreements :: "string list"

definition verifier_new :: verifier where
  "verifier_new = \<lparr>vf_stages = [], vf_agent_claim = None, vf_disagreements = []\<rparr>"

definition record_agent_claim :: "verifier \<Rightarrow> string \<Rightarrow> verifier" where
  "record_agent_claim v claim = v\<lparr>vf_agent_claim := Some claim\<rparr>"

definition add_stage :: "verifier \<Rightarrow> stage_result \<Rightarrow> verifier \<times> unit outcome" where
  "add_stage v result =
     (case btm_get (vf_stages v) (sr_stage result) of
        Some existing \<Rightarrow>
          if is_failed existing \<and> is_passed result
          then (v\<lparr>vf_disagreements := vf_disagreements v @
                  [''stage '' @ verifier_stage_name (sr_stage result) @ '' already failed; later pass ignored'']\<rparr>,
                Ok ())
          else if is_passed existing \<and> is_failed result
          then (v\<lparr>vf_disagreements := vf_disagreements v @
                  [''stage '' @ verifier_stage_name (sr_stage result) @ '' already passed; later failure recorded''],
                  vf_stages := btm_insert (sr_stage result) result (vf_stages v)\<rparr>, Ok ())
          else (v, Err (Verification (''stage '' @ verifier_stage_name (sr_stage result) @ '' already recorded'')))
      | None \<Rightarrow> (v\<lparr>vf_stages := btm_insert (sr_stage result) result (vf_stages v)\<rparr>, Ok ()))"

definition verifier_get_stage :: "verifier \<Rightarrow> verifier_stage \<Rightarrow> stage_result option" where
  "verifier_get_stage v s = btm_get (vf_stages v) s"

definition for_stage_evidence :: "verifier \<Rightarrow> verifier_stage \<Rightarrow> verification_evidence list" where
  "for_stage_evidence v s =
     (case btm_get (vf_stages v) s of Some r \<Rightarrow> sr_evidence r | None \<Rightarrow> [])"

definition missing_evidence :: "verifier \<Rightarrow> verifier_stage list" where
  "missing_evidence v =
     filter (\<lambda>s. case btm_get (vf_stages v) s of
               None \<Rightarrow> True
             | Some r \<Rightarrow> sr_applicable r \<and> sr_evidence r = [])
       [VsDeterministic, VsBuildTest, VsHealth, VsSchema, VsBrowser, VsHuman]"

definition verdict :: "verifier \<Rightarrow> verification_verdict" where
  "verdict v =
     (case min_by_key (\<lambda>s. s)
        (map sr_stage (filter is_failed (filter (\<lambda>r. is_blocking (sr_stage r)) (btm_values (vf_stages v))))) of
        Some stage \<Rightarrow> VerdictFailed stage
      | None \<Rightarrow>
          (let missing = missing_evidence v in
           if missing \<noteq> [] then VerdictIncomplete missing else VerdictPassed))"

definition verifier_failures :: "verifier \<Rightarrow> failure_explanation list" where
  "verifier_failures v =
     concat (map (\<lambda>r. map explanation (filter (\<lambda>e. \<not> ve_passed e) (sr_evidence r)))
       (filter (\<lambda>r. is_blocking (sr_stage r) \<and> is_failed r) (btm_values (vf_stages v))))"

section \<open>Sequenced logs\<close>

text \<open>
  The contract of the three append-only stores: an append adds one entry at the end, numbered by
  the length of the log before it plus one.
\<close>

locale sequenced_log =
  fixes append :: "'e list \<Rightarrow> 'd \<Rightarrow> 'e list"
    and seq_of :: "'e \<Rightarrow> u64"
  assumes append_snoc: "\<exists>e. append log d = log @ [e] \<and> seq_of e = word_of_nat (length log) + 1"
begin

lemma run_length: "length (foldl append log ds) = length log + length ds"
proof (induction ds arbitrary: log)
  case (Cons d ds)
  then show ?case using append_snoc [of log d] by auto
qed simp

lemma run_sequence:
  "i < length ds \<Longrightarrow> seq_of (foldl append [] ds ! i) = word_of_nat (Suc i)"
proof (induction ds rule: rev_induct)
  case (snoc d ds)
  obtain e where e: "append (foldl append [] ds) d = foldl append [] ds @ [e]"
    "seq_of e = word_of_nat (length ds) + 1"
    using append_snoc [of "foldl append [] ds" d] run_length [of "[]" ds] by auto
  have l: "length (foldl append [] ds) = length ds" using run_length [of "[]" ds] by simp
  show ?case
  proof (cases "i < length ds")
    case True
    then show ?thesis using snoc.IH l e(1) by (simp add: nth_append)
  next
    case False
    with snoc.prems have "i = length ds" by simp
    then show ?thesis using l e by (simp add: nth_append add.commute)
  qed
qed simp

lemma run_prefix: "prefix log (foldl append log ds)"
proof (induction ds arbitrary: log)
  case (Cons d ds)
  obtain e where e: "append log d = log @ [e]" using append_snoc by blast
  have "prefix (log @ [e]) (foldl append (log @ [e]) ds)" by (rule Cons.IH)
  then show ?case using e append_prefixD by auto
qed simp

end

definition event_push :: "event_log \<Rightarrow> event_draft \<times> string list \<Rightarrow> event_log" where
  "event_push events d = fst (event_append events (fst d) (snd d))"

interpretation events: sequenced_log event_push ev_sequence
  by unfold_locales (simp add: event_push_def event_append_def Let_def)

definition log_push ::
  "log_store \<Rightarrow> log_source \<times> log_level \<times> correlation \<times> string \<times> string list \<times> time \<Rightarrow> log_store" where
  "log_push entries = (\<lambda>(source, level, c, message, secrets, at).
     fst (log_append entries source level c message secrets at))"

interpretation logs: sequenced_log log_push le_sequence
  by unfold_locales (auto simp: log_push_def log_append_def Let_def)

text \<open>The arguments of an audit append besides the log.\<close>

type_synonym audit_entry = "time \<times> string \<times> string \<times> string \<times> string \<times> string list"

definition audit_push :: "(time \<Rightarrow> string) \<Rightarrow> audit_log \<Rightarrow> audit_entry \<Rightarrow> audit_log" where
  "audit_push rfc3339 records = (\<lambda>(at, actor, action, target, detail, secrets).
     fst (audit_append rfc3339 records at actor action target detail secrets))"

interpretation audit: sequenced_log "audit_push rfc3339" ar_sequence for rfc3339
  by unfold_locales (auto simp: audit_push_def audit_append_def Let_def)

section \<open>The audit chain\<close>

lemma audit_verify_from_iff:
  "audit_verify_from rf n prev rs = Ok () \<longleftrightarrow>
     (\<forall>i < length rs. ar_sequence (rs ! i) = word_of_nat (n + i) + 1 \<and>
        ar_prev_hash (rs ! i) = (if i = 0 then prev else ar_hash (rs ! (i - 1))) \<and>
        ar_hash (rs ! i) = compute_hash rf (rs ! i))"
proof (induction rs arbitrary: n prev)
  case (Cons r rs)
  have tail: "(if i = 0 then ar_hash r else ar_hash (rs ! (i - 1))) = ar_hash ((r # rs) ! i)" for i
    by (simp add: nth_Cons')
  show ?case unfolding audit_verify_from.simps length_Cons All_less_Suc2 using Cons.IH [of "Suc n" "ar_hash r"]
    by (auto simp: tail)
qed simp

lemma audit_verify_iff:
  "audit_verify rf rs = Ok () \<longleftrightarrow>
     (\<forall>i < length rs. ar_sequence (rs ! i) = word_of_nat i + 1 \<and>
        ar_prev_hash (rs ! i) = (if i = 0 then genesis else ar_hash (rs ! (i - 1))) \<and>
        ar_hash (rs ! i) = compute_hash rf (rs ! i))"
  by (simp add: audit_verify_def audit_verify_from_iff)

lemma audit_verify_not_panics: "\<not> panics (audit_verify rf rs)"
proof -
  have "\<not> panics (audit_verify_from rf n prev rs)" for n prev
    by (induction rs arbitrary: n prev) simp_all
  then show ?thesis by (simp add: audit_verify_def)
qed

lemma compute_hash_update [simp]: "compute_hash rf (r\<lparr>ar_hash := h\<rparr>) = compute_hash rf r"
  by (simp add: compute_hash_def)

lemma audit_push_verify:
  assumes "audit_verify rf rs = Ok ()"
  shows "audit_verify rf (audit_push rf rs e) = Ok ()"
proof -
  obtain at actor action target detail secrets where e: "e = (at, actor, action, target, detail, secrets)"
    by (cases e)
  define r where "r = snd (audit_append rf rs at actor action target detail secrets)"
  have p: "audit_push rf rs e = rs @ [r]"
    by (simp add: e r_def audit_push_def audit_append_def Let_def)
  have r: "ar_sequence r = word_of_nat (length rs) + 1" "ar_hash r = compute_hash rf r"
    "ar_prev_hash r = (if rs = [] then genesis else ar_hash (last rs))"
    by (simp_all add: r_def audit_append_def Let_def compute_hash_def)
  show ?thesis unfolding p audit_verify_iff
    using assms r by (auto simp: audit_verify_iff nth_append less_Suc_eq last_conv_nth)
qed

lemma audit_run_verify: "audit_verify rf rs = Ok () \<Longrightarrow> audit_verify rf (foldl (audit_push rf) rs es) = Ok ()"
  by (induction es arbitrary: rs) (simp_all add: audit_push_verify)

section \<open>The verifier as a state machine\<close>

datatype verifier_op = AgentClaim string | AddStage stage_result

fun verifier_exec :: "verifier \<Rightarrow> verifier_op \<Rightarrow> verifier" where
  "verifier_exec v (AgentClaim c) = record_agent_claim v c"
| "verifier_exec v (AddStage r) = fst (add_stage v r)"

definition verifier_run :: "verifier \<Rightarrow> verifier_op list \<Rightarrow> verifier" where
  "verifier_run v opers = foldl verifier_exec v opers"

definition verifier_wf :: "verifier \<Rightarrow> bool" where
  "verifier_wf v = (btm_inv (vf_stages v) \<and> (\<forall>s r. btm_get (vf_stages v) s = Some r \<longrightarrow> sr_stage r = s))"

interpretation stages: keyed_store "[] :: (verifier_stage, stage_result) btree_map"
  btm_get btm_insert btm_values btm_inv sr_stage
  by unfold_locales

lemma verifier_new_wf: "verifier_wf verifier_new"
  by (simp add: verifier_wf_def verifier_new_def btm_inv_def btm_get_def)

lemma add_stage_stages:
  "vf_stages (fst (add_stage v r)) =
     (case btm_get (vf_stages v) (sr_stage r) of
        None \<Rightarrow> btm_insert (sr_stage r) r (vf_stages v)
      | Some x \<Rightarrow> if is_passed x \<and> is_failed r then btm_insert (sr_stage r) r (vf_stages v) else vf_stages v)"
  by (auto simp: add_stage_def is_passed_def is_failed_def list_all_iff list_ex_iff split: option.split)

lemma verifier_exec_wf: "verifier_wf v \<Longrightarrow> verifier_wf (verifier_exec v oper)"
proof (cases oper)
  case (AddStage r)
  assume w: "verifier_wf v"
  have "btm_inv (btm_insert (sr_stage r) r (vf_stages v)) \<and>
      (\<forall>s x. btm_get (btm_insert (sr_stage r) r (vf_stages v)) s = Some x \<longrightarrow> sr_stage x = s)"
    using w stages.keyed_put [of "vf_stages v" r] btm_inv_insert unfolding verifier_wf_def by metis
  with w show ?thesis
    by (auto simp: AddStage verifier_wf_def add_stage_stages split: option.split)
qed (simp add: verifier_wf_def record_agent_claim_def)

lemma verifier_run_wf: "verifier_wf v \<Longrightarrow> verifier_wf (verifier_run v opers)"
  unfolding verifier_run_def by (induction opers arbitrary: v) (simp_all add: verifier_exec_wf)

lemma failed_not_passed: "is_failed r \<Longrightarrow> \<not> is_passed r"
  by (auto simp: is_failed_def is_passed_def list_all_iff list_ex_iff)

lemma failed_stage_kept:
  assumes "btm_get (vf_stages v) s = Some r" "is_failed r"
  shows "btm_get (vf_stages (verifier_run v opers)) s = Some r"
  using assms
proof (induction opers arbitrary: v)
  case Nil
  then show ?case by (simp add: verifier_run_def)
next
  case (Cons oper opers)
  have "btm_get (vf_stages (verifier_exec v oper)) s = Some r"
  proof (cases oper)
    case (AddStage x)
    with Cons.prems failed_not_passed show ?thesis
      by (auto simp: add_stage_stages btm_get_insert split: option.split)
  qed (use Cons.prems in \<open>simp add: record_agent_claim_def\<close>)
  from Cons.IH [OF this Cons.prems(2)] show ?case by (simp add: verifier_run_def)
qed

lemma failing_stages:
  assumes "verifier_wf v"
  shows "s \<in> set (map sr_stage (filter is_failed (filter (\<lambda>r. is_blocking (sr_stage r)) (btm_values (vf_stages v))))) \<longleftrightarrow>
    is_blocking s \<and> (\<exists>r. btm_get (vf_stages v) s = Some r \<and> is_failed r)"
  using assms by (auto simp: verifier_wf_def btm_in_values image_iff)

lemma missing_evidence_iff:
  "s \<in> set (missing_evidence v) \<longleftrightarrow> is_blocking s \<and>
     (\<forall>r. btm_get (vf_stages v) s = Some r \<longrightarrow> sr_applicable r \<and> sr_evidence r = [])"
  by (cases s) (auto simp: missing_evidence_def is_blocking_def split: option.splits)

lemma missing_ignores_claim: "missing_evidence (v\<lparr>vf_agent_claim := c\<rparr>) = missing_evidence v"
  by (simp add: missing_evidence_def)

lemma verdict_ignores_claim [simp]: "verdict (v\<lparr>vf_agent_claim := c\<rparr>) = verdict v"
  unfolding verdict_def missing_ignores_claim by simp

lemma verdict_cases:
  assumes "verifier_wf v"
  defines "fails \<equiv> \<lambda>s. is_blocking s \<and> (\<exists>r. btm_get (vf_stages v) s = Some r \<and> is_failed r)"
  shows "verdict v = VerdictFailed s \<longleftrightarrow> fails s \<and> (\<forall>s'. fails s' \<longrightarrow> s \<le> s')"
    and "verdict v = VerdictPassed \<longleftrightarrow> (\<forall>s. \<not> fails s) \<and> missing_evidence v = []"
proof -
  let ?xs = "map sr_stage (filter is_failed (filter (\<lambda>r. is_blocking (sr_stage r)) (btm_values (vf_stages v))))"
  have f: "s \<in> set ?xs \<longleftrightarrow> fails s" for s using failing_stages [OF assms(1), of s] by (simp add: fails_def)
  show "verdict v = VerdictFailed s \<longleftrightarrow> fails s \<and> (\<forall>s'. fails s' \<longrightarrow> s \<le> s')"
  proof (cases "min_by_key (\<lambda>s. s) ?xs")
    case None
    then have "?xs = []" by (simp only: min_by_key_None)
    then have "\<not> fails s" for s using f [of s] by (metis empty_iff list.set(1))
    with None show ?thesis by (auto simp: verdict_def Let_def)
  next
    case (Some t)
    from min_by_key_Some [OF Some] f have t: "fails t" "\<And>s'. fails s' \<Longrightarrow> t \<le> s'" by blast+
    from Some have "verdict v = VerdictFailed t" by (simp add: verdict_def)
    then show ?thesis using t by (auto intro: antisym)
  qed
  show "verdict v = VerdictPassed \<longleftrightarrow> (\<forall>s. \<not> fails s) \<and> missing_evidence v = []"
  proof (cases "min_by_key (\<lambda>s. s) ?xs")
    case None
    then have "?xs = []" by (simp only: min_by_key_None)
    then have "\<not> fails s" for s using f [of s] by (metis empty_iff list.set(1))
    with None show ?thesis by (simp add: verdict_def Let_def)
  next
    case (Some t)
    from min_by_key_Some [OF Some] f have "fails t" by blast
    moreover from Some have "verdict v = VerdictFailed t" by (simp add: verdict_def)
    ultimately show ?thesis by auto
  qed
qed

section \<open>Retention\<close>

lemma enumerate_filter_below:
  "k + length xs \<le> n \<Longrightarrow> filter (\<lambda>(i, e). i < n \<and> P e) (enumerate k xs) = filter (P \<circ> snd) (enumerate k xs)"
  "k + length xs \<le> n \<Longrightarrow> filter (\<lambda>(i, e). \<not> (i < n \<and> P e)) (enumerate k xs) = filter (\<lambda>p. \<not> P (snd p)) (enumerate k xs)"
  by (induction xs arbitrary: k) auto

lemma enumerate_filter_above:
  "n \<le> k \<Longrightarrow> filter (\<lambda>(i, e). i < n \<and> P e) (enumerate k xs) = []"
  "n \<le> k \<Longrightarrow> filter (\<lambda>(i, e). \<not> (i < n \<and> P e)) (enumerate k xs) = enumerate k xs"
  by (induction xs arbitrary: k) auto

lemma map_snd_filter_enumerate: "map snd (filter (\<lambda>p. P (snd p)) (enumerate k xs)) = filter P xs"
  by (induction xs arbitrary: k) auto

text \<open>Pruning in closed form: the protected end of the list is kept, the rest is filtered by age.\<close>

lemma prune_closed:
  defines "n \<equiv> \<lambda>p ev. length ev - rt_keep_latest p"
  shows "fst (prune p ev now) =
      filter (\<lambda>e. \<not> expired p now e) (take (n p ev) ev) @ drop (n p ev) ev"
    and "snd (prune p ev now) = map ve_id (filter (expired p now) (take (n p ev) ev))"
proof -
  let ?n = "n p ev"
  have split: "enumerate 0 ev = enumerate 0 (take ?n ev) @ enumerate ?n (drop ?n ev)"
    using enumerate_append_eq [of 0 "take ?n ev" "drop ?n ev"] by (simp add: n_def min_def)
  have k: "0 + length (take ?n ev) \<le> ?n" by simp
  have kept: "map snd (filter (\<lambda>(i, e). \<not> (i < ?n \<and> expired p now e)) (enumerate 0 ev)) =
      filter (\<lambda>e. \<not> expired p now e) (take ?n ev) @ drop ?n ev"
    unfolding split filter_append map_append enumerate_filter_below(2) [OF k]
      enumerate_filter_above(2) [OF order_refl]
      map_snd_filter_enumerate [of "\<lambda>e. \<not> expired p now e"]
    by (simp only: map_snd_enumerate)
  have old: "map (ve_id \<circ> snd) (filter (\<lambda>(i, e). i < ?n \<and> expired p now e) (enumerate 0 ev)) =
      map ve_id (filter (expired p now) (take ?n ev))"
    using map_snd_filter_enumerate [of "expired p now" 0 "take ?n ev", symmetric]
    unfolding split filter_append map_append enumerate_filter_below(1) [OF k]
      enumerate_filter_above(1) [OF order_refl] by (simp add: comp_def)
  show "fst (prune p ev now) = filter (\<lambda>e. \<not> expired p now e) (take ?n ev) @ drop ?n ev"
    and "snd (prune p ev now) = map ve_id (filter (expired p now) (take ?n ev))"
    using kept old by (auto simp: prune_def Let_def n_def)
qed

lemma retain_with_failure:
  assumes "list_ex blocking_failure (es_evidence st)"
  shows "es_evidence (fst (retain st now)) =
      filter (\<lambda>e. blocking_failure e \<or> \<not> expired (es_policy st) now e) (es_evidence st)"
    and "snd (retain st now) =
      map ve_id (filter (\<lambda>e. expired (es_policy st) now e \<and> \<not> blocking_failure e) (es_evidence st))"
  using assms by (auto simp: retain_def Let_def intro: filter_cong)

lemma retain_without_failure:
  assumes "\<not> list_ex blocking_failure (es_evidence st)"
  defines "n \<equiv> length (es_evidence st) - rt_keep_latest (es_policy st)"
  shows "es_evidence (fst (retain st now)) =
      filter (\<lambda>e. \<not> expired (es_policy st) now e) (take n (es_evidence st)) @ drop n (es_evidence st)"
    and "snd (retain st now) = map ve_id (filter (expired (es_policy st) now) (take n (es_evidence st)))"
  using assms(1) prune_closed [of "es_policy st" "es_evidence st" now]
  by (auto simp: retain_def n_def split: prod.splits)

lemma filter_take_drop_absorb:
  "(\<And>e. e \<in> set xs \<Longrightarrow> Q e \<Longrightarrow> R e) \<Longrightarrow>
   filter Q (filter R (take n xs) @ drop n xs) = filter Q xs"
proof -
  assume "\<And>e. e \<in> set xs \<Longrightarrow> Q e \<Longrightarrow> R e"
  then have "filter Q (filter R (take n xs)) = filter Q (take n xs)"
    by (auto simp: filter_filter intro!: filter_cong dest: in_set_takeD)
  then show ?thesis by (metis append_take_drop_id filter_append)
qed

section \<open>Properties\<close>

text \<open>
  Retention loses nothing it must keep. Whatever the policy and the time, unresolved blocking
  failures and records that are not expired all survive in order; every record
  is kept or reported by id as removed; and when there is no blocking failure the newest
  \<open>keep_latest\<close> records survive whatever their age.
\<close>

theorem retain_keeps_failures:
  "let ev = es_evidence st; ev' = es_evidence (fst (retain st now)) in
   filter blocking_failure ev' = filter blocking_failure ev \<and>
   filter (\<lambda>e. \<not> expired (es_policy st) now e) ev' = filter (\<lambda>e. \<not> expired (es_policy st) now e) ev \<and>
   set ev' \<subseteq> set ev \<and> length ev' + length (snd (retain st now)) = length ev \<and>
   (filter blocking_failure ev \<noteq> [] \<or> suffix (drop (length ev - rt_keep_latest (es_policy st)) ev) ev')"
proof (cases "list_ex blocking_failure (es_evidence st)")
  case True
  let ?ex = "expired (es_policy st) now"
  have "length (filter (\<lambda>e. blocking_failure e \<or> \<not> ?ex e) xs) +
      length (filter (\<lambda>e. ?ex e \<and> \<not> blocking_failure e) xs) = length xs" for xs
    by (induction xs) auto
  then show ?thesis unfolding Let_def retain_with_failure [OF True]
    using True by (auto simp: list_ex_iff filter_empty_conv intro!: filter_cong)
next
  case False
  let ?ex = "expired (es_policy st) now" and ?ev = "es_evidence st"
  let ?n = "length ?ev - rt_keep_latest (es_policy st)"
  have none: "blocking_failure e \<longleftrightarrow> False" if "e \<in> set ?ev" for e using False that by (auto simp: list_ex_iff)
  have len: "length (filter (\<lambda>e. \<not> ?ex e) xs) + length (filter ?ex xs) = length xs" for xs
    by (induction xs) auto
  have l: "length (filter (\<lambda>e. \<not> ?ex e) (take ?n ?ev) @ drop ?n ?ev) + length (map ve_id (filter ?ex (take ?n ?ev))) =
      length ?ev"
    using len [of "take ?n ?ev"] by simp
  have bf: "filter blocking_failure (filter (\<lambda>e. \<not> ?ex e) (take ?n ?ev) @ drop ?n ?ev) = filter blocking_failure ?ev"
    using none by (intro filter_take_drop_absorb) simp
  have ne: "filter (\<lambda>e. \<not> ?ex e) (filter (\<lambda>e. \<not> ?ex e) (take ?n ?ev) @ drop ?n ?ev) = filter (\<lambda>e. \<not> ?ex e) ?ev"
    by (intro filter_take_drop_absorb) simp
  have su: "suffix (drop ?n ?ev) (filter (\<lambda>e. \<not> ?ex e) (take ?n ?ev) @ drop ?n ?ev)" by (simp add: suffix_def)
  have ss: "set (filter (\<lambda>e. \<not> ?ex e) (take ?n ?ev) @ drop ?n ?ev) \<subseteq> set ?ev"
    by (auto dest: in_set_takeD in_set_dropD)
  show ?thesis unfolding Let_def retain_without_failure [OF False] using l bf ne su ss by blast
qed

theorem retain_keeps_failures_witness:
  "\<exists>st. blocking_failure (hd (es_evidence st)) \<and> expired (es_policy st) (10 ^ 30) (hd (es_evidence st)) \<and>
     filter blocking_failure (es_evidence (fst (retain st (10 ^ 30)))) = es_evidence st"
proof -
  define bad where "bad = evidence_new ''bad'' VsHealth ''c'' False ''down'' [] 0"
  define st where "st = evidence_append (evidence_store_new retention_policy_default) bad"
  have b: "blocking_failure bad" by (simp add: bad_def evidence_new_def blocking_failure_def is_blocking_def)
  have e: "es_evidence st = [bad]" by (simp add: st_def evidence_append_def evidence_store_new_def)
  have x: "expired (es_policy st) (10 ^ 30) bad"
    by (simp add: st_def bad_def evidence_new_def evidence_append_def evidence_store_new_def expired_def
        retention_policy_default_def)
  have "filter blocking_failure (es_evidence (fst (retain st (10 ^ 30)))) = filter blocking_failure (es_evidence st)"
    using retain_keeps_failures [of st "10 ^ 30"] unfolding Let_def by blast
  then show ?thesis using b e x by (intro exI [of _ st]) simp
qed

text \<open>
  The minimum is not kept beside a failure. With a blocking failure in the store the
  \<open>keep_latest\<close> newest records are not protected: here two records, fewer than the ten the
  default policy keeps, and retention removes the one that passed.
\<close>

theorem retain_ignores_keep_latest:
  "let p = retention_policy_default;
       ok = evidence_new ''ok'' VsHealth ''c'' True ''fine'' [] 0;
       bad = evidence_new ''bad'' VsHealth ''c'' False ''down'' [] 0;
       st = evidence_append (evidence_append (evidence_store_new p) bad) ok
   in length (es_evidence st) \<le> rt_keep_latest p \<and>
      retain st (91 * 86400 * nanos_per_sec) = (st\<lparr>es_evidence := [bad]\<rparr>, [''ok''])"
  by (simp add: retention_policy_default_def evidence_new_def evidence_append_def evidence_store_new_def
      retain_def expired_def blocking_failure_def is_blocking_def Let_def)

text \<open>
  An appended trail verifies. Any sequence of appends to a new audit log gives a trail that
  verifies, in which the records are numbered from one without gaps and no detail holds a
  registered secret that is separable from the marker.
\<close>

theorem audit_trail_verifies:
  assumes "e \<in> set es" "e = (at, actor, action, target, detail, secrets)" "s \<in> set secrets" "marker_free s"
  shows "audit_verify rf (foldl (audit_push rf) [] es) = Ok () \<and>
    length (foldl (audit_push rf) [] es) = length es \<and>
    (\<forall>i < length es. ar_sequence (foldl (audit_push rf) [] es ! i) = word_of_nat (Suc i)) \<and>
    (\<exists>r \<in> set (foldl (audit_push rf) [] es). ar_actor r = actor \<and> ar_action r = action \<and>
       ar_target r = target \<and> ar_detail r = redact_reason detail secrets \<and> \<not> str_contains (ar_detail r) s)"
proof -
  have "audit_verify rf [] = Ok ()" by (simp add: audit_verify_def)
  then have v: "audit_verify rf (foldl (audit_push rf) [] es) = Ok ()" by (rule audit_run_verify)
  obtain pre post where es: "es = pre @ e # post" using assms(1) by (auto simp: in_set_conv_decomp)
  let ?rs = "foldl (audit_push rf) [] pre"
  define r where "r = snd (audit_append rf ?rs at actor action target detail secrets)"
  have "foldl (audit_push rf) [] (pre @ [e]) = ?rs @ [r]"
    by (simp add: assms(2) r_def audit_push_def audit_append_def Let_def)
  moreover have "prefix (foldl (audit_push rf) [] (pre @ [e])) (foldl (audit_push rf) [] es)"
    using audit.run_prefix [of "foldl (audit_push rf) [] (pre @ [e])" rf post] by (simp add: es)
  ultimately have "r \<in> set (foldl (audit_push rf) [] es)" by (auto dest: set_mono_prefix)
  moreover have "ar_actor r = actor \<and> ar_action r = action \<and> ar_target r = target \<and>
      ar_detail r = redact_reason detail secrets"
    by (simp add: r_def audit_append_def Let_def)
  moreover have "\<not> str_contains (redact_reason detail secrets) s"
    by (rule redact_reason_removes [OF assms(4,3)])
  ultimately show ?thesis using v audit.run_length [of rf "[]" es] audit.run_sequence [of _ es rf] by auto
qed

theorem audit_trail_verifies_witness:
  "audit_verify (\<lambda>t. ''t'') (foldl (audit_push (\<lambda>t. ''t'')) []
     [(0, ''ops'', ''rotate'', ''db'', ''old hunter2'', [''hunter2'']), (1, ''ops'', ''read'', ''db'', ''ok'', [])]) = Ok ()"
proof -
  have "marker_free ''hunter2''" by (simp add: marker_free_def sublist_Cons_right)
  then show ?thesis
    by (intro conjunct1 [OF audit_trail_verifies [OF list.set_intros(1) refl, of "''hunter2''"]]) simp_all
qed

text \<open>
  (C6) Tampering with a verified trail shows. If a trail still verifies after one record was replaced
  by a different one, that record keeps its number and its link, and unless it is the last
  one the digest of the two different contents collides; a trail with a record taken out of
  its middle never verifies, and verification always returns.
\<close>

theorem audit_tamper_evident:
  assumes "audit_verify rf rs = Ok ()" "i < length rs" "length rs < 2 ^ 64"
  shows "(audit_verify rf (rs[i := r']) = Ok () \<longrightarrow>
      ar_sequence r' = ar_sequence (rs ! i) \<and> ar_prev_hash r' = ar_prev_hash (rs ! i) \<and>
      (Suc i < length rs \<longrightarrow> compute_hash rf r' = compute_hash rf (rs ! i) \<and> ar_hash r' = ar_hash (rs ! i))) \<and>
    (Suc i < length rs \<longrightarrow> (\<exists>e. audit_verify rf (take i rs @ drop (Suc i) rs) = Err e))"
proof -
  note old = assms(1) [unfolded audit_verify_iff, rule_format]
  have 1: "ar_sequence r' = ar_sequence (rs ! i) \<and> ar_prev_hash r' = ar_prev_hash (rs ! i) \<and>
      (Suc i < length rs \<longrightarrow> compute_hash rf r' = compute_hash rf (rs ! i) \<and> ar_hash r' = ar_hash (rs ! i))"
    if v: "audit_verify rf (rs[i := r']) = Ok ()"
  proof -
    note new = v [unfolded audit_verify_iff, rule_format]
    have p: "rs[i := r'] ! (i - 1) = rs ! (i - 1)" if "i \<noteq> 0" using that by simp
    have n: "ar_hash r' = ar_hash (rs ! i)" if "Suc i < length rs"
      using new [of "Suc i"] old [of "Suc i"] assms(2) that by simp
    show ?thesis using new [of i] old [of i] assms(2) p n by auto
  qed
  have 2: "audit_verify rf (take i rs @ drop (Suc i) rs) \<noteq> Ok ()" if s: "Suc i < length rs"
  proof
    assume "audit_verify rf (take i rs @ drop (Suc i) rs) = Ok ()"
    then have "ar_sequence ((take i rs @ drop (Suc i) rs) ! i) = word_of_nat i + 1"
      unfolding audit_verify_iff using s by auto
    moreover have "(take i rs @ drop (Suc i) rs) ! i = rs ! Suc i" using s by (simp add: nth_append)
    moreover have "ar_sequence (rs ! Suc i) = word_of_nat (Suc i) + 1" using old [of "Suc i"] s by simp
    ultimately have "(word_of_nat i :: u64) = word_of_nat (Suc i)" by simp
    then show False using s assms(3) by (simp add: word_of_nat_eq_iff take_bit_nat_eq_self)
  qed
  have "\<exists>e. audit_verify rf xs = Err e" if "audit_verify rf xs \<noteq> Ok ()" for xs
    using that audit_verify_not_panics [of rf xs] by (cases "audit_verify rf xs") auto
  with 1 2 show ?thesis by blast
qed

theorem audit_tamper_evident_witness:
  "\<exists>rs. length rs = 2 \<and> audit_verify (\<lambda>t. ''t'') rs = Ok () \<and>
     (\<exists>e. audit_verify (\<lambda>t. ''t'') (drop (Suc 0) rs) = Err e)"
proof -
  define rs where "rs = foldl (audit_push (\<lambda>t. ''t'')) []
    [(0, ''a'', ''b'', ''c'', ''d'', []), (1, ''a'', ''b'', ''c'', ''d'', [])]"
  have v: "audit_verify (\<lambda>t. ''t'') rs = Ok ()"
    unfolding rs_def by (rule audit_run_verify) (simp add: audit_verify_def)
  have l: "length rs = 2" unfolding rs_def audit.run_length by simp
  from audit_tamper_evident [OF v, of 0 "hd rs"] l
  have "\<exists>e. audit_verify (\<lambda>t. ''t'') (drop (Suc 0) rs) = Err e" by simp
  with v l show ?thesis by blast
qed

text \<open>
  (C7) The verdict is exactly the evidence. For every sequence of recorded stages and agent claims
  the verdict is a pass exactly when each of the six blocking stages was recorded and, where it
  applies, has evidence all of which passed; it is a failure with stage \<open>s\<close> exactly when \<open>s\<close> is the
  first blocking stage with failed evidence; and agent claims do not change it.
\<close>

theorem verdict_exact:
  defines "v \<equiv> \<lambda>opers. verifier_run verifier_new opers"
  shows "(verdict (v opers) = VerdictPassed \<longleftrightarrow>
      (\<forall>s. is_blocking s \<longrightarrow> (\<exists>r. btm_get (vf_stages (v opers)) s = Some r \<and> (sr_applicable r \<longrightarrow> is_passed r)))) \<and>
    (verdict (v opers) = VerdictFailed s \<longleftrightarrow>
      is_blocking s \<and> (\<exists>r. btm_get (vf_stages (v opers)) s = Some r \<and> is_failed r) \<and>
      (\<forall>s' r. s' < s \<longrightarrow> is_blocking s' \<longrightarrow> btm_get (vf_stages (v opers)) s' = Some r \<longrightarrow> \<not> is_failed r)) \<and>
    verdict (v (opers @ [AgentClaim c])) = verdict (v opers)"
proof -
  have wf: "verifier_wf (v opers)" unfolding v_def by (rule verifier_run_wf [OF verifier_new_wf])
  have p: "is_passed r \<longleftrightarrow> sr_applicable r \<and> sr_evidence r \<noteq> [] \<and> \<not> is_failed r" for r
    by (auto simp: is_passed_def is_failed_def list_all_iff list_ex_iff)
  have f: "is_failed r \<Longrightarrow> sr_applicable r" for r by (simp add: is_failed_def)
  have m: "missing_evidence (v opers) = [] \<longleftrightarrow> (\<forall>s. s \<notin> set (missing_evidence (v opers)))" by auto
  have 1: "verdict (v opers) = VerdictPassed \<longleftrightarrow> (\<forall>s. is_blocking s \<longrightarrow>
      (\<exists>r. btm_get (vf_stages (v opers)) s = Some r \<and> (sr_applicable r \<longrightarrow> is_passed r)))"
    unfolding verdict_cases(2) [OF wf] m missing_evidence_iff p using f by auto
  have 2: "verdict (v opers) = VerdictFailed s \<longleftrightarrow>
      is_blocking s \<and> (\<exists>r. btm_get (vf_stages (v opers)) s = Some r \<and> is_failed r) \<and>
      (\<forall>s' r. s' < s \<longrightarrow> is_blocking s' \<longrightarrow> btm_get (vf_stages (v opers)) s' = Some r \<longrightarrow> \<not> is_failed r)"
    unfolding verdict_cases(1) [OF wf] using not_le by blast
  have 3: "verdict (v (opers @ [AgentClaim c])) = verdict (v opers)"
    by (simp add: v_def verifier_run_def record_agent_claim_def)
  show ?thesis using 1 2 3 by blast
qed

theorem verdict_exact_witness:
  "verdict (verifier_run verifier_new [AgentClaim ''all done'']) \<noteq> VerdictPassed"
proof -
  have "btm_get (vf_stages (verifier_run verifier_new [AgentClaim ''all done''])) VsHealth = None"
    by (simp add: verifier_run_def verifier_new_def record_agent_claim_def btm_get_def)
  moreover have "is_blocking VsHealth" by (simp add: is_blocking_def)
  ultimately show ?thesis
    using verdict_exact [of "[AgentClaim ''all done'']" VsHealth "[]"] by fastforce
qed

text \<open>
  (C4) A failure is final. Once a blocking stage is recorded as failed, no later sequence of results
  and claims removes it: the stored result is the same, the verdict is a failure, and a later
  pass for the stage is only noted as a disagreement.
\<close>

theorem stage_failure_final:
  assumes "btm_get (vf_stages (verifier_run verifier_new pre)) s = Some r" "is_failed r" "is_blocking s"
  shows "btm_get (vf_stages (verifier_run verifier_new (pre @ post))) s = Some r \<and>
    (\<exists>s'. verdict (verifier_run verifier_new (pre @ post)) = VerdictFailed s' \<and> s' \<le> s) \<and>
    (is_passed x \<and> sr_stage x = s \<longrightarrow>
       add_stage (verifier_run verifier_new pre) x =
         (let v = verifier_run verifier_new pre in
          (v\<lparr>vf_disagreements := vf_disagreements v @
              [''stage '' @ verifier_stage_name s @ '' already failed; later pass ignored'']\<rparr>, Ok ())))"
proof -
  let ?v = "verifier_run verifier_new (pre @ post)"
  have kept: "btm_get (vf_stages ?v) s = Some r"
    using failed_stage_kept [OF assms(1,2), of post] by (simp add: verifier_run_def)
  have wf: "verifier_wf ?v" by (rule verifier_run_wf [OF verifier_new_wf])
  let ?fails = "\<lambda>s. is_blocking s \<and> (\<exists>r. btm_get (vf_stages ?v) s = Some r \<and> is_failed r)"
  have fs: "?fails s" using kept assms by blast
  obtain s' where "?fails s'" "\<And>t. ?fails t \<Longrightarrow> s' \<le> t"
    using ex_has_least_nat [of ?fails s stage_index, OF fs] unfolding less_eq_verifier_stage_def by blast
  then have "verdict ?v = VerdictFailed s'" "s' \<le> s"
    using fs unfolding verdict_cases(1) [OF wf] by blast+
  with kept assms show ?thesis by (auto simp: add_stage_def Let_def)
qed

theorem stage_failure_final_witness:
  "\<exists>bad ok s'. is_failed bad \<and> is_passed ok \<and>
     verdict (verifier_run verifier_new ([AddStage bad] @ [AddStage ok, AgentClaim ''done''])) = VerdictFailed s'"
proof -
  define bad where "bad = stage_failed VsHealth [evidence_new ''1'' VsHealth ''probe'' False ''down'' [] 0]"
  define ok where "ok = stage_passed VsHealth [evidence_new ''2'' VsHealth ''probe'' True ''up'' [] 1]"
  have f: "is_failed bad" and p: "is_passed ok"
    by (simp_all add: bad_def ok_def stage_failed_def stage_passed_def is_failed_def is_passed_def evidence_new_def)
  have g: "btm_get (vf_stages (verifier_run verifier_new [AddStage bad])) VsHealth = Some bad"
    by (simp add: verifier_run_def verifier_new_def add_stage_def btm_get_def bad_def stage_failed_def stage_passed_def)
  have "is_blocking VsHealth" by (simp add: is_blocking_def)
  from stage_failure_final [OF g f this] f p show ?thesis by blast
qed

text \<open>
  The event log. For every sequence of appended drafts the events are numbered from one without
  gaps, an event keeps actor, action, correlation and resource of its draft, and its before,
  after and failure texts hold no registered secret that is separable from the marker.
\<close>

theorem event_log_attributable:
  assumes "i < length ds" "\<And>s. s \<in> set (snd (ds ! i)) \<Longrightarrow> marker_free s"
  defines "log \<equiv> foldl event_push [] ds" and "d \<equiv> fst (ds ! i)"
  shows "length log = length ds \<and> ev_sequence (log ! i) = word_of_nat (Suc i) \<and>
    ev_actor (log ! i) = dr_actor d \<and> ev_action (log ! i) = dr_action d \<and>
    ev_correlation (log ! i) = dr_correlation d \<and> ev_resource (log ! i) = dr_resource d \<and>
    (\<forall>s \<in> set (snd (ds ! i)).
       (\<forall>t. ev_before (log ! i) = Some t \<or> ev_after (log ! i) = Some t \<or> ev_result (log ! i) = EvFailed t \<longrightarrow>
          \<not> str_contains t s))"
proof -
  have len: "length log = length ds" unfolding log_def events.run_length by simp
  define e where "e = snd (event_append (foldl event_push [] (take i ds)) d (snd (ds ! i)))"
  have step: "foldl event_push [] (take (Suc i) ds) = foldl event_push [] (take i ds) @ [e]"
    using assms(1) by (simp add: take_Suc_conv_app_nth event_push_def event_append_def e_def d_def Let_def)
  have "prefix (foldl event_push [] (take (Suc i) ds)) log"
    using events.run_prefix [of "foldl event_push [] (take (Suc i) ds)" "drop (Suc i) ds"]
    unfolding log_def foldl_append [symmetric] append_take_drop_id .
  then obtain rest where "log = (foldl event_push [] (take i ds) @ [e]) @ rest"
    unfolding step prefix_def by blast
  moreover have "length (foldl event_push [] (take i ds)) = i"
    unfolding events.run_length using assms(1) by simp
  ultimately have at: "log ! i = e" by (simp add: nth_append)
  have rd: "\<not> str_contains (redact_reason t (snd (ds ! i))) s" if "s \<in> set (snd (ds ! i))" for t s
    using redact_reason_removes [OF assms(2) [OF that] that] .
  have "ev_sequence (log ! i) = word_of_nat (Suc i)" unfolding log_def by (rule events.run_sequence [OF assms(1)])
  then show ?thesis using len rd unfolding at
    by (auto simp: e_def event_append_def Let_def split: event_result.splits)
qed

theorem event_log_attributable_witness:
  "\<exists>e. foldl event_push [] [(event_draft_new 0 (ActorPlatform ''p'') (correlation_new ''t'') Reconciled
       (EvFailed ''pw hunter2''), [''hunter2''])] ! 0 = e \<and> ev_sequence e = 1 \<and>
     (\<forall>t. ev_result e = EvFailed t \<longrightarrow> \<not> str_contains t ''hunter2'')"
proof -
  let ?ds = "[(event_draft_new 0 (ActorPlatform ''p'') (correlation_new ''t'') Reconciled
       (EvFailed ''pw hunter2''), [''hunter2''])]"
  have m: "marker_free ''hunter2''" by (simp add: marker_free_def sublist_Cons_right)
  have "\<And>s. s \<in> set (snd (?ds ! 0)) \<Longrightarrow> marker_free s" using m by simp
  from event_log_attributable [of 0 ?ds, OF _ this] show ?thesis by (simp del: foldl.simps)
qed

end
