(* ===== verification/Durable_Evidence.thy ===== *)
theory Durable_Evidence
  imports Observability
begin

text \<open>
  The durable stores of events, logs, audit records, verification evidence and usage:
  \<open>labrys-control-plane/src/observability.rs\<close>.

  A table is the list of its rows in insertion order; a \<open>bigserial\<close> column takes the next value of a counter kept
  with the rows. Columns of JSON hold the value they encode. The rounding of \<open>round_subsecs(6)\<close> and the
  precision at which the database keeps an instant are arguments, as are the parser of identifiers and the
  identifiers that \<open>Default\<close> generates. Only the audit digest covers an instant, so the precision matters there;
  the other tables keep the instant they are given. The audit append holds the advisory lock, so it is one step.
  The refinement lemmas relate each durable append to the store of \<open>labrys-core\<close>.
\<close>

section \<open>Names and identifiers\<close>

fun level_name :: "log_level \<Rightarrow> string" where
  "level_name LogInfo = ''info''"
| "level_name LogWarn = ''warn''"
| "level_name LogError = ''error''"

definition log_level_from_name :: "string \<Rightarrow> log_level cp_outcome" where
  "log_level_from_name name =
     (if name = ''info'' then CpOk LogInfo
      else if name = ''warn'' then CpOk LogWarn
      else if name = ''error'' then CpOk LogError
      else CpErr (MappingError (''unknown log level '' @ name)))"

definition log_source_from_name :: "string \<Rightarrow> log_source cp_outcome" where
  "log_source_from_name name =
     (if name = ''agent'' then CpOk LsAgent
      else if name = ''build'' then CpOk LsBuild
      else if name = ''runtime'' then CpOk LsRuntime
      else if name = ''deployment'' then CpOk LsDeployment
      else if name = ''capability'' then CpOk LsCapability
      else if name = ''resource'' then CpOk LsResource
      else CpErr (MappingError (''unknown log source '' @ name)))"

definition stage_from_name :: "string \<Rightarrow> verifier_stage cp_outcome" where
  "stage_from_name name =
     (if name = ''deterministic'' then CpOk VsDeterministic
      else if name = ''build_test'' then CpOk VsBuildTest
      else if name = ''health'' then CpOk VsHealth
      else if name = ''schema'' then CpOk VsSchema
      else if name = ''browser'' then CpOk VsBrowser
      else if name = ''advisory'' then CpOk VsAdvisory
      else if name = ''human'' then CpOk VsHuman
      else CpErr (MappingError (''unknown verifier stage '' @ name)))"

definition event_action_from_name :: "string \<Rightarrow> event_action cp_outcome" where
  "event_action_from_name name =
     (if name = ''capability_requested'' then CpOk CapabilityRequested
      else if name = ''capability_decision'' then CpOk CapabilityDecision
      else if name = ''resource_provisioned'' then CpOk ResourceProvisioned
      else if name = ''secret_rotated'' then CpOk SecretRotated
      else if name = ''secret_replaced'' then CpOk SecretReplaced
      else if name = ''build_started'' then CpOk BuildStarted
      else if name = ''build_finished'' then CpOk BuildFinished
      else if name = ''deployment_rolled_out'' then CpOk DeploymentRolledOut
      else if name = ''deployment_rolled_back'' then CpOk DeploymentRolledBack
      else if name = ''domain_changed'' then CpOk DomainChanged
      else if name = ''health_probed'' then CpOk HealthProbed
      else if name = ''reconciled'' then CpOk Reconciled
      else if name = ''verification_finished'' then CpOk VerificationFinished
      else if name = ''approval_requested'' then CpOk ApprovalRequested
      else if name = ''approval_decided'' then CpOk ApprovalDecided
      else CpErr (MappingError (''unknown event action '' @ name)))"

record id_codec =
  ic_parse :: "string \<Rightarrow> uuid option"
  ic_default :: uuid

definition parse_session :: "id_codec \<Rightarrow> string \<Rightarrow> agent_session_id" where
  "parse_session I v = (case agent_session_id_from_str (ic_parse I) v of
     Inr i \<Rightarrow> i | Inl _ \<Rightarrow> AgentSessionId (ic_default I))"

definition parse_application :: "id_codec \<Rightarrow> string \<Rightarrow> application_id" where
  "parse_application I v = (case application_id_from_str (ic_parse I) v of
     Inr i \<Rightarrow> i | Inl _ \<Rightarrow> ApplicationId (ic_default I))"

definition parse_environment :: "id_codec \<Rightarrow> string \<Rightarrow> environment_id" where
  "parse_environment I v = (case environment_id_from_str (ic_parse I) v of
     Inr i \<Rightarrow> i | Inl _ \<Rightarrow> EnvironmentId (ic_default I))"

section \<open>Events\<close>

text \<open>The columns a correlation is stored in, shared by events and logs.\<close>

record correlation_columns =
  cc_trace_id :: string
  cc_session_id :: "string option"
  cc_application_id :: "string option"
  cc_environment_id :: "string option"

definition correlation_to_columns :: "correlation \<Rightarrow> correlation_columns" where
  "correlation_to_columns c =
     \<lparr>cc_trace_id = co_trace_id c,
      cc_session_id = map_option agent_session_id_display (co_session_id c),
      cc_application_id = map_option application_id_display (co_application_id c),
      cc_environment_id = map_option environment_id_display (co_environment_id c)\<rparr>"

definition correlation_of_columns :: "id_codec \<Rightarrow> correlation_columns \<Rightarrow> correlation" where
  "correlation_of_columns I r =
     \<lparr>co_trace_id = cc_trace_id r,
      co_session_id = map_option (parse_session I) (cc_session_id r),
      co_application_id = map_option (parse_application I) (cc_application_id r),
      co_environment_id = map_option (parse_environment I) (cc_environment_id r)\<rparr>"

record event_row =
  evr_sequence :: int
  evr_at :: time
  evr_actor :: event_actor
  evr_correlation :: correlation_columns
  evr_action :: string
  evr_resource_kind :: "string option"
  evr_resource_id :: "string option"
  evr_before :: "string option"
  evr_after :: "string option"
  evr_result :: event_result

record 'r serial_table =
  st_rows :: "'r list"
  st_next :: int

definition serial_empty :: "'r serial_table" where
  "serial_empty = \<lparr>st_rows = [], st_next = 1\<rparr>"

definition serial_insert :: "'r serial_table \<Rightarrow> (int \<Rightarrow> 'r) \<Rightarrow> 'r serial_table \<times> int" where
  "serial_insert T mk = (\<lparr>st_rows = st_rows T @ [mk (st_next T)], st_next = st_next T + 1\<rparr>, st_next T)"

definition lift_guard :: "control_plane_error + 'a \<Rightarrow> 'a cp_outcome" where
  "lift_guard r = (case r of Inl e \<Rightarrow> CpErr e | Inr a \<Rightarrow> CpOk a)"

definition opt_text :: "string option \<Rightarrow> string" where
  "opt_text t = (case t of Some s \<Rightarrow> s | None \<Rightarrow> [])"

definition guarded_result :: "event_result \<Rightarrow> string list \<Rightarrow> event_result cp_outcome" where
  "guarded_result r secrets =
     (case r of
        EvFailed reason \<Rightarrow> cp_bind (lift_guard (redact_guard ''event.result'' reason secrets)) (\<lambda>t. CpOk (EvFailed t))
      | other \<Rightarrow> CpOk other)"

definition append_event ::
  "event_row serial_table \<Rightarrow> event_draft \<Rightarrow> string list \<Rightarrow> event_row serial_table \<times> int cp_outcome" where
  "append_event T draft secrets =
     (case cp_bind (lift_guard (redact_guard ''event.before'' (opt_text (dr_before draft)) secrets)) (\<lambda>before.
           cp_bind (lift_guard (redact_guard ''event.after'' (opt_text (dr_after draft)) secrets)) (\<lambda>after.
           cp_bind (guarded_result (dr_result draft) secrets) (\<lambda>result. CpOk (before, after, result)))) of
        CpErr e \<Rightarrow> (T, CpErr e)
      | CpPanic m \<Rightarrow> (T, CpPanic m)
      | CpOk (before, after, result) \<Rightarrow>
          (let (T', sequence) = serial_insert T (\<lambda>n.
                 \<lparr>evr_sequence = n, evr_at = dr_at draft, evr_actor = dr_actor draft,
                  evr_correlation = correlation_to_columns (dr_correlation draft),
                  evr_action = event_action_name (dr_action draft),
                  evr_resource_kind = map_option er_kind (dr_resource draft),
                  evr_resource_id = map_option er_id (dr_resource draft),
                  evr_before = map_option (\<lambda>_. before) (dr_before draft),
                  evr_after = map_option (\<lambda>_. after) (dr_after draft), evr_result = result\<rparr>)
           in (T', CpOk sequence)))"

definition event_from_row :: "id_codec \<Rightarrow> event_row \<Rightarrow> platform_event cp_outcome" where
  "event_from_row I r =
     cp_bind (event_action_from_name (evr_action r)) (\<lambda>action.
       CpOk \<lparr>ev_sequence = of_int (evr_sequence r), ev_at = evr_at r, ev_actor = evr_actor r,
             ev_correlation = correlation_of_columns I (evr_correlation r), ev_action = action,
             ev_resource = (case (evr_resource_kind r, evr_resource_id r) of
                              (Some kind, Some i) \<Rightarrow> Some (event_resource_new kind i) | _ \<Rightarrow> None),
             ev_before = evr_before r, ev_after = evr_after r, ev_result = evr_result r\<rparr>)"

definition pg_event_get :: "id_codec \<Rightarrow> event_row serial_table \<Rightarrow> int \<Rightarrow> platform_event cp_outcome" where
  "pg_event_get I T sequence =
     (case find (\<lambda>r. evr_sequence r = sequence) (st_rows T) of
        None \<Rightarrow> CpErr (NotFoundError (''event '' @ (if sequence < 0 then ''-'' else []) @ show_nat (nat \<bar>sequence\<bar>)))
      | Some r \<Rightarrow> event_from_row I r)"

definition pg_event_append ::
  "id_codec \<Rightarrow> event_row serial_table \<Rightarrow> event_draft \<Rightarrow> string list \<Rightarrow> event_row serial_table \<times> platform_event cp_outcome" where
  "pg_event_append I T draft secrets =
     (case append_event T draft secrets of
        (T', CpOk sequence) \<Rightarrow> (T', pg_event_get I T' sequence)
      | (T', CpErr e) \<Rightarrow> (T', CpErr e)
      | (T', CpPanic m) \<Rightarrow> (T', CpPanic m))"

fun collect_rows :: "('r \<Rightarrow> 'a cp_outcome) \<Rightarrow> 'r list \<Rightarrow> 'a list cp_outcome" where
  "collect_rows f [] = CpOk []"
| "collect_rows f (r # rs) = cp_bind (f r) (\<lambda>a. cp_bind (collect_rows f rs) (\<lambda>as. CpOk (a # as)))"

definition pg_events_where :: "id_codec \<Rightarrow> event_row serial_table \<Rightarrow> (event_row \<Rightarrow> bool) \<Rightarrow> platform_event list cp_outcome" where
  "pg_events_where I T P = collect_rows (event_from_row I) (sort_key evr_sequence (filter P (st_rows T)))"

definition pg_events_for_application :: "id_codec \<Rightarrow> event_row serial_table \<Rightarrow> string \<Rightarrow> platform_event list cp_outcome" where
  "pg_events_for_application I T i = pg_events_where I T (\<lambda>r. cc_application_id (evr_correlation r) = Some i)"

definition pg_events_for_environment :: "id_codec \<Rightarrow> event_row serial_table \<Rightarrow> string \<Rightarrow> platform_event list cp_outcome" where
  "pg_events_for_environment I T i = pg_events_where I T (\<lambda>r. cc_environment_id (evr_correlation r) = Some i)"

definition pg_events_for_session :: "id_codec \<Rightarrow> event_row serial_table \<Rightarrow> string \<Rightarrow> platform_event list cp_outcome" where
  "pg_events_for_session I T i = pg_events_where I T (\<lambda>r. cc_session_id (evr_correlation r) = Some i)"

definition pg_events_for_trace :: "id_codec \<Rightarrow> event_row serial_table \<Rightarrow> string \<Rightarrow> platform_event list cp_outcome" where
  "pg_events_for_trace I T i = pg_events_where I T (\<lambda>r. cc_trace_id (evr_correlation r) = i)"

section \<open>Logs\<close>

record stored_log_row =
  lgr_sequence :: int
  lgr_at :: time
  lgr_source :: string
  lgr_level :: string
  lgr_correlation :: correlation_columns
  lgr_message :: string

definition append_log ::
  "stored_log_row serial_table \<Rightarrow> log_source \<Rightarrow> log_level \<Rightarrow> correlation \<Rightarrow> string \<Rightarrow> string list \<Rightarrow> time \<Rightarrow>
   stored_log_row serial_table \<times> int cp_outcome" where
  "append_log T source level correlation message secrets at =
     (case redact_guard ''log.message'' message secrets of
        Inl e \<Rightarrow> (T, CpErr e)
      | Inr redacted \<Rightarrow>
          (let (T', sequence) = serial_insert T (\<lambda>n.
                 \<lparr>lgr_sequence = n, lgr_at = at, lgr_source = log_source_name source, lgr_level = level_name level,
                  lgr_correlation = correlation_to_columns correlation, lgr_message = redacted\<rparr>)
           in (T', CpOk sequence)))"

definition log_from_row :: "id_codec \<Rightarrow> stored_log_row \<Rightarrow> log_entry cp_outcome" where
  "log_from_row I r =
     cp_bind (log_source_from_name (lgr_source r)) (\<lambda>source.
     cp_bind (log_level_from_name (lgr_level r)) (\<lambda>level.
       CpOk \<lparr>le_sequence = of_int (lgr_sequence r), le_at = lgr_at r, le_source = source, le_level = level,
             le_correlation = correlation_of_columns I (lgr_correlation r), le_message = lgr_message r\<rparr>))"

definition pg_log_append ::
  "id_codec \<Rightarrow> stored_log_row serial_table \<Rightarrow> log_source \<Rightarrow> log_level \<Rightarrow> correlation \<Rightarrow> string \<Rightarrow> string list \<Rightarrow> time \<Rightarrow>
   stored_log_row serial_table \<times> log_entry cp_outcome" where
  "pg_log_append I T source level correlation message secrets at =
     (case append_log T source level correlation message secrets at of
        (T', CpOk sequence) \<Rightarrow>
          (T', case find (\<lambda>r. lgr_sequence r = sequence) (st_rows T') of
                 Some r \<Rightarrow> log_from_row I r
               | None \<Rightarrow> CpErr (DatabaseError ''no rows returned by a query that expected to return at least one row''))
      | (T', CpErr e) \<Rightarrow> (T', CpErr e)
      | (T', CpPanic m) \<Rightarrow> (T', CpPanic m))"

definition pg_log_for_source :: "id_codec \<Rightarrow> stored_log_row serial_table \<Rightarrow> log_source \<Rightarrow> log_entry list cp_outcome" where
  "pg_log_for_source I T source =
     collect_rows (log_from_row I) (sort_key lgr_sequence (filter (\<lambda>r. lgr_source r = log_source_name source) (st_rows T)))"

definition pg_log_errors :: "id_codec \<Rightarrow> stored_log_row serial_table \<Rightarrow> log_entry list cp_outcome" where
  "pg_log_errors I T =
     collect_rows (log_from_row I) (sort_key lgr_sequence (filter (\<lambda>r. lgr_level r = ''error'') (st_rows T)))"

section \<open>Audit trail\<close>

text \<open>\<open>round_subsecs(6)\<close> and the precision of a timestamp column.\<close>

record clock_precision =
  cp_round6 :: "time \<Rightarrow> time"
  cp_stored :: "time \<Rightarrow> time"

record audit_row =
  adr_sequence :: int
  adr_at :: time
  adr_actor :: string
  adr_action :: string
  adr_target :: string
  adr_detail :: string
  adr_prev_hash :: string
  adr_hash :: string

definition audit_from_row :: "audit_row \<Rightarrow> audit_record" where
  "audit_from_row r =
     \<lparr>ar_sequence = of_int (adr_sequence r), ar_at = adr_at r, ar_actor = adr_actor r, ar_action = adr_action r,
      ar_target = adr_target r, ar_detail = adr_detail r, ar_prev_hash = adr_prev_hash r, ar_hash = adr_hash r\<rparr>"

definition append_audit ::
  "clock_precision \<Rightarrow> (time \<Rightarrow> string) \<Rightarrow> audit_row list \<Rightarrow> time \<Rightarrow> string \<Rightarrow> string \<Rightarrow> string \<Rightarrow> string \<Rightarrow> string list \<Rightarrow>
   audit_row list \<times> audit_record cp_outcome" where
  "append_audit K rfc3339 T at0 actor action target detail secrets =
     (let at = cp_round6 K at0;
          newest = min_by_key (\<lambda>r. - adr_sequence r) T;
          sequence = (case newest of Some r \<Rightarrow> adr_sequence r + 1 | None \<Rightarrow> 1);
          prev_hash = (case newest of Some r \<Rightarrow> adr_hash r | None \<Rightarrow> genesis) in
      case redact_guard ''audit.detail'' detail secrets of
        Inl e \<Rightarrow> (T, CpErr e)
      | Inr redacted \<Rightarrow>
          (let record0 = \<lparr>ar_sequence = of_int sequence, ar_at = at, ar_actor = actor, ar_action = action,
                  ar_target = target, ar_detail = redacted, ar_prev_hash = prev_hash, ar_hash = []\<rparr>;
               record1 = record0\<lparr>ar_hash := compute_hash rfc3339 record0\<rparr>
           in (T @ [\<lparr>adr_sequence = sequence, adr_at = cp_stored K at, adr_actor = ar_actor record1,
                     adr_action = ar_action record1, adr_target = ar_target record1, adr_detail = ar_detail record1,
                     adr_prev_hash = ar_prev_hash record1, adr_hash = ar_hash record1\<rparr>], CpOk record1)))"

definition pg_audit_load :: "audit_row list \<Rightarrow> audit_log" where
  "pg_audit_load T = audit_restore (map audit_from_row (sort_key adr_sequence T))"

section \<open>Verification evidence\<close>

record evidence_row =
  vr_id :: string
  vr_stage :: string
  vr_check :: string
  vr_passed :: bool
  vr_summary :: string
  vr_resource :: "event_resource option"
  vr_recovery :: "string option"
  vr_at :: time

definition evidence_from_row :: "evidence_row \<Rightarrow> verification_evidence cp_outcome" where
  "evidence_from_row r =
     cp_bind (stage_from_name (vr_stage r)) (\<lambda>stage.
       CpOk \<lparr>ve_id = vr_id r, ve_stage = stage, ve_check = vr_check r, ve_passed = vr_passed r,
             ve_summary = vr_summary r, ve_resource = vr_resource r, ve_recovery = vr_recovery r, ve_at = vr_at r\<rparr>)"

definition pg_evidence_get :: "evidence_row list \<Rightarrow> string \<Rightarrow> verification_evidence cp_outcome" where
  "pg_evidence_get T i =
     (case find (\<lambda>r. vr_id r = i) T of
        None \<Rightarrow> CpErr (NotFoundError (''evidence '' @ i))
      | Some r \<Rightarrow> evidence_from_row r)"

definition evidence_to_row :: "verification_evidence \<Rightarrow> string \<Rightarrow> evidence_row" where
  "evidence_to_row e summary =
     \<lparr>vr_id = ve_id e, vr_stage = verifier_stage_name (ve_stage e), vr_check = ve_check e, vr_passed = ve_passed e,
      vr_summary = summary, vr_resource = ve_resource e, vr_recovery = ve_recovery e, vr_at = ve_at e\<rparr>"

definition pg_evidence_append ::
  "evidence_row list \<Rightarrow> verification_evidence \<Rightarrow> string list \<Rightarrow> evidence_row list \<times> verification_evidence cp_outcome" where
  "pg_evidence_append T e secrets =
     (case redact_guard ''evidence.summary'' (ve_summary e) secrets of
        Inl err \<Rightarrow> (T, CpErr err)
      | Inr summary \<Rightarrow>
          if list_ex (\<lambda>r. vr_id r = ve_id e) T
          then (T, CpErr (DatabaseError ''duplicate key value violates unique constraint''))
          else (let T' = T @ [evidence_to_row e summary] in (T', pg_evidence_get T' (ve_id e))))"

definition pg_evidence_for_stage :: "evidence_row list \<Rightarrow> verifier_stage \<Rightarrow> verification_evidence list cp_outcome" where
  "pg_evidence_for_stage T stage =
     collect_rows evidence_from_row (sort_key vr_at (filter (\<lambda>r. vr_stage r = verifier_stage_name stage) T))"

definition pg_evidence_all :: "evidence_row list \<Rightarrow> verification_evidence list cp_outcome" where
  "pg_evidence_all T = collect_rows evidence_from_row (sort_key vr_at T)"

definition pg_evidence_retain ::
  "retention_policy \<Rightarrow> evidence_row list \<Rightarrow> time \<Rightarrow> evidence_row list \<times> string list cp_outcome" where
  "pg_evidence_retain policy T now =
     (case pg_evidence_all T of
        CpErr e \<Rightarrow> (T, CpErr e)
      | CpPanic m \<Rightarrow> (T, CpPanic m)
      | CpOk evidence \<Rightarrow>
          (let store = foldl evidence_append (evidence_store_new policy) evidence;
               removed = snd (retain store now)
           in if removed = [] then (T, CpOk removed)
              else (fold (\<lambda>i T. filter (\<lambda>r. vr_id r \<noteq> i) T) removed T, CpOk removed)))"

section \<open>Usage\<close>

text \<open>The counters pass through a signed column: \<open>as i64\<close> on the way in, \<open>u64_from_i64\<close> on the way out.\<close>

definition u64_as_i64 :: "u64 \<Rightarrow> int" where
  "u64_as_i64 w = sint w"

definition u64_from_i64 :: "int \<Rightarrow> u64" where
  "u64_from_i64 v = (if v < 0 then 0 else of_int v)"

record usage_row =
  ur_application_id :: string
  ur_environment_id :: string
  ur_period_start :: time
  ur_period_end :: time
  ur_cpu :: int
  ur_memory :: int
  ur_build :: int
  ur_requests :: int
  ur_egress :: int

definition pg_usage_record :: "usage_row list \<Rightarrow> usage_record \<Rightarrow> usage_row list" where
  "pg_usage_record T u =
     T @ [\<lparr>ur_application_id = application_id_display (us_application_id u),
           ur_environment_id = environment_id_display (us_environment_id u),
           ur_period_start = us_period_start u, ur_period_end = us_period_end u,
           ur_cpu = u64_as_i64 (us_cpu_millicore_seconds u), ur_memory = u64_as_i64 (us_memory_mb_seconds u),
           ur_build = u64_as_i64 (us_build_seconds u), ur_requests = u64_as_i64 (us_requests u),
           ur_egress = u64_as_i64 (us_egress_bytes u)\<rparr>]"

definition usage_from_row :: "id_codec \<Rightarrow> usage_row \<Rightarrow> usage_record" where
  "usage_from_row I r =
     \<lparr>us_application_id = parse_application I (ur_application_id r),
      us_environment_id = parse_environment I (ur_environment_id r),
      us_period_start = ur_period_start r, us_period_end = ur_period_end r,
      us_cpu_millicore_seconds = u64_from_i64 (ur_cpu r), us_memory_mb_seconds = u64_from_i64 (ur_memory r),
      us_build_seconds = u64_from_i64 (ur_build r), us_requests = u64_from_i64 (ur_requests r),
      us_egress_bytes = u64_from_i64 (ur_egress r)\<rparr>"

definition pg_usage_for_application :: "id_codec \<Rightarrow> usage_row list \<Rightarrow> string \<Rightarrow> usage_record list" where
  "pg_usage_for_application I T i = map (usage_from_row I) (filter (\<lambda>r. ur_application_id r = i) T)"

definition pg_usage_totals :: "id_codec \<Rightarrow> usage_row list \<Rightarrow> string \<Rightarrow> usage_totals" where
  "pg_usage_totals I T i = foldl usage_add usage_totals_default (pg_usage_for_application I T i)"

section \<open>Names read back\<close>

lemma level_roundtrip [simp]: "log_level_from_name (level_name l) = CpOk l"
  by (cases l) (simp_all add: log_level_from_name_def)

lemma source_roundtrip [simp]: "log_source_from_name (log_source_name s) = CpOk s"
  by (cases s) (simp_all add: log_source_from_name_def)

lemma stage_roundtrip [simp]: "stage_from_name (verifier_stage_name st) = CpOk st"
  by (cases st) (simp_all add: stage_from_name_def)

lemma event_action_roundtrip [simp]: "event_action_from_name (event_action_name a) = CpOk a"
  by (cases a) (simp_all add: event_action_from_name_def)

definition ids_parse :: "id_codec \<Rightarrow> correlation \<Rightarrow> bool" where
  "ids_parse I c \<longleftrightarrow>
     (case co_session_id c of Some (AgentSessionId u) \<Rightarrow> ic_parse I u = Some u | None \<Rightarrow> True) \<and>
     (case co_application_id c of Some (ApplicationId u) \<Rightarrow> ic_parse I u = Some u | None \<Rightarrow> True) \<and>
     (case co_environment_id c of Some (EnvironmentId u) \<Rightarrow> ic_parse I u = Some u | None \<Rightarrow> True)"

lemma parse_ids:
  "ic_parse I u = Some u \<Longrightarrow> parse_session I (agent_session_id_display (AgentSessionId u)) = AgentSessionId u"
  "ic_parse I u = Some u \<Longrightarrow> parse_application I (application_id_display (ApplicationId u)) = ApplicationId u"
  "ic_parse I u = Some u \<Longrightarrow> parse_environment I (environment_id_display (EnvironmentId u)) = EnvironmentId u"
  using id_from_str_roundtrip [of "ic_parse I" u "''agt_''" "''agent session''" AgentSessionId]
    id_from_str_roundtrip [of "ic_parse I" u "''app_''" "''application''" ApplicationId]
    id_from_str_roundtrip [of "ic_parse I" u "''env_''" "''environment''" EnvironmentId]
  by (simp_all add: parse_session_def parse_application_def parse_environment_def agent_session_id_from_str_def
      application_id_from_str_def environment_id_from_str_def)

lemma correlation_roundtrip: "ids_parse I c \<Longrightarrow> correlation_of_columns I (correlation_to_columns c) = c"
  by (cases "co_session_id c"; cases "co_application_id c"; cases "co_environment_id c")
    (auto simp: ids_parse_def correlation_of_columns_def correlation_to_columns_def parse_ids
      simp del: agent_session_id_display.simps application_id_display.simps environment_id_display.simps
      split: agent_session_id.splits application_id.splits environment_id.splits)

section \<open>Serial tables\<close>

definition serial_ok :: "('r \<Rightarrow> int) \<Rightarrow> 'r serial_table \<Rightarrow> bool" where
  "serial_ok seq T \<longleftrightarrow> (\<forall>r \<in> set (st_rows T). seq r < st_next T)"

lemma serial_ok_empty [simp]: "serial_ok seq serial_empty"
  by (simp add: serial_ok_def serial_empty_def)

lemma find_append_single: "find P xs = None \<Longrightarrow> P x \<Longrightarrow> find P (xs @ [x]) = Some x"
  by (induction xs) (auto split: if_splits)

lemma serial_find:
  assumes "serial_ok seq T" "seq r = st_next T"
  shows "find (\<lambda>x. seq x = st_next T) (st_rows T @ [r]) = Some r"
proof -
  have "find (\<lambda>x. seq x = st_next T) (st_rows T) = None"
    using assms(1) by (auto simp: serial_ok_def find_None_iff)
  then show ?thesis using assms(2) by (rule find_append_single)
qed

section \<open>The audit table\<close>

definition audit_table_ok :: "audit_row list \<Rightarrow> bool" where
  "audit_table_ok T \<longleftrightarrow> map adr_sequence T = map (\<lambda>i. int i + 1) [0..<length T]"

lemma audit_table_sequence: "audit_table_ok T \<Longrightarrow> i < length T \<Longrightarrow> adr_sequence (T ! i) = int i + 1"
  unfolding audit_table_ok_def
  by (metis (no_types, lifting) add.left_neutral diff_zero length_upt nth_map nth_upt)

lemma audit_table_load: "audit_table_ok T \<Longrightarrow> pg_audit_load T = map audit_from_row T"
proof -
  assume ok: "audit_table_ok T"
  have "sorted (map adr_sequence T)"
    unfolding sorted_iff_nth_mono using audit_table_sequence [OF ok] by simp
  then show ?thesis by (simp add: pg_audit_load_def audit_restore_def sorted_sort_id sort_key_id_if_sorted)
qed

lemma audit_table_newest:
  assumes "audit_table_ok T"
  shows "min_by_key (\<lambda>r. - adr_sequence r) T = (if T = [] then None else Some (last T))"
proof (cases "T = []")
  case False
  then obtain r where r: "min_by_key (\<lambda>r. - adr_sequence r) T = Some r" by (metis min_by_key_None not_None_eq)
  note least = min_by_key_Some [OF r]
  then obtain i where i: "i < length T" "r = T ! i" by (auto simp: in_set_conv_nth)
  have "adr_sequence (last T) \<le> adr_sequence r" using least False by auto
  then have "i = length T - 1"
    using i False audit_table_sequence [OF assms, of i] audit_table_sequence [OF assms, of "length T - 1"]
    by (auto simp: last_conv_nth)
  with i r False show ?thesis by (simp add: last_conv_nth)
qed simp

type_synonym audit_call = "time \<times> string \<times> string \<times> string \<times> string \<times> string list"

definition audit_exec :: "clock_precision \<Rightarrow> (time \<Rightarrow> string) \<Rightarrow> audit_row list \<Rightarrow> audit_call \<Rightarrow> audit_row list" where
  "audit_exec K rf T = (\<lambda>(at, actor, action, target, detail, secrets).
     fst (append_audit K rf T at actor action target detail secrets))"

text \<open>The calls whose detail the guard lets through, with their instants rounded.\<close>

definition admitted :: "clock_precision \<Rightarrow> audit_call list \<Rightarrow> audit_entry list" where
  "admitted K calls =
     map (\<lambda>(at, actor, action, target, detail, secrets). (cp_round6 K at, actor, action, target, detail, secrets))
       (filter (\<lambda>(at, actor, action, target, detail, secrets). \<not> isl (redact_guard ''audit.detail'' detail secrets)) calls)"

lemma append_audit_refines:
  assumes "audit_table_ok T" "\<And>t. cp_stored K (cp_round6 K t) = cp_round6 K t"
  shows "audit_table_ok (audit_exec K rf T c) \<and>
    pg_audit_load (audit_exec K rf T c) = foldl (audit_push rf) (pg_audit_load T) (admitted K [c])"
proof -
  obtain at actor action target detail secrets where c: "c = (at, actor, action, target, detail, secrets)"
    by (metis prod_cases6)
  show ?thesis
  proof (cases "redact_guard ''audit.detail'' detail secrets")
    case (Inl e)
    then show ?thesis using assms(1) by (simp add: c audit_exec_def append_audit_def Let_def admitted_def)
  next
    case (Inr red)
    then have red: "red = redact_reason detail secrets" using redact_guard_Inr by blast
    define row where "row = last (audit_exec K rf T c)"
    have T': "audit_exec K rf T c = T @ [row]"
      unfolding row_def using Inr by (simp add: c audit_exec_def append_audit_def Let_def)
    have seq: "adr_sequence row = int (length T) + 1"
      using Inr assms(1) audit_table_sequence [OF assms(1), of "length T - 1"]
      by (auto simp: row_def c audit_exec_def append_audit_def Let_def audit_table_newest last_conv_nth)
    have ok: "audit_table_ok (T @ [row])" using assms(1) seq by (simp add: audit_table_ok_def)
    have "audit_push rf (map audit_from_row T) (cp_round6 K at, actor, action, target, detail, secrets) =
        map audit_from_row T @ [audit_from_row row]"
      using Inr red assms seq
      by (simp add: row_def c audit_exec_def append_audit_def Let_def audit_table_newest audit_push_def
          audit_append_def audit_from_row_def last_map compute_hash_def)
    then show ?thesis
      using ok audit_table_load [OF ok] audit_table_load [OF assms(1)] T' Inr by (simp add: c admitted_def)
  qed
qed

lemma audit_run_refines:
  assumes "audit_table_ok T" "\<And>t. cp_stored K (cp_round6 K t) = cp_round6 K t"
  shows "audit_table_ok (foldl (audit_exec K rf) T cs) \<and>
    pg_audit_load (foldl (audit_exec K rf) T cs) = foldl (audit_push rf) (pg_audit_load T) (admitted K cs)"
  using assms(1)
proof (induction cs arbitrary: T)
  case (Cons c cs)
  have "admitted K (c # cs) = admitted K [c] @ admitted K cs" by (simp add: admitted_def)
  with Cons.IH append_audit_refines [OF Cons.prems assms(2), of rf c] show ?case by simp
qed (simp add: admitted_def)

section \<open>Appending an event\<close>

lemma guard_cases:
  obtains "lift_guard (redact_guard f t secrets) = CpOk (redact_reason t secrets)"
      "\<forall>s \<in> set secrets. s \<noteq> [] \<longrightarrow> \<not> str_contains (redact_reason t secrets) s"
  | "lift_guard (redact_guard f t secrets) = CpErr (SecretLeakError f)"
  using redact_guard_Inr [of f t secrets] redact_guard_Inl [of f t secrets]
  by (cases "redact_guard f t secrets") (auto simp: lift_guard_def)

definition event_texts :: "platform_event \<Rightarrow> string list" where
  "event_texts e =
     (case ev_before e of Some t \<Rightarrow> [t] | None \<Rightarrow> []) @ (case ev_after e of Some t \<Rightarrow> [t] | None \<Rightarrow> []) @
     (case ev_result e of EvFailed r \<Rightarrow> [r] | _ \<Rightarrow> [])"

definition leaks_no :: "string list \<Rightarrow> string \<Rightarrow> bool" where
  "leaks_no secrets t \<longleftrightarrow> (\<forall>s \<in> set secrets. s \<noteq> [] \<longrightarrow> \<not> str_contains t s)"

definition redacted_result :: "event_result \<Rightarrow> string list \<Rightarrow> event_result" where
  "redacted_result r secrets = (case r of EvFailed reason \<Rightarrow> EvFailed (redact_reason reason secrets) | other \<Rightarrow> other)"

lemma guarded_result_cases:
  obtains "guarded_result r secrets = CpOk (redacted_result r secrets)"
      "\<forall>t. redacted_result r secrets = EvFailed t \<longrightarrow> leaks_no secrets t"
  | "guarded_result r secrets = CpErr (SecretLeakError ''event.result'')"
proof (cases r)
  case (EvFailed reason)
  show ?thesis
    by (rule guard_cases [of "''event.result''" reason secrets])
      (auto intro: that simp: EvFailed guarded_result_def redacted_result_def leaks_no_def)
qed (auto intro: that simp: guarded_result_def redacted_result_def)

text \<open>The row of a draft whose texts pass the guards.\<close>

definition draft_row :: "event_draft \<Rightarrow> string list \<Rightarrow> int \<Rightarrow> event_row" where
  "draft_row d secrets n =
     \<lparr>evr_sequence = n, evr_at = dr_at d, evr_actor = dr_actor d,
      evr_correlation = correlation_to_columns (dr_correlation d), evr_action = event_action_name (dr_action d),
      evr_resource_kind = map_option er_kind (dr_resource d), evr_resource_id = map_option er_id (dr_resource d),
      evr_before = map_option (\<lambda>t. redact_reason t secrets) (dr_before d),
      evr_after = map_option (\<lambda>t. redact_reason t secrets) (dr_after d),
      evr_result = redacted_result (dr_result d) secrets\<rparr>"

definition draft_clean :: "event_draft \<Rightarrow> string list \<Rightarrow> bool" where
  "draft_clean d secrets \<longleftrightarrow>
     (\<forall>t. dr_before d = Some t \<longrightarrow> leaks_no secrets (redact_reason t secrets)) \<and>
     (\<forall>t. dr_after d = Some t \<longrightarrow> leaks_no secrets (redact_reason t secrets)) \<and>
     (\<forall>t. redacted_result (dr_result d) secrets = EvFailed t \<longrightarrow> leaks_no secrets t)"

lemma opt_text_map: "map_option (\<lambda>_. redact_reason (opt_text x) secrets) x = map_option (\<lambda>t. redact_reason t secrets) x"
  by (cases x) (simp_all add: opt_text_def)

lemma append_event_cases:
  obtains f where "append_event T d secrets = (T, CpErr (SecretLeakError f))"
  | "append_event T d secrets =
       (\<lparr>st_rows = st_rows T @ [draft_row d secrets (st_next T)], st_next = st_next T + 1\<rparr>, CpOk (st_next T))"
      "draft_clean d secrets"
proof (rule guard_cases [of "''event.before''" "opt_text (dr_before d)" secrets])
  assume "lift_guard (redact_guard ''event.before'' (opt_text (dr_before d)) secrets) = CpErr (SecretLeakError ''event.before'')"
  then show ?thesis by (intro that(1)) (simp add: append_event_def)
next
  assume b: "lift_guard (redact_guard ''event.before'' (opt_text (dr_before d)) secrets) =
      CpOk (redact_reason (opt_text (dr_before d)) secrets)"
    "\<forall>s \<in> set secrets. s \<noteq> [] \<longrightarrow> \<not> str_contains (redact_reason (opt_text (dr_before d)) secrets) s"
  show ?thesis
  proof (rule guard_cases [of "''event.after''" "opt_text (dr_after d)" secrets])
    assume "lift_guard (redact_guard ''event.after'' (opt_text (dr_after d)) secrets) = CpErr (SecretLeakError ''event.after'')"
    with b(1) show ?thesis by (intro that(1)) (simp add: append_event_def)
  next
    assume a: "lift_guard (redact_guard ''event.after'' (opt_text (dr_after d)) secrets) =
        CpOk (redact_reason (opt_text (dr_after d)) secrets)"
      "\<forall>s \<in> set secrets. s \<noteq> [] \<longrightarrow> \<not> str_contains (redact_reason (opt_text (dr_after d)) secrets) s"
    show ?thesis
    proof (rule guarded_result_cases [of "dr_result d" secrets])
      assume "guarded_result (dr_result d) secrets = CpErr (SecretLeakError ''event.result'')"
      with a(1) b(1) show ?thesis by (intro that(1)) (simp add: append_event_def)
    next
      assume r: "guarded_result (dr_result d) secrets = CpOk (redacted_result (dr_result d) secrets)"
        "\<forall>t. redacted_result (dr_result d) secrets = EvFailed t \<longrightarrow> leaks_no secrets t"
      from a(2) b(2) r(2) have "draft_clean d secrets"
        by (cases "dr_before d"; cases "dr_after d") (simp_all add: draft_clean_def leaks_no_def opt_text_def)
      with a(1) b(1) r(1) show ?thesis
        by (intro that(2)) (simp_all add: append_event_def serial_insert_def draft_row_def opt_text_map)
    qed
  qed
qed

lemma draft_row_event:
  assumes "ids_parse I (dr_correlation d)"
  shows "event_from_row I (draft_row d secrets n) = CpOk ((snd (event_append [] d secrets))\<lparr>ev_sequence := of_int n\<rparr>)"
  using correlation_roundtrip [OF assms]
  by (cases "dr_resource d")
    (auto simp: event_from_row_def draft_row_def event_append_def redacted_result_def event_resource_new_def Let_def)

section \<open>Retention\<close>

lemma collect_evidence:
  assumes "\<forall>r \<in> set T. \<exists>st. stage_from_name (vr_stage r) = CpOk st"
  shows "\<exists>f. (\<forall>r \<in> set T. evidence_from_row r = CpOk (f r) \<and> ve_id (f r) = vr_id r \<and> ve_at (f r) = vr_at r) \<and>
    collect_rows evidence_from_row T = CpOk (map f T)"
proof -
  define f where "f = (\<lambda>r. case evidence_from_row r of CpOk e \<Rightarrow> e)"
  have f: "evidence_from_row r = CpOk (f r) \<and> ve_id (f r) = vr_id r \<and> ve_at (f r) = vr_at r" if "r \<in> set T" for r
    using bspec [OF assms that] by (auto simp: f_def evidence_from_row_def)
  have "collect_rows evidence_from_row T' = CpOk (map f T')" if "set T' \<subseteq> set T" for T'
    using that f by (induction T') simp_all
  with f show ?thesis by blast
qed

lemma filter_enumerate_ids:
  assumes "distinct (map g xs)"
  shows "map snd (filter (\<lambda>p. \<not> P p) (enumerate n xs)) =
    filter (\<lambda>x. g x \<notin> set (map (g \<circ> snd) (filter P (enumerate n xs)))) xs"
  using assms
proof (induction xs arbitrary: n)
  case (Cons x xs)
  have "g x \<notin> g ` set xs" using Cons.prems by simp
  moreover have "set (map (g \<circ> snd) (filter P (enumerate (Suc n) xs))) \<subseteq> g ` set xs"
    by (auto simp: in_set_enumerate_eq)
  ultimately have x: "g x \<notin> set (map (g \<circ> snd) (filter P (enumerate (Suc n) xs)))" by blast
  have "g y \<noteq> g x" if "y \<in> set xs" for y using that \<open>g x \<notin> g ` set xs\<close> by (metis imageI)
  then have "filter (\<lambda>y. g y \<notin> insert (g x) S) xs = filter (\<lambda>y. g y \<notin> S) xs" for S
    by (intro filter_cong) auto
  with Cons x show ?case by (auto simp: comp_def)
qed simp

lemma retain_filter:
  assumes "distinct (map ve_id (es_evidence st))"
  shows "es_evidence (fst (retain st now)) = filter (\<lambda>e. ve_id e \<notin> set (snd (retain st now))) (es_evidence st)"
proof (cases "list_ex blocking_failure (es_evidence st)")
  case True
  show ?thesis unfolding retain_with_failure [OF True]
    using assms by (intro filter_cong) (auto simp: distinct_map dest: inj_onD)
next
  case False
  have "fst (prune p ev now) = filter (\<lambda>e. ve_id e \<notin> set (snd (prune p ev now))) ev"
    if "distinct (map ve_id ev)" for p ev
    using filter_enumerate_ids [OF that, of "\<lambda>(i, e). i < length ev - rt_keep_latest p \<and> expired p now e" 0]
    by (simp add: prune_def Let_def case_prod_unfold)
  from this [OF assms] False show ?thesis
    by (simp add: retain_def Let_def split: prod.split) (metis fst_conv snd_conv)
qed

lemma store_of_list: "foldl evidence_append st evs = st\<lparr>es_evidence := es_evidence st @ evs\<rparr>"
  by (induction evs arbitrary: st) (simp_all add: evidence_append_def)

lemma fold_delete: "fold (\<lambda>i T. filter (\<lambda>r. vr_id r \<noteq> i) T) ids T = filter (\<lambda>r. vr_id r \<notin> set ids) T"
  by (induction ids arbitrary: T) (auto intro: filter_cong)

section \<open>Properties\<close>

text \<open>
  The durable audit trail verifies. After any sequence of append calls, those the guard rejects included, the trail that
  is loaded from the table is exactly the one the in-memory log builds from the admitted calls, and it
  verifies, provided the database keeps a rounded instant as it is: the digest is computed over the rounded
  instant, so it is recomputable after the reload.
\<close>

theorem durable_audit_verifies:
  assumes "\<And>t. cp_stored K (cp_round6 K t) = cp_round6 K t"
  shows "pg_audit_load (foldl (audit_exec K rf) [] calls) = foldl (audit_push rf) [] (admitted K calls) \<and>
    audit_verify rf (pg_audit_load (foldl (audit_exec K rf) [] calls)) = Ok ()"
proof -
  have "audit_table_ok []" by (simp add: audit_table_ok_def)
  from audit_run_refines [OF this assms, of rf calls]
  have load: "pg_audit_load (foldl (audit_exec K rf) [] calls) = foldl (audit_push rf) [] (admitted K calls)"
    by (simp add: pg_audit_load_def audit_restore_def)
  moreover have "audit_verify rf [] = Ok ()" by (simp add: audit_verify_def)
  ultimately show ?thesis using audit_run_verify [of rf "[]"] by simp
qed

definition micros :: clock_precision where
  "micros = \<lparr>cp_round6 = (\<lambda>t. (t + 500) div 1000 * 1000), cp_stored = (\<lambda>t. t div 1000 * 1000)\<rparr>"

theorem durable_audit_verifies_witness:
  "audit_verify (\<lambda>t. ''t'') (pg_audit_load (foldl (audit_exec micros (\<lambda>t. ''t'')) []
     [(1234, ''ops'', ''rotate'', ''db'', ''done'', []), (5678, ''ops'', ''read'', ''db'', ''x[redacted]'', [''redacted''])])) = Ok ()"
  by (rule conjunct2 [OF durable_audit_verifies]) (simp add: micros_def)

text \<open>
  A durable event is the core event. On a table whose sequence numbers are below its counter, appending either
  fails with the name of the field that would leak and stores nothing, or adds one row and returns the event
  the in-memory log would record, under the next sequence number; no stored text contains a secret.
\<close>

theorem durable_event_refines:
  assumes "serial_ok evr_sequence T" "ids_parse I (dr_correlation d)"
  shows "case pg_event_append I T d secrets of
      (T', CpOk e) \<Rightarrow> e = (snd (event_append [] d secrets))\<lparr>ev_sequence := of_int (st_next T)\<rparr> \<and>
        (\<exists>row. st_rows T' = st_rows T @ [row] \<and> event_from_row I row = CpOk e) \<and>
        serial_ok evr_sequence T' \<and> (\<forall>t \<in> set (event_texts e). leaks_no secrets t)
    | (T', CpErr e) \<Rightarrow> T' = T \<and> (\<exists>f. e = SecretLeakError f)
    | (T', CpPanic _) \<Rightarrow> False"
proof (rule append_event_cases [of T d secrets])
  fix f
  assume "append_event T d secrets = (T, CpErr (SecretLeakError f))"
  then show ?thesis by (simp add: pg_event_append_def)
next
  let ?row = "draft_row d secrets (st_next T)"
  let ?e = "(snd (event_append [] d secrets))\<lparr>ev_sequence := of_int (st_next T)\<rparr>"
  assume a: "append_event T d secrets =
      (\<lparr>st_rows = st_rows T @ [?row], st_next = st_next T + 1\<rparr>, CpOk (st_next T))" and clean: "draft_clean d secrets"
  have "evr_sequence ?row = st_next T" by (simp add: draft_row_def)
  note found = serial_find [OF assms(1) this] and seq = this
  have res: "pg_event_append I T d secrets = (\<lparr>st_rows = st_rows T @ [?row], st_next = st_next T + 1\<rparr>, CpOk ?e)"
    using a found draft_row_event [OF assms(2)] by (simp add: pg_event_append_def pg_event_get_def)
  have "\<forall>t \<in> set (event_texts ?e). leaks_no secrets t"
    using clean by (auto simp: event_texts_def event_append_def draft_clean_def redacted_result_def Let_def
        split: option.splits event_result.splits)
  moreover have "serial_ok evr_sequence \<lparr>st_rows = st_rows T @ [?row], st_next = st_next T + 1\<rparr>"
    using assms(1) seq by (auto simp: serial_ok_def)
  ultimately show ?thesis unfolding res using draft_row_event [OF assms(2)] by simp
qed

theorem durable_event_refines_witness:
  "\<exists>T' e. pg_event_append \<lparr>ic_parse = Some, ic_default = ''0''\<rparr> serial_empty
     (event_draft_new 3 (ActorHuman ''ana'') (correlation_new ''t1'') Reconciled EvAccepted) [''pw''] = (T', e) \<and>
   (case (T', e) of
      (T', CpOk e) \<Rightarrow> e = (snd (event_append [] (event_draft_new 3 (ActorHuman ''ana'') (correlation_new ''t1'')
          Reconciled EvAccepted) [''pw'']))\<lparr>ev_sequence := 1\<rparr>
    | _ \<Rightarrow> \<exists>f. e = CpErr (SecretLeakError f))"
proof -
  let ?I = "\<lparr>ic_parse = Some, ic_default = ''0''\<rparr>"
  let ?d = "event_draft_new 3 (ActorHuman ''ana'') (correlation_new ''t1'') Reconciled EvAccepted"
  have "ids_parse ?I (dr_correlation ?d)" by (simp add: ids_parse_def event_draft_new_def correlation_new_def)
  from durable_event_refines [OF serial_ok_empty this, of "[''pw'']"] show ?thesis
    by (auto simp: serial_empty_def split: prod.splits cp_outcome.splits)
qed

text \<open>
  Durable retention is the retention of \<open>labrys-core\<close>. With distinct identifiers and known stages, a retention pass
  over the table deletes exactly the rows the in-memory store removes: what can be read afterwards is
  what that store keeps, so every unresolved blocking failure is still there.
\<close>

theorem durable_retain_refines:
  assumes "distinct (map vr_id T)" "\<forall>r \<in> set T. \<exists>st. stage_from_name (vr_stage r) = CpOk st"
    and "pg_evidence_all T = CpOk evs" "pg_evidence_retain p T now = (T', res)"
  shows "let st = \<lparr>es_evidence = evs, es_policy = p\<rparr> in
    res = CpOk (snd (retain st now)) \<and> pg_evidence_all T' = CpOk (es_evidence (fst (retain st now)))"
proof -
  let ?S = "sort_key vr_at T"
  have "\<forall>r \<in> set ?S. \<exists>st. stage_from_name (vr_stage r) = CpOk st" using assms(2) by simp
  from collect_evidence [OF this] obtain f where
    f: "\<forall>r \<in> set ?S. evidence_from_row r = CpOk (f r) \<and> ve_id (f r) = vr_id r \<and> ve_at (f r) = vr_at r"
    and evs: "evs = map f ?S" using assms(3) by (auto simp: pg_evidence_all_def)
  let ?st = "\<lparr>es_evidence = evs, es_policy = p\<rparr>"
  let ?gone = "set (snd (retain ?st now))"
  have "distinct (map vr_id ?S)" using assms(1) by (simp add: distinct_map)
  moreover have "map ve_id evs = map vr_id ?S" using f by (simp add: evs)
  ultimately have "distinct (map ve_id evs)" by simp
  note core = retain_filter [of ?st now, simplified, OF this]
  have T': "T' = filter (\<lambda>r. vr_id r \<notin> ?gone) T" and res: "res = CpOk (snd (retain ?st now))"
    using assms(3,4)
    by (auto simp: pg_evidence_retain_def store_of_list evidence_store_new_def fold_delete Let_def split: if_splits)
  have "sort_key vr_at T' = filter (\<lambda>r. vr_id r \<notin> ?gone) ?S" by (simp add: T' filter_sort)
  moreover have "collect_rows evidence_from_row S' = CpOk (map f S')" if "set S' \<subseteq> set ?S" for S'
    using that f by (induction S') simp_all
  ultimately have "pg_evidence_all T' = CpOk (map f (filter (\<lambda>r. vr_id r \<notin> ?gone) ?S))"
    by (simp add: pg_evidence_all_def)
  also have "map f (filter (\<lambda>r. vr_id r \<notin> ?gone) ?S) = filter (\<lambda>e. ve_id e \<notin> ?gone) evs"
    using f by (auto simp: evs filter_map comp_def intro!: arg_cong [where f = "map f"] filter_cong)
  finally show ?thesis using core res by (simp add: Let_def)
qed

theorem durable_retain_refines_witness:
  "pg_evidence_all (fst (pg_evidence_retain retention_policy_default [] 9)) =
     CpOk (es_evidence (fst (retain \<lparr>es_evidence = [], es_policy = retention_policy_default\<rparr> 9)))"
proof -
  have "pg_evidence_all [] = CpOk []" by (simp add: pg_evidence_all_def)
  from durable_retain_refines [OF _ _ this prod.collapse [symmetric], of retention_policy_default 9]
  show ?thesis by (simp add: Let_def)
qed

text \<open>
  A usage counter passes through the signed column unchanged below 2^63; a larger one is read back as zero.
\<close>

theorem usage_counter_roundtrip:
  "u64_from_i64 (u64_as_i64 w) = (if unat w < 2 ^ 63 then w else 0)"
proof -
  have nat: "unat w < 2 ^ 63 \<longleftrightarrow> uint w < 2 ^ 63" unfolding unat_eq_nat_uint by (subst nat_less_iff) simp_all
  have s: "sint w = signed_take_bit 63 (uint w)" by (simp add: sint_uint)
  show ?thesis
  proof (cases "uint w < 2 ^ 63")
    case True
    moreover have "- (2 ^ 63) \<le> uint w" by (rule order_trans [OF _ uint_nonnegative]) simp
    ultimately have "sint w = uint w" unfolding s by (simp add: signed_take_bit_int_eq_self_iff)
    then show ?thesis unfolding nat using True by (simp add: u64_from_i64_def u64_as_i64_def)
  next
    case False
    moreover have "uint w < 2 ^ 64" using uint_bounded [of w] by simp
    ultimately have "uint w div 2 ^ 63 = 1" by (intro int_div_pos_eq [of _ _ 1 "uint w - 2 ^ 63"]) simp_all
    then have "bit (uint w) 63" unfolding bit_iff_odd by simp
    then have "sint w < 0" unfolding s signed_take_bit_negative_iff .
    then show ?thesis unfolding nat using False by (simp add: u64_from_i64_def u64_as_i64_def)
  qed
qed

text \<open>
  The recovery text of evidence is stored verbatim: an accepted append returns it unredacted, whatever the
  secrets are, although the summary beside it is redacted and guarded.
\<close>

theorem evidence_recovery_unredacted:
  assumes "pg_evidence_append T e secrets = (T', CpOk e')"
  shows "ve_recovery e' = ve_recovery e \<and> ve_summary e' = redact_reason (ve_summary e) secrets"
  using assms
  by (auto simp: pg_evidence_append_def pg_evidence_get_def evidence_to_row_def evidence_from_row_def find_append_single
      find_None_iff list_ex_iff redact_guard_Inr Let_def split: sum.splits if_splits option.splits)

end
