(* ===== verification/Control_Config.thy ===== *)
theory Control_Config
  imports Redaction
begin

text \<open>
  Process configuration of the control plane: \<open>labrys-control-plane/src/config.rs\<close>.

  \<open>from_lookup\<close> reads every setting from a lookup, parses it as the standard library parses integers, and
  validates the result. Paths are texts; the temporary directory and the generated worker name are arguments.
  \<open>validate_exact\<close> characterises the accepted configurations, and the last section is about the
  password that is taken out of a connection URL so that it can be redacted.
\<close>

section \<open>Parsing integers\<close>

text \<open>\<open>str::parse\<close> for integers: an optional sign, at least one digit, and no overflow.\<close>

definition digit_value :: "char \<Rightarrow> nat option" where
  "digit_value c = (let n = of_char c :: nat in if 48 \<le> n \<and> n \<le> 57 then Some (n - 48) else None)"

fun digits_value :: "nat \<Rightarrow> string \<Rightarrow> nat option" where
  "digits_value acc [] = Some acc"
| "digits_value acc (c # cs) =
     (case digit_value c of None \<Rightarrow> None | Some d \<Rightarrow> digits_value (10 * acc + d) cs)"

definition parse_digits :: "string \<Rightarrow> nat option" where
  "parse_digits s = (if s = [] then None else digits_value 0 s)"

definition bounded :: "nat \<Rightarrow> nat option \<Rightarrow> nat option" where
  "bounded hi v = (case v of Some n \<Rightarrow> if n \<le> hi then Some n else None | None \<Rightarrow> None)"

fun parse_unsigned :: "string \<Rightarrow> u64 option" where
  "parse_unsigned [] = None"
| "parse_unsigned (c # cs) =
     map_option of_nat (bounded u64_max (parse_digits (if c = CHR ''+'' then cs else c # cs)))"

fun parse_signed :: "string \<Rightarrow> int option" where
  "parse_signed [] = None"
| "parse_signed (c # cs) =
     (if c = CHR ''-'' then map_option (\<lambda>n. - int n) (bounded (2 ^ 63) (parse_digits cs))
      else map_option int (bounded (2 ^ 63 - 1) (parse_digits (if c = CHR ''+'' then cs else c # cs))))"

type_synonym env_lookup = "string \<Rightarrow> string option"

definition parse_value ::
  "env_lookup \<Rightarrow> string \<Rightarrow> 'a \<Rightarrow> (string \<Rightarrow> 'a option) \<Rightarrow> 'a cp_outcome" where
  "parse_value lookup key dflt parse =
     (case lookup key of
        None \<Rightarrow> CpOk dflt
      | Some raw \<Rightarrow>
          (case parse (trim raw) of
             Some v \<Rightarrow> CpOk v
           | None \<Rightarrow> CpErr (ConfigError (key @ '' is not a valid integer: '' @ raw))))"

definition parse_i64 :: "env_lookup \<Rightarrow> string \<Rightarrow> int \<Rightarrow> int cp_outcome" where
  "parse_i64 lookup key dflt = parse_value lookup key dflt parse_signed"

definition parse_u64 :: "env_lookup \<Rightarrow> string \<Rightarrow> u64 \<Rightarrow> u64 cp_outcome" where
  "parse_u64 lookup key dflt = parse_value lookup key dflt parse_unsigned"

definition parse_usize :: "env_lookup \<Rightarrow> string \<Rightarrow> u64 \<Rightarrow> u64 cp_outcome" where
  "parse_usize lookup key dflt = parse_value lookup key dflt parse_unsigned"

section \<open>Settings\<close>

datatype runtime_mode = RmAuto | RmDocker | RmDisabled

fun runtime_mode_as_str :: "runtime_mode \<Rightarrow> string" where
  "runtime_mode_as_str RmAuto = ''auto''"
| "runtime_mode_as_str RmDocker = ''docker''"
| "runtime_mode_as_str RmDisabled = ''disabled''"

definition runtime_mode_parse :: "string \<Rightarrow> runtime_mode cp_outcome" where
  "runtime_mode_parse raw =
     (let v = to_ascii_lowercase (trim raw) in
      if v = ''auto'' then CpOk RmAuto
      else if v = ''docker'' then CpOk RmDocker
      else if v = ''disabled'' then CpOk RmDisabled
      else CpErr (ConfigError (''LABRYS_RUNTIME_MODE must be one of auto, docker, disabled (got '' @ quote_mark @
             v @ quote_mark @ '')'')))"

definition default_preview_ttl_secs :: u64 where
  "default_preview_ttl_secs = 3600"

definition min_preview_ttl_secs :: u64 where
  "min_preview_ttl_secs = 60"

definition max_preview_ttl_secs :: u64 where
  "max_preview_ttl_secs = 86400"

record config =
  cfg_database_url :: string
  cfg_worker_id :: string
  cfg_lease_seconds :: int
  cfg_poll_interval_ms :: u64
  cfg_drain_timeout_ms :: u64
  cfg_max_concurrency :: u64
  cfg_run_migrations :: bool
  cfg_runtime_mode :: runtime_mode
  cfg_docker_bin :: string
  cfg_workspace_root :: string
  cfg_preview_ttl_secs :: u64
  cfg_provider_postgres_url :: "string option"
  cfg_provider_storage_root :: string
  cfg_provider_registry_endpoint :: "string option"
  cfg_provider_registry_username :: "string option"
  cfg_provider_registry_password :: "string option"
  cfg_provider_tls_dir :: string

definition path_join :: "string \<Rightarrow> string \<Rightarrow> string" where
  "path_join base rel =
     (if base = [] then rel else if last base = CHR ''/'' then base @ rel else base @ CHR ''/'' # rel)"

text \<open>A path that may be set, but not to blanks; and an optional text.\<close>

definition required_path :: "env_lookup \<Rightarrow> string \<Rightarrow> string \<Rightarrow> string cp_outcome" where
  "required_path lookup key dflt =
     (case lookup key of
        None \<Rightarrow> CpOk dflt
      | Some v \<Rightarrow> if trim v \<noteq> [] then CpOk (trim v) else CpErr (ConfigError (key @ '' must not be empty'')))"

definition optional_text :: "env_lookup \<Rightarrow> string \<Rightarrow> string option" where
  "optional_text lookup key =
     (case lookup key of Some v \<Rightarrow> if trim v \<noteq> [] then Some (trim v) else None | None \<Rightarrow> None)"

definition trim_end_slashes :: "string \<Rightarrow> string" where
  "trim_end_slashes s = rev (dropWhile (\<lambda>c. c = CHR ''/'') (rev s))"

definition require_postgres_url :: "string \<Rightarrow> string \<Rightarrow> unit cp_outcome" where
  "require_postgres_url url name =
     (if \<not> (starts_with url ''postgres://'' \<or> starts_with url ''postgresql://'' \<or> starts_with url ''postgres+'')
      then CpErr (ConfigError (name @ '' must be a postgresql:// connection string''))
      else CpOk ())"

text \<open>One check of \<open>validate\<close>, before the rest.\<close>

definition reject_if :: "bool \<Rightarrow> string \<Rightarrow> unit cp_outcome \<Rightarrow> unit cp_outcome" where
  "reject_if bad m rest = (if bad then CpErr (ConfigError m) else rest)"

definition config_validate :: "config \<Rightarrow> unit cp_outcome" where
  "config_validate c =
     (let url = trim (cfg_database_url c) in
      reject_if (url = []) ''database url is required (LABRYS_DATABASE_URL/DATABASE_URL)'' (
      cp_bind (require_postgres_url url ''LABRYS_DATABASE_URL/DATABASE_URL'') (\<lambda>_.
      reject_if (trim (cfg_worker_id c) = []) ''worker id must not be empty'' (
      reject_if (cfg_lease_seconds c < 1 \<or> cfg_lease_seconds c > 3600) ''lease seconds must be between 1 and 3600'' (
      reject_if (cfg_poll_interval_ms c < 10 \<or> cfg_poll_interval_ms c > 60000)
        ''poll interval must be between 10 and 60000 ms'' (
      reject_if (cfg_drain_timeout_ms c < 100 \<or> cfg_drain_timeout_ms c > 120000)
        ''drain timeout must be between 100 and 120000 ms'' (
      reject_if (cfg_max_concurrency c < 1 \<or> cfg_max_concurrency c > 64) ''max concurrency must be between 1 and 64'' (
      reject_if (cfg_docker_bin c = []) ''docker binary path must not be empty'' (
      reject_if (cfg_workspace_root c = []) ''workspace root must not be empty'' (
      reject_if (cfg_preview_ttl_secs c < min_preview_ttl_secs \<or> cfg_preview_ttl_secs c > max_preview_ttl_secs)
        (''preview ttl must be between '' @ show_u64 min_preview_ttl_secs @ '' and '' @
         show_u64 max_preview_ttl_secs @ '' seconds'') (
      cp_bind (case cfg_provider_postgres_url c of
                 Some u \<Rightarrow> require_postgres_url u ''LABRYS_PROVIDER_POSTGRES_URL'' | None \<Rightarrow> CpOk ()) (\<lambda>_.
      reject_if (cfg_provider_storage_root c = []) ''provider storage root must not be empty'' (
      reject_if (case cfg_provider_registry_endpoint c of
                   Some e \<Rightarrow> \<not> (starts_with e ''http://'' \<or> starts_with e ''https://'') | None \<Rightarrow> False)
        ''LABRYS_PROVIDER_REGISTRY_ENDPOINT must be an http(s) URL'' (
      reject_if (cfg_provider_tls_dir c = []) ''provider tls dir must not be empty''
        (CpOk ())))))))))))))))"

definition config_from_lookup :: "string \<Rightarrow> string \<Rightarrow> env_lookup \<Rightarrow> config cp_outcome" where
  "config_from_lookup temp_dir default_worker_id lookup =
     (let database_url = (case lookup ''LABRYS_DATABASE_URL'' of
            Some v \<Rightarrow> v
          | None \<Rightarrow> (case lookup ''DATABASE_URL'' of Some v \<Rightarrow> v | None \<Rightarrow> []));
          worker_id = (case lookup ''LABRYS_WORKER_ID'' of Some v \<Rightarrow> v | None \<Rightarrow> default_worker_id);
          run_migrations = (case lookup ''LABRYS_RUN_MIGRATIONS'' of
            Some v \<Rightarrow> to_ascii_lowercase (trim v) \<in> {''1'', ''true'', ''yes''}
          | None \<Rightarrow> True);
          registry_endpoint = map_option trim_end_slashes (optional_text lookup ''LABRYS_PROVIDER_REGISTRY_ENDPOINT'');
          registry_password = (case lookup ''LABRYS_PROVIDER_REGISTRY_PASSWORD'' of
            Some v \<Rightarrow> if trim v \<noteq> [] then Some v else None
          | None \<Rightarrow> None) in
      cp_bind (parse_i64 lookup ''LABRYS_LEASE_SECONDS'' 60) (\<lambda>lease_seconds.
      cp_bind (parse_u64 lookup ''LABRYS_POLL_INTERVAL_MS'' 250) (\<lambda>poll_interval_ms.
      cp_bind (parse_u64 lookup ''LABRYS_DRAIN_TIMEOUT_MS'' 5000) (\<lambda>drain_timeout_ms.
      cp_bind (parse_usize lookup ''LABRYS_MAX_CONCURRENCY'' 1) (\<lambda>max_concurrency.
      cp_bind (case lookup ''LABRYS_RUNTIME_MODE'' of Some v \<Rightarrow> runtime_mode_parse v | None \<Rightarrow> CpOk RmAuto) (\<lambda>runtime_mode.
      cp_bind (required_path lookup ''LABRYS_DOCKER_BIN'' ''docker'') (\<lambda>docker_bin.
      cp_bind (required_path lookup ''LABRYS_WORKSPACE_ROOT'' (path_join temp_dir ''labrys-workspaces'')) (\<lambda>workspace_root.
      cp_bind (parse_u64 lookup ''LABRYS_PREVIEW_TTL_SECONDS'' default_preview_ttl_secs) (\<lambda>preview_ttl_secs.
      cp_bind (required_path lookup ''LABRYS_PROVIDER_STORAGE_ROOT'' (path_join temp_dir ''labrys-provider-storage'')) (\<lambda>storage_root.
      cp_bind (required_path lookup ''LABRYS_PROVIDER_TLS_DIR'' (path_join temp_dir ''labrys-provider-tls'')) (\<lambda>tls_dir.
        let c = \<lparr>cfg_database_url = database_url, cfg_worker_id = worker_id, cfg_lease_seconds = lease_seconds,
                 cfg_poll_interval_ms = poll_interval_ms, cfg_drain_timeout_ms = drain_timeout_ms,
                 cfg_max_concurrency = max_concurrency, cfg_run_migrations = run_migrations,
                 cfg_runtime_mode = runtime_mode, cfg_docker_bin = docker_bin, cfg_workspace_root = workspace_root,
                 cfg_preview_ttl_secs = preview_ttl_secs,
                 cfg_provider_postgres_url = optional_text lookup ''LABRYS_PROVIDER_POSTGRES_URL'',
                 cfg_provider_storage_root = storage_root, cfg_provider_registry_endpoint = registry_endpoint,
                 cfg_provider_registry_username = optional_text lookup ''LABRYS_PROVIDER_REGISTRY_USERNAME'',
                 cfg_provider_registry_password = registry_password, cfg_provider_tls_dir = tls_dir\<rparr>
        in cp_bind (config_validate c) (\<lambda>_. CpOk c))))))))))))"

section \<open>Credentials for redaction\<close>

text \<open>\<open>str::split\<close> at a text, and the fields a scan from the left skips.\<close>

fun split_from :: "string \<Rightarrow> nat \<Rightarrow> string \<Rightarrow> string list" where
  "split_from pat n [] = [[]]"
| "split_from pat (Suc n) (c # cs) = split_from pat n cs"
| "split_from pat 0 (c # cs) =
     (if prefix pat (c # cs) then [] # split_from pat (length pat - 1) cs
      else (case split_from pat 0 cs of p # ps \<Rightarrow> (c # p) # ps | [] \<Rightarrow> [[c]]))"

definition nth_opt :: "nat \<Rightarrow> 'a list \<Rightarrow> 'a option" where
  "nth_opt n xs = (if n < length xs then Some (xs ! n) else None)"

definition url_password :: "string \<Rightarrow> string option" where
  "url_password url =
     Option.bind (nth_opt 1 (split_from ''://'' 0 url)) (\<lambda>after_scheme.
     Option.bind (nth_opt 0 (split_at_char (CHR ''@'') after_scheme)) (\<lambda>authority.
     Option.bind (nth_opt 1 (split_at_char (CHR '':'') authority)) (\<lambda>password.
       if password = [] then None else Some password)))"

definition provider_secret_values :: "config \<Rightarrow> string list" where
  "provider_secret_values c =
     filter (\<lambda>s. trim s \<noteq> [])
       ((case Option.bind (cfg_provider_postgres_url c) url_password of Some p \<Rightarrow> [p] | None \<Rightarrow> []) @
        (case cfg_provider_registry_password c of Some p \<Rightarrow> [p] | None \<Rightarrow> []))"

section \<open>What is accepted\<close>

lemma reject_if_Ok [simp]: "reject_if bad m rest = CpOk () \<longleftrightarrow> \<not> bad \<and> rest = CpOk ()"
  by (simp add: reject_if_def)

lemma cp_bind_Ok [simp]: "cp_bind r f = CpOk b \<longleftrightarrow> (\<exists>a. r = CpOk a \<and> f a = CpOk b)"
  by (cases r) simp_all

definition postgres_url :: "string \<Rightarrow> bool" where
  "postgres_url url \<longleftrightarrow>
     starts_with url ''postgres://'' \<or> starts_with url ''postgresql://'' \<or> starts_with url ''postgres+''"

lemma require_postgres_url_Ok [simp]: "require_postgres_url url name = CpOk () \<longleftrightarrow> postgres_url url"
  by (simp add: require_postgres_url_def postgres_url_def)

definition config_safe :: "config \<Rightarrow> bool" where
  "config_safe c \<longleftrightarrow>
     postgres_url (trim (cfg_database_url c)) \<and> trim (cfg_worker_id c) \<noteq> [] \<and>
     cfg_lease_seconds c \<in> {1..3600} \<and> cfg_poll_interval_ms c \<in> {10..60000} \<and>
     cfg_drain_timeout_ms c \<in> {100..120000} \<and> cfg_max_concurrency c \<in> {1..64} \<and>
     cfg_preview_ttl_secs c \<in> {60..86400} \<and>
     cfg_docker_bin c \<noteq> [] \<and> cfg_workspace_root c \<noteq> [] \<and> cfg_provider_storage_root c \<noteq> [] \<and>
     cfg_provider_tls_dir c \<noteq> [] \<and>
     (case cfg_provider_postgres_url c of Some u \<Rightarrow> postgres_url u | None \<Rightarrow> True) \<and>
     (case cfg_provider_registry_endpoint c of
        Some e \<Rightarrow> starts_with e ''http://'' \<or> starts_with e ''https://'' | None \<Rightarrow> True)"

lemma postgres_url_nonempty [simp]: "\<not> postgres_url []"
  by (simp add: postgres_url_def starts_with_def)

lemma validate_exact: "config_validate c = CpOk () \<longleftrightarrow> config_safe c"
proof -
  have url: "(case v of Some u \<Rightarrow> require_postgres_url u n | None \<Rightarrow> CpOk ()) = CpOk () \<longleftrightarrow>
      (case v of Some u \<Rightarrow> postgres_url u | None \<Rightarrow> True)" for v n
    by (cases v) simp_all
  have endpoint: "(\<not> (case v of Some e \<Rightarrow> \<not> (starts_with e ''http://'' \<or> starts_with e ''https://'') | None \<Rightarrow> False)) =
      (case v of Some e \<Rightarrow> starts_with e ''http://'' \<or> starts_with e ''https://'' | None \<Rightarrow> True)" for v
    by (cases v) simp_all
  have one: "1 \<le> n \<longleftrightarrow> n \<noteq> 0" for n :: u64
    by (simp add: word_le_nat_alt Suc_le_eq unat_gt_0)
  show ?thesis
    unfolding config_validate_def config_safe_def Let_def reject_if_Ok cp_bind_Ok endpoint
      min_preview_ttl_secs_def max_preview_ttl_secs_def
    by (auto simp: not_less url one)
qed

text \<open>Every refusal is a configuration error, and nothing panics.\<close>

definition config_result :: "'a cp_outcome \<Rightarrow> bool" where
  "config_result r = (case r of CpOk _ \<Rightarrow> True | CpErr (ConfigError _) \<Rightarrow> True | _ \<Rightarrow> False)"

lemma config_result_simps [simp]: "config_result (CpOk a)" "config_result (CpErr (ConfigError m))"
  by (simp_all add: config_result_def)

lemma config_result_bind: "config_result r \<Longrightarrow> (\<And>a. config_result (f a)) \<Longrightarrow> config_result (cp_bind r f)"
  by (cases r) (simp_all add: config_result_def)

lemma config_result_reject: "config_result rest \<Longrightarrow> config_result (reject_if bad m rest)"
  by (simp add: reject_if_def)

lemma config_result_parts [simp]:
  "config_result (parse_i64 lookup k d)" "config_result (parse_u64 lookup k d')"
  "config_result (parse_usize lookup k d')" "config_result (required_path lookup k p)"
  "config_result (require_postgres_url u n)" "config_result (runtime_mode_parse raw)"
  by (simp_all add: parse_i64_def parse_u64_def parse_usize_def parse_value_def required_path_def
      require_postgres_url_def runtime_mode_parse_def Let_def split: option.split)

lemma config_result_validate: "config_result (config_validate c)"
  unfolding config_validate_def Let_def
  by (intro config_result_reject config_result_bind) (simp_all split: option.split)

lemma config_result_from_lookup: "config_result (config_from_lookup td w lookup)"
  unfolding config_from_lookup_def Let_def
  by (intro config_result_bind config_result_validate) (simp_all split: option.split)

lemma config_from_lookup_valid:
  "config_from_lookup td w lookup = CpOk c \<Longrightarrow> config_validate c = CpOk ()"
  unfolding config_from_lookup_def Let_def cp_bind_Ok
  by (elim exE conjE) (simp only: cp_outcome.inject unit_eq)

text \<open>Reading back what the program prints.\<close>

lemma digits_value_append: "digits_value acc (xs @ ys) = Option.bind (digits_value acc xs) (\<lambda>v. digits_value v ys)"
  by (induction xs arbitrary: acc) (simp_all split: option.split)

lemma digit_value_digit: "d < 10 \<Longrightarrow> digit_value (digit_char d) = Some d"
  by (simp add: digit_value_def digit_char_def Let_def)

lemma digits_value_show: "digits_value 0 (show_nat n) = Some n"
proof (induction n rule: show_nat.induct)
  case (1 n)
  show ?case
    by (cases "n < 10")
      (simp_all add: show_nat.simps [of n] digit_value_digit digits_value_append 1)
qed

lemma show_nat_no_plus: "show_nat n = c # cs \<Longrightarrow> c \<noteq> CHR ''+''"
  using show_nat_chars [of c n] by auto

section \<open>Splitting a URL\<close>

lemma split_at_char_hd: "split_at_char c s = takeWhile (\<lambda>x. x \<noteq> c) s # tl (split_at_char c s)"
  by (induction s) (auto split: list.splits)

lemma split_at_char_sep: "c \<notin> set a \<Longrightarrow> split_at_char c (a @ c # b) = a # split_at_char c b"
  by (induction a) auto

lemma split_from_hd: "\<exists>p ps. split_from pat n s = p # ps"
  by (induction pat n s rule: split_from.induct) (auto split: list.splits)

lemma split_from_skip:
  assumes "CHR ''/'' \<notin> set x" "x \<noteq> []" "last x \<noteq> CHR '':''"
  shows "\<exists>p ps. split_from ''://'' 0 (x @ y) = (x @ p) # ps"
  using assms
proof (induction x)
  case (Cons c x)
  have no: "\<not> prefix ''://'' (c # x @ y)"
    using Cons.prems by (cases x) (auto split: if_splits)
  show ?case
  proof (cases "x = []")
    case True
    with no split_from_hd [of "''://''" 0 y] show ?thesis by auto
  next
    case False
    with Cons obtain p ps where "split_from ''://'' 0 (x @ y) = (x @ p) # ps" by auto
    with no show ?thesis by simp
  qed
qed simp

lemma split_from_scheme: "CHR '':'' \<notin> set s \<Longrightarrow> split_from ''://'' 0 (s @ ''://'' @ y) = s # split_from ''://'' 0 y"
  by (induction s) (auto simp: numeral_2_eq_2)

section \<open>Properties\<close>

text \<open>
  Loading the configuration always ends in a configuration within bounds or in a configuration error that
  names the setting; it never panics. An accepted configuration has PostgreSQL connection strings, a lease of one
  second to one hour, and bounded poll, drain, concurrency and preview settings, with no empty path.
\<close>

theorem config_bounded:
  "case config_from_lookup temp_dir worker lookup of
     CpOk c \<Rightarrow> config_safe c
   | CpErr e \<Rightarrow> (\<exists>m. e = ConfigError m)
   | CpPanic _ \<Rightarrow> False"
proof (cases "config_from_lookup temp_dir worker lookup")
  case (CpOk c)
  from config_from_lookup_valid [OF CpOk] show ?thesis unfolding CpOk validate_exact by simp
next
  case (CpErr e)
  then show ?thesis using config_result_from_lookup [of temp_dir worker lookup]
    by (cases e) (simp_all add: config_result_def)
next
  case (CpPanic m)
  then show ?thesis using config_result_from_lookup [of temp_dir worker lookup]
    by (simp add: config_result_def)
qed

text \<open>
  Integers round trip: the text the program prints for a 64-bit number is parsed back to that number.
\<close>

theorem parse_unsigned_show: "parse_unsigned (show_u64 v) = Some v"
proof (cases "show_u64 v")
  case (Cons c cs)
  then have "c \<noteq> CHR ''+''" using show_nat_no_plus by (simp add: show_u64_def)
  moreover have "digits_value 0 (c # cs) = Some (unat v)"
    using digits_value_show [of "unat v"] Cons by (simp add: show_u64_def)
  moreover have "unat v \<le> u64_max" using unsigned_less [of v, where 'a = nat] by (simp add: u64_max_def)
  ultimately show ?thesis unfolding Cons by (simp add: parse_digits_def bounded_def)
qed (simp add: show_u64_def)

text \<open>
  The password registered for redaction is the text between the first colon of the user information and
  the next one: the whole password exactly when it contains no colon. A password with a colon is
  registered only up to it, so the rest of it is not redacted.
\<close>

theorem url_password_stops_at_colon:
  assumes "CHR '':'' \<notin> set user" "CHR ''@'' \<notin> set user" "CHR ''/'' \<notin> set user"
    and "CHR ''@'' \<notin> set pw" "CHR ''/'' \<notin> set pw"
  shows "url_password (''postgres://'' @ user @ '':'' @ pw @ ''@'' @ rest) =
    (let p = takeWhile (\<lambda>c. c \<noteq> CHR '':'') pw in if p = [] then None else Some p)"
proof -
  let ?x = "user @ '':'' @ pw @ ''@''"
  have "split_from ''://'' 0 (''postgres'' @ ''://'' @ ?x @ rest) = ''postgres'' # split_from ''://'' 0 (?x @ rest)"
    by (rule split_from_scheme) simp
  moreover obtain p ps where "split_from ''://'' 0 (?x @ rest) = (?x @ p) # ps"
    using split_from_skip [of ?x rest] assms by auto
  ultimately have "nth_opt 1 (split_from ''://'' 0 (''postgres://'' @ user @ '':'' @ pw @ ''@'' @ rest)) =
      Some ((user @ '':'' @ pw) @ CHR ''@'' # p)"
    by (simp add: nth_opt_def)
  moreover have "nth_opt 0 (split_at_char (CHR ''@'') ((user @ '':'' @ pw) @ CHR ''@'' # p)) = Some (user @ '':'' @ pw)"
    using split_at_char_sep [of "CHR ''@''" "user @ '':'' @ pw" p] assms by (simp add: nth_opt_def)
  moreover have "nth_opt 1 (split_at_char (CHR '':'') (user @ '':'' @ pw)) = Some (takeWhile (\<lambda>c. c \<noteq> CHR '':'') pw)"
    using split_at_char_sep [OF assms(1), of pw] split_at_char_hd [of "CHR '':''" pw]
    by (metis One_nat_def append_Cons append_Nil length_Cons nth_Cons_0 nth_Cons_Suc nth_opt_def zero_less_Suc Suc_less_eq)
  ultimately show ?thesis by (simp add: url_password_def Let_def)
qed

theorem url_password_stops_at_colon_witness:
  "url_password ''postgres://app:ab:s3cret@db/main'' = Some ''ab'' \<and>
   redact_reason ''denied for ab:s3cret'' [''ab''] = ''denied for [redacted]:s3cret''"
proof
  show "url_password ''postgres://app:ab:s3cret@db/main'' = Some ''ab''"
    using url_password_stops_at_colon [of "''app''" "''ab:s3cret''" "''db/main''"] by simp
qed code_simp

end
