(* ===== verification/Worker_Loop.thy ===== *)
theory Worker_Loop
  imports Durable_Queue Durable_Evidence Control_Config
begin

text \<open>
  The durable resource store and the reconciliation worker: \<open>labrys-control-plane/src/repos/resources.rs\<close> and
  \<open>worker.rs\<close>.

  The worker's world is the three tables it writes: jobs, resources and events. A pass takes the clock readings,
  the rows other transactions lock and the stop flag as arguments; the injected dispatcher is a function from the job
  to its outcome. A result pairs the new world with the value or the error, so that an error after a
  write keeps the write, as separate statements do. Foreign keys of the resources table are not modelled, nor
  the sleeping of the polling loop and the timed drain, which change no state.
\<close>

section \<open>The resource store\<close>

record resource_row =
  rr_id :: string
  rr_application_id :: string
  rr_environment_id :: "string option"
  rr_kind :: string
  rr_desired_version :: int
  rr_phase :: string
  rr_generation :: int
  rr_failure :: "failure_record option"
  rr_transitions :: "resource_transition list"
  rr_updated_at :: time

fun phase_name :: "resource_phase \<Rightarrow> string" where
  "phase_name Requested = ''requested''"
| "phase_name Provisioning = ''provisioning''"
| "phase_name Ready = ''ready''"
| "phase_name Degraded = ''degraded''"
| "phase_name Failed = ''failed''"
| "phase_name Deleting = ''deleting''"
| "phase_name Deleted = ''deleted''"

definition phase_from_name :: "string \<Rightarrow> resource_phase cp_outcome" where
  "phase_from_name name =
     (if name = ''requested'' then CpOk Requested
      else if name = ''provisioning'' then CpOk Provisioning
      else if name = ''ready'' then CpOk Ready
      else if name = ''degraded'' then CpOk Degraded
      else if name = ''failed'' then CpOk Failed
      else if name = ''deleting'' then CpOk Deleting
      else if name = ''deleted'' then CpOk Deleted
      else CpErr (MappingError (''unknown resource phase '' @ name)))"

definition resource_from_row :: "(string \<Rightarrow> uuid option) \<Rightarrow> resource_row \<Rightarrow> resource cp_outcome" where
  "resource_from_row parse r =
     (case resource_id_from_str parse (rr_id r) of
        Inl _ \<Rightarrow> CpErr (MappingError (''invalid resource id '' @ rr_id r))
      | Inr i \<Rightarrow>
          cp_bind (phase_from_name (rr_phase r)) (\<lambda>phase.
            CpOk \<lparr>res_id = i, res_kind = rr_kind r, res_desired_version = of_int (rr_desired_version r),
                  res_phase = phase, res_generation = of_int (rr_generation r), res_failure = rr_failure r,
                  res_transitions = rr_transitions r\<rparr>))"

definition resource_to_row ::
  "resource \<Rightarrow> application_id \<Rightarrow> environment_id option \<Rightarrow> time \<Rightarrow> resource_row" where
  "resource_to_row r application_id environment_id now =
     \<lparr>rr_id = resource_id_display (res_id r), rr_application_id = application_id_display application_id,
      rr_environment_id = map_option environment_id_display environment_id, rr_kind = res_kind r,
      rr_desired_version = sint (res_desired_version r), rr_phase = phase_name (res_phase r),
      rr_generation = sint (res_generation r), rr_failure = res_failure r, rr_transitions = res_transitions r,
      rr_updated_at = now\<rparr>"

text \<open>\<open>INSERT ... ON CONFLICT (id) DO UPDATE\<close>: the owner columns of an existing row stay.\<close>

definition pg_resource_save ::
  "resource_row list \<Rightarrow> resource \<Rightarrow> application_id \<Rightarrow> environment_id option \<Rightarrow> time \<Rightarrow> resource_row list" where
  "pg_resource_save T r application_id environment_id now =
     (let new = resource_to_row r application_id environment_id now in
      if list_ex (\<lambda>x. rr_id x = rr_id new) T
      then map (\<lambda>x. if rr_id x = rr_id new
                    then new\<lparr>rr_application_id := rr_application_id x, rr_environment_id := rr_environment_id x\<rparr>
                    else x) T
      else T @ [new])"

definition pg_resource_get :: "(string \<Rightarrow> uuid option) \<Rightarrow> resource_row list \<Rightarrow> resource_id \<Rightarrow> resource cp_outcome" where
  "pg_resource_get parse T i =
     (case find (\<lambda>r. rr_id r = resource_id_display i) T of
        None \<Rightarrow> CpErr (NotFoundError (resource_id_display i))
      | Some r \<Rightarrow> resource_from_row parse r)"

definition pg_resources_where ::
  "(string \<Rightarrow> uuid option) \<Rightarrow> resource_row list \<Rightarrow> (resource_row \<Rightarrow> bool) \<Rightarrow> resource list cp_outcome" where
  "pg_resources_where parse T P =
     collect_rows (resource_from_row parse) (sort_key (\<lambda>r. (rr_kind r, rr_id r)) (filter P T))"

definition pg_resources_for_application ::
  "(string \<Rightarrow> uuid option) \<Rightarrow> resource_row list \<Rightarrow> application_id \<Rightarrow> resource list cp_outcome" where
  "pg_resources_for_application parse T i =
     pg_resources_where parse T (\<lambda>r. rr_application_id r = application_id_display i)"

definition pg_resources_for_environment ::
  "(string \<Rightarrow> uuid option) \<Rightarrow> resource_row list \<Rightarrow> environment_id \<Rightarrow> resource list cp_outcome" where
  "pg_resources_for_environment parse T i =
     pg_resources_where parse T (\<lambda>r. rr_environment_id r = Some (environment_id_display i))"

definition cp_of_core :: "'a outcome \<Rightarrow> 'a cp_outcome" where
  "cp_of_core r = (case r of Ok a \<Rightarrow> CpOk a | Err e \<Rightarrow> CpErr (CoreErrorOf e) | Panic m \<Rightarrow> CpPanic m)"

text \<open>The write of \<open>observe_phase\<close>, from the resource it read and moved before.\<close>

definition observe_write ::
  "resource_row list \<Rightarrow> resource_id \<Rightarrow> resource_phase \<Rightarrow> resource \<Rightarrow> time \<Rightarrow> resource_row list \<times> unit cp_outcome" where
  "observe_write T i phase r at =
     (if list_ex (\<lambda>x. rr_id x = resource_id_display i) T
      then (map (\<lambda>x. if rr_id x = resource_id_display i
                     then x\<lparr>rr_phase := phase_name phase, rr_transitions := res_transitions r, rr_updated_at := at\<rparr>
                     else x) T, CpOk ())
      else (T, CpErr (NotFoundError (resource_id_display i))))"

definition pg_observe_phase ::
  "(string \<Rightarrow> uuid option) \<Rightarrow> resource_row list \<Rightarrow> resource_id \<Rightarrow> resource_phase \<Rightarrow> observation_source \<Rightarrow> string option \<Rightarrow>
   time \<Rightarrow> resource_row list \<times> resource cp_outcome" where
  "pg_observe_phase parse T i phase source reason at =
     (case pg_resource_get parse T i of
        CpErr e \<Rightarrow> (T, CpErr e)
      | CpPanic m \<Rightarrow> (T, CpPanic m)
      | CpOk r \<Rightarrow>
          (case resource_observe r phase source reason at of
             (_, Err e) \<Rightarrow> (T, CpErr (CoreErrorOf e))
           | (_, Panic m) \<Rightarrow> (T, CpPanic m)
           | (r', Ok _) \<Rightarrow>
               (case observe_write T i phase r' at of
                  (T', CpOk _) \<Rightarrow> (T', pg_resource_get parse T' i)
                | (T', CpErr e) \<Rightarrow> (T', CpErr e)
                | (T', CpPanic m) \<Rightarrow> (T', CpPanic m))))"

definition failure_write ::
  "resource_row list \<Rightarrow> resource_id \<Rightarrow> resource \<Rightarrow> time \<Rightarrow> resource_row list" where
  "failure_write T i r at =
     map (\<lambda>x. if rr_id x = resource_id_display i
              then x\<lparr>rr_phase := phase_name (res_phase r), rr_generation := sint (res_generation r),
                     rr_failure := res_failure r, rr_transitions := res_transitions r, rr_updated_at := at\<rparr>
              else x) T"

definition pg_record_failure ::
  "(string \<Rightarrow> uuid option) \<Rightarrow> chrono_api \<Rightarrow> resource_row list \<Rightarrow> resource_id \<Rightarrow> string \<Rightarrow> string list \<Rightarrow> retry_policy \<Rightarrow>
   time \<Rightarrow> resource_row list \<times> resource cp_outcome" where
  "pg_record_failure parse C T i reason secrets policy at =
     (case pg_resource_get parse T i of
        CpErr e \<Rightarrow> (T, CpErr e)
      | CpPanic m \<Rightarrow> (T, CpPanic m)
      | CpOk r \<Rightarrow>
          (case resource_fail C r reason secrets policy at of
             (_, Err e) \<Rightarrow> (T, CpErr (CoreErrorOf e))
           | (_, Panic m) \<Rightarrow> (T, CpPanic m)
           | (r', Ok _) \<Rightarrow> (let T' = failure_write T i r' at in (T', pg_resource_get parse T' i))))"

section \<open>The worker\<close>

datatype dispatch_outcome =
    DoReady resource_id | DoDegraded resource_id | DoInProgress | DoFailed string

record worker_stats =
  ws_recovered :: u64
  ws_claimed :: u64
  ws_completed :: u64
  ws_in_progress :: u64
  ws_retried :: u64
  ws_dead_lettered :: u64
  ws_idle :: u64

definition worker_stats_default :: worker_stats where
  "worker_stats_default =
     \<lparr>ws_recovered = 0, ws_claimed = 0, ws_completed = 0, ws_in_progress = 0, ws_retried = 0,
      ws_dead_lettered = 0, ws_idle = 0\<rparr>"

datatype tick_outcome =
    TickIdle
  | TickRecovered "resource_id list"
  | TickCompleted job_id bool
  | TickRetried job_id u32
  | TickDeadLettered job_id

record worker =
  wk_worker_id :: string
  wk_lease :: duration
  wk_poll_interval_ms :: u64
  wk_drain_timeout_ms :: u64
  wk_secrets :: "string list"

definition worker_with_secrets :: "chrono_api \<Rightarrow> config \<Rightarrow> string list \<Rightarrow> worker cp_outcome" where
  "worker_with_secrets C config secrets =
     (case dur_seconds C (cfg_lease_seconds config) of
        None \<Rightarrow> CpPanic ''duration out of bounds''
      | Some lease \<Rightarrow>
          CpOk \<lparr>wk_worker_id = cfg_worker_id config, wk_lease = lease,
                wk_poll_interval_ms = cfg_poll_interval_ms config,
                wk_drain_timeout_ms = cfg_drain_timeout_ms config, wk_secrets = secrets\<rparr>)"

record world =
  wd_jobs :: job_table
  wd_resources :: "resource_row list"
  wd_events :: "event_row serial_table"

text \<open>The crates a worker calls, and the dispatcher it was given.\<close>

record worker_env =
  we_chrono :: chrono_api
  we_ids :: id_codec
  we_dispatch :: "job \<Rightarrow> dispatch_outcome cp_outcome"

abbreviation we_parse :: "worker_env \<Rightarrow> string \<Rightarrow> uuid option" where
  "we_parse E \<equiv> ic_parse (we_ids E)"

type_synonym 'a effect = "world \<times> 'a cp_outcome"

fun bind_effect :: "'a effect \<Rightarrow> (world \<Rightarrow> 'a \<Rightarrow> 'b effect) \<Rightarrow> 'b effect" where
  "bind_effect (W, CpOk a) f = f W a"
| "bind_effect (W, CpErr e) f = (W, CpErr e)"
| "bind_effect (W, CpPanic m) f = (W, CpPanic m)"

definition on_jobs :: "world \<Rightarrow> (job_table \<Rightarrow> job_table \<times> 'a cp_outcome) \<Rightarrow> 'a effect" where
  "on_jobs W f = (case f (wd_jobs W) of (T, res) \<Rightarrow> (W\<lparr>wd_jobs := T\<rparr>, res))"

definition worker_event :: "worker \<Rightarrow> time \<Rightarrow> event_action \<Rightarrow> event_result \<Rightarrow> string \<Rightarrow> event_draft" where
  "worker_event w now action result detail =
     (event_draft_new now (ActorPlatform (wk_worker_id w)) (correlation_new (''worker:'' @ wk_worker_id w)) action result)
       \<lparr>dr_resource := Some (event_resource_new ''worker'' (wk_worker_id w)), dr_after := Some detail\<rparr>"

definition record_event ::
  "worker_env \<Rightarrow> worker \<Rightarrow> world \<Rightarrow> time \<Rightarrow> event_action \<Rightarrow> event_result \<Rightarrow> string \<Rightarrow> unit effect" where
  "record_event E w W now action result detail =
     (case pg_event_append (we_ids E) (wd_events W) (worker_event w now action result detail) (wk_secrets w) of
        (T, CpOk _) \<Rightarrow> (W\<lparr>wd_events := T\<rparr>, CpOk ())
      | (T, CpErr e) \<Rightarrow> (W\<lparr>wd_events := T\<rparr>, CpErr e)
      | (T, CpPanic m) \<Rightarrow> (W\<lparr>wd_events := T\<rparr>, CpPanic m))"

definition worker_observe ::
  "worker_env \<Rightarrow> worker \<Rightarrow> world \<Rightarrow> resource_id \<Rightarrow> resource_phase \<Rightarrow> time \<Rightarrow> unit effect" where
  "worker_observe E w W i phase now =
     (case pg_observe_phase (we_parse E) (wd_resources W) i phase PlatformProbe
             (Some (''observed by worker '' @ wk_worker_id w)) now of
        (T, CpOk _) \<Rightarrow> (W\<lparr>wd_resources := T\<rparr>, CpOk ())
      | (T, CpErr e) \<Rightarrow> (W\<lparr>wd_resources := T\<rparr>, CpErr e)
      | (T, CpPanic m) \<Rightarrow> (W\<lparr>wd_resources := T\<rparr>, CpPanic m))"

definition finish ::
  "worker_env \<Rightarrow> worker \<Rightarrow> world \<Rightarrow> job_id \<Rightarrow> time \<Rightarrow> event_action \<Rightarrow> event_result \<Rightarrow> string \<Rightarrow> bool \<Rightarrow> tick_outcome effect" where
  "finish E w W i now action result word ready =
     bind_effect (on_jobs W (\<lambda>T. pg_complete T i (wk_worker_id w) now)) (\<lambda>W _.
     bind_effect (record_event E w W now action result
       (''job '' @ job_id_display i @ '' '' @ word @ '' via worker '' @ wk_worker_id w)) (\<lambda>W _.
       (W, CpOk (TickCompleted i ready))))"

definition finalize :: "worker_env \<Rightarrow> worker \<Rightarrow> world \<Rightarrow> claimed_job \<Rightarrow> time \<Rightarrow> tick_outcome effect" where
  "finalize E w W claimed now =
     (let job = cj_job claimed; i = job_ident job in
      case we_dispatch E job of
        CpErr e \<Rightarrow> (W, CpErr e)
      | CpPanic m \<Rightarrow> (W, CpPanic m)
      | CpOk (DoReady rid) \<Rightarrow>
          bind_effect (worker_observe E w W rid Ready now) (\<lambda>W _.
            finish E w W i now ResourceProvisioned EvSucceeded ''ready'' True)
      | CpOk (DoDegraded rid) \<Rightarrow>
          bind_effect (worker_observe E w W rid Degraded now) (\<lambda>W _.
            finish E w W i now ResourceProvisioned EvSucceeded ''degraded'' False)
      | CpOk DoInProgress \<Rightarrow> finish E w W i now Reconciled EvAccepted ''in progress'' False
      | CpOk (DoFailed reason) \<Rightarrow>
          (let reason = redact reason (wk_secrets w) in
           bind_effect (on_jobs W (\<lambda>T. pg_fail (we_chrono E) T i (wk_worker_id w) reason now)) (\<lambda>W status.
           bind_effect (record_event E w W now Reconciled (EvFailed reason)
             (''job '' @ job_id_display i @ '' attempt '' @ show_u32 (job_attempts job) @ '' failed via worker '' @
              wk_worker_id w)) (\<lambda>W _.
             (W, CpOk (if status = Dead then TickDeadLettered i else TickRetried i (job_attempts job)))))))"

definition count_outcome :: "worker_stats \<Rightarrow> tick_outcome \<Rightarrow> worker_stats" where
  "count_outcome s t =
     (case t of
        TickCompleted _ ready \<Rightarrow>
          if ready then s\<lparr>ws_completed := ws_completed s + 1\<rparr> else s\<lparr>ws_in_progress := ws_in_progress s + 1\<rparr>
      | TickRetried _ _ \<Rightarrow> s\<lparr>ws_retried := ws_retried s + 1\<rparr>
      | TickDeadLettered _ \<Rightarrow> s\<lparr>ws_dead_lettered := ws_dead_lettered s + 1\<rparr>
      | _ \<Rightarrow> s)"

text \<open>What a pass reads from outside: its two clock readings, the rows locked by others and the stop flag.\<close>

record tick_input =
  ti_now :: time
  ti_finalize_now :: time
  ti_locked :: "string list"
  ti_stopping :: bool

definition recover_step ::
  "worker_env \<Rightarrow> worker \<Rightarrow> world \<Rightarrow> worker_stats \<Rightarrow> time \<Rightarrow> worker_stats effect" where
  "recover_step E w W s now =
     bind_effect (on_jobs W (\<lambda>T. pg_recover_expired_leases (we_parse E) T now)) (\<lambda>W recovered.
       if recovered = [] then (W, CpOk s)
       else
         bind_effect (record_event E w W now Reconciled EvAccepted
           (''recovered '' @ show_nat (length recovered) @ '' expired lease(s)'')) (\<lambda>W _.
           (W, CpOk (s\<lparr>ws_recovered := ws_recovered s + of_nat (length recovered)\<rparr>))))"

definition tick_once ::
  "worker_env \<Rightarrow> worker \<Rightarrow> world \<Rightarrow> worker_stats \<Rightarrow> tick_input \<Rightarrow> (worker_stats \<times> bool) effect" where
  "tick_once E w W s x =
     bind_effect (recover_step E w W s (ti_now x)) (\<lambda>W s.
       if ti_stopping x then (W, CpOk (s, False))
       else
         bind_effect (on_jobs W (\<lambda>T. pg_claim_next (we_parse E) (we_chrono E) T (ti_locked x) (wk_worker_id w)
             (ti_now x) (wk_lease w))) (\<lambda>W claimed.
           case claimed of
             None \<Rightarrow> (W, CpOk (s\<lparr>ws_idle := ws_idle s + 1\<rparr>, False))
           | Some c \<Rightarrow>
               bind_effect (finalize E w W c (ti_finalize_now x)) (\<lambda>W t.
                 (W, CpOk (count_outcome (s\<lparr>ws_claimed := ws_claimed s + 1\<rparr>) t, True)))))"

text \<open>\<open>run_bounded\<close>: at most as many passes as inputs, until the queue is idle or a pass fails.\<close>

fun run_bounded :: "worker_env \<Rightarrow> worker \<Rightarrow> world \<Rightarrow> worker_stats \<Rightarrow> tick_input list \<Rightarrow> worker_stats effect" where
  "run_bounded E w W s [] = (W, CpOk s)"
| "run_bounded E w W s (x # xs) =
     bind_effect (tick_once E w W s x) (\<lambda>W r. if snd r then run_bounded E w W (fst r) xs else (W, CpOk (fst r)))"

section \<open>Dispatchers\<close>

definition noop_dispatch :: "job \<Rightarrow> dispatch_outcome cp_outcome" where
  "noop_dispatch _ = CpOk DoInProgress"

text \<open>The scripted dispatcher: the outcome of the n-th call.\<close>

definition scripted_dispatch :: "dispatch_outcome list \<Rightarrow> nat \<Rightarrow> job \<Rightarrow> dispatch_outcome cp_outcome" where
  "scripted_dispatch outcomes calls _ = CpOk (if calls < length outcomes then outcomes ! calls else DoInProgress)"

section \<open>Effects\<close>

lemma bind_effect_inv:
  assumes "Q (fst p)" "\<And>W a. Q W \<Longrightarrow> snd p = CpOk a \<Longrightarrow> Q (fst (f W a))"
  shows "Q (fst (bind_effect p f))"
proof (cases p)
  case (Pair W res)
  with assms show ?thesis by (cases res) auto
qed

lemma bind_effect_OkE:
  assumes "bind_effect p f = (W', CpOk b)"
  obtains W a where "p = (W, CpOk a)" "f W a = (W', CpOk b)"
proof (cases p)
  case (Pair W res)
  with assms that show thesis by (cases res) auto
qed

lemma on_jobs_fst [simp]:
  "wd_jobs (fst (on_jobs W f)) = fst (f (wd_jobs W))" "wd_resources (fst (on_jobs W f)) = wd_resources W"
  "snd (on_jobs W f) = snd (f (wd_jobs W))"
  by (simp_all add: on_jobs_def split: prod.split)

lemma on_jobs_state: "fst (on_jobs W f) = W\<lparr>wd_jobs := fst (f (wd_jobs W))\<rparr>"
  by (simp add: on_jobs_def split: prod.split)

lemma record_event_fst [simp]:
  "wd_jobs (fst (record_event E w W now a r d)) = wd_jobs W"
  "wd_resources (fst (record_event E w W now a r d)) = wd_resources W"
  by (simp_all add: record_event_def split: prod.split cp_outcome.split)

lemma worker_observe_fst:
  "wd_jobs (fst (worker_observe E w W i ph now)) = wd_jobs W"
  "wd_resources (fst (worker_observe E w W i ph now)) =
     fst (pg_observe_phase (we_parse E) (wd_resources W) i ph PlatformProbe (Some (''observed by worker '' @ wk_worker_id w)) now)"
  by (simp_all add: worker_observe_def split: prod.split cp_outcome.split)

text \<open>
  What the worker can do to the world: it keeps every property that the queue operations of this worker, the event
  appends and the observations of the reported resources keep.
\<close>

locale world_invariant =
  fixes E :: worker_env and w :: worker and Q :: "world \<Rightarrow> bool"
  assumes jobs: "Q W \<Longrightarrow>
      x \<in> {DRecover now, DClaim locked (wk_worker_id w) now (wk_lease w), DComplete i (wk_worker_id w) now,
           DFail i (wk_worker_id w) m now} \<Longrightarrow>
      Q (W\<lparr>wd_jobs := durable_exec (we_parse E) (we_chrono E) (wd_jobs W) x\<rparr>)"
    and events: "Q W \<Longrightarrow> Q (W\<lparr>wd_events := T\<rparr>)"
    and observe: "Q W \<Longrightarrow> we_dispatch E job = CpOk (DoReady rid) \<and> ph = Ready \<or>
      we_dispatch E job = CpOk (DoDegraded rid) \<and> ph = Degraded \<Longrightarrow>
      Q (fst (worker_observe E w W rid ph now))"
begin

lemma step_recover: "Q W \<Longrightarrow> Q (fst (on_jobs W (\<lambda>T. pg_recover_expired_leases (we_parse E) T now)))"
  using jobs [of W "DRecover now"] by (simp add: on_jobs_state)

lemma step_claim:
  "Q W \<Longrightarrow> Q (fst (on_jobs W (\<lambda>T. pg_claim_next (we_parse E) (we_chrono E) T locked (wk_worker_id w) now (wk_lease w))))"
  using jobs [of W "DClaim locked (wk_worker_id w) now (wk_lease w)"] by (simp add: on_jobs_state)

lemma step_complete: "Q W \<Longrightarrow> Q (fst (on_jobs W (\<lambda>T. pg_complete T i (wk_worker_id w) now)))"
  using jobs [of W "DComplete i (wk_worker_id w) now"] by (simp add: on_jobs_state)

lemma step_fail: "Q W \<Longrightarrow> Q (fst (on_jobs W (\<lambda>T. pg_fail (we_chrono E) T i (wk_worker_id w) m now)))"
  using jobs [of W "DFail i (wk_worker_id w) m now"] by (simp add: on_jobs_state)

lemma step_event: "Q W \<Longrightarrow> Q (fst (record_event E w W now a r d))"
  using events by (simp add: record_event_def split: prod.split cp_outcome.split)

lemmas bindI = bind_effect_inv [where Q = Q]

lemma step_finish: "Q W \<Longrightarrow> Q (fst (finish E w W i now a r wd b))"
  unfolding finish_def
proof (rule bindI)
  show "Q W \<Longrightarrow> Q (fst (on_jobs W (\<lambda>T. pg_complete T i (wk_worker_id w) now)))" by (rule step_complete)
qed (rule bindI, erule step_event, simp)

lemma step_finalize:
  assumes "Q W"
  shows "Q (fst (finalize E w W c now))"
proof (cases "we_dispatch E (cj_job c)")
  case (CpOk out)
  show ?thesis
  proof (cases out)
    case (DoReady rid)
    have "Q (fst (worker_observe E w W rid Ready now))" using observe [OF assms] CpOk DoReady by blast
    then show ?thesis unfolding finalize_def Let_def CpOk DoReady cp_outcome.case dispatch_outcome.case
      by (rule bindI) (rule step_finish)
  next
    case (DoDegraded rid)
    have "Q (fst (worker_observe E w W rid Degraded now))" using observe [OF assms] CpOk DoDegraded by blast
    then show ?thesis unfolding finalize_def Let_def CpOk DoDegraded cp_outcome.case dispatch_outcome.case
      by (rule bindI) (rule step_finish)
  next
    case DoInProgress
    show ?thesis unfolding finalize_def Let_def CpOk DoInProgress cp_outcome.case dispatch_outcome.case
      by (rule step_finish [OF assms])
  next
    case (DoFailed reason)
    show ?thesis unfolding finalize_def Let_def CpOk DoFailed cp_outcome.case dispatch_outcome.case
      by (rule bindI, rule step_fail [OF assms], rule bindI, erule step_event, simp)
  qed
qed (simp_all add: finalize_def assms)

lemma step_recovery: "Q W \<Longrightarrow> Q (fst (recover_step E w W s now))"
  unfolding recover_step_def
proof (rule bindI)
  show "Q W \<Longrightarrow> Q (fst (on_jobs W (\<lambda>T. pg_recover_expired_leases (we_parse E) T now)))" by (rule step_recover)
next
  fix W ids
  assume "Q W"
  then have "Q (fst (record_event E w W now Reconciled EvAccepted d))" for d by (rule step_event)
  then show "Q (fst (if ids = [] then (W, CpOk s)
      else bind_effect (record_event E w W now Reconciled EvAccepted
             (''recovered '' @ show_nat (length ids) @ '' expired lease(s)''))
           (\<lambda>W _. (W, CpOk (s\<lparr>ws_recovered := ws_recovered s + of_nat (length ids)\<rparr>)))))"
    using \<open>Q W\<close> by (auto intro: bindI)
qed

lemma step_tick:
  assumes "Q W"
  shows "Q (fst (tick_once E w W s x))"
  unfolding tick_once_def
proof (rule bindI [OF step_recovery [OF assms]])
  fix W1 s1
  assume W1: "Q W1"
  have fin: "Q (fst (bind_effect (finalize E w W2 c (ti_finalize_now x))
      (\<lambda>W t. (W, CpOk (count_outcome (s1\<lparr>ws_claimed := ws_claimed s1 + 1\<rparr>) t, True)))))" if "Q W2" for W2 c
    by (rule bindI [OF step_finalize [OF that]]) simp
  have "Q (fst (bind_effect (on_jobs W1 (\<lambda>T. pg_claim_next (we_parse E) (we_chrono E) T (ti_locked x) (wk_worker_id w)
             (ti_now x) (wk_lease w))) (\<lambda>W claimed.
           case claimed of
             None \<Rightarrow> (W, CpOk (s1\<lparr>ws_idle := ws_idle s1 + 1\<rparr>, False))
           | Some c \<Rightarrow>
               bind_effect (finalize E w W c (ti_finalize_now x)) (\<lambda>W t.
                 (W, CpOk (count_outcome (s1\<lparr>ws_claimed := ws_claimed s1 + 1\<rparr>) t, True))))))"
    by (rule bindI [OF step_claim [OF W1]]) (simp add: fin split: option.split)
  with W1 show "Q (fst (if ti_stopping x then (W1, CpOk (s1, False))
       else bind_effect (on_jobs W1 (\<lambda>T. pg_claim_next (we_parse E) (we_chrono E) T (ti_locked x) (wk_worker_id w)
             (ti_now x) (wk_lease w))) (\<lambda>W claimed.
           case claimed of
             None \<Rightarrow> (W, CpOk (s1\<lparr>ws_idle := ws_idle s1 + 1\<rparr>, False))
           | Some c \<Rightarrow>
               bind_effect (finalize E w W c (ti_finalize_now x)) (\<lambda>W t.
                 (W, CpOk (count_outcome (s1\<lparr>ws_claimed := ws_claimed s1 + 1\<rparr>) t, True))))))"
    by simp
qed

lemma run_keeps: "Q W \<Longrightarrow> Q (fst (run_bounded E w W s xs))"
proof (induction xs arbitrary: W s)
  case (Cons x xs)
  show ?case unfolding run_bounded.simps
    by (rule bindI [OF step_tick [OF Cons.prems]]) (simp add: Cons.IH)
qed simp

end

interpretation jobs_kept: world_invariant E w "\<lambda>W. table_ok (wd_jobs W)" for E w
  by unfold_locales (auto simp: worker_observe_fst simp del: durable_exec.simps intro: durable_exec_ok)

section \<open>Resource rows\<close>

lemma phase_roundtrip [simp]: "phase_from_name (phase_name p) = CpOk p"
  by (cases p) (simp_all add: phase_from_name_def)

definition resources_ok :: "(string \<Rightarrow> uuid option) \<Rightarrow> resource_row list \<Rightarrow> bool" where
  "resources_ok parse T \<longleftrightarrow> distinct (map rr_id T) \<and>
     (\<forall>x \<in> set T. \<exists>r. resource_from_row parse x = CpOk r \<and> resource_wf r)"

definition set_log :: "resource_id \<Rightarrow> resource_phase \<Rightarrow> resource \<Rightarrow> time \<Rightarrow> resource_row \<Rightarrow> resource_row" where
  "set_log i phase r at x =
     (if rr_id x = resource_id_display i
      then x\<lparr>rr_phase := phase_name phase, rr_transitions := res_transitions r, rr_updated_at := at\<rparr> else x)"

lemma set_log_id [simp]: "rr_id (set_log i phase r at x) = rr_id x"
  by (simp add: set_log_def)

lemma observe_write_fst: "fst (observe_write T i phase r at) = map (set_log i phase r at) T"
  by (auto simp: observe_write_def set_log_def list_ex_iff map_idI)

lemma pg_observe_phase_cases:
  obtains "fst (pg_observe_phase parse T i phase source reason at) = T"
  | x r r' t where "x \<in> set T" "rr_id x = resource_id_display i" "resource_from_row parse x = CpOk r"
      "resource_observe r phase source reason at = (r', Ok t)"
      "fst (pg_observe_phase parse T i phase source reason at) = map (set_log i phase r' at) T"
proof (cases "find (\<lambda>r. rr_id r = resource_id_display i) T")
  case None
  then show ?thesis by (intro that(1)) (simp add: pg_observe_phase_def pg_resource_get_def)
next
  case (Some x)
  then have x: "x \<in> set T" "rr_id x = resource_id_display i" by (auto simp: find_Some_iff)
  show ?thesis
  proof (cases "resource_from_row parse x")
    case (CpOk r)
    obtain r' res where o: "resource_observe r phase source reason at = (r', res)" by force
    show ?thesis
    proof (cases res)
      case (Ok t)
      have "fst (pg_observe_phase parse T i phase source reason at) = map (set_log i phase r' at) T"
        using Some CpOk o Ok observe_write_fst [of T i phase r' at]
        by (auto simp: pg_observe_phase_def pg_resource_get_def split: prod.split cp_outcome.split)
      from that(2) [OF x CpOk _ this] show ?thesis using o Ok by blast
    qed (use Some CpOk o in \<open>auto intro: that(1) simp: pg_observe_phase_def pg_resource_get_def\<close>)
  qed (use Some in \<open>auto intro: that(1) simp: pg_observe_phase_def pg_resource_get_def\<close>)
qed

lemma set_log_decodes:
  assumes "resource_from_row parse x = CpOk r" "resource_observe r phase source reason at = (r', Ok t)"
    and "rr_id x = resource_id_display i"
  shows "resource_from_row parse (set_log i phase r' at x) = CpOk r'"
proof -
  have "r' = r\<lparr>res_phase := phase, res_transitions := res_transitions r'\<rparr>"
    using resource_observe_OkD(3) [OF assms(2)] by simp
  with assms(1,3) show ?thesis
    by (cases r') (auto simp: resource_from_row_def set_log_def split: sum.splits)
qed

lemma pg_observe_phase_ok:
  assumes "resources_ok parse T"
  shows "resources_ok parse (fst (pg_observe_phase parse T i phase source reason at))"
proof (rule pg_observe_phase_cases [of parse T i phase source reason at])
  fix x r r' t
  assume x: "x \<in> set T" "rr_id x = resource_id_display i" "resource_from_row parse x = CpOk r"
    "resource_observe r phase source reason at = (r', Ok t)"
    and eq: "fst (pg_observe_phase parse T i phase source reason at) = map (set_log i phase r' at) T"
  have wf: "resource_wf r'"
    using assms x(1,3,4) resource_observe_wf(1) by (force simp: resources_ok_def)
  have only: "y = x" if "y \<in> set T" "rr_id y = resource_id_display i" for y
    using assms that x(1,2) unfolding resources_ok_def distinct_map by (metis inj_onD)
  have "\<exists>r. resource_from_row parse (set_log i phase r' at y) = CpOk r \<and> resource_wf r" if y: "y \<in> set T" for y
  proof (cases "rr_id y = resource_id_display i")
    case True
    with only [OF y] set_log_decodes [OF x(3,4,2)] wf show ?thesis by auto
  next
    case False
    then show ?thesis using assms y by (auto simp: resources_ok_def set_log_def)
  qed
  moreover have "map rr_id (map (set_log i phase r' at) T) = map rr_id T" by (auto simp: set_log_def)
  ultimately show "resources_ok parse (fst (pg_observe_phase parse T i phase source reason at))"
    unfolding eq using assms by (auto simp: resources_ok_def simp del: map_map)
qed (use assms in simp)

interpretation resources_kept: world_invariant E w "\<lambda>W. resources_ok (we_parse E) (wd_resources W)" for E w
  by unfold_locales (simp_all add: worker_observe_fst pg_observe_phase_ok)

text \<open>A row that the dispatcher never reports is never written.\<close>

definition unreported :: "worker_env \<Rightarrow> resource_row \<Rightarrow> bool" where
  "unreported E x \<longleftrightarrow>
     (\<forall>job i. we_dispatch E job = CpOk (DoReady i) \<or> we_dispatch E job = CpOk (DoDegraded i) \<longrightarrow>
        rr_id x \<noteq> resource_id_display i)"

lemma observe_keeps_row:
  assumes "x \<in> set T" "rr_id x \<noteq> resource_id_display i"
  shows "x \<in> set (fst (pg_observe_phase parse T i phase source reason at))"
  by (rule pg_observe_phase_cases [of parse T i phase source reason at])
    (use assms in \<open>auto simp: set_log_def intro!: rev_image_eqI [of x]\<close>)

interpretation unreported_kept: world_invariant E w "\<lambda>W. unreported E x \<longrightarrow> x \<in> set (wd_resources W)" for E w x
  by unfold_locales (auto simp: worker_observe_fst unreported_def intro!: observe_keeps_row)

section \<open>What a pass does to the claimed job\<close>

lemma finish_Ok:
  assumes "finish E w W i now a r wd b = (W', CpOk t)"
  shows "\<exists>x \<in> set (wd_jobs W'). jr_id x = job_id_display i \<and> jr_status x = ''succeeded''"
proof -
  obtain W1 u where W1: "on_jobs W (\<lambda>T. pg_complete T i (wk_worker_id w) now) = (W1, CpOk u)"
    and rest: "bind_effect (record_event E w W1 now a r
      (''job '' @ job_id_display i @ '' '' @ wd @ '' via worker '' @ wk_worker_id w)) (\<lambda>W _. (W, CpOk (TickCompleted i b))) =
      (W', CpOk t)"
    using assms unfolding finish_def by (rule bind_effect_OkE)
  have jobs: "wd_jobs W1 = fst (pg_complete (wd_jobs W) i (wk_worker_id w) now)"
    "snd (pg_complete (wd_jobs W) i (wk_worker_id w) now) = CpOk u"
    using on_jobs_fst(1,3) [of W "\<lambda>T. pg_complete T i (wk_worker_id w) now"] W1 by simp_all
  then obtain x where x: "x \<in> set (wd_jobs W)" "leased_to i (wk_worker_id w) x"
    by (auto simp: pg_complete_def Let_def rows_affected_0 split: if_splits)
  then have "completed_row now x \<in> set (wd_jobs W1)"
    unfolding jobs(1) fst_pg_complete sql_update_def by force
  moreover have "wd_jobs W' = wd_jobs W1"
  proof (rule bind_effect_OkE [OF rest])
    fix W2 u2
    assume ev: "record_event E w W1 now a r
        (''job '' @ job_id_display i @ '' '' @ wd @ '' via worker '' @ wk_worker_id w) = (W2, CpOk u2)"
      and "(W2, CpOk (TickCompleted i b)) = (W', CpOk t)"
    then show "wd_jobs W' = wd_jobs W1" using record_event_fst(1) [of E w W1 now a r] unfolding ev [symmetric]
      by (metis ev fst_conv prod.inject)
  qed
  moreover have "jr_id (completed_row now x) = job_id_display i" "jr_status (completed_row now x) = ''succeeded''"
    using x(2) by (simp_all add: leased_to_def completed_row_def)
  ultimately show ?thesis by auto
qed

lemma tick_once_acted:
  assumes "tick_once E w W s x = (W', CpOk (s', True))"
  obtains W1 c t where "finalize E w W1 c (ti_finalize_now x) = (W', CpOk t)"
    "\<exists>W0. on_jobs W0 (\<lambda>T. pg_claim_next (we_parse E) (we_chrono E) T (ti_locked x) (wk_worker_id w)
             (ti_now x) (wk_lease w)) = (W1, CpOk (Some c))"
proof -
  obtain W0 s0 where r: "(if ti_stopping x then (W0, CpOk (s0, False))
       else bind_effect (on_jobs W0 (\<lambda>T. pg_claim_next (we_parse E) (we_chrono E) T (ti_locked x) (wk_worker_id w)
             (ti_now x) (wk_lease w))) (\<lambda>W claimed.
           case claimed of
             None \<Rightarrow> (W, CpOk (s0\<lparr>ws_idle := ws_idle s0 + 1\<rparr>, False))
           | Some c \<Rightarrow>
               bind_effect (finalize E w W c (ti_finalize_now x)) (\<lambda>W t.
                 (W, CpOk (count_outcome (s0\<lparr>ws_claimed := ws_claimed s0 + 1\<rparr>) t, True))))) = (W', CpOk (s', True))"
    using assms unfolding tick_once_def by (rule bind_effect_OkE)
  then have "\<not> ti_stopping x" by auto
  with r obtain W1 cl where cl: "on_jobs W0 (\<lambda>T. pg_claim_next (we_parse E) (we_chrono E) T (ti_locked x) (wk_worker_id w)
             (ti_now x) (wk_lease w)) = (W1, CpOk cl)"
    "(case cl of
             None \<Rightarrow> (W1, CpOk (s0\<lparr>ws_idle := ws_idle s0 + 1\<rparr>, False))
           | Some c \<Rightarrow>
               bind_effect (finalize E w W1 c (ti_finalize_now x)) (\<lambda>W t.
                 (W, CpOk (count_outcome (s0\<lparr>ws_claimed := ws_claimed s0 + 1\<rparr>) t, True)))) = (W', CpOk (s', True))"
    by (auto elim: bind_effect_OkE)
  then obtain c where c: "cl = Some c" by (cases cl) auto
  with cl(2) obtain t where "finalize E w W1 c (ti_finalize_now x) = (W', CpOk t)"
    by (auto elim!: bind_effect_OkE)
  with cl(1) c that show thesis by blast
qed

section \<open>Properties\<close>

text \<open>
  The worker keeps the durable invariants: after any number of passes, whatever the dispatcher answers and
  whatever fails on the way, identifiers, keys and leases of the job table are consistent and every
  resource row decodes to a resource whose transition evidence is linked, legal and ends in its phase.
\<close>

theorem worker_keeps_invariants:
  assumes "table_ok (wd_jobs W)" "resources_ok (we_parse E) (wd_resources W)"
  shows "table_ok (wd_jobs (fst (run_bounded E w W s xs))) \<and>
    resources_ok (we_parse E) (wd_resources (fst (run_bounded E w W s xs)))"
  using jobs_kept.run_keeps [OF assms(1)] resources_kept.run_keeps [OF assms(2)] by blast

definition empty_world :: world where
  "empty_world = \<lparr>wd_jobs = [], wd_resources = [], wd_events = serial_empty\<rparr>"

definition noop_env :: worker_env where
  "noop_env = \<lparr>we_chrono = chrono_ns, we_ids = \<lparr>ic_parse = Some, ic_default = ''0''\<rparr>, we_dispatch = noop_dispatch\<rparr>"

definition sample_worker :: worker where
  "sample_worker = \<lparr>wk_worker_id = ''w1'', wk_lease = 60 * nanos_per_sec, wk_poll_interval_ms = 250,
     wk_drain_timeout_ms = 5000, wk_secrets = []\<rparr>"

theorem worker_keeps_invariants_witness:
  "table_ok (wd_jobs (fst (run_bounded noop_env sample_worker empty_world worker_stats_default
     [\<lparr>ti_now = 5, ti_finalize_now = 6, ti_locked = [], ti_stopping = False\<rparr>])))"
  by (rule conjunct1 [OF worker_keeps_invariants]) (simp_all add: empty_world_def resources_ok_def)

text \<open>
  Readiness comes only from the dispatcher's platform observation: a resource that no dispatch reports ready or degraded
  keeps its row through any run of the worker.
\<close>

theorem readiness_needs_observation:
  assumes "x \<in> set (wd_resources W)"
    and "\<And>job i. we_dispatch E job = CpOk (DoReady i) \<or> we_dispatch E job = CpOk (DoDegraded i) \<Longrightarrow>
      rr_id x \<noteq> resource_id_display i"
  shows "x \<in> set (wd_resources (fst (run_bounded E w W s xs)))"
proof -
  have "unreported E x" using assms(2) by (auto simp: unreported_def)
  with unreported_kept.run_keeps [of E x W w s xs] assms(1) show ?thesis by blast
qed

theorem readiness_needs_observation_witness:
  "let x = resource_to_row \<lparr>res_id = ResourceId ''r'', res_kind = ''db'', res_desired_version = 1, res_phase = Provisioning,
         res_generation = 0, res_failure = None, res_transitions = []\<rparr> (ApplicationId ''a'') None 3
   in x \<in> set (wd_resources (fst (run_bounded noop_env sample_worker (empty_world\<lparr>wd_resources := [x]\<rparr>) worker_stats_default
     [\<lparr>ti_now = 5, ti_finalize_now = 6, ti_locked = [], ti_stopping = False\<rparr>])))"
  unfolding Let_def by (rule readiness_needs_observation) (simp_all add: noop_env_def noop_dispatch_def)

text \<open>
  Work that was only accepted is never looked at again. When the dispatcher answers that the target is still in progress,
  the pass records the job as succeeded; after any later history of queue operations the row is
  still the same, and enqueueing the step again changes nothing.
\<close>

theorem in_progress_job_is_final:
  assumes "table_ok (wd_jobs W)" "\<And>job. we_dispatch E job = CpOk DoInProgress"
    and "tick_once E w W s x = (W', CpOk (s', True))"
  shows "\<exists>r \<in> set (wd_jobs W'). jr_status r = ''succeeded'' \<and>
    (\<forall>ops. r \<in> set (durable_run (we_parse E) C (wd_jobs W') ops)) \<and>
    (\<forall>u target action version policy at ops. key_as_str (idempotency_key_new target action version) = jr_key r \<longrightarrow>
       fst (pg_enqueue (we_parse E) u (durable_run (we_parse E) C (wd_jobs W') ops) target action version policy at) =
         durable_run (we_parse E) C (wd_jobs W') ops)"
proof -
  obtain W1 c t where fin: "finalize E w W1 c (ti_finalize_now x) = (W', CpOk t)"
    using tick_once_acted [OF assms(3)] by metis
  then have "finish E w W1 (job_ident (cj_job c)) (ti_finalize_now x) Reconciled EvAccepted ''in progress'' False = (W', CpOk t)"
    using assms(2) by (simp add: finalize_def Let_def)
  from finish_Ok [OF this] obtain r where r: "r \<in> set (wd_jobs W')" "jr_status r = ''succeeded''" by blast
  have ok: "table_ok (wd_jobs W')" using jobs_kept.step_tick [OF assms(1), of E w s x] assms(3) by simp
  have stays: "r \<in> set (durable_run (we_parse E) C (wd_jobs W') ops)" for ops
    by (rule durable_success_final [OF ok r])
  have "fst (pg_enqueue (we_parse E) u T target action version policy at) = T"
    if k: "key_as_str (idempotency_key_new target action version) = jr_key r" and T: "r \<in> set T"
    for u T target action version policy at
    by (rule pg_enqueue_cases [of "we_parse E" u T target action version policy at]) (use k T in auto)
  with r stays show ?thesis by blast
qed

text \<open>
  An error of the dispatcher ends the run. The pass returns the error, a bounded run stops with it, and the claimed job stays
  leased to this worker, to be recovered only when the lease expires.
\<close>

theorem dispatch_error_stops_worker:
  assumes "table_ok (wd_jobs W)" "\<And>job. we_dispatch E job = CpErr e" "\<not> ti_stopping x"
    and "recover_step E w W s (ti_now x) = (W0, CpOk s0)"
    and "pg_claim_next (we_parse E) (we_chrono E) (wd_jobs W0) (ti_locked x) (wk_worker_id w) (ti_now x) (wk_lease w) =
      (T, CpOk (Some c))"
  shows "run_bounded E w W s (x # xs) = (W0\<lparr>wd_jobs := T\<rparr>, CpErr e) \<and>
    (\<exists>r \<in> set T. jr_status r = ''running'' \<and> jr_lease_owner r = Some (wk_worker_id w))"
proof -
  have tick: "tick_once E w W s x = (W0\<lparr>wd_jobs := T\<rparr>, CpErr e)"
    using assms by (simp add: tick_once_def on_jobs_def finalize_def Let_def)
  obtain r ex where r: "next_candidate (wd_jobs W0) (ti_now x) (ti_locked x) = Some r"
    and T: "T = sql_update (\<lambda>y. jr_id y = jr_id r) (claimed_row (wk_worker_id w) (ti_now x) ex) (wd_jobs W0)"
    using assms(5) by (auto simp: pg_claim_next_def split: option.splits if_splits cp_outcome.splits)
  have "claimed_row (wk_worker_id w) (ti_now x) ex r \<in> set T"
    unfolding T sql_update_def using next_candidate_Some(1) [OF r] by force
  then show ?thesis using tick by (auto simp: claimed_row_def intro!: bexI)
qed

text \<open>
  Concurrent observers lose evidence. \<open>observe_phase\<close> reads the resource outside the transaction that writes it. If two
  observers read the same resource and then write one after the other, both succeed, but the transition
  log grows by one entry only: the first observation is gone.
\<close>

theorem concurrent_observers_lose_evidence:
  assumes "resource_observe r p1 src1 m1 t1 = (r1, Ok e1)" "resource_observe r p2 src2 m2 t2 = (r2, Ok e2)"
    and "list_ex (\<lambda>x. rr_id x = resource_id_display i) T"
  shows "let (T1, res1) = observe_write T i p1 r1 t1; (T2, res2) = observe_write T1 i p2 r2 t2 in
    res1 = CpOk () \<and> res2 = CpOk () \<and>
    (\<forall>x \<in> set T2. rr_id x = resource_id_display i \<longrightarrow> rr_transitions x = res_transitions r @ [e2])"
proof -
  have "list_ex (\<lambda>x. rr_id x = resource_id_display i) (map (set_log i p1 r1 t1) T)"
    using assms(3) by (simp add: list_ex_iff)
  moreover have "res_transitions r2 = res_transitions r @ [e2]"
    using resource_observe_OkD(3) [OF assms(2)] by simp
  ultimately show ?thesis
    using assms(3) by (auto simp: observe_write_def set_log_def [abs_def] Let_def list_ex_iff)
qed

text \<open>
  A configuration that was accepted starts a worker: the lease is converted without panic, and it lasts at least
  a second and at most an hour.
\<close>

theorem configured_worker_starts:
  assumes "chrono_laws C" "config_from_lookup temp_dir name lookup = CpOk c"
  shows "\<exists>w. worker_with_secrets C c secrets = CpOk w \<and> wk_secrets w = secrets \<and>
    nanos_per_sec \<le> wk_lease w \<and> wk_lease w \<le> 3600 * nanos_per_sec"
proof -
  have "config_safe c" using config_from_lookup_valid [OF assms(2)] validate_exact by blast
  then have b: "1 \<le> cfg_lease_seconds c" "cfg_lease_seconds c \<le> 3600" by (simp_all add: config_safe_def)
  then have "dur_seconds C (cfg_lease_seconds c) = Some (cfg_lease_seconds c * nanos_per_sec)"
    using chrono_laws.seconds [OF assms(1)] by (simp add: i64_max_def)
  with b show ?thesis by (simp add: worker_with_secrets_def)
qed

end
