(* ===== verification/Plugin_Protocol.thy ===== *)
theory Plugin_Protocol
  imports Deployment Json_Value
begin

text \<open>
  The plugin boundary: \<open>labrys-core/src/plugin.rs\<close>.

  \<open>serde_json::Value\<close> is the datatype \<open>json\<close>, with objects as sorted maps (the default of the crate)
  and floats as their bit patterns; the text form of a value is outside the sources, so
  \<open>json_api\<close> is a parameter with the printer and the parser. What the derived (de)serialisers of
  \<open>RpcError\<close> do on the map form they write is written out; the sequence form and the map form of a unit variant,
  which derived deserialisers also read and no encoder writes, are refused here. What a caller does through
  \<open>get_mut\<close> is \<open>plugin_update\<close>; the registry histories use it with the methods of a process, not to overwrite one
  with another. A plugin handler is any function from method and parameters to an
  outcome; a handler that panics leaves the process with the call still in flight. The trait
  \<open>Plugin\<close> is the record \<open>plugin_impl\<close>, with the six SDK examples as values.
\<close>

section \<open>JSON values\<close>

fun json_get :: "json \<Rightarrow> string \<Rightarrow> json option" where
  "json_get (JObject m) k = btm_get m k"
| "json_get _ k = None"

fun json_as_str :: "json \<Rightarrow> string option" where
  "json_as_str (JString s) = Some s"
| "json_as_str _ = None"

fun json_as_array :: "json \<Rightarrow> json list option" where
  "json_as_array (JArray xs) = Some xs"
| "json_as_array _ = None"

fun json_as_u64 :: "json \<Rightarrow> u64 option" where
  "json_as_u64 (JNumber (NumU64 n)) = Some n"
| "json_as_u64 _ = None"

definition json_object :: "(string \<times> json) list \<Rightarrow> json" where
  "json_object entries = JObject (fold (\<lambda>(k, v). btm_insert k v) entries [])"

fun json_insert :: "string \<Rightarrow> json \<Rightarrow> json \<Rightarrow> json" where
  "json_insert k v (JObject m) = JObject (btm_insert k v m)"
| "json_insert k v other = other"

fun json_option :: "json option \<Rightarrow> json" where
  "json_option (Some v) = v"
| "json_option None = JNull"

record json_api =
  json_print :: "json \<Rightarrow> string"
  json_parse :: "string \<Rightarrow> json option"

section \<open>Families and manifests\<close>

definition plugin_protocol_version :: u32 where
  "plugin_protocol_version = 1"

datatype plugin_family =
    AgentProvider | CapabilityProvider | BindingProvider | RuntimeProvider | InspectorProvider | DeployProvider

definition all_families :: "plugin_family list" where
  "all_families =
     [AgentProvider, CapabilityProvider, BindingProvider, RuntimeProvider, InspectorProvider, DeployProvider]"

fun family_name :: "plugin_family \<Rightarrow> string" where
  "family_name AgentProvider = ''agent_provider''"
| "family_name CapabilityProvider = ''capability_provider''"
| "family_name BindingProvider = ''binding_provider''"
| "family_name RuntimeProvider = ''runtime_provider''"
| "family_name InspectorProvider = ''inspector_provider''"
| "family_name DeployProvider = ''deploy_provider''"

fun required_methods :: "plugin_family \<Rightarrow> string list" where
  "required_methods AgentProvider = [''agent.draft_events'', ''agent.interrupt'']"
| "required_methods CapabilityProvider = [''capability.plan'', ''capability.observe'']"
| "required_methods BindingProvider = [''binding.resolve'']"
| "required_methods RuntimeProvider = [''runtime.detect'', ''runtime.prepare'']"
| "required_methods InspectorProvider = [''inspect.snapshot'', ''inspect.findings'']"
| "required_methods DeployProvider = [''deploy.build'', ''deploy.rollback'']"

record plugin_manifest =
  pm_id :: string
  pm_name :: string
  pm_version :: string
  pm_family :: plugin_family
  pm_protocol_version :: u32
  pm_methods :: "string list"
  pm_command :: "string list"
  pm_capabilities :: "string list"

definition plugin_manifest_new ::
  "string \<Rightarrow> string \<Rightarrow> plugin_family \<Rightarrow> u32 \<Rightarrow> string list \<Rightarrow> plugin_manifest" where
  "plugin_manifest_new i name family version methods =
     \<lparr>pm_id = i, pm_name = name, pm_version = ''0.1.0'', pm_family = family, pm_protocol_version = version,
      pm_methods = methods, pm_command = [], pm_capabilities = []\<rparr>"

definition with_command :: "plugin_manifest \<Rightarrow> string list \<Rightarrow> plugin_manifest" where
  "with_command m command = m\<lparr>pm_command := command\<rparr>"

definition with_capabilities :: "plugin_manifest \<Rightarrow> string list \<Rightarrow> plugin_manifest" where
  "with_capabilities m capabilities = m\<lparr>pm_capabilities := capabilities\<rparr>"

definition implements_family :: "plugin_manifest \<Rightarrow> bool" where
  "implements_family m =
     list_all (\<lambda>method. list_ex (\<lambda>x. x = method) (pm_methods m)) (required_methods (pm_family m))"

section \<open>Messages\<close>

datatype rpc_error_code =
    ParseError | InvalidRequest | MethodNotFound | InvalidParams | InternalError | UnavailableCode
  | Cancelled | VersionMismatch

fun rpc_code :: "rpc_error_code \<Rightarrow> int" where
  "rpc_code ParseError = - 32700"
| "rpc_code InvalidRequest = - 32600"
| "rpc_code MethodNotFound = - 32601"
| "rpc_code InvalidParams = - 32602"
| "rpc_code InternalError = - 32603"
| "rpc_code UnavailableCode = - 32000"
| "rpc_code Cancelled = - 32800"
| "rpc_code VersionMismatch = - 32001"

fun rpc_code_name :: "rpc_error_code \<Rightarrow> string" where
  "rpc_code_name ParseError = ''parse_error''"
| "rpc_code_name InvalidRequest = ''invalid_request''"
| "rpc_code_name MethodNotFound = ''method_not_found''"
| "rpc_code_name InvalidParams = ''invalid_params''"
| "rpc_code_name InternalError = ''internal_error''"
| "rpc_code_name UnavailableCode = ''plugin_unavailable''"
| "rpc_code_name Cancelled = ''cancelled''"
| "rpc_code_name VersionMismatch = ''version_mismatch''"

definition show_int :: "int \<Rightarrow> string" where
  "show_int i = (if i < 0 then CHR ''-'' # show_nat (nat (- i)) else show_nat (nat i))"

definition rpc_code_display :: "rpc_error_code \<Rightarrow> string" where
  "rpc_code_display c = show_int (rpc_code c) @ ''('' @ rpc_code_name c @ '')''"

record rpc_error =
  re_code :: rpc_error_code
  re_message :: string
  re_recovery :: "string option"

definition rpc_error_new :: "rpc_error_code \<Rightarrow> string \<Rightarrow> rpc_error" where
  "rpc_error_new code message = \<lparr>re_code = code, re_message = message, re_recovery = None\<rparr>"

definition with_recovery :: "rpc_error \<Rightarrow> string \<Rightarrow> rpc_error" where
  "with_recovery e recovery = e\<lparr>re_recovery := Some recovery\<rparr>"

fun from_core_error :: "core_error \<Rightarrow> rpc_error" where
  "from_core_error (PluginUnavailable message) = rpc_error_new UnavailableCode message"
| "from_core_error (PluginError message) = rpc_error_new InvalidParams message"
| "from_core_error (ProtocolVersion found expected) =
     rpc_error_new VersionMismatch (''offered protocol v'' @ show_u32 found @ '', control plane speaks v'' @
       show_u32 expected)"
| "from_core_error other = rpc_error_new InternalError (core_error_display other)"

record rpc_request =
  rq_id :: u64
  rq_method :: string
  rq_params :: json

definition rpc_request_new :: "u64 \<Rightarrow> string \<Rightarrow> json \<Rightarrow> rpc_request" where
  "rpc_request_new i method params = \<lparr>rq_id = i, rq_method = method, rq_params = params\<rparr>"

record rpc_response =
  rs_id :: u64
  rs_result :: "json option"
  rs_error :: "rpc_error option"

definition response_ok :: "u64 \<Rightarrow> json \<Rightarrow> rpc_response" where
  "response_ok i result = \<lparr>rs_id = i, rs_result = Some result, rs_error = None\<rparr>"

definition response_err :: "u64 \<Rightarrow> rpc_error \<Rightarrow> rpc_response" where
  "response_err i e = \<lparr>rs_id = i, rs_result = None, rs_error = Some e\<rparr>"

definition response_is_success :: "rpc_response \<Rightarrow> bool" where
  "response_is_success r = (rs_error r = None \<and> rs_result r \<noteq> None)"

section \<open>Plugin processes\<close>

record handshake =
  hs_plugin_id :: string
  hs_family :: plugin_family
  hs_negotiated_version :: u32
  hs_methods :: "string list"
  hs_capabilities :: "string list"

datatype plugin_state = PlActive | PlRefused | PlUnavailable | PlStopped

fun debug_plugin_state :: "plugin_state \<Rightarrow> string" where
  "debug_plugin_state PlActive = ''Active''"
| "debug_plugin_state PlRefused = ''Refused''"
| "debug_plugin_state PlUnavailable = ''Unavailable''"
| "debug_plugin_state PlStopped = ''Stopped''"

record plugin_process =
  pp_manifest :: plugin_manifest
  pp_state :: plugin_state
  pp_handshake :: "handshake option"
  pp_refusal :: "rpc_error option"
  pp_next_call_id :: u64
  pp_in_flight :: "(u64, string) btree_map"
  pp_cancelled :: "u64 list"
  pp_calls :: "(string \<times> u64) list"

definition debug_str_list :: "string list \<Rightarrow> string" where
  "debug_str_list xs = ''['' @ join '', '' (map debug_str xs) @ '']''"

definition negotiate :: "plugin_manifest \<Rightarrow> handshake outcome" where
  "negotiate m =
     (if pm_protocol_version m \<noteq> plugin_protocol_version
      then Err (ProtocolVersion (pm_protocol_version m) plugin_protocol_version)
      else if trim (pm_name m) = [] then Err (PluginError ''plugin manifest must name the plugin'')
      else if \<not> implements_family m
      then Err (PluginError (''plugin '' @ quoted (pm_name m) @ '' does not implement its '' @
             family_name (pm_family m) @ '' contract, missing '' @
             debug_str_list (filter (\<lambda>method. \<not> list_ex (\<lambda>x. x = method) (pm_methods m))
               (required_methods (pm_family m)))))
      else Ok \<lparr>hs_plugin_id = pm_id m, hs_family = pm_family m,
               hs_negotiated_version = plugin_protocol_version, hs_methods = pm_methods m,
               hs_capabilities = pm_capabilities m\<rparr>)"

text \<open>\<open>negotiate\<close> has no panicking branch; the last case only completes the match.\<close>

definition plugin_connect :: "plugin_manifest \<Rightarrow> plugin_process" where
  "plugin_connect m =
     (case negotiate m of
        Ok hs \<Rightarrow> \<lparr>pp_manifest = m, pp_state = PlActive, pp_handshake = Some hs, pp_refusal = None,
          pp_next_call_id = 1, pp_in_flight = [], pp_cancelled = [], pp_calls = []\<rparr>
      | Err e \<Rightarrow> \<lparr>pp_manifest = m, pp_state = PlRefused, pp_handshake = None,
          pp_refusal = Some (from_core_error e), pp_next_call_id = 1, pp_in_flight = [], pp_cancelled = [],
          pp_calls = []\<rparr>
      | Panic msg \<Rightarrow> \<lparr>pp_manifest = m, pp_state = PlRefused, pp_handshake = None, pp_refusal = None,
          pp_next_call_id = 1, pp_in_flight = [], pp_cancelled = [], pp_calls = []\<rparr>)"

definition mark_unavailable :: "plugin_process \<Rightarrow> plugin_process" where
  "mark_unavailable p =
     (if pp_state p = PlActive then p\<lparr>pp_state := PlUnavailable, pp_in_flight := []\<rparr> else p)"

definition plugin_shutdown :: "plugin_process \<Rightarrow> plugin_process" where
  "plugin_shutdown p =
     (if pp_state p \<noteq> PlRefused then p\<lparr>pp_state := PlStopped, pp_in_flight := []\<rparr> else p)"

definition unavailable_error :: "plugin_process \<Rightarrow> string \<Rightarrow> rpc_error" where
  "unavailable_error p method =
     (let code = (case pp_state p of PlUnavailable \<Rightarrow> UnavailableCode | PlRefused \<Rightarrow> VersionMismatch
                    | PlStopped \<Rightarrow> UnavailableCode | PlActive \<Rightarrow> InternalError);
          message = (case pp_state p of
              PlRefused \<Rightarrow> (case pp_refusal p of Some r \<Rightarrow> re_message r | None \<Rightarrow> ''plugin refused at handshake'')
            | other \<Rightarrow> ''plugin '' @ quoted (pm_name (pp_manifest p)) @ '' is '' @ debug_plugin_state other @
                '', cannot invoke '' @ quoted method)
      in with_recovery (rpc_error_new code message)
           (case pp_state p of
              PlRefused \<Rightarrow> ''upgrade the plugin to protocol v{PLUGIN_PROTOCOL_VERSION}''
            | _ \<Rightarrow> ''restart the plugin process or disable it''))"

type_synonym plugin_handler = "string \<Rightarrow> json \<Rightarrow> json outcome"

definition plugin_invoke ::
  "plugin_process \<Rightarrow> string \<Rightarrow> json \<Rightarrow> plugin_handler \<Rightarrow> plugin_process \<times> rpc_response outcome" where
  "plugin_invoke p method params handler =
     (if pp_state p \<noteq> PlActive
      then (p, Ok (response_err (pp_next_call_id p) (unavailable_error p method)))
      else if \<not> list_ex (\<lambda>m. m = method) (pm_methods (pp_manifest p))
      then (p\<lparr>pp_next_call_id := pp_next_call_id p + 1\<rparr>,
            Ok (response_err (pp_next_call_id p)
              (with_recovery (rpc_error_new MethodNotFound (''plugin '' @ quoted (pm_name (pp_manifest p)) @
                 '' does not answer '' @ quoted method)) ''check the plugin manifest methods'')))
      else
        (let i = pp_next_call_id p;
             p1 = p\<lparr>pp_next_call_id := pp_next_call_id p + 1, pp_in_flight := btm_insert i method (pp_in_flight p)\<rparr>;
             finish = (\<lambda>response. (p1\<lparr>pp_in_flight := btm_remove i (pp_in_flight p1),
                pp_calls := pp_calls p1 @ [(method, i)]\<rparr>, Ok response))
         in (case handler method params of
               Ok result \<Rightarrow> finish (response_ok i result)
             | Err e \<Rightarrow> finish (response_err i (from_core_error e))
             | Panic msg \<Rightarrow> (p1, Panic msg))))"

definition begin_call :: "plugin_process \<Rightarrow> u64 \<Rightarrow> string \<Rightarrow> plugin_process" where
  "begin_call p i method =
     p\<lparr>pp_in_flight := btm_insert i method (pp_in_flight p),
       pp_next_call_id := max (pp_next_call_id p) (i + 1)\<rparr>"

definition plugin_cancel :: "plugin_process \<Rightarrow> u64 \<Rightarrow> plugin_process \<times> unit outcome" where
  "plugin_cancel p i =
     (case btm_get (pp_in_flight p) i of
        None \<Rightarrow> (p, Err (PluginError (''no in-flight call '' @ show_u64 i @ '' to cancel'')))
      | Some method \<Rightarrow>
          (p\<lparr>pp_in_flight := btm_remove i (pp_in_flight p), pp_cancelled := pp_cancelled p @ [i],
             pp_calls := pp_calls p @ [(method @ ''#cancelled'', i)]\<rparr>, Ok ()))"

definition cancelled_response :: "plugin_process \<Rightarrow> u64 \<Rightarrow> rpc_response option" where
  "cancelled_response p i =
     (if i \<in> set (pp_cancelled p)
      then Some (response_err i (with_recovery (rpc_error_new Cancelled ''call cancelled by control plane'')
             ''retry with a longer timeout or a smaller request''))
      else None)"

section \<open>The registry\<close>

type_synonym plugin_registry = "(string, plugin_process) btree_map"

definition plugin_register :: "plugin_registry \<Rightarrow> plugin_manifest \<Rightarrow> plugin_registry \<times> plugin_family outcome" where
  "plugin_register reg m =
     (let process = plugin_connect m; family = pm_family m in
      (case pp_refusal process of
         Some e \<Rightarrow> (btm_insert (pm_id m) process reg, Err (PluginError (re_message e)))
       | None \<Rightarrow>
           (case find (\<lambda>p. pm_family (pp_manifest p) = family \<and> pp_state p = PlActive \<and>
                    pm_id (pp_manifest p) \<noteq> pm_id m) (btm_values reg) of
              Some existing \<Rightarrow> (reg, Err (PluginError (''family '' @ family_name family @
                '' already has an active plugin '' @ quoted (pm_name (pp_manifest existing)))))
            | None \<Rightarrow> (btm_insert (pm_id m) process reg, Ok family))))"

definition plugin_get :: "plugin_registry \<Rightarrow> string \<Rightarrow> plugin_process option" where
  "plugin_get reg i = btm_get reg i"

text \<open>A use of \<open>get_mut\<close>: the process under the identifier is replaced by what the caller made of it.\<close>

definition plugin_update :: "plugin_registry \<Rightarrow> string \<Rightarrow> (plugin_process \<Rightarrow> plugin_process) \<Rightarrow> plugin_registry" where
  "plugin_update reg i f =
     (case btm_get reg i of Some p \<Rightarrow> btm_insert i (f p) reg | None \<Rightarrow> reg)"

definition active_for :: "plugin_registry \<Rightarrow> plugin_family \<Rightarrow> plugin_process option" where
  "active_for reg family =
     find (\<lambda>p. pm_family (pp_manifest p) = family \<and> pp_state p = PlActive) (btm_values reg)"

record plugin_report =
  pt_id :: string
  pt_name :: string
  pt_family :: plugin_family
  pt_state :: plugin_state
  pt_protocol_version :: u32
  pt_detail :: string

definition registry_report :: "plugin_registry \<Rightarrow> plugin_report list" where
  "registry_report reg =
     map (\<lambda>p. \<lparr>pt_id = pm_id (pp_manifest p), pt_name = pm_name (pp_manifest p),
            pt_family = pm_family (pp_manifest p), pt_state = pp_state p,
            pt_protocol_version = pm_protocol_version (pp_manifest p),
            pt_detail = (case pp_refusal p of
               Some r \<Rightarrow> rpc_code_display (re_code r) @ '': '' @ re_message r
             | None \<Rightarrow> show_nat (length (pm_methods (pp_manifest p))) @ '' methods'')\<rparr>)
       (btm_values reg)"

definition plugin_report_detail :: "plugin_report \<Rightarrow> string" where
  "plugin_report_detail r =
     ''plugin '' @ pt_name r @ '' ('' @ family_name (pt_family r) @ '') state '' @
     debug_plugin_state (pt_state r) @ '' protocol v'' @ show_u32 (pt_protocol_version r) @ '': '' @ pt_detail r"

section \<open>Frames\<close>

text \<open>
  The derived forms of \<open>RpcError\<close>: an object with the code in snake case, the message and, when
  present, the recovery; reading one refuses unknown fields and takes a missing or null recovery as
  none. The text of a deserialisation error comes from the crate and is a parameter.
\<close>

definition rpc_error_to_value :: "rpc_error \<Rightarrow> json" where
  "rpc_error_to_value e =
     json_object ([(''code'', JString (rpc_code_name (re_code e))), (''message'', JString (re_message e))] @
       (case re_recovery e of Some r \<Rightarrow> [(''recovery'', JString r)] | None \<Rightarrow> []))"

definition all_codes :: "rpc_error_code list" where
  "all_codes = [ParseError, InvalidRequest, MethodNotFound, InvalidParams, InternalError, UnavailableCode,
     Cancelled, VersionMismatch]"

definition rpc_error_of_value :: "json \<Rightarrow> rpc_error option" where
  "rpc_error_of_value v =
     (case v of
        JObject m \<Rightarrow>
          (if \<not> set (map fst m) \<subseteq> {''code'', ''message'', ''recovery''} then None
           else
             (case (Option.bind (btm_get m ''code'') json_as_str, Option.bind (btm_get m ''message'') json_as_str,
                    btm_get m ''recovery'') of
                (Some c, Some message, recovery) \<Rightarrow>
                  (case find (\<lambda>k. rpc_code_name k = c) all_codes of
                     None \<Rightarrow> None
                   | Some code \<Rightarrow>
                       (case recovery of
                          None \<Rightarrow> Some \<lparr>re_code = code, re_message = message, re_recovery = None\<rparr>
                        | Some JNull \<Rightarrow> Some \<lparr>re_code = code, re_message = message, re_recovery = None\<rparr>
                        | Some (JString r) \<Rightarrow> Some \<lparr>re_code = code, re_message = message, re_recovery = Some r\<rparr>
                        | Some _ \<Rightarrow> None))
              | _ \<Rightarrow> None))
      | _ \<Rightarrow> None)"

definition encode_response :: "json_api \<Rightarrow> rpc_response \<Rightarrow> string outcome" where
  "encode_response J r =
     (let frame = json_object [(''jsonrpc'', JString ''2.0''), (''id'', JNumber (NumU64 (rs_id r)))] in
      case (rs_result r, rs_error r) of
        (Some result, None) \<Rightarrow> Ok (json_print J (json_insert ''result'' result frame))
      | (None, Some e) \<Rightarrow> Ok (json_print J (json_insert ''error'' (rpc_error_to_value e) frame))
      | _ \<Rightarrow> Err (PluginError ''response must carry exactly one of result or error''))"

definition decode_response :: "json_api \<Rightarrow> (json \<Rightarrow> string) \<Rightarrow> string \<Rightarrow> rpc_response outcome" where
  "decode_response J de_error frame =
     (case json_parse J frame of
        None \<Rightarrow> Err (PluginError ''malformed JSON-RPC frame from plugin'')
      | Some v \<Rightarrow>
          (case Option.bind (json_get v ''id'') json_as_u64 of
             None \<Rightarrow> Err (PluginError ''JSON-RPC frame is missing an id'')
           | Some i \<Rightarrow>
               (case json_get v ''error'' of
                  Some e \<Rightarrow>
                    (case rpc_error_of_value e of
                       Some parsed \<Rightarrow> Ok (response_err i parsed)
                     | None \<Rightarrow> Err (Serialization (de_error e)))
                | None \<Rightarrow>
                    (case json_get v ''result'' of
                       Some result \<Rightarrow> Ok (response_ok i result)
                     | None \<Rightarrow> Err (PluginError ''JSON-RPC frame carries neither result nor error'')))))"

section \<open>The SDK\<close>

record plugin_impl =
  pi_manifest :: plugin_manifest
  pi_handle :: plugin_handler

definition plugin_respond :: "plugin_impl \<Rightarrow> rpc_request \<Rightarrow> rpc_response outcome" where
  "plugin_respond p request =
     (if \<not> list_ex (\<lambda>m. m = rq_method request) (pm_methods (pi_manifest p))
      then Ok (response_err (rq_id request) (rpc_error_new MethodNotFound
             (quoted (rq_method request) @ '' is not implemented'')))
      else (case pi_handle p (rq_method request) (rq_params request) of
              Ok result \<Rightarrow> Ok (response_ok (rq_id request) result)
            | Err e \<Rightarrow> Ok (response_err (rq_id request) (from_core_error e))
            | Panic m \<Rightarrow> Panic m))"

definition param_str :: "json \<Rightarrow> string \<Rightarrow> string option" where
  "param_str params k = Option.bind (json_get params k) json_as_str"

definition param_array :: "json \<Rightarrow> string \<Rightarrow> json list option" where
  "param_array params k = Option.bind (json_get params k) json_as_array"

definition unhandled :: "string \<Rightarrow> json outcome" where
  "unhandled other = Err (PluginError (''unhandled method '' @ other))"

definition any_file_ends :: "json \<Rightarrow> string \<Rightarrow> bool" where
  "any_file_ends params pat =
     (case param_array params ''files'' of
        Some items \<Rightarrow> list_ex (\<lambda>item. ends_with (case json_as_str item of Some s \<Rightarrow> s | None \<Rightarrow> []) pat) items
      | None \<Rightarrow> False)"

definition example_agent_handle :: "string \<Rightarrow> plugin_handler" where
  "example_agent_handle name method params =
     (if method = ''agent.draft_events'' then
        (case param_str params ''prompt'' of
           None \<Rightarrow> Err (PluginError (''agent.draft_events needs '' @ quoted ''prompt''))
         | Some prompt \<Rightarrow> Ok (json_object [(''events'', JArray
             [json_object [(''kind'', JString ''planning''), (''detail'', JString (name @ '' planned: '' @ prompt))],
              json_object [(''kind'', JString ''command_run''), (''detail'', JString (name @ '' acted''))]])]))
      else if method = ''agent.interrupt'' then Ok (json_object [(''interrupted'', JBool True)])
      else unhandled method)"

definition example_agent_plugin :: "string \<Rightarrow> plugin_impl" where
  "example_agent_plugin name =
     \<lparr>pi_manifest = with_capabilities (with_command (plugin_manifest_new ''example-agent'' name AgentProvider
        plugin_protocol_version [''agent.draft_events'', ''agent.interrupt'']) [''node'', ''agent-plugin.js''])
        [''prompt'', ''interrupt''],
      pi_handle = example_agent_handle name\<rparr>"

text \<open>The bit pattern of the float one.\<close>

definition f64_one :: u64 where
  "f64_one = 0x3FF0000000000000"

definition example_inspector_handle :: plugin_handler where
  "example_inspector_handle method params =
     (if method = ''inspect.snapshot'' then
        Ok (json_object [(''files_seen'', JNumber (NumU64 (word_of_nat
          (case param_array params ''files'' of Some items \<Rightarrow> length items | None \<Rightarrow> 0))))])
      else if method = ''inspect.findings'' then
        Ok (json_object [(''findings'',
          if any_file_ends params ''compose.yaml''
          then json_object [(''name'', JString ''compose''), (''value'', JString ''present''),
                 (''confidence'', JNumber (NumF64 f64_one))]
          else JNull)])
      else unhandled method)"

definition example_inspector_plugin :: plugin_impl where
  "example_inspector_plugin =
     \<lparr>pi_manifest = with_capabilities (with_command (plugin_manifest_new ''example-inspector''
        ''docker-compose-inspector'' InspectorProvider plugin_protocol_version
        [''inspect.snapshot'', ''inspect.findings'']) [''bun'', ''inspector-plugin.ts'']) [''compose''],
      pi_handle = example_inspector_handle\<rparr>"

definition example_runtime_handle :: plugin_handler where
  "example_runtime_handle method params =
     (if method = ''runtime.detect'' then
        (let has_dockerfile = any_file_ends params ''Dockerfile'' in
         Ok (json_object [(''supported'', JBool has_dockerfile),
           (''kind'', if has_dockerfile then JString ''generic'' else JNull),
           (''tier'', if has_dockerfile then JString ''tier0'' else JNull)]))
      else if method = ''runtime.prepare'' then
        Ok (json_object [(''run_command'', JArray [JString ''./entrypoint'']),
          (''oci_image'', JString ''registry.local/plugin-app''), (''profile'', JString ''production'')])
      else unhandled method)"

definition example_runtime_plugin :: plugin_impl where
  "example_runtime_plugin =
     \<lparr>pi_manifest = with_capabilities (with_command (plugin_manifest_new ''example-runtime''
        ''haskell-ghcup-runtime'' RuntimeProvider plugin_protocol_version
        [''runtime.detect'', ''runtime.prepare'']) [''node'', ''runtime-plugin.js'']) [''oci''],
      pi_handle = example_runtime_handle\<rparr>"

definition example_capability_handle :: plugin_handler where
  "example_capability_handle method params =
     (if method = ''capability.plan'' then
        (let capability = (case param_str params ''capability'' of Some c \<Rightarrow> c | None \<Rightarrow> ''database.postgres'') in
         Ok (json_object [(''capability'', JString capability), (''mode'', JString ''managed''),
           (''resource'', json_object [(''external_ref'', JString (capability @ ''-plan''))]),
           (''secret_refs'', JArray [JString (''neon.'' @ capability @ ''.url'')])]))
      else if method = ''capability.observe'' then Ok (json_object [(''phase'', JString ''ready'')])
      else unhandled method)"

definition example_capability_plugin :: plugin_impl where
  "example_capability_plugin =
     \<lparr>pi_manifest = with_capabilities (with_command (plugin_manifest_new ''example-capability''
        ''neon-postgres'' CapabilityProvider plugin_protocol_version
        [''capability.plan'', ''capability.observe'']) [''node'', ''capability-plugin.js''])
        [''database.postgres'', ''managed''],
      pi_handle = example_capability_handle\<rparr>"

definition example_binding_handle :: plugin_handler where
  "example_binding_handle method params =
     (if method = ''binding.resolve'' then
        (let provider = (case param_str params ''provider'' of Some p \<Rightarrow> p | None \<Rightarrow> ''postgres'') in
         Ok (json_object [(''kind'', JString ''generic''),
           (''env'', json_object [(''DATABASE_URL'',
              json_object [(''secret_ref'', JString (provider @ ''.database_url''))])])]))
      else unhandled method)"

definition example_binding_plugin :: plugin_impl where
  "example_binding_plugin =
     \<lparr>pi_manifest = with_capabilities (with_command (plugin_manifest_new ''example-binding''
        ''env-contract-binding'' BindingProvider plugin_protocol_version [''binding.resolve''])
        [''node'', ''binding-plugin.js'']) [''generic''],
      pi_handle = example_binding_handle\<rparr>"

definition example_deploy_handle :: plugin_handler where
  "example_deploy_handle method params =
     (if method = ''deploy.build'' then
        (case param_str params ''revision'' of
           None \<Rightarrow> Err (PluginError (''deploy.build needs '' @ quoted ''revision''))
         | Some revision \<Rightarrow> Ok (json_object [(''digest'', JString (''sha256:'' @ revision)),
             (''health_gate'', JBool True)]))
      else if method = ''deploy.rollback'' then
        (case param_str params ''digest'' of
           None \<Rightarrow> Err (PluginError (''deploy.rollback needs '' @ quoted ''digest''))
         | Some digest \<Rightarrow> Ok (json_object [(''rolled_back_to'', JString digest), (''traffic_moved'', JBool True),
             (''database_data_restored'', JBool False), (''warning'', JString database_data_warning)]))
      else unhandled method)"

definition example_deploy_plugin :: plugin_impl where
  "example_deploy_plugin =
     \<lparr>pi_manifest = with_capabilities (with_command (plugin_manifest_new ''example-deploy'' ''fly-deploy''
        DeployProvider plugin_protocol_version [''deploy.build'', ''deploy.rollback''])
        [''node'', ''deploy-plugin.js'']) [''oci'', ''rollback''],
      pi_handle = example_deploy_handle\<rparr>"

definition sdk_examples :: "plugin_impl list" where
  "sdk_examples = [example_agent_plugin ''opencode'', example_capability_plugin, example_binding_plugin,
     example_runtime_plugin, example_inspector_plugin, example_deploy_plugin]"

fun register_all :: "plugin_registry \<Rightarrow> plugin_impl list \<Rightarrow> plugin_family list \<Rightarrow>
    plugin_registry \<times> plugin_family list outcome" where
  "register_all reg [] families = (reg, Ok families)"
| "register_all reg (p # ps) families =
     and_then (plugin_register reg (pi_manifest p)) (\<lambda>reg family. register_all reg ps (families @ [family]))"

definition register_sdk_examples :: "plugin_registry \<Rightarrow> plugin_registry \<times> plugin_family list outcome" where
  "register_sdk_examples reg = register_all reg sdk_examples []"

section \<open>The registry invariant\<close>

datatype registry_op =
    RgRegister plugin_manifest
  | RgInvoke string string json plugin_handler
  | RgBegin string u64 string
  | RgCancel string u64
  | RgUnavailable string
  | RgShutdown string

fun plugin_registry_exec :: "registry_op \<Rightarrow> plugin_registry \<Rightarrow> plugin_registry" where
  "plugin_registry_exec (RgRegister m) reg = fst (plugin_register reg m)"
| "plugin_registry_exec (RgInvoke i method params handler) reg =
     plugin_update reg i (\<lambda>p. fst (plugin_invoke p method params handler))"
| "plugin_registry_exec (RgBegin i call method) reg = plugin_update reg i (\<lambda>p. begin_call p call method)"
| "plugin_registry_exec (RgCancel i call) reg = plugin_update reg i (\<lambda>p. fst (plugin_cancel p call))"
| "plugin_registry_exec (RgUnavailable i) reg = plugin_update reg i mark_unavailable"
| "plugin_registry_exec (RgShutdown i) reg = plugin_update reg i plugin_shutdown"

text \<open>What a manifest must offer to pass the handshake.\<close>

definition compatible :: "plugin_manifest \<Rightarrow> bool" where
  "compatible m = (pm_protocol_version m = plugin_protocol_version \<and> trim (pm_name m) \<noteq> [] \<and> implements_family m)"

lemma plugin_connect_cases:
  "if compatible m
   then pp_state (plugin_connect m) = PlActive \<and> pp_refusal (plugin_connect m) = None
   else pp_state (plugin_connect m) = PlRefused \<and> pp_refusal (plugin_connect m) \<noteq> None"
  by (simp add: plugin_connect_def negotiate_def compatible_def)

lemma plugin_connect_manifest [simp]: "pp_manifest (plugin_connect m) = m"
  by (simp add: plugin_connect_def split: outcome.split)

definition process_ok :: "plugin_process \<Rightarrow> bool" where
  "process_ok p =
     ((pp_state p = PlActive \<longrightarrow> compatible (pp_manifest p)) \<and>
      (pp_state p = PlRefused \<longleftrightarrow> \<not> compatible (pp_manifest p)))"

text \<open>What every use of a process keeps: its manifest, and that it never becomes active or refused.\<close>

definition process_step :: "plugin_process \<Rightarrow> plugin_process \<Rightarrow> bool" where
  "process_step p q =
     (pp_manifest q = pp_manifest p \<and> (pp_state q = PlActive \<longrightarrow> pp_state p = PlActive) \<and>
      (pp_state q = PlRefused \<longleftrightarrow> pp_state p = PlRefused))"

lemma process_steps:
  "process_step p (fst (plugin_invoke p method params handler))"
  "process_step p (begin_call p call method)"
  "process_step p (fst (plugin_cancel p call))"
  "process_step p (mark_unavailable p)"
  "process_step p (plugin_shutdown p)"
  by (simp_all add: process_step_def plugin_invoke_def begin_call_def plugin_cancel_def mark_unavailable_def
      plugin_shutdown_def Let_def split: outcome.split option.split)

lemma process_step_ok: "process_step p q \<Longrightarrow> process_ok p \<Longrightarrow> process_ok q"
  by (auto simp: process_step_def process_ok_def)

interpretation plugins: keyed_store "[] :: plugin_registry" btm_get btm_insert btm_values btm_inv
  "\<lambda>p. pm_id (pp_manifest p)"
  by unfold_locales

definition plugins_ok :: "plugin_registry \<Rightarrow> bool" where
  "plugins_ok reg =
     (btm_inv reg \<and>
      (\<forall>i p. btm_get reg i = Some p \<longrightarrow> pm_id (pp_manifest p) = i \<and> process_ok p) \<and>
      (\<forall>i j p q. btm_get reg i = Some p \<longrightarrow> btm_get reg j = Some q \<longrightarrow> pp_state p = PlActive \<longrightarrow>
         pp_state q = PlActive \<longrightarrow> pm_family (pp_manifest p) = pm_family (pp_manifest q) \<longrightarrow> i = j))"

lemma plugins_ok_values: "plugins_ok reg \<Longrightarrow> p \<in> set (btm_values reg) \<longleftrightarrow> btm_get reg (pm_id (pp_manifest p)) = Some p"
  by (rule plugins.keyed_vals) (auto simp: plugins_ok_def)

lemma plugins_ok_insert:
  assumes "plugins_ok reg" "pm_id (pp_manifest p) = i" "process_ok p"
    and "\<And>j q. j \<noteq> i \<Longrightarrow> btm_get reg j = Some q \<Longrightarrow> pp_state q = PlActive \<Longrightarrow> pp_state p = PlActive \<Longrightarrow>
      pm_family (pp_manifest q) \<noteq> pm_family (pp_manifest p)"
  shows "plugins_ok (btm_insert i p reg)"
proof -
  have inv: "btm_inv (btm_insert i p reg)" using assms(1) by (simp add: plugins_ok_def btm_inv_insert)
  have get: "btm_get (btm_insert i p reg) j = (if j = i then Some p else btm_get reg j)" for j
    by (rule btm_get_insert)
  show ?thesis
    unfolding plugins_ok_def get
  proof (intro conjI allI impI inv)
    fix j q assume "(if j = i then Some p else btm_get reg j) = Some q"
    then show "pm_id (pp_manifest q) = j" "process_ok q"
      using assms(1-3) by (auto simp: plugins_ok_def split: if_splits)
  next
    fix j k q r
    assume "(if j = i then Some p else btm_get reg j) = Some q" "(if k = i then Some p else btm_get reg k) = Some r"
      "pp_state q = PlActive" "pp_state r = PlActive" "pm_family (pp_manifest q) = pm_family (pp_manifest r)"
    then show "j = k" using assms(1) assms(4)
      unfolding plugins_ok_def by (smt (verit) option.inject)
  qed
qed

lemma plugin_register_ok:
  assumes "plugins_ok reg"
  shows "plugins_ok (fst (plugin_register reg m))"
proof -
  let ?p = "plugin_connect m"
  have ok: "process_ok ?p" using plugin_connect_cases [of m] by (auto simp: process_ok_def split: if_splits)
  show ?thesis
  proof (cases "pp_refusal ?p")
    case (Some e)
    then have "pp_state ?p \<noteq> PlActive" using plugin_connect_cases [of m] by (auto split: if_splits)
    then have "plugins_ok (btm_insert (pm_id m) ?p reg)" using assms ok by (intro plugins_ok_insert) simp_all
    then show ?thesis by (simp add: plugin_register_def Some)
  next
    case None
    show ?thesis
    proof (cases "find (\<lambda>p. pm_family (pp_manifest p) = pm_family m \<and> pp_state p = PlActive \<and>
        pm_id (pp_manifest p) \<noteq> pm_id m) (btm_values reg)")
      case free: None
      have "plugins_ok (btm_insert (pm_id m) ?p reg)"
      proof (rule plugins_ok_insert [OF assms _ ok])
        fix j q assume q: "j \<noteq> pm_id m" "btm_get reg j = Some q" "pp_state q = PlActive"
        then have "pm_id (pp_manifest q) = j" using assms by (simp add: plugins_ok_def)
        moreover from this have "q \<in> set (btm_values reg)" using q(2) plugins_ok_values [OF assms] by simp
        ultimately show "pm_family (pp_manifest q) \<noteq> pm_family (pp_manifest ?p)"
          using free q by (auto simp: find_None_iff)
      qed simp
      then show ?thesis by (simp add: plugin_register_def None free)
    qed (use assms in \<open>simp add: plugin_register_def None\<close>)
  qed
qed

lemma plugin_update_ok:
  assumes "plugins_ok reg" "\<And>p. process_step p (f p)"
  shows "plugins_ok (plugin_update reg i f)"
proof (cases "btm_get reg i")
  case (Some p)
  have step: "pp_manifest (f p) = pp_manifest p" "pp_state (f p) = PlActive \<Longrightarrow> pp_state p = PlActive"
    using assms(2) [of p] by (auto simp: process_step_def)
  have p: "pm_id (pp_manifest p) = i" "process_ok p" using assms(1) Some by (auto simp: plugins_ok_def)
  have "plugins_ok (btm_insert i (f p) reg)"
  proof (rule plugins_ok_insert [OF assms(1)])
    show "process_ok (f p)" using process_step_ok [OF assms(2)] p by blast
    fix j q assume "j \<noteq> i" "btm_get reg j = Some q" "pp_state q = PlActive" "pp_state (f p) = PlActive"
    then show "pm_family (pp_manifest q) \<noteq> pm_family (pp_manifest (f p))"
      using assms(1) Some step unfolding plugins_ok_def by metis
  qed (simp add: step p)
  then show ?thesis by (simp add: plugin_update_def Some)
qed (use assms in \<open>simp add: plugin_update_def\<close>)

lemma plugin_registry_exec_ok: "plugins_ok reg \<Longrightarrow> plugins_ok (plugin_registry_exec op reg)"
  by (cases op) (simp_all add: plugin_register_ok plugin_update_ok process_steps)

lemma plugin_registry_run_ok: "plugins_ok reg \<Longrightarrow> plugins_ok (fold plugin_registry_exec ops reg)"
  by (induction ops arbitrary: reg) (simp_all add: plugin_registry_exec_ok)

lemma plugins_ok_empty: "plugins_ok []"
  by (simp add: plugins_ok_def btm_inv_def btm_get_def)

text \<open>
  (C33) At most one plugin answers for a family. After any sequence of registrations, invocations, call starts,
  cancellations, crashes and shutdowns: two active plugins of one family are the same, every plugin is
  stored under the identifier of its manifest, and a plugin is refused exactly when its manifest is
  incompatible (another protocol version, no name, or a method of its family contract missing), so an
  active one is always compatible; \<open>active_for\<close> finds the active plugin of a family exactly when there is
  one.
\<close>

theorem one_active_plugin_per_family:
  "let reg = fold plugin_registry_exec ops []
   in (\<forall>i p. btm_get reg i = Some p \<longrightarrow> pm_id (pp_manifest p) = i \<and>
         (pp_state p = PlRefused \<longleftrightarrow> \<not> compatible (pp_manifest p))) \<and>
      (\<forall>i j p q. btm_get reg i = Some p \<and> btm_get reg j = Some q \<and> pp_state p = PlActive \<and>
         pp_state q = PlActive \<and> pm_family (pp_manifest p) = pm_family (pp_manifest q) \<longrightarrow> i = j \<and> p = q) \<and>
      (\<forall>family p. active_for reg family = Some p \<longleftrightarrow>
         (\<exists>i. btm_get reg i = Some p) \<and> pp_state p = PlActive \<and> pm_family (pp_manifest p) = family)"
proof -
  define reg where "reg = fold plugin_registry_exec ops []"
  have ok: "plugins_ok reg" unfolding reg_def by (rule plugin_registry_run_ok [OF plugins_ok_empty])
  then have uniq: "i = j \<and> p = q" if "btm_get reg i = Some p" "btm_get reg j = Some q" "pp_state p = PlActive"
      "pp_state q = PlActive" "pm_family (pp_manifest p) = pm_family (pp_manifest q)" for i j p q
    using that unfolding plugins_ok_def by (metis option.inject)
  have mem: "p \<in> set (btm_values reg) \<longleftrightarrow> (\<exists>i. btm_get reg i = Some p)" for p
    using ok by (intro btm_in_values) (simp add: plugins_ok_def)
  have "active_for reg family = Some p \<longleftrightarrow>
      (\<exists>i. btm_get reg i = Some p) \<and> pp_state p = PlActive \<and> pm_family (pp_manifest p) = family" (is "?l \<longleftrightarrow> ?r")
    for family p
  proof
    assume ?l
    then show ?r using mem unfolding active_for_def find_Some_iff by (metis nth_mem)
  next
    assume r: ?r
    then obtain q where q: "active_for reg family = Some q"
      using mem [of p] by (cases "active_for reg family") (auto simp: active_for_def find_None_iff)
    then have "(\<exists>i. btm_get reg i = Some q) \<and> pp_state q = PlActive \<and> pm_family (pp_manifest q) = family"
      using mem unfolding active_for_def find_Some_iff by (metis nth_mem)
    then show ?l using q r uniq by metis
  qed
  moreover have "pm_id (pp_manifest p) = i \<and> (pp_state p = PlRefused \<longleftrightarrow> \<not> compatible (pp_manifest p))"
    if "btm_get reg i = Some p" for i p
    using ok that by (auto simp: plugins_ok_def process_ok_def)
  ultimately show ?thesis using uniq unfolding Let_def reg_def [symmetric] by blast
qed

lemma example_deploy_compatible: "compatible (pi_manifest example_deploy_plugin)"
  by (simp add: compatible_def example_deploy_plugin_def with_capabilities_def with_command_def
      plugin_manifest_new_def implements_family_def trim_def is_whitespace_def)

lemma register_into_empty:
  "compatible m \<Longrightarrow> plugin_register [] m = ([(pm_id m, plugin_connect m)], Ok (pm_family m))"
  using plugin_connect_cases [of m] by (simp add: plugin_register_def btm_values_def Let_def)

theorem one_active_plugin_per_family_witness:
  "active_for (fold plugin_registry_exec [RgRegister (pi_manifest example_deploy_plugin)] []) DeployProvider =
     Some (plugin_connect (pi_manifest example_deploy_plugin))"
proof -
  let ?m = "pi_manifest example_deploy_plugin"
  have "btm_get (fold plugin_registry_exec [RgRegister ?m] []) (pm_id ?m) = Some (plugin_connect ?m)"
    using register_into_empty [OF example_deploy_compatible] by (simp add: btm_get_def)
  moreover have "pp_state (plugin_connect ?m) = PlActive"
    using plugin_connect_cases [of ?m] example_deploy_compatible by simp
  moreover have "pm_family (pp_manifest (plugin_connect ?m)) = DeployProvider"
    by (simp add: example_deploy_plugin_def with_capabilities_def with_command_def plugin_manifest_new_def)
  ultimately show ?thesis
    using one_active_plugin_per_family [of "[RgRegister ?m]"] unfolding Let_def by blast
qed

section \<open>Frames\<close>

lemma json_object_get: "json_get (json_object (kvs @ [(k, v)])) k' = (if k' = k then Some v else json_get (json_object kvs) k')"
  by (simp add: json_object_def btm_get_insert)

lemma json_object_nil: "json_get (json_object []) k = None"
  by (simp add: json_object_def btm_get_def)

lemma json_insert_object: "json_insert k v (json_object kvs) = json_object (kvs @ [(k, v)])"
  by (simp add: json_object_def)

lemma find_code: "find (\<lambda>k. rpc_code_name k = rpc_code_name c) all_codes = Some c"
  by (cases c) (simp_all add: all_codes_def)

lemma json_object_keys: "json_object kvs = JObject m \<Longrightarrow> set (map fst m) = set (map fst kvs)"
proof (induction kvs arbitrary: m rule: rev_induct)
  case (snoc kv kvs)
  obtain k v where kv: "kv = (k, v)" by force
  obtain m' where m': "json_object kvs = JObject m'" by (simp add: json_object_def)
  then have "m = btm_insert k v m'" using snoc.prems by (simp add: json_object_def kv)
  then show ?case using snoc.IH [OF m'] keys_btm_insert [of k v m'] by (simp add: kv)
qed (simp add: json_object_def)

lemma rpc_error_roundtrip: "rpc_error_of_value (rpc_error_to_value e) = Some e"
proof -
  let ?kvs = "[(''code'', JString (rpc_code_name (re_code e))), (''message'', JString (re_message e))] @
       (case re_recovery e of Some r \<Rightarrow> [(''recovery'', JString r)] | None \<Rightarrow> [])"
  obtain m where m: "json_object ?kvs = JObject m" by (simp add: json_object_def)
  have "set (map fst m) \<subseteq> {''code'', ''message'', ''recovery''}"
    unfolding json_object_keys [OF m] by (cases "re_recovery e") auto
  moreover have "btm_get m k = json_get (json_object ?kvs) k" for k unfolding m by simp
  then have "btm_get m ''code'' = Some (JString (rpc_code_name (re_code e)))"
    "btm_get m ''message'' = Some (JString (re_message e))"
    "btm_get m ''recovery'' = map_option JString (re_recovery e)"
    by (cases "re_recovery e"; simp add: json_object_def btm_get_insert btm_get_def)+
  moreover have "rpc_error_to_value e = JObject m" unfolding rpc_error_to_value_def by (rule m)
  ultimately show ?thesis
    by (cases "re_recovery e") (simp_all add: rpc_error_of_value_def find_code)
qed

text \<open>The value a response frame is the text of.\<close>

definition frame_value :: "rpc_response \<Rightarrow> json" where
  "frame_value r =
     json_object ([(''jsonrpc'', JString ''2.0''), (''id'', JNumber (NumU64 (rs_id r)))] @
       (case rs_error r of
          Some e \<Rightarrow> [(''error'', rpc_error_to_value e)]
        | None \<Rightarrow> [(''result'', case rs_result r of Some v \<Rightarrow> v | None \<Rightarrow> JNull)]))"

lemma frame_value_get:
  "json_get (frame_value r) ''id'' = Some (JNumber (NumU64 (rs_id r)))"
  "json_get (frame_value r) ''error'' = map_option rpc_error_to_value (rs_error r)"
  "rs_error r = None \<Longrightarrow> rs_result r = Some v \<Longrightarrow> json_get (frame_value r) ''result'' = Some v"
  by (cases "rs_error r"; simp add: frame_value_def json_object_def btm_get_insert btm_get_def)+

text \<open>
  (C34) The frames of the protocol round trip. A response is encoded exactly when it carries one of result and error,
  and then as the text of one value; whatever the JSON library is, a text that parses to this value is decoded to the
  same response, error codes, messages, recovery hints and null results included. Every other response is
  refused.
\<close>

theorem response_frame_roundtrip:
  "if (rs_result r = None) = (rs_error r \<noteq> None)
   then encode_response J r = Ok (json_print J (frame_value r)) \<and>
     (\<forall>frame. json_parse J frame = Some (frame_value r) \<longrightarrow> decode_response J de_error frame = Ok r)
   else \<exists>m. encode_response J r = Err (PluginError m)"
proof (cases "rs_result r"; cases "rs_error r")
  fix v assume c: "rs_result r = Some v" "rs_error r = None"
  have "encode_response J r = Ok (json_print J (frame_value r))"
    by (simp add: encode_response_def frame_value_def c json_insert_object Let_def)
  moreover have "decode_response J de_error frame = Ok r" if "json_parse J frame = Some (frame_value r)" for frame
    using that c frame_value_get [of r] by (cases r) (simp add: decode_response_def response_ok_def)
  ultimately show ?thesis using c by simp
next
  fix e assume c: "rs_result r = None" "rs_error r = Some e"
  have "encode_response J r = Ok (json_print J (frame_value r))"
    by (simp add: encode_response_def frame_value_def c json_insert_object Let_def)
  moreover have "decode_response J de_error frame = Ok r" if "json_parse J frame = Some (frame_value r)" for frame
    using that c frame_value_get [of r] by (cases r) (simp add: decode_response_def response_err_def rpc_error_roundtrip)
  ultimately show ?thesis using c by simp
qed (simp_all add: encode_response_def Let_def)

theorem response_frame_roundtrip_witness:
  "let r = response_err 4 (rpc_error_new Cancelled ''stop'');
       J = \<lparr>json_print = (\<lambda>_. ''frame''), json_parse = (\<lambda>_. Some (frame_value r))\<rparr>
   in encode_response J r = Ok ''frame'' \<and> decode_response J (\<lambda>_. []) ''frame'' = Ok r"
proof -
  define r where "r = response_err 4 (rpc_error_new Cancelled ''stop'')"
  have "(rs_result r = None) = (rs_error r \<noteq> None)" by (simp add: r_def response_err_def)
  then show ?thesis
    using response_frame_roundtrip [of r "\<lparr>json_print = (\<lambda>_. ''frame''), json_parse = (\<lambda>_. Some (frame_value r))\<rparr>" "\<lambda>_. []"]
    by (simp add: r_def [symmetric])
qed

section \<open>The SDK and a registration that evicts\<close>

lemmas sdk_defs = example_agent_plugin_def example_capability_plugin_def example_binding_plugin_def
  example_runtime_plugin_def example_inspector_plugin_def example_deploy_plugin_def with_capabilities_def
  with_command_def plugin_manifest_new_def

lemma sdk_compatible: "list_all (\<lambda>p. compatible (pi_manifest p)) sdk_examples"
  by (simp add: sdk_examples_def sdk_defs compatible_def implements_family_def trim_def is_whitespace_def)

lemma plugin_register_free:
  assumes "plugins_ok reg" "compatible m"
    and "\<And>i p. btm_get reg i = Some p \<Longrightarrow> pm_family (pp_manifest p) \<noteq> pm_family m"
  shows "plugin_register reg m = (btm_insert (pm_id m) (plugin_connect m) reg, Ok (pm_family m))"
proof -
  have "find (\<lambda>p. pm_family (pp_manifest p) = pm_family m \<and> pp_state p = PlActive \<and>
      pm_id (pp_manifest p) \<noteq> pm_id m) (btm_values reg) = None"
    using assms(3) plugins_ok_values [OF assms(1)] by (auto simp: find_None_iff)
  then show ?thesis using plugin_connect_cases [of m] assms(2) by (simp add: plugin_register_def Let_def)
qed

lemma register_all_free:
  assumes "plugins_ok reg" "\<forall>p \<in> set ps. compatible (pi_manifest p)"
    and "distinct (map (\<lambda>p. pm_family (pi_manifest p)) ps)"
    and "\<forall>p \<in> set ps. \<forall>i q. btm_get reg i = Some q \<longrightarrow> pm_family (pp_manifest q) \<noteq> pm_family (pi_manifest p)"
  shows "snd (register_all reg ps families) = Ok (families @ map (\<lambda>p. pm_family (pi_manifest p)) ps)"
  using assms
proof (induction ps arbitrary: reg families)
  case (Cons p ps)
  let ?m = "pi_manifest p"
  have r: "plugin_register reg ?m = (btm_insert (pm_id ?m) (plugin_connect ?m) reg, Ok (pm_family ?m))"
    using Cons.prems by (intro plugin_register_free) auto
  have "plugins_ok (btm_insert (pm_id ?m) (plugin_connect ?m) reg)"
    using plugin_register_ok [OF Cons.prems(1), of ?m] by (simp add: r)
  moreover have "\<forall>q \<in> set ps. \<forall>i x. btm_get (btm_insert (pm_id ?m) (plugin_connect ?m) reg) i = Some x \<longrightarrow>
      pm_family (pp_manifest x) \<noteq> pm_family (pi_manifest q)"
    using Cons.prems(3,4) by (auto simp: btm_get_insert split: if_splits)
  ultimately have "snd (register_all (btm_insert (pm_id ?m) (plugin_connect ?m) reg) ps (families @ [pm_family ?m])) =
      Ok ((families @ [pm_family ?m]) @ map (\<lambda>p. pm_family (pi_manifest p)) ps)"
    using Cons.prems(2,3) by (intro Cons.IH) auto
  then show ?case by (simp add: r)
qed simp

text \<open>
  The SDK examples are complete: registered into an empty registry in their order, all six are accepted,
  and the families they join are all the families, each once.
\<close>

theorem sdk_covers_all_families:
  "(\<exists>families. snd (register_sdk_examples []) = Ok families \<and> set families = UNIV \<and> distinct families)"
proof -
  let ?fs = "map (\<lambda>p. pm_family (pi_manifest p)) sdk_examples"
  have fs: "?fs = [AgentProvider, CapabilityProvider, BindingProvider, RuntimeProvider, InspectorProvider, DeployProvider]"
    by (simp add: sdk_examples_def sdk_defs)
  have "snd (register_all [] sdk_examples []) = Ok ([] @ ?fs)"
    by (rule register_all_free) (use sdk_compatible in \<open>simp_all add: plugins_ok_empty list_all_iff fs btm_get_def\<close>)
  moreover have "set ?fs = UNIV"
  proof -
    have "f \<in> set ?fs" for f unfolding fs by (cases f) simp_all
    then show ?thesis by blast
  qed
  ultimately show ?thesis unfolding register_sdk_examples_def by (simp add: fs)
qed

text \<open>
  A refused registration can take a working plugin down: registering an incompatible manifest under the
  identifier of an active plugin reports the error, but the refused process replaces the active one.
\<close>

theorem refused_registration_evicts:
  assumes "compatible m" "\<not> compatible bad" "pm_id bad = pm_id m" "pm_family bad = pm_family m"
  shows "let reg = fst (plugin_register [] m)
    in active_for reg (pm_family m) = Some (plugin_connect m) \<and>
       (\<exists>e. snd (plugin_register reg bad) = Err (PluginError e)) \<and>
       active_for (fst (plugin_register reg bad)) (pm_family m) = None"
proof -
  have reg: "plugin_register [] m = ([(pm_id m, plugin_connect m)], Ok (pm_family m))"
    using assms(1) by (rule register_into_empty)
  have "pp_state (plugin_connect m) = PlActive" using plugin_connect_cases [of m] assms(1) by simp
  moreover obtain e where "pp_refusal (plugin_connect bad) = Some e" "pp_state (plugin_connect bad) = PlRefused"
    using plugin_connect_cases [of bad] assms(2) by auto
  ultimately show ?thesis using assms(3)
    by (simp add: reg plugin_register_def [of _ bad] active_for_def btm_values_def Let_def)
qed

theorem refused_registration_evicts_witness:
  "let m = pi_manifest example_deploy_plugin; bad = m\<lparr>pm_protocol_version := 2\<rparr>;
       reg = fst (plugin_register [] m)
   in active_for (fst (plugin_register reg bad)) DeployProvider = None"
proof -
  let ?m = "pi_manifest example_deploy_plugin"
  let ?bad = "?m\<lparr>pm_protocol_version := 2\<rparr>"
  have "\<not> compatible ?bad" "pm_family ?m = DeployProvider"
    by (simp_all add: compatible_def plugin_protocol_version_def example_deploy_plugin_def
        with_capabilities_def with_command_def plugin_manifest_new_def)
  with refused_registration_evicts [OF example_deploy_compatible, of ?bad] show ?thesis by (simp add: Let_def)
qed

end
