(* ===== verification/Durable_Apps.thy ===== *)
theory Durable_Apps
  imports App_Model Worker_Loop Deployment Capability Plugin_Protocol
begin

text \<open>
  The durable stores of applications, deployments and bound capabilities:
  \<open>labrys-control-plane/src/repos/applications.rs\<close>, \<open>deployments.rs\<close> and \<open>capabilities.rs\<close>, over the
  tables of \<open>migrations\<close>.

  The tables and their constraints are those of the migrations: primary keys, the unique environment
  name of an application, the check on the desired version, and foreign keys with their cascades. A statement that breaks a
  constraint is a database error, with the driver's message for the constraint as an argument; a
  transaction that ends in an error leaves the tables as they were. JSON columns hold the value they
  encode, and text is ordered by its bytes. Clock readings and the parser of identifiers are arguments.
\<close>

section \<open>Tables\<close>

record application_row =
  ap_id :: string
  ap_name :: string
  ap_origin :: origin
  ap_status :: string
  ap_created_at :: time
  ap_updated_at :: time
  ap_created_by :: string
  ap_updated_by :: "string option"
  ap_audit_event_ids :: "string list"
  ap_collections :: lifecycle_collections

record environment_row =
  en_id :: string
  en_application_id :: string
  en_kind :: environment_kind
  en_name :: string
  en_refs :: environment_refs

record desired_row =
  de_application_id :: string
  de_version :: int
  de_profiles :: "(string, json) btree_map"
  de_config :: json

record observed_row =
  ob_application_id :: string
  ob_desired_version :: int
  ob_status :: string
  ob_last_observed_at :: time
  ob_detail :: "string option"

record deployment_row =
  dr_id :: string
  dr_application_id :: string
  dr_environment_id :: string
  dr_phase :: string
  dr_record :: deployment
  dr_created_at :: time
  dr_updated_at :: time

record capability_row =
  cb_id :: string
  cb_application_id :: string
  cb_environment_name :: string
  cb_capability :: string
  cb_provider :: string
  cb_mode :: string
  cb_binding :: string
  cb_record :: bound_capability
  cb_updated_at :: time

record app_tables =
  t_apps :: "application_row list"
  t_envs :: "environment_row list"
  t_desired :: "desired_row list"
  t_observed :: "observed_row list"
  t_resources :: "resource_row list"
  t_deployments :: "deployment_row list"
  t_capabilities :: "capability_row list"
  t_events :: "event_row serial_table"
  t_audit :: "audit_row list"

definition tables_empty :: app_tables where
  "tables_empty = \<lparr>t_apps = [], t_envs = [], t_desired = [], t_observed = [], t_resources = [], t_deployments = [],
     t_capabilities = [], t_events = serial_empty, t_audit = []\<rparr>"

text \<open>\<open>INSERT ... ON CONFLICT DO UPDATE\<close> on the rows that \<open>P\<close> selects, and \<open>UPDATE ... WHERE\<close>.\<close>

definition update_where :: "('r \<Rightarrow> bool) \<Rightarrow> ('r \<Rightarrow> 'r) \<Rightarrow> 'r list \<Rightarrow> 'r list" where
  "update_where P f T = map (\<lambda>r. if P r then f r else r) T"

definition sql_upsert :: "('r \<Rightarrow> bool) \<Rightarrow> ('r \<Rightarrow> 'r) \<Rightarrow> 'r \<Rightarrow> 'r list \<Rightarrow> 'r list" where
  "sql_upsert P f new T = (if list_ex P T then update_where P f T else T @ [new])"

text \<open>A transaction: its tables replace the old ones when it ends without an error.\<close>

definition commit_tables :: "'t \<Rightarrow> ('t \<times> 'a) cp_outcome \<Rightarrow> 't \<times> 'a cp_outcome" where
  "commit_tables db r =
     (case r of CpOk (db', a) \<Rightarrow> (db', CpOk a) | CpErr e \<Rightarrow> (db, CpErr e) | CpPanic m \<Rightarrow> (db, CpPanic m))"

definition violation :: "(string \<Rightarrow> string) \<Rightarrow> string \<Rightarrow> 'a cp_outcome" where
  "violation msg name = CpErr (DatabaseError (msg name))"

section \<open>Names\<close>

fun app_status_name :: "application_status \<Rightarrow> string" where
  "app_status_name Draft = ''draft''"
| "app_status_name Active = ''active''"
| "app_status_name Archived = ''archived''"

definition app_status_from_name :: "string \<Rightarrow> application_status cp_outcome" where
  "app_status_from_name name =
     (if name = ''draft'' then CpOk Draft
      else if name = ''active'' then CpOk Active
      else if name = ''archived'' then CpOk Archived
      else CpErr (MappingError (''unknown application status '' @ name)))"

fun observed_status_name :: "observed_status \<Rightarrow> string" where
  "observed_status_name ObsUnknown = ''unknown''"
| "observed_status_name ObsHealthy = ''healthy''"
| "observed_status_name ObsDegraded = ''degraded''"
| "observed_status_name ObsUnhealthy = ''unhealthy''"

definition observed_status_from_name :: "string \<Rightarrow> observed_status cp_outcome" where
  "observed_status_from_name name =
     (if name = ''unknown'' then CpOk ObsUnknown
      else if name = ''healthy'' then CpOk ObsHealthy
      else if name = ''degraded'' then CpOk ObsDegraded
      else if name = ''unhealthy'' then CpOk ObsUnhealthy
      else CpErr (MappingError (''unknown observed status '' @ name)))"

section \<open>The application store: writes\<close>

definition app_exists :: "app_tables \<Rightarrow> string \<Rightarrow> bool" where
  "app_exists db i = list_ex (\<lambda>r. ap_id r = i) (t_apps db)"

definition application_to_row :: "application \<Rightarrow> application_row" where
  "application_to_row app =
     \<lparr>ap_id = application_id_display (app_id app), ap_name = app_name app, ap_origin = app_origin app,
      ap_status = app_status_name (app_status app), ap_created_at = app_created_at app,
      ap_updated_at = app_updated_at app, ap_created_by = am_created_by (app_audit app),
      ap_updated_by = am_updated_by (app_audit app), ap_audit_event_ids = am_audit_event_ids (app_audit app),
      ap_collections = app_collections app\<rparr>"

definition upsert_application :: "app_tables \<Rightarrow> application \<Rightarrow> app_tables" where
  "upsert_application db app =
     (let new = application_to_row app in
      db\<lparr>t_apps := sql_upsert (\<lambda>r. ap_id r = ap_id new)
           (\<lambda>r. new\<lparr>ap_created_at := ap_created_at r, ap_created_by := ap_created_by r\<rparr>) new (t_apps db)\<rparr>)"

definition environment_to_row :: "environment \<Rightarrow> environment_row" where
  "environment_to_row env =
     \<lparr>en_id = environment_id_display (env_id env), en_application_id = application_id_display (env_application_id env),
      en_kind = env_kind env, en_name = env_name env, en_refs = env_refs env\<rparr>"

text \<open>The name a row gets is unique among the other environments of the application the row belongs to.\<close>

definition name_taken :: "environment_row list \<Rightarrow> string \<Rightarrow> string \<Rightarrow> string \<Rightarrow> bool" where
  "name_taken T i app name = list_ex (\<lambda>r. en_id r \<noteq> i \<and> en_application_id r = app \<and> en_name r = name) T"

definition upsert_environment ::
  "(string \<Rightarrow> string) \<Rightarrow> app_tables \<Rightarrow> environment \<Rightarrow> app_tables cp_outcome" where
  "upsert_environment msg db env =
     (let new = environment_to_row env;
          owner = (case find (\<lambda>r. en_id r = en_id new) (t_envs db) of
                     Some r \<Rightarrow> en_application_id r | None \<Rightarrow> en_application_id new)
      in if name_taken (t_envs db) (en_id new) owner (en_name new) then violation msg ''environments_ownership''
         else if \<not> list_ex (\<lambda>r. en_id r = en_id new) (t_envs db) \<and> \<not> app_exists db (en_application_id new)
         then violation msg ''environments_application_id_fkey''
         else CpOk (db\<lparr>t_envs := sql_upsert (\<lambda>r. en_id r = en_id new)
                (\<lambda>r. new\<lparr>en_application_id := en_application_id r\<rparr>) new (t_envs db)\<rparr>))"

fun upsert_environments ::
  "(string \<Rightarrow> string) \<Rightarrow> app_tables \<Rightarrow> environment list \<Rightarrow> app_tables cp_outcome" where
  "upsert_environments msg db [] = CpOk db"
| "upsert_environments msg db (env # envs) =
     cp_bind (upsert_environment msg db env) (\<lambda>db'. upsert_environments msg db' envs)"

definition desired_to_row :: "application_id \<Rightarrow> desired_state \<Rightarrow> desired_row" where
  "desired_to_row i state =
     \<lparr>de_application_id = application_id_display i, de_version = sint (ds_version state),
      de_profiles = ds_profiles state, de_config = ds_config state\<rparr>"

definition upsert_desired_state ::
  "(string \<Rightarrow> string) \<Rightarrow> app_tables \<Rightarrow> application_id \<Rightarrow> desired_state \<Rightarrow> app_tables cp_outcome" where
  "upsert_desired_state msg db i state =
     (let new = desired_to_row i state;
          conflict = list_ex (\<lambda>r. de_application_id r = de_application_id new) (t_desired db)
      in if de_version new < 1 then violation msg ''desired_states_version_check''
         else if \<not> conflict \<and> \<not> app_exists db (de_application_id new)
         then violation msg ''desired_states_application_id_fkey''
         else CpOk (db\<lparr>t_desired := sql_upsert (\<lambda>r. de_application_id r = de_application_id new) (\<lambda>_. new) new
                (t_desired db)\<rparr>))"

definition observed_to_row :: "application_id \<Rightarrow> observed_state \<Rightarrow> observed_row" where
  "observed_to_row i state =
     \<lparr>ob_application_id = application_id_display i, ob_desired_version = sint (os_desired_version state),
      ob_status = observed_status_name (os_status state), ob_last_observed_at = os_last_observed_at state,
      ob_detail = os_detail state\<rparr>"

text \<open>An upsert affects one row, whether it inserts or updates.\<close>

definition upsert_observed_state_conn ::
  "(string \<Rightarrow> string) \<Rightarrow> app_tables \<Rightarrow> application_id \<Rightarrow> observed_state \<Rightarrow> (app_tables \<times> nat) cp_outcome" where
  "upsert_observed_state_conn msg db i state =
     (let new = observed_to_row i state;
          conflict = list_ex (\<lambda>r. ob_application_id r = ob_application_id new) (t_observed db)
      in if \<not> conflict \<and> \<not> app_exists db (ob_application_id new)
         then violation msg ''observed_states_application_id_fkey''
         else CpOk (db\<lparr>t_observed := sql_upsert (\<lambda>r. ob_application_id r = ob_application_id new) (\<lambda>_. new) new
                (t_observed db)\<rparr>, 1))"

definition upsert_observed_state ::
  "(string \<Rightarrow> string) \<Rightarrow> app_tables \<Rightarrow> application_id \<Rightarrow> observed_state \<Rightarrow> app_tables cp_outcome" where
  "upsert_observed_state msg db i state =
     cp_bind (upsert_observed_state_conn msg db i state) (\<lambda>(db', _). CpOk db')"

definition pg_app_save :: "(string \<Rightarrow> string) \<Rightarrow> app_tables \<Rightarrow> application \<Rightarrow> app_tables \<times> unit cp_outcome" where
  "pg_app_save msg db app =
     commit_tables db
       (cp_bind (upsert_environments msg (upsert_application db app) (app_environments app)) (\<lambda>db1.
        cp_bind (upsert_desired_state msg db1 (app_id app) (app_desired_state app)) (\<lambda>db2.
        cp_bind (upsert_observed_state msg db2 (app_id app) (app_observed_state app)) (\<lambda>db3. CpOk (db3, ())))))"

section \<open>The application store: reads\<close>

definition application_from_row ::
  "(string \<Rightarrow> uuid option) \<Rightarrow> time \<Rightarrow> application_row \<Rightarrow> application cp_outcome" where
  "application_from_row parse now r =
     (case application_id_from_str parse (ap_id r) of
        Inl _ \<Rightarrow> CpErr (MappingError (''invalid application id '' @ ap_id r))
      | Inr i \<Rightarrow>
          cp_bind (app_status_from_name (ap_status r)) (\<lambda>status.
            CpOk \<lparr>app_id = i, app_name = ap_name r, app_origin = ap_origin r, app_status = status,
                  app_created_at = ap_created_at r, app_updated_at = ap_updated_at r,
                  app_audit = \<lparr>am_created_by = ap_created_by r, am_updated_by = ap_updated_by r,
                               am_audit_event_ids = ap_audit_event_ids r\<rparr>,
                  app_environments = [], app_desired_state = desired_initial,
                  app_observed_state = observed_unknown 1 now, app_collections = ap_collections r\<rparr>))"

definition environment_from_row :: "(string \<Rightarrow> uuid option) \<Rightarrow> environment_row \<Rightarrow> environment cp_outcome" where
  "environment_from_row parse r =
     (case environment_id_from_str parse (en_id r) of
        Inl _ \<Rightarrow> CpErr (MappingError (''invalid environment id '' @ en_id r))
      | Inr i \<Rightarrow>
          (case application_id_from_str parse (en_application_id r) of
             Inl _ \<Rightarrow> CpErr (MappingError (''invalid application id '' @ en_application_id r))
           | Inr a \<Rightarrow> CpOk \<lparr>env_id = i, env_application_id = a, env_kind = en_kind r, env_name = en_name r,
                            env_refs = en_refs r\<rparr>))"

definition observed_state_from_row :: "observed_row \<Rightarrow> observed_state cp_outcome" where
  "observed_state_from_row r =
     cp_bind (observed_status_from_name (ob_status r)) (\<lambda>status.
       CpOk \<lparr>os_desired_version = of_int (ob_desired_version r), os_status = status,
             os_last_observed_at = ob_last_observed_at r, os_detail = ob_detail r\<rparr>)"

definition load_environments ::
  "(string \<Rightarrow> uuid option) \<Rightarrow> app_tables \<Rightarrow> application_id \<Rightarrow> environment list cp_outcome" where
  "load_environments parse db i =
     collect_rows (environment_from_row parse)
       (sort_key en_name (filter (\<lambda>r. en_application_id r = application_id_display i) (t_envs db)))"

definition load_desired_state :: "app_tables \<Rightarrow> application_id \<Rightarrow> desired_state cp_outcome" where
  "load_desired_state db i =
     (case find (\<lambda>r. de_application_id r = application_id_display i) (t_desired db) of
        None \<Rightarrow> CpErr (NotFoundError (''desired state for '' @ application_id_display i))
      | Some r \<Rightarrow> CpOk \<lparr>ds_version = of_int (de_version r), ds_profiles = de_profiles r, ds_config = de_config r\<rparr>)"

definition load_observed_state :: "app_tables \<Rightarrow> application_id \<Rightarrow> observed_state cp_outcome" where
  "load_observed_state db i =
     (case find (\<lambda>r. ob_application_id r = application_id_display i) (t_observed db) of
        None \<Rightarrow> CpErr (NotFoundError (''observed state for '' @ application_id_display i))
      | Some r \<Rightarrow> observed_state_from_row r)"

definition load_parts ::
  "(string \<Rightarrow> uuid option) \<Rightarrow> app_tables \<Rightarrow> application \<Rightarrow> application_id \<Rightarrow> application cp_outcome" where
  "load_parts parse db app i =
     cp_bind (load_environments parse db i) (\<lambda>envs.
     cp_bind (load_desired_state db i) (\<lambda>desired.
     cp_bind (load_observed_state db i) (\<lambda>observed.
       CpOk (app\<lparr>app_environments := envs, app_desired_state := desired, app_observed_state := observed\<rparr>))))"

definition pg_app_get ::
  "(string \<Rightarrow> uuid option) \<Rightarrow> time \<Rightarrow> app_tables \<Rightarrow> application_id \<Rightarrow> application cp_outcome" where
  "pg_app_get parse now db i =
     (case find (\<lambda>r. ap_id r = application_id_display i) (t_apps db) of
        None \<Rightarrow> CpErr (NotFoundError (application_id_display i))
      | Some r \<Rightarrow> cp_bind (application_from_row parse now r) (\<lambda>app. load_parts parse db app i))"

definition pg_app_list :: "(string \<Rightarrow> uuid option) \<Rightarrow> time \<Rightarrow> app_tables \<Rightarrow> application list cp_outcome" where
  "pg_app_list parse now db =
     collect_rows (\<lambda>r. cp_bind (application_from_row parse now r) (\<lambda>app. load_parts parse db app (app_id app)))
       (sort_key (\<lambda>r. (ap_created_at r, ap_id r)) (t_apps db))"

section \<open>The application store: guarded writes\<close>

definition owned_env_ids :: "app_tables \<Rightarrow> string \<Rightarrow> string list" where
  "owned_env_ids db i = map en_id (filter (\<lambda>r. en_application_id r = i) (t_envs db))"

definition pg_app_delete :: "app_tables \<Rightarrow> application_id \<Rightarrow> app_tables \<times> unit cp_outcome" where
  "pg_app_delete db app =
     (let i = application_id_display app; envs = owned_env_ids db i in
      if \<not> app_exists db i then (db, CpErr (NotFoundError i))
      else (db\<lparr>t_apps := filter (\<lambda>r. ap_id r \<noteq> i) (t_apps db),
               t_envs := filter (\<lambda>r. en_application_id r \<noteq> i) (t_envs db),
               t_desired := filter (\<lambda>r. de_application_id r \<noteq> i) (t_desired db),
               t_observed := filter (\<lambda>r. ob_application_id r \<noteq> i) (t_observed db),
               t_resources := filter (\<lambda>r. rr_application_id r \<noteq> i \<and>
                 (case rr_environment_id r of Some e \<Rightarrow> e \<notin> set envs | None \<Rightarrow> True)) (t_resources db),
               t_deployments := filter (\<lambda>r. dr_application_id r \<noteq> i \<and> dr_environment_id r \<notin> set envs) (t_deployments db),
               t_capabilities := filter (\<lambda>r. cb_application_id r \<noteq> i) (t_capabilities db)\<rparr>, CpOk ()))"

definition current_desired_version :: "app_tables \<Rightarrow> application_id \<Rightarrow> int cp_outcome" where
  "current_desired_version db i =
     (case find (\<lambda>r. de_application_id r = application_id_display i) (t_desired db) of
        None \<Rightarrow> CpErr (NotFoundError (application_id_display i))
      | Some r \<Rightarrow> CpOk (de_version r))"

definition at_generation :: "application_id \<Rightarrow> u64 \<Rightarrow> desired_row \<Rightarrow> bool" where
  "at_generation i expected r = (de_application_id r = application_id_display i \<and> de_version r = sint expected)"

definition next_version_error :: "desired_state \<Rightarrow> u64 \<Rightarrow> control_plane_error" where
  "next_version_error next expected =
     ConflictError (''next desired version '' @ show_u64 (ds_version next) @ '' is not expected_version+1 '' @
       show_u64 (expected + 1))"

definition generation_error :: "application_id \<Rightarrow> u64 \<Rightarrow> int \<Rightarrow> control_plane_error" where
  "generation_error i expected current =
     ConflictError (''desired-state generation conflict for '' @ application_id_display i @ '': expected '' @
       show_u64 expected @ '', stored '' @ show_int current)"

text \<open>The statements of the transaction after the guarded update has found its row.\<close>

definition write_desired ::
  "clock_precision \<Rightarrow> (time \<Rightarrow> string) \<Rightarrow> time \<Rightarrow> app_tables \<Rightarrow> application_id \<Rightarrow> u64 \<Rightarrow> desired_state \<Rightarrow> event_draft \<Rightarrow>
   string \<Rightarrow> string \<Rightarrow> string list \<Rightarrow> (app_tables \<times> unit) cp_outcome" where
  "write_desired K rfc3339 now db i expected next event audit_detail updated_by secrets =
     (let db1 = db\<lparr>t_desired := update_where (at_generation i expected)
            (\<lambda>r. r\<lparr>de_version := sint (ds_version next), de_profiles := ds_profiles next, de_config := ds_config next\<rparr>)
            (t_desired db),
          t_apps := update_where (\<lambda>r. ap_id r = application_id_display i)
            (\<lambda>r. r\<lparr>ap_updated_at := now, ap_updated_by := Some updated_by\<rparr>) (t_apps db)\<rparr>;
          (events, appended) = append_event (t_events db1) event secrets in
      cp_bind appended (\<lambda>_.
        let (audit, recorded) = append_audit K rfc3339 (t_audit db1) now updated_by ''desired_state_update''
              (application_id_display i) audit_detail secrets
        in cp_bind recorded (\<lambda>_. CpOk (db1\<lparr>t_events := events, t_audit := audit\<rparr>, ()))))"

definition pg_update_desired_state ::
  "(string \<Rightarrow> string) \<Rightarrow> clock_precision \<Rightarrow> (time \<Rightarrow> string) \<Rightarrow> (string \<Rightarrow> uuid option) \<Rightarrow> time \<Rightarrow> app_tables \<Rightarrow>
   application_id \<Rightarrow> u64 \<Rightarrow> desired_state \<Rightarrow> event_draft \<Rightarrow> string \<Rightarrow> string \<Rightarrow> string list \<Rightarrow>
   app_tables \<times> application cp_outcome" where
  "pg_update_desired_state msg K rfc3339 parse now db i expected next event audit_detail updated_by secrets =
     (if ds_version next \<noteq> expected + 1 then (db, CpErr (next_version_error next expected))
      else if \<not> list_ex (at_generation i expected) (t_desired db)
      then (db, cp_bind (current_desired_version db i) (\<lambda>current. CpErr (generation_error i expected current)))
      else if sint (ds_version next) < 1 then (db, violation msg ''desired_states_version_check'')
      else (case commit_tables db (write_desired K rfc3339 now db i expected next event audit_detail updated_by secrets) of
              (db', CpOk _) \<Rightarrow> (db', pg_app_get parse now db' i)
            | (db', CpErr e) \<Rightarrow> (db', CpErr e)
            | (db', CpPanic m) \<Rightarrow> (db', CpPanic m)))"

definition pg_record_observation ::
  "(string \<Rightarrow> string) \<Rightarrow> app_tables \<Rightarrow> application_id \<Rightarrow> observed_state \<Rightarrow> app_tables \<times> unit cp_outcome" where
  "pg_record_observation msg db i observed =
     commit_tables db
       (cp_bind (upsert_observed_state_conn msg db i observed) (\<lambda>(db1, affected).
          if affected = 0 then CpErr (NotFoundError (application_id_display i))
          else CpOk (db1\<lparr>t_apps := update_where (\<lambda>r. ap_id r = application_id_display i)
                 (\<lambda>r. r\<lparr>ap_updated_at := os_last_observed_at observed\<rparr>) (t_apps db1)\<rparr>, ())))"

definition pg_set_environment_refs ::
  "app_tables \<Rightarrow> application_id \<Rightarrow> environment_id \<Rightarrow> environment_refs \<Rightarrow> app_tables \<times> unit cp_outcome" where
  "pg_set_environment_refs db a e refs =
     (let sel = (\<lambda>r. en_id r = environment_id_display e \<and> en_application_id r = application_id_display a) in
      if \<not> list_ex sel (t_envs db)
      then (db, CpErr (EnvironmentIsolationError (''environment '' @ environment_id_display e @
             '' does not belong to application '' @ application_id_display a)))
      else (db\<lparr>t_envs := update_where sel (\<lambda>r. r\<lparr>en_refs := refs\<rparr>) (t_envs db)\<rparr>, CpOk ()))"

section \<open>Deployments\<close>

fun deployment_phase_name :: "deployment_phase \<Rightarrow> string" where
  "deployment_phase_name DpPending = ''pending''"
| "deployment_phase_name DpBuilding = ''building''"
| "deployment_phase_name DpDeploying = ''deploying''"
| "deployment_phase_name DpHealthy = ''healthy''"
| "deployment_phase_name DpDegraded = ''degraded''"
| "deployment_phase_name DpFailed = ''failed''"
| "deployment_phase_name DpSuperseded = ''superseded''"
| "deployment_phase_name DpRolledBack = ''rolled_back''"

definition deployment_to_row :: "deployment \<Rightarrow> time \<Rightarrow> deployment_row" where
  "deployment_to_row d now =
     \<lparr>dr_id = deployment_id_display (dp_id d), dr_application_id = application_id_display (dp_application_id d),
      dr_environment_id = environment_id_display (dp_environment_id d), dr_phase = deployment_phase_name (dp_phase d),
      dr_record = d, dr_created_at = now, dr_updated_at = now\<rparr>"

definition pg_deployment_save ::
  "(string \<Rightarrow> string) \<Rightarrow> app_tables \<Rightarrow> deployment \<Rightarrow> time \<Rightarrow> app_tables \<times> unit cp_outcome" where
  "pg_deployment_save msg db d now =
     (let new = deployment_to_row d now;
          conflict = list_ex (\<lambda>r. dr_id r = dr_id new) (t_deployments db)
      in if \<not> conflict \<and> \<not> app_exists db (dr_application_id new)
         then (db, violation msg ''deployments_application_id_fkey'')
         else if \<not> conflict \<and> \<not> list_ex (\<lambda>r. en_id r = dr_environment_id new) (t_envs db)
         then (db, violation msg ''deployments_environment_id_fkey'')
         else (db\<lparr>t_deployments := sql_upsert (\<lambda>r. dr_id r = dr_id new)
                (\<lambda>r. r\<lparr>dr_phase := dr_phase new, dr_record := dr_record new, dr_updated_at := dr_updated_at new\<rparr>)
                new (t_deployments db)\<rparr>, CpOk ()))"

definition pg_deployment_get :: "app_tables \<Rightarrow> deployment_id \<Rightarrow> deployment cp_outcome" where
  "pg_deployment_get db i =
     (case find (\<lambda>r. dr_id r = deployment_id_display i) (t_deployments db) of
        None \<Rightarrow> CpErr (NotFoundError (deployment_id_display i))
      | Some r \<Rightarrow> CpOk (dr_record r))"

definition pg_deployments_for_environment ::
  "app_tables \<Rightarrow> application_id \<Rightarrow> environment_id \<Rightarrow> deployment list" where
  "pg_deployments_for_environment db a e =
     map dr_record (sort_key (\<lambda>r. (dr_created_at r, dr_id r))
       (filter (\<lambda>r. dr_application_id r = application_id_display a \<and> dr_environment_id r = environment_id_display e)
          (t_deployments db)))"

definition pg_deployment_set_phase ::
  "(string \<Rightarrow> string) \<Rightarrow> app_tables \<Rightarrow> deployment_id \<Rightarrow> deployment_phase \<Rightarrow> time \<Rightarrow> app_tables \<times> deployment cp_outcome" where
  "pg_deployment_set_phase msg db i phase now =
     (case pg_deployment_get db i of
        CpOk d \<Rightarrow>
          (case pg_deployment_save msg db (d\<lparr>dp_phase := phase\<rparr>) now of
             (db', CpOk _) \<Rightarrow> (db', pg_deployment_get db' i)
           | (db', CpErr e) \<Rightarrow> (db', CpErr e)
           | (db', CpPanic m) \<Rightarrow> (db', CpPanic m))
      | CpErr e \<Rightarrow> (db, CpErr e)
      | CpPanic m \<Rightarrow> (db, CpPanic m))"

section \<open>Capabilities\<close>

fun mode_name :: "capability_mode \<Rightarrow> string" where
  "mode_name ModeManaged = ''managed''"
| "mode_name ModeExternal = ''external''"
| "mode_name ModeAdopted = ''adopted''"

definition capability_to_row :: "bound_capability \<Rightarrow> time \<Rightarrow> capability_row" where
  "capability_to_row b now =
     \<lparr>cb_id = binding_id_display (bc_id b), cb_application_id = application_id_display (bc_application_id b),
      cb_environment_name = bc_environment_name b, cb_capability = bc_capability b, cb_provider = bc_provider b,
      cb_mode = mode_name (bc_mode b), cb_binding = bc_binding b, cb_record = b, cb_updated_at = now\<rparr>"

definition pg_capability_save ::
  "(string \<Rightarrow> string) \<Rightarrow> app_tables \<Rightarrow> bound_capability \<Rightarrow> time \<Rightarrow> app_tables \<times> unit cp_outcome" where
  "pg_capability_save msg db b now =
     (let new = capability_to_row b now in
      if \<not> list_ex (\<lambda>r. cb_id r = cb_id new) (t_capabilities db) \<and> \<not> app_exists db (cb_application_id new)
      then (db, violation msg ''capabilities_application_id_fkey'')
      else (db\<lparr>t_capabilities := sql_upsert (\<lambda>r. cb_id r = cb_id new)
             (\<lambda>r. r\<lparr>cb_mode := cb_mode new, cb_record := cb_record new, cb_updated_at := cb_updated_at new\<rparr>)
             new (t_capabilities db)\<rparr>, CpOk ()))"

definition pg_capability_get :: "app_tables \<Rightarrow> binding_id \<Rightarrow> bound_capability cp_outcome" where
  "pg_capability_get db i =
     (case find (\<lambda>r. cb_id r = binding_id_display i) (t_capabilities db) of
        None \<Rightarrow> CpErr (NotFoundError (binding_id_display i))
      | Some r \<Rightarrow> CpOk (cb_record r))"

definition pg_capabilities_for_application :: "app_tables \<Rightarrow> application_id \<Rightarrow> bound_capability list" where
  "pg_capabilities_for_application db i =
     map cb_record (sort_key cb_capability
       (filter (\<lambda>r. cb_application_id r = application_id_display i) (t_capabilities db)))"

section \<open>Rows and keys\<close>

lemma update_where_keys:
  "(\<And>r. P r \<Longrightarrow> key (f r) = key r) \<Longrightarrow> map key (update_where P f T) = map key T"
  by (simp add: update_where_def)

lemma set_update_where: "r \<in> set (update_where P f T) \<Longrightarrow> r \<in> set T \<and> \<not> P r \<or> (\<exists>x \<in> set T. P x \<and> r = f x)"
  by (auto simp: update_where_def)

lemma set_sql_upsert:
  "r \<in> set (sql_upsert P f new T) \<Longrightarrow> r \<in> set T \<and> \<not> P r \<or> (\<exists>x \<in> set T. P x \<and> r = f x) \<or> r = new \<and> (\<forall>x \<in> set T. \<not> P x)"
  by (auto simp: sql_upsert_def list_ex_iff dest: set_update_where split: if_splits)

lemma upsert_keys:
  assumes "\<And>r. key r = key new \<Longrightarrow> key (f r) = key new"
  shows "map key (sql_upsert (\<lambda>r. key r = key new) f new T) =
    (if key new \<in> set (map key T) then map key T else map key T @ [key new])"
  using assms by (auto simp: sql_upsert_def list_ex_iff update_where_def intro: rev_image_eqI)

lemma upsert_distinct:
  assumes "distinct (map key T)" "\<And>r. key r = key new \<Longrightarrow> key (f r) = key new"
  shows "distinct (map key (sql_upsert (\<lambda>r. key r = key new) f new T))"
  using assms by (simp add: upsert_keys [where key = key, OF assms(2)])

lemma upsert_key_set:
  assumes "\<And>r. key r = key new \<Longrightarrow> key (f r) = key new"
  shows "key ` set (sql_upsert (\<lambda>r. key r = key new) f new T) = insert (key new) (key ` set T)"
  using upsert_keys [where key = key and f = f and T = T, OF assms] by (metis (no_types, lifting) insert_absorb
      list.set_map list.simps(15) rotate1.simps(2) set_rotate1)

lemma update_where_one:
  assumes "distinct (map g T)" "r \<in> set T" "\<And>x. x \<in> set T \<Longrightarrow> P x \<Longrightarrow> x = r"
    and "\<And>x. x \<in> set T \<Longrightarrow> x \<noteq> r \<Longrightarrow> g x \<noteq> g (f r)"
  shows "distinct (map g (update_where P f T))"
proof -
  have "inj_on (\<lambda>x. g (if P x then f x else x)) (set T)"
    using assms by (auto simp: inj_on_def distinct_map) (metis assms(3,4))+
  then show ?thesis
    using assms(1) by (simp add: update_where_def distinct_map comp_def)
qed

lemma find_unique:
  assumes "distinct (map key T)" "r \<in> set T"
  shows "find (\<lambda>x. key x = key r) T = Some r"
  using assms by (induction T) (auto simp: image_iff)

lemma find_key_None: "find (\<lambda>x. key x = k) T = None \<longleftrightarrow> k \<notin> key ` set T"
  by (auto simp: find_None_iff)

lemma key_image: "map key T = map key T' \<Longrightarrow> key ` set T = key ` set T'"
  by (metis list.set_map)

section \<open>Integrity of the tables\<close>

definition app_ids :: "app_tables \<Rightarrow> string set" where
  "app_ids db = ap_id ` set (t_apps db)"

definition envs_ok :: "string set \<Rightarrow> environment_row list \<Rightarrow> bool" where
  "envs_ok ids T \<longleftrightarrow> distinct (map en_id T) \<and> distinct (map (\<lambda>r. (en_application_id r, en_name r)) T) \<and>
     en_application_id ` set T \<subseteq> ids"

definition desired_ok :: "string set \<Rightarrow> desired_row list \<Rightarrow> bool" where
  "desired_ok ids T \<longleftrightarrow> distinct (map de_application_id T) \<and> de_application_id ` set T \<subseteq> ids \<and>
     (\<forall>r \<in> set T. 1 \<le> de_version r)"

definition observed_ok :: "string set \<Rightarrow> observed_row list \<Rightarrow> bool" where
  "observed_ok ids T \<longleftrightarrow> distinct (map ob_application_id T) \<and> ob_application_id ` set T \<subseteq> ids"

definition deployments_ok :: "string set \<Rightarrow> string set \<Rightarrow> deployment_row list \<Rightarrow> bool" where
  "deployments_ok ids envs T \<longleftrightarrow> distinct (map dr_id T) \<and> dr_application_id ` set T \<subseteq> ids \<and>
     dr_environment_id ` set T \<subseteq> envs \<and>
     (\<forall>r \<in> set T. dr_id r = deployment_id_display (dp_id (dr_record r)) \<and>
        dr_phase r = deployment_phase_name (dp_phase (dr_record r)))"

definition capabilities_ok :: "string set \<Rightarrow> capability_row list \<Rightarrow> bool" where
  "capabilities_ok ids T \<longleftrightarrow> distinct (map cb_id T) \<and> cb_application_id ` set T \<subseteq> ids \<and>
     (\<forall>r \<in> set T. cb_id r = binding_id_display (bc_id (cb_record r)) \<and> cb_mode r = mode_name (bc_mode (cb_record r)))"

text \<open>Integrity, and with it completeness: an application has its desired and its observed state.\<close>

definition refs_ok :: "app_tables \<Rightarrow> bool" where
  "refs_ok db \<longleftrightarrow> distinct (map ap_id (t_apps db)) \<and> envs_ok (app_ids db) (t_envs db) \<and>
     desired_ok (app_ids db) (t_desired db) \<and> observed_ok (app_ids db) (t_observed db) \<and>
     deployments_ok (app_ids db) (en_id ` set (t_envs db)) (t_deployments db) \<and>
     capabilities_ok (app_ids db) (t_capabilities db)"

definition tables_ok :: "app_tables \<Rightarrow> bool" where
  "tables_ok db \<longleftrightarrow> refs_ok db \<and> app_ids db \<subseteq> de_application_id ` set (t_desired db) \<and>
     app_ids db \<subseteq> ob_application_id ` set (t_observed db)"

lemmas refs_defs = refs_ok_def envs_ok_def desired_ok_def observed_ok_def deployments_ok_def capabilities_ok_def

lemma app_exists_iff: "app_exists db i \<longleftrightarrow> i \<in> app_ids db"
  by (auto simp: app_exists_def app_ids_def list_ex_iff)

lemma tables_ok_empty [simp]: "tables_ok tables_empty"
  by (simp add: tables_ok_def refs_defs tables_empty_def app_ids_def)

lemma application_to_row_id [simp]: "ap_id (application_to_row app) = application_id_display (app_id app)"
  by (simp add: application_to_row_def)

lemma upsert_application_ids:
  "map ap_id (t_apps (upsert_application db app)) =
    (if application_id_display (app_id app) \<in> app_ids db then map ap_id (t_apps db)
     else map ap_id (t_apps db) @ [application_id_display (app_id app)])"
  by (subst upsert_application_def)
    (simp add: Let_def app_ids_def upsert_keys [where key = ap_id and new = "application_to_row app", simplified])

lemma upsert_application_app_ids:
  "app_ids (upsert_application db app) = insert (application_id_display (app_id app)) (app_ids db)"
  using arg_cong [OF upsert_application_ids [of db app], of set] by (auto simp: app_ids_def split: if_splits)

lemma upsert_application_other [simp]:
  "t_envs (upsert_application db app) = t_envs db" "t_desired (upsert_application db app) = t_desired db"
  "t_observed (upsert_application db app) = t_observed db" "t_resources (upsert_application db app) = t_resources db"
  "t_deployments (upsert_application db app) = t_deployments db"
  "t_capabilities (upsert_application db app) = t_capabilities db"
  "t_events (upsert_application db app) = t_events db" "t_audit (upsert_application db app) = t_audit db"
  by (simp_all add: upsert_application_def Let_def)

lemma refs_mono:
  assumes "refs_ok db" "app_ids db \<subseteq> app_ids db'" "distinct (map ap_id (t_apps db'))"
    and "t_envs db' = t_envs db" "t_desired db' = t_desired db" "t_observed db' = t_observed db"
    "t_deployments db' = t_deployments db" "t_capabilities db' = t_capabilities db"
  shows "refs_ok db'"
  using assms by (auto simp: refs_defs)

lemma upsert_application_refs: "refs_ok db \<Longrightarrow> refs_ok (upsert_application db app)"
  by (rule refs_mono) (auto simp: upsert_application_app_ids upsert_application_ids refs_ok_def, simp add: app_ids_def)

lemma environment_to_row_sel [simp]:
  "en_id (environment_to_row env) = environment_id_display (env_id env)"
  "en_application_id (environment_to_row env) = application_id_display (env_application_id env)"
  "en_name (environment_to_row env) = env_name env"
  by (simp_all add: environment_to_row_def)


lemma upsert_environment_cases:
  assumes "upsert_environment msg db env = CpOk db'"
  obtains (updated) r where "r \<in> set (t_envs db)" "en_id r = environment_id_display (env_id env)"
      "\<not> name_taken (t_envs db) (en_id r) (en_application_id r) (env_name env)"
      "db' = db\<lparr>t_envs := update_where (\<lambda>x. en_id x = environment_id_display (env_id env))
         (\<lambda>x. (environment_to_row env)\<lparr>en_application_id := en_application_id x\<rparr>) (t_envs db)\<rparr>"
  | (inserted) "\<forall>r \<in> set (t_envs db). en_id r \<noteq> environment_id_display (env_id env)"
      "\<not> name_taken (t_envs db) (environment_id_display (env_id env))
         (application_id_display (env_application_id env)) (env_name env)"
      "application_id_display (env_application_id env) \<in> app_ids db"
      "db' = db\<lparr>t_envs := t_envs db @ [environment_to_row env]\<rparr>"
proof (cases "find (\<lambda>r. en_id r = environment_id_display (env_id env)) (t_envs db)")
  case None
  then show thesis
    using assms inserted None [unfolded find_None_iff]
    by (auto simp: upsert_environment_def None Let_def violation_def app_exists_iff list_ex_iff sql_upsert_def
        split: if_splits)
next
  case (Some r)
  then have r: "r \<in> set (t_envs db)" "en_id r = environment_id_display (env_id env)"
    by (auto simp: find_Some_iff)
  show thesis
    using assms Some r by (intro updated [OF r])
      (auto simp: upsert_environment_def Let_def violation_def list_ex_iff sql_upsert_def split: if_splits)
qed

lemma upsert_environment_refs:
  assumes "refs_ok db" "upsert_environment msg db env = CpOk db'"
  shows "refs_ok db' \<and> t_apps db' = t_apps db \<and> t_desired db' = t_desired db \<and> t_observed db' = t_observed db \<and>
    t_events db' = t_events db \<and> t_audit db' = t_audit db"
  using assms(2)
proof (cases rule: upsert_environment_cases)
  case (updated r)
  let ?P = "\<lambda>x. en_id x = environment_id_display (env_id env)"
  let ?f = "\<lambda>x. (environment_to_row env)\<lparr>en_application_id := en_application_id x\<rparr>"
  have ok: "envs_ok (app_ids db) (t_envs db)" using assms(1) by (simp add: refs_ok_def)
  have only: "x = r" if "x \<in> set (t_envs db)" "?P x" for x
    using ok updated(1,2) that unfolding envs_ok_def distinct_map by (metis inj_onD)
  have ids: "map en_id (update_where ?P ?f (t_envs db)) = map en_id (t_envs db)"
    and owners: "map en_application_id (update_where ?P ?f (t_envs db)) = map en_application_id (t_envs db)"
    by (auto intro!: update_where_keys)
  have names: "distinct (map (\<lambda>x. (en_application_id x, en_name x)) (update_where ?P ?f (t_envs db)))"
  proof (rule update_where_one [where r = r])
    show "distinct (map (\<lambda>x. (en_application_id x, en_name x)) (t_envs db))" using ok by (simp add: envs_ok_def)
    show "(en_application_id x, en_name x) \<noteq> (en_application_id (?f r), en_name (?f r))"
      if "x \<in> set (t_envs db)" "x \<noteq> r" for x
      using updated(2,3) only [OF that(1)] that by (auto simp: name_taken_def list_ex_iff)
  qed (use updated(1) only in auto)
  have "envs_ok (app_ids db) (update_where ?P ?f (t_envs db))"
    using ok names arg_cong [OF owners, of set] unfolding envs_ok_def ids by simp
  moreover have "en_id ` set (update_where ?P ?f (t_envs db)) = en_id ` set (t_envs db)"
    using arg_cong [OF ids, of set] by simp
  ultimately show ?thesis using assms(1) updated(4) by (simp add: refs_ok_def app_ids_def)
next
  case inserted
  then show ?thesis using assms(1)
    by (auto simp: refs_defs app_ids_def name_taken_def list_ex_iff image_iff)
qed

lemma upsert_environments_refs:
  assumes "refs_ok db" "upsert_environments msg db envs = CpOk db'"
  shows "refs_ok db' \<and> t_apps db' = t_apps db \<and> t_desired db' = t_desired db \<and> t_observed db' = t_observed db \<and>
    t_events db' = t_events db \<and> t_audit db' = t_audit db"
  using assms
proof (induction envs arbitrary: db)
  case (Cons env envs)
  then obtain d where d: "upsert_environment msg db env = CpOk d" "upsert_environments msg d envs = CpOk db'"
    by (cases "upsert_environment msg db env") auto
  show ?case using Cons.IH [OF _ d(2)] upsert_environment_refs [OF Cons.prems(1) d(1)] by simp
qed simp

lemma row_sel [simp]:
  "de_application_id (desired_to_row i st) = application_id_display i" "de_version (desired_to_row i st) = sint (ds_version st)"
  "ob_application_id (observed_to_row i ob) = application_id_display i"
  "dr_id (deployment_to_row d now) = deployment_id_display (dp_id d)"
  "dr_application_id (deployment_to_row d now) = application_id_display (dp_application_id d)"
  "dr_environment_id (deployment_to_row d now) = environment_id_display (dp_environment_id d)"
  "dr_phase (deployment_to_row d now) = deployment_phase_name (dp_phase d)" "dr_record (deployment_to_row d now) = d"
  "cb_id (capability_to_row b now) = binding_id_display (bc_id b)"
  "cb_application_id (capability_to_row b now) = application_id_display (bc_application_id b)"
  "cb_mode (capability_to_row b now) = mode_name (bc_mode b)" "cb_record (capability_to_row b now) = b"
  by (simp_all add: desired_to_row_def observed_to_row_def deployment_to_row_def capability_to_row_def)

lemma upsert_desired_state_Ok:
  "upsert_desired_state msg db i st = CpOk db' \<longleftrightarrow>
     1 \<le> sint (ds_version st) \<and>
     (application_id_display i \<in> de_application_id ` set (t_desired db) \<or> application_id_display i \<in> app_ids db) \<and>
     db' = db\<lparr>t_desired := sql_upsert (\<lambda>r. de_application_id r = application_id_display i) (\<lambda>_. desired_to_row i st)
       (desired_to_row i st) (t_desired db)\<rparr>"
  by (auto simp: upsert_desired_state_def Let_def violation_def app_exists_iff list_ex_iff intro: rev_image_eqI)

lemma upsert_desired_refs:
  assumes "refs_ok db" "upsert_desired_state msg db i st = CpOk db'"
  shows "refs_ok db' \<and> t_apps db' = t_apps db \<and> t_observed db' = t_observed db \<and>
    t_events db' = t_events db \<and> t_audit db' = t_audit db \<and>
    de_application_id ` set (t_desired db') = insert (application_id_display i) (de_application_id ` set (t_desired db))"
proof -
  let ?new = "desired_to_row i st"
  let ?T = "sql_upsert (\<lambda>r. de_application_id r = de_application_id ?new) (\<lambda>_. ?new) ?new (t_desired db)"
  have db': "1 \<le> sint (ds_version st)" "db' = db\<lparr>t_desired := ?T\<rparr>" "application_id_display i \<in> app_ids db"
    using assms by (auto simp: upsert_desired_state_Ok refs_defs)
  have keys: "de_application_id ` set ?T = insert (de_application_id ?new) (de_application_id ` set (t_desired db))"
    by (rule upsert_key_set) simp
  moreover have "distinct (map de_application_id ?T)"
    using assms(1) by (intro upsert_distinct) (simp_all add: refs_defs)
  moreover have "\<forall>r \<in> set ?T. 1 \<le> de_version r"
    using assms(1) db'(1) by (auto simp: refs_defs dest!: set_sql_upsert)
  ultimately show ?thesis using assms(1) db'(2,3) by (simp add: refs_defs app_ids_def)
qed

lemma upsert_observed_Ok:
  "upsert_observed_state_conn msg db i ob = CpOk (db', n) \<longleftrightarrow>
     (application_id_display i \<in> ob_application_id ` set (t_observed db) \<or> application_id_display i \<in> app_ids db) \<and>
     n = 1 \<and> db' = db\<lparr>t_observed := sql_upsert (\<lambda>r. ob_application_id r = application_id_display i)
       (\<lambda>_. observed_to_row i ob) (observed_to_row i ob) (t_observed db)\<rparr>"
  by (auto simp: upsert_observed_state_conn_def Let_def violation_def app_exists_iff list_ex_iff intro: rev_image_eqI)

lemma upsert_observed_refs:
  assumes "refs_ok db" "upsert_observed_state_conn msg db i ob = CpOk (db', n)"
  shows "refs_ok db' \<and> t_apps db' = t_apps db \<and> t_desired db' = t_desired db \<and>
    t_events db' = t_events db \<and> t_audit db' = t_audit db \<and>
    ob_application_id ` set (t_observed db') = insert (application_id_display i) (ob_application_id ` set (t_observed db))"
proof -
  let ?new = "observed_to_row i ob"
  let ?T = "sql_upsert (\<lambda>r. ob_application_id r = ob_application_id ?new) (\<lambda>_. ?new) ?new (t_observed db)"
  have db': "db' = db\<lparr>t_observed := ?T\<rparr>" "application_id_display i \<in> app_ids db"
    using assms by (auto simp: upsert_observed_Ok refs_defs)
  have "ob_application_id ` set ?T = insert (ob_application_id ?new) (ob_application_id ` set (t_observed db))"
    by (rule upsert_key_set) simp
  moreover have "distinct (map ob_application_id ?T)"
    using assms(1) by (intro upsert_distinct) (simp_all add: refs_defs)
  ultimately show ?thesis using assms(1) db' by (simp add: refs_defs app_ids_def)
qed

text \<open>A save either leaves the tables alone or commits the four upserts.\<close>

lemma pg_app_save_cases:
  obtains (refused) e where "pg_app_save msg db app = (db, CpErr e)"
  | (saved) d1 d2 n d3 where "upsert_environments msg (upsert_application db app) (app_environments app) = CpOk d1"
      "upsert_desired_state msg d1 (app_id app) (app_desired_state app) = CpOk d2"
      "upsert_observed_state_conn msg d2 (app_id app) (app_observed_state app) = CpOk (d3, n)"
      "pg_app_save msg db app = (d3, CpOk ())"
  | (panicked) m where "pg_app_save msg db app = (db, CpPanic m)"
proof -
  let ?e = "upsert_environments msg (upsert_application db app) (app_environments app)"
  show thesis
  proof (cases ?e)
    case (CpOk d1)
    show thesis
    proof (cases "upsert_desired_state msg d1 (app_id app) (app_desired_state app)")
      case d2: (CpOk d2)
      show thesis
        by (cases "upsert_observed_state_conn msg d2 (app_id app) (app_observed_state app)")
          (auto simp: pg_app_save_def commit_tables_def CpOk d2 upsert_observed_state_def
            intro: refused panicked saved [OF CpOk d2])
    qed (auto simp: pg_app_save_def commit_tables_def CpOk intro: refused panicked)
  qed (auto simp: pg_app_save_def commit_tables_def intro: refused panicked)
qed

lemma pg_app_save_ok: "tables_ok db \<Longrightarrow> tables_ok (fst (pg_app_save msg db app))"
proof (cases rule: pg_app_save_cases [of msg db app])
  case (saved d1 d2 n d3)
  assume ok: "tables_ok db"
  note step1 = upsert_environments_refs [OF upsert_application_refs saved(1)]
  note step2 = upsert_desired_refs [OF _ saved(2)]
  note step3 = upsert_observed_refs [OF _ saved(3)]
  show ?thesis
    using ok step1 step2 step3 saved(4) upsert_application_app_ids [of db app]
    by (auto simp: tables_ok_def app_ids_def)
qed simp_all

lemma pg_app_delete_ok:
  assumes "tables_ok db"
  shows "tables_ok (fst (pg_app_delete db i))"
proof (cases "app_exists db (application_id_display i)")
  case True
  let ?i = "application_id_display i" and ?db = "fst (pg_app_delete db i)"
  have db: "?db = db\<lparr>t_apps := filter (\<lambda>r. ap_id r \<noteq> ?i) (t_apps db),
      t_envs := filter (\<lambda>r. en_application_id r \<noteq> ?i) (t_envs db),
      t_desired := filter (\<lambda>r. de_application_id r \<noteq> ?i) (t_desired db),
      t_observed := filter (\<lambda>r. ob_application_id r \<noteq> ?i) (t_observed db),
      t_resources := t_resources ?db, t_deployments := t_deployments ?db,
      t_capabilities := filter (\<lambda>r. cb_application_id r \<noteq> ?i) (t_capabilities db)\<rparr>"
    "t_deployments ?db = filter (\<lambda>r. dr_application_id r \<noteq> ?i \<and> dr_environment_id r \<notin> set (owned_env_ids db ?i)) (t_deployments db)"
    using True by (simp_all add: pg_app_delete_def Let_def)
  have ids: "app_ids ?db = app_ids db - {?i}"
    by (subst db) (auto simp: app_ids_def)
  have "envs_ok (app_ids db - {?i}) (t_envs ?db)"
    using assms by (subst db) (auto simp: tables_ok_def refs_ok_def envs_ok_def distinct_map_filter)
  moreover have "desired_ok (app_ids db - {?i}) (t_desired ?db)"
    using assms by (subst db) (auto simp: tables_ok_def refs_ok_def desired_ok_def distinct_map_filter)
  moreover have "observed_ok (app_ids db - {?i}) (t_observed ?db)"
    using assms by (subst db) (auto simp: tables_ok_def refs_ok_def observed_ok_def distinct_map_filter)
  moreover have "capabilities_ok (app_ids db - {?i}) (t_capabilities ?db)"
    using assms by (subst db) (auto simp: tables_ok_def refs_ok_def capabilities_ok_def distinct_map_filter)
  moreover have "en_id ` set (t_envs db) - set (owned_env_ids db ?i) \<subseteq> en_id ` set (t_envs ?db)"
    by (subst db) (auto simp: owned_env_ids_def)
  then have "deployments_ok (app_ids db - {?i}) (en_id ` set (t_envs ?db)) (t_deployments ?db)"
    using assms unfolding tables_ok_def refs_ok_def deployments_ok_def db(2)
    by (auto simp: distinct_map_filter image_subset_iff subset_iff)
  moreover have "distinct (map ap_id (t_apps ?db))"
    using assms by (subst db) (simp add: tables_ok_def refs_ok_def distinct_map_filter)
  moreover have "app_ids db - {?i} \<subseteq> de_application_id ` set (t_desired ?db)"
    using assms by (subst db) (auto simp: tables_ok_def)
  moreover have "app_ids db - {?i} \<subseteq> ob_application_id ` set (t_observed ?db)"
    using assms by (subst db) (auto simp: tables_ok_def)
  ultimately show ?thesis unfolding tables_ok_def refs_ok_def ids by blast
qed (use assms in \<open>simp add: pg_app_delete_def Let_def\<close>)

text \<open>Integrity when one table is replaced.\<close>

lemma ok_deployments:
  "tables_ok db \<Longrightarrow> deployments_ok (app_ids db) (en_id ` set (t_envs db)) T \<Longrightarrow> tables_ok (db\<lparr>t_deployments := T\<rparr>)"
  by (simp add: tables_ok_def refs_ok_def app_ids_def)

lemma ok_capabilities: "tables_ok db \<Longrightarrow> capabilities_ok (app_ids db) T \<Longrightarrow> tables_ok (db\<lparr>t_capabilities := T\<rparr>)"
  by (simp add: tables_ok_def refs_ok_def app_ids_def)

lemma ok_envs:
  "tables_ok db \<Longrightarrow> envs_ok (app_ids db) T \<Longrightarrow> map en_id T = map en_id (t_envs db) \<Longrightarrow> tables_ok (db\<lparr>t_envs := T\<rparr>)"
  using key_image [of en_id T "t_envs db"] by (simp add: tables_ok_def refs_ok_def app_ids_def)

lemma ok_desired:
  "tables_ok db \<Longrightarrow> desired_ok (app_ids db) T \<Longrightarrow> map de_application_id T = map de_application_id (t_desired db) \<Longrightarrow>
     tables_ok (db\<lparr>t_desired := T\<rparr>)"
  using key_image [of de_application_id T "t_desired db"] by (simp add: tables_ok_def refs_ok_def app_ids_def)

lemma ok_apps: "tables_ok db \<Longrightarrow> map ap_id T = map ap_id (t_apps db) \<Longrightarrow> tables_ok (db\<lparr>t_apps := T\<rparr>)"
  using key_image [of ap_id T "t_apps db"] by (simp add: tables_ok_def refs_ok_def app_ids_def)

lemma ok_evidence: "tables_ok db \<Longrightarrow> tables_ok (db\<lparr>t_events := E, t_audit := A\<rparr>)"
  by (simp add: tables_ok_def refs_ok_def app_ids_def)

lemma at_generation_key: "at_generation i v r \<Longrightarrow> de_application_id r = application_id_display i"
  by (simp add: at_generation_def)

text \<open>The three shapes of a guarded update.\<close>

lemma write_desired_Ok:
  assumes "write_desired K rfc3339 now db i expected next ev detail by secrets = CpOk (db', u)"
  obtains evs n audit a where "append_event (t_events db) ev secrets = (evs, CpOk n)"
    "append_audit K rfc3339 (t_audit db) now by ''desired_state_update'' (application_id_display i) detail secrets = (audit, CpOk a)"
    "db' = db\<lparr>t_desired := update_where (at_generation i expected)
            (\<lambda>r. r\<lparr>de_version := sint (ds_version next), de_profiles := ds_profiles next, de_config := ds_config next\<rparr>)
            (t_desired db),
          t_apps := update_where (\<lambda>r. ap_id r = application_id_display i)
            (\<lambda>r. r\<lparr>ap_updated_at := now, ap_updated_by := Some by\<rparr>) (t_apps db),
          t_events := evs, t_audit := audit\<rparr>"
proof -
  obtain evs en where ev: "append_event (t_events db) ev secrets = (evs, en)" by fastforce
  obtain audit au where au: "append_audit K rfc3339 (t_audit db) now by ''desired_state_update''
      (application_id_display i) detail secrets = (audit, au)" by fastforce
  show thesis
    using assms ev au by (cases en; cases au) (auto simp: write_desired_def Let_def intro!: that)
qed

lemma pg_update_cases:
  obtains (refused) r where "pg_update_desired_state msg K rfc3339 parse now db i expected next ev detail by secrets = (db, r)"
      "\<And>a. r \<noteq> CpOk a"
  | (committed) db' where "ds_version next = expected + 1" "list_ex (at_generation i expected) (t_desired db)"
      "1 \<le> sint (ds_version next)"
      "write_desired K rfc3339 now db i expected next ev detail by secrets = CpOk (db', ())"
      "pg_update_desired_state msg K rfc3339 parse now db i expected next ev detail by secrets =
         (db', pg_app_get parse now db' i)"
proof -
  let ?w = "write_desired K rfc3339 now db i expected next ev detail by secrets"
  consider (a) "ds_version next \<noteq> expected + 1"
    | (b) "ds_version next = expected + 1" "\<not> list_ex (at_generation i expected) (t_desired db)"
    | (c) "ds_version next = expected + 1" "list_ex (at_generation i expected) (t_desired db)" "sint (ds_version next) < 1"
    | (d) "ds_version next = expected + 1" "list_ex (at_generation i expected) (t_desired db)" "1 \<le> sint (ds_version next)"
    by linarith
  then show thesis
  proof cases
    case a
    then show thesis
      by (intro refused [of "CpErr (next_version_error next expected)"]) (simp_all add: pg_update_desired_state_def)
  next
    case b
    then show thesis
      by (intro refused [of "cp_bind (current_desired_version db i) (\<lambda>c. CpErr (generation_error i expected c))"])
        (simp_all add: pg_update_desired_state_def current_desired_version_def split: option.split)
  next
    case c
    then show thesis
      by (intro refused [of "violation msg ''desired_states_version_check''"])
        (simp_all add: pg_update_desired_state_def violation_def)
  next
    case d
    then show thesis
      using committed [OF d] by (cases ?w) (auto simp: pg_update_desired_state_def commit_tables_def not_less intro: refused)
  qed
qed

lemma pg_update_ok:
  assumes "tables_ok db"
  shows "tables_ok (fst (pg_update_desired_state msg K rfc3339 parse now db i expected next ev detail by secrets))"
proof (cases rule: pg_update_cases [of msg K rfc3339 parse now db i expected "next" ev detail "by" secrets])
  case (committed db')
  let ?f = "\<lambda>r. r\<lparr>de_version := sint (ds_version next), de_profiles := ds_profiles next, de_config := ds_config next\<rparr>"
  let ?T = "update_where (at_generation i expected) ?f (t_desired db)"
  have keys: "map de_application_id ?T = map de_application_id (t_desired db)"
    by (rule update_where_keys) simp
  have "\<forall>r \<in> set ?T. 1 \<le> de_version r"
    using assms committed(3) by (auto simp: tables_ok_def refs_defs dest!: set_update_where)
  then have T: "desired_ok (app_ids db) ?T"
    using assms key_image [OF keys] by (simp add: tables_ok_def refs_ok_def desired_ok_def keys)
  show ?thesis
    by (rule write_desired_Ok [OF committed(4)])
      (auto simp: committed(5) intro!: ok_evidence ok_apps ok_desired [OF assms T keys] update_where_keys)
qed (use assms in simp)

lemma pg_record_observation_ok:
  assumes "tables_ok db"
  shows "tables_ok (fst (pg_record_observation msg db i ob))"
proof (cases "upsert_observed_state_conn msg db i ob")
  case (CpOk p)
  obtain d n where p: "p = (d, n)" by fastforce
  have "n = 1" using CpOk by (simp add: p upsert_observed_Ok)
  then show ?thesis
    using assms upsert_observed_refs [OF _ CpOk [unfolded p]]
    by (auto simp: pg_record_observation_def commit_tables_def CpOk p intro!: ok_apps update_where_keys)
      (auto simp: tables_ok_def app_ids_def)
qed (use assms in \<open>simp_all add: pg_record_observation_def commit_tables_def\<close>)

lemma pg_set_environment_refs_ok:
  assumes "tables_ok db"
  shows "tables_ok (fst (pg_set_environment_refs db a e refs))"
proof -
  let ?P = "\<lambda>r. en_id r = environment_id_display e \<and> en_application_id r = application_id_display a"
  let ?T = "update_where ?P (\<lambda>r. r\<lparr>en_refs := refs\<rparr>) (t_envs db)"
  have keys: "map en_id ?T = map en_id (t_envs db)" "map en_application_id ?T = map en_application_id (t_envs db)"
    "map (\<lambda>r. (en_application_id r, en_name r)) ?T = map (\<lambda>r. (en_application_id r, en_name r)) (t_envs db)"
    by (auto intro!: update_where_keys)
  have "envs_ok (app_ids db) ?T"
    using assms key_image [OF keys(2)] by (simp add: tables_ok_def refs_ok_def envs_ok_def keys)
  then show ?thesis
    using assms ok_envs [OF assms _ keys(1)] by (simp add: pg_set_environment_refs_def Let_def)
qed

lemma pg_deployment_save_ok:
  assumes "tables_ok db"
  shows "tables_ok (fst (pg_deployment_save msg db d now))"
proof -
  let ?new = "deployment_to_row d now"
  let ?f = "\<lambda>r. r\<lparr>dr_phase := dr_phase ?new, dr_record := dr_record ?new, dr_updated_at := dr_updated_at ?new\<rparr>"
  let ?T = "sql_upsert (\<lambda>r. dr_id r = dr_id ?new) ?f ?new (t_deployments db)"
  have "distinct (map dr_id ?T)"
    using assms by (intro upsert_distinct) (simp_all add: tables_ok_def refs_defs)
  moreover have "\<forall>r \<in> set ?T. dr_id r = deployment_id_display (dp_id (dr_record r)) \<and>
        dr_phase r = deployment_phase_name (dp_phase (dr_record r))"
    using assms by (auto simp: tables_ok_def refs_defs dest!: set_sql_upsert)
  moreover have "dr_application_id ` set ?T \<subseteq> app_ids db" "dr_environment_id ` set ?T \<subseteq> en_id ` set (t_envs db)"
    if "list_ex (\<lambda>r. dr_id r = dr_id ?new) (t_deployments db) \<or>
      app_exists db (dr_application_id ?new) \<and> list_ex (\<lambda>r. en_id r = dr_environment_id ?new) (t_envs db)"
    using assms that
    by (auto simp: tables_ok_def refs_defs app_exists_iff list_ex_iff dest!: set_sql_upsert intro: rev_image_eqI)
  ultimately show ?thesis
    using assms by (auto simp: pg_deployment_save_def Let_def deployments_ok_def intro!: ok_deployments)
qed

lemma pg_deployment_set_phase_ok:
  "tables_ok db \<Longrightarrow> tables_ok (fst (pg_deployment_set_phase msg db i phase now))"
  using pg_deployment_save_ok [of db msg]
  by (auto simp: pg_deployment_set_phase_def split: cp_outcome.split prod.split) (metis fst_conv)+

lemma pg_capability_save_ok:
  assumes "tables_ok db"
  shows "tables_ok (fst (pg_capability_save msg db b now))"
proof -
  let ?new = "capability_to_row b now"
  let ?f = "\<lambda>r. r\<lparr>cb_mode := cb_mode ?new, cb_record := cb_record ?new, cb_updated_at := cb_updated_at ?new\<rparr>"
  let ?T = "sql_upsert (\<lambda>r. cb_id r = cb_id ?new) ?f ?new (t_capabilities db)"
  have "distinct (map cb_id ?T)"
    using assms by (intro upsert_distinct) (simp_all add: tables_ok_def refs_defs)
  moreover have "\<forall>r \<in> set ?T. cb_id r = binding_id_display (bc_id (cb_record r)) \<and> cb_mode r = mode_name (bc_mode (cb_record r))"
    using assms by (auto simp: tables_ok_def refs_defs dest!: set_sql_upsert)
  moreover have "cb_application_id ` set ?T \<subseteq> app_ids db"
    if "list_ex (\<lambda>r. cb_id r = cb_id ?new) (t_capabilities db) \<or> app_exists db (cb_application_id ?new)"
    using assms that by (auto simp: tables_ok_def refs_defs app_exists_iff list_ex_iff dest!: set_sql_upsert)
  ultimately show ?thesis
    using assms by (auto simp: pg_capability_save_def Let_def capabilities_ok_def intro!: ok_capabilities)
qed

section \<open>Histories\<close>

datatype app_op =
    AoSave application
  | AoUpdate time application_id u64 desired_state event_draft string string "string list"
  | AoObserve application_id observed_state
  | AoRefs application_id environment_id environment_refs
  | AoDelete application_id
  | AoDeployment deployment time
  | AoPhase deployment_id deployment_phase time
  | AoCapability bound_capability time

fun app_exec ::
  "(string \<Rightarrow> string) \<Rightarrow> clock_precision \<Rightarrow> (time \<Rightarrow> string) \<Rightarrow> (string \<Rightarrow> uuid option) \<Rightarrow> app_op \<Rightarrow> app_tables \<Rightarrow> app_tables" where
  "app_exec msg K rfc3339 parse (AoSave app) db = fst (pg_app_save msg db app)"
| "app_exec msg K rfc3339 parse (AoUpdate now i expected next ev detail who secrets) db =
     fst (pg_update_desired_state msg K rfc3339 parse now db i expected next ev detail who secrets)"
| "app_exec msg K rfc3339 parse (AoObserve i ob) db = fst (pg_record_observation msg db i ob)"
| "app_exec msg K rfc3339 parse (AoRefs a e refs) db = fst (pg_set_environment_refs db a e refs)"
| "app_exec msg K rfc3339 parse (AoDelete i) db = fst (pg_app_delete db i)"
| "app_exec msg K rfc3339 parse (AoDeployment d now) db = fst (pg_deployment_save msg db d now)"
| "app_exec msg K rfc3339 parse (AoPhase i phase now) db = fst (pg_deployment_set_phase msg db i phase now)"
| "app_exec msg K rfc3339 parse (AoCapability b now) db = fst (pg_capability_save msg db b now)"

lemmas app_ops_ok = pg_app_save_ok pg_update_ok pg_record_observation_ok pg_set_environment_refs_ok pg_app_delete_ok
  pg_deployment_save_ok pg_deployment_set_phase_ok pg_capability_save_ok

lemma app_exec_ok: "tables_ok db \<Longrightarrow> tables_ok (app_exec msg K rfc3339 parse x db)"
  by (cases x) (simp_all add: app_ops_ok)

lemma app_fold_ok: "tables_ok db \<Longrightarrow> tables_ok (fold (app_exec msg K rfc3339 parse) ops db)"
  by (induction ops arbitrary: db) (simp_all add: app_exec_ok)

text \<open>
  Under any sequence of operations of the three stores the tables keep their integrity: identifiers are unique, an
  environment name is unique within its application, every environment, state, deployment and capability belongs to a
  stored application, every application has its desired and its observed state, versions are
  positive, and the phase and mode columns agree with the stored record.
\<close>

theorem app_tables_invariant: "tables_ok (fold (app_exec msg K rfc3339 parse) ops tables_empty)"
  by (simp add: app_fold_ok)

section \<open>Guarded updates\<close>

lemma sint_succ:
  fixes w :: u64
  assumes "1 \<le> sint w" "1 \<le> sint (w + 1)"
  shows "sint (w + 1) = sint w + 1"
proof -
  have range: "sint w < 2 ^ 63" using sint_lt [of w] by simp
  have step: "sint (w + 1) = signed_take_bit 63 (sint w + 1)"
    by (simp add: sint_word_ariths)
  show ?thesis
  proof (cases "sint w + 1 < 2 ^ 63")
    case True
    then show ?thesis unfolding step using assms(1) by (intro signed_take_bit_int_eq_self) auto
  next
    case False
    then have "sint w + 1 = 2 ^ 63" using range by linarith
    then have "sint (w + 1) = signed_take_bit 63 (2 ^ 63)" using step by simp
    also have "\<dots> = - (2 ^ 63)" by code_simp
    finally show ?thesis using assms(2) by simp
  qed
qed

lemma append_event_Ok: "append_event T d s = (T', CpOk n) \<Longrightarrow> length (st_rows T') = Suc (length (st_rows T))"
  by (auto simp: append_event_def serial_insert_def split: cp_outcome.splits prod.splits)

lemma append_audit_Ok: "append_audit K rfc T at who act tg dt s = (T', CpOk a) \<Longrightarrow> length T' = Suc (length T)"
  by (auto simp: append_audit_def Let_def split: sum.splits)

lemma desired_row_unique:
  assumes "tables_ok db" "r \<in> set (t_desired db)" "de_application_id r = application_id_display i"
  shows "find (\<lambda>x. de_application_id x = application_id_display i) (t_desired db) = Some r"
  using find_unique [of de_application_id "t_desired db" r] assms by (simp add: tables_ok_def refs_defs)

lemma write_desired_rows:
  assumes "tables_ok db" "list_ex (at_generation i expected) (t_desired db)" "1 \<le> sint (ds_version next)"
    and "t_desired db' = update_where (at_generation i expected)
       (\<lambda>r. r\<lparr>de_version := sint (ds_version next), de_profiles := ds_profiles next, de_config := ds_config next\<rparr>) (t_desired db)"
  shows "load_desired_state db' i = CpOk next" "current_desired_version db i = CpOk (sint expected)"
    "current_desired_version db' i = CpOk (sint (ds_version next))" "1 \<le> sint expected"
    "j \<noteq> i \<Longrightarrow> load_desired_state db' j = load_desired_state db j"
proof -
  let ?f = "\<lambda>r. r\<lparr>de_version := sint (ds_version next), de_profiles := ds_profiles next, de_config := ds_config next\<rparr>"
  obtain r where r: "r \<in> set (t_desired db)" "de_application_id r = application_id_display i" "de_version r = sint expected"
    using assms(2) by (auto simp: list_ex_iff at_generation_def)
  have keys: "map de_application_id (t_desired db') = map de_application_id (t_desired db)"
    unfolding assms(4) by (rule update_where_keys) simp
  have "?f r \<in> set (t_desired db')"
    using r by (auto simp: assms(4) update_where_def at_generation_def intro: rev_image_eqI)
  then have found: "find (\<lambda>x. de_application_id x = application_id_display i) (t_desired db') = Some (?f r)"
    using find_unique [of de_application_id "t_desired db'" "?f r"] keys r(2) assms(1)
    by (simp add: tables_ok_def refs_defs)
  show "load_desired_state db' i = CpOk next" "current_desired_version db' i = CpOk (sint (ds_version next))"
    by (simp_all add: load_desired_state_def current_desired_version_def found)
  show "current_desired_version db i = CpOk (sint expected)"
    using desired_row_unique [OF assms(1) r(1,2)] r(3) by (simp add: current_desired_version_def)
  show "1 \<le> sint expected" using assms(1) r(1,3) by (auto simp: tables_ok_def refs_defs)
  show "load_desired_state db' j = load_desired_state db j" if "j \<noteq> i"
  proof -
    have "find (\<lambda>x. de_application_id x = application_id_display j) (update_where (at_generation i expected) ?f T) =
        find (\<lambda>x. de_application_id x = application_id_display j) T" for T
      using that by (induction T) (auto simp: update_where_def at_generation_def)
    then show ?thesis by (simp add: load_desired_state_def assms(4))
  qed
qed

lemma committed_rows:
  assumes "tables_ok db" "ds_version next = expected + 1" "list_ex (at_generation i expected) (t_desired db)"
    "1 \<le> sint (ds_version next)" "write_desired K rfc3339 now db i expected next ev detail who secrets = CpOk (db', ())"
  shows "current_desired_version db i = CpOk (sint expected)" "current_desired_version db' i = CpOk (sint expected + 1)"
    "load_desired_state db' i = CpOk next" "j \<noteq> i \<Longrightarrow> load_desired_state db' j = load_desired_state db j"
    "length (st_rows (t_events db')) = Suc (length (st_rows (t_events db)))" "length (t_audit db') = Suc (length (t_audit db))"
    "t_envs db' = t_envs db" "t_observed db' = t_observed db" "t_resources db' = t_resources db"
    "t_deployments db' = t_deployments db" "t_capabilities db' = t_capabilities db"
proof -
  obtain evs n audit a where w: "append_event (t_events db) ev secrets = (evs, CpOk n)"
    "append_audit K rfc3339 (t_audit db) now who ''desired_state_update'' (application_id_display i) detail secrets = (audit, CpOk a)"
    "db' = db\<lparr>t_desired := update_where (at_generation i expected)
            (\<lambda>r. r\<lparr>de_version := sint (ds_version next), de_profiles := ds_profiles next, de_config := ds_config next\<rparr>)
            (t_desired db),
          t_apps := update_where (\<lambda>r. ap_id r = application_id_display i)
            (\<lambda>r. r\<lparr>ap_updated_at := now, ap_updated_by := Some who\<rparr>) (t_apps db),
          t_events := evs, t_audit := audit\<rparr>"
    by (rule write_desired_Ok [OF assms(5)])
  note rows = write_desired_rows [OF assms(1,3,4), of db']
  show "current_desired_version db i = CpOk (sint expected)" "load_desired_state db' i = CpOk next"
    "j \<noteq> i \<Longrightarrow> load_desired_state db' j = load_desired_state db j"
    using rows by (simp_all add: w(3))
  show "current_desired_version db' i = CpOk (sint expected + 1)"
    using rows(3,4) assms(2,4) sint_succ [of expected] by (simp add: w(3))
  show "length (st_rows (t_events db')) = Suc (length (st_rows (t_events db)))" "length (t_audit db') = Suc (length (t_audit db))"
    using append_event_Ok [OF w(1)] append_audit_Ok [OF w(2)] by (simp_all add: w(3))
  show "t_envs db' = t_envs db" "t_observed db' = t_observed db" "t_resources db' = t_resources db"
    "t_deployments db' = t_deployments db" "t_capabilities db' = t_capabilities db"
    by (simp_all add: w(3))
qed


text \<open>
  No update is lost. Once a writer has committed on a generation, a second writer with the same expected version is
  refused with a conflict, whatever it wants to store, and changes nothing.
\<close>

theorem stale_writer_refused:
  assumes "tables_ok db"
    and "pg_update_desired_state msg K rfc3339 parse now db i expected next ev detail who secrets = (db', r)" "db' \<noteq> db"
  shows "\<exists>m. pg_update_desired_state msg K rfc3339 parse now' db' i expected next' ev' detail' who' secrets' =
    (db', CpErr (ConflictError m))"
proof -
  have ok: "tables_ok db'"
    using pg_update_ok [OF assms(1), of msg K rfc3339 parse now i expected "next" ev detail who secrets] assms(2) by simp
  have ver: "current_desired_version db' i = CpOk (sint expected + 1)"
  proof (cases rule: pg_update_cases [of msg K rfc3339 parse now db i expected "next" ev detail who secrets])
    case (committed d)
    then show ?thesis using assms(2) committed_rows(2) [OF assms(1) committed(1-4)] by simp
  qed (use assms(2,3) in auto)
  have "\<not> at_generation i expected x" if x: "x \<in> set (t_desired db')" for x
  proof
    assume "at_generation i expected x"
    then have "find (\<lambda>y. de_application_id y = application_id_display i) (t_desired db') = Some x" "de_version x = sint expected"
      using desired_row_unique [OF ok x] by (simp_all add: at_generation_def)
    then show False using ver by (simp add: current_desired_version_def)
  qed
  then have "\<not> list_ex (at_generation i expected) (t_desired db')" by (auto simp: list_ex_iff)
  then show ?thesis
    by (cases "ds_version next' = expected + 1")
      (simp_all add: pg_update_desired_state_def ver next_version_error_def generation_error_def)
qed

section \<open>Saved applications\<close>

lemma app_status_roundtrip [simp]: "app_status_from_name (app_status_name s) = CpOk s"
  by (cases s) (simp_all add: app_status_from_name_def)

lemma observed_status_roundtrip [simp]: "observed_status_from_name (observed_status_name s) = CpOk s"
  by (cases s) (simp_all add: observed_status_from_name_def)

lemma insort_key_map: "insort_key f (g x) (map g xs) = map g (insort_key (\<lambda>x. f (g x)) x xs)"
  by (induction xs) auto

lemma sort_key_map: "sort_key f (map g xs) = map g (sort_key (\<lambda>x. f (g x)) xs)"
  by (induction xs) (simp_all add: insort_key_map)

lemma collect_rows_map: "(\<And>x. x \<in> set xs \<Longrightarrow> f (g x) = CpOk x) \<Longrightarrow> collect_rows f (map g xs) = CpOk xs"
  by (induction xs) auto

definition ids_readable :: "(string \<Rightarrow> uuid option) \<Rightarrow> application \<Rightarrow> bool" where
  "ids_readable parse app \<longleftrightarrow>
     application_id_from_str parse (application_id_display (app_id app)) = Inr (app_id app) \<and>
     (\<forall>env \<in> set (app_environments app). environment_id_from_str parse (environment_id_display (env_id env)) = Inr (env_id env))"

text \<open>An aggregate that owns its environments, with distinct identifiers and names, none of them stored yet.\<close>

definition fresh_aggregate :: "app_tables \<Rightarrow> application \<Rightarrow> bool" where
  "fresh_aggregate db app \<longleftrightarrow>
     application_id_display (app_id app) \<notin> app_ids db \<and>
     (\<forall>env \<in> set (app_environments app). env_application_id env = app_id app \<and>
        environment_id_display (env_id env) \<notin> en_id ` set (t_envs db)) \<and>
     distinct (map env_id (app_environments app)) \<and> distinct (map env_name (app_environments app)) \<and>
     1 \<le> sint (ds_version (app_desired_state app))"

lemma upsert_environments_fresh:
  assumes "\<And>env. env \<in> set envs \<Longrightarrow> env_application_id env = a \<and> environment_id_display (env_id env) \<notin> en_id ` set (t_envs db)"
    and "distinct (map env_id envs)" "distinct (map env_name envs)" "application_id_display a \<in> app_ids db"
    and "\<And>r. r \<in> set (t_envs db) \<Longrightarrow> en_application_id r = application_id_display a \<Longrightarrow> en_name r \<notin> env_name ` set envs"
  shows "upsert_environments msg db envs = CpOk (db\<lparr>t_envs := t_envs db @ map environment_to_row envs\<rparr>)"
  using assms
proof (induction envs arbitrary: db)
  case (Cons env envs)
  let ?db = "db\<lparr>t_envs := t_envs db @ [environment_to_row env]\<rparr>"
  have new: "find (\<lambda>r. en_id r = environment_id_display (env_id env)) (t_envs db) = None"
    using Cons.prems(1) [of env] by (auto simp: find_None_iff intro: rev_image_eqI)
  then have "\<not> list_ex (\<lambda>r. en_id r = environment_id_display (env_id env)) (t_envs db)"
    by (simp add: find_None_iff list_ex_iff)
  moreover have "\<not> name_taken (t_envs db) (environment_id_display (env_id env)) (application_id_display a) (env_name env)"
    using Cons.prems(5) by (auto simp: name_taken_def list_ex_iff)
  ultimately have step: "upsert_environment msg db env = CpOk ?db"
    using Cons.prems(1) [of env] Cons.prems(4)
    by (simp add: upsert_environment_def Let_def new app_exists_iff sql_upsert_def)
  have "upsert_environments msg ?db envs = CpOk (?db\<lparr>t_envs := t_envs ?db @ map environment_to_row envs\<rparr>)"
    using Cons.prems by (intro Cons.IH) (auto simp: app_ids_def intro: rev_image_eqI)
  then show ?case by (simp add: step)
qed simp

lemma upsert_fresh: "new \<notin> key ` set T \<Longrightarrow> sql_upsert (\<lambda>r. key r = new) f x T = T @ [x]"
  by (auto simp: sql_upsert_def list_ex_iff)

lemma save_fresh:
  assumes "tables_ok db" "fresh_aggregate db app"
  shows "pg_app_save msg db app = (db\<lparr>t_apps := t_apps db @ [application_to_row app],
      t_envs := t_envs db @ map environment_to_row (app_environments app),
      t_desired := t_desired db @ [desired_to_row (app_id app) (app_desired_state app)],
      t_observed := t_observed db @ [observed_to_row (app_id app) (app_observed_state app)]\<rparr>, CpOk ())"
proof -
  let ?i = "application_id_display (app_id app)"
  have new: "?i \<notin> app_ids db" "?i \<notin> de_application_id ` set (t_desired db)" "?i \<notin> ob_application_id ` set (t_observed db)"
    and owners: "en_application_id ` set (t_envs db) \<subseteq> app_ids db"
    using assms by (auto simp: fresh_aggregate_def tables_ok_def refs_defs)
  have unowned: "\<forall>r \<in> set (t_envs db). en_application_id r \<noteq> ?i"
    using owners new(1) by (metis imageI subsetD)
  have a: "upsert_application db app = db\<lparr>t_apps := t_apps db @ [application_to_row app]\<rparr>"
    using new(1) by (simp add: upsert_application_def Let_def app_ids_def upsert_fresh [where key = ap_id])
  have e: "upsert_environments msg (upsert_application db app) (app_environments app) =
      CpOk ((upsert_application db app)\<lparr>t_envs := t_envs (upsert_application db app) @ map environment_to_row (app_environments app)\<rparr>)"
    using assms(2) unowned by (intro upsert_environments_fresh [where a = "app_id app"])
      (auto simp: fresh_aggregate_def upsert_application_app_ids)
  let ?d1 = "(upsert_application db app)\<lparr>t_envs := t_envs db @ map environment_to_row (app_environments app)\<rparr>"
  let ?d2 = "?d1\<lparr>t_desired := t_desired db @ [desired_to_row (app_id app) (app_desired_state app)]\<rparr>"
  have here: "?i \<in> app_ids ?d1" by (simp add: a app_ids_def)
  have d: "upsert_desired_state msg ?d1 (app_id app) (app_desired_state app) = CpOk ?d2"
    using assms(2) new here
    by (simp add: upsert_desired_state_Ok fresh_aggregate_def upsert_fresh [where key = de_application_id])
  have o: "upsert_observed_state_conn msg ?d2 (app_id app) (app_observed_state app) =
      CpOk (?d2\<lparr>t_observed := t_observed db @ [observed_to_row (app_id app) (app_observed_state app)]\<rparr>, 1)"
    using new here by (simp add: upsert_observed_Ok app_ids_def upsert_fresh [where key = ob_application_id])
  show ?thesis
    using e by (simp add: pg_app_save_def upsert_observed_state_def commit_tables_def d o) (simp add: a)
qed

lemma find_last_key:
  assumes "k \<notin> key ` set T" "key x = k"
  shows "find (\<lambda>r. key r = k) (T @ [x]) = Some x"
  using assms by (induction T) auto

lemma of_int_sint_u64 [simp]: "of_int (sint (w :: u64)) = w"
  by simp

text \<open>
  A new application survives storage: its save succeeds, and reading it back gives the
  same aggregate with its environments in the order of their names, whenever its identifiers are readable.
\<close>

theorem app_save_get_roundtrip:
  assumes "tables_ok db" "fresh_aggregate db app" "ids_readable parse app"
  shows "snd (pg_app_save msg db app) = CpOk () \<and>
    pg_app_get parse now (fst (pg_app_save msg db app)) (app_id app) =
      CpOk (app\<lparr>app_environments := sort_key env_name (app_environments app)\<rparr>)"
proof -
  let ?i = "application_id_display (app_id app)" and ?db = "fst (pg_app_save msg db app)"
  note saved = save_fresh [OF assms(1,2), of msg]
  have new: "?i \<notin> ap_id ` set (t_apps db)" "?i \<notin> de_application_id ` set (t_desired db)"
    "?i \<notin> ob_application_id ` set (t_observed db)" and owners: "en_application_id ` set (t_envs db) \<subseteq> ap_id ` set (t_apps db)"
    using assms(1,2) by (auto simp: fresh_aggregate_def tables_ok_def refs_defs app_ids_def)
  have unowned: "\<forall>r \<in> set (t_envs db). en_application_id r \<noteq> ?i"
    using owners new(1) by (metis imageI subsetD)
  have own: "\<forall>env \<in> set (app_environments app). env_application_id env = app_id app"
    using assms(2) by (simp add: fresh_aggregate_def)
  have rows: "filter (\<lambda>r. en_application_id r = ?i) (t_envs ?db) = map environment_to_row (app_environments app)"
    using unowned own by (simp add: saved filter_empty_conv filter_id_conv)
  have envs: "load_environments parse ?db (app_id app) = CpOk (sort_key env_name (app_environments app))"
    unfolding load_environments_def rows sort_key_map using assms(3) own
    by (intro collect_rows_map trans [OF collect_rows_map [where g = environment_to_row]])
      (auto simp: environment_from_row_def ids_readable_def environment_to_row_def)
  have states: "load_desired_state ?db (app_id app) = CpOk (app_desired_state app)"
    "load_observed_state ?db (app_id app) = CpOk (app_observed_state app)"
    using new by (simp_all add: saved load_desired_state_def load_observed_state_def find_last_key desired_to_row_def
        observed_to_row_def observed_state_from_row_def)
  have "find (\<lambda>r. ap_id r = ?i) (t_apps ?db) = Some (application_to_row app)"
    using new(1) by (simp add: saved find_last_key)
  moreover have "cp_bind (application_from_row parse now (application_to_row app)) (\<lambda>x. load_parts parse ?db x (app_id app)) =
      CpOk (app\<lparr>app_environments := sort_key env_name (app_environments app)\<rparr>)"
    using assms(3) by (simp add: application_from_row_def application_to_row_def ids_readable_def load_parts_def envs states)
  ultimately show ?thesis by (simp add: pg_app_get_def) (simp add: saved)
qed

lemma find_filtered_key:
  "find (\<lambda>r. key r = application_id_display j) (filter (\<lambda>r. key r \<noteq> application_id_display i) T) =
    (if j = i then None else find (\<lambda>r. key r = application_id_display j) T)"
  by (induction T) auto

text \<open>
  Deletion is exact: it succeeds for a stored application, which is not found afterwards, and every other
  application reads as before.
\<close>

theorem app_delete_exact:
  "snd (pg_app_delete db i) =
     (if app_exists db (application_id_display i) then CpOk () else CpErr (NotFoundError (application_id_display i))) \<and>
   pg_app_get parse now (fst (pg_app_delete db i)) j =
     (if j = i then CpErr (NotFoundError (application_id_display i)) else pg_app_get parse now db j)"
proof (cases "app_exists db (application_id_display i)")
  case True
  have envs: "filter (\<lambda>r. en_application_id r = application_id_display j) (filter (\<lambda>r. en_application_id r \<noteq> application_id_display i) T) =
      filter (\<lambda>r. en_application_id r = application_id_display j) T" if "j \<noteq> i" for T
    using that by (induction T) auto
  have parts: "load_parts parse (fst (pg_app_delete db i)) app j = load_parts parse db app j" if "j \<noteq> i" for app
    using that True by (simp add: pg_app_delete_def Let_def load_parts_def load_environments_def load_desired_state_def
        load_observed_state_def find_filtered_key envs del: filter_filter)
  then show ?thesis
    using True parts by (auto simp: pg_app_delete_def Let_def pg_app_get_def find_filtered_key split: option.split)
next
  case False
  then have "find (\<lambda>r. ap_id r = application_id_display i) (t_apps db) = None"
    by (auto simp: app_exists_def find_None_iff list_ex_iff)
  then show ?thesis using False by (simp add: pg_app_delete_def Let_def pg_app_get_def)
qed

lemma upsert_environments_keep:
  assumes "upsert_environments msg db envs = CpOk db'" "r \<in> set (t_envs db)"
    "\<And>env. env \<in> set envs \<Longrightarrow> en_id r \<noteq> environment_id_display (env_id env)"
  shows "r \<in> set (t_envs db')"
  using assms
proof (induction envs arbitrary: db)
  case (Cons env envs)
  then obtain d where d: "upsert_environment msg db env = CpOk d" "upsert_environments msg d envs = CpOk db'"
    by (cases "upsert_environment msg db env") auto
  have "r \<in> set (t_envs d)"
    using d(1)
  proof (cases rule: upsert_environment_cases)
    case (updated x)
    then show ?thesis using Cons.prems(2,3) by (auto simp: update_where_def intro!: rev_image_eqI)
  qed (use Cons.prems(2) in simp)
  then show ?case using Cons.IH [OF d(2)] Cons.prems(3) by simp
qed simp

text \<open>
  A save is not guarded by the generation. A successful save of an aggregate stores its desired state whatever version
  is stored, without an event or an audit record, and keeps the environments the aggregate no longer has.
\<close>

theorem save_overwrites_generation:
  assumes "tables_ok db" "snd (pg_app_save msg db app) = CpOk ()"
  shows "load_desired_state (fst (pg_app_save msg db app)) (app_id app) = CpOk (app_desired_state app) \<and>
    t_events (fst (pg_app_save msg db app)) = t_events db \<and> t_audit (fst (pg_app_save msg db app)) = t_audit db \<and>
    (\<forall>r \<in> set (t_envs db). en_id r \<notin> environment_id_display ` env_id ` set (app_environments app) \<longrightarrow>
       r \<in> set (t_envs (fst (pg_app_save msg db app))))"
proof (cases rule: pg_app_save_cases [of msg db app])
  case (saved d1 d2 n d3)
  let ?new = "desired_to_row (app_id app) (app_desired_state app)"
  have refs: "refs_ok (upsert_application db app)" using assms(1) by (simp add: tables_ok_def upsert_application_refs)
  note s1 = upsert_environments_refs [OF refs saved(1)]
  note s2 = upsert_desired_refs [OF conjunct1 [OF s1] saved(2)]
  note s3 = upsert_observed_refs [OF conjunct1 [OF s2] saved(3)]
  have d2: "t_desired d2 = sql_upsert (\<lambda>r. de_application_id r = de_application_id ?new) (\<lambda>_. ?new) ?new (t_desired d1)"
    using saved(2) by (simp add: upsert_desired_state_Ok)
  have "?new \<in> set (t_desired d2)"
    by (auto simp: d2 sql_upsert_def list_ex_iff update_where_def intro: rev_image_eqI)
  then have "find (\<lambda>r. de_application_id r = application_id_display (app_id app)) (t_desired d3) = Some ?new"
    using find_unique [of de_application_id "t_desired d2" ?new] s2 s3 by (simp add: refs_defs)
  moreover have "t_envs d3 = t_envs d1"
    using saved(2,3) by (auto simp: upsert_desired_state_Ok upsert_observed_Ok)
  moreover have "r \<in> set (t_envs d1)"
    if "r \<in> set (t_envs db)" "en_id r \<notin> environment_id_display ` env_id ` set (app_environments app)" for r
    using upsert_environments_keep [OF saved(1), of r] that by (auto intro: rev_image_eqI)
  ultimately show ?thesis
    using s1 s2 s3 saved(4) by (auto simp: load_desired_state_def desired_to_row_def)
qed (use assms(2) in simp_all)

text \<open>Recording an observation never answers that the application is not found.\<close>

theorem observation_never_not_found: "snd (pg_record_observation msg db i ob) \<noteq> CpErr (NotFoundError m)"
  by (auto simp: pg_record_observation_def commit_tables_def upsert_observed_state_conn_def Let_def violation_def)

text \<open>
  Setting the phase of a deployment asks nothing of the lifecycle graph: every phase is accepted, and the
  log of transitions stays as it was.
\<close>

theorem set_phase_skips_graph:
  assumes "tables_ok db" "pg_deployment_get db i = CpOk d"
  shows "snd (pg_deployment_set_phase msg db i phase now) = CpOk (d\<lparr>dp_phase := phase\<rparr>)"
proof -
  obtain r where r: "r \<in> set (t_deployments db)" "dr_id r = deployment_id_display i" "dr_record r = d"
    using assms(2) by (auto simp: pg_deployment_get_def find_Some_iff split: option.splits) (metis nth_mem)
  have id: "deployment_id_display (dp_id d) = deployment_id_display i"
    using assms(1) r by (auto simp: tables_ok_def refs_defs)
  have "find (\<lambda>x. dr_id x = k) (update_where (\<lambda>x. dr_id x = k) f T) = map_option f (find (\<lambda>x. dr_id x = k) T)"
    if "\<And>x. dr_id (f x) = dr_id x" for k f and T :: "deployment_row list"
    using that by (induction T) (auto simp: update_where_def)
  then show ?thesis
    using assms(2) r id by (auto simp: pg_deployment_set_phase_def pg_deployment_save_def Let_def sql_upsert_def
        list_ex_iff pg_deployment_get_def split: option.splits)
qed

section \<open>An application on an empty store\<close>

definition imported_sample :: application where
  "imported_sample = application_new ''u1'' ''u2'' ''u3'' 5 ''shop'' (ImportedLocal ''.'') ''human''"

definition imported_tables :: app_tables where
  "imported_tables = fst (pg_app_save id tables_empty imported_sample)"

definition sample_draft :: event_draft where
  "sample_draft = event_draft_new 7 (ActorHuman ''ann'') (correlation_new ''t'') Reconciled EvAccepted"

lemma imported_fresh: "fresh_aggregate tables_empty imported_sample" "ids_readable Some imported_sample"
  by (simp_all add: fresh_aggregate_def ids_readable_def imported_sample_def application_new_def Let_def tables_empty_def app_ids_def
      environment_development_def environment_production_def environment_new_def desired_initial_def
      application_id_from_str_def environment_id_from_str_def id_from_str_def starts_with_def)

lemma imported_ok: "tables_ok imported_tables"
  unfolding imported_tables_def by (rule pg_app_save_ok) simp

lemma imported_save: "pg_app_save id tables_empty imported_sample = (imported_tables, CpOk ())"
  unfolding imported_tables_def by (simp add: save_fresh [OF tables_ok_empty imported_fresh(1)])

theorem app_save_get_roundtrip_witness:
  "pg_app_get Some 9 imported_tables (app_id imported_sample) = CpOk imported_sample"
proof -
  have "imported_sample\<lparr>app_environments := sort_key env_name (app_environments imported_sample)\<rparr> = imported_sample"
    by (simp add: imported_sample_def application_new_def Let_def environment_development_def environment_production_def
        environment_new_def)
  then show ?thesis
    using app_save_get_roundtrip [OF tables_ok_empty imported_fresh, of id 9] by (simp add: imported_save)
qed

text \<open>The first update of the stored sample, and a second one on the same generation.\<close>

definition sample_next :: desired_state where
  "sample_next = with_config desired_initial (JBool True)"

definition sample_update :: "app_tables \<Rightarrow> app_tables \<times> application cp_outcome" where
  "sample_update db = pg_update_desired_state id \<lparr>cp_round6 = id, cp_stored = id\<rparr> (\<lambda>t. ''t'') Some 9 db
     (app_id imported_sample) 1 sample_next sample_draft ''config'' ''ann'' []"

lemma imported_desired: "t_desired imported_tables = [desired_to_row (app_id imported_sample) desired_initial]"
proof -
  have "t_desired tables_empty = []" "app_desired_state imported_sample = desired_initial"
    by (simp_all add: tables_empty_def imported_sample_def application_new_def Let_def)
  then show ?thesis unfolding imported_tables_def by (simp add: save_fresh [OF tables_ok_empty imported_fresh(1)])
qed

lemma redact_guard_nil: "redact_guard field text [] = Inr text"
  by (simp add: redact_guard_def redact_def redact_reason_def ensure_no_secret_def)

lemma imported_commits:
  "\<exists>db' r. sample_update imported_tables = (db', r) \<and> length (t_audit db') = Suc (length (t_audit imported_tables))"
proof -
  have gen: "list_ex (at_generation (app_id imported_sample) 1) (t_desired imported_tables)"
    by (simp add: imported_desired at_generation_def desired_initial_def)
  have ver: "ds_version sample_next = 1 + 1" "1 \<le> sint (ds_version sample_next)"
    by (simp_all add: sample_next_def with_config_def desired_initial_def)
  obtain db' where w: "write_desired \<lparr>cp_round6 = id, cp_stored = id\<rparr> (\<lambda>t. ''t'') 9 imported_tables (app_id imported_sample) 1 sample_next
      sample_draft ''config'' ''ann'' [] = CpOk (db', ())"
    by (simp add: write_desired_def append_event_def append_audit_def serial_insert_def redact_guard_nil lift_guard_def
        guarded_result_def sample_draft_def event_draft_new_def Let_def)
  show ?thesis
    using committed_rows(6) [OF imported_ok ver(1) gen ver(2) w] gen ver w
    by (simp add: sample_update_def pg_update_desired_state_def commit_tables_def)
qed


theorem stale_writer_refused_witness:
  "\<exists>db' r m. sample_update imported_tables = (db', r) \<and> sample_update db' = (db', CpErr (ConflictError m))"
proof -
  obtain db' r where u: "sample_update imported_tables = (db', r)" "db' \<noteq> imported_tables" using imported_commits by force
  show ?thesis
    using stale_writer_refused [OF imported_ok u(1) [unfolded sample_update_def] u(2)] u(1)
    unfolding sample_update_def by blast
qed

theorem save_overwrites_generation_witness:
  "\<exists>db. tables_ok db \<and> current_desired_version db (app_id imported_sample) = CpOk 2 \<and>
     load_desired_state (fst (pg_app_save id db imported_sample)) (app_id imported_sample) = CpOk desired_initial \<and>
     ds_version desired_initial = 1"
proof -
  let ?db = "imported_tables\<lparr>t_desired := [desired_to_row (app_id imported_sample) sample_next]\<rparr>"
  have v: "sint (ds_version sample_next) = 2" by (simp add: sample_next_def with_config_def desired_initial_def)
  have ok: "tables_ok ?db"
    by (rule ok_desired [OF imported_ok])
      (use imported_ok v in \<open>simp_all add: desired_ok_def imported_desired tables_ok_def refs_ok_def\<close>)
  have "snd (pg_app_save id ?db imported_sample) = CpOk ()"
    by code_simp
  then have "load_desired_state (fst (pg_app_save id ?db imported_sample)) (app_id imported_sample) = CpOk (app_desired_state imported_sample)"
    using save_overwrites_generation [OF ok] by blast
  then have "load_desired_state (fst (pg_app_save id ?db imported_sample)) (app_id imported_sample) = CpOk desired_initial"
    by (simp add: imported_sample_def application_new_def Let_def)
  moreover have "current_desired_version ?db (app_id imported_sample) = CpOk 2"
    by (simp add: current_desired_version_def v)
  moreover have "ds_version desired_initial = 1" by (simp add: desired_initial_def)
  ultimately show ?thesis using ok by blast
qed

end
