(* ===== verification/Surfaces.thy ===== *)
theory Surfaces
  imports Observability Plugin_Protocol
begin

text \<open>
  The CLI and the dashboard: \<open>labrys-core/src/surfaces.rs\<close>, with \<open>Finding::to_json_value\<close> of
  \<open>observability.rs\<close>.

  \<open>execute\<close> maps the executor's record of finished calls and the platform state to what it leaves
  behind and an outcome; every \<open>expect\<close> of the source is a panic branch. Each command is a
  definition of its own that returns a \<open>command_result\<close>: done, or refused with findings. The
  identifier a registration may mint, the text form of instants and the parser of \<open>uuid\<close> are arguments.
\<close>

section \<open>Order on identifiers\<close>

text \<open>The derived order of \<open>ApplicationId\<close> is that of the identifier inside.\<close>

fun app_uuid :: "application_id \<Rightarrow> uuid" where
  "app_uuid (ApplicationId u) = u"

instantiation application_id :: linorder
begin

definition less_eq_application_id :: "application_id \<Rightarrow> application_id \<Rightarrow> bool" where
  "less_eq_application_id a b = (app_uuid a \<le> app_uuid b)"

definition less_application_id :: "application_id \<Rightarrow> application_id \<Rightarrow> bool" where
  "less_application_id a b = (app_uuid a < app_uuid b)"

instance
proof
  fix a b :: application_id
  show "a \<le> b \<Longrightarrow> b \<le> a \<Longrightarrow> a = b"
    by (cases a; cases b) (simp add: less_eq_application_id_def)
qed (auto simp: less_eq_application_id_def less_application_id_def)

end

section \<open>CLI vocabulary\<close>

datatype cli_command =
    CmdInit | CmdImport | CmdInspect | CmdDev | CmdAgent | CmdPreview | CmdCapability | CmdResources | CmdBuild
  | CmdDeploy | CmdDeployments | CmdLogs | CmdHealth | CmdRollback | CmdDoctor

fun command_name :: "cli_command \<Rightarrow> string" where
  "command_name CmdInit = ''init''"
| "command_name CmdImport = ''import''"
| "command_name CmdInspect = ''inspect''"
| "command_name CmdDev = ''dev''"
| "command_name CmdAgent = ''agent''"
| "command_name CmdPreview = ''preview''"
| "command_name CmdCapability = ''capability''"
| "command_name CmdResources = ''resources''"
| "command_name CmdBuild = ''build''"
| "command_name CmdDeploy = ''deploy''"
| "command_name CmdDeployments = ''deployments''"
| "command_name CmdLogs = ''logs''"
| "command_name CmdHealth = ''health''"
| "command_name CmdRollback = ''rollback''"
| "command_name CmdDoctor = ''doctor''"

definition is_mutating :: "cli_command \<Rightarrow> bool" where
  "is_mutating c =
     (c \<in> {CmdInit, CmdImport, CmdBuild, CmdDeploy, CmdRollback, CmdCapability, CmdPreview, CmdAgent})"

definition requires_environment :: "cli_command \<Rightarrow> bool" where
  "requires_environment c = (c \<in> {CmdDeploy, CmdRollback, CmdHealth, CmdPreview})"

definition requires_application :: "cli_command \<Rightarrow> bool" where
  "requires_application c = (c \<notin> {CmdInit, CmdImport})"

definition all_commands :: "cli_command list" where
  "all_commands = [CmdInit, CmdImport, CmdInspect, CmdDev, CmdAgent, CmdPreview, CmdCapability, CmdResources,
     CmdBuild, CmdDeploy, CmdDeployments, CmdLogs, CmdHealth, CmdRollback, CmdDoctor]"

datatype cli_actor = CliHuman string | CliAgent string string | CliPlatform string

fun cli_actor_label :: "cli_actor \<Rightarrow> string" where
  "cli_actor_label (CliHuman _) = ''human''"
| "cli_actor_label (CliAgent _ _) = ''agent''"
| "cli_actor_label (CliPlatform _) = ''platform''"

fun is_human :: "cli_actor \<Rightarrow> bool" where
  "is_human (CliHuman _) = True"
| "is_human _ = False"

fun is_agent :: "cli_actor \<Rightarrow> bool" where
  "is_agent (CliAgent _ _) = True"
| "is_agent _ = False"

fun is_platform :: "cli_actor \<Rightarrow> bool" where
  "is_platform (CliPlatform _) = True"
| "is_platform _ = False"

record cli_request =
  cl_command :: cli_command
  cl_actor :: cli_actor
  cl_application_id :: "application_id option"
  cl_environment :: "string option"
  cl_arguments :: "(string, string) btree_map"
  cl_idempotency_key :: "string option"
  cl_approval :: "explicit_approval option"

definition cli_request_new :: "cli_command \<Rightarrow> cli_actor \<Rightarrow> cli_request" where
  "cli_request_new command actor =
     \<lparr>cl_command = command, cl_actor = actor, cl_application_id = None, cl_environment = None,
      cl_arguments = [], cl_idempotency_key = None, cl_approval = None\<rparr>"

definition on_application :: "cli_request \<Rightarrow> application_id \<Rightarrow> cli_request" where
  "on_application r a = r\<lparr>cl_application_id := Some a\<rparr>"

definition in_environment :: "cli_request \<Rightarrow> string \<Rightarrow> cli_request" where
  "in_environment r e = r\<lparr>cl_environment := Some e\<rparr>"

definition with_argument :: "cli_request \<Rightarrow> string \<Rightarrow> string \<Rightarrow> cli_request" where
  "with_argument r k v = r\<lparr>cl_arguments := btm_insert k v (cl_arguments r)\<rparr>"

definition with_idempotency_key :: "cli_request \<Rightarrow> string \<Rightarrow> cli_request" where
  "with_idempotency_key r k = r\<lparr>cl_idempotency_key := Some k\<rparr>"

definition with_approval :: "cli_request \<Rightarrow> explicit_approval \<Rightarrow> cli_request" where
  "with_approval r a = r\<lparr>cl_approval := Some a\<rparr>"

record cli_response =
  cr_command :: string
  cr_ok :: bool
  cr_replayed :: bool
  cr_application :: "application_id option"
  cr_environment :: "string option"
  cr_findings :: "finding list"
  cr_data :: "json option"
  cr_idempotency_key :: "string option"
  cr_at :: time

definition has_errors :: "cli_response \<Rightarrow> bool" where
  "has_errors r = list_ex (\<lambda>f. fi_severity f = SevError) (cr_findings r)"

definition cli_response_detail :: "cli_response \<Rightarrow> string" where
  "cli_response_detail r =
     cr_command r @ '' '' @ (if cr_ok r then ''ok'' else ''FAILED'') @ '' ('' @
     show_nat (length (cr_findings r)) @ '' findings)'' @ (if cr_replayed r then '' replayed'' else [])"

record platform_state =
  ps_applications :: "application_id list"
  ps_environments :: "(application_id, string list) btree_map"
  ps_capabilities :: "(application_id, string list) btree_map"
  ps_resources :: "(application_id, string list) btree_map"
  ps_deployments :: "(application_id, string list) btree_map"
  ps_health :: "(application_id, health_snapshot) btree_map"
  ps_logs :: log_store
  ps_events :: event_log
  ps_audit :: audit_log
  ps_plugins :: plugin_registry
  ps_evidence :: "evidence_store option"

definition platform_state_new :: platform_state where
  "platform_state_new =
     \<lparr>ps_applications = [], ps_environments = [], ps_capabilities = [], ps_resources = [], ps_deployments = [],
      ps_health = [], ps_logs = [], ps_events = [], ps_audit = [], ps_plugins = [], ps_evidence = None\<rparr>"

definition add_application :: "platform_state \<Rightarrow> application_id \<Rightarrow> string list \<Rightarrow> platform_state" where
  "add_application s a environments =
     (let s = (if a \<in> set (ps_applications s) then s else s\<lparr>ps_applications := ps_applications s @ [a]\<rparr>)
      in s\<lparr>ps_environments := btm_insert a environments (ps_environments s)\<rparr>)"

definition knows :: "platform_state \<Rightarrow> application_id \<Rightarrow> bool" where
  "knows s a = (a \<in> set (ps_applications s))"

section \<open>Rendering\<close>

fun severity_lower :: "severity \<Rightarrow> string" where
  "severity_lower SevInfo = ''info''"
| "severity_lower SevWarning = ''warning''"
| "severity_lower SevError = ''error''"

definition finding_to_json :: "finding \<Rightarrow> json" where
  "finding_to_json f =
     json_object [(''code'', JString (fi_code f)), (''severity'', JString (severity_lower (fi_severity f))),
       (''message'', JString (fi_message f)), (''recovery'', json_option (map_option JString (fi_recovery f))),
       (''resource'', json_option (map_option (\<lambda>r. json_object [(''kind'', JString (er_kind r)),
          (''id'', JString (er_id r))]) (fi_resource f)))]"

fun debug_health_state :: "health_state \<Rightarrow> string" where
  "debug_health_state HsUnknown = ''Unknown''"
| "debug_health_state HsProvisioning = ''Provisioning''"
| "debug_health_state HsHealthy = ''Healthy''"
| "debug_health_state HsDegraded = ''Degraded''"
| "debug_health_state HsFailed = ''Failed''"
| "debug_health_state HsPaused = ''Paused''"

fun debug_log_level :: "log_level \<Rightarrow> string" where
  "debug_log_level LogInfo = ''Info''"
| "debug_log_level LogWarn = ''Warn''"
| "debug_log_level LogError = ''Error''"

definition json_strings :: "string list \<Rightarrow> json" where
  "json_strings xs = JArray (map JString xs)"

definition get_list :: "(application_id, string list) btree_map \<Rightarrow> application_id \<Rightarrow> string list" where
  "get_list m a = (case btm_get m a of Some xs \<Rightarrow> xs | None \<Rightarrow> [])"

section \<open>Checks before a command\<close>

definition cli_authorize :: "cli_request \<Rightarrow> finding option" where
  "cli_authorize r =
     (if is_agent (cl_actor r) \<and> cl_command r \<in> {CmdInit, CmdImport, CmdDeploy, CmdRollback, CmdBuild}
      then Some (finding_with_recovery (finding_error ''cli.permission_denied''
             (''an agent session may not run '' @ quoted (command_name (cl_command r))))
             ''a human operator must run this command'')
      else if cl_command r = CmdRollback \<and> \<not> is_human (cl_actor r)
      then Some (finding_with_recovery (finding_error ''cli.permission_denied''
             ''rollback is a human-only operation'') ''a named human must issue the rollback'')
      else if is_platform (cl_actor r) \<and> cl_command r \<in> {CmdDeploy, CmdRollback}
      then Some (finding_with_recovery (finding_error ''cli.permission_denied''
             (''platform automation may not issue '' @ quoted (command_name (cl_command r))))
             ''route this through a human approval flow'')
      else None)"

definition cli_failure :: "cli_request \<Rightarrow> time \<Rightarrow> finding list \<Rightarrow> cli_response" where
  "cli_failure r now findings =
     \<lparr>cr_command = command_name (cl_command r), cr_ok = False, cr_replayed = False,
      cr_application = cl_application_id r, cr_environment = cl_environment r, cr_findings = findings,
      cr_data = None, cr_idempotency_key = cl_idempotency_key r, cr_at = now\<rparr>"

definition application_findings :: "platform_state \<Rightarrow> cli_request \<Rightarrow> finding list" where
  "application_findings s r =
     (if \<not> requires_application (cl_command r) then []
      else (case cl_application_id r of
              None \<Rightarrow> [finding_with_recovery (finding_error ''cli.application_required''
                (quoted (command_name (cl_command r)) @ '' needs an application''))
                ''pass --application <id> or run `labrys import .` first'']
            | Some a \<Rightarrow>
                if \<not> knows s a
                then [finding_with_recovery (finding_error ''cli.application_unknown''
                  (''application '' @ application_id_display a @ '' is not registered''))
                  ''run `labrys import .` to register this project'']
                else []))"

definition environment_known :: "platform_state \<Rightarrow> cli_request \<Rightarrow> bool" where
  "environment_known s r =
     (case Option.bind (cl_application_id r) (btm_get (ps_environments s)) of
        Some envs \<Rightarrow> list_ex (\<lambda>e. Some e = cl_environment r) envs
      | None \<Rightarrow> False)"

definition environment_findings :: "platform_state \<Rightarrow> cli_request \<Rightarrow> finding list" where
  "environment_findings s r =
     (if requires_environment (cl_command r) \<and> (cl_environment r = None \<or> \<not> environment_known s r)
      then [finding_with_recovery (finding_error ''cli.environment_unknown''
             (quoted (command_name (cl_command r)) @ '' needs a known environment, got '' @
              debug_option debug_str (cl_environment r)))
             ''list environments with `labrys inspect`'']
      else [])"

section \<open>Commands\<close>

datatype command_result = Done bool "json option" "finding list" | Refused "finding list"

text \<open>\<open>expect("validated above")\<close> on an optional target.\<close>

definition validated :: "'a option \<Rightarrow> ('a \<Rightarrow> platform_state \<times> command_result outcome) \<Rightarrow> platform_state \<Rightarrow>
    platform_state \<times> command_result outcome" where
  "validated target k s = (case target of Some x \<Rightarrow> k x | None \<Rightarrow> (s, Panic ''validated above''))"

definition argument_or :: "cli_request \<Rightarrow> string \<Rightarrow> string \<Rightarrow> string" where
  "argument_or r k d = (case btm_get (cl_arguments r) k of Some v \<Rightarrow> v | None \<Rightarrow> d)"

definition state_audit ::
  "(time \<Rightarrow> string) \<Rightarrow> platform_state \<Rightarrow> time \<Rightarrow> string \<Rightarrow> string \<Rightarrow> string \<Rightarrow> string \<Rightarrow> string list \<Rightarrow> platform_state" where
  "state_audit rfc3339 s now actor action target detail secrets =
     s\<lparr>ps_audit := fst (audit_append rfc3339 (ps_audit s) now actor action target detail secrets)\<rparr>"

definition run_register ::
  "(time \<Rightarrow> string) \<Rightarrow> uuid \<Rightarrow> platform_state \<Rightarrow> cli_request \<Rightarrow> string list \<Rightarrow> time \<Rightarrow>
   platform_state \<times> command_result outcome" where
  "run_register rfc3339 u s r secrets now =
     (let a = (case cl_application_id r of Some a \<Rightarrow> a | None \<Rightarrow> ApplicationId u);
          path = argument_or r ''path'' ''.'';
          s = add_application s a [''development'', ''production''];
          s = state_audit rfc3339 s now (cli_actor_label (cl_actor r)) (command_name (cl_command r))
                (application_id_display a) (''registered from '' @ path) secrets
      in (s, Ok (Done True
           (Some (json_object [(''application_id'', JString (application_id_display a)), (''path'', JString path),
              (''environments'', json_strings [''development'', ''production''])]))
           [finding_info ''cli.registered'' (''application '' @ application_id_display a @
              '' registered from '' @ path)])))"

definition run_inspect :: "platform_state \<Rightarrow> cli_request \<Rightarrow> platform_state \<times> command_result outcome" where
  "run_inspect s r =
     validated (cl_application_id r) (\<lambda>a.
       let capabilities = get_list (ps_capabilities s) a; resources = get_list (ps_resources s) a
       in (s, Ok (Done True
            (Some (json_object [(''application_id'', JString (application_id_display a)),
               (''environments'', json_strings (get_list (ps_environments s) a)),
               (''capabilities'', json_strings capabilities), (''resources'', json_strings resources),
               (''deployments'', json_strings (get_list (ps_deployments s) a))]))
            [finding_info ''cli.inspected'' (show_nat (length capabilities) @ '' capabilities, '' @
               show_nat (length resources) @ '' resources'')]))) s"

definition doctor_health :: "health_snapshot option \<Rightarrow> time \<Rightarrow> finding" where
  "doctor_health snapshot now =
     (case snapshot of
        None \<Rightarrow> finding_with_recovery (finding_warning ''doctor.no_health_evidence''
          ''no platform health observation recorded'') ''run a health probe or wait for the controller''
      | Some h \<Rightarrow>
          if snapshot_is_stale h now
          then finding_with_recovery (finding_warning ''doctor.stale_health''
                 (''health evidence for '' @ quoted (hs_target h) @ '' is stale''))
                 ''re-probe before trusting this result''
          else finding_info ''doctor.health''
                 (hs_target h @ '' is '' @ debug_health_state (effective_state h now)))"

definition doctor_plugin :: "plugin_report \<Rightarrow> finding" where
  "doctor_plugin p =
     (case pt_state p of
        PlActive \<Rightarrow> finding_info ''doctor.plugin'' (pt_name p @ '' ('' @ family_name (pt_family p) @ '') active'')
      | other \<Rightarrow> finding_with_recovery (finding_error ''doctor.plugin_unavailable''
          (pt_name p @ '' ('' @ family_name (pt_family p) @ '') is '' @ debug_plugin_state other)) (pt_detail p))"

definition doctor_evidence :: "verification_evidence \<Rightarrow> finding" where
  "doctor_evidence e =
     finding_with_recovery (finding_error ''doctor.failed_evidence'' (evidence_event_detail e))
       (case ve_recovery e of Some r \<Rightarrow> r | None \<Rightarrow> ''inspect the failing check and re-run verification'')"

definition run_doctor :: "platform_state \<Rightarrow> cli_request \<Rightarrow> time \<Rightarrow> platform_state \<times> command_result outcome" where
  "run_doctor s r now =
     validated (cl_application_id r) (\<lambda>a.
       let doctor = [doctor_health (btm_get (ps_health s) a) now] @
             map doctor_plugin (registry_report (ps_plugins s)) @
             (case ps_evidence s of
                Some store \<Rightarrow> map doctor_evidence (filter (\<lambda>e. \<not> ve_passed e) (es_evidence store))
              | None \<Rightarrow> []);
           ok = (\<not> list_ex (\<lambda>f. fi_severity f = SevError) doctor)
       in (s, Ok (Done ok
            (Some (json_object [(''application_id'', JString (application_id_display a)),
               (''checks'', JArray (map finding_to_json doctor))])) doctor))) s"

definition log_source_of :: "string \<Rightarrow> log_source option" where
  "log_source_of name =
     find (\<lambda>s. log_source_name s = name) [LsAgent, LsBuild, LsRuntime, LsDeployment, LsCapability, LsResource]"

definition render_log_entry :: "log_entry \<Rightarrow> json" where
  "render_log_entry e =
     json_object [(''sequence'', JNumber (NumU64 (le_sequence e))), (''source'', JString (log_source_name (le_source e))),
       (''level'', JString (debug_log_level (le_level e))), (''message'', JString (le_message e)),
       (''trace'', JString (co_trace_id (le_correlation e)))]"

definition run_logs :: "platform_state \<Rightarrow> cli_request \<Rightarrow> platform_state \<times> command_result outcome" where
  "run_logs s r =
     validated (cl_application_id r) (\<lambda>a.
       let entries = (case Option.bind (btm_get (cl_arguments r) ''source'') log_source_of of
               Some source \<Rightarrow> log_for_source (ps_logs s) source
             | None \<Rightarrow> ps_logs s);
           rendered = map render_log_entry entries
       in (s, Ok (Done True
            (Some (json_object [(''application_id'', JString (application_id_display a)),
               (''entries'', JArray rendered)]))
            [finding_info ''cli.logs'' (show_nat (length rendered) @ '' entries'')]))) s"

definition run_health ::
  "(time \<Rightarrow> string) \<Rightarrow> platform_state \<Rightarrow> cli_request \<Rightarrow> time \<Rightarrow> platform_state \<times> command_result outcome" where
  "run_health rfc3339 s r now =
     validated (cl_application_id r) (\<lambda>a.
       case btm_get (ps_health s) a of
         None \<Rightarrow> (s, Ok (Done False None [finding_with_recovery (finding_error ''cli.no_health''
           ''no platform health evidence for this application'')
           ''run `labrys doctor` to see which probe is missing'']))
       | Some h \<Rightarrow>
           (let effective = effective_state h now; stale = snapshot_is_stale h now;
                first = \<lparr>fi_code = ''cli.health'',
                  fi_severity = (if stale \<or> effective \<noteq> HsHealthy then SevWarning else SevInfo),
                  fi_message = hs_target h @ '' is '' @ debug_health_state effective,
                  fi_recovery = (if stale then Some ''re-probe; this observation is older than its ttl'' else None),
                  fi_resource = None\<rparr>
            in (s, Ok (Done (effective = HsHealthy \<and> \<not> stale)
                 (Some (json_object [(''state'', JString (debug_health_state effective)), (''stale'', JBool stale),
                    (''observed_at'', JString (rfc3339 (hs_observed_at h)))]))
                 (first # (case hs_detail h of
                    Some detail \<Rightarrow> [finding_info ''cli.health_detail'' detail] | None \<Rightarrow> [])))))) s"

definition request_granted :: "cli_request \<Rightarrow> bool" where
  "request_granted r =
     (case cl_approval r of Some a \<Rightarrow> ea_approved a \<and> trim (ea_approver a) \<noteq> [] | None \<Rightarrow> False)"

definition run_rollback ::
  "(time \<Rightarrow> string) \<Rightarrow> platform_state \<Rightarrow> cli_request \<Rightarrow> string list \<Rightarrow> time \<Rightarrow> platform_state \<times> command_result outcome" where
  "run_rollback rfc3339 s r secrets now =
     validated (cl_application_id r) (\<lambda>a.
       if \<not> request_granted r
       then (s, Ok (Refused [finding_with_recovery (finding_error ''cli.approval_required''
              ''rollback requires a granted, named human approval'')
              ''re-run with --approve-by <name> --target <id>'']))
       else (case cl_approval r of
               None \<Rightarrow> (s, Panic ''granted above'')
             | Some approval \<Rightarrow>
                 (let target = argument_or r ''target'' ''previous'';
                      s = state_audit rfc3339 s now (ea_approver approval) ''rollback'' (application_id_display a)
                            ''traffic moved; database data not restored'' secrets
                  in (s, Ok (Done True
                       (Some (json_object [(''application_id'', JString (application_id_display a)),
                          (''target'', JString target), (''approved_by'', JString (ea_approver approval)),
                          (''database_data_restored'', JBool False), (''warning'', JString database_data_warning)]))
                       [finding_info ''cli.rolled_back'' (''rolled back to '' @ target)]))))) s"

definition run_deploy ::
  "(time \<Rightarrow> string) \<Rightarrow> platform_state \<Rightarrow> cli_request \<Rightarrow> string list \<Rightarrow> time \<Rightarrow> platform_state \<times> command_result outcome" where
  "run_deploy rfc3339 s r secrets now =
     validated (cl_application_id r) (\<lambda>a.
     validated (cl_environment r) (\<lambda>environment.
       if environment = ''production'' \<and> \<not> is_human (cl_actor r)
       then (s, Ok (Refused [finding_with_recovery (finding_error ''cli.permission_denied''
              ''production deployment requires a human actor'')
              ''a human must run `labrys deploy --environment production`'']))
       else
         (let digest = argument_or r ''artifact'' ''sha256:unspecified'';
              s = s\<lparr>ps_deployments := btm_insert a
                    (get_list (ps_deployments s) a @ [environment @ '':'' @ digest]) (ps_deployments s)\<rparr>;
              s = state_audit rfc3339 s now (cli_actor_label (cl_actor r)) (command_name (cl_command r))
                    (application_id_display a) (environment @ '' -> '' @ digest) secrets
          in (s, Ok (Done True
               (Some (json_object [(''application_id'', JString (application_id_display a)),
                  (''environment'', JString environment), (''artifact'', JString digest),
                  (''health_gate'', JBool True)]))
               [finding_info ''cli.converging'' (command_name (cl_command r) @ '' '' @ digest @
                  '' requested; promotion waits for health'')])))) s) s"

definition run_listing ::
  "(time \<Rightarrow> string) \<Rightarrow> platform_state \<Rightarrow> cli_request \<Rightarrow> string list \<Rightarrow> time \<Rightarrow> platform_state \<times> command_result outcome" where
  "run_listing rfc3339 s r secrets now =
     validated (cl_application_id r) (\<lambda>a.
       let (key, listed) = (case cl_command r of
               CmdCapability \<Rightarrow> (''capabilities'', get_list (ps_capabilities s) a)
             | CmdResources \<Rightarrow> (''resources'', get_list (ps_resources s) a)
             | CmdDeployments \<Rightarrow> (''deployments'', get_list (ps_deployments s) a)
             | c \<Rightarrow> (command_name c, []));
           s = (if is_mutating (cl_command r)
                then state_audit rfc3339 s now (cli_actor_label (cl_actor r)) (command_name (cl_command r))
                       (application_id_display a) ''requested'' secrets
                else s)
       in (s, Ok (Done True
            (Some (json_object [(''application_id'', JString (application_id_display a)), (key, json_strings listed)]))
            [finding_info (''cli.'' @ command_name (cl_command r)) (show_nat (length listed) @ '' entries'')]))) s"

definition run_command ::
  "(time \<Rightarrow> string) \<Rightarrow> uuid \<Rightarrow> platform_state \<Rightarrow> cli_request \<Rightarrow> string list \<Rightarrow> time \<Rightarrow>
   platform_state \<times> command_result outcome" where
  "run_command rfc3339 u s r secrets now =
     (case cl_command r of
        CmdInit \<Rightarrow> run_register rfc3339 u s r secrets now
      | CmdImport \<Rightarrow> run_register rfc3339 u s r secrets now
      | CmdInspect \<Rightarrow> run_inspect s r
      | CmdDoctor \<Rightarrow> run_doctor s r now
      | CmdLogs \<Rightarrow> run_logs s r
      | CmdHealth \<Rightarrow> run_health rfc3339 s r now
      | CmdRollback \<Rightarrow> run_rollback rfc3339 s r secrets now
      | CmdDeploy \<Rightarrow> run_deploy rfc3339 s r secrets now
      | CmdBuild \<Rightarrow> run_deploy rfc3339 s r secrets now
      | _ \<Rightarrow> run_listing rfc3339 s r secrets now)"

section \<open>The executor\<close>

type_synonym cli = "(string, cli_response) btree_map"

definition resolved_application ::
  "(string \<Rightarrow> uuid option) \<Rightarrow> cli_request \<Rightarrow> bool \<Rightarrow> json option \<Rightarrow> application_id option" where
  "resolved_application parse r ok data =
     (if ok \<and> cl_command r \<in> {CmdInit, CmdImport}
      then (case Option.bind (Option.bind data (\<lambda>d. json_get d ''application_id'')) json_as_str of
              Some t \<Rightarrow> (case application_id_from_str parse t of Inr a \<Rightarrow> Some a | Inl _ \<Rightarrow> None)
            | None \<Rightarrow> None)
      else None)"

definition cli_finish ::
  "(string \<Rightarrow> uuid option) \<Rightarrow> cli \<Rightarrow> cli_request \<Rightarrow> time \<Rightarrow> bool \<Rightarrow> json option \<Rightarrow> finding list \<Rightarrow> cli \<times> cli_response" where
  "cli_finish parse c r now ok data findings =
     (let response = \<lparr>cr_command = command_name (cl_command r), cr_ok = ok, cr_replayed = False,
            cr_application = (case resolved_application parse r ok data of
               Some a \<Rightarrow> Some a | None \<Rightarrow> cl_application_id r),
            cr_environment = cl_environment r, cr_findings = findings, cr_data = data,
            cr_idempotency_key = cl_idempotency_key r, cr_at = now\<rparr>;
          c = (case cl_idempotency_key r of Some key \<Rightarrow> btm_insert key response c | None \<Rightarrow> c)
      in (c, response))"

definition cli_execute ::
  "(time \<Rightarrow> string) \<Rightarrow> (string \<Rightarrow> uuid option) \<Rightarrow> uuid \<Rightarrow> cli \<Rightarrow> platform_state \<Rightarrow> cli_request \<Rightarrow> string list \<Rightarrow> time \<Rightarrow>
   (cli \<times> platform_state) \<times> cli_response outcome" where
  "cli_execute rfc3339 parse u c s r secrets now =
     (case cli_authorize r of
        Some denied \<Rightarrow> ((c, s), Ok (cli_failure r now [denied]))
      | None \<Rightarrow>
     (if is_mutating (cl_command r) \<and> cl_idempotency_key r = None
      then ((c, s), Ok (cli_failure r now [finding_with_recovery (finding_error ''cli.idempotency_required''
             (quoted (command_name (cl_command r)) @ '' changes platform state and needs an idempotency key''))
             ''re-run with --idempotency-key <key> so a retry is safe'']))
      else
     (case Option.bind (cl_idempotency_key r) (btm_get c) of
        Some replay \<Rightarrow> ((c, s), Ok (replay\<lparr>cr_replayed := True\<rparr>))
      | None \<Rightarrow>
     (let findings = application_findings s r @ environment_findings s r in
      if findings \<noteq> [] then ((c, s), Ok (cli_failure r now findings))
      else
     (case run_command rfc3339 u s r secrets now of
        (s', Ok (Done ok data findings)) \<Rightarrow>
          (case cli_finish parse c r now ok data findings of (c', response) \<Rightarrow> ((c', s'), Ok response))
      | (s', Ok (Refused findings)) \<Rightarrow> ((c, s'), Ok (cli_failure r now findings))
      | (s', Err e) \<Rightarrow> ((c, s'), Err e)
      | (s', Panic m) \<Rightarrow> ((c, s'), Panic m))))))"

section \<open>Dashboard\<close>

datatype dashboard_section =
    SecApps | SecOverview | SecVibe | SecCodeChanges | SecPreview | SecCapabilities | SecResources | SecRuntime
  | SecDeployments | SecLogs | SecSecrets | SecSettings

definition all_sections :: "dashboard_section list" where
  "all_sections = [SecApps, SecOverview, SecVibe, SecCodeChanges, SecPreview, SecCapabilities, SecResources,
     SecRuntime, SecDeployments, SecLogs, SecSecrets, SecSettings]"

fun section_name :: "dashboard_section \<Rightarrow> string" where
  "section_name SecApps = ''apps''"
| "section_name SecOverview = ''overview''"
| "section_name SecVibe = ''vibe''"
| "section_name SecCodeChanges = ''code_changes''"
| "section_name SecPreview = ''preview''"
| "section_name SecCapabilities = ''capabilities''"
| "section_name SecResources = ''resources''"
| "section_name SecRuntime = ''runtime''"
| "section_name SecDeployments = ''deployments''"
| "section_name SecLogs = ''logs''"
| "section_name SecSecrets = ''secrets''"
| "section_name SecSettings = ''settings''"

definition is_read_only :: "dashboard_section \<Rightarrow> bool" where
  "is_read_only x = (x \<in> {SecSecrets, SecLogs, SecCodeChanges})"

definition section_requires_approval :: "dashboard_section \<Rightarrow> bool" where
  "section_requires_approval x = (x \<in> {SecDeployments, SecCapabilities, SecResources, SecSettings})"

datatype attribution = ByAgent string string | ByPlatform string | ByHuman string

fun attribution_label :: "attribution \<Rightarrow> string" where
  "attribution_label (ByAgent _ _) = ''agent''"
| "attribution_label (ByPlatform _) = ''platform''"
| "attribution_label (ByHuman _) = ''human''"

record dashboard_entry =
  de_key :: string
  de_value :: string
  de_attribution :: attribution
  de_state :: "health_state option"
  de_evidence_source :: "string option"

record secret_row =
  sx_ref_id :: string
  sx_version_hint :: string
  sx_environment :: string

text \<open>
  The map of sections has an entry for every section from the start, so it is a total function here;
  pushing to a section can not fail, as the source expects.
\<close>

type_synonym dashboard_sections = "dashboard_section \<Rightarrow> dashboard_entry list"

record dashboard_view =
  dv_application_id :: application_id
  dv_environment :: string
  dv_production_healthy :: bool
  dv_sections :: dashboard_sections
  dv_secrets :: "secret_row list"
  dv_agent_completion_claim :: "string option"
  dv_at :: time

definition push_entry :: "dashboard_section \<Rightarrow> dashboard_entry \<Rightarrow> dashboard_sections \<Rightarrow> dashboard_sections" where
  "push_entry x e m = m(x := m x @ [e])"

definition platform_failures :: "dashboard_view \<Rightarrow> dashboard_entry list" where
  "platform_failures v =
     filter (\<lambda>e. attribution_label (de_attribution e) = ''platform'' \<and> de_state e \<in> {Some HsFailed, Some HsDegraded})
       (concat (map (dv_sections v) all_sections))"

definition health_entry :: "health_snapshot option \<Rightarrow> time \<Rightarrow> dashboard_entry" where
  "health_entry snapshot now =
     \<lparr>de_key = ''health'', de_value = (case snapshot of Some h \<Rightarrow> hs_target h | None \<Rightarrow> ''no probe''),
      de_attribution = ByPlatform ''health-probe'',
      de_state = map_option (\<lambda>h. effective_state h now) snapshot,
      de_evidence_source = map_option (\<lambda>_. ''platform:health-probe'') snapshot\<rparr>"

text \<open>One event of the stream: the claim and the sections after it.\<close>

definition push_event ::
  "platform_event \<Rightarrow> string option \<times> dashboard_sections \<Rightarrow> string option \<times> dashboard_sections" where
  "push_event e cm =
     (case cm of (claim, m) \<Rightarrow>
       (case ev_actor e of
          ActorAgent session_id name \<Rightarrow>
            (if ev_action e = VerificationFinished then Some (platform_event_detail e) else claim,
             push_entry SecVibe \<lparr>de_key = ''e'' @ show_u64 (ev_sequence e), de_value = platform_event_detail e,
               de_attribution = ByAgent (agent_session_id_display session_id) name, de_state = None,
               de_evidence_source = Some ''agent:session-stream''\<rparr> m)
        | actor \<Rightarrow>
            (claim,
             push_entry SecOverview \<lparr>de_key = ''e'' @ show_u64 (ev_sequence e), de_value = platform_event_detail e,
               de_attribution = ByPlatform (kind_label actor), de_state = None,
               de_evidence_source = Some ''platform:event-log''\<rparr> m)))"

definition deployment_log_row :: "log_entry \<Rightarrow> dashboard_entry" where
  "deployment_log_row e =
     \<lparr>de_key = ''log'' @ show_u64 (le_sequence e), de_value = le_message e,
      de_attribution = ByPlatform ''deployment-controller'', de_state = Some HsFailed,
      de_evidence_source = Some ''platform:deployment-log''\<rparr>"

definition named_row :: "string \<Rightarrow> string \<Rightarrow> string \<Rightarrow> dashboard_entry" where
  "named_row controller source name =
     \<lparr>de_key = name, de_value = name, de_attribution = ByPlatform controller, de_state = None,
      de_evidence_source = Some source\<rparr>"

definition plugin_row :: "plugin_report \<Rightarrow> dashboard_entry" where
  "plugin_row p =
     \<lparr>de_key = pt_id p, de_value = pt_detail p, de_attribution = ByPlatform ''plugin-registry'',
      de_state = Some HsFailed, de_evidence_source = Some ''platform:plugin-handshake''\<rparr>"

definition log_row :: "log_entry \<Rightarrow> dashboard_entry" where
  "log_row e =
     \<lparr>de_key = show_u64 (le_sequence e), de_value = ''['' @ log_source_name (le_source e) @ ''] '' @ le_message e,
      de_attribution = ByPlatform (log_source_name (le_source e)), de_state = None,
      de_evidence_source = Some (''platform:log-'' @ log_source_name (le_source e))\<rparr>"

definition push_all :: "dashboard_section \<Rightarrow> dashboard_entry list \<Rightarrow> dashboard_sections \<Rightarrow> dashboard_sections" where
  "push_all x rows m = fold (push_entry x) rows m"

definition render_dashboard :: "platform_state \<Rightarrow> application_id \<Rightarrow> string \<Rightarrow> time \<Rightarrow> dashboard_view outcome" where
  "render_dashboard s a environment now =
     (if \<not> knows s a then Err (NotFound (application_id_display a))
      else
        (let snapshot = btm_get (ps_health s) a;
             healthy = (case snapshot of
                 Some h \<Rightarrow> \<not> snapshot_is_stale h now \<and> effective_state h now = HsHealthy
               | None \<Rightarrow> False);
             m = push_entry SecOverview (health_entry snapshot now) (\<lambda>_. []);
             (claim, m) = fold push_event (events_for_application (ps_events s) a) (None, m);
             m = push_all SecDeployments (map deployment_log_row
                   (filter (\<lambda>e. le_level e = LogError) (log_for_source (ps_logs s) LsDeployment))) m;
             m = push_all SecCapabilities (map (named_row ''capability-controller'' ''platform:binding'')
                   (get_list (ps_capabilities s) a)) m;
             m = push_all SecResources (map (named_row ''resource-controller'' ''platform:resource'')
                   (get_list (ps_resources s) a)) m;
             m = push_all SecDeployments (map (named_row ''deployment-controller'' ''platform:deployment'')
                   (get_list (ps_deployments s) a)) m;
             m = push_all SecSettings (map plugin_row
                   (filter (\<lambda>p. pt_state p \<noteq> PlActive) (registry_report (ps_plugins s)))) m;
             m = push_all SecLogs (map log_row (ps_logs s)) m
         in Ok \<lparr>dv_application_id = a, dv_environment = environment, dv_production_healthy = healthy,
                dv_sections = m, dv_secrets = [], dv_agent_completion_claim = claim, dv_at = now\<rparr>))"

definition attach_secret_rows :: "dashboard_view \<Rightarrow> secret_row list \<Rightarrow> dashboard_view" where
  "attach_secret_rows v rows = v\<lparr>dv_secrets := rows\<rparr>"

definition authorize_dashboard_write ::
  "dashboard_section \<Rightarrow> cli_actor \<Rightarrow> explicit_approval option \<Rightarrow> unit outcome" where
  "authorize_dashboard_write x actor approval =
     (if is_read_only x
      then Err (PermissionDenied (''the '' @ quoted (section_name x) @ '' section is read-only''))
      else if is_agent actor
      then Err (PermissionDenied
             ''agent sessions cannot write through the dashboard; use the platform API'')
      else if section_requires_approval x \<and>
         \<not> (case approval of Some a \<Rightarrow> ea_approved a \<and> trim (ea_approver a) \<noteq> [] | None \<Rightarrow> False)
      then Err (ApprovalRequired (''writing to '' @ quoted (section_name x) @
             '' requires a granted, named human approval''))
      else Ok ())"

section \<open>What a request can change\<close>

text \<open>
  The effects a request can have on the platform: none, one audit record of an intent, a registration, or
  a deployment request; the last two with the conditions under which the command performs them.
\<close>

inductive cli_effect :: "(time \<Rightarrow> string) \<Rightarrow> cli_request \<Rightarrow> platform_state \<Rightarrow> platform_state \<Rightarrow> bool"
  for rf :: "time \<Rightarrow> string" and r :: cli_request where
  nothing: "cli_effect rf r s s"
| intent: "is_mutating (cl_command r) \<Longrightarrow> cli_effect rf r s (s\<lparr>ps_audit := audit_push rf (ps_audit s) e\<rparr>)"
| registration: "is_mutating (cl_command r) \<Longrightarrow> \<not> is_agent (cl_actor r) \<Longrightarrow>
    cli_effect rf r s ((add_application s a envs)\<lparr>ps_audit := audit_push rf (ps_audit s) e\<rparr>)"
| deployment: "is_mutating (cl_command r) \<Longrightarrow> \<not> is_agent (cl_actor r) \<Longrightarrow> knows s a \<Longrightarrow>
    (environment = ''production'' \<longrightarrow> is_human (cl_actor r)) \<Longrightarrow>
    cli_effect rf r s (s\<lparr>ps_deployments := btm_insert a
        (get_list (ps_deployments s) a @ [environment @ '':'' @ digest]) (ps_deployments s),
      ps_audit := audit_push rf (ps_audit s) e\<rparr>)"

inductive_cases cli_effectE: "cli_effect rf r s s'"

lemma state_audit_push:
  "state_audit rf s now actor action target detail secrets =
     s\<lparr>ps_audit := audit_push rf (ps_audit s) (now, actor, action, target, detail, secrets)\<rparr>"
  by (simp add: state_audit_def audit_push_def)

lemma add_application_audit [simp]: "ps_audit (add_application s a envs) = ps_audit s"
  by (simp add: add_application_def Let_def)

lemma validated_effect:
  assumes "\<And>x. target = Some x \<Longrightarrow> cli_effect rf r s (fst (k x))"
  shows "cli_effect rf r s (fst (validated target k s))"
  using assms cli_effect.nothing by (cases target) (auto simp: validated_def)

lemma run_register_effect:
  "\<not> is_agent (cl_actor r) \<Longrightarrow> is_mutating (cl_command r) \<Longrightarrow>
   cli_effect rf r s (fst (run_register rf u s r secrets now))"
  unfolding run_register_def Let_def state_audit_push fst_conv add_application_audit
  by (rule cli_effect.registration)

lemma run_reads_effect:
  "cli_effect rf r s (fst (run_inspect s r))" "cli_effect rf r s (fst (run_doctor s r now))"
  "cli_effect rf r s (fst (run_logs s r))" "cli_effect rf r s (fst (run_health rf s r now))"
  unfolding run_inspect_def run_doctor_def run_logs_def run_health_def Let_def
  by (rule validated_effect, simp add: cli_effect.nothing split: option.split)+

lemma guard_effect:
  "(\<not> b \<Longrightarrow> cli_effect rf r s (fst y)) \<Longrightarrow> cli_effect rf r s (fst (if b then (s, x) else y))"
  using cli_effect.nothing by (cases b) simp_all

lemma run_rollback_effect:
  assumes "is_mutating (cl_command r)"
  shows "cli_effect rf r s (fst (run_rollback rf s r secrets now))"
  unfolding run_rollback_def state_audit_push Let_def
  by (rule validated_effect, rule guard_effect, cases "cl_approval r")
    (simp_all only: option.case fst_conv cli_effect.nothing cli_effect.intent [OF assms])

lemma run_deploy_effect:
  assumes "\<not> is_agent (cl_actor r)" "is_mutating (cl_command r)" "\<And>a. cl_application_id r = Some a \<Longrightarrow> knows s a"
  shows "cli_effect rf r s (fst (run_deploy rf s r secrets now))"
  unfolding run_deploy_def state_audit_push Let_def
proof (rule validated_effect, rule validated_effect, rule guard_effect)
  fix a environment assume a: "cl_application_id r = Some a"
    and h: "\<not> (environment = ''production'' \<and> \<not> is_human (cl_actor r))"
  let ?s = "s\<lparr>ps_deployments := btm_insert a (get_list (ps_deployments s) a @
      [environment @ '':'' @ argument_or r ''artifact'' ''sha256:unspecified'']) (ps_deployments s)\<rparr>"
  have "cli_effect rf r s (fst (?s\<lparr>ps_audit := audit_push rf (ps_audit ?s) e\<rparr>, x))" for e and x :: "command_result outcome"
    using cli_effect.deployment [OF assms(2,1) assms(3) [OF a], of environment] h by simp
  then show "cli_effect rf r s (fst (?s\<lparr>ps_audit := audit_push rf (ps_audit ?s) (now, cli_actor_label (cl_actor r),
               command_name (cl_command r), application_id_display a,
               environment @ '' -> '' @ argument_or r ''artifact'' ''sha256:unspecified'', secrets)\<rparr>, x))"
    for x :: "command_result outcome" by blast
qed

lemma run_listing_effect: "cli_effect rf r s (fst (run_listing rf s r secrets now))"
  unfolding run_listing_def state_audit_push Let_def
  by (rule validated_effect)
    (cases "is_mutating (cl_command r)"; simp add: case_prod_beta cli_effect.nothing cli_effect.intent)

lemma run_command_effect:
  assumes "cli_authorize r = None" "application_findings s r = []"
  shows "cli_effect rf r s (fst (run_command rf u s r secrets now))"
proof -
  have k: "knows s a" if "cl_application_id r = Some a" "requires_application (cl_command r)" for a
    using assms(2) that by (auto simp: application_findings_def split: if_splits)
  have ag: "\<not> is_agent (cl_actor r)" if "cl_command r \<in> {CmdInit, CmdImport, CmdDeploy, CmdRollback, CmdBuild}"
    using assms(1) that by (auto simp: cli_authorize_def split: if_splits)
  show ?thesis
    by (cases "cl_command r")
      (use k ag in \<open>auto simp: run_command_def is_mutating_def requires_application_def
        intro!: run_register_effect run_reads_effect run_rollback_effect run_deploy_effect run_listing_effect\<close>)
qed

text \<open>The request reached its command: it passed permission, key, replay and target checks.\<close>

definition cli_admitted :: "cli \<Rightarrow> platform_state \<Rightarrow> cli_request \<Rightarrow> bool" where
  "cli_admitted c s r =
     (cli_authorize r = None \<and> (is_mutating (cl_command r) \<longrightarrow> cl_idempotency_key r \<noteq> None) \<and>
      Option.bind (cl_idempotency_key r) (btm_get c) = None \<and>
      application_findings s r = [] \<and> environment_findings s r = [])"

lemma cli_execute_refused:
  assumes "\<not> cli_admitted c s r"
  shows "\<exists>response. cli_execute rf parse u c s r secrets now = ((c, s), Ok response)"
proof (cases "cli_authorize r")
  case None
  show ?thesis
  proof (cases "Option.bind (cl_idempotency_key r) (btm_get c)")
    case fresh: None
    then have "is_mutating (cl_command r) \<and> cl_idempotency_key r = None \<or>
        application_findings s r @ environment_findings s r \<noteq> []"
      using assms None by (auto simp: cli_admitted_def)
    then show ?thesis using None fresh unfolding cli_execute_def Let_def by (auto simp del: append_is_Nil_conv)
  qed (use None in \<open>simp add: cli_execute_def\<close>)
qed (simp add: cli_execute_def)

lemma cli_execute_admitted:
  assumes "cli_admitted c s r"
  shows "cli_execute rf parse u c s r secrets now =
     (case run_command rf u s r secrets now of
        (s', Ok (Done ok data findings)) \<Rightarrow>
          (case cli_finish parse c r now ok data findings of (c', response) \<Rightarrow> ((c', s'), Ok response))
      | (s', Ok (Refused findings)) \<Rightarrow> ((c, s'), Ok (cli_failure r now findings))
      | (s', Err e) \<Rightarrow> ((c, s'), Err e)
      | (s', Panic m) \<Rightarrow> ((c, s'), Panic m))"
  using assms by (auto simp: cli_execute_def cli_admitted_def)

lemma cli_execute_effect:
  "cli_effect rf r s (snd (fst (cli_execute rf parse u c s r secrets now)))"
proof (cases "cli_admitted c s r")
  case True
  obtain s' res where run: "run_command rf u s r secrets now = (s', res)" by force
  have "cli_effect rf r s s'"
    using run_command_effect [of r s rf u secrets now] True run by (simp add: cli_admitted_def)
  then show ?thesis
    by (auto simp: cli_execute_admitted [OF True] run split: outcome.split command_result.split prod.split)
next
  case False
  then obtain response where "cli_execute rf parse u c s r secrets now = ((c, s), Ok response)"
    using cli_execute_refused by blast
  then show ?thesis by (simp add: cli_effect.nothing)
qed

lemma cli_execute_unchanged:
  "\<not> cli_admitted c s r \<Longrightarrow> fst (cli_execute rf parse u c s r secrets now) = (c, s)"
  by (metis cli_execute_refused fst_conv)

lemma get_list_insert: "get_list (btm_insert a xs m) b = (if b = a then xs else get_list m b)"
  by (simp add: get_list_def btm_get_insert)

text \<open>
  The policy of the command line, stated apart from the executor: who may run a command, and on which target.
\<close>

definition on_known_application :: "platform_state \<Rightarrow> cli_request \<Rightarrow> bool" where
  "on_known_application s r = (case cl_application_id r of Some a \<Rightarrow> knows s a | None \<Rightarrow> False)"

definition in_known_environment :: "platform_state \<Rightarrow> cli_request \<Rightarrow> bool" where
  "in_known_environment s r =
     (case (cl_application_id r, cl_environment r) of
        (Some a, Some e) \<Rightarrow> e \<in> set (get_list (ps_environments s) a)
      | _ \<Rightarrow> False)"

definition cli_policy :: "platform_state \<Rightarrow> cli_request \<Rightarrow> bool" where
  "cli_policy s r =
     (case cl_command r of
        CmdInit \<Rightarrow> \<not> is_agent (cl_actor r)
      | CmdImport \<Rightarrow> \<not> is_agent (cl_actor r)
      | CmdBuild \<Rightarrow>
          \<not> is_agent (cl_actor r) \<and> on_known_application s r \<and> cl_environment r \<noteq> None \<and>
          (cl_environment r = Some ''production'' \<longrightarrow> is_human (cl_actor r))
      | CmdDeploy \<Rightarrow> is_human (cl_actor r) \<and> on_known_application s r \<and> in_known_environment s r
      | CmdRollback \<Rightarrow>
          is_human (cl_actor r) \<and> on_known_application s r \<and> in_known_environment s r \<and> request_granted r
      | CmdPreview \<Rightarrow> on_known_application s r \<and> in_known_environment s r
      | CmdCapability \<Rightarrow> on_known_application s r
      | CmdAgent \<Rightarrow> on_known_application s r
      | _ \<Rightarrow> False)"

text \<open>What a permitted command changes: the registration, the deployment list, and always one audit record.\<close>

definition cli_target :: "uuid \<Rightarrow> cli_request \<Rightarrow> application_id" where
  "cli_target u r = (case cl_application_id r of Some a \<Rightarrow> a | None \<Rightarrow> ApplicationId u)"

definition cli_change ::
  "(time \<Rightarrow> string) \<Rightarrow> uuid \<Rightarrow> platform_state \<Rightarrow> cli_request \<Rightarrow> string list \<Rightarrow> time \<Rightarrow> platform_state" where
  "cli_change rf u s r secrets now =
     (let a = cli_target u r;
          environment = (case cl_environment r of Some e \<Rightarrow> e | None \<Rightarrow> []);
          digest = argument_or r ''artifact'' ''sha256:unspecified'';
          record = (\<lambda>actor detail. audit_push rf (ps_audit s)
            (now, actor, command_name (cl_command r), application_id_display a, detail, secrets)) in
      if cl_command r \<in> {CmdInit, CmdImport}
      then s\<lparr>ps_applications := (if knows s a then ps_applications s else ps_applications s @ [a]),
             ps_environments := btm_insert a [''development'', ''production''] (ps_environments s),
             ps_audit := record (cli_actor_label (cl_actor r)) (''registered from '' @ argument_or r ''path'' ''.'')\<rparr>
      else if cl_command r \<in> {CmdBuild, CmdDeploy}
      then s\<lparr>ps_deployments := btm_insert a (get_list (ps_deployments s) a @ [environment @ '':'' @ digest]) (ps_deployments s),
             ps_audit := record (cli_actor_label (cl_actor r)) (environment @ '' -> '' @ digest)\<rparr>
      else if cl_command r = CmdRollback
      then s\<lparr>ps_audit := record (case cl_approval r of Some x \<Rightarrow> ea_approver x | None \<Rightarrow> [])
               ''traffic moved; database data not restored''\<rparr>
      else s\<lparr>ps_audit := record (cli_actor_label (cl_actor r)) ''requested''\<rparr>)"

lemma on_known_iff: "on_known_application s r \<longleftrightarrow> (\<exists>a. cl_application_id r = Some a \<and> knows s a)"
  by (auto simp: on_known_application_def split: option.split)

lemma in_known_iff:
  "in_known_environment s r \<longleftrightarrow> cl_environment r \<noteq> None \<and> environment_known s r"
  by (auto simp: in_known_environment_def environment_known_def get_list_def list_ex_iff split: option.split)

lemma targets_checked:
  "application_findings s r = [] \<longleftrightarrow> \<not> requires_application (cl_command r) \<or> on_known_application s r"
  "environment_findings s r = [] \<longleftrightarrow> \<not> requires_environment (cl_command r) \<or> in_known_environment s r"
  by (auto simp: application_findings_def environment_findings_def on_known_iff in_known_iff split: option.split)

lemma authorized_iff:
  "cli_authorize r = None \<longleftrightarrow>
     (cl_command r \<in> {CmdInit, CmdImport, CmdBuild} \<longrightarrow> \<not> is_agent (cl_actor r)) \<and>
     (cl_command r \<in> {CmdDeploy, CmdRollback} \<longrightarrow> is_human (cl_actor r))"
  by (cases "cl_actor r"; cases "cl_command r") (simp_all add: cli_authorize_def)

lemma permitted_admitted:
  assumes "cli_policy s r" and "cl_idempotency_key r = Some k" and "btm_get c k = None"
  shows "cli_admitted c s r"
  using assms
  by (cases "cl_command r")
    (simp_all add: cli_admitted_def cli_policy_def authorized_iff targets_checked requires_application_def
      requires_environment_def)

lemma permitted_mutating: "cli_policy s r \<Longrightarrow> is_mutating (cl_command r)"
  by (cases "cl_command r") (simp_all add: cli_policy_def is_mutating_def)

lemma validated_Some [simp]: "validated (Some x) k s = k x"
  by (simp add: validated_def)

lemma run_register_state:
  "fst (run_register rf u s r secrets now) =
     (let a = cli_target u r in
      s\<lparr>ps_applications := (if knows s a then ps_applications s else ps_applications s @ [a]),
        ps_environments := btm_insert a [''development'', ''production''] (ps_environments s),
        ps_audit := audit_push rf (ps_audit s) (now, cli_actor_label (cl_actor r), command_name (cl_command r),
          application_id_display a, ''registered from '' @ argument_or r ''path'' ''.'', secrets)\<rparr>)"
  by (simp add: run_register_def state_audit_push Let_def cli_target_def [symmetric])
    (simp add: add_application_def knows_def Let_def)

lemma run_reads_state:
  "fst (run_inspect s r) = s" "fst (run_doctor s r now) = s" "fst (run_logs s r) = s" "fst (run_health rf s r now) = s"
  by (auto simp: run_inspect_def run_doctor_def run_logs_def run_health_def validated_def Let_def split: option.split)

lemma run_deploy_state:
  assumes "cl_application_id r = Some a"
  shows "fst (run_deploy rf s r secrets now) =
     (case cl_environment r of
        None \<Rightarrow> s
      | Some e \<Rightarrow>
          if e = ''production'' \<and> \<not> is_human (cl_actor r) then s
          else s\<lparr>ps_deployments := btm_insert a
                   (get_list (ps_deployments s) a @ [e @ '':'' @ argument_or r ''artifact'' ''sha256:unspecified'']) (ps_deployments s),
                 ps_audit := audit_push rf (ps_audit s) (now, cli_actor_label (cl_actor r), command_name (cl_command r),
                   application_id_display a, e @ '' -> '' @ argument_or r ''artifact'' ''sha256:unspecified'', secrets)\<rparr>)"
  using assms by (auto simp: run_deploy_def state_audit_push validated_def Let_def split: option.split)

lemma run_rollback_state:
  assumes "cl_application_id r = Some a"
  shows "fst (run_rollback rf s r secrets now) =
     (if request_granted r
      then s\<lparr>ps_audit := audit_push rf (ps_audit s) (now, (case cl_approval r of Some x \<Rightarrow> ea_approver x | None \<Rightarrow> []),
             ''rollback'', application_id_display a, ''traffic moved; database data not restored'', secrets)\<rparr>
      else s)"
  using assms
  by (auto simp: run_rollback_def request_granted_def state_audit_push Let_def split: option.split)

lemma run_listing_state:
  assumes "cl_application_id r = Some a"
  shows "fst (run_listing rf s r secrets now) =
     (if is_mutating (cl_command r)
      then s\<lparr>ps_audit := audit_push rf (ps_audit s) (now, cli_actor_label (cl_actor r), command_name (cl_command r),
             application_id_display a, ''requested'', secrets)\<rparr>
      else s)"
  using assms by (simp add: run_listing_def state_audit_push Let_def case_prod_beta)

lemmas run_states = run_register_state run_reads_state run_deploy_state run_rollback_state run_listing_state

lemma run_command_state:
  assumes "cli_admitted c s r"
  shows "fst (run_command rf u s r secrets now) = (if cli_policy s r then cli_change rf u s r secrets now else s)"
proof -
  have adm: "cli_authorize r = None" "\<not> requires_application (cl_command r) \<or> on_known_application s r"
    "\<not> requires_environment (cl_command r) \<or> in_known_environment s r"
    using assms by (simp_all add: cli_admitted_def targets_checked)
  show ?thesis
  proof (cases "cl_command r \<in> {CmdInit, CmdImport}")
    case True
    then show ?thesis using adm
      by (auto simp: run_command_def cli_policy_def authorized_iff run_states cli_change_def Let_def)
  next
    case False
    then have "on_known_application s r" using adm(2) by (auto simp: requires_application_def)
    then obtain a where a: "cl_application_id r = Some a" by (auto simp: on_known_iff)
    then have t: "cli_target u r = a" by (simp add: cli_target_def)
    show ?thesis
      using adm False \<open>on_known_application s r\<close> a
      by (cases "cl_command r")
        (auto simp: run_command_def cli_policy_def authorized_iff run_states t cli_change_def is_mutating_def
          requires_environment_def in_known_iff Let_def split: option.split)
  qed
qed

text \<open>
  (C35) What a CLI request changes, on any executor and platform state: exactly the change of its command when the
  request carries an unused idempotency key and the policy permits it, and nothing at all otherwise. The policy asks for a
  human for rollback and deploy, a granted and named approval for rollback, a human for a production build, a
  known application, and for deploy, rollback and preview an environment of it; agents may only record intents.
\<close>

theorem cli_effects_gated:
  "snd (fst (cli_execute rf parse u c s r secrets now)) =
     (if cli_policy s r \<and> (\<exists>k. cl_idempotency_key r = Some k \<and> btm_get c k = None)
      then cli_change rf u s r secrets now else s)"
proof (cases "cli_admitted c s r")
  case True
  then have "cli_policy s r \<Longrightarrow> \<exists>k. cl_idempotency_key r = Some k \<and> btm_get c k = None"
    using permitted_mutating [of s r] by (auto simp: cli_admitted_def)
  moreover have "snd (fst (cli_execute rf parse u c s r secrets now)) = fst (run_command rf u s r secrets now)"
    by (auto simp: cli_execute_admitted [OF True] split: outcome.split command_result.split prod.split)
  ultimately show ?thesis using run_command_state [OF True, of rf u secrets now] by auto
next
  case False
  then have "\<not> (cli_policy s r \<and> (\<exists>k. cl_idempotency_key r = Some k \<and> btm_get c k = None))"
    using permitted_admitted by blast
  then show ?thesis using cli_execute_unchanged [OF False] by (auto simp only: snd_conv if_False)
qed

definition sample_app :: application_id where
  "sample_app = ApplicationId ''1''"

definition sample_platform :: platform_state where
  "sample_platform = add_application platform_state_new sample_app [''development'', ''production'']"

definition sample_deploy :: cli_request where
  "sample_deploy = with_idempotency_key (in_environment (on_application
     (cli_request_new CmdDeploy (CliHuman ''ada'')) sample_app) ''production'') ''k1''"

lemmas sample_defs = sample_app_def sample_platform_def sample_deploy_def with_idempotency_key_def
  in_environment_def on_application_def cli_request_new_def add_application_def platform_state_new_def

section \<open>Histories of requests\<close>

type_synonym cli_call = "uuid \<times> cli_request \<times> string list \<times> time"

fun cli_step :: "(time \<Rightarrow> string) \<Rightarrow> (string \<Rightarrow> uuid option) \<Rightarrow> cli_call \<Rightarrow> cli \<times> platform_state \<Rightarrow> cli \<times> platform_state" where
  "cli_step rf parse (u, r, secrets, now) (c, s) = fst (cli_execute rf parse u c s r secrets now)"

lemma cli_execute_record:
  "fst (fst (cli_execute rf parse u c s r secrets now)) = c \<or>
   (\<exists>k response. cl_idempotency_key r = Some k \<and> btm_get c k = None \<and>
      fst (fst (cli_execute rf parse u c s r secrets now)) = btm_insert k response c)"
proof (cases "cli_admitted c s r")
  case True
  then have "cl_idempotency_key r = None \<or> (\<exists>k. cl_idempotency_key r = Some k \<and> btm_get c k = None)"
    by (cases "cl_idempotency_key r") (auto simp: cli_admitted_def)
  then show ?thesis
    by (auto simp: cli_execute_admitted [OF True] cli_finish_def Let_def
        split: outcome.split command_result.split prod.split option.split)
qed (simp add: cli_execute_unchanged)

lemma cli_record_kept:
  "btm_get c k = Some response \<Longrightarrow> btm_get (fst (cli_step rf parse call (c, s))) k = Some response"
proof -
  assume k: "btm_get c k = Some response"
  obtain u r secrets now where call: "call = (u, r, secrets, now)" by (cases call)
  show ?thesis using cli_execute_record [of rf parse u c s r secrets now] k
    by (auto simp: call btm_get_insert)
qed

lemma cli_run_record_kept:
  "btm_get (fst cs) k = Some response \<Longrightarrow> btm_get (fst (fold (cli_step rf parse) calls cs)) k = Some response"
proof (induction calls arbitrary: cs)
  case (Cons call calls)
  then show ?case using cli_record_kept [of "fst cs" k response rf parse call "snd cs"] by simp
qed simp

lemma cli_success_recorded:
  assumes "cli_execute rf parse u c s r secrets now = ((c', s'), Ok response)" and "cr_ok response"
    and "cl_idempotency_key r = Some k"
  shows "\<exists>stored. btm_get c' k = Some stored \<and> stored\<lparr>cr_replayed := True\<rparr> = response\<lparr>cr_replayed := True\<rparr> \<and>
    cli_authorize r = None"
proof (cases "cli_admitted c s r")
  case True
  then have "cli_authorize r = None" by (simp add: cli_admitted_def)
  moreover have "btm_get c' k = Some response"
    using assms
    by (auto simp: cli_execute_admitted [OF True] cli_finish_def cli_failure_def Let_def btm_get_insert
        split: outcome.splits command_result.splits prod.splits)
  ultimately show ?thesis by blast
next
  case False
  show ?thesis
    using assms False
    by (auto simp: cli_execute_def cli_failure_def cli_admitted_def Let_def
        split: option.splits if_splits)
qed

text \<open>
  (C36) A retried command is replayed, for good. When a command with an idempotency key succeeded, then after any
  further calls by anyone the same request again gets the first response, marked as replayed, and changes
  neither the platform nor the executor.
\<close>

theorem cli_retry_replays:
  assumes "cli_execute rf parse u c s r secrets now = (cs, Ok response)" and "cr_ok response"
    and "cl_idempotency_key r = Some k"
  shows "cli_execute rf parse u' (fst (fold (cli_step rf parse) calls cs)) (snd (fold (cli_step rf parse) calls cs)) r
      secrets' now' = (fold (cli_step rf parse) calls cs, Ok (response\<lparr>cr_replayed := True\<rparr>))"
proof -
  obtain stored where st: "btm_get (fst cs) k = Some stored" "stored\<lparr>cr_replayed := True\<rparr> = response\<lparr>cr_replayed := True\<rparr>"
    "cli_authorize r = None"
    using cli_success_recorded [of rf parse u c s r secrets now "fst cs" "snd cs"] assms by auto
  have "btm_get (fst (fold (cli_step rf parse) calls cs)) k = Some stored"
    by (rule cli_run_record_kept [OF st(1)])
  then show ?thesis using st(2,3) assms(3) by (simp add: cli_execute_def)
qed

lemma cli_effect_audit:
  assumes "cli_effect rf r s s'" "audit_verify rf (ps_audit s) = Ok ()"
  shows "audit_verify rf (ps_audit s') = Ok () \<and> prefix (ps_audit s) (ps_audit s')"
proof -
  have "prefix l (audit_push rf l x)" for l x
    by (cases x) (simp add: audit_push_def audit_append_def Let_def)
  with assms show ?thesis using audit_push_verify by (auto elim!: cli_effectE)
qed

lemma cli_step_audit:
  assumes "audit_verify rf (ps_audit (snd cs)) = Ok ()"
  shows "audit_verify rf (ps_audit (snd (cli_step rf parse call cs))) = Ok () \<and>
    prefix (ps_audit (snd cs)) (ps_audit (snd (cli_step rf parse call cs)))"
proof -
  obtain u r secrets now where call: "call = (u, r, secrets, now)" by (cases call)
  show ?thesis
    using cli_effect_audit [OF cli_execute_effect [where parse = parse and u = u and c = "fst cs" and r = r and
        secrets = secrets and now = now] assms]
    by (cases cs) (simp add: call)
qed

lemma cli_run_audit:
  "audit_verify rf (ps_audit (snd cs)) = Ok () \<Longrightarrow>
   audit_verify rf (ps_audit (snd (fold (cli_step rf parse) calls cs))) = Ok () \<and>
   prefix (ps_audit (snd cs)) (ps_audit (snd (fold (cli_step rf parse) calls cs)))"
proof (induction calls arbitrary: cs)
  case (Cons call calls)
  note step = cli_step_audit [OF Cons.prems, of parse call]
  then show ?case using Cons.IH [of "cli_step rf parse call cs"] prefix_order.trans by auto
qed simp

text \<open>
  The audit trail of the platform always verifies: it starts empty, and after any requests by any actors,
  refused, replayed or executed, the trail is an extension of the previous one and the hash chain is intact.
\<close>

theorem cli_audit_verifies:
  "let cs = fold (cli_step rf parse) calls ([], platform_state_new);
       cs' = fold (cli_step rf parse) later cs
   in audit_verify rf (ps_audit (snd cs')) = Ok () \<and> prefix (ps_audit (snd cs)) (ps_audit (snd cs'))"
proof -
  have "audit_verify rf (ps_audit (snd ([] :: cli, platform_state_new))) = Ok ()"
    by (simp add: platform_state_new_def audit_verify_def)
  from conjunct1 [OF cli_run_audit [OF this, of parse calls]] show ?thesis
    unfolding Let_def by (rule cli_run_audit)
qed

lemma validated_panics:
  "panics (snd (validated target k s)) \<longleftrightarrow> (case target of None \<Rightarrow> True | Some x \<Rightarrow> panics (snd (k x)))"
  by (simp add: validated_def split: option.split)

lemma run_command_panics:
  assumes "cli_admitted c s r"
  shows "panics (snd (run_command rf u s r secrets now)) \<longleftrightarrow> cl_command r = CmdBuild \<and> cl_environment r = None"
proof -
  have app: "\<exists>a. cl_application_id r = Some a" if "requires_application (cl_command r)"
    using assms that by (auto simp: cli_admitted_def application_findings_def split: option.splits if_splits)
  have env: "\<exists>e. cl_environment r = Some e" if "requires_environment (cl_command r)"
    using assms that by (auto simp: cli_admitted_def environment_findings_def split: if_splits)
  have "\<exists>a. cl_approval r = Some a" if "request_granted r"
    using that by (auto simp: request_granted_def split: option.splits)
  then show ?thesis using app env
    by (cases "cl_command r")
      (auto simp: run_command_def run_register_def run_inspect_def run_doctor_def run_logs_def run_health_def
        run_rollback_def run_deploy_def run_listing_def validated_panics requires_application_def
        requires_environment_def Let_def split: option.splits prod.split)
qed

lemma build_admitted:
  assumes "cli_admitted c s r" "cl_command r = CmdBuild"
  shows "\<not> is_agent (cl_actor r)" "\<exists>a. cl_application_id r = Some a \<and> knows s a"
    "\<exists>k. cl_idempotency_key r = Some k \<and> btm_get c k = None"
proof -
  show "\<not> is_agent (cl_actor r)"
    using assms by (auto simp: cli_admitted_def cli_authorize_def)
  show "\<exists>a. cl_application_id r = Some a \<and> knows s a"
    using assms by (cases "cl_application_id r")
      (auto simp: cli_admitted_def application_findings_def requires_application_def split: if_splits)
  show "\<exists>k. cl_idempotency_key r = Some k \<and> btm_get c k = None"
    using assms by (cases "cl_idempotency_key r") (auto simp: cli_admitted_def is_mutating_def)
qed

text \<open>
  (C37) When the CLI panics. A request makes the executor panic exactly when it is a build without an
  environment that got past permission, key and application checks: the build command reads an
  environment that only the deploy command is required to have.
\<close>

theorem cli_panics_exactly:
  "panics (snd (cli_execute rf parse u c s r secrets now)) \<longleftrightarrow>
     cl_command r = CmdBuild \<and> cl_environment r = None \<and> \<not> is_agent (cl_actor r) \<and>
     (\<exists>a. cl_application_id r = Some a \<and> knows s a) \<and>
     (\<exists>k. cl_idempotency_key r = Some k \<and> btm_get c k = None)"
proof (cases "cli_admitted c s r")
  case True
  obtain s' res where run: "run_command rf u s r secrets now = (s', res)" by force
  have "panics (snd (cli_execute rf parse u c s r secrets now)) \<longleftrightarrow> panics res"
    by (simp add: cli_execute_admitted [OF True] run split: outcome.split command_result.split prod.split)
  then have "panics (snd (cli_execute rf parse u c s r secrets now)) \<longleftrightarrow>
      cl_command r = CmdBuild \<and> cl_environment r = None"
    using run_command_panics [OF True, of rf u secrets now] run by simp
  then show ?thesis using build_admitted [OF True] by blast
next
  case False
  then obtain response where "cli_execute rf parse u c s r secrets now = ((c, s), Ok response)"
    using cli_execute_refused by blast
  moreover have "\<not> (cl_command r = CmdBuild \<and> cl_environment r = None \<and> \<not> is_agent (cl_actor r) \<and>
     (\<exists>a. cl_application_id r = Some a \<and> knows s a) \<and> (\<exists>k. cl_idempotency_key r = Some k \<and> btm_get c k = None))"
    using False by (auto simp: cli_admitted_def cli_authorize_def application_findings_def environment_findings_def
        requires_environment_def)
  ultimately show ?thesis by simp
qed

theorem cli_retry_replays_witness:
  "\<exists>cs response. cli_execute (\<lambda>_. ''t'') (\<lambda>_. None) ''u'' [] sample_platform sample_deploy [] 5 = (cs, Ok response) \<and>
     cli_execute (\<lambda>_. ''t'') (\<lambda>_. None) ''v'' (fst cs) (snd cs) sample_deploy [] 9 =
       (cs, Ok (response\<lparr>cr_replayed := True\<rparr>))"
proof -
  have "cli_admitted [] sample_platform sample_deploy"
    by (simp add: cli_admitted_def cli_authorize_def application_findings_def environment_findings_def
        environment_known_def requires_application_def requires_environment_def knows_def sample_defs btm_get_def Let_def)
  then obtain cs response where
    run: "cli_execute (\<lambda>_. ''t'') (\<lambda>_. None) ''u'' [] sample_platform sample_deploy [] 5 = (cs, Ok response)" "cr_ok response"
    by (simp add: cli_execute_admitted run_command_def run_deploy_def state_audit_def cli_finish_def sample_defs Let_def)
  have "cl_idempotency_key sample_deploy = Some ''k1''" by (simp add: sample_defs)
  from cli_retry_replays [OF run this, where calls = "[]" and u' = "''v''" and secrets' = "[]" and now' = 9] run(1)
  show ?thesis by auto
qed

section \<open>The dashboard\<close>

lemma push_all_at: "push_all x rows m y = (if y = x then m x @ rows else m y)"
  unfolding push_all_def by (induction rows arbitrary: m) (auto simp: push_entry_def)

lemma fold_push_event_sections:
  "x \<notin> {SecVibe, SecOverview} \<Longrightarrow> snd (fold push_event es (claim, m)) x = m x"
proof (induction es arbitrary: claim m)
  case (Cons e es)
  obtain claim' m' where e: "push_event e (claim, m) = (claim', m')" by force
  then have "m' x = m x" using Cons.prems by (auto simp: push_event_def push_entry_def split: event_actor.splits)
  then show ?case using Cons e by simp
qed simp

definition agent_row :: "platform_event \<Rightarrow> dashboard_entry list" where
  "agent_row e = (case ev_actor e of
       ActorAgent i n \<Rightarrow> [\<lparr>de_key = ''e'' @ show_u64 (ev_sequence e), de_value = platform_event_detail e,
               de_attribution = ByAgent (agent_session_id_display i) n, de_state = None,
               de_evidence_source = Some ''agent:session-stream''\<rparr>] | _ \<Rightarrow> [])"

definition platform_row :: "platform_event \<Rightarrow> dashboard_entry list" where
  "platform_row e = (case ev_actor e of
       ActorAgent i n \<Rightarrow> [] | actor \<Rightarrow> [\<lparr>de_key = ''e'' @ show_u64 (ev_sequence e), de_value = platform_event_detail e,
               de_attribution = ByPlatform (kind_label actor), de_state = None,
               de_evidence_source = Some ''platform:event-log''\<rparr>])"

lemma fold_push_event_rows:
  "snd (fold push_event es (claim, m)) SecVibe = m SecVibe @ concat (map agent_row es) \<and>
   snd (fold push_event es (claim, m)) SecOverview = m SecOverview @ concat (map platform_row es)"
proof (induction es arbitrary: claim m)
  case (Cons e es)
  show ?case
    by (cases "ev_actor e")
      (simp_all add: push_event_def [of e] push_entry_def agent_row_def [of e] platform_row_def [of e] Cons.IH)
qed simp

definition dashboard_rows :: "platform_state \<Rightarrow> application_id \<Rightarrow> time \<Rightarrow> dashboard_sections" where
  "dashboard_rows s a now x =
     (case x of
        SecOverview \<Rightarrow> health_entry (btm_get (ps_health s) a) now #
          concat (map platform_row (events_for_application (ps_events s) a))
      | SecVibe \<Rightarrow> concat (map agent_row (events_for_application (ps_events s) a))
      | SecDeployments \<Rightarrow>
          map deployment_log_row (filter (\<lambda>e. le_level e = LogError) (log_for_source (ps_logs s) LsDeployment)) @
          map (named_row ''deployment-controller'' ''platform:deployment'') (get_list (ps_deployments s) a)
      | SecCapabilities \<Rightarrow> map (named_row ''capability-controller'' ''platform:binding'') (get_list (ps_capabilities s) a)
      | SecResources \<Rightarrow> map (named_row ''resource-controller'' ''platform:resource'') (get_list (ps_resources s) a)
      | SecSettings \<Rightarrow> map plugin_row (filter (\<lambda>p. pt_state p \<noteq> PlActive) (registry_report (ps_plugins s)))
      | SecLogs \<Rightarrow> map log_row (ps_logs s)
      | _ \<Rightarrow> [])"

lemma render_dashboard_rows:
  assumes "knows s a"
  shows "\<exists>v. render_dashboard s a environment now = Ok v \<and> dv_sections v = dashboard_rows s a now \<and>
    dv_production_healthy v = (\<exists>h. btm_get (ps_health s) a = Some h \<and> \<not> snapshot_is_stale h now \<and>
      effective_state h now = HsHealthy)"
proof -
  let ?es = "events_for_application (ps_events s) a"
  let ?m0 = "push_entry SecOverview (health_entry (btm_get (ps_health s) a) now) (\<lambda>_. [])"
  obtain claim m where f: "fold push_event ?es (None, ?m0) = (claim, m)" by force
  have m: "m SecVibe = concat (map agent_row ?es)"
    "m SecOverview = health_entry (btm_get (ps_health s) a) now # concat (map platform_row ?es)"
    using fold_push_event_rows [of ?es None ?m0] unfolding f by (simp_all add: push_entry_def)
  have other: "m x = []" if "x \<notin> {SecVibe, SecOverview}" for x
    using fold_push_event_sections [OF that, of ?es None ?m0] that unfolding f by (auto simp: push_entry_def)
  show ?thesis using assms
    by (auto simp: render_dashboard_def f Let_def fun_eq_iff push_all_at dashboard_rows_def m other
        split: dashboard_section.split option.split)
qed

definition failing_row :: "dashboard_entry \<Rightarrow> bool" where
  "failing_row e = (attribution_label (de_attribution e) = ''platform'' \<and> de_state e \<in> {Some HsFailed, Some HsDegraded})"

lemma failing_rows_of_events:
  "filter failing_row (concat (map agent_row es)) = []" "filter failing_row (concat (map platform_row es)) = []"
  by (induction es) (simp_all add: agent_row_def platform_row_def failing_row_def split: event_actor.split)

lemma event_rows_stateless:
  "x \<in> set (agent_row e) \<Longrightarrow> de_state x = None" "x \<in> set (platform_row e) \<Longrightarrow> de_state x = None"
  by (cases "ev_actor e"; auto simp: agent_row_def platform_row_def)+

lemma platform_failures_rows:
  "dv_sections v = dashboard_rows s a now \<Longrightarrow>
   platform_failures v = filter failing_row (concat (map (dashboard_rows s a now) all_sections))"
  by (simp only: platform_failures_def failing_row_def [abs_def])

lemma failing_rows_any_events:
  "filter failing_row (concat (map (dashboard_rows (s\<lparr>ps_events := es\<rparr>) a now) all_sections)) =
   filter failing_row (concat (map (dashboard_rows s a now) all_sections))"
  by (simp add: all_sections_def dashboard_rows_def failing_rows_of_events)

definition by_agent :: "platform_event \<Rightarrow> bool" where
  "by_agent e = (case ev_actor e of ActorAgent _ _ \<Rightarrow> True | _ \<Rightarrow> False)"

lemma dashboard_rows_no_agent:
  assumes "filter (\<lambda>e. \<not> by_agent e) es = filter (\<lambda>e. \<not> by_agent e) (ps_events s)" and "x \<noteq> SecVibe"
  shows "dashboard_rows (s\<lparr>ps_events := es\<rparr>) a now x = dashboard_rows s a now x"
proof -
  have rows: "concat (map platform_row l) = concat (map platform_row (filter (\<lambda>e. \<not> by_agent e) l))" for l
    by (induction l) (auto simp: platform_row_def by_agent_def split: event_actor.split)
  have "filter (\<lambda>e. \<not> by_agent e) (events_for_application es a) =
      filter (\<lambda>e. \<not> by_agent e) (events_for_application (ps_events s) a)"
    using arg_cong [OF assms(1), of "filter (\<lambda>e. co_application_id (ev_correlation e) = Some a)"]
    by (simp add: events_for_application_def conj_commute)
  then have "concat (map platform_row (events_for_application es a)) =
      concat (map platform_row (events_for_application (ps_events s) a))"
    using rows by metis
  then show ?thesis using assms(2) by (cases x) (simp_all add: dashboard_rows_def)
qed

lemma agent_rows_stateless:
  assumes "dv_sections v = dashboard_rows s a now" "e \<in> set (dv_sections v x)" "attribution_label (de_attribution e) = ''agent''"
  shows "de_state e = None"
  using assms(2,3) unfolding assms(1)
  by (cases x) (auto simp: dashboard_rows_def health_entry_def deployment_log_row_def
      named_row_def plugin_row_def log_row_def dest: event_rows_stateless)

lemma deployment_errors_shown:
  assumes "dv_sections v = dashboard_rows s a now" "e \<in> set (log_for_source (ps_logs s) LsDeployment)" "le_level e = LogError"
  shows "deployment_log_row e \<in> set (platform_failures v)"
proof -
  have "deployment_log_row e \<in> set (dashboard_rows s a now SecDeployments)"
    using assms(2,3) by (simp add: dashboard_rows_def)
  moreover have "failing_row (deployment_log_row e)" by (simp add: failing_row_def deployment_log_row_def)
  ultimately show ?thesis unfolding platform_failures_rows [OF assms(1)]
    by (auto simp: all_sections_def)
qed

text \<open>
  (C38) An agent cannot make the dashboard look healthy. A known application is shown healthy exactly when the
  platform's own snapshot is fresh and healthy. Replacing the agents' events in any way, with those of others kept,
  changes neither this verdict nor the platform failures nor any section but the agents' own; every row attributed
  to an agent carries no state; and every error line of the deployment log is among the failures shown.
\<close>

theorem dashboard_ignores_agent_claims:
  assumes "knows s a"
  shows "\<exists>v. render_dashboard s a environment now = Ok v \<and>
    (dv_production_healthy v \<longleftrightarrow> (\<exists>h. btm_get (ps_health s) a = Some h \<and> \<not> snapshot_is_stale h now \<and>
       effective_state h now = HsHealthy)) \<and>
    (\<forall>es. filter (\<lambda>e. \<not> by_agent e) es = filter (\<lambda>e. \<not> by_agent e) (ps_events s) \<longrightarrow>
       (\<exists>v'. render_dashboard (s\<lparr>ps_events := es\<rparr>) a environment now = Ok v' \<and>
          dv_production_healthy v' = dv_production_healthy v \<and> platform_failures v' = platform_failures v \<and>
          (\<forall>x. x \<noteq> SecVibe \<longrightarrow> dv_sections v' x = dv_sections v x))) \<and>
    (\<forall>x e. e \<in> set (dv_sections v x) \<and> attribution_label (de_attribution e) = ''agent'' \<longrightarrow> de_state e = None) \<and>
    (\<forall>e \<in> set (log_for_source (ps_logs s) LsDeployment). le_level e = LogError \<longrightarrow>
       deployment_log_row e \<in> set (platform_failures v))"
proof -
  obtain v where v: "render_dashboard s a environment now = Ok v" "dv_sections v = dashboard_rows s a now"
    "dv_production_healthy v = (\<exists>h. btm_get (ps_health s) a = Some h \<and> \<not> snapshot_is_stale h now \<and>
      effective_state h now = HsHealthy)"
    using render_dashboard_rows [OF assms] by blast
  have "\<exists>v'. render_dashboard (s\<lparr>ps_events := es\<rparr>) a environment now = Ok v' \<and>
       dv_production_healthy v' = dv_production_healthy v \<and> platform_failures v' = platform_failures v \<and>
       (\<forall>x. x \<noteq> SecVibe \<longrightarrow> dv_sections v' x = dv_sections v x)"
    if es: "filter (\<lambda>e. \<not> by_agent e) es = filter (\<lambda>e. \<not> by_agent e) (ps_events s)" for es
  proof -
    have "knows (s\<lparr>ps_events := es\<rparr>) a" using assms by (simp add: knows_def)
    from render_dashboard_rows [OF this, of environment now] obtain v' where
      v': "render_dashboard (s\<lparr>ps_events := es\<rparr>) a environment now = Ok v'"
      "dv_sections v' = dashboard_rows (s\<lparr>ps_events := es\<rparr>) a now"
      "dv_production_healthy v' = (\<exists>h. btm_get (ps_health s) a = Some h \<and> \<not> snapshot_is_stale h now \<and>
        effective_state h now = HsHealthy)" by auto
    then show ?thesis
      using v(2,3) platform_failures_rows [OF v'(2)] platform_failures_rows [OF v(2)] dashboard_rows_no_agent [OF es]
      by (simp add: failing_rows_any_events)
  qed
  then show ?thesis
    using v(1,3) agent_rows_stateless [OF v(2)] deployment_errors_shown [OF v(2)] by blast
qed

theorem dashboard_ignores_agent_claims_witness:
  "\<exists>v. render_dashboard sample_platform sample_app ''production'' 5 = Ok v \<and> \<not> dv_production_healthy v"
proof -
  have "knows sample_platform sample_app" "btm_get (ps_health sample_platform) sample_app = None"
    by (simp_all add: knows_def sample_defs btm_get_def Let_def)
  with dashboard_ignores_agent_claims [of sample_platform sample_app "''production''" 5] show ?thesis by auto
qed

text \<open>
  The dashboard of one application shows the logs of all: every line of the log store has a row in its log
  section, and every deployment error counts as one of its failures, also when the line is correlated
  with another application.
\<close>

theorem dashboard_shows_foreign_logs:
  assumes "knows s a" "entry \<in> set (ps_logs s)" "co_application_id (le_correlation entry) = Some other" "other \<noteq> a"
  shows "\<exists>v. render_dashboard s a environment now = Ok v \<and> log_row entry \<in> set (dv_sections v SecLogs) \<and>
    (le_source entry = LsDeployment \<and> le_level entry = LogError \<longrightarrow>
       deployment_log_row entry \<in> set (dv_sections v SecDeployments))"
proof -
  obtain v where "render_dashboard s a environment now = Ok v" "dv_sections v = dashboard_rows s a now"
    using render_dashboard_rows [OF assms(1)] by blast
  then show ?thesis using assms(2) by (auto simp: dashboard_rows_def log_for_source_def)
qed

theorem dashboard_shows_foreign_logs_witness:
  "let entry = \<lparr>le_sequence = 1, le_at = 0, le_source = LsDeployment, le_level = LogError,
         le_correlation = with_application (correlation_new ''t'') (ApplicationId ''2''), le_message = ''boom''\<rparr>
   in \<exists>v. render_dashboard (sample_platform\<lparr>ps_logs := [entry]\<rparr>) sample_app ''production'' 5 = Ok v \<and>
        log_row entry \<in> set (dv_sections v SecLogs)"
proof -
  define entry where "entry = \<lparr>le_sequence = 1, le_at = 0, le_source = LsDeployment, le_level = LogError,
    le_correlation = with_application (correlation_new ''t'') (ApplicationId ''2''), le_message = ''boom''\<rparr>"
  have "knows (sample_platform\<lparr>ps_logs := [entry]\<rparr>) sample_app" "entry \<in> set (ps_logs (sample_platform\<lparr>ps_logs := [entry]\<rparr>))"
    "co_application_id (le_correlation entry) = Some (ApplicationId ''2'')" "ApplicationId ''2'' \<noteq> sample_app"
    by (simp_all add: knows_def sample_defs entry_def with_application_def correlation_new_def Let_def)
  from dashboard_shows_foreign_logs [OF this, of "''production''" 5] show ?thesis
    unfolding Let_def entry_def [symmetric] by blast
qed

end
