(* ===== verification/Api_Auth.thy ===== *)
theory Api_Auth
  imports Surfaces Control_Config
begin

text \<open>
  Authentication of the control-plane API: \<open>labrys-control-plane/src/auth.rs\<close>.

  Token lines, the token store with rotation and revocation, the bind policy and the per-address rate limiter.
  Secrets are byte strings. The hash function, the parser of RFC 3339 instants and the reading of files are
  arguments; the current time, and the two clock readings of the limiter, are arguments of the operations that
  take them. The lock of the store makes each operation atomic; a hash map is an association list.
\<close>

section \<open>Tokens\<close>

definition min_token_len :: nat where
  "min_token_len = 16"

definition default_rate_limit_per_minute :: u32 where
  "default_rate_limit_per_minute = 120"

definition token_line_help :: string where
  "token_line_help = ''one '' @ quote_mark @ ''<id>:<scope>:<expiry>:<secret>'' @ quote_mark @
     '' line per entry (scope agent|human, expiry RFC3339|never, no '' @ quote_mark @ '':'' @ quote_mark @
     '' in id or secret)''"

datatype token_scope = ScopeHuman | ScopeAgent

definition token_scope_parse :: "string \<Rightarrow> token_scope option" where
  "token_scope_parse raw =
     (if trim raw = ''human'' then Some ScopeHuman
      else if trim raw = ''agent'' then Some ScopeAgent
      else None)"

fun allows :: "token_scope \<Rightarrow> cli_actor \<Rightarrow> bool" where
  "allows ScopeHuman (CliHuman _) = True"
| "allows ScopeAgent (CliAgent _ _) = True"
| "allows _ _ = False"

record token_record =
  tr_id :: string
  tr_identity :: string
  tr_scope :: token_scope
  tr_expires_at :: "time option"
  tr_revoked :: bool
  tr_secret :: string

definition token_record_new ::
  "string \<Rightarrow> string \<Rightarrow> token_scope \<Rightarrow> time option \<Rightarrow> string \<Rightarrow> token_record cp_outcome" where
  "token_record_new i identity scope expires_at secret =
     (if trim i = [] then CpErr (ConfigError ''API token id must not be empty'')
      else if length secret < min_token_len
      then CpErr (ConfigError (''API token '' @ quote_mark @ i @ quote_mark @ '' must be at least '' @
             show_nat min_token_len @ '' characters''))
      else CpOk \<lparr>tr_id = i, tr_identity = identity, tr_scope = scope, tr_expires_at = expires_at,
                 tr_revoked = False, tr_secret = secret\<rparr>)"

text \<open>\<open>{:02x}\<close> of the first bytes of a digest.\<close>

definition hex_byte :: "u8 \<Rightarrow> string" where
  "hex_byte b = [hex_digit (unat b div 16), hex_digit (unat b mod 16)]"

definition hex_prefix :: "u8 list \<Rightarrow> nat \<Rightarrow> string" where
  "hex_prefix bytes len = concat (map hex_byte (take len bytes))"

definition token_fingerprint :: "(string \<Rightarrow> u8 list) \<Rightarrow> string \<Rightarrow> string" where
  "token_fingerprint sha256 presented = ''sha256:'' @ hex_prefix (sha256 presented) 8"

datatype auth_deny_reason = DenyUnknown | DenyExpired | DenyRevoked

record authenticated_token =
  at_id :: string
  at_identity :: string
  at_scope :: token_scope

record auth_denial =
  ad_reason :: auth_deny_reason
  ad_known_id :: "string option"

section \<open>The token store\<close>

record token_store =
  ts_tokens :: "token_record list"
  ts_bootstrap :: bool

definition store_bootstrap :: "string \<Rightarrow> token_store cp_outcome" where
  "store_bootstrap secret =
     cp_bind (token_record_new ''bootstrap'' ''bootstrap-operator'' ScopeHuman None secret) (\<lambda>r.
       CpOk \<lparr>ts_tokens = [r], ts_bootstrap = True\<rparr>)"

definition split_once :: "char \<Rightarrow> string \<Rightarrow> (string \<times> string) option" where
  "split_once c s =
     (if c \<in> set s then Some (takeWhile (\<lambda>x. x \<noteq> c) s, tl (dropWhile (\<lambda>x. x \<noteq> c) s)) else None)"

text \<open>\<open>splitn(3, ':')\<close> with all three parts present.\<close>

definition splitn3 :: "string \<Rightarrow> (string \<times> string \<times> string) option" where
  "splitn3 s =
     Option.bind (split_once (CHR '':'') s) (\<lambda>(a, rest).
     Option.bind (split_once (CHR '':'') rest) (\<lambda>(b, c). Some (a, b, c)))"

definition parse_expiry :: "(string \<Rightarrow> time option) \<Rightarrow> string \<Rightarrow> string + time option" where
  "parse_expiry parse_time expiry =
     (let raw = trim expiry in
      if raw = ''never'' then Inr None
      else (case parse_time raw of
              Some t \<Rightarrow> Inr (Some t)
            | None \<Rightarrow> Inl (''expiry must be RFC3339 or '' @ quote_mark @ ''never'' @ quote_mark @ ''; got '' @ quote_mark @
                raw @ quote_mark @ '' (note: secrets must not contain '' @ quote_mark @ '':'' @ quote_mark @ '')'')))"

definition parse_token_line :: "(string \<Rightarrow> time option) \<Rightarrow> string \<Rightarrow> string + token_record" where
  "parse_token_line parse_time line =
     (case splitn3 line of
        None \<Rightarrow> Inl (''expected '' @ token_line_help)
      | Some (i, scope, rest) \<Rightarrow>
          (case rsplit_once (CHR '':'') rest of
             None \<Rightarrow> Inl (''expected '' @ token_line_help)
           | Some (expiry, secret) \<Rightarrow>
               (case token_scope_parse scope of
                  None \<Rightarrow> Inl (''scope must be '' @ quote_mark @ ''agent'' @ quote_mark @ '' or '' @ quote_mark @ ''human'' @
                             quote_mark @ ''; expected '' @ token_line_help)
                | Some sc \<Rightarrow>
                    (case parse_expiry parse_time expiry of
                       Inl e \<Rightarrow> Inl e
                     | Inr expires_at \<Rightarrow>
                         if secret = [] then Inl (''secret must not be empty; expected '' @ token_line_help)
                         else (case token_record_new (trim i) (trim i) sc expires_at secret of
                                 CpOk r \<Rightarrow> Inr r
                               | CpErr e \<Rightarrow> Inl (control_plane_error_display e)
                               | CpPanic m \<Rightarrow> Inl m)))))"

fun parse_token_lines ::
  "(string \<Rightarrow> time option) \<Rightarrow> nat \<Rightarrow> string list \<Rightarrow> token_record list cp_outcome" where
  "parse_token_lines parse_time index [] = CpOk []"
| "parse_token_lines parse_time index (raw # rest) =
     (let line = trim raw in
      if line = [] \<or> starts_with line ''#'' then parse_token_lines parse_time (index + 1) rest
      else (case parse_token_line parse_time line of
              Inl e \<Rightarrow> CpErr (ConfigError (''token entry '' @ show_nat (index + 1) @ '': '' @ e))
            | Inr r \<Rightarrow> cp_bind (parse_token_lines parse_time (index + 1) rest) (\<lambda>rs. CpOk (r # rs))))"

text \<open>The first identifier a pass with a hash set finds twice.\<close>

fun duplicate_id :: "string set \<Rightarrow> token_record list \<Rightarrow> string option" where
  "duplicate_id seen [] = None"
| "duplicate_id seen (r # rs) = (if tr_id r \<in> seen then Some (tr_id r) else duplicate_id (insert (tr_id r) seen) rs)"

definition store_from_lines :: "(string \<Rightarrow> time option) \<Rightarrow> string \<Rightarrow> token_store cp_outcome" where
  "store_from_lines parse_time raw =
     cp_bind (parse_token_lines parse_time 0 (str_lines raw)) (\<lambda>records.
       if records = []
       then CpErr (ConfigError ''no API tokens configured; provide LABRYS_API_TOKENS(_FILE) or LABRYS_API_TOKEN'')
       else (case duplicate_id {} records of
               Some i \<Rightarrow> CpErr (ConfigError (''duplicate API token id '' @ quote_mark @ i @ quote_mark))
             | None \<Rightarrow> CpOk \<lparr>ts_tokens = records, ts_bootstrap = False\<rparr>))"

definition store_from_lookup ::
  "(string \<Rightarrow> time option) \<Rightarrow> (string \<Rightarrow> string + string) \<Rightarrow> env_lookup \<Rightarrow> token_store cp_outcome" where
  "store_from_lookup parse_time read_file lookup =
     (case lookup ''LABRYS_API_TOKENS_FILE'' of
        Some path \<Rightarrow>
          (case read_file (trim path) of
             Inl e \<Rightarrow> CpErr (ConfigError (''cannot read LABRYS_API_TOKENS_FILE: '' @ e @
                        ''; check the path and permissions, then retry''))
           | Inr raw \<Rightarrow> store_from_lines parse_time raw)
      | None \<Rightarrow>
          (case lookup ''LABRYS_API_TOKENS'' of
             Some raw \<Rightarrow> store_from_lines parse_time raw
           | None \<Rightarrow>
               (let secret = (case lookup ''LABRYS_API_TOKEN'' of Some s \<Rightarrow> s | None \<Rightarrow> []) in
                if trim secret = [] then CpErr (ConfigError ''API token is required (LABRYS_API_TOKEN)'')
                else store_bootstrap secret)))"

definition store_reload ::
  "(string \<Rightarrow> time option) \<Rightarrow> (string \<Rightarrow> string + string) \<Rightarrow> token_store \<Rightarrow> env_lookup \<Rightarrow> token_store \<times> nat cp_outcome" where
  "store_reload parse_time read_file st lookup =
     (case store_from_lookup parse_time read_file lookup of
        CpOk fresh \<Rightarrow> (st\<lparr>ts_tokens := ts_tokens fresh\<rparr>, CpOk (length (ts_tokens fresh)))
      | CpErr e \<Rightarrow> (st, CpErr e)
      | CpPanic m \<Rightarrow> (st, CpPanic m))"

definition revoke_record :: "string \<Rightarrow> token_record \<Rightarrow> token_record" where
  "revoke_record i r = (if tr_id r = i \<and> \<not> tr_revoked r then r\<lparr>tr_revoked := True\<rparr> else r)"

definition store_revoke :: "token_store \<Rightarrow> string \<Rightarrow> token_store \<times> bool" where
  "store_revoke st i =
     (st\<lparr>ts_tokens := map (revoke_record i) (ts_tokens st)\<rparr>,
      list_ex (\<lambda>r. tr_id r = i \<and> \<not> tr_revoked r) (ts_tokens st))"

definition authenticate ::
  "(string \<Rightarrow> u8 list) \<Rightarrow> time \<Rightarrow> token_store \<Rightarrow> string \<Rightarrow> auth_denial + authenticated_token" where
  "authenticate sha256 now st presented =
     (case find (\<lambda>r. sha256 (tr_secret r) = sha256 presented) (ts_tokens st) of
        None \<Rightarrow> Inl \<lparr>ad_reason = DenyUnknown, ad_known_id = None\<rparr>
      | Some r \<Rightarrow>
          if tr_revoked r then Inl \<lparr>ad_reason = DenyRevoked, ad_known_id = Some (tr_id r)\<rparr>
          else if (case tr_expires_at r of Some e \<Rightarrow> now \<ge> e | None \<Rightarrow> False)
          then Inl \<lparr>ad_reason = DenyExpired, ad_known_id = Some (tr_id r)\<rparr>
          else Inr \<lparr>at_id = tr_id r, at_identity = tr_identity r, at_scope = tr_scope r\<rparr>)"

definition store_len :: "token_store \<Rightarrow> nat" where
  "store_len st = length (ts_tokens st)"

definition store_is_empty :: "token_store \<Rightarrow> bool" where
  "store_is_empty st = (store_len st = 0)"

definition bootstrap_warning :: "token_store \<Rightarrow> string option" where
  "bootstrap_warning st =
     (if ts_bootstrap st
      then Some ''API auth uses the single-token LABRYS_API_TOKEN bootstrap; configure LABRYS_API_TOKENS(_FILE) with scoped tokens and rotate without restart''
      else None)"

definition token_ids :: "token_store \<Rightarrow> string list" where
  "token_ids st = map tr_id (ts_tokens st)"

section \<open>Bind policy\<close>

record tls_config =
  tls_cert_file :: string
  tls_key_file :: string

datatype bind_policy_result = PlainLoopback | BindTls | PlainDisposable

datatype ip_addr = IpV4 u8 u8 u8 u8 | IpV6 "128 word"

fun is_loopback :: "ip_addr \<Rightarrow> bool" where
  "is_loopback (IpV4 a b c d) = (a = 127)"
| "is_loopback (IpV6 w) = (w = 1)"

text \<open>A socket address with the text that \<open>Display\<close> renders for it.\<close>

record socket_addr =
  sa_ip :: ip_addr
  sa_text :: string

definition bind_policy ::
  "(string \<Rightarrow> bool) \<Rightarrow> socket_addr \<Rightarrow> tls_config option \<Rightarrow> bool \<Rightarrow> bind_policy_result cp_outcome" where
  "bind_policy is_file addr tls allow_plain_http =
     (case tls of
        Some t \<Rightarrow>
          if \<not> is_file (tls_cert_file t)
          then CpErr (ConfigError (''TLS cert file '' @ quote_mark @ tls_cert_file t @ quote_mark @
                 '' is missing; check LABRYS_TLS_CERT_FILE, then retry''))
          else if \<not> is_file (tls_key_file t)
          then CpErr (ConfigError (''TLS key file '' @ quote_mark @ tls_key_file t @ quote_mark @
                 '' is missing; check LABRYS_TLS_KEY_FILE, then retry''))
          else CpOk BindTls
      | None \<Rightarrow>
          if is_loopback (sa_ip addr) then CpOk PlainLoopback
          else if allow_plain_http then CpOk PlainDisposable
          else CpErr (ConfigError (''refusing plain HTTP on non-loopback '' @ sa_text addr @
                 ''; set LABRYS_TLS_CERT_FILE/LABRYS_TLS_KEY_FILE or LABRYS_ALLOW_PLAIN_HTTP=1 for disposable environments'')))"

section \<open>Rate limiter\<close>

text \<open>Instants of the monotonic clock in nanoseconds; a difference never goes below zero.\<close>

record rate_limiter =
  rl_limit_per_minute :: u32
  rl_window :: "(ip_addr \<times> time \<times> u32) list"

definition rate_limiter_new :: "u32 \<Rightarrow> rate_limiter" where
  "rate_limiter_new limit = \<lparr>rl_limit_per_minute = max limit 1, rl_window = []\<rparr>"

abbreviation window_ns :: int where
  "window_ns \<equiv> 60 * nanos_per_sec"

definition duration_since :: "time \<Rightarrow> time \<Rightarrow> duration" where
  "duration_since now started = max 0 (now - started)"

definition prune_at :: nat where
  "prune_at = 4096"

fun set_entry :: "'k \<Rightarrow> 'v \<Rightarrow> ('k \<times> 'v) list \<Rightarrow> ('k \<times> 'v) list" where
  "set_entry k v [] = [(k, v)]"
| "set_entry k v ((k', v') # m) = (if k' = k then (k, v) # m else (k', v') # set_entry k v m)"

definition pruned_window :: "rate_limiter \<Rightarrow> time \<Rightarrow> (ip_addr \<times> time \<times> u32) list" where
  "pruned_window l prune_now =
     (if length (rl_window l) > prune_at
      then filter (\<lambda>(_, started, _). duration_since prune_now started < window_ns) (rl_window l)
      else rl_window l)"

definition current_entry :: "(ip_addr \<times> time \<times> u32) list \<Rightarrow> time \<Rightarrow> ip_addr \<Rightarrow> time \<times> u32" where
  "current_entry window now ip =
     (let entry = (case map_of window ip of Some e \<Rightarrow> e | None \<Rightarrow> (now, 0))
      in if duration_since now (fst entry) \<ge> window_ns then (now, 0) else entry)"

definition retry_after :: "time \<Rightarrow> time \<Rightarrow> u64" where
  "retry_after now started =
     (if duration_since now started \<le> window_ns
      then of_int (max ((window_ns - duration_since now started) div nanos_per_sec) 1) else 1)"

definition rate_check :: "rate_limiter \<Rightarrow> time \<Rightarrow> time \<Rightarrow> ip_addr \<Rightarrow> rate_limiter \<times> (u64 + unit)" where
  "rate_check l prune_now now ip =
     (let window = pruned_window l prune_now;
          (started, count0) = current_entry window now ip;
          count = count0 + 1;
          l' = l\<lparr>rl_window := set_entry ip (started, count) window\<rparr>
      in if count > rl_limit_per_minute l then (l', Inl (retry_after now started)) else (l', Inr ()))"

section \<open>Store invariant\<close>

definition token_ok :: "token_record \<Rightarrow> bool" where
  "token_ok r \<longleftrightarrow> trim (tr_id r) \<noteq> [] \<and> min_token_len \<le> length (tr_secret r)"

definition store_ok :: "token_store \<Rightarrow> bool" where
  "store_ok st \<longleftrightarrow> ts_tokens st \<noteq> [] \<and> distinct (map tr_id (ts_tokens st)) \<and> (\<forall>r \<in> set (ts_tokens st). token_ok r)"

lemma token_record_new_Ok:
  "token_record_new i d sc e secret = CpOk r \<longleftrightarrow>
     trim i \<noteq> [] \<and> min_token_len \<le> length secret \<and>
     r = \<lparr>tr_id = i, tr_identity = d, tr_scope = sc, tr_expires_at = e, tr_revoked = False, tr_secret = secret\<rparr>"
  by (auto simp: token_record_new_def)

lemma parse_token_line_ok: "parse_token_line parse_time line = Inr r \<Longrightarrow> token_ok r \<and> \<not> tr_revoked r"
  by (auto simp: parse_token_line_def token_record_new_Ok token_ok_def
      split: option.splits sum.splits if_splits cp_outcome.splits)

lemma parse_token_lines_ok:
  "parse_token_lines parse_time n ls = CpOk rs \<Longrightarrow> r \<in> set rs \<Longrightarrow> token_ok r \<and> \<not> tr_revoked r"
proof (induction ls arbitrary: n rs)
  case (Cons raw ls)
  show ?case
  proof (cases "trim raw = [] \<or> starts_with (trim raw) ''#''")
    case True
    with Cons show ?thesis by (auto simp: Let_def)
  next
    case False
    with Cons.prems obtain r0 rs0 where "parse_token_line parse_time (trim raw) = Inr r0"
      "parse_token_lines parse_time (n + 1) ls = CpOk rs0" "rs = r0 # rs0"
      by (auto simp: Let_def split: sum.splits)
    with Cons parse_token_line_ok show ?thesis by auto
  qed
qed simp

lemma duplicate_id_None: "duplicate_id seen rs = None \<longleftrightarrow> distinct (map tr_id rs) \<and> tr_id ` set rs \<inter> seen = {}"
  by (induction rs arbitrary: seen) auto

lemma store_from_lines_ok:
  "store_from_lines parse_time raw = CpOk st \<Longrightarrow> store_ok st \<and> (\<forall>r \<in> set (ts_tokens st). \<not> tr_revoked r)"
  by (auto simp: store_from_lines_def store_ok_def duplicate_id_None dest: parse_token_lines_ok
      split: if_splits option.splits)

lemma store_bootstrap_ok:
  "store_bootstrap secret = CpOk st \<Longrightarrow> store_ok st \<and> (\<forall>r \<in> set (ts_tokens st). \<not> tr_revoked r)"
  by (auto simp: store_bootstrap_def token_record_new_Ok store_ok_def token_ok_def)

lemma store_from_lookup_ok:
  "store_from_lookup parse_time read_file lookup = CpOk st \<Longrightarrow>
     store_ok st \<and> (\<forall>r \<in> set (ts_tokens st). \<not> tr_revoked r)"
  by (auto simp: store_from_lookup_def Let_def dest: store_from_lines_ok store_bootstrap_ok
      split: option.splits sum.splits if_splits)

lemma revoke_record_sel [simp]:
  "tr_id (revoke_record i r) = tr_id r" "tr_secret (revoke_record i r) = tr_secret r"
  "tr_revoked (revoke_record i r) \<longleftrightarrow> tr_revoked r \<or> tr_id r = i"
  by (auto simp: revoke_record_def)

lemma store_revoke_tokens [simp]: "ts_tokens (fst (store_revoke st i)) = map (revoke_record i) (ts_tokens st)"
  by (simp add: store_revoke_def)

lemma store_revoke_ok: "store_ok st \<Longrightarrow> store_ok (fst (store_revoke st i))"
  by (simp add: store_ok_def token_ok_def comp_def)

lemma store_reload_ok: "store_ok st \<Longrightarrow> store_ok (fst (store_reload parse_time read_file st lookup))"
  by (auto simp: store_reload_def store_ok_def split: cp_outcome.split dest!: store_from_lookup_ok)

datatype token_op = TReload "string \<Rightarrow> string + string" env_lookup | TRevoke string

fun token_exec :: "(string \<Rightarrow> time option) \<Rightarrow> token_store \<Rightarrow> token_op \<Rightarrow> token_store" where
  "token_exec parse_time st (TReload read_file lookup) = fst (store_reload parse_time read_file st lookup)"
| "token_exec parse_time st (TRevoke i) = fst (store_revoke st i)"

lemma token_exec_ok: "store_ok st \<Longrightarrow> store_ok (token_exec parse_time st x)"
  by (cases x) (simp_all add: store_reload_ok store_revoke_ok)

lemma fold_token_ok: "store_ok st \<Longrightarrow> store_ok (fold (\<lambda>x st. token_exec parse_time st x) ops st)"
  by (induction ops arbitrary: st) (simp_all add: token_exec_ok)

lemma authenticate_Inr:
  assumes "authenticate sha256 now st p = Inr t"
  obtains r where "r \<in> set (ts_tokens st)" "sha256 (tr_secret r) = sha256 p" "\<not> tr_revoked r"
    "case tr_expires_at r of Some e \<Rightarrow> now < e | None \<Rightarrow> True"
    "t = \<lparr>at_id = tr_id r, at_identity = tr_identity r, at_scope = tr_scope r\<rparr>"
proof (cases "find (\<lambda>r. sha256 (tr_secret r) = sha256 p) (ts_tokens st)")
  case None
  with assms show thesis by (simp add: authenticate_def)
next
  case (Some r)
  then have "r \<in> set (ts_tokens st)" "sha256 (tr_secret r) = sha256 p" by (auto simp: find_Some_iff)
  with that [of r] assms Some show thesis
    by (cases "tr_expires_at r") (auto simp: authenticate_def not_le split: if_splits)
qed

definition all_revoked :: "string \<Rightarrow> token_store \<Rightarrow> bool" where
  "all_revoked i st \<longleftrightarrow> (\<forall>r \<in> set (ts_tokens st). tr_id r = i \<longrightarrow> tr_revoked r)"

lemma all_revoked_revoke: "all_revoked i (fst (store_revoke st i))"
  by (simp add: all_revoked_def)

lemma all_revoked_keep: "all_revoked i st \<Longrightarrow> all_revoked i (fst (store_revoke st j))"
  by (simp add: all_revoked_def)

lemma all_revoked_fold: "all_revoked i st \<Longrightarrow> all_revoked i (fold (\<lambda>j st. fst (store_revoke st j)) js st)"
  by (induction js arbitrary: st) (simp_all add: all_revoked_keep)

section \<open>Limiter windows\<close>

lemma map_of_set_entry: "map_of (set_entry k v m) k' = (if k' = k then Some v else map_of m k')"
  by (induction m) auto

lemma set_entry_keys: "fst ` set (set_entry k v m) = insert k (fst ` set m)"
proof (induction m)
  case (Cons e m)
  then show ?case by (cases e) auto
qed simp

lemma set_entry_distinct: "distinct (map fst m) \<Longrightarrow> distinct (map fst (set_entry k v m))"
proof (induction m)
  case (Cons e m)
  then show ?case using set_entry_keys [of k v m] by (cases e) auto
qed simp

lemma map_of_filter_keep:
  "distinct (map fst m) \<Longrightarrow> map_of m k = Some v \<Longrightarrow> P (k, v) \<Longrightarrow> map_of (filter P m) k = Some v"
  by (induction m) (auto split: if_splits dest: map_of_SomeD)

lemma map_of_filter_None: "map_of m k = None \<Longrightarrow> map_of (filter P m) k = None"
  by (auto simp: map_of_eq_None_iff)

lemma pruned_distinct: "distinct (map fst (rl_window l)) \<Longrightarrow> distinct (map fst (pruned_window l p))"
  by (simp add: pruned_window_def distinct_map_filter)

lemma pruned_keep:
  assumes "distinct (map fst (rl_window l))" "duration_since p t0 < window_ns" "map_of (rl_window l) ip = Some (t0, c)"
  shows "map_of (pruned_window l p) ip = Some (t0, c)"
  using map_of_filter_keep [OF assms(1,3), of "\<lambda>(_, started, _). duration_since p started < window_ns"] assms(2,3)
  by (simp add: pruned_window_def)

lemma pruned_None: "map_of (rl_window l) ip = None \<Longrightarrow> map_of (pruned_window l p) ip = None"
  by (simp add: pruned_window_def map_of_filter_None)

lemma rate_check_window:
  "fst (rate_check l p now ip) = l\<lparr>rl_window := set_entry ip
      (fst (current_entry (pruned_window l p) now ip), snd (current_entry (pruned_window l p) now ip) + 1) (pruned_window l p)\<rparr>"
  "snd (rate_check l p now ip) = Inr () \<longleftrightarrow> snd (current_entry (pruned_window l p) now ip) + 1 \<le> rl_limit_per_minute l"
  by (auto simp: rate_check_def Let_def not_le split: prod.split)

text \<open>Requests with their two clock readings, and whether each was admitted.\<close>

fun rate_run :: "rate_limiter \<Rightarrow> (ip_addr \<times> time \<times> time) list \<Rightarrow> (ip_addr \<times> bool) list" where
  "rate_run l [] = []"
| "rate_run l ((ip, p, now) # reqs) =
     (ip, snd (rate_check l p now ip) = Inr ()) # rate_run (fst (rate_check l p now ip)) reqs"

text \<open>What the limiter remembers of an address: nothing before its first request, then its window and count.\<close>

definition seen :: "rate_limiter \<Rightarrow> ip_addr \<Rightarrow> time \<Rightarrow> nat \<Rightarrow> bool" where
  "seen l ip T n \<longleftrightarrow> distinct (map fst (rl_window l)) \<and>
     (case map_of (rl_window l) ip of
        None \<Rightarrow> n = 0
      | Some (t0, c) \<Rightarrow> T \<le> t0 \<and> t0 < T + window_ns \<and> unat c = n)"

lemma in_window: "T \<le> t0 \<Longrightarrow> x < T + window_ns \<Longrightarrow> duration_since x t0 < window_ns"
  by (simp add: duration_since_def)

lemma seen_pruned:
  assumes "seen l ip T n" "p < T + window_ns"
  shows "distinct (map fst (pruned_window l p))" "map_of (pruned_window l p) ip = map_of (rl_window l) ip"
proof -
  show "distinct (map fst (pruned_window l p))" using assms by (simp add: seen_def pruned_distinct)
  show "map_of (pruned_window l p) ip = map_of (rl_window l) ip"
    using assms pruned_keep pruned_None in_window
    by (cases "map_of (rl_window l) ip") (auto simp: seen_def)
qed

lemma seen_other:
  assumes "seen l ip T n" "p < T + window_ns" "ip' \<noteq> ip"
  shows "seen (fst (rate_check l p now ip')) ip T n"
  using assms(1) seen_pruned [OF assms(1,2)] assms(3)
  by (simp add: seen_def rate_check_window map_of_set_entry set_entry_distinct)

lemma seen_entry:
  assumes "seen l ip T n" "p < T + window_ns" "T \<le> now" "now < T + window_ns"
  obtains t0 c where "current_entry (pruned_window l p) now ip = (t0, c)" "unat c = n" "T \<le> t0" "t0 < T + window_ns"
proof (cases "map_of (rl_window l) ip")
  case None
  then have "current_entry (pruned_window l p) now ip = (now, 0)"
    using seen_pruned(2) [OF assms(1,2)] by (simp add: current_entry_def duration_since_def Let_def)
  with that None assms show thesis by (simp add: seen_def)
next
  case (Some e)
  obtain t0 c where e: "e = (t0, c)" by force
  with Some assms(1) have t0: "T \<le> t0" "t0 < T + window_ns" "unat c = n" by (auto simp: seen_def)
  then have "current_entry (pruned_window l p) now ip = (t0, c)"
    using seen_pruned(2) [OF assms(1,2)] Some e in_window [OF t0(1) assms(4)]
    by (simp add: current_entry_def Let_def)
  with that t0 show thesis by blast
qed

lemma seen_same:
  assumes "seen l ip T n" "p < T + window_ns" "T \<le> now" "now < T + window_ns" "Suc n < 2 ^ 32"
  shows "seen (fst (rate_check l p now ip)) ip T (Suc n)"
    and "snd (rate_check l p now ip) = Inr () \<longleftrightarrow> Suc n \<le> unat (rl_limit_per_minute l)"
proof -
  obtain t0 c where e: "current_entry (pruned_window l p) now ip = (t0, c)" "unat c = n" "T \<le> t0" "t0 < T + window_ns"
    using seen_entry [OF assms(1-4)] by blast
  have c: "unat (c + 1) = Suc n" using e(2) assms(5) by (simp add: unat_word_ariths)
  show "seen (fst (rate_check l p now ip)) ip T (Suc n)"
    using seen_pruned [OF assms(1,2)] e c
    by (simp add: seen_def rate_check_window map_of_set_entry set_entry_distinct)
  show "snd (rate_check l p now ip) = Inr () \<longleftrightarrow> Suc n \<le> unat (rl_limit_per_minute l)"
    using e c by (simp add: rate_check_window word_le_nat_alt)
qed

lemma rate_check_limit [simp]: "rl_limit_per_minute (fst (rate_check l p now ip)) = rl_limit_per_minute l"
  by (simp add: rate_check_window)

lemma rate_run_count:
  assumes "seen l ip T n" "\<forall>(_, p, now) \<in> set reqs. p < T + window_ns \<and> T \<le> now \<and> now < T + window_ns"
    and "n + count_list (map fst reqs) ip < 2 ^ 32"
  shows "count_list (rate_run l reqs) (ip, True) + min (unat (rl_limit_per_minute l)) n =
    min (unat (rl_limit_per_minute l)) (n + count_list (map fst reqs) ip)"
  using assms
proof (induction reqs arbitrary: l n)
  case (Cons q reqs)
  obtain ip' p now where q: "q = (ip', p, now)" using prod_cases3 by blast
  with Cons.prems have t: "p < T + window_ns" "T \<le> now" "now < T + window_ns"
    "\<forall>(_, p, now) \<in> set reqs. p < T + window_ns \<and> T \<le> now \<and> now < T + window_ns" by auto
  show ?case
  proof (cases "ip' = ip")
    case True
    have b: "Suc n + count_list (map fst reqs) ip < 2 ^ 32" using Cons.prems(3) True q by simp
    then have "Suc n < 2 ^ 32" by simp
    note same = seen_same [OF Cons.prems(1) t(1-3) this]
    from Cons.IH [OF same(1) t(4) b] same(2) True q show ?thesis by auto
  next
    case False
    from Cons.IH [OF seen_other [OF Cons.prems(1) t(1) False] t(4)] Cons.prems(3) False q
    show ?thesis by simp
  qed
qed simp

lemma span_sep:
  "c \<notin> set a \<Longrightarrow> takeWhile (\<lambda>x. x \<noteq> c) (a @ c # b) = a"
  "c \<notin> set a \<Longrightarrow> dropWhile (\<lambda>x. x \<noteq> c) (a @ c # b) = c # b"
  by (induction a) auto

lemma split_once_sep: "c \<notin> set a \<Longrightarrow> split_once c (a @ c # b) = Some (a, b)"
  by (simp add: split_once_def span_sep)

lemma rsplit_once_sep: "c \<notin> set b \<Longrightarrow> rsplit_once c (a @ c # b) = Some (a, b)"
  by (simp add: rsplit_once_def span_sep)

section \<open>Properties\<close>

text \<open>
  A token store always holds usable credentials: however it was configured, and after any sequence of reloads,
  successful or not, and revocations, it is not empty, its identifiers are distinct and not blank,
  and every secret has at least the required length.
\<close>

theorem token_store_invariant:
  assumes "store_from_lookup parse_time read_file lookup = CpOk st"
  shows "store_ok (fold (\<lambda>x st. token_exec parse_time st x) ops st)"
  using store_from_lookup_ok [OF assms] fold_token_ok by blast

theorem token_store_invariant_witness:
  "\<exists>st. store_from_lookup (\<lambda>_. None) (\<lambda>_. Inl ''no file'') [''LABRYS_API_TOKEN'' \<mapsto> ''bootstrap-secret-0123''] = CpOk st \<and>
     store_ok (fold (\<lambda>x st. token_exec (\<lambda>_. None) st x) [TRevoke ''bootstrap'', TReload (\<lambda>_. Inl ''gone'') Map.empty] st)"
proof -
  have "trim ''bootstrap-secret-0123'' \<noteq> []" "trim ''bootstrap'' \<noteq> []" by code_simp+
  then obtain st where "store_from_lookup (\<lambda>_. None) (\<lambda>_. Inl ''no file'')
      [''LABRYS_API_TOKEN'' \<mapsto> ''bootstrap-secret-0123''] = CpOk st"
    by (simp add: store_from_lookup_def store_bootstrap_def token_record_new_def min_token_len_def)
  from this token_store_invariant [OF this] show ?thesis by blast
qed

text \<open>
  Revocation takes effect at once and for good, until the set is replaced: after a token id is revoked, whatever
  else is revoked, no presented secret authenticates as that id, whatever the hash function.
\<close>

theorem revoked_token_denied:
  assumes "authenticate sha256 now (fold (\<lambda>j st. fst (store_revoke st j)) js (fst (store_revoke st i))) p = Inr t"
  shows "at_id t \<noteq> i"
proof
  assume i: "at_id t = i"
  obtain r where r: "r \<in> set (ts_tokens (fold (\<lambda>j st. fst (store_revoke st j)) js (fst (store_revoke st i))))"
    "\<not> tr_revoked r" "t = \<lparr>at_id = tr_id r, at_identity = tr_identity r, at_scope = tr_scope r\<rparr>"
    using authenticate_Inr [OF assms] by metis
  have "all_revoked i (fold (\<lambda>j st. fst (store_revoke st j)) js (fst (store_revoke st i)))"
    by (rule all_revoked_fold [OF all_revoked_revoke])
  with r i show False by (simp add: all_revoked_def)
qed

theorem revoked_token_denied_witness:
  "\<exists>t. authenticate (\<lambda>s. map of_char s) 5
     (fst (store_revoke \<lparr>ts_tokens =
        [\<lparr>tr_id = ''a'', tr_identity = ''a'', tr_scope = ScopeHuman, tr_expires_at = None, tr_revoked = False, tr_secret = ''sa''\<rparr>,
         \<lparr>tr_id = ''b'', tr_identity = ''b'', tr_scope = ScopeAgent, tr_expires_at = None, tr_revoked = False, tr_secret = ''sb''\<rparr>],
        ts_bootstrap = False\<rparr> ''a'')) ''sb'' = Inr t \<and> at_id t \<noteq> ''a''"
proof -
  let ?st = "\<lparr>ts_tokens =
        [\<lparr>tr_id = ''a'', tr_identity = ''a'', tr_scope = ScopeHuman, tr_expires_at = None, tr_revoked = False, tr_secret = ''sa''\<rparr>,
         \<lparr>tr_id = ''b'', tr_identity = ''b'', tr_scope = ScopeAgent, tr_expires_at = None, tr_revoked = False, tr_secret = ''sb''\<rparr>],
        ts_bootstrap = False\<rparr>"
  obtain t where t: "authenticate (\<lambda>s. map of_char s) 5 (fst (store_revoke ?st ''a'')) ''sb'' = Inr t"
    by (simp add: authenticate_def store_revoke_def revoke_record_def)
  have "at_id t \<noteq> ''a''"
    using revoked_token_denied [of "\<lambda>s. map of_char s" 5 "[]" ?st "''a''" "''sb''" t] t by simp
  with t show ?thesis by blast
qed

text \<open>
  A reload forgets every revocation: the set it installs has no revoked token, so a token that was
  revoked and is still in the configuration is accepted again.
\<close>

theorem reload_forgets_revocation:
  assumes "store_reload parse_time read_file st lookup = (st', CpOk n)" "r \<in> set (ts_tokens st')"
  shows "\<not> tr_revoked r"
  using assms store_from_lookup_ok
  by (auto simp: store_reload_def split: cp_outcome.splits)

text \<open>
  A token line denotes what it says: a trimmed id and a secret without colons, one of the two scopes and an
  expiry that parses give a live token with exactly these parts, although the expiry itself contains colons.
\<close>

theorem token_line_roundtrip:
  assumes "CHR '':'' \<notin> set i" "trim i = i" "i \<noteq> []" "CHR '':'' \<notin> set secret" "16 \<le> length secret"
    and "parse_time e = Some t" "trim e = e" "e \<noteq> ''never''"
  shows "parse_token_line parse_time (i @ '':agent:'' @ e @ '':'' @ secret) =
    Inr \<lparr>tr_id = i, tr_identity = i, tr_scope = ScopeAgent, tr_expires_at = Some t, tr_revoked = False, tr_secret = secret\<rparr>"
proof -
  have "splitn3 (i @ '':agent:'' @ e @ '':'' @ secret) = Some (i, ''agent'', e @ '':'' @ secret)"
    using split_once_sep [OF assms(1), of "''agent:'' @ e @ '':'' @ secret"]
      split_once_sep [of "CHR '':''" "''agent''" "e @ '':'' @ secret"]
    by (simp add: splitn3_def)
  moreover have "rsplit_once (CHR '':'') (e @ '':'' @ secret) = Some (e, secret)"
    using rsplit_once_sep [OF assms(4), of e] by simp
  moreover have "token_scope_parse ''agent'' = Some ScopeAgent" by code_simp
  moreover have "parse_expiry parse_time e = Inr (Some t)" using assms by (simp add: parse_expiry_def Let_def)
  moreover have "token_record_new i i ScopeAgent (Some t) secret = CpOk \<lparr>tr_id = i, tr_identity = i,
      tr_scope = ScopeAgent, tr_expires_at = Some t, tr_revoked = False, tr_secret = secret\<rparr>"
    using assms by (simp add: token_record_new_Ok min_token_len_def)
  moreover have "secret \<noteq> []" using assms(5) by auto
  ultimately show ?thesis using assms(2) by (simp add: parse_token_line_def)
qed

text \<open>
  The limiter admits exactly its budget. Whatever other addresses do in between and whenever the table is
  pruned, of the requests of one address within a minute (fewer than 2^32 of them) exactly the first
  \<open>limit\<close> are admitted.
\<close>

theorem rate_limit_exact:
  assumes "distinct (map fst (rl_window l))" "map_of (rl_window l) ip = None"
    and "\<forall>(_, p, now) \<in> set reqs. p < T + window_ns \<and> T \<le> now \<and> now < T + window_ns"
    and "count_list (map fst reqs) ip < 2 ^ 32"
  shows "count_list (rate_run l reqs) (ip, True) = min (unat (rl_limit_per_minute l)) (count_list (map fst reqs) ip)"
  using rate_run_count [of l ip T 0 reqs] assms by (simp add: seen_def)

theorem rate_limit_exact_witness:
  "let ip = IpV4 10 0 0 1
   in count_list (rate_run (rate_limiter_new 1) [(ip, 0, 7), (IpV6 1, 0, 7), (ip, 0, 8), (ip, 0, 9)]) (ip, True) = 1"
  using rate_limit_exact [of "rate_limiter_new 1" "IpV4 10 0 0 1"
      "[(IpV4 10 0 0 1, 0, 7), (IpV6 1, 0, 7), (IpV4 10 0 0 1, 0, 8), (IpV4 10 0 0 1, 0, 9)]" 0]
  by (simp add: rate_limiter_new_def Let_def)

text \<open>
  A refused request is told to wait between one second and one minute, even if the clock reading lies
  before the start of the window.
\<close>

theorem retry_after_bounds:
  "case snd (rate_check l p now ip) of Inl s \<Rightarrow> 1 \<le> unat s \<and> unat s \<le> 60 | Inr _ \<Rightarrow> True"
proof -
  have b: "1 \<le> unat (retry_after now started) \<and> unat (retry_after now started) \<le> 60" for started
  proof -
    define s where "s = max ((window_ns - duration_since now started) div nanos_per_sec) 1"
    have "0 \<le> duration_since now started" by (simp add: duration_since_def)
    then have "(window_ns - duration_since now started) div nanos_per_sec \<le> window_ns div nanos_per_sec"
      by (intro zdiv_mono1) simp_all
    then have s: "1 \<le> s" "s \<le> 60" by (simp_all add: s_def)
    then have "unat (of_int s :: u64) = nat s" by (simp add: unsigned_of_int take_bit_int_eq_self)
    with s have "1 \<le> unat (of_int s :: u64) \<and> unat (of_int s :: u64) \<le> 60" by linarith
    then show ?thesis unfolding retry_after_def s_def by simp
  qed
  show ?thesis using b by (simp add: rate_check_def Let_def split: prod.split)
qed

text \<open>
  Plain HTTP is served only on a loopback address or under the explicit flag, and a configured certificate is
  used exactly when both of its files exist.
\<close>

theorem bind_policy_exact:
  "bind_policy is_file addr tls allow = CpOk r \<longleftrightarrow>
     (case tls of
        Some t \<Rightarrow> r = BindTls \<and> is_file (tls_cert_file t) \<and> is_file (tls_key_file t)
      | None \<Rightarrow> r = (if is_loopback (sa_ip addr) then PlainLoopback else PlainDisposable) \<and>
          (is_loopback (sa_ip addr) \<or> allow))"
  by (auto simp: bind_policy_def split: option.split)

end
