(* ===== verification/Api_Core.thy ===== *)
theory Api_Core
  imports Durable_Apps Api_Auth Agent
begin

text \<open>
  The frame of the control-plane API: configuration, errors, the authorisation gate, envelopes, replay records and the
  actor policy of \<open>labrys-control-plane/src/api.rs\<close>.

  A handler maps the world of the API to the world it leaves and an answer; an error after a write keeps the write,
  as separate statements do. The world holds the tables, the token store, the limiter and the plugin registry.
  What the process takes from outside is in two records: \<open>api_env\<close> (parsers, hash, JSON text, the driver's messages) and
  \<open>api_request\<close> (headers, fresh identifiers, the clock; the clock readings of one request are one instant). Decoding of
  bodies, routing and TLS are the web framework's and are not modelled: a body arrives decoded.
\<close>

section \<open>Configuration\<close>

record api_config =
  ac_tokens :: token_store
  ac_bind_addr :: socket_addr
  ac_tls :: "tls_config option"
  ac_allow_plain_http :: bool
  ac_rate_limit_per_minute :: u32

definition api_config_validate :: "(string \<Rightarrow> bool) \<Rightarrow> api_config \<Rightarrow> unit cp_outcome" where
  "api_config_validate is_file c =
     (if store_is_empty (ac_tokens c) then CpErr (ConfigError ''API token is required (LABRYS_API_TOKEN)'')
      else cp_bind (bind_policy is_file (ac_bind_addr c) (ac_tls c) (ac_allow_plain_http c)) (\<lambda>_. CpOk ()))"

text \<open>\<open>u32::from_str\<close>: the digits of a number below the width.\<close>

definition parse_u32 :: "string \<Rightarrow> u32 option" where
  "parse_u32 raw = (case parse_unsigned raw of Some n \<Rightarrow> if unat n < 2 ^ 32 then Some (ucast n) else None | None \<Rightarrow> None)"

definition api_tls_lookup :: "env_lookup \<Rightarrow> tls_config option cp_outcome" where
  "api_tls_lookup lookup =
     (case (lookup ''LABRYS_TLS_CERT_FILE'', lookup ''LABRYS_TLS_KEY_FILE'') of
        (None, None) \<Rightarrow> CpOk None
      | (Some cert, Some key) \<Rightarrow> CpOk (Some \<lparr>tls_cert_file = trim cert, tls_key_file = trim key\<rparr>)
      | _ \<Rightarrow> CpErr (ConfigError ''TLS needs both LABRYS_TLS_CERT_FILE and LABRYS_TLS_KEY_FILE; set both or neither, then retry''))"

definition api_config_from_lookup ::
  "(string \<Rightarrow> socket_addr option) \<Rightarrow> (string \<Rightarrow> time option) \<Rightarrow> (string \<Rightarrow> string + string) \<Rightarrow> (string \<Rightarrow> bool) \<Rightarrow> env_lookup \<Rightarrow>
   api_config cp_outcome" where
  "api_config_from_lookup parse_addr parse_time read_file is_file lookup =
     cp_bind (case lookup ''LABRYS_API_ADDR'' of
                None \<Rightarrow> CpOk \<lparr>sa_ip = IpV4 127 0 0 1, sa_text = ''127.0.0.1:8080''\<rparr>
              | Some raw \<Rightarrow> (case parse_addr raw of
                   Some a \<Rightarrow> CpOk a
                 | None \<Rightarrow> CpErr (ConfigError (''LABRYS_API_ADDR is not a socket address: '' @ raw)))) (\<lambda>addr.
     cp_bind (api_tls_lookup lookup) (\<lambda>tls.
     cp_bind (case lookup ''LABRYS_API_RATE_LIMIT_PER_MINUTE'' of
                None \<Rightarrow> CpOk default_rate_limit_per_minute
              | Some raw \<Rightarrow> (case parse_u32 raw of
                   Some n \<Rightarrow> CpOk n
                 | None \<Rightarrow> CpErr (ConfigError (''LABRYS_API_RATE_LIMIT_PER_MINUTE must be a positive integer, got '' @
                     quoted raw)))) (\<lambda>limit.
     cp_bind (store_from_lookup parse_time read_file lookup) (\<lambda>tokens.
       let c = \<lparr>ac_tokens = tokens, ac_bind_addr = addr, ac_tls = tls,
                ac_allow_plain_http = (case lookup ''LABRYS_ALLOW_PLAIN_HTTP'' of
                   Some v \<Rightarrow> v = ''1'' \<or> to_ascii_lowercase v = ''true'' | None \<Rightarrow> False),
                ac_rate_limit_per_minute = limit\<rparr>
       in cp_bind (api_config_validate is_file c) (\<lambda>_. CpOk c)))))"

section \<open>State, errors and answers\<close>

record idempotency_row =
  ir_key :: string
  ir_command :: string
  ir_response :: json
  ir_created_at :: time

record api_world =
  aw_tables :: app_tables
  aw_jobs :: job_table
  aw_logs :: "stored_log_row serial_table"
  aw_evidence :: "evidence_row list"
  aw_replays :: "idempotency_row list"
  aw_plugins :: plugin_registry
  aw_tokens :: token_store
  aw_limiter :: rate_limiter
  aw_secrets :: "string list"

record api_env =
  ae_parse :: "string \<Rightarrow> uuid option"
  ae_default :: uuid
  ae_msg :: "string \<Rightarrow> string"
  ae_precision :: clock_precision
  ae_rfc3339 :: "time \<Rightarrow> string"
  ae_sha256 :: "string \<Rightarrow> u8 list"
  ae_json :: json_api

record api_request =
  rq_headers :: "string \<Rightarrow> string option"
  rq_fresh_trace :: string
  rq_now :: time
  rq_job_uuid :: uuid
  rq_app_uuid :: uuid
  rq_dev_uuid :: uuid
  rq_prod_uuid :: uuid

definition api_state_new :: "token_store \<Rightarrow> string list \<Rightarrow> api_world" where
  "api_state_new tokens secrets =
     \<lparr>aw_tables = tables_empty, aw_jobs = [], aw_logs = serial_empty, aw_evidence = [], aw_replays = [], aw_plugins = [],
      aw_tokens = tokens, aw_limiter = rate_limiter_new default_rate_limit_per_minute, aw_secrets = secrets\<rparr>"

record api_error =
  er_status :: nat
  er_code :: string
  er_message :: string
  er_recovery :: string
  er_trace_id :: string

datatype 'a api_outcome = ApiOk 'a | ApiErr api_error | ApiPanic string

type_synonym 'a api = "api_world \<Rightarrow> api_world \<times> 'a api_outcome"

definition api_return :: "'a \<Rightarrow> 'a api" where
  "api_return a = (\<lambda>w. (w, ApiOk a))"

definition api_fail :: "api_error \<Rightarrow> 'a api" where
  "api_fail e = (\<lambda>w. (w, ApiErr e))"

definition api_bind :: "'a api \<Rightarrow> ('a \<Rightarrow> 'b api) \<Rightarrow> 'b api" where
  "api_bind c f = (\<lambda>w. case c w of
     (w', ApiOk a) \<Rightarrow> f a w'
   | (w', ApiErr e) \<Rightarrow> (w', ApiErr e)
   | (w', ApiPanic m) \<Rightarrow> (w', ApiPanic m))"

definition api_reject :: "api_error option \<Rightarrow> unit api" where
  "api_reject e = (case e of Some err \<Rightarrow> api_fail err | None \<Rightarrow> api_return ())"

definition err_new :: "nat \<Rightarrow> string \<Rightarrow> string \<Rightarrow> string \<Rightarrow> string \<Rightarrow> api_error" where
  "err_new status code message recovery trace_id =
     \<lparr>er_status = status, er_code = code, er_message = message, er_recovery = recovery, er_trace_id = trace_id\<rparr>"

definition err_unauthorized :: "string \<Rightarrow> api_error" where
  "err_unauthorized trace_id =
     err_new 401 ''api.unauthorized'' ''missing or invalid API token''
       ''set LABRYS_API_TOKEN (server) and pass --token <token> or Authorization: Bearer <token>'' trace_id"

definition err_forbidden :: "string \<Rightarrow> string \<Rightarrow> string \<Rightarrow> api_error" where
  "err_forbidden trace_id message recovery = err_new 403 ''api.forbidden'' message recovery trace_id"

definition err_rate_limited :: "string \<Rightarrow> u64 \<Rightarrow> api_error" where
  "err_rate_limited trace_id retry_after_secs =
     err_new 429 ''api.rate_limited'' ''request rate exceeded for this client''
       (''back off and retry after '' @ show_u64 retry_after_secs @
        ''s; operators raise LABRYS_API_RATE_LIMIT_PER_MINUTE for bulk callers'') trace_id"

definition err_not_found :: "string \<Rightarrow> string \<Rightarrow> string \<Rightarrow> api_error" where
  "err_not_found trace_id message recovery = err_new 404 ''api.not_found'' message recovery trace_id"

definition err_unprocessable :: "string \<Rightarrow> string \<Rightarrow> string \<Rightarrow> api_error" where
  "err_unprocessable trace_id message recovery = err_new 422 ''api.unprocessable'' message recovery trace_id"

definition api_version :: u32 where
  "api_version = 1"

abbreviation json_u32 :: "u32 \<Rightarrow> json" where
  "json_u32 n \<equiv> JNumber (NumU64 (ucast n))"

abbreviation json_str :: "string \<Rightarrow> json" where
  "json_str s \<equiv> JString s"

definition versions_value :: json where
  "versions_value = json_object [(''api'', json_u32 api_version), (''agent'', json_u32 agent_protocol_version),
     (''plugin'', json_u32 plugin_protocol_version)]"

definition error_body :: "api_error \<Rightarrow> json" where
  "error_body e = json_object [(''ok'', JBool False), (''replayed'', JBool False),
     (''correlation'', json_object [(''trace_id'', json_str (er_trace_id e))]), (''code'', json_str (er_code e)),
     (''message'', json_str (er_message e)), (''recovery'', json_str (er_recovery e)), (''versions'', versions_value)]"

section \<open>Requests and actors\<close>

definition nonblank_header :: "api_request \<Rightarrow> string \<Rightarrow> string option" where
  "nonblank_header q name =
     (case rq_headers q name of Some s \<Rightarrow> if trim s \<noteq> [] then Some s else None | None \<Rightarrow> None)"

definition trace_of :: "api_request \<Rightarrow> string" where
  "trace_of q = (case nonblank_header q ''x-trace-id'' of Some s \<Rightarrow> s | None \<Rightarrow> ''trace-'' @ rq_fresh_trace q)"

definition idempotency_of :: "api_request \<Rightarrow> string option" where
  "idempotency_of q = nonblank_header q ''Idempotency-Key''"

record actor_context =
  cx_actor :: cli_actor
  cx_trace_id :: string
  cx_idempotency_key :: "string option"

fun context_event_actor :: "(string \<Rightarrow> uuid option) \<Rightarrow> cli_actor \<Rightarrow> event_actor" where
  "context_event_actor parse (CliHuman name) = ActorHuman name"
| "context_event_actor parse (CliPlatform name) = ActorPlatform name"
| "context_event_actor parse (CliAgent session name) =
     (case agent_session_id_from_str parse session of
        Inr i \<Rightarrow> ActorAgent i name
      | Inl _ \<Rightarrow> ActorPlatform (''agent:'' @ name))"

definition parse_actor :: "string \<Rightarrow> cli_actor option" where
  "parse_actor raw =
     (case split_once (CHR '':'') raw of
        None \<Rightarrow> None
      | Some (kind, rest) \<Rightarrow>
          (case split_once (CHR '':'') rest of
             None \<Rightarrow>
               if kind = ''human'' \<and> trim rest \<noteq> [] then Some (CliHuman rest)
               else if kind = ''platform'' \<and> trim rest \<noteq> [] then Some (CliPlatform rest)
               else None
           | Some (session, name) \<Rightarrow>
               if kind = ''agent'' \<and> trim session \<noteq> [] \<and> trim name \<noteq> [] then Some (CliAgent session name) else None))"

definition audit_auth_denial :: "api_env \<Rightarrow> api_request \<Rightarrow> string \<Rightarrow> string \<Rightarrow> unit api" where
  "audit_auth_denial E q target detail = (\<lambda>w.
     (w\<lparr>aw_tables := (aw_tables w)\<lparr>t_audit := fst (append_audit (ae_precision E) (ae_rfc3339 E) (t_audit (aw_tables w)) (rq_now q)
          ''platform:api-gate'' ''auth.rejected'' target detail (aw_secrets w))\<rparr>\<rparr>, ApiOk ()))"

fun deny_cause :: "auth_deny_reason \<Rightarrow> string" where
  "deny_cause DenyExpired = ''expired''"
| "deny_cause DenyRevoked = ''revoked''"
| "deny_cause DenyUnknown = ''unknown''"

definition deny_reference :: "api_env \<Rightarrow> auth_denial \<Rightarrow> string \<Rightarrow> string" where
  "deny_reference E denial bearer =
     (case ad_known_id denial of
        Some i \<Rightarrow> ''token '' @ quoted i
      | None \<Rightarrow> ''unknown token ('' @ token_fingerprint (ae_sha256 E) bearer @ '')'')"

fun scope_label :: "token_scope \<Rightarrow> string" where
  "scope_label ScopeHuman = ''human''"
| "scope_label ScopeAgent = ''agent''"

definition bearer_of :: "api_request \<Rightarrow> string" where
  "bearer_of q =
     (case rq_headers q ''authorization'' of
        Some v \<Rightarrow> if starts_with v ''Bearer '' then drop (length ''Bearer '') v else []
      | None \<Rightarrow> [])"

definition authorized :: "api_env \<Rightarrow> api_request \<Rightarrow> string \<Rightarrow> string \<Rightarrow> actor_context api" where
  "authorized E q trace_id target = (\<lambda>w.
     (case authenticate (ae_sha256 E) (rq_now q) (aw_tokens w) (bearer_of q) of
        Inl denial \<Rightarrow>
          api_bind (audit_auth_denial E q target (''auth rejected: '' @ deny_cause (ad_reason denial) @ '' bearer for '' @
              deny_reference E denial (bearer_of q)))
            (\<lambda>_. api_fail (err_unauthorized trace_id)) w
      | Inr token \<Rightarrow>
          (case parse_actor (case rq_headers q ''x-labryst-actor'' of Some raw \<Rightarrow> raw | None \<Rightarrow> []) of
             None \<Rightarrow> api_fail (err_new 400 ''api.actor_required'' ''missing or malformed actor identity''
                 ''pass x-labryst-actor: human:<name> or agent:<session>:<name>'' trace_id) w
           | Some actor \<Rightarrow>
               if \<not> allows (at_scope token) actor
               then api_bind (audit_auth_denial E q target (''auth rejected: '' @ scope_label (at_scope token) @
                       ''-scoped token '' @ quoted (at_id token) @ '' cannot claim a '' @ cli_actor_label actor @ '' actor''))
                     (\<lambda>_. api_fail (err_forbidden trace_id (''token '' @ quoted (at_id token) @ '' is not scoped for a '' @
                         cli_actor_label actor @ '' actor'')
                       ''use a token whose scope matches the actor, or have a human operator approve and run human-only lifecycle mutations'')) w
               else (w, ApiOk \<lparr>cx_actor = actor, cx_trace_id = trace_id, cx_idempotency_key = idempotency_of q\<rparr>))))"

definition rate_limit :: "api_request \<Rightarrow> ip_addr option \<Rightarrow> 'a api \<Rightarrow> 'a api" where
  "rate_limit q peer run = (\<lambda>w.
     (case peer of
        None \<Rightarrow> run w
      | Some ip \<Rightarrow>
          (case rate_check (aw_limiter w) (rq_now q) (rq_now q) ip of
             (l, Inl secs) \<Rightarrow> (w\<lparr>aw_limiter := l\<rparr>, ApiErr (err_rate_limited (trace_of q) secs))
           | (l, Inr _) \<Rightarrow> run (w\<lparr>aw_limiter := l\<rparr>))))"

section \<open>Envelopes, replay records and jobs\<close>

definition job_value :: "job \<Rightarrow> json" where
  "job_value j = json_object [(''id'', json_str (job_id_display (job_ident j))), (''target'', json_str (job_target j)),
     (''action'', json_str (job_action_as_str (job_act j))),
     (''status'', json_str (to_ascii_lowercase (debug_job_status (job_state j)))), (''attempts'', json_u32 (job_attempts j)),
     (''idempotency_key'', json_str (key_as_str (job_key j)))]"

definition envelope ::
  "string \<Rightarrow> actor_context \<Rightarrow> bool \<Rightarrow> json option \<Rightarrow> json option \<Rightarrow> job option \<Rightarrow> string option \<Rightarrow> json" where
  "envelope command ctx replayed resource data job recovery =
     json_object [(''ok'', JBool True), (''replayed'', JBool replayed), (''command'', json_str command),
       (''correlation'', json_object [(''trace_id'', json_str (cx_trace_id ctx))]), (''resource'', json_option resource),
       (''data'', json_option data), (''job'', json_option (map_option job_value job)),
       (''recovery'', json_option (map_option json_str recovery)), (''versions'', versions_value)]"

definition internal_error :: "actor_context \<Rightarrow> control_plane_error \<Rightarrow> api_error" where
  "internal_error ctx e =
     err_new 500 ''api.internal'' (redact (control_plane_error_display e) [])
       ''retry the request; if it persists, inspect control-plane logs with the trace id'' (cx_trace_id ctx)"

text \<open>A store operation with its error mapped by \<open>internal\<close>; a read leaves the world alone.\<close>

definition api_lift :: "(control_plane_error \<Rightarrow> api_error) \<Rightarrow> (api_world \<Rightarrow> api_world \<times> 'a cp_outcome) \<Rightarrow> 'a api" where
  "api_lift on_error f = (\<lambda>w. case f w of
     (w', CpOk a) \<Rightarrow> (w', ApiOk a)
   | (w', CpErr e) \<Rightarrow> (w', ApiErr (on_error e))
   | (w', CpPanic m) \<Rightarrow> (w', ApiPanic m))"

definition api_read :: "(control_plane_error \<Rightarrow> api_error) \<Rightarrow> (api_world \<Rightarrow> 'a cp_outcome) \<Rightarrow> 'a api" where
  "api_read on_error f = api_lift on_error (\<lambda>w. (w, f w))"

text \<open>\<open>response["replayed"] = true\<close>: an object gets the field, null becomes an object, anything else panics.\<close>

fun mark_replayed :: "json \<Rightarrow> json cp_outcome" where
  "mark_replayed (JObject m) = CpOk (JObject (btm_insert ''replayed'' (JBool True) m))"
| "mark_replayed JNull = CpOk (json_object [(''replayed'', JBool True)])"
| "mark_replayed _ = CpPanic ''cannot access key in JSON value''"

definition check_replay :: "api_world \<Rightarrow> string option \<Rightarrow> json option cp_outcome" where
  "check_replay w key =
     (case key of
        None \<Rightarrow> CpOk None
      | Some k \<Rightarrow>
          (case find (\<lambda>r. ir_key r = k) (aw_replays w) of
             None \<Rightarrow> CpOk None
           | Some r \<Rightarrow> cp_bind (mark_replayed (ir_response r)) (\<lambda>v. CpOk (Some v))))"

definition store_replay ::
  "api_env \<Rightarrow> api_request \<Rightarrow> string \<Rightarrow> string \<Rightarrow> json \<Rightarrow> api_world \<Rightarrow> api_world \<times> unit cp_outcome" where
  "store_replay E q key command response w =
     (case redact_guard ''idempotency_records.response'' (json_print (ae_json E) response) (aw_secrets w) of
        Inl e \<Rightarrow> (w, CpErr e)
      | Inr detail \<Rightarrow>
          (let stored = (case json_parse (ae_json E) detail of Some v \<Rightarrow> v | None \<Rightarrow> JNull) in
           (if list_ex (\<lambda>r. ir_key r = key) (aw_replays w) then w
            else w\<lparr>aw_replays := aw_replays w @ [\<lparr>ir_key = key, ir_command = command, ir_response = stored, ir_created_at = rq_now q\<rparr>]\<rparr>,
            CpOk ())))"

definition api_enqueue ::
  "api_env \<Rightarrow> api_request \<Rightarrow> string \<Rightarrow> job_action \<Rightarrow> time \<Rightarrow> api_world \<Rightarrow> api_world \<times> (job \<times> bool) cp_outcome" where
  "api_enqueue E q target action at w =
     (case pg_enqueue (ae_parse E) (rq_job_uuid q) (aw_jobs w) target action 1 retry_policy_default at of
        (T, r) \<Rightarrow>
          (w\<lparr>aw_jobs := T\<rparr>,
           cp_bind r (\<lambda>outcome. case outcome of
             Enqueued i \<Rightarrow> cp_bind (pg_get (ae_parse E) T i) (\<lambda>j. CpOk (j, False))
           | Duplicate i \<Rightarrow> cp_bind (pg_get (ae_parse E) T i) (\<lambda>j. CpOk (j, True)))))"

definition api_record_event ::
  "api_env \<Rightarrow> actor_context \<Rightarrow> event_action \<Rightarrow> event_result \<Rightarrow> string \<Rightarrow> string \<Rightarrow> string \<Rightarrow> time \<Rightarrow> api_world \<Rightarrow>
   api_world \<times> unit cp_outcome" where
  "api_record_event E ctx action result resource_kind resource_id detail at w =
     (let draft = (event_draft_new at (context_event_actor (ae_parse E) (cx_actor ctx)) (correlation_new (cx_trace_id ctx)) action result)
            \<lparr>dr_resource := Some (event_resource_new resource_kind resource_id), dr_after := Some detail\<rparr>;
          (T, r) = pg_event_append \<lparr>ic_parse = ae_parse E, ic_default = ae_default E\<rparr> (t_events (aw_tables w)) draft (aw_secrets w)
      in (w\<lparr>aw_tables := (aw_tables w)\<lparr>t_events := T\<rparr>\<rparr>, cp_bind r (\<lambda>_. CpOk ())))"

section \<open>Actor policy\<close>

definition forbid_agent :: "actor_context \<Rightarrow> string \<Rightarrow> api_error option" where
  "forbid_agent ctx command =
     (if is_agent (cx_actor ctx)
      then Some (err_forbidden (cx_trace_id ctx) (''an agent session may not run '' @ quoted command)
             ''a human operator must run this command; agents may request approval first'')
      else None)"

definition require_human :: "actor_context \<Rightarrow> string \<Rightarrow> api_error option" where
  "require_human ctx command =
     (if \<not> is_human (cx_actor ctx)
      then Some (err_forbidden (cx_trace_id ctx) (quoted command @ '' is a human-only operation'')
             ''a named human must issue this command with --approve-by <name>'')
      else None)"

definition require_idempotency :: "actor_context \<Rightarrow> string \<Rightarrow> string api" where
  "require_idempotency ctx command =
     (case cx_idempotency_key ctx of
        Some k \<Rightarrow> api_return k
      | None \<Rightarrow> api_fail (err_new 400 ''api.idempotency_required''
          (quoted command @ '' changes platform state and needs an idempotency key'')
          ''re-send with an Idempotency-Key header so a retry is safe'' (cx_trace_id ctx)))"

definition app_not_registered :: "actor_context \<Rightarrow> string \<Rightarrow> api_error" where
  "app_not_registered ctx raw =
     err_not_found (cx_trace_id ctx) (''application '' @ quoted raw @ '' is not registered'')
       ''run `labrys import` to register this project, then `labrys inspect`''"

definition load_app :: "api_env \<Rightarrow> api_request \<Rightarrow> actor_context \<Rightarrow> string \<Rightarrow> application api" where
  "load_app E q ctx raw =
     (case application_id_from_str (ae_parse E) raw of
        Inl _ \<Rightarrow> api_fail (app_not_registered ctx raw)
      | Inr i \<Rightarrow> api_read (\<lambda>_. app_not_registered ctx raw) (\<lambda>w. pg_app_get (ae_parse E) (rq_now q) (aw_tables w) i))"

definition environment_id_of :: "application \<Rightarrow> string \<Rightarrow> environment_id option" where
  "environment_id_of app name = map_option env_id (find (\<lambda>e. env_name e = name) (app_environments app))"

section \<open>Bodies and pages\<close>

record mutation_body =
  mb_environment :: "string option"
  mb_approver :: "string option"
  mb_capability :: "string option"
  mb_target :: "string option"
  mb_prompt :: "string option"
  mb_session_id :: "string option"
  mb_revision_sha :: "string option"

record page_query =
  pq_limit :: "int option"
  pq_offset :: "int option"
  pq_source :: "string option"
  pq_environment :: "string option"

definition clamp_page :: "page_query \<Rightarrow> nat \<times> nat" where
  "clamp_page page =
     (nat (max 1 (min 500 (case pq_limit page of Some l \<Rightarrow> l | None \<Rightarrow> 50))),
      nat (max 0 (case pq_offset page of Some f \<Rightarrow> f | None \<Rightarrow> 0)))"

end
