(* ===== verification/Api_Handlers.thy ===== *)
theory Api_Handlers
  imports Api_Core
begin

text \<open>
  The handlers and the router of \<open>labrys-control-plane/src/api.rs\<close>.

  Each handler runs the gate, its guards in the order of the source, the replay lookup, and then its work. The tail
  that five mutating handlers share (enqueue, event, envelope, replay record) is \<open>accept_work\<close>; \<open>route\<close> is
  the router with the rate limiter in front. The properties are about the composition: what an agent or a denied caller can
  change, what a retry does, what the tables keep, and when health is reported.
\<close>

section \<open>Mutating handlers\<close>

definition resource_ref_value :: "string \<Rightarrow> string \<Rightarrow> json" where
  "resource_ref_value kind i = json_object [(''kind'', json_str kind), (''id'', json_str i)]"

definition json_opt_str :: "string option \<Rightarrow> json" where
  "json_opt_str s = json_option (map_option json_str s)"

definition replay_or :: "actor_context \<Rightarrow> string \<Rightarrow> json api \<Rightarrow> json api" where
  "replay_or ctx key run =
     api_bind (api_read (internal_error ctx) (\<lambda>w. check_replay w (Some key))) (\<lambda>r.
       case r of Some v \<Rightarrow> api_return v | None \<Rightarrow> run)"

definition accept_work ::
  "api_env \<Rightarrow> api_request \<Rightarrow> actor_context \<Rightarrow> string \<Rightarrow> string \<Rightarrow> string \<Rightarrow> job_action \<Rightarrow> event_action \<Rightarrow> string \<Rightarrow> string \<Rightarrow> string \<Rightarrow>
   json \<Rightarrow> json \<Rightarrow> string \<Rightarrow> json api" where
  "accept_work E q ctx key command target action ev kind rid detail resource data recovery =
     api_bind (api_lift (internal_error ctx) (api_enqueue E q target action (rq_now q))) (\<lambda>(job, _).
     api_bind (api_lift (internal_error ctx) (api_record_event E ctx ev EvAccepted kind rid detail (rq_now q))) (\<lambda>_.
       let response = envelope command ctx False (Some resource) (Some data) (Some job) (Some recovery) in
       api_bind (api_lift (internal_error ctx) (store_replay E q key command response)) (\<lambda>_. api_return response)))"

definition save_app :: "api_env \<Rightarrow> application \<Rightarrow> api_world \<Rightarrow> api_world \<times> unit cp_outcome" where
  "save_app E app w = (case pg_app_save (ae_msg E) (aw_tables w) app of (t, r) \<Rightarrow> (w\<lparr>aw_tables := t\<rparr>, r))"

definition import_work ::
  "api_env \<Rightarrow> api_request \<Rightarrow> actor_context \<Rightarrow> string \<Rightarrow> string \<Rightarrow> string \<Rightarrow> json api" where
  "import_work E q ctx key name path =
     (let app = application_new (rq_app_uuid q) (rq_dev_uuid q) (rq_prod_uuid q) (rq_now q) name (ImportedLocal path)
            (cli_actor_label (cx_actor ctx));
          i = application_id_display (app_id app) in
      api_bind (api_lift (internal_error ctx) (save_app E app)) (\<lambda>_.
      api_bind (api_lift (internal_error ctx) (api_enqueue E q i ActProvision (rq_now q))) (\<lambda>(job, _).
      api_bind (api_lift (internal_error ctx) (api_record_event E ctx ResourceProvisioned EvAccepted ''application'' i
          (''imported from '' @ path) (rq_now q))) (\<lambda>_.
      api_bind (api_read (internal_error ctx) (\<lambda>w. pg_app_get (ae_parse E) (rq_now q) (aw_tables w) (app_id app))) (\<lambda>saved.
        let response = envelope ''import'' ctx False
              (Some (resource_ref_value ''application'' (application_id_display (app_id saved))))
              (Some (json_object [(''application_id'', json_str (application_id_display (app_id saved))), (''name'', json_str name),
                 (''path'', json_str path), (''environments'', JArray (map (\<lambda>e. json_str (env_name e)) (app_environments saved)))]))
              (Some job) (Some ''run `labrys inspect --application <id>` to see findings'') in
        api_bind (api_lift (internal_error ctx) (store_replay E q key ''import'' response)) (\<lambda>_. api_return response))))))"

definition api_import :: "api_env \<Rightarrow> api_request \<Rightarrow> string option \<Rightarrow> string option \<Rightarrow> json api" where
  "api_import E q name path =
     api_bind (authorized E q (trace_of q) ''POST /v1/import'') (\<lambda>ctx.
     api_bind (api_reject (forbid_agent ctx ''import'')) (\<lambda>_.
     api_bind (require_idempotency ctx ''import'') (\<lambda>key.
       replay_or ctx key (import_work E q ctx key
         (case name of Some n \<Rightarrow> n | None \<Rightarrow> ''imported-app'') (case path of Some p \<Rightarrow> p | None \<Rightarrow> ''.'')))))"

definition capability_work ::
  "api_env \<Rightarrow> api_request \<Rightarrow> actor_context \<Rightarrow> string \<Rightarrow> string \<Rightarrow> mutation_body \<Rightarrow> json api" where
  "capability_work E q ctx key raw body =
     api_bind (load_app E q ctx raw) (\<lambda>app.
       let capability = (case mb_capability body of Some c \<Rightarrow> c | None \<Rightarrow> []) in
       if trim capability = []
       then api_fail (err_unprocessable (cx_trace_id ctx) ''capability operations require a capability key''
              (''send {'' @ [CHR 0x22] @ ''capability'' @ [CHR 0x22] @ '': '' @ [CHR 0x22] @ ''database.postgres'' @ [CHR 0x22] @
               ''} (secret values stay references only)''))
       else accept_work E q ctx key ''capability'' (application_id_display (app_id app) @ '':capability:'' @ capability) ActProvision
              ResourceProvisioned ''capability'' capability
              ''capability operation accepted; readiness waits for the platform probe''
              (resource_ref_value ''capability'' capability)
              (json_object [(''application_id'', json_str (application_id_display (app_id app))), (''capability'', json_str capability)])
              ''capability stays provisioning until the platform observes readiness'')"

definition api_capability :: "api_env \<Rightarrow> api_request \<Rightarrow> string \<Rightarrow> mutation_body \<Rightarrow> json api" where
  "api_capability E q raw body =
     api_bind (authorized E q (trace_of q) ''POST /v1/applications/{app}/capabilities'') (\<lambda>ctx.
     api_bind (require_idempotency ctx ''capability'') (\<lambda>key.
       replay_or ctx key (capability_work E q ctx key raw body)))"

definition simple_detail :: "string \<Rightarrow> mutation_body \<Rightarrow> string" where
  "simple_detail command body =
     (if command = ''agent''
      then ''agent work requested (prompt '' @ show_nat (length (case mb_prompt body of Some p \<Rightarrow> p | None \<Rightarrow> [])) @
           '' chars); converging''
      else if command = ''preview''
      then ''preview requested'' @ (case mb_session_id body of Some s \<Rightarrow> '' for session '' @ s | None \<Rightarrow> []) @ ''; converging''
      else command @ '' accepted; converging'')"

definition application_value :: "application \<Rightarrow> json" where
  "application_value app = json_object [(''application_id'', json_str (application_id_display (app_id app)))]"

definition simple_work ::
  "api_env \<Rightarrow> api_request \<Rightarrow> actor_context \<Rightarrow> string \<Rightarrow> string \<Rightarrow> mutation_body \<Rightarrow> string \<Rightarrow> job_action \<Rightarrow> string \<Rightarrow> json api" where
  "simple_work E q ctx key raw body command action target_suffix =
     api_bind (load_app E q ctx raw) (\<lambda>app.
       accept_work E q ctx key command (application_id_display (app_id app) @ '':'' @ target_suffix) action
         Reconciled ''application'' (application_id_display (app_id app)) (simple_detail command body)
         (resource_ref_value ''application'' (application_id_display (app_id app))) (application_value app)
         ''work continues after this response; poll the job for status'')"

definition mutate_simple ::
  "api_env \<Rightarrow> api_request \<Rightarrow> string \<Rightarrow> mutation_body \<Rightarrow> string \<Rightarrow> job_action \<Rightarrow> string \<Rightarrow> json api" where
  "mutate_simple E q raw body command action target_suffix =
     api_bind (authorized E q (trace_of q) command) (\<lambda>ctx.
     api_bind (require_idempotency ctx command) (\<lambda>key.
       replay_or ctx key (simple_work E q ctx key raw body command action target_suffix)))"

definition run_dev :: "api_env \<Rightarrow> api_request \<Rightarrow> string \<Rightarrow> mutation_body \<Rightarrow> json api" where
  "run_dev E q raw body = mutate_simple E q raw body ''run'' ActProvision ''dev''"

definition api_agent :: "api_env \<Rightarrow> api_request \<Rightarrow> string \<Rightarrow> mutation_body \<Rightarrow> json api" where
  "api_agent E q raw body = mutate_simple E q raw body ''agent'' ActVerify ''agent''"

definition api_preview :: "api_env \<Rightarrow> api_request \<Rightarrow> string \<Rightarrow> mutation_body \<Rightarrow> json api" where
  "api_preview E q raw body = mutate_simple E q raw body ''preview'' ActProvision ''preview''"

definition build_work :: "api_env \<Rightarrow> api_request \<Rightarrow> actor_context \<Rightarrow> string \<Rightarrow> string \<Rightarrow> json api" where
  "build_work E q ctx key raw =
     api_bind (load_app E q ctx raw) (\<lambda>app.
       accept_work E q ctx key ''build'' (application_id_display (app_id app) @ '':build'') ActProvision
         Reconciled ''application'' (application_id_display (app_id app)) ''build accepted; promotion waits for health''
         (resource_ref_value ''application'' (application_id_display (app_id app))) (application_value app)
         ''promotion waits for the platform health gate'')"

definition api_build :: "api_env \<Rightarrow> api_request \<Rightarrow> string \<Rightarrow> mutation_body \<Rightarrow> json api" where
  "api_build E q raw body =
     api_bind (authorized E q (trace_of q) ''POST /v1/applications/{app}/build'') (\<lambda>ctx.
     api_bind (api_reject (forbid_agent ctx ''build'')) (\<lambda>_.
     api_bind (require_idempotency ctx ''build'') (\<lambda>key.
       replay_or ctx key (build_work E q ctx key raw))))"

definition deploy_work :: "api_env \<Rightarrow> api_request \<Rightarrow> actor_context \<Rightarrow> string \<Rightarrow> string \<Rightarrow> mutation_body \<Rightarrow> json api" where
  "deploy_work E q ctx key raw body =
     api_bind (load_app E q ctx raw) (\<lambda>app.
       let environment = (case mb_environment body of Some e \<Rightarrow> e | None \<Rightarrow> ''production'') in
       if environment_id_of app environment = None
       then api_fail (err_not_found (cx_trace_id ctx) (''environment '' @ quoted environment @ '' is unknown for this application'')
              ''list environments with `labrys inspect --application <id>`'')
       else accept_work E q ctx key ''deploy'' (application_id_display (app_id app) @ '':deploy:'' @ environment) ActRollout
              Reconciled ''application'' (application_id_display (app_id app))
              (''deploy to '' @ environment @ '' accepted by '' @
               (case mb_approver body of Some a \<Rightarrow> a | None \<Rightarrow> cli_actor_label (cx_actor ctx)) @ ''; promotion waits for health'')
              (resource_ref_value ''environment'' environment)
              (json_object [(''application_id'', json_str (application_id_display (app_id app))), (''environment'', json_str environment),
                 (''revision_sha'', json_opt_str (mb_revision_sha body))])
              ''deployment is accepted but not healthy until the platform observes health'')"

definition api_deploy :: "api_env \<Rightarrow> api_request \<Rightarrow> string \<Rightarrow> mutation_body \<Rightarrow> json api" where
  "api_deploy E q raw body =
     api_bind (authorized E q (trace_of q) ''POST /v1/applications/{app}/deploy'') (\<lambda>ctx.
     if forbid_agent ctx ''deploy'' \<noteq> None
     then api_fail (err_forbidden (cx_trace_id ctx)
            ''an agent session may not call the production deploy endpoint without approval''
            ''request human approval first: a named human must approve and run `labrys deploy --environment production --approve-by <name>`'')
     else api_bind (api_reject (require_human ctx ''deploy'')) (\<lambda>_.
          api_bind (require_idempotency ctx ''deploy'') (\<lambda>key.
            replay_or ctx key (deploy_work E q ctx key raw body))))"

definition requested_target :: "api_env \<Rightarrow> actor_context \<Rightarrow> mutation_body \<Rightarrow> deployment_id api" where
  "requested_target E ctx body =
     (case mb_target body of
        None \<Rightarrow> api_fail (err_unprocessable (cx_trace_id ctx) ''rollback requires an explicit target deployment''
                  ''list candidates with `labrys deployments --application <id>` and pass --target <id>'')
      | Some raw \<Rightarrow>
          (case deployment_id_from_str (ae_parse E) raw of
             Inl _ \<Rightarrow> api_fail (err_unprocessable (cx_trace_id ctx) ''rollback target is not a valid deployment id''
                       ''list candidates with `labrys deployments --application <id>`'')
           | Inr i \<Rightarrow> api_return i))"

definition rollback_work :: "api_env \<Rightarrow> api_request \<Rightarrow> actor_context \<Rightarrow> string \<Rightarrow> string \<Rightarrow> mutation_body \<Rightarrow> string \<Rightarrow> json api" where
  "rollback_work E q ctx key raw body approver =
     api_bind (load_app E q ctx raw) (\<lambda>app.
     api_bind (requested_target E ctx body) (\<lambda>target.
     let shown = deployment_id_display target in
     api_bind (api_read (\<lambda>_. err_not_found (cx_trace_id ctx) (''rollback target '' @ shown @ '' does not exist'')
         ''list candidates with `labrys deployments --application <id>`'') (\<lambda>w. pg_deployment_get (aw_tables w) target)) (\<lambda>d.
       if dp_image d = None
       then api_fail (err_unprocessable (cx_trace_id ctx) (''rollback target '' @ shown @ '' has no built image'')
              ''choose a deployment with a verified OCI artifact'')
       else if dp_phase d \<notin> {DpHealthy, DpSuperseded, DpRolledBack}
       then api_fail (err_unprocessable (cx_trace_id ctx)
              (''rollback target '' @ shown @ '' is '' @ debug_deployment_phase (dp_phase d) @ '', not a safe target'')
              ''choose a healthy, superseded, or previously rolled-back deployment'')
       else let approval = approval_granted approver (''rollback to '' @ shown) in
         accept_work E q ctx key ''rollback'' (application_id_display (app_id app) @ '':rollback:'' @ shown) ActRollout
           Reconciled ''deployment'' shown
           (''rollback to '' @ shown @ '' approved by '' @ ea_approver approval @ ''; '' @ database_data_warning)
           (resource_ref_value ''deployment'' shown)
           (json_object [(''application_id'', json_str (application_id_display (app_id app))), (''target'', json_str shown),
              (''approved_by'', json_str (ea_approver approval)), (''database_data_restored'', JBool False),
              (''warning'', json_str database_data_warning)])
           ''traffic moves when the controller converges; database data is never restored by rollback'')))"

definition approval_required :: "actor_context \<Rightarrow> api_error" where
  "approval_required ctx =
     err_new 400 ''api.approval_required'' ''rollback requires a granted, named human approval''
       (''re-send with {'' @ [CHR 0x22] @ ''approval'' @ [CHR 0x22] @ '': {'' @ [CHR 0x22] @ ''approver'' @ [CHR 0x22] @ '': '' @
        [CHR 0x22] @ ''<name>'' @ [CHR 0x22] @ ''}} and --target <deployment>'') (cx_trace_id ctx)"

definition rollback_approver :: "actor_context \<Rightarrow> mutation_body \<Rightarrow> string api" where
  "rollback_approver ctx body =
     (case mb_approver body of
        Some a \<Rightarrow> if trim a \<noteq> [] then api_return a else api_fail (approval_required ctx)
      | None \<Rightarrow> api_fail (approval_required ctx))"

definition api_rollback :: "api_env \<Rightarrow> api_request \<Rightarrow> string \<Rightarrow> mutation_body \<Rightarrow> json api" where
  "api_rollback E q raw body =
     api_bind (authorized E q (trace_of q) ''POST /v1/applications/{app}/rollback'') (\<lambda>ctx.
     if forbid_agent ctx ''rollback'' \<noteq> None
     then api_fail (err_forbidden (cx_trace_id ctx)
            ''an agent session may not invoke rollback without named human approval''
            ''rollback requires a granted, named human approval: a human must run `labrys rollback --approve-by <name> --target <deployment>`'')
     else api_bind (api_reject (require_human ctx ''rollback'')) (\<lambda>_.
          api_bind (rollback_approver ctx body) (\<lambda>approver.
          api_bind (require_idempotency ctx ''rollback'') (\<lambda>key.
            replay_or ctx key (rollback_work E q ctx key raw body approver)))))"

section \<open>Reading handlers\<close>

definition json_nat :: "nat \<Rightarrow> json" where
  "json_nat n = JNumber (NumU64 (word_of_nat n))"

definition wanted_environments :: "application \<Rightarrow> page_query \<Rightarrow> environment list" where
  "wanted_environments app page =
     (case pq_environment page of
        Some name \<Rightarrow> filter (\<lambda>e. env_name e = name) (app_environments app)
      | None \<Rightarrow> app_environments app)"

definition inspect_value :: "application \<Rightarrow> bound_capability list \<Rightarrow> resource list \<Rightarrow> json" where
  "inspect_value app capabilities resources =
     json_object [(''application_id'', json_str (application_id_display (app_id app))),
       (''environments'', JArray (map (\<lambda>e. json_str (env_name e)) (app_environments app))),
       (''capabilities'', JArray (map (\<lambda>c. json_str (binding_id_display (bc_id c))) capabilities)),
       (''resources'', JArray (map (\<lambda>r. json_str (resource_id_display (res_id r))) resources))]"

definition application_answer :: "string \<Rightarrow> actor_context \<Rightarrow> string \<Rightarrow> json \<Rightarrow> string option \<Rightarrow> json" where
  "application_answer command ctx i data recovery =
     envelope command ctx False (Some (resource_ref_value ''application'' i)) (Some data) None recovery"

definition api_inspect :: "api_env \<Rightarrow> api_request \<Rightarrow> string \<Rightarrow> json api" where
  "api_inspect E q raw =
     api_bind (authorized E q (trace_of q) ''GET /v1/applications/{app}/inspect'') (\<lambda>ctx.
     api_bind (load_app E q ctx raw) (\<lambda>app.
     api_bind (api_read (internal_error ctx) (\<lambda>w. CpOk (pg_capabilities_for_application (aw_tables w) (app_id app)))) (\<lambda>capabilities.
     api_bind (api_read (internal_error ctx)
         (\<lambda>w. pg_resources_for_application (ae_parse E) (t_resources (aw_tables w)) (app_id app))) (\<lambda>resources.
       api_return (application_answer ''inspect'' ctx (application_id_display (app_id app))
         (inspect_value app capabilities resources) None)))))"

definition deployment_value :: "environment \<Rightarrow> deployment \<Rightarrow> json" where
  "deployment_value env d =
     json_object [(''id'', json_str (deployment_id_display (dp_id d))), (''environment'', json_str (env_name env)),
       (''phase'', json_str (to_ascii_lowercase (debug_deployment_phase (dp_phase d)))),
       (''revision_sha'', json_str (rev_source_sha (dp_revision d))),
       (''digest'', json_opt_str (map_option img_digest (dp_image d))),
       (''rollback_target'', json_opt_str (map_option deployment_id_display (dp_rollback_target d)))]"

definition page_value :: "page_query \<Rightarrow> json list \<Rightarrow> json" where
  "page_value page all =
     (let (limit, offset) = clamp_page page in
      json_object [(''total'', json_nat (length all)), (''limit'', json_nat limit), (''offset'', json_nat offset),
        (''items'', JArray (take limit (drop offset all)))])"

definition api_deployments :: "api_env \<Rightarrow> api_request \<Rightarrow> string \<Rightarrow> page_query \<Rightarrow> json api" where
  "api_deployments E q raw page =
     api_bind (authorized E q (trace_of q) ''GET /v1/applications/{app}/deployments'') (\<lambda>ctx.
     api_bind (load_app E q ctx raw) (\<lambda>app.
     api_bind (api_read (internal_error ctx) (\<lambda>w. CpOk (concat (map (\<lambda>env.
         map (deployment_value env) (pg_deployments_for_environment (aw_tables w) (app_id app) (env_id env)))
           (wanted_environments app page))))) (\<lambda>all.
       api_return (application_answer ''deployments'' ctx (application_id_display (app_id app)) (page_value page all) None))))"

definition log_sources :: "log_source list" where
  "log_sources = [LsAgent, LsBuild, LsRuntime, LsDeployment, LsCapability, LsResource]"

definition wanted_sources :: "page_query \<Rightarrow> log_source list" where
  "wanted_sources page =
     (case pq_source page of
        Some name \<Rightarrow> (case find (\<lambda>s. log_source_name s = name) log_sources of Some s \<Rightarrow> [s] | None \<Rightarrow> [])
      | None \<Rightarrow> log_sources)"

definition log_value :: "log_entry \<Rightarrow> json" where
  "log_value e =
     json_object [(''sequence'', JNumber (NumU64 (le_sequence e))), (''source'', json_str (log_source_name (le_source e))),
       (''level'', json_str (level_name (le_level e))), (''message'', json_str (le_message e)),
       (''trace'', json_str (co_trace_id (le_correlation e)))]"

fun logs_of_sources :: "id_codec \<Rightarrow> stored_log_row serial_table \<Rightarrow> log_source list \<Rightarrow> log_entry list cp_outcome" where
  "logs_of_sources I T [] = CpOk []"
| "logs_of_sources I T (s # ss) =
     cp_bind (pg_log_for_source I T s) (\<lambda>es. cp_bind (logs_of_sources I T ss) (\<lambda>rest. CpOk (es @ rest)))"

definition api_logs :: "api_env \<Rightarrow> api_request \<Rightarrow> string \<Rightarrow> page_query \<Rightarrow> json api" where
  "api_logs E q raw page =
     api_bind (authorized E q (trace_of q) ''GET /v1/applications/{app}/logs'') (\<lambda>ctx.
     api_bind (load_app E q ctx raw) (\<lambda>app.
     if pq_source page \<noteq> None \<and> wanted_sources page = []
     then api_fail (err_unprocessable (cx_trace_id ctx)
            (''unknown log source '' @ quoted (case pq_source page of Some s \<Rightarrow> s | None \<Rightarrow> []))
            ''use one of agent, build, runtime, deployment, capability, resource'')
     else api_bind (api_read (internal_error ctx) (\<lambda>w.
              logs_of_sources \<lparr>ic_parse = ae_parse E, ic_default = ae_default E\<rparr> (aw_logs w) (wanted_sources page))) (\<lambda>entries.
            api_return (application_answer ''logs'' ctx raw (page_value page (map log_value (sort_key le_sequence entries))) None))))"

text \<open>\<open>max_by_key\<close>: the last of the greatest.\<close>

fun max_by_key :: "('a \<Rightarrow> 'k :: linorder) \<Rightarrow> 'a list \<Rightarrow> 'a option" where
  "max_by_key f [] = None"
| "max_by_key f (x # xs) = (case max_by_key f xs of None \<Rightarrow> Some x | Some y \<Rightarrow> if f y < f x then Some x else Some y)"

definition last_change :: "deployment \<Rightarrow> int \<times> time" where
  "last_change d = (if dp_transitions d = [] then (0, 0) else (1, dt_at (last (dp_transitions d))))"

datatype health_label = HlUnknown | HlInProgress | HlHealthy | HlDegraded | HlFailed | HlSuperseded

fun health_label_name :: "health_label \<Rightarrow> string" where
  "health_label_name HlUnknown = ''unknown''"
| "health_label_name HlInProgress = ''in_progress''"
| "health_label_name HlHealthy = ''healthy''"
| "health_label_name HlDegraded = ''degraded''"
| "health_label_name HlFailed = ''failed''"
| "health_label_name HlSuperseded = ''superseded''"

fun phase_label :: "deployment_phase \<Rightarrow> health_label" where
  "phase_label DpHealthy = HlHealthy"
| "phase_label DpBuilding = HlInProgress"
| "phase_label DpDeploying = HlInProgress"
| "phase_label DpPending = HlInProgress"
| "phase_label DpDegraded = HlDegraded"
| "phase_label DpFailed = HlFailed"
| "phase_label DpSuperseded = HlSuperseded"
| "phase_label DpRolledBack = HlSuperseded"

definition combine_health :: "health_label \<Rightarrow> health_label \<Rightarrow> health_label" where
  "combine_health overall entry =
     (if entry = HlFailed \<or> overall = HlFailed then HlFailed
      else if entry = HlDegraded \<or> overall = HlDegraded then HlDegraded
      else if entry = HlInProgress \<or> overall = HlInProgress then HlInProgress
      else if entry = HlHealthy then HlHealthy
      else overall)"

definition deploy_job :: "api_env \<Rightarrow> api_world \<Rightarrow> application \<Rightarrow> environment \<Rightarrow> job option cp_outcome" where
  "deploy_job E w app env =
     pg_latest_for_target (ae_parse E) (aw_jobs w) (application_id_display (app_id app) @ '':deploy:'' @ env_name env)"

definition health_step ::
  "api_env \<Rightarrow> api_world \<Rightarrow> application \<Rightarrow> environment \<Rightarrow> health_label \<Rightarrow> (json \<times> health_label) cp_outcome" where
  "health_step E w app env overall =
     (case max_by_key last_change (pg_deployments_for_environment (aw_tables w) (app_id app) (env_id env)) of
        None \<Rightarrow>
          cp_bind (deploy_job E w app env) (\<lambda>job.
            CpOk (json_object [(''environment'', json_str (env_name env)),
                    (''state'', json_str (if job \<noteq> None then ''in_progress'' else ''unknown'')),
                    (''job'', json_option (map_option job_value job)),
                    (''detail'', json_str ''no platform health observation recorded'')],
                  if job \<noteq> None \<and> overall = HlUnknown then HlInProgress else overall))
      | Some d \<Rightarrow>
          cp_bind (if phase_label (dp_phase d) = HlInProgress then deploy_job E w app env else CpOk None) (\<lambda>job.
            CpOk (json_object [(''environment'', json_str (env_name env)),
                    (''state'', json_str (health_label_name (phase_label (dp_phase d)))),
                    (''deployment'', json_str (deployment_id_display (dp_id d))),
                    (''digest'', json_opt_str (map_option img_digest (dp_image d))),
                    (''job'', json_option (map_option job_value job))],
                  combine_health overall (phase_label (dp_phase d)))))"

fun health_fold ::
  "api_env \<Rightarrow> api_world \<Rightarrow> application \<Rightarrow> environment list \<Rightarrow> health_label \<Rightarrow> (json list \<times> health_label) cp_outcome" where
  "health_fold E w app [] overall = CpOk ([], overall)"
| "health_fold E w app (env # envs) overall =
     cp_bind (health_step E w app env overall) (\<lambda>(entry, o1).
     cp_bind (health_fold E w app envs o1) (\<lambda>(entries, o2). CpOk (entry # entries, o2)))"

definition api_health :: "api_env \<Rightarrow> api_request \<Rightarrow> string \<Rightarrow> page_query \<Rightarrow> json api" where
  "api_health E q raw page =
     api_bind (authorized E q (trace_of q) ''GET /v1/applications/{app}/health'') (\<lambda>ctx.
     api_bind (load_app E q ctx raw) (\<lambda>app.
     api_bind (api_read (internal_error ctx) (\<lambda>w. health_fold E w app (wanted_environments app page) HlUnknown)) (\<lambda>(entries, overall).
       api_return (application_answer ''health'' ctx (application_id_display (app_id app))
         (json_object [(''state'', json_str (health_label_name overall)), (''environments'', JArray entries)])
         (if overall = HlUnknown then Some ''run `labrys doctor` to see which probe is missing'' else None)))))"

definition doctor_environment :: "api_world \<Rightarrow> application \<Rightarrow> environment \<Rightarrow> json" where
  "doctor_environment w app env =
     (if list_ex (\<lambda>d. dp_phase d = DpHealthy) (pg_deployments_for_environment (aw_tables w) (app_id app) (env_id env))
      then json_object [(''code'', json_str ''doctor.health''), (''severity'', json_str ''info''),
             (''message'', json_str (''environment '' @ quoted (env_name env) @ '' has a healthy deployment''))]
      else json_object [(''code'', json_str ''doctor.no_health_evidence''), (''severity'', json_str ''warning''),
             (''message'', json_str (''no platform health observation recorded for '' @ quoted (env_name env))),
             (''recovery'', json_str ''run a health probe or wait for the controller'')])"

definition doctor_dead :: "job_id list \<Rightarrow> json list" where
  "doctor_dead dead =
     (if dead = [] then []
      else [json_object [(''code'', json_str ''doctor.dead_letters''), (''severity'', json_str ''error''),
              (''message'', json_str (show_nat (length dead) @ '' job(s) exhausted retries'')),
              (''recovery'', json_str ''inspect the job error, fix the cause, then requeue the job'')]])"

definition api_doctor_evidence :: "verification_evidence list \<Rightarrow> json list" where
  "api_doctor_evidence evidence =
     map (\<lambda>e. json_object [(''code'', json_str ''doctor.failed_evidence''), (''severity'', json_str ''error''),
            (''message'', json_str (evidence_event_detail e)),
            (''recovery'', json_str (case ve_recovery e of Some r \<Rightarrow> r | None \<Rightarrow> ''inspect the failing check and re-run verification''))])
       (filter (\<lambda>e. \<not> ve_passed e) evidence)"

definition api_doctor_plugin :: "plugin_report \<Rightarrow> json" where
  "api_doctor_plugin r =
     (if pt_state r = PlActive
      then json_object [(''code'', json_str ''doctor.plugin''), (''severity'', json_str ''info''),
             (''message'', json_str (pt_name r @ '' ('' @ family_name (pt_family r) @ '') active''))]
      else json_object [(''code'', json_str ''doctor.plugin_unavailable''), (''severity'', json_str ''error''),
             (''message'', json_str (pt_name r @ '' ('' @ family_name (pt_family r) @ '') is '' @ debug_plugin_state (pt_state r))),
             (''recovery'', json_str (pt_detail r))])"

definition api_doctor :: "api_env \<Rightarrow> api_request \<Rightarrow> string \<Rightarrow> json api" where
  "api_doctor E q raw =
     api_bind (authorized E q (trace_of q) ''GET /v1/applications/{app}/doctor'') (\<lambda>ctx.
     api_bind (load_app E q ctx raw) (\<lambda>app.
     api_bind (api_read (internal_error ctx) (\<lambda>w. CpOk (map (doctor_environment w app) (app_environments app)))) (\<lambda>envs.
     api_bind (api_read (internal_error ctx) (\<lambda>w. pg_dead_letters (ae_parse E) (aw_jobs w))) (\<lambda>dead.
     api_bind (api_read (internal_error ctx) (\<lambda>w. pg_evidence_all (aw_evidence w))) (\<lambda>evidence.
     api_bind (api_read (internal_error ctx) (\<lambda>w. CpOk (registry_report (aw_plugins w)))) (\<lambda>reports.
       let has_error = (dead \<noteq> [] \<or> list_ex (\<lambda>e. \<not> ve_passed e) evidence \<or> list_ex (\<lambda>r. pt_state r \<noteq> PlActive) reports) in
       api_return (application_answer ''doctor'' ctx (application_id_display (app_id app))
         (json_object [(''ok'', JBool (\<not> has_error)),
            (''checks'', JArray (envs @ doctor_dead dead @ api_doctor_evidence evidence @ map api_doctor_plugin reports))]) None)))))))"

definition capability_value :: "bound_capability \<Rightarrow> json" where
  "capability_value c =
     json_object [(''id'', json_str (binding_id_display (bc_id c))), (''capability'', json_str (bc_capability c)),
       (''provider'', json_str (bc_provider c)), (''mode'', json_str (to_ascii_lowercase (debug_capability_mode (bc_mode c))))]"

definition api_capabilities :: "api_env \<Rightarrow> api_request \<Rightarrow> string \<Rightarrow> json api" where
  "api_capabilities E q raw =
     api_bind (authorized E q (trace_of q) ''GET /v1/applications/{app}/capabilities'') (\<lambda>ctx.
     api_bind (load_app E q ctx raw) (\<lambda>app.
     api_bind (api_read (internal_error ctx) (\<lambda>w. CpOk (pg_capabilities_for_application (aw_tables w) (app_id app)))) (\<lambda>items.
       api_return (application_answer ''capabilities'' ctx (application_id_display (app_id app))
         (json_object [(''items'', JArray (map capability_value items))]) None))))"

definition resource_value :: "resource \<Rightarrow> json" where
  "resource_value r =
     json_object [(''id'', json_str (resource_id_display (res_id r))), (''kind'', json_str (res_kind r)),
       (''phase'', json_str (to_ascii_lowercase (debug_resource_phase (res_phase r))))]"

definition api_resources :: "api_env \<Rightarrow> api_request \<Rightarrow> string \<Rightarrow> json api" where
  "api_resources E q raw =
     api_bind (authorized E q (trace_of q) ''GET /v1/applications/{app}/resources'') (\<lambda>ctx.
     api_bind (load_app E q ctx raw) (\<lambda>app.
     api_bind (api_read (internal_error ctx)
         (\<lambda>w. pg_resources_for_application (ae_parse E) (t_resources (aw_tables w)) (app_id app))) (\<lambda>items.
       api_return (application_answer ''resources'' ctx (application_id_display (app_id app))
         (json_object [(''items'', JArray (map resource_value items))]) None))))"

definition job_missing :: "actor_context \<Rightarrow> string \<Rightarrow> api_error" where
  "job_missing ctx raw =
     err_not_found (cx_trace_id ctx) (''job '' @ raw @ '' does not exist'') ''enqueue work with a mutating command first''"

definition job_status_answer :: "actor_context \<Rightarrow> job \<Rightarrow> json" where
  "job_status_answer ctx j =
     json_insert ''data'' (json_opt_str (job_last_error j))
       (envelope ''job'' ctx False (Some (resource_ref_value ''job'' (job_id_display (job_ident j)))) None (Some j)
         (if job_state j = Dead then Some ''inspect last_error, fix the cause, then requeue'' else None))"

definition api_job_status :: "api_env \<Rightarrow> api_request \<Rightarrow> string \<Rightarrow> json api" where
  "api_job_status E q raw =
     api_bind (authorized E q (trace_of q) ''GET /v1/jobs/{job}'') (\<lambda>ctx.
       (case job_id_from_str (ae_parse E) raw of
          Inl _ \<Rightarrow> api_fail (job_missing ctx raw)
        | Inr i \<Rightarrow> api_bind (api_read (\<lambda>_. job_missing ctx raw) (\<lambda>w. pg_get (ae_parse E) (aw_jobs w) i)) (\<lambda>j.
            api_return (job_status_answer ctx j))))"

definition negotiate_agent :: "api_env \<Rightarrow> api_request \<Rightarrow> u32 \<Rightarrow> string option \<Rightarrow> json api" where
  "negotiate_agent E q protocol_version backend =
     api_bind (authorized E q (trace_of q) ''POST /v1/agents/negotiate'') (\<lambda>ctx.
       (case ensure_protocol_version protocol_version of
          Err e \<Rightarrow> api_fail (err_new 409 ''api.version_mismatch'' (''agent protocol mismatch: '' @ core_error_display e)
            ''upgrade the agent backend to the negotiated protocol version before activation'' (cx_trace_id ctx))
        | Panic m \<Rightarrow> (\<lambda>w. (w, ApiPanic m))
        | Ok _ \<Rightarrow> api_return (envelope ''negotiate'' ctx False None
            (Some (json_object [(''family'', json_str ''agent''), (''negotiated_version'', json_u32 agent_protocol_version),
              (''backend'', json_opt_str backend)])) None None)))"

definition handshake_plugin :: "api_env \<Rightarrow> api_request \<Rightarrow> plugin_manifest \<Rightarrow> json api" where
  "handshake_plugin E q manifest =
     api_bind (authorized E q (trace_of q) ''POST /v1/plugins/handshake'') (\<lambda>ctx w.
       (case plugin_register (aw_plugins w) manifest of
          (reg, Ok family) \<Rightarrow> (w\<lparr>aw_plugins := reg\<rparr>, ApiOk (envelope ''handshake'' ctx False None
            (Some (json_object [(''family'', json_str (family_name family)), (''plugin_id'', json_str (pm_id manifest)),
               (''negotiated_version'', json_u32 plugin_protocol_version)])) None None))
        | (reg, Err e) \<Rightarrow> (w\<lparr>aw_plugins := reg\<rparr>, ApiErr (err_new 409 ''api.plugin_refused'' (core_error_display e)
            ''upgrade the plugin to the negotiated protocol version and implement its family contract'' (cx_trace_id ctx)))
        | (reg, Panic m) \<Rightarrow> (w\<lparr>aw_plugins := reg\<rparr>, ApiPanic m)))"

definition plugin_value :: "plugin_report \<Rightarrow> json" where
  "plugin_value r =
     json_object [(''name'', json_str (pt_name r)), (''family'', json_str (family_name (pt_family r))),
       (''state'', json_str (to_ascii_lowercase (debug_plugin_state (pt_state r))))]"

definition list_plugins :: "api_env \<Rightarrow> api_request \<Rightarrow> json api" where
  "list_plugins E q =
     api_bind (authorized E q (trace_of q) ''GET /v1/plugins'') (\<lambda>ctx.
     api_bind (api_read (internal_error ctx) (\<lambda>w. CpOk (registry_report (aw_plugins w)))) (\<lambda>reports.
       api_return (envelope ''plugins'' ctx False None
         (Some (json_object [(''items'', JArray (map plugin_value reports))])) None None)))"

definition api_version_answer :: json where
  "api_version_answer = json_object [(''ok'', JBool True), (''versions'', versions_value)]"

section \<open>The router\<close>

datatype api_call =
    CallVersion
  | CallImport "string option" "string option"
  | CallInspect string
  | CallRun string mutation_body
  | CallAgent string mutation_body
  | CallPreview string mutation_body
  | CallCapabilities string
  | CallCapability string mutation_body
  | CallResources string
  | CallBuild string mutation_body
  | CallDeploy string mutation_body
  | CallDeployments string page_query
  | CallLogs string page_query
  | CallHealth string page_query
  | CallRollback string mutation_body
  | CallDoctor string
  | CallJob string
  | CallNegotiate u32 "string option"
  | CallHandshake plugin_manifest
  | CallPlugins

fun handle :: "api_env \<Rightarrow> api_request \<Rightarrow> api_call \<Rightarrow> json api" where
  "handle E q CallVersion = api_return api_version_answer"
| "handle E q (CallImport name path) = api_import E q name path"
| "handle E q (CallInspect raw) = api_inspect E q raw"
| "handle E q (CallRun raw body) = run_dev E q raw body"
| "handle E q (CallAgent raw body) = api_agent E q raw body"
| "handle E q (CallPreview raw body) = api_preview E q raw body"
| "handle E q (CallCapabilities raw) = api_capabilities E q raw"
| "handle E q (CallCapability raw body) = api_capability E q raw body"
| "handle E q (CallResources raw) = api_resources E q raw"
| "handle E q (CallBuild raw body) = api_build E q raw body"
| "handle E q (CallDeploy raw body) = api_deploy E q raw body"
| "handle E q (CallDeployments raw page) = api_deployments E q raw page"
| "handle E q (CallLogs raw page) = api_logs E q raw page"
| "handle E q (CallHealth raw page) = api_health E q raw page"
| "handle E q (CallRollback raw body) = api_rollback E q raw body"
| "handle E q (CallDoctor raw) = api_doctor E q raw"
| "handle E q (CallJob raw) = api_job_status E q raw"
| "handle E q (CallNegotiate version backend) = negotiate_agent E q version backend"
| "handle E q (CallHandshake manifest) = handshake_plugin E q manifest"
| "handle E q CallPlugins = list_plugins E q"

definition route :: "api_env \<Rightarrow> api_request \<Rightarrow> ip_addr option \<Rightarrow> api_call \<Rightarrow> json api" where
  "route E q peer call = rate_limit q peer (handle E q call)"

end
