(* ===== verification/Api_Properties.thy ===== *)
theory Api_Properties
  imports Api_Handlers
begin

text \<open>
  What the API guarantees as a whole. A frame is a reflexive and transitive relation between the world before and
  after a computation that admits the audit of a denial; the locale \<open>api_frame\<close> carries it through the gate and the reading
  handlers, \<open>api_write_frame\<close> through every handler. The frames of interest are interpretations: that only the audit trail grew,
  that the integrity of all tables is kept, and that replay records stay.
\<close>

section \<open>Frames\<close>

definition api_keeps :: "(api_world \<Rightarrow> api_world \<Rightarrow> bool) \<Rightarrow> 'a api \<Rightarrow> bool" where
  "api_keeps R c \<longleftrightarrow> (\<forall>w. R w (fst (c w)))"

lemma api_keepsD: "api_keeps R c \<Longrightarrow> R w (fst (c w))"
  by (simp add: api_keeps_def)

lemma api_bind_cases:
  obtains (ok) w' a where "c w = (w', ApiOk a)" "api_bind c f w = f a w'"
  | (err) e where "snd (c w) = ApiErr e" "api_bind c f w = (fst (c w), ApiErr e)"
  | (panic) m where "snd (c w) = ApiPanic m" "api_bind c f w = (fst (c w), ApiPanic m)"
  by (cases "c w"; cases "snd (c w)") (auto simp: api_bind_def)

locale api_frame =
  fixes R :: "api_world \<Rightarrow> api_world \<Rightarrow> bool" and E :: api_env
  assumes frame_refl: "R w w"
    and frame_trans: "R w w' \<Longrightarrow> R w' w'' \<Longrightarrow> R w w''"
    and frame_audit: "R w (fst (audit_auth_denial E q target detail w))"
begin

lemma keeps_return: "api_keeps R (api_return a)"
  by (simp add: api_keeps_def api_return_def frame_refl)

lemma keeps_fail: "api_keeps R (api_fail e)"
  by (simp add: api_keeps_def api_fail_def frame_refl)

lemma keeps_panic: "api_keeps R (\<lambda>w. (w, ApiPanic m))"
  by (simp add: api_keeps_def frame_refl)

lemma keeps_bind_post:
  assumes "api_keeps R c" "\<And>w w' a. c w = (w', ApiOk a) \<Longrightarrow> Q a" "\<And>a. Q a \<Longrightarrow> api_keeps R (f a)"
  shows "api_keeps R (api_bind c f)"
  unfolding api_keeps_def
proof
  fix w
  show "R w (fst (api_bind c f w))"
  proof (cases rule: api_bind_cases [of c w f])
    case (ok w' a)
    have "R w w'" using api_keepsD [OF assms(1), of w] ok(1) by simp
    then show ?thesis using api_keepsD [OF assms(3) [OF assms(2) [OF ok(1)]], of w'] ok(2) frame_trans by simp
  qed (use api_keepsD [OF assms(1), of w] in simp_all)
qed

lemma keeps_bind: "api_keeps R c \<Longrightarrow> (\<And>a. api_keeps R (f a)) \<Longrightarrow> api_keeps R (api_bind c f)"
  by (rule keeps_bind_post [where Q = "\<lambda>_. True"]) simp_all

lemma keeps_lift:
  assumes "\<And>w. R w (fst (f w))"
  shows "api_keeps R (api_lift on_error f)"
  unfolding api_keeps_def using assms by (auto simp: api_lift_def split: prod.split cp_outcome.split) (metis fst_conv)+

lemma keeps_read: "api_keeps R (api_read on_error f)"
  unfolding api_read_def by (rule keeps_lift) (simp add: frame_refl)

lemma keeps_reject: "api_keeps R (api_reject e)"
  by (cases e) (simp_all add: api_reject_def keeps_fail keeps_return)

lemma keeps_audit: "api_keeps R (audit_auth_denial E q target detail)"
  by (simp add: api_keeps_def frame_audit)

lemma keeps_authorized: "api_keeps R (authorized E q trace_id target)"
  unfolding api_keeps_def
proof
  fix w
  have denial: "R w (fst (api_bind (audit_auth_denial E q target d) (\<lambda>_. api_fail e) w))" for d e
    by (rule api_keepsD [OF keeps_bind [OF keeps_audit keeps_fail]])
  show "R w (fst (authorized E q trace_id target w))"
    using denial frame_refl
    by (auto simp: authorized_def api_fail_def split: sum.split option.split)
qed

lemma keeps_require_idempotency: "api_keeps R (require_idempotency ctx command)"
  by (simp add: require_idempotency_def keeps_fail keeps_return split: option.split)

lemma keeps_load_app: "api_keeps R (load_app E q ctx raw)"
  by (simp add: load_app_def keeps_fail keeps_read split: sum.split)

lemma keeps_replay_or: "api_keeps R run \<Longrightarrow> api_keeps R (replay_or ctx key run)"
  unfolding replay_or_def by (rule keeps_bind [OF keeps_read]) (auto split: option.split intro: keeps_return)

lemmas keeps_basic = keeps_return keeps_fail keeps_panic keeps_bind keeps_read keeps_reject keeps_authorized
  keeps_require_idempotency keeps_load_app keeps_replay_or

lemma keeps_reads:
  "api_keeps R (api_inspect E q raw)" "api_keeps R (api_deployments E q raw page)" "api_keeps R (api_logs E q raw page)"
  "api_keeps R (api_health E q raw page)" "api_keeps R (api_doctor E q raw)" "api_keeps R (api_capabilities E q raw)"
  "api_keeps R (api_resources E q raw)" "api_keeps R (api_job_status E q raw)" "api_keeps R (negotiate_agent E q v b)"
  "api_keeps R (list_plugins E q)"
  unfolding api_inspect_def api_deployments_def api_logs_def api_health_def api_doctor_def api_capabilities_def
    api_resources_def api_job_status_def negotiate_agent_def list_plugins_def Let_def
  by (auto intro!: keeps_basic split: prod.split sum.split outcome.split)

end

locale api_write_frame = api_frame +
  assumes frame_enqueue: "R w (fst (api_enqueue E q target action at w))"
    and frame_event: "R w (fst (api_record_event E ctx ev result kind rid detail at w))"
    and frame_replay: "R w (fst (store_replay E q key command response w))"
    and frame_save: "R w (fst (save_app E app w))"
    and frame_plugin: "R w (w\<lparr>aw_plugins := fst (plugin_register (aw_plugins w) manifest)\<rparr>)"
    and frame_limiter: "R w (w\<lparr>aw_limiter := l\<rparr>)"
begin

lemmas keeps_writes = keeps_lift [OF frame_enqueue] keeps_lift [OF frame_event] keeps_lift [OF frame_replay]
  keeps_lift [OF frame_save]

lemma keeps_accept_work:
  "api_keeps R (accept_work E q ctx key command target action ev kind rid detail resource data recovery)"
  unfolding accept_work_def Let_def by (auto intro!: keeps_basic keeps_writes split: prod.split)

lemma keeps_work:
  "api_keeps R (import_work E q ctx key name path)" "api_keeps R (capability_work E q ctx key raw body)"
  "api_keeps R (simple_work E q ctx key raw body command action sfx)" "api_keeps R (build_work E q ctx key raw)"
  "api_keeps R (deploy_work E q ctx key raw body)" "api_keeps R (rollback_work E q ctx key raw body approver)"
  unfolding import_work_def capability_work_def simple_work_def build_work_def deploy_work_def rollback_work_def
    requested_target_def Let_def
  by (auto intro!: keeps_basic keeps_writes keeps_accept_work split: prod.split option.split sum.split)

lemma keeps_mutations:
  "api_keeps R (api_import E q name path)" "api_keeps R (api_capability E q raw body)"
  "api_keeps R (mutate_simple E q raw body command action sfx)" "api_keeps R (api_build E q raw body)"
  "api_keeps R (api_deploy E q raw body)" "api_keeps R (api_rollback E q raw body)"
  unfolding api_import_def api_capability_def mutate_simple_def api_build_def api_deploy_def api_rollback_def
    rollback_approver_def
  by (auto intro!: keeps_basic keeps_replay_or keeps_work split: option.split)

lemma keeps_handshake: "api_keeps R (handshake_plugin E q manifest)"
  unfolding handshake_plugin_def
  by (rule keeps_bind [OF keeps_authorized])
    (auto simp: api_keeps_def split: prod.split outcome.split, (metis fst_conv frame_plugin)+)

lemma keeps_handle: "api_keeps R (handle E q call)"
  by (cases call) (simp_all add: run_dev_def api_agent_def api_preview_def keeps_return keeps_reads keeps_mutations keeps_handshake)

lemma keeps_route: "api_keeps R (route E q peer call)"
  unfolding api_keeps_def
proof
  fix w
  show "R w (fst (route E q peer call w))"
  proof (cases peer)
    case (Some ip)
    obtain l r where l: "rate_check (aw_limiter w) (rq_now q) (rq_now q) ip = (l, r)" by fastforce
    have "R w (w\<lparr>aw_limiter := l\<rparr>)" by (rule frame_limiter)
    moreover have "R (w\<lparr>aw_limiter := l\<rparr>) (fst (handle E q call (w\<lparr>aw_limiter := l\<rparr>)))"
      by (rule api_keepsD [OF keeps_handle])
    ultimately show ?thesis
      using frame_trans by (cases r) (auto simp: route_def rate_limit_def Some l)
  qed (simp add: route_def rate_limit_def api_keepsD [OF keeps_handle])
qed

end

section \<open>The frames\<close>

text \<open>Only the audit trail changed.\<close>

definition only_audit :: "api_world \<Rightarrow> api_world \<Rightarrow> bool" where
  "only_audit w w' \<longleftrightarrow> (\<exists>T. w' = w\<lparr>aw_tables := (aw_tables w)\<lparr>t_audit := T\<rparr>\<rparr>)"

lemma only_audit_refl: "only_audit w w"
  unfolding only_audit_def by (rule exI [of _ "t_audit (aw_tables w)"]) simp

lemma audit_denial_world:
  "fst (audit_auth_denial E q target detail w) = w\<lparr>aw_tables := (aw_tables w)\<lparr>t_audit :=
     audit_exec (ae_precision E) (ae_rfc3339 E) (t_audit (aw_tables w))
       (rq_now q, ''platform:api-gate'', ''auth.rejected'', target, detail, aw_secrets w)\<rparr>\<rparr>"
  by (simp add: audit_auth_denial_def audit_exec_def)

interpretation audit_only: api_frame only_audit E for E
proof
  show "only_audit w w" for w by (rule only_audit_refl)
  show "only_audit w w' \<Longrightarrow> only_audit w' w'' \<Longrightarrow> only_audit w w''" for w w' w''
    by (auto simp: only_audit_def)
  show "only_audit w (fst (audit_auth_denial E q target detail w))" for E w q target detail
    unfolding only_audit_def audit_denial_world by blast
qed

definition find_replay :: "string \<Rightarrow> api_world \<Rightarrow> idempotency_row option" where
  "find_replay k w = find (\<lambda>r. ir_key r = k) (aw_replays w)"

definition replays_stay :: "api_world \<Rightarrow> api_world \<Rightarrow> bool" where
  "replays_stay w w' \<longleftrightarrow> (\<forall>k r. find_replay k w = Some r \<longrightarrow> find_replay k w' = Some r)"

lemma replays_stay_same: "aw_replays w' = aw_replays w \<Longrightarrow> replays_stay w w'"
  by (simp add: replays_stay_def find_replay_def)

lemma step_worlds:
  "fst (api_enqueue E q target action at w) =
     w\<lparr>aw_jobs := fst (pg_enqueue (ae_parse E) (rq_job_uuid q) (aw_jobs w) target action 1 retry_policy_default at)\<rparr>"
  "fst (save_app E app w) = w\<lparr>aw_tables := fst (pg_app_save (ae_msg E) (aw_tables w) app)\<rparr>"
  by (simp_all add: api_enqueue_def save_app_def split: prod.split)

lemma api_record_event_world: "\<exists>T. fst (api_record_event E ctx ev result kind rid detail at w) = w\<lparr>aw_tables := (aw_tables w)\<lparr>t_events := T\<rparr>\<rparr>"
  by (auto simp: api_record_event_def Let_def split: prod.split)

lemma store_replay_world:
  "fst (store_replay E q key command response w) = w \<or>
   (\<exists>r. ir_key r = key \<and> find_replay key w = None \<and> fst (store_replay E q key command response w) = w\<lparr>aw_replays := aw_replays w @ [r]\<rparr>)"
proof (cases "redact_guard ''idempotency_records.response'' (json_print (ae_json E) response) (aw_secrets w)")
  case (Inr detail)
  show ?thesis
  proof (cases "list_ex (\<lambda>r. ir_key r = key) (aw_replays w)")
    case False
    let ?r = "\<lparr>ir_key = key, ir_command = command,
      ir_response = (case json_parse (ae_json E) detail of Some v \<Rightarrow> v | None \<Rightarrow> JNull), ir_created_at = rq_now q\<rparr>"
    have "fst (store_replay E q key command response w) = w\<lparr>aw_replays := aw_replays w @ [?r]\<rparr>"
      using False Inr by (simp add: store_replay_def Let_def)
    moreover have "ir_key ?r = key" "find_replay key w = None"
      using False by (auto simp: find_replay_def find_None_iff list_ex_iff)
    ultimately show ?thesis by blast
  qed (simp add: store_replay_def Inr)
qed (simp add: store_replay_def)

interpretation replay_frame: api_write_frame replays_stay E for E
proof
  show "replays_stay w w'' " if "replays_stay w w'" "replays_stay w' w''" for w w' w''
    using that by (simp add: replays_stay_def)
  show "replays_stay w (fst (api_record_event E ctx ev result kind rid detail at w))" for E w ctx ev result kind rid detail at
    using api_record_event_world [of E ctx ev result kind rid detail at w] by (auto intro!: replays_stay_same)
  show "replays_stay w (fst (store_replay E q key command response w))" for E w q key command response
    using store_replay_world [of E q key command response w]
    by (auto simp: replays_stay_def find_replay_def find_append)
qed (auto intro!: replays_stay_same simp: audit_denial_world step_worlds)

text \<open>Replay records and secrets are untouched; every step before the last one of a mutation has this frame.\<close>

definition same_replays :: "api_world \<Rightarrow> api_world \<Rightarrow> bool" where
  "same_replays w w' \<longleftrightarrow> aw_replays w' = aw_replays w \<and> aw_secrets w' = aw_secrets w"

interpretation same_frame: api_frame same_replays E for E
  by unfold_locales (auto simp: same_replays_def audit_denial_world)

lemma same_writes:
  "api_keeps same_replays (api_lift on_error (api_enqueue E q target action at))"
  "api_keeps same_replays (api_lift on_error (api_record_event E ctx ev result kind rid detail at))"
  "api_keeps same_replays (api_lift on_error (save_app E app))"
proof -
  have "same_replays w (fst (api_record_event E ctx ev result kind rid detail at w))" for w
    using api_record_event_world [of E ctx ev result kind rid detail at w] by (auto simp: same_replays_def)
  then show "api_keeps same_replays (api_lift on_error (api_record_event E ctx ev result kind rid detail at))"
    by (rule same_frame.keeps_lift)
qed (auto intro!: same_frame.keeps_lift simp: step_worlds same_replays_def)

section \<open>Integrity\<close>

definition audit_ok :: "api_env \<Rightarrow> audit_row list \<Rightarrow> bool" where
  "audit_ok E T \<longleftrightarrow> audit_table_ok T \<and> audit_verify (ae_rfc3339 E) (pg_audit_load T) = Ok ()"

definition clock_stored :: "api_env \<Rightarrow> bool" where
  "clock_stored E \<longleftrightarrow> (\<forall>t. cp_stored (ae_precision E) (cp_round6 (ae_precision E) t) = cp_round6 (ae_precision E) t)"

definition api_ok :: "api_env \<Rightarrow> api_world \<Rightarrow> bool" where
  "api_ok E w \<longleftrightarrow> tables_ok (aw_tables w) \<and> audit_ok E (t_audit (aw_tables w)) \<and> table_ok (aw_jobs w) \<and>
     plugins_ok (aw_plugins w) \<and> distinct (map ir_key (aw_replays w))"

lemma audit_exec_ok: "clock_stored E \<Longrightarrow> audit_ok E T \<Longrightarrow> audit_ok E (audit_exec (ae_precision E) (ae_rfc3339 E) T c)"
  using append_audit_refines [of T "ae_precision E" "ae_rfc3339 E" c] audit_run_verify
  by (auto simp: audit_ok_def clock_stored_def)

lemma pg_app_save_audit: "tables_ok db \<Longrightarrow> t_audit (fst (pg_app_save msg db app)) = t_audit db"
proof (cases rule: pg_app_save_cases [of msg db app])
  case (saved d1 d2 n d3)
  assume "tables_ok db"
  then have "refs_ok (upsert_application db app)" by (simp add: tables_ok_def upsert_application_refs)
  note s1 = upsert_environments_refs [OF this saved(1)]
  note s2 = upsert_desired_refs [OF conjunct1 [OF s1] saved(2)]
  show ?thesis using s1 s2 upsert_observed_refs [OF conjunct1 [OF s2] saved(3)] saved(4) by simp
qed simp_all

lemma pg_enqueue_ok: "table_ok T \<Longrightarrow> table_ok (fst (pg_enqueue parse u T target action version policy at))"
  using durable_exec_ok [of T parse undefined "DEnqueue u target action version policy at"] by simp

interpretation integrity: api_write_frame "\<lambda>w w'. clock_stored E \<and> api_ok E w \<longrightarrow> api_ok E w'" E for E
proof
  show "clock_stored E \<and> api_ok E w \<longrightarrow> api_ok E (fst (api_record_event E ctx ev result kind rid detail at w))"
    for E w ctx ev result kind rid detail at
  proof -
    obtain T where T: "fst (api_record_event E ctx ev result kind rid detail at w) = w\<lparr>aw_tables := (aw_tables w)\<lparr>t_events := T\<rparr>\<rparr>"
      using api_record_event_world by blast
    show ?thesis using ok_evidence [where db = "aw_tables w" and E = T and A = "t_audit (aw_tables w)"] by (simp add: T api_ok_def)
  qed
  show "clock_stored E \<and> api_ok E w \<longrightarrow> api_ok E (fst (store_replay E q key command response w))" for E w q key command response
    using store_replay_world [of E q key command response w]
    by (auto simp: api_ok_def find_replay_def find_key_None)
  show "clock_stored E \<and> api_ok E w \<longrightarrow> api_ok E (fst (audit_auth_denial E q target detail w))" for E w q target detail
  proof -
    let ?T = "audit_exec (ae_precision E) (ae_rfc3339 E) (t_audit (aw_tables w))
       (rq_now q, ''platform:api-gate'', ''auth.rejected'', target, detail, aw_secrets w)"
    show ?thesis
      using audit_exec_ok [of E "t_audit (aw_tables w)"] ok_evidence [where db = "aw_tables w" and E = "t_events (aw_tables w)" and A = ?T]
      by (simp add: audit_denial_world api_ok_def)
  qed
qed (auto simp: api_ok_def step_worlds pg_enqueue_ok pg_app_save_ok pg_app_save_audit plugin_register_ok)

lemma fold_route_ok:
  "clock_stored E \<Longrightarrow> api_ok E w \<Longrightarrow> api_ok E (fold (\<lambda>(q, peer, call) w. fst (route E q peer call w)) calls w)"
proof (induction calls arbitrary: w)
  case (Cons c calls)
  have "api_ok E (fst (route E (fst c) (fst (snd c)) (snd (snd c)) w))"
    using api_keepsD [OF integrity.keeps_route] Cons.prems by blast
  then show ?case using Cons.IH Cons.prems(1) by (simp add: case_prod_unfold)
qed simp

text \<open>
  (C16) Every sequence of requests, with any headers, callers and bodies, keeps the integrity of everything behind the API: the
  application tables, the job table, the plugin registry with one active plugin of a family, one replay record for a key,
  and an audit trail that verifies, provided the database keeps a rounded instant as it is.
\<close>

theorem api_integrity:
  assumes "clock_stored E"
  shows "api_ok E (fold (\<lambda>(q, peer, call) w. fst (route E q peer call w)) calls (api_state_new tokens secrets))"
proof (rule fold_route_ok [OF assms])
  show "api_ok E (api_state_new tokens secrets)"
    by (simp add: api_ok_def api_state_new_def audit_ok_def tables_empty_def [symmetric])
      (simp add: tables_empty_def audit_table_ok_def pg_audit_load_def audit_restore_def audit_verify_def plugins_ok_def
        btm_inv_def btm_get_def)
qed

section \<open>The gate\<close>

lemma denied_bind:
  assumes "authenticate (ae_sha256 E) (rq_now q) (aw_tokens w) (bearer_of q) = Inl denial"
  shows "only_audit w (fst (api_bind (authorized E q tr target) f w)) \<and>
    snd (api_bind (authorized E q tr target) f w) = ApiErr (err_unauthorized tr)"
  using assms by (auto simp: api_bind_def authorized_def audit_auth_denial_def api_fail_def only_audit_def)

lemmas handler_defs = api_import_def api_inspect_def run_dev_def api_agent_def api_preview_def mutate_simple_def
  api_capabilities_def api_capability_def api_resources_def api_build_def api_deploy_def api_deployments_def api_logs_def
  api_health_def api_rollback_def api_doctor_def api_job_status_def negotiate_agent_def handshake_plugin_def list_plugins_def

text \<open>
  A caller without a valid token learns and changes nothing. Whatever the reason of the denial, unknown, expired or
  revoked, every endpoint but the version answers the same error, and only the audit trail grows.
\<close>

theorem denied_caller_learns_nothing:
  assumes "authenticate (ae_sha256 E) (rq_now q) (aw_tokens w) (bearer_of q) = Inl denial" "call \<noteq> CallVersion"
  shows "snd (handle E q call w) = ApiErr (err_unauthorized (trace_of q)) \<and> only_audit w (fst (handle E q call w))"
  using assms(2)
  by (cases call) (simp_all only: handle.simps handler_defs simp_thms
      denied_bind [OF assms(1), THEN conjunct1] denied_bind [OF assms(1), THEN conjunct2])

definition claimed_actor :: "api_request \<Rightarrow> cli_actor option" where
  "claimed_actor q = parse_actor (case rq_headers q ''x-labryst-actor'' of Some raw \<Rightarrow> raw | None \<Rightarrow> [])"

lemma authorized_cases:
  obtains (admitted) t actor where "authenticate (ae_sha256 E) (rq_now q) (aw_tokens w) (bearer_of q) = Inr t"
      "claimed_actor q = Some actor" "allows (at_scope t) actor"
      "authorized E q tr target w = (w, ApiOk \<lparr>cx_actor = actor, cx_trace_id = tr, cx_idempotency_key = idempotency_of q\<rparr>)"
  | (refused) w' e where "only_audit w w'" "authorized E q tr target w = (w', ApiErr e)"
proof (cases "authenticate (ae_sha256 E) (rq_now q) (aw_tokens w) (bearer_of q)")
  case (Inl denial)
  then show thesis using denied_bind [OF Inl, of tr target api_return]
    by (intro refused) (auto simp: authorized_def api_bind_def audit_auth_denial_def api_fail_def only_audit_def)
next
  case (Inr t)
  show thesis
  proof (cases "claimed_actor q")
    case None
    then show thesis using Inr only_audit_refl
      by (intro refused) (auto simp: authorized_def claimed_actor_def api_fail_def)
  next
    case (Some actor)
    then show thesis
      using Inr admitted [OF Inr Some]
      by (cases "allows (at_scope t) actor")
        (auto simp: authorized_def claimed_actor_def api_bind_def audit_auth_denial_def api_fail_def only_audit_def intro!: refused)
  qed
qed

section \<open>Lifecycle commands\<close>

fun is_lifecycle :: "api_call \<Rightarrow> bool" where
  "is_lifecycle (CallImport _ _) = True"
| "is_lifecycle (CallBuild _ _) = True"
| "is_lifecycle (CallDeploy _ _) = True"
| "is_lifecycle (CallRollback _ _) = True"
| "is_lifecycle _ = False"

text \<open>A computation that refuses: it leaves the world but for the audit trail, and answers an error.\<close>

definition refuses :: "api_world \<Rightarrow> api_world \<times> 'a api_outcome \<Rightarrow> bool" where
  "refuses w r \<longleftrightarrow> only_audit w (fst r) \<and> (\<exists>e. snd r = ApiErr e)"

lemma refuses_fail [simp]: "refuses w (api_fail e w)"
  by (simp add: refuses_def api_fail_def only_audit_refl)

lemma refuses_bind: "refuses w (c w) \<Longrightarrow> refuses w (api_bind c f w)"
  by (cases "c w") (auto simp: refuses_def api_bind_def)

lemma bind_pure: "c w = (w, ApiOk a) \<Longrightarrow> api_bind c f w = f a w"
  by (simp add: api_bind_def)

lemma refuses_gate:
  assumes "\<And>t actor. authenticate (ae_sha256 E) (rq_now q) (aw_tokens w) (bearer_of q) = Inr t \<Longrightarrow> claimed_actor q = Some actor \<Longrightarrow>
      allows (at_scope t) actor \<Longrightarrow> refuses w (f \<lparr>cx_actor = actor, cx_trace_id = tr, cx_idempotency_key = idempotency_of q\<rparr> w)"
  shows "refuses w (api_bind (authorized E q tr target) f w)"
proof (cases rule: authorized_cases [of E q w tr target])
  case (admitted t actor)
  then show ?thesis using assms [OF admitted(1-3)] by (simp add: bind_pure)
next
  case (refused w' e)
  then show ?thesis by (intro refuses_bind) (simp add: refuses_def)
qed

lemma refuses_key: "cx_idempotency_key ctx = None \<Longrightarrow> refuses w (api_bind (require_idempotency ctx command) f w)"
  by (rule refuses_bind) (simp add: require_idempotency_def)

lemma refuses_reject: "refuses w (api_bind (api_reject (Some e)) f w)"
  by (rule refuses_bind) (simp add: api_reject_def)

lemma reject_pass: "api_bind (api_reject None) f w = f () w"
  by (simp add: api_bind_def api_reject_def api_return_def)

lemma refuses_approver:
  assumes "\<And>a. trim a \<noteq> [] \<Longrightarrow> mb_approver body = Some a \<Longrightarrow> refuses w (f a w)"
  shows "refuses w (api_bind (rollback_approver ctx body) f w)"
  using assms by (auto simp: rollback_approver_def bind_pure api_return_def intro: refuses_bind split: option.split)

definition human_request :: "api_env \<Rightarrow> api_request \<Rightarrow> api_world \<Rightarrow> bool" where
  "human_request E q w \<longleftrightarrow>
     (\<exists>t name. authenticate (ae_sha256 E) (rq_now q) (aw_tokens w) (bearer_of q) = Inr t \<and> at_scope t = ScopeHuman \<and>
        claimed_actor q = Some (CliHuman name)) \<and> idempotency_of q \<noteq> None"

lemma allows_iff: "allows sc actor \<longleftrightarrow> (case actor of CliHuman _ \<Rightarrow> sc = ScopeHuman | CliAgent _ _ \<Rightarrow> sc = ScopeAgent | CliPlatform _ \<Rightarrow> False)"
  by (cases sc; cases actor) auto

lemma lifecycle_guard:
  assumes "\<not> human_request E q w" "authenticate (ae_sha256 E) (rq_now q) (aw_tokens w) (bearer_of q) = Inr t"
    "claimed_actor q = Some actor" "allows (at_scope t) actor"
  shows "is_agent actor \<or> is_human actor \<and> idempotency_of q = None"
  using assms by (cases actor) (auto simp: human_request_def allows_iff)

text \<open>
  (C17) A lifecycle command is a human's. An import, build, deploy or rollback that is accepted, or that changes anything but the
  audit trail, came with a valid token of human scope, from a named human and with an idempotency key; a rollback also
  names its approver.
\<close>

theorem lifecycle_needs_human:
  assumes "is_lifecycle call"
    and "(\<exists>v. snd (handle E q call w) = ApiOk v) \<or> \<not> only_audit w (fst (handle E q call w))"
  shows "human_request E q w \<and> (\<forall>raw body. call = CallRollback raw body \<longrightarrow> (\<exists>a. mb_approver body = Some a \<and> trim a \<noteq> []))"
proof (rule ccontr)
  assume contra: "\<not> ?thesis"
  have "refuses w (handle E q call w)"
  proof (cases "human_request E q w")
    case False
    note guard = lifecycle_guard [OF False]
    show ?thesis
      using assms(1)
      by (cases call)
        (auto simp: api_import_def api_build_def api_deploy_def api_rollback_def forbid_agent_def require_human_def
          refuses_reject reject_pass refuses_key
          intro!: refuses_gate refuses_approver dest!: guard)
  next
    case True
    then obtain raw body where call: "call = CallRollback raw body" "\<And>a. mb_approver body = Some a \<Longrightarrow> trim a = []"
      using contra by blast
    show ?thesis
      unfolding call(1) handle.simps api_rollback_def
      using call(2)
      by (auto intro!: refuses_gate refuses_approver simp: require_human_def refuses_reject reject_pass)
  qed
  then show False using assms(2) by (auto simp: refuses_def)
qed

section \<open>Retries\<close>

fun is_mutation :: "api_call \<Rightarrow> bool" where
  "is_mutation (CallImport _ _) = True"
| "is_mutation (CallRun _ _) = True"
| "is_mutation (CallAgent _ _) = True"
| "is_mutation (CallPreview _ _) = True"
| "is_mutation (CallCapability _ _) = True"
| "is_mutation (CallBuild _ _) = True"
| "is_mutation (CallDeploy _ _) = True"
| "is_mutation (CallRollback _ _) = True"
| "is_mutation _ = False"

text \<open>What a stored record makes of a request: at most the audit trail grows, and an acceptance is the stored response.\<close>

definition replays_only :: "idempotency_row \<Rightarrow> api_world \<Rightarrow> api_world \<times> json api_outcome \<Rightarrow> bool" where
  "replays_only r w res \<longleftrightarrow> only_audit w (fst res) \<and> (\<forall>v. snd res = ApiOk v \<longrightarrow> mark_replayed (ir_response r) = CpOk v)"

lemma refuses_replays: "refuses w res \<Longrightarrow> replays_only r w res"
  by (auto simp: refuses_def replays_only_def)

lemma replays_gate:
  assumes "\<And>t actor. authenticate (ae_sha256 E) (rq_now q) (aw_tokens w) (bearer_of q) = Inr t \<Longrightarrow> claimed_actor q = Some actor \<Longrightarrow>
      allows (at_scope t) actor \<Longrightarrow> replays_only r w (f \<lparr>cx_actor = actor, cx_trace_id = tr, cx_idempotency_key = idempotency_of q\<rparr> w)"
  shows "replays_only r w (api_bind (authorized E q tr target) f w)"
proof (cases rule: authorized_cases [of E q w tr target])
  case (admitted t actor)
  then show ?thesis using assms [OF admitted(1-3)] by (simp add: bind_pure)
next
  case (refused w' e)
  then show ?thesis by (intro refuses_replays refuses_bind) (simp add: refuses_def)
qed

lemma replays_reject: "(e = None \<Longrightarrow> replays_only r w (f () w)) \<Longrightarrow> replays_only r w (api_bind (api_reject e) f w)"
  by (cases e) (simp_all add: reject_pass refuses_reject refuses_replays)

lemma replays_fail_bind: "replays_only r w (api_bind (api_fail e) f w)"
  by (rule refuses_replays [OF refuses_bind]) simp

lemma replays_key:
  "(\<And>k. cx_idempotency_key ctx = Some k \<Longrightarrow> replays_only r w (f k w)) \<Longrightarrow> replays_only r w (api_bind (require_idempotency ctx command) f w)"
  by (cases "cx_idempotency_key ctx") (auto simp: replays_fail_bind require_idempotency_def bind_pure api_return_def)

lemma replays_approver:
  "(\<And>a. replays_only r w (f a w)) \<Longrightarrow> replays_only r w (api_bind (rollback_approver ctx body) f w)"
  by (auto simp: rollback_approver_def bind_pure api_return_def replays_fail_bind split: option.split)

lemma replays_stored:
  assumes "find_replay k w = Some r"
  shows "replays_only r w (replay_or ctx k run w)"
  using assms
  by (cases "mark_replayed (ir_response r)")
    (auto simp: replay_or_def api_bind_def api_read_def api_lift_def check_replay_def find_replay_def api_return_def
      replays_only_def only_audit_refl)

lemma replays_fail: "replays_only r w (api_fail e w)"
  by (rule refuses_replays) simp

lemma stored_key_replays:
  assumes "is_mutation call" "idempotency_of q = Some k" "find_replay k w = Some r"
  shows "replays_only r w (handle E q call w)"
  using assms
  by (cases call)
    (auto simp: handler_defs replays_stored replays_fail
      intro!: replays_gate replays_reject replays_key replays_approver)

text \<open>An accepted mutation stores its response as its last step.\<close>

definition stores_response :: "api_env \<Rightarrow> api_request \<Rightarrow> string \<Rightarrow> json api \<Rightarrow> bool" where
  "stores_response E q k c \<longleftrightarrow> (\<forall>w w1 v. c w = (w1, ApiOk v) \<longrightarrow>
     (\<exists>command w0. same_replays w w0 \<and> store_replay E q k command v w0 = (w1, CpOk ())))"

lemma stores_bind:
  assumes "api_keeps same_replays c" "\<And>a. stores_response E q k (f a)"
  shows "stores_response E q k (api_bind c f)"
  unfolding stores_response_def
proof (intro allI impI)
  fix w w1 v
  assume run: "api_bind c f w = (w1, ApiOk v)"
  show "\<exists>command w0. same_replays w w0 \<and> store_replay E q k command v w0 = (w1, CpOk ())"
  proof (cases rule: api_bind_cases [of c w f])
    case (ok w' a)
    then obtain command w0 where "same_replays w' w0" "store_replay E q k command v w0 = (w1, CpOk ())"
      using assms(2) [of a] run unfolding stores_response_def by metis
    moreover have "same_replays w w'" using api_keepsD [OF assms(1), of w] ok(1) by simp
    ultimately show ?thesis by (auto simp: same_replays_def)
  qed (use run in auto)
qed

lemma stores_last:
  "stores_response E q k (api_bind (api_lift on_error (store_replay E q k command response)) (\<lambda>_. api_return response))"
  unfolding stores_response_def api_bind_def api_lift_def api_return_def same_replays_def
  by (auto split: prod.splits cp_outcome.splits)

lemma stores_fail: "stores_response E q k (api_fail e)"
  by (simp add: stores_response_def api_fail_def)

lemma stores_accept: "stores_response E q k (accept_work E q ctx k command target action ev kind rid detail resource data recovery)"
  unfolding accept_work_def Let_def by (auto intro!: stores_bind same_writes stores_last split: prod.split)

lemma stores_work:
  "stores_response E q k (import_work E q ctx k name path)" "stores_response E q k (capability_work E q ctx k raw body)"
  "stores_response E q k (simple_work E q ctx k raw body command action sfx)" "stores_response E q k (build_work E q ctx k raw)"
  "stores_response E q k (deploy_work E q ctx k raw body)" "stores_response E q k (rollback_work E q ctx k raw body approver)"
  unfolding import_work_def capability_work_def simple_work_def build_work_def deploy_work_def rollback_work_def
    requested_target_def Let_def
  by (auto intro!: stores_bind same_writes stores_last stores_accept stores_fail same_frame.keeps_basic
      split: prod.split option.split sum.split)


lemma gate_runs:
  assumes "api_bind (authorized E q tr target) f w = (w1, ApiOk v)"
  obtains actor where "f \<lparr>cx_actor = actor, cx_trace_id = tr, cx_idempotency_key = idempotency_of q\<rparr> w = (w1, ApiOk v)"
proof (cases rule: authorized_cases [of E q w tr target])
  case (admitted t actor)
  then show thesis using assms that by (simp add: bind_pure)
qed (use assms in \<open>simp add: api_bind_def\<close>)

lemma reject_runs: "api_bind (api_reject e) f w = (w1, ApiOk v) \<Longrightarrow> f () w = (w1, ApiOk v)"
  by (cases e) (simp_all add: api_bind_def api_reject_def api_fail_def api_return_def)

lemma key_runs:
  "api_bind (require_idempotency ctx command) f w = (w1, ApiOk v) \<Longrightarrow> cx_idempotency_key ctx = Some k \<Longrightarrow> f k w = (w1, ApiOk v)"
  by (simp add: require_idempotency_def api_bind_def api_return_def)

lemma approver_runs:
  assumes "api_bind (rollback_approver ctx body) f w = (w1, ApiOk v)"
  obtains a where "f a w = (w1, ApiOk v)"
  using assms by (auto simp: rollback_approver_def api_bind_def api_return_def api_fail_def split: option.splits if_splits)

lemma replay_runs:
  assumes "replay_or ctx k run w = (w1, ApiOk v)" "find_replay k w = None"
  shows "run w = (w1, ApiOk v)"
  using assms by (simp add: replay_or_def api_bind_def api_read_def api_lift_def check_replay_def find_replay_def)

definition fresh_work :: "api_env \<Rightarrow> api_request \<Rightarrow> string \<Rightarrow> api_world \<Rightarrow> api_world \<Rightarrow> json \<Rightarrow> bool" where
  "fresh_work E q k w w1 v \<longleftrightarrow> (\<exists>c. stores_response E q k c \<and> c w = (w1, ApiOk v))"

lemma replay_fresh:
  "replay_or ctx k run w = (w1, ApiOk v) \<Longrightarrow> find_replay k w = None \<Longrightarrow> stores_response E q k run \<Longrightarrow> fresh_work E q k w w1 v"
  using replay_runs unfolding fresh_work_def by blast

lemma accepted_runs_work:
  assumes "is_mutation call" "idempotency_of q = Some k" "find_replay k w = None" "handle E q call w = (w1, ApiOk v)"
  shows "fresh_work E q k w w1 v"
  using assms
  by (cases call)
    (auto simp: handler_defs api_fail_def elim!: gate_runs approver_runs
      dest!: reject_runs key_runs [where k = k] replay_fresh [where E = E and q = q, OF _ assms(3)]
      intro: stores_work split: if_splits)


lemma stored_response:
  assumes "store_replay E q k command v w0 = (w1, CpOk ())" "find_replay k w0 = None"
    "redact_reason (json_print (ae_json E) v) (aw_secrets w0) = json_print (ae_json E) v"
    "json_parse (ae_json E) (json_print (ae_json E) v) = Some v"
  shows "\<exists>r. find_replay k w1 = Some r \<and> ir_response r = v"
proof (cases "redact_guard ''idempotency_records.response'' (json_print (ae_json E) v) (aw_secrets w0)")
  case (Inr detail)
  then have "detail = json_print (ae_json E) v" using Inr assms(3) by (simp add: redact_guard_Inr)
  moreover have "\<not> list_ex (\<lambda>r. ir_key r = k) (aw_replays w0)"
    using assms(2) by (auto simp: find_replay_def find_None_iff list_ex_iff)
  ultimately have "w1 = w0\<lparr>aw_replays := aw_replays w0 @ [\<lparr>ir_key = k, ir_command = command, ir_response = v, ir_created_at = rq_now q\<rparr>]\<rparr>"
    using assms(1,4) Inr by (simp add: store_replay_def)
  then show ?thesis using assms(2) by (simp add: find_replay_def find_append)
qed (use assms(1) in \<open>simp add: store_replay_def\<close>)

lemma fold_replays_stay: "replays_stay w (fold (\<lambda>(q, peer, call) w. fst (route E q peer call w)) calls w)"
proof (induction calls arbitrary: w)
  case (Cons c calls)
  have "replays_stay w (fst (route E (fst c) (fst (snd c)) (snd (snd c)) w))"
    by (rule api_keepsD [OF replay_frame.keeps_route])
  then show ?case using Cons.IH replay_frame.frame_trans by (simp add: case_prod_unfold)
qed (simp add: replay_frame.frame_refl)

text \<open>
  A retry replays. Once a mutation was accepted under a key, no later mutation under that key, after any other requests, by
  any caller, does more than grow the audit trail; when it is answered at all it gets the first response marked as
  replayed. The response must not contain a secret, which redaction would change, and must survive printing and parsing.
\<close>

theorem retry_replays:
  assumes "is_mutation call" "idempotency_of q = Some k" "find_replay k w = None" "handle E q call w = (w1, ApiOk v)"
    and "redact_reason (json_print (ae_json E) v) (aw_secrets w) = json_print (ae_json E) v"
    and "json_parse (ae_json E) (json_print (ae_json E) v) = Some v"
    and "w2 = fold (\<lambda>(q, peer, call) w. fst (route E q peer call w)) calls w1"
    and "is_mutation call'" "idempotency_of q' = Some k"
  shows "only_audit w2 (fst (handle E q' call' w2)) \<and>
    (\<forall>v'. snd (handle E q' call' w2) = ApiOk v' \<longrightarrow> mark_replayed v = CpOk v')"
proof -
  obtain command w0 where w0: "same_replays w w0" "store_replay E q k command v w0 = (w1, CpOk ())"
    using accepted_runs_work [OF assms(1-4)] unfolding fresh_work_def stores_response_def by blast
  then obtain r where r: "find_replay k w1 = Some r" "ir_response r = v"
    using stored_response [OF w0(2)] assms(3,5,6) by (auto simp: same_replays_def find_replay_def)
  have "find_replay k w2 = Some r"
    using fold_replays_stay [of w1 E calls] r(1) assms(7) by (simp add: replays_stay_def)
  then show ?thesis
    using stored_key_replays [OF assms(8,9), of w2 r E] r(2) by (simp add: replays_only_def)
qed

section \<open>Health and pages\<close>

definition newest_deployment :: "api_world \<Rightarrow> application \<Rightarrow> environment \<Rightarrow> deployment option" where
  "newest_deployment w app env = max_by_key last_change (pg_deployments_for_environment (aw_tables w) (app_id app) (env_id env))"

lemma max_by_key_in: "max_by_key f xs = Some x \<Longrightarrow> x \<in> set xs"
  by (induction xs arbitrary: x) (auto split: option.splits if_splits)

lemma health_step_Ok:
  assumes "health_step E w app env o1 = CpOk (entry, o2)"
  shows "(newest_deployment w app env = None \<and> (o2 = o1 \<or> o1 = HlUnknown \<and> o2 = HlInProgress)) \<or>
    (\<exists>d. newest_deployment w app env = Some d \<and> o2 = combine_health o1 (phase_label (dp_phase d)))"
proof (cases "max_by_key last_change (pg_deployments_for_environment (aw_tables w) (app_id app) (env_id env))")
  case None
  then show ?thesis using assms unfolding newest_deployment_def health_step_def
    by (cases "deploy_job E w app env") (auto split: if_splits)
next
  case (Some d)
  then show ?thesis using assms unfolding newest_deployment_def health_step_def
    by (cases "deploy_job E w app env") (auto split: if_splits)
qed

lemma combine_healthy:
  "combine_health o1 l = HlHealthy \<Longrightarrow> l = HlHealthy \<or> o1 = HlHealthy"
  "combine_health o1 l \<in> {HlUnknown, HlHealthy, HlSuperseded} \<Longrightarrow>
     o1 \<in> {HlUnknown, HlHealthy, HlSuperseded} \<and> l \<in> {HlUnknown, HlHealthy, HlSuperseded}"
  by (cases o1; cases l; simp add: combine_health_def)+

lemma phase_label_simps:
  "phase_label p = HlHealthy \<longleftrightarrow> p = DpHealthy"
  "phase_label p \<in> {HlUnknown, HlHealthy, HlSuperseded} \<longleftrightarrow> p \<in> {DpHealthy, DpSuperseded, DpRolledBack}"
  by (cases p; simp)+

lemma health_fold_healthy:
  assumes "health_fold E w app envs o1 = CpOk (entries, HlHealthy)"
  shows "o1 \<in> {HlUnknown, HlHealthy, HlSuperseded} \<and>
    (o1 = HlHealthy \<or> (\<exists>env \<in> set envs. \<exists>d. newest_deployment w app env = Some d \<and> dp_phase d = DpHealthy)) \<and>
    (\<forall>env \<in> set envs. \<forall>d. newest_deployment w app env = Some d \<longrightarrow> dp_phase d \<in> {DpHealthy, DpSuperseded, DpRolledBack})"
  using assms
proof (induction envs arbitrary: o1 entries)
  case (Cons env envs)
  obtain entry o2 where step: "health_step E w app env o1 = CpOk (entry, o2)"
    using Cons.prems by (cases "health_step E w app env o1") auto
  obtain rest where rest: "health_fold E w app envs o2 = CpOk (rest, HlHealthy)"
    using Cons.prems step by (cases "health_fold E w app envs o2") auto
  note IH = Cons.IH [OF rest]
  from health_step_Ok [OF step] show ?case
  proof (elim disjE exE conjE)
    fix d assume d: "newest_deployment w app env = Some d" "o2 = combine_health o1 (phase_label (dp_phase d))"
    have "o1 \<in> {HlUnknown, HlHealthy, HlSuperseded}" "dp_phase d \<in> {DpHealthy, DpSuperseded, DpRolledBack}"
      using combine_healthy(2) [of o1 "phase_label (dp_phase d)"] IH d(2) phase_label_simps(2) [of "dp_phase d"] by auto
    moreover have "o2 = HlHealthy \<longrightarrow> o1 = HlHealthy \<or> dp_phase d = DpHealthy"
      using combine_healthy(1) [of o1 "phase_label (dp_phase d)"] d(2) phase_label_simps(1) by auto
    ultimately show ?thesis using IH d(1) by auto
  qed (use IH in auto)
qed simp

text \<open>
  Health is never invented. An application is reported healthy only when the newest deployment of some asked environment
  is healthy, and the newest deployment of every other asked environment is healthy or out of service.
\<close>

theorem api_health_observed:
  assumes "health_fold E w app envs HlUnknown = CpOk (entries, HlHealthy)"
  shows "(\<exists>env \<in> set envs. \<exists>d \<in> set (pg_deployments_for_environment (aw_tables w) (app_id app) (env_id env)).
      newest_deployment w app env = Some d \<and> dp_phase d = DpHealthy) \<and>
    (\<forall>env \<in> set envs. \<forall>d. newest_deployment w app env = Some d \<longrightarrow> dp_phase d \<in> {DpHealthy, DpSuperseded, DpRolledBack})"
proof -
  have "d \<in> set (pg_deployments_for_environment (aw_tables w) (app_id app) (env_id env))"
    if "newest_deployment w app env = Some d" for env d
    using max_by_key_in that unfolding newest_deployment_def by metis
  then show ?thesis using health_fold_healthy [OF assms] by blast
qed

text \<open>A page holds between one and five hundred records, whatever the query asks for.\<close>

theorem clamp_page_bounds: "1 \<le> fst (clamp_page page) \<and> fst (clamp_page page) \<le> 500"
proof -
  have "1 \<le> nat (max 1 (min 500 l)) \<and> nat (max 1 (min 500 l)) \<le> 500" for l :: int by linarith
  then show ?thesis by (simp add: clamp_page_def split: option.split)
qed

section \<open>Work that is not run again\<close>

lemma enqueue_known_key:
  assumes "\<exists>r \<in> set T. jr_key r = key_as_str (idempotency_key_new target action version)"
  shows "fst (pg_enqueue parse u T target action version policy at) = T"
proof -
  have "find (\<lambda>r. jr_key r = key_as_str (idempotency_key_new target action version)) T \<noteq> None"
    using assms by (auto simp: find_None_iff)
  then show ?thesis by (auto simp: pg_enqueue_def Let_def split: option.split)
qed

definition jobs_stay :: "string \<Rightarrow> api_world \<Rightarrow> api_world \<Rightarrow> bool" where
  "jobs_stay k w w' \<longleftrightarrow> ((\<exists>r \<in> set (aw_jobs w). jr_key r = k) \<longrightarrow> aw_jobs w' = aw_jobs w)"

interpretation jobs_frame: api_frame "jobs_stay k" E for k E
  by unfold_locales (auto simp: jobs_stay_def audit_denial_world)

lemma jobs_accept:
  assumes "k = key_as_str (idempotency_key_new target action 1)"
  shows "api_keeps (jobs_stay k) (accept_work E q ctx key command target action ev kind rid detail resource data recovery)"
proof -
  have "jobs_stay k w (fst (api_enqueue E q target action at w))" for w at
    using assms enqueue_known_key [of "aw_jobs w" target action 1] by (auto simp: jobs_stay_def step_worlds)
  moreover have "jobs_stay k w (fst (api_record_event E ctx ev EvAccepted kind rid detail at w))" for w at
    using api_record_event_world [of E ctx ev EvAccepted kind rid detail at w] by (auto simp: jobs_stay_def)
  moreover have "jobs_stay k w (fst (store_replay E q key command response w))" for w response
    using store_replay_world [of E q key command response w] by (auto simp: jobs_stay_def)
  ultimately show ?thesis
    unfolding accept_work_def Let_def
    by (auto intro!: jobs_frame.keeps_basic jobs_frame.keeps_lift split: prod.split)
qed

lemma load_app_id:
  assumes "application_id_from_str (ae_parse E) raw = Inr i" "application_id_from_str (ae_parse E) (application_id_display i) = Inr i"
    and "load_app E q ctx raw w = (w', ApiOk app)"
  shows "app_id app = i"
proof -
  obtain row where "ap_id row = application_id_display i"
    "cp_bind (application_from_row (ae_parse E) (rq_now q) row) (\<lambda>a. load_parts (ae_parse E) (aw_tables w) a i) = CpOk app"
    using assms(1,3)
    by (auto simp: load_app_def api_read_def api_lift_def pg_app_get_def find_Some_iff split: cp_outcome.splits option.splits)
  then show ?thesis using assms(2) by (auto simp: application_from_row_def load_parts_def)
qed

text \<open>
  A build is run once. The API enqueues every job with version 1 and the keys of jobs are unique for ever, so once a build
  of an application was enqueued, whatever became of it, later accepted builds, under new idempotency keys too, enqueue nothing.
\<close>

theorem rebuild_enqueues_nothing:
  assumes "application_id_from_str (ae_parse E) raw = Inr i" "application_id_from_str (ae_parse E) (application_id_display i) = Inr i"
    and "\<exists>r \<in> set (aw_jobs w). jr_key r = key_as_str (idempotency_key_new (application_id_display i @ '':build'') ActProvision 1)"
  shows "aw_jobs (fst (handle E q (CallBuild raw body) w)) = aw_jobs w"
proof -
  let ?k = "key_as_str (idempotency_key_new (application_id_display i @ '':build'') ActProvision 1)"
  have "api_keeps (jobs_stay ?k) (build_work E q ctx key raw)" for ctx key
    unfolding build_work_def
    by (rule jobs_frame.keeps_bind_post [OF jobs_frame.keeps_load_app, where Q = "\<lambda>app. app_id app = i"])
      (auto dest: load_app_id [OF assms(1,2)] intro: jobs_accept)
  then have "api_keeps (jobs_stay ?k) (handle E q (CallBuild raw body))"
    by (auto simp: api_build_def intro!: jobs_frame.keeps_basic)
  then show ?thesis using api_keepsD [of "jobs_stay ?k" _ w] assms(3) by (simp add: jobs_stay_def)
qed

section \<open>A human imports an application\<close>

definition demo_headers :: "string \<Rightarrow> string option" where
  "demo_headers = map_of [(''authorization'', ''Bearer 0123456789abcdef''), (''x-labryst-actor'', ''human:ann''),
     (''x-trace-id'', ''t1''), (''Idempotency-Key'', ''k1'')]"

definition demo_request :: api_request where
  "demo_request = \<lparr>rq_headers = demo_headers, rq_fresh_trace = [], rq_now = 5, rq_job_uuid = ''j1'', rq_app_uuid = ''u1'',
     rq_dev_uuid = ''u2'', rq_prod_uuid = ''u3''\<rparr>"

definition demo_env :: "json \<Rightarrow> api_env" where
  "demo_env v = \<lparr>ae_parse = Some, ae_default = [], ae_msg = id, ae_precision = \<lparr>cp_round6 = id, cp_stored = id\<rparr>,
     ae_rfc3339 = (\<lambda>_. ''t''), ae_sha256 = map (\<lambda>c. word_of_nat (of_char c)), ae_json = \<lparr>json_print = (\<lambda>_. ''r''), json_parse = (\<lambda>_. Some v)\<rparr>\<rparr>"

definition demo_world :: api_world where
  "demo_world = api_state_new \<lparr>ts_tokens = [\<lparr>tr_id = ''ops'', tr_identity = ''ops'', tr_scope = ScopeHuman, tr_expires_at = None,
     tr_revoked = False, tr_secret = ''0123456789abcdef''\<rparr>], ts_bootstrap = False\<rparr> []"

definition demo_answer :: "json \<Rightarrow> json option" where
  "demo_answer v = (case snd (handle (demo_env v) demo_request (CallImport None None) demo_world) of ApiOk r \<Rightarrow> Some r | _ \<Rightarrow> None)"

definition demo_response :: json where
  "demo_response = (case demo_answer JNull of Some r \<Rightarrow> r | None \<Rightarrow> JNull)"

lemma demo_accepted: "demo_answer JNull \<noteq> None"
  by code_simp

lemma demo_same_answer: "demo_answer demo_response = Some demo_response"
  by code_simp

lemma demo_runs:
  "\<exists>w1. handle (demo_env demo_response) demo_request (CallImport None None) demo_world = (w1, ApiOk demo_response)"
proof -
  obtain w1 r where r: "handle (demo_env demo_response) demo_request (CallImport None None) demo_world = (w1, r)" by fastforce
  then show ?thesis using demo_same_answer by (cases r) (simp_all add: demo_answer_def)
qed

theorem api_integrity_witness:
  "api_ok (demo_env demo_response) (fst (route (demo_env demo_response) demo_request None (CallImport None None) demo_world))"
  using api_integrity [of "demo_env demo_response" "[(demo_request, None, CallImport None None)]" "aw_tokens demo_world" "[]"]
  by (simp add: clock_stored_def demo_env_def demo_world_def api_state_new_def)

definition anonymous_request :: api_request where
  "anonymous_request = demo_request\<lparr>rq_headers := (\<lambda>_. None)\<rparr>"

theorem denied_caller_learns_nothing_witness:
  "snd (handle (demo_env demo_response) anonymous_request (CallJob ''job_1'') demo_world) = ApiErr (err_unauthorized ''trace-'')"
proof -
  let ?E = "demo_env demo_response"
  have denied: "authenticate (ae_sha256 ?E) (rq_now anonymous_request) (aw_tokens demo_world) (bearer_of anonymous_request) =
      Inl \<lparr>ad_reason = DenyUnknown, ad_known_id = None\<rparr>"
    by (simp add: authenticate_def demo_world_def api_state_new_def demo_env_def bearer_of_def anonymous_request_def)
  have "trace_of anonymous_request = ''trace-''"
    by (simp add: trace_of_def nonblank_header_def anonymous_request_def demo_request_def)
  then show ?thesis
    using conjunct1 [OF denied_caller_learns_nothing [OF denied, of "CallJob ''job_1''"]] by simp
qed

theorem lifecycle_needs_human_witness: "human_request (demo_env demo_response) demo_request demo_world"
  using lifecycle_needs_human [of "CallImport None None" "demo_env demo_response" demo_request demo_world] demo_runs by force

theorem retry_replays_witness:
  "\<exists>w1. handle (demo_env demo_response) demo_request (CallImport None None) demo_world = (w1, ApiOk demo_response) \<and>
     only_audit w1 (fst (handle (demo_env demo_response) demo_request (CallImport None None) w1))"
proof -
  obtain w1 where w1: "handle (demo_env demo_response) demo_request (CallImport None None) demo_world = (w1, ApiOk demo_response)"
    using demo_runs by blast
  have key: "idempotency_of demo_request = Some ''k1''"
    by code_simp
  have "only_audit w1 (fst (handle (demo_env demo_response) demo_request (CallImport None None) w1))"
    by (rule conjunct1 [OF retry_replays [OF _ key _ w1 _ _ _ _ key, where calls = "[]" and call' = "CallImport None None"]])
      (simp_all add: find_replay_def demo_world_def api_state_new_def redact_reason_def demo_env_def)
  then show ?thesis using w1 by blast
qed

definition demo_body :: mutation_body where
  "demo_body = \<lparr>mb_environment = None, mb_approver = None, mb_capability = None, mb_target = None, mb_prompt = None,
     mb_session_id = None, mb_revision_sha = None\<rparr>"

theorem rebuild_enqueues_nothing_witness:
  "\<exists>w. aw_jobs w \<noteq> [] \<and>
     aw_jobs (fst (handle (demo_env demo_response) demo_request (CallBuild ''app_u1'' demo_body) w)) = aw_jobs w"
proof -
  let ?w = "demo_world\<lparr>aw_jobs := [inserted_row ''j0'' ''app_u1:build'' ActProvision 1 retry_policy_default 0]\<rparr>"
  have "aw_jobs (fst (handle (demo_env demo_response) demo_request (CallBuild ''app_u1'' demo_body) ?w)) = aw_jobs ?w"
    by (rule rebuild_enqueues_nothing [where i = "ApplicationId ''u1''"])
      (simp_all add: demo_env_def application_id_from_str_def id_from_str_def starts_with_def)
  moreover have "aw_jobs ?w \<noteq> []" by simp
  ultimately show ?thesis by blast
qed

definition demo_deployment :: deployment where
  "demo_deployment = (case deployment_new ''d1'' (ApplicationId ''u1'') (EnvironmentId ''u3'') (revision_new ''sha'' ''cfg'' None)
     sample_config [] None 3 of Ok d \<Rightarrow> d\<lparr>dp_phase := DpHealthy\<rparr> | _ \<Rightarrow> undefined)"

theorem api_health_observed_witness:
  "\<exists>w entries. health_fold (demo_env demo_response) w imported_sample [environment_production ''u3'' (ApplicationId ''u1'')] HlUnknown =
      CpOk (entries, HlHealthy) \<and>
    newest_deployment w imported_sample (environment_production ''u3'' (ApplicationId ''u1'')) = Some demo_deployment"
proof -
  let ?env = "environment_production ''u3'' (ApplicationId ''u1'')"
  let ?w = "demo_world\<lparr>aw_tables := tables_empty\<lparr>t_deployments := [deployment_to_row demo_deployment 3]\<rparr>\<rparr>"
  have d: "dp_phase demo_deployment = DpHealthy" "dp_application_id demo_deployment = ApplicationId ''u1''"
    "dp_environment_id demo_deployment = EnvironmentId ''u3''"
    by (simp_all add: demo_deployment_def deployment_new_def sample_config_def)
  have newest: "pg_deployments_for_environment (aw_tables ?w) (app_id imported_sample) (env_id ?env) = [demo_deployment]"
    by (simp add: pg_deployments_for_environment_def d imported_sample_def application_new_def Let_def environment_production_def
        environment_new_def)
  then obtain entries where h: "health_fold (demo_env demo_response) ?w imported_sample [?env] HlUnknown = CpOk (entries, HlHealthy)"
    by (simp add: health_step_def d combine_health_def)
  then show ?thesis
    using api_health_observed [OF h] newest by (auto simp: newest_deployment_def)
qed

end
