(* ===== verification/Container_Runtime.thy ===== *)
theory Container_Runtime
  imports Worker_Loop
begin

text \<open>
  Bounded container execution: \<open>labrys-control-plane/src/runtime.rs\<close>.

  The executor trait is a record of operations over the state \<open>'w\<close> of the host. What the host does is an argument:
  \<open>dh_run\<close> runs the docker binary with an argument vector and a timeout, \<open>dh_request\<close> opens a
  connection, sends a request and reads one line. The reported duration of a timed out build wraps at 64 bits, as in a release build. Output is taken after \<open>from_utf8_lossy\<close>. The Docker executor and the
  unavailable one are values of that record and both keep the trait's contract.

  The \<open>--cpus\<close> argument is the binary64 quotient of the millicpus by 1000, printed with two decimals. Both roundings are
  written out on integers: the quotient is rounded to 53 bits, the decimal to the nearest hundredth, ties to even.
\<close>

section \<open>Effects\<close>

text \<open>A statement over a state: the state it leaves and its result; an error keeps what was written before it.\<close>

fun fx_bind :: "'s \<times> 'a cp_outcome \<Rightarrow> ('s \<Rightarrow> 'a \<Rightarrow> 's \<times> 'b cp_outcome) \<Rightarrow> 's \<times> 'b cp_outcome" where
  "fx_bind (s, CpOk a) f = f s a"
| "fx_bind (s, CpErr e) f = (s, CpErr e)"
| "fx_bind (s, CpPanic m) f = (s, CpPanic m)"

text \<open>\<open>let _ = ...\<close>: an error is dropped.\<close>

fun fx_ignore :: "'s \<times> 'a cp_outcome \<Rightarrow> 's \<times> unit cp_outcome" where
  "fx_ignore (s, CpOk a) = (s, CpOk ())"
| "fx_ignore (s, CpErr e) = (s, CpOk ())"
| "fx_ignore (s, CpPanic m) = (s, CpPanic m)"

fun fx_on :: "('t \<Rightarrow> 's) \<Rightarrow> 't \<times> 'a cp_outcome \<Rightarrow> 's \<times> 'a cp_outcome" where
  "fx_on put (t, r) = (put t, r)"

lemma fx_bind_Ok:
  "fx_bind x f = (s, CpOk b) \<longleftrightarrow> (\<exists>s' a. x = (s', CpOk a) \<and> f s' a = (s, CpOk b))"
  by (cases x; cases "snd x") auto

lemma fx_ignore_Ok: "fx_ignore x = (s, CpOk u) \<longleftrightarrow> fst x = s \<and> (\<forall>m. snd x \<noteq> CpPanic m)"
  by (cases x; cases "snd x") auto

lemma fx_on_eq: "fx_on put x = (s, r) \<longleftrightarrow> s = put (fst x) \<and> r = snd x"
  by (cases x) auto

text \<open>A condition that every statement keeps holds at the end, also after an error.\<close>

lemma fx_keeps:
  assumes "Q (fst x)" and "\<And>s a. x = (s, CpOk a) \<Longrightarrow> Q s \<Longrightarrow> Q (fst (f s a))"
  shows "Q (fst (fx_bind x f))"
  using assms by (cases x; cases "snd x") auto

lemma fx_ignore_fst [simp]: "fst (fx_ignore x) = fst x"
  by (cases x; cases "snd x") auto

lemma fx_on_fst [simp]: "fst (fx_on put x) = put (fst x)"
  by (cases x) simp

lemma fx_on_state:
  "fx_bind (fx_on put x) (\<lambda>s _. (s, CpOk ())) = (s', res) \<Longrightarrow> s' = put (fst x)"
  "fx_ignore (fx_on put x) = (s', res') \<Longrightarrow> s' = put (fst x)"
  by (cases x; cases "snd x"; auto)+

section \<open>Identity and availability\<close>

record execution_identity =
  xi_application_id :: string
  xi_environment_id :: "string option"
  xi_workspace_id :: "string option"
  xi_session_id :: "string option"
  xi_trace_id :: string

definition execution_identity_new :: "string \<Rightarrow> string \<Rightarrow> execution_identity cp_outcome" where
  "execution_identity_new application_id trace_id =
     (if trim application_id = [] then CpErr (ExecutionError ''execution requires an application id'')
      else if trim trace_id = [] then CpErr (ExecutionError ''execution requires a trace id'')
      else CpOk \<lparr>xi_application_id = application_id, xi_environment_id = None, xi_workspace_id = None,
                 xi_session_id = None, xi_trace_id = trace_id\<rparr>)"

definition identity_with_environment :: "execution_identity \<Rightarrow> string \<Rightarrow> execution_identity" where
  "identity_with_environment x environment_id = x\<lparr>xi_environment_id := Some environment_id\<rparr>"

definition identity_with_workspace :: "execution_identity \<Rightarrow> string \<Rightarrow> execution_identity" where
  "identity_with_workspace x workspace_id = x\<lparr>xi_workspace_id := Some workspace_id\<rparr>"

definition identity_with_session :: "execution_identity \<Rightarrow> string \<Rightarrow> execution_identity" where
  "identity_with_session x session_id = x\<lparr>xi_session_id := Some session_id\<rparr>"

definition parsed :: "string + 'a \<Rightarrow> 'a option" where
  "parsed r = (case r of Inr a \<Rightarrow> Some a | Inl _ \<Rightarrow> None)"

definition identity_correlation :: "(string \<Rightarrow> uuid option) \<Rightarrow> execution_identity \<Rightarrow> correlation" where
  "identity_correlation parse x =
     \<lparr>co_trace_id = xi_trace_id x,
      co_session_id = Option.bind (xi_session_id x) (\<lambda>s. parsed (agent_session_id_from_str parse s)),
      co_application_id = parsed (application_id_from_str parse (xi_application_id x)),
      co_environment_id = Option.bind (xi_environment_id x) (\<lambda>s. parsed (environment_id_from_str parse s))\<rparr>"

datatype runtime_availability = RtAvailable string | RtUnavailable string

definition is_available :: "runtime_availability \<Rightarrow> bool" where
  "is_available a = (case a of RtAvailable _ \<Rightarrow> True | RtUnavailable _ \<Rightarrow> False)"

definition require_available :: "runtime_availability \<Rightarrow> string cp_outcome" where
  "require_available a =
     (case a of RtAvailable version \<Rightarrow> CpOk version | RtUnavailable reason \<Rightarrow> CpErr (UnavailableError reason))"

section \<open>Limits\<close>

record effective_limits =
  el_cpu_millicpus :: u32
  el_memory_mb :: u32
  el_timeout_secs :: u64
  el_readonly_root :: bool
  el_network :: string
  el_drop_capabilities :: "string list"
  el_max_processes :: u32
  el_port_exposed :: bool

text \<open>\<open>format!("{:?}", network).to_lowercase()\<close>.\<close>

fun network_label :: "network_mode \<Rightarrow> string" where
  "network_label NetDisabled = ''disabled''"
| "network_label NetIsolated = ''isolated''"
| "network_label NetBridged = ''bridged''"

definition effective_of_limits :: "sandbox_limits \<Rightarrow> effective_limits" where
  "effective_of_limits l =
     \<lparr>el_cpu_millicpus = sl_cpu_millicpus l, el_memory_mb = sl_memory_mb l, el_timeout_secs = sl_timeout_secs l,
      el_readonly_root = sl_readonly_root l, el_network = network_label (sl_network l),
      el_drop_capabilities = sl_drop_capabilities l, el_max_processes = sl_max_processes l,
      el_port_exposed = allows_port_exposure l\<rparr>"

definition limits_from_config :: "runtime_config \<Rightarrow> effective_limits" where
  "limits_from_config cfg = effective_of_limits (cfg_limits cfg)"

definition limits_summary :: "effective_limits \<Rightarrow> string" where
  "limits_summary l =
     ''cpu='' @ show_u32 (el_cpu_millicpus l) @ ''m memory='' @ show_u32 (el_memory_mb l) @ ''MiB timeout='' @
     show_u64 (el_timeout_secs l) @ ''s readonly_root='' @ show_bool (el_readonly_root l) @ '' network='' @
     el_network l @ '' pids='' @ show_u32 (el_max_processes l) @ '' exposed='' @ show_bool (el_port_exposed l)"

definition enforce_limits_before_schedule :: "runtime_config \<Rightarrow> unit cp_outcome" where
  "enforce_limits_before_schedule cfg =
     cp_bind (cp_of_core (limits_validate (cfg_limits cfg))) (\<lambda>_.
       if cfg_port cfg = 0 then CpErr (ExecutionError ''execution requires a container port in 1..=65535'')
       else CpOk ())"

definition verify_production_artifact :: "runtime_config \<Rightarrow> string cp_outcome" where
  "verify_production_artifact cfg =
     (case cfg_profile cfg of
        ProfileProduction \<Rightarrow>
          (case cfg_oci_image cfg of
             Some reference \<Rightarrow> CpOk reference
           | None \<Rightarrow> CpErr (ExecutionError ''production execution requires an OCI image reference''))
      | ProfileDevelopment \<Rightarrow>
          CpErr (ExecutionError ''development process must never be promoted as a production image''))"

definition prospective_phase :: "health_status \<Rightarrow> resource_phase" where
  "prospective_phase h =
     (case h of HealthHealthy \<Rightarrow> Ready | HealthStarting \<Rightarrow> Provisioning | HealthUnhealthy _ \<Rightarrow> Degraded | HealthUnknown _ \<Rightarrow> Degraded)"

section \<open>Argument checks\<close>

definition shell_metacharacter :: "char \<Rightarrow> bool" where
  "shell_metacharacter c \<longleftrightarrow>
     c \<in> {CHR '';'', CHR ''|'', CHR ''&'', CHR ''$'', CHR 0x60, CHR 0x22, CHR 0x27}"

definition ascii_alphanumeric :: "char \<Rightarrow> bool" where
  "ascii_alphanumeric c \<longleftrightarrow>
     (let n = of_char c :: nat in 48 \<le> n \<and> n \<le> 57 \<or> 65 \<le> n \<and> n \<le> 90 \<or> 97 \<le> n \<and> n \<le> 122)"

definition path_arg :: "string \<Rightarrow> string cp_outcome" where
  "path_arg path =
     (if trim path = [] then CpErr (ExecutionError ''execution requires a non-empty path'') else CpOk path)"

definition validate_tag :: "string \<Rightarrow> unit cp_outcome" where
  "validate_tag tag =
     (if trim tag = [] then CpErr (ExecutionError ''container image tag must not be empty'')
      else if list_ex (\<lambda>c. is_whitespace c \<or> shell_metacharacter c) tag
      then CpErr (ExecutionError (''container image tag is not a plain reference: '' @ tag))
      else CpOk ())"

definition validate_container_name :: "string \<Rightarrow> unit cp_outcome" where
  "validate_container_name name =
     (if trim name = [] then CpErr (ExecutionError ''container name must not be empty'')
      else if \<not> (case name of first # _ \<Rightarrow> ascii_alphanumeric first | [] \<Rightarrow> False)
      then CpErr (ExecutionError (''container name must start with an alphanumeric: '' @ name))
      else if \<not> list_all (\<lambda>c. ascii_alphanumeric c \<or> c \<in> {CHR ''_'', CHR ''.'', CHR ''-''}) name
      then CpErr (ExecutionError (''container name contains an unsupported character: '' @ name))
      else CpOk ())"

definition validate_container_id :: "string \<Rightarrow> unit cp_outcome" where
  "validate_container_id i =
     (if trim i = [] then CpErr (ExecutionError ''container id must not be empty'')
      else if \<not> list_all (\<lambda>c. ascii_alphanumeric c \<or> c \<in> {CHR ''_'', CHR ''.'', CHR ''-'', CHR '':''}) i
      then CpErr (ExecutionError ''container id contains an unsupported character'')
      else CpOk ())"

section \<open>Docker arguments\<close>

definition docker_build_args :: "string \<Rightarrow> string \<Rightarrow> string \<Rightarrow> string list cp_outcome" where
  "docker_build_args dockerfile ctx tag =
     cp_bind (validate_tag tag) (\<lambda>_.
     cp_bind (path_arg dockerfile) (\<lambda>f.
     cp_bind (path_arg ctx) (\<lambda>c.
       CpOk [''build'', ''-f'', f, ''-t'', tag, c])))"

definition round_half_even :: "nat \<Rightarrow> nat \<Rightarrow> nat" where
  "round_half_even a b =
     (let q = a div b; r = a mod b in if 2 * r < b \<or> 2 * r = b \<and> even q then q else Suc q)"

text \<open>The least scaling that brings the quotient of \<open>n\<close> by 1000 to 53 bits.\<close>

definition f64_scale :: "nat \<Rightarrow> nat" where
  "f64_scale n = (case find (\<lambda>k. 2 ^ 52 * 1000 \<le> n * 2 ^ k) [0..<63] of Some k \<Rightarrow> k | None \<Rightarrow> 0)"

text \<open>\<open>(f64::from(n) / 1000.0).max(0.01)\<close> in hundredths, as \<open>{:.2}\<close> prints it.\<close>

definition cpu_hundredths :: "u32 \<Rightarrow> nat" where
  "cpu_hundredths w =
     (let n = unat w; k = f64_scale n in
      if n < 10 then 1 else round_half_even (round_half_even (n * 2 ^ k) 1000 * 100) (2 ^ k))"

definition show_hundredths :: "nat \<Rightarrow> string" where
  "show_hundredths h = show_nat (h div 100) @ ''.'' @ [digit_char (h mod 100 div 10), digit_char (h mod 10)]"

definition cap_drop_args :: "string list \<Rightarrow> string list" where
  "cap_drop_args caps = concat (map (\<lambda>c. if trim c = [] then [] else [''--cap-drop'', trim c]) caps)"

definition network_args :: "runtime_config \<Rightarrow> string list" where
  "network_args cfg =
     (case sl_network (cfg_limits cfg) of
        NetDisabled \<Rightarrow> [''--network'', ''none'']
      | _ \<Rightarrow> [''--network'', ''bridge'', ''-p'', ''127.0.0.1::'' @ show_u16 (cfg_port cfg)])"

definition docker_run_args :: "runtime_config \<Rightarrow> string \<Rightarrow> string \<Rightarrow> string list cp_outcome" where
  "docker_run_args cfg container_name img =
     cp_bind (enforce_limits_before_schedule cfg) (\<lambda>_.
     cp_bind (validate_container_name container_name) (\<lambda>_.
     cp_bind (validate_tag img) (\<lambda>_.
       (let l = cfg_limits cfg in
        CpOk ([''run'', ''-d'', ''--name'', container_name,
               ''--cpus'', show_hundredths (cpu_hundredths (sl_cpu_millicpus l)),
               ''--memory'', show_u32 (sl_memory_mb l) @ ''m'',
               ''--pids-limit'', show_u32 (sl_max_processes l)] @
              (if sl_readonly_root l then [''--read-only''] else []) @
              cap_drop_args (sl_drop_capabilities l) @ network_args cfg @ [img])))))"

record running_container =
  rc_id :: string
  rc_name :: string
  rc_host_port :: "u16 option"

definition running_container_new :: "string \<Rightarrow> string \<Rightarrow> running_container cp_outcome" where
  "running_container_new i name =
     (if trim i = [] then CpErr (ExecutionError ''running container requires a container id'')
      else CpOk \<lparr>rc_id = i, rc_name = name, rc_host_port = None\<rparr>)"

section \<open>The executor trait\<close>

record 'w container_executor =
  ce_check_available :: "'w \<Rightarrow> 'w \<times> runtime_availability"
  ce_build :: "'w \<Rightarrow> string \<Rightarrow> string \<Rightarrow> string \<Rightarrow> sandbox_limits \<Rightarrow> execution_identity \<Rightarrow> 'w \<times> build_result"
  ce_run :: "'w \<Rightarrow> runtime_config \<Rightarrow> string \<Rightarrow> string \<Rightarrow> execution_identity \<Rightarrow> 'w \<times> running_container cp_outcome"
  ce_stop :: "'w \<Rightarrow> string \<Rightarrow> 'w \<times> unit cp_outcome"
  ce_remove :: "'w \<Rightarrow> string \<Rightarrow> 'w \<times> unit cp_outcome"
  ce_logs :: "'w \<Rightarrow> string \<Rightarrow> nat \<Rightarrow> 'w \<times> string cp_outcome"
  ce_health :: "'w \<Rightarrow> runtime_config \<Rightarrow> string \<Rightarrow> u16 \<Rightarrow> 'w \<times> health_status"

definition ce_cleanup :: "'w container_executor \<Rightarrow> 'w \<Rightarrow> string \<Rightarrow> 'w \<times> unit cp_outcome" where
  "ce_cleanup E w i =
     (case ce_stop E w i of
        (w', CpPanic m) \<Rightarrow> (w', CpPanic m)
      | (w', _) \<Rightarrow> ce_remove E w' i)"

section \<open>The health probe\<close>

datatype process_result = SpawnFailed string | WaitFailed string | TimedOut | Exited bool string string

datatype probe_result = NoConnection | WriteFailed | LineTimeout | StatusLine string

record 'w docker_host =
  dh_run :: "'w \<Rightarrow> string \<Rightarrow> string list \<Rightarrow> u64 \<Rightarrow> 'w \<times> process_result"
  dh_request :: "'w \<Rightarrow> string \<Rightarrow> u16 \<Rightarrow> string \<Rightarrow> 'w \<times> probe_result"

definition parse_u16 :: "string \<Rightarrow> u16 option" where
  "parse_u16 s =
     (case s of [] \<Rightarrow> None
      | c # cs \<Rightarrow> map_option of_nat (bounded 65535 (parse_digits (if c = CHR ''+'' then cs else s))))"

definition crlf :: string where
  "crlf = [CHR 0x0D, CHR 0x0A]"

definition health_request :: "string \<Rightarrow> string \<Rightarrow> string" where
  "health_request host path =
     ''GET '' @ path @ '' HTTP/1.0'' @ crlf @ ''Host: '' @ host @ crlf @ ''Connection: close'' @ crlf @ crlf"

definition status_of_line :: "string \<Rightarrow> u16 option" where
  "status_of_line line =
     (case split_whitespace line of _ # code # _ \<Rightarrow> parse_u16 code | _ \<Rightarrow> None)"

definition http_status_via :: "probe_result \<Rightarrow> u16 option" where
  "http_status_via r = (case r of StatusLine line \<Rightarrow> status_of_line line | _ \<Rightarrow> None)"

definition probe_path :: "runtime_config \<Rightarrow> string" where
  "probe_path cfg = (case cfg_healthcheck_path cfg of Some p \<Rightarrow> p | None \<Rightarrow> ''/'')"

definition probe_health :: "'w docker_host \<Rightarrow> 'w \<Rightarrow> runtime_config \<Rightarrow> string \<Rightarrow> u16 \<Rightarrow> 'w \<times> health_status" where
  "probe_health D w cfg host port =
     (if port = 0 then (w, HealthUnknown ''health probe requires a port in 1..=65535'')
      else if \<not> allows_port_exposure (cfg_limits cfg)
      then (w, HealthUnknown ''health probe blocked: sandbox network is disabled'')
      else
        (let path = probe_path cfg; (w', r) = dh_request D w host port (health_request host path) in
         (w', case http_status_via r of
                Some status \<Rightarrow> evaluate_health cfg (Some status) (Some path)
              | None \<Rightarrow> evaluate_health cfg None None)))"

section \<open>The Docker executor\<close>

definition run_docker ::
  "'w docker_host \<Rightarrow> string \<Rightarrow> 'w \<Rightarrow> string list \<Rightarrow> u64 \<Rightarrow> 'w \<times> (bool \<times> string \<times> string) cp_outcome" where
  "run_docker D bin w args timeout =
     (case dh_run D w bin args timeout of
        (w', SpawnFailed e) \<Rightarrow> (w', CpErr (IoError e))
      | (w', WaitFailed e) \<Rightarrow> (w', CpErr (IoError e))
      | (w', TimedOut) \<Rightarrow>
          (w', CpErr (ExecutionError (''docker '' @ (case args of a # _ \<Rightarrow> a | [] \<Rightarrow> ''<unknown>'') @
             '' cancelled after '' @ show_u64 timeout @ ''s timeout'')))
      | (w', Exited success out err) \<Rightarrow> (w', CpOk (success, out, err)))"

definition inspect_host_port :: "'w docker_host \<Rightarrow> string \<Rightarrow> 'w \<Rightarrow> string \<Rightarrow> 'w \<times> u16 option" where
  "inspect_host_port D bin w i =
     (case run_docker D bin w [''port'', i] 15 of
        (w', CpOk (True, out, _)) \<Rightarrow> (w', parse_u16 (trim (last (split_at_char (CHR '':'') out))))
      | (w', _) \<Rightarrow> (w', None))"

definition docker_check_available ::
  "'w docker_host \<Rightarrow> string \<Rightarrow> string list \<Rightarrow> 'w \<Rightarrow> 'w \<times> runtime_availability" where
  "docker_check_available D bin secrets w =
     (case dh_run D w bin [''--version''] 10 of
        (w', Exited True out _) \<Rightarrow>
          (w', RtAvailable (if trim out = [] then ''docker (version unknown)'' else trim out))
      | (w', Exited False _ err) \<Rightarrow>
          (w', RtUnavailable (''docker --version exited unsuccessfully: '' @ redact err secrets))
      | (w', SpawnFailed e) \<Rightarrow> (w', RtUnavailable (''docker binary could not be executed: '' @ e))
      | (w', WaitFailed e) \<Rightarrow> (w', RtUnavailable (''docker binary could not be executed: '' @ e))
      | (w', TimedOut) \<Rightarrow> (w', RtUnavailable ''docker --version timed out after 10s''))"

definition docker_build ::
  "'w docker_host \<Rightarrow> string \<Rightarrow> string list \<Rightarrow> 'w \<Rightarrow> string \<Rightarrow> string \<Rightarrow> string \<Rightarrow> sandbox_limits \<Rightarrow>
   execution_identity \<Rightarrow> 'w \<times> build_result" where
  "docker_build D bin secrets w dockerfile ctx tag limits identity =
     (case cp_bind (cp_of_core (limits_validate limits)) (\<lambda>_. docker_build_args dockerfile ctx tag) of
        CpErr (CoreErrorOf e) \<Rightarrow> (w, build_failed (''refused unschedulable build: '' @ core_error_display e))
      | CpErr e \<Rightarrow> (w, build_failed (''refused unschedulable build: '' @ control_plane_error_display e))
      | CpPanic m \<Rightarrow> (w, build_failed m)
      | CpOk args \<Rightarrow>
          (case run_docker D bin w args (max (sl_timeout_secs limits) 1) of
             (w', CpOk (True, _, _)) \<Rightarrow>
               (w', build_succeeded (''build '' @ tag @ '' finished for application '' @ xi_application_id identity @
                      '' (trace '' @ xi_trace_id identity @ '')''))
           | (w', CpOk (False, _, err)) \<Rightarrow>
               (w', (build_failed (''build '' @ tag @ '' failed for application '' @ xi_application_id identity @ '': '' @
                       redact err secrets))
                    \<lparr>br_limit_enforced := Some (limits_summary (effective_of_limits limits)),
                     br_recovery := Some ''inspect the build log, fix the Dockerfile, then retry''\<rparr>)
           | (w', CpErr e) \<Rightarrow>
               (w', case e of
                      ExecutionError reason \<Rightarrow>
                        if str_contains reason ''cancelled after''
                        then build_timed_out (sl_timeout_secs limits) (sl_timeout_secs limits + 1)
                        else build_failed (''build could not start: '' @ control_plane_error_display e)
                    | _ \<Rightarrow> build_failed (''build could not start: '' @ control_plane_error_display e))
           | (w', CpPanic m) \<Rightarrow> (w', build_failed m)))"

definition docker_run ::
  "'w docker_host \<Rightarrow> string \<Rightarrow> string list \<Rightarrow> 'w \<Rightarrow> runtime_config \<Rightarrow> string \<Rightarrow> string \<Rightarrow> execution_identity \<Rightarrow>
   'w \<times> running_container cp_outcome" where
  "docker_run D bin secrets w cfg img container_name _ =
     (case docker_run_args cfg container_name img of
        CpErr e \<Rightarrow> (w, CpErr e)
      | CpPanic m \<Rightarrow> (w, CpPanic m)
      | CpOk args \<Rightarrow>
          (case run_docker D bin w args 120 of
             (w', CpErr e) \<Rightarrow> (w', CpErr e)
           | (w', CpPanic m) \<Rightarrow> (w', CpPanic m)
           | (w', CpOk (False, _, err)) \<Rightarrow>
               (w', CpErr (ExecutionError (redact (''docker run failed: '' @ err) secrets)))
           | (w', CpOk (True, out, _)) \<Rightarrow>
               (case running_container_new (trim out) container_name of
                  CpErr e \<Rightarrow> (w', CpErr e)
                | CpPanic m \<Rightarrow> (w', CpPanic m)
                | CpOk c \<Rightarrow>
                    (case inspect_host_port D bin w' (rc_id c) of
                       (w'', p) \<Rightarrow> (w'', CpOk (c\<lparr>rc_host_port := p\<rparr>))))))"

text \<open>\<open>stop\<close> and \<open>remove\<close> differ in the command and the word of the error only.\<close>

definition docker_teardown ::
  "'w docker_host \<Rightarrow> string \<Rightarrow> string list \<Rightarrow> string list \<Rightarrow> string \<Rightarrow> 'w \<Rightarrow> string \<Rightarrow> 'w \<times> unit cp_outcome" where
  "docker_teardown D bin secrets command word w i =
     (case validate_container_id i of
        CpErr e \<Rightarrow> (w, CpErr e)
      | CpPanic m \<Rightarrow> (w, CpPanic m)
      | CpOk _ \<Rightarrow>
          (case run_docker D bin w (command @ [i]) 60 of
             (w', CpErr e) \<Rightarrow> (w', CpErr e)
           | (w', CpPanic m) \<Rightarrow> (w', CpPanic m)
           | (w', CpOk (success, _, err)) \<Rightarrow>
               (w', if success \<or> str_contains err ''No such container'' then CpOk ()
                    else CpErr (ExecutionError (redact (''docker '' @ word @ '' failed: '' @ err) secrets)))))"

definition docker_logs ::
  "'w docker_host \<Rightarrow> string \<Rightarrow> string list \<Rightarrow> 'w \<Rightarrow> string \<Rightarrow> nat \<Rightarrow> 'w \<times> string cp_outcome" where
  "docker_logs D bin secrets w i tail =
     (case validate_container_id i of
        CpErr e \<Rightarrow> (w, CpErr e)
      | CpPanic m \<Rightarrow> (w, CpPanic m)
      | CpOk _ \<Rightarrow>
          (case run_docker D bin w [''logs'', ''--tail'', show_nat (max tail 1), i] 30 of
             (w', CpErr e) \<Rightarrow> (w', CpErr e)
           | (w', CpPanic m) \<Rightarrow> (w', CpPanic m)
           | (w', CpOk (success, out, err)) \<Rightarrow>
               (w', if success then CpOk (redact (out @ err) secrets)
                    else CpErr (ExecutionError (redact (''docker logs failed: '' @ err) secrets)))))"

definition docker_executor :: "'w docker_host \<Rightarrow> string \<Rightarrow> string list \<Rightarrow> 'w container_executor" where
  "docker_executor D bin secrets =
     \<lparr>ce_check_available = docker_check_available D bin secrets, ce_build = docker_build D bin secrets,
      ce_run = docker_run D bin secrets, ce_stop = docker_teardown D bin secrets [''stop''] ''stop'',
      ce_remove = docker_teardown D bin secrets [''rm'', ''-f''] ''rm'', ce_logs = docker_logs D bin secrets,
      ce_health = probe_health D\<rparr>"

section \<open>The unavailable executor\<close>

definition unavailable_build :: "string \<Rightarrow> sandbox_limits \<Rightarrow> build_result" where
  "unavailable_build reason limits =
     (build_failed (''build blocked: runtime unavailable ('' @ reason @ '')''))
       \<lparr>br_limit_enforced := Some (''timeout_secs='' @ show_u64 (sl_timeout_secs limits)),
        br_recovery := Some ''provision a container runtime, then retry; no image was produced''\<rparr>"

definition unavailable_executor :: "string \<Rightarrow> 'w container_executor" where
  "unavailable_executor reason =
     \<lparr>ce_check_available = \<lambda>w. (w, RtUnavailable reason),
      ce_build = \<lambda>w _ _ _ limits _. (w, unavailable_build reason limits),
      ce_run = \<lambda>w _ _ _ _. (w, CpErr (UnavailableError reason)),
      ce_stop = \<lambda>w _. (w, CpErr (UnavailableError reason)),
      ce_remove = \<lambda>w _. (w, CpErr (UnavailableError reason)),
      ce_logs = \<lambda>w _ _. (w, CpErr (UnavailableError reason)),
      ce_health = \<lambda>w _ _ _. (w, HealthUnknown (''health blocked: runtime unavailable ('' @ reason @ '')''))\<rparr>"

definition missing_docker :: "'w container_executor" where
  "missing_docker = unavailable_executor ''docker runtime is not available in this environment''"

section \<open>The command line read back\<close>

text \<open>How \<open>docker run [OPTIONS] IMAGE\<close> reads its arguments, for the options used here: a flag stands alone, every other
  option takes the next argument, the first argument that is no option is the image and the rest its command.\<close>

record run_options =
  rn_detached :: bool
  rn_read_only :: bool
  rn_values :: "(string \<times> string) list"

definition valued_options :: "string list" where
  "valued_options = [''--name'', ''--cpus'', ''--memory'', ''--pids-limit'', ''--cap-drop'', ''--network'', ''-p'']"

fun read_run :: "run_options \<Rightarrow> string list \<Rightarrow> (run_options \<times> string \<times> string list) option" where
  "read_run r [] = None"
| "read_run r [a] =
     (if starts_with a ''-'' then None else Some (r, a, []))"
| "read_run r (a # v # args) =
     (if a = ''-d'' then read_run (r\<lparr>rn_detached := True\<rparr>) (v # args)
      else if a = ''--read-only'' then read_run (r\<lparr>rn_read_only := True\<rparr>) (v # args)
      else if a \<in> set valued_options then read_run (r\<lparr>rn_values := rn_values r @ [(a, v)]\<rparr>) args
      else if starts_with a ''-'' then None
      else Some (r, a, v # args))"

definition no_options :: run_options where
  "no_options = \<lparr>rn_detached = False, rn_read_only = False, rn_values = []\<rparr>"




lemma starts_with_dash: "starts_with a ''-'' \<longleftrightarrow> (\<exists>cs. a = CHR ''-'' # cs)"
  by (cases a) (auto simp: starts_with_def)



lemma read_run_image: "\<not> starts_with img ''-'' \<Longrightarrow> read_run r [img] = Some (r, img, [])"
  by simp




definition run_sample :: runtime_config where
  "run_sample =
     \<lparr>cfg_kind = RkNode, cfg_tier = Tier1, cfg_profile = ProfileProduction, cfg_port = 3000,
      cfg_healthcheck_path = Some ''/health'', cfg_dockerfile = None, cfg_run_command = [],
      cfg_oci_image = Some ''registry/shop:1'', cfg_limits = docker_default\<rparr>"

lemma one_cpu: "show_hundredths (cpu_hundredths 1000) = ''1.00''"
proof -
  have "f64_scale 1000 = 52" by (simp add: f64_scale_def upt_rec)
  then have "cpu_hundredths 1000 = 100" by (simp add: cpu_hundredths_def round_half_even_def)
  moreover have "show_hundredths 100 = ''1.00''" by code_simp
  ultimately show ?thesis by simp
qed

definition sample_run_args :: "string \<Rightarrow> string list" where
  "sample_run_args img =
     [''run'', ''-d'', ''--name'', ''labrys-1'', ''--cpus'', ''1.00'', ''--memory'', ''512m'', ''--pids-limit'', ''128'',
      ''--read-only'', ''--cap-drop'', ''ALL'', ''--network'', ''bridge'', ''-p'', ''127.0.0.1::3000'', img]"

lemma sample_args:
  assumes "validate_tag img = CpOk ()"
  shows "docker_run_args run_sample ''labrys-1'' img = CpOk (sample_run_args img)"
proof -
  have "enforce_limits_before_schedule run_sample = CpOk ()" "validate_container_name ''labrys-1'' = CpOk ()"
    "show_u32 512 @ ''m'' = ''512m''" "show_u32 128 = ''128''" "cap_drop_args [''ALL''] = [''--cap-drop'', ''ALL'']"
    "network_args run_sample = [''--network'', ''bridge'', ''-p'', ''127.0.0.1::3000'']"
    by code_simp+
  then show ?thesis using assms
    by (simp add: docker_run_args_def one_cpu sample_run_args_def) (simp add: run_sample_def docker_default_def one_cpu)
qed


text \<open>
  A reference that starts with a dash passes the tag check, and Docker reads it as an option: the arguments then name no
  image at all.
\<close>

theorem dash_image_read_as_option:
  "docker_run_args run_sample ''labrys-1'' ''--privileged'' = CpOk (sample_run_args ''--privileged'') \<and>
   read_run no_options (tl (sample_run_args ''--privileged'')) = None"
proof -
  have "validate_tag ''--privileged'' = CpOk ()" by code_simp
  then show ?thesis
    by (simp add: sample_args) (simp add: sample_run_args_def no_options_def valued_options_def starts_with_def)
qed

section \<open>CPU limit\<close>

lemma round_half_even_bounds:
  assumes "0 < b"
  shows "2 * a \<le> (2 * round_half_even a b + 1) * b \<and> 2 * round_half_even a b * b \<le> 2 * a + b"
proof -
  define q r where "q = a div b" and "r = a mod b"
  have "a = q * b + r" by (simp add: q_def r_def)
  then have a: "2 * a = 2 * (q * b) + 2 * r" by simp
  have r: "r < b" using assms by (simp add: r_def)
  show ?thesis
  proof (cases "2 * r < b \<or> 2 * r = b \<and> even q")
    case True
    then have "round_half_even a b = q" by (simp add: round_half_even_def Let_def q_def r_def)
    moreover have "2 * r \<le> b" using True by auto
    ultimately show ?thesis using a by (simp add: algebra_simps)
  next
    case False
    then have "round_half_even a b = Suc q" by (auto simp: round_half_even_def Let_def q_def r_def)
    moreover have "b \<le> 2 * r" using False by auto
    ultimately show ?thesis using a r by (simp add: algebra_simps)
  qed
qed

lemma f64_scale_large:
  assumes "10 \<le> n" and "n < 2 ^ 32"
  shows "500 < (2::nat) ^ f64_scale n"
proof -
  let ?P = "\<lambda>k. 2 ^ 52 * 1000 \<le> n * 2 ^ k"
  have "(2::nat) ^ 52 * 1000 \<le> 10 * 2 ^ 62" by simp
  also have "\<dots> \<le> n * 2 ^ 62" using assms(1) by simp
  finally have "?P 62" .
  moreover have "62 \<in> set [0..<63::nat]" by simp
  ultimately have "find ?P [0..<63] \<noteq> None" unfolding find_None_iff by blast
  then obtain k where k: "find ?P [0..<63] = Some k" by auto
  then have "?P k" by (auto simp: find_Some_iff)
  have "30 \<le> k"
  proof (rule ccontr)
    assume "\<not> 30 \<le> k"
    then have "(2::nat) ^ k \<le> 2 ^ 29" by (intro power_increasing) simp_all
    then have "n * 2 ^ k \<le> 2 ^ 32 * 2 ^ 29" using assms(2) by (intro mult_le_mono) simp_all
    then show False using \<open>?P k\<close> by simp
  qed
  then have "(2::nat) ^ 30 \<le> 2 ^ k" by (intro power_increasing) simp_all
  then show ?thesis using k by (simp add: f64_scale_def)
qed

text \<open>
  The CPU limit given to Docker. It is never printed as zero, which Docker reads as no limit; from ten millicpus on it is
  within five millicpus of the configured one; below that it is raised to ten.
\<close>

theorem cpu_limit_faithful:
  "1 \<le> cpu_hundredths w \<and>
   (if unat w < 10 then cpu_hundredths w = 1
    else 10 * cpu_hundredths w \<le> unat w + 5 \<and> unat w \<le> 10 * cpu_hundredths w + 5)"
proof (cases "unat w < 10")
  case False
  define n k where "n = unat w" and "k = f64_scale n"
  define m where "m = round_half_even (n * 2 ^ k) 1000"
  define h where "h = round_half_even (m * 100) (2 ^ k)"
  define s where "s = (2::nat) ^ k"
  have n: "10 \<le> n" "n < 2 ^ 32" using False unsigned_less [of w] by (simp_all add: n_def)
  have s: "500 < s" using f64_scale_large [OF n] by (simp add: s_def k_def)
  have m: "2 * (n * s) \<le> (2 * m + 1) * 1000" "2 * m * 1000 \<le> 2 * (n * s) + 1000"
    using round_half_even_bounds [of 1000 "n * 2 ^ k"] by (simp_all add: m_def s_def)
  have h: "2 * (m * 100) \<le> (2 * h + 1) * s" "2 * h * s \<le> 2 * (m * 100) + s"
    using round_half_even_bounds [of "2 ^ k" "m * 100"] by (simp_all add: h_def s_def)
  have "(10 * h) * s < (n + 6) * s" using h(2) m(2) s by (simp add: algebra_simps)
  then have up: "10 * h < n + 6" by simp
  have "n * s < (10 * h + 6) * s" using h(1) m(1) s by (simp add: algebra_simps)
  then have low: "n < 10 * h + 6" by simp
  have "cpu_hundredths w = h" using False by (simp add: cpu_hundredths_def Let_def h_def m_def k_def n_def)
  then show ?thesis using False up low n by (simp add: n_def)
qed (simp add: cpu_hundredths_def Let_def)

section \<open>Health\<close>

text \<open>
  A probe reports healthy exactly when the sandbox exposes a port and the workload answered the request
  for the health path with a status line whose code is a success of the profile; no other outcome of the
  connection does.
\<close>

theorem probe_healthy_exact:
  "snd (probe_health D w cfg host port) = HealthHealthy \<longleftrightarrow>
   port \<noteq> 0 \<and> allows_port_exposure (cfg_limits cfg) \<and>
   (\<exists>line status. snd (dh_request D w host port (health_request host (probe_path cfg))) = StatusLine line \<and>
      status_of_line line = Some status \<and> 200 \<le> status \<and>
      (case cfg_profile cfg of ProfileDevelopment \<Rightarrow> status < 400 | ProfileProduction \<Rightarrow> status < 300))"
proof -
  have none: "evaluate_health cfg None None \<noteq> HealthHealthy" by (simp add: evaluate_health_def)
  have some: "evaluate_health cfg (Some status) (Some (probe_path cfg)) = HealthHealthy \<longleftrightarrow>
      200 \<le> status \<and> (case cfg_profile cfg of ProfileDevelopment \<Rightarrow> status < 400 | ProfileProduction \<Rightarrow> status < 300)"
    for status
    by (auto simp: evaluate_health_def probe_path_def Let_def split: runtime_profile.splits option.splits)
  show ?thesis
    by (cases "dh_request D w host port (health_request host (probe_path cfg))"; cases "snd (dh_request D w host port (health_request host (probe_path cfg)))")
      (auto simp: probe_health_def Let_def http_status_via_def none some split: option.splits)
qed

section \<open>The contract of the trait\<close>

text \<open>What the callers of an executor rely on: a container that was started carries the name that was asked for and an id,
  and no operation panics.\<close>

locale executor_contract =
  fixes E :: "'w container_executor"
  assumes run_named: "ce_run E w cfg img name x = (w', CpOk c) \<Longrightarrow> rc_name c = name \<and> trim (rc_id c) \<noteq> []"
    and run_no_panic: "snd (ce_run E w cfg img name x) \<noteq> CpPanic m"
    and stop_no_panic: "snd (ce_stop E w i) \<noteq> CpPanic m"
    and remove_no_panic: "snd (ce_remove E w i) \<noteq> CpPanic m"
begin

lemma cleanup_removes: "ce_cleanup E w i = ce_remove E (fst (ce_stop E w i)) i"
proof (cases "ce_stop E w i")
  case (Pair w' r)
  then show ?thesis using stop_no_panic [of w i] by (cases r) (auto simp: ce_cleanup_def)
qed

lemma cleanup_no_panic: "snd (ce_cleanup E w i) \<noteq> CpPanic m"
  by (simp add: cleanup_removes remove_no_panic)

end

lemma run_docker_no_panic: "run_docker D bin w args t \<noteq> (w', CpPanic m)"
  by (auto simp: run_docker_def split: prod.splits process_result.splits)

lemma validators_no_panic:
  "validate_container_id i \<noteq> CpPanic m" "validate_container_name i \<noteq> CpPanic m" "validate_tag i \<noteq> CpPanic m"
  "enforce_limits_before_schedule cfg \<noteq> CpPanic m" "running_container_new i name \<noteq> CpPanic m"
  by (auto simp: validate_container_id_def validate_container_name_def validate_tag_def enforce_limits_before_schedule_def
      limits_validate_def cp_of_core_def running_container_new_def)

lemma run_args_no_panic: "docker_run_args cfg name img \<noteq> CpPanic m"
  using validators_no_panic
  by (cases "enforce_limits_before_schedule cfg"; cases "validate_container_name name"; cases "validate_tag img")
    (auto simp: docker_run_args_def Let_def)

lemma teardown_no_panic: "snd (docker_teardown D bin secrets command word w i) \<noteq> CpPanic m"
  using validators_no_panic run_docker_no_panic [of D bin w "command @ [i]" 60]
  by (auto simp: docker_teardown_def split: cp_outcome.splits prod.splits)

interpretation docker: executor_contract "docker_executor D bin secrets" for D :: "'w docker_host" and bin secrets
proof unfold_locales
  show "rc_name c = name \<and> trim (rc_id c) \<noteq> []"
    if "ce_run (docker_executor D bin secrets) w cfg img name x = (w', CpOk c)" for w cfg img name x w' c
    using that
    by (auto simp: docker_executor_def docker_run_def running_container_new_def
        split: cp_outcome.splits prod.splits bool.splits if_splits)
  show "snd (ce_run (docker_executor D bin secrets) w cfg img name x) \<noteq> CpPanic m" for w cfg img name x m
    using run_args_no_panic run_docker_no_panic validators_no_panic(5)
    by (fastforce simp: docker_executor_def docker_run_def split: cp_outcome.splits prod.splits bool.splits)
qed (simp_all add: docker_executor_def teardown_no_panic)

interpretation unavailable: executor_contract "unavailable_executor reason :: 'w container_executor" for reason
  by unfold_locales (simp_all add: unavailable_executor_def)

text \<open>
  Without a runtime nothing is simulated: the host is never touched, no build succeeds, no container runs, no
  probe is healthy and every other operation reports the blocker.
\<close>

theorem unavailable_simulates_nothing:
  "ce_check_available (unavailable_executor reason) w = (w, RtUnavailable reason) \<and>
    (\<exists>b. ce_build (unavailable_executor reason) w f c tag l x = (w, b) \<and> \<not> build_is_success b \<and> br_recovery b \<noteq> None) \<and>
    ce_run (unavailable_executor reason) w cfg img name x = (w, CpErr (UnavailableError reason)) \<and>
    ce_cleanup (unavailable_executor reason) w i = (w, CpErr (UnavailableError reason)) \<and>
    ce_logs (unavailable_executor reason) w i n = (w, CpErr (UnavailableError reason)) \<and>
    (\<exists>h. ce_health (unavailable_executor reason) w cfg host port = (w, h) \<and> prospective_phase h = Degraded)"
  by (simp add: unavailable_executor_def ce_cleanup_def unavailable_build_def build_is_success_def build_failed_def
      prospective_phase_def)

text \<open>
  What the Docker executor reports of a workload's or the daemon's output holds no registered secret.
\<close>

theorem docker_output_redacted:
  assumes "marker_free s" and "s \<in> set secrets" and "validate_container_id i = CpOk ()"
    and "dh_run D w bin [''logs'', ''--tail'', show_nat (max n 1), i] 30 = (w', Exited success out err)"
  shows "case snd (ce_logs (docker_executor D bin secrets) w i n) of
      CpOk text \<Rightarrow> success \<and> text = redact (out @ err) secrets \<and> \<not> str_contains text s
    | CpErr e \<Rightarrow> \<not> success \<and> (\<exists>m. e = ExecutionError m \<and> \<not> str_contains m s)
    | CpPanic m \<Rightarrow> False"
  using assms redact_reason_removes [OF assms(1,2)]
  by (simp add: docker_executor_def docker_logs_def run_docker_def redact_def)

theorem docker_output_redacted_witness:
  "\<not> str_contains (redact ''token=hunter2'' [''hunter2'']) ''hunter2''"
proof -
  define D :: "unit docker_host" where
    "D = \<lparr>dh_run = \<lambda>w _ _ _. (w, Exited True ''token='' ''hunter2''), dh_request = \<lambda>w _ _ _. (w, NoConnection)\<rparr>"
  have m: "marker_free ''hunter2''" by (simp add: marker_free_def sublist_Cons_right)
  have v: "validate_container_id ''c1'' = CpOk ()" by code_simp
  have r: "dh_run D () ''docker'' [''logs'', ''--tail'', show_nat (max 5 1), ''c1''] 30 = ((), Exited True ''token='' ''hunter2'')"
    by (simp add: D_def)
  from docker_output_redacted [OF m _ v r, of "[''hunter2'']"] show ?thesis by (auto split: cp_outcome.splits)
qed

end
