(* ===== verification/Preview_Runtime.thy ===== *)
theory Preview_Runtime
  imports Container_Runtime Workspace_Model
begin

text \<open>
  Health-gated previews over session workspaces: \<open>labrys-control-plane/src/preview.rs\<close>.

  The world of a preview manager is the host, which the injected executor and the file system act on, and the tables
  it writes: events, logs, evidence, previews and executions. The ids a call mints and its clock reading are
  arguments. The limits column holds the limits themselves instead of their JSON, and reading a preview gives the whole
  row where the code projects four of its columns. \<open>start_preview\<close> is written as the stages of its body: the blocked
  path, the build, the run and the probe.
\<close>

section \<open>Worktree directories\<close>

definition pathbuf_join :: "string \<Rightarrow> string \<Rightarrow> string" where
  "pathbuf_join base rel =
     (if starts_with rel ''/'' then rel else if base = [] \<or> ends_with base ''/'' then base @ rel else base @ ''/'' @ rel)"

text \<open>The components of a path, as \<open>Path::starts_with\<close> compares them: empty and inner dot components are skipped.\<close>

definition path_components :: "string \<Rightarrow> string list" where
  "path_components p =
     (case split_at_char (CHR ''/'') p of
        first # rest \<Rightarrow>
          (if first = [] then (if rest = [] then [] else [''/'']) else [first]) @
          filter (\<lambda>c. c \<noteq> [] \<and> c \<noteq> ''.'') rest
      | [] \<Rightarrow> [])"

definition path_starts_with :: "string \<Rightarrow> string \<Rightarrow> bool" where
  "path_starts_with p base = prefix (path_components base) (path_components p)"

definition workspace_root_new :: "string \<Rightarrow> string cp_outcome" where
  "workspace_root_new root =
     (if root = [] then CpErr (ExecutionError ''workspace root must not be empty'') else CpOk root)"

definition worktree_dir :: "string \<Rightarrow> agent_session_id \<Rightarrow> string cp_outcome" where
  "worktree_dir root session_id =
     (let dir = pathbuf_join (pathbuf_join root ''worktrees'') (agent_session_id_display session_id) in
      if \<not> path_starts_with dir root then CpErr (ExecutionError ''workspace path escapes the approved root'')
      else CpOk dir)"

section \<open>Stores\<close>

record execution_row =
  xr_id :: string
  xr_identity :: execution_identity
  xr_kind :: string
  xr_image :: "string option"
  xr_container_id :: "string option"
  xr_container_name :: "string option"
  xr_limits :: effective_limits
  xr_status :: string
  xr_detail :: string
  xr_created_at :: time

record execution_record =
  er_exec_id :: string
  er_exec_kind :: string
  er_exec_status :: string
  er_exec_detail :: string

definition execution_from_row :: "execution_row \<Rightarrow> execution_record" where
  "execution_from_row r =
     \<lparr>er_exec_id = xr_id r, er_exec_kind = xr_kind r, er_exec_status = xr_status r, er_exec_detail = xr_detail r\<rparr>"

definition execution_store_record ::
  "execution_row list \<Rightarrow> string \<Rightarrow> string \<Rightarrow> string \<Rightarrow> string \<Rightarrow> string option \<Rightarrow> string option \<Rightarrow> string option \<Rightarrow>
   effective_limits \<Rightarrow> execution_identity \<Rightarrow> string list \<Rightarrow> time \<Rightarrow> execution_row list \<times> execution_record cp_outcome" where
  "execution_store_record T u kind status detail img container_id container_name limits identity secrets now =
     (if kind \<notin> {''build'', ''run''} then (T, CpErr (ExecutionError (''unknown execution kind '' @ kind)))
      else if status \<notin> {''running'', ''succeeded'', ''failed'', ''cancelled''}
      then (T, CpErr (ExecutionError (''unknown execution status '' @ status)))
      else
        (case redact_guard ''execution.detail'' detail secrets of
           Inl e \<Rightarrow> (T, CpErr e)
         | Inr redacted \<Rightarrow>
             if list_ex (\<lambda>r. xr_id r = u) T
             then (T, CpErr (DatabaseError ''duplicate key value violates unique constraint''))
             else
               (let row = \<lparr>xr_id = u, xr_identity = identity, xr_kind = kind, xr_image = img,
                      xr_container_id = container_id, xr_container_name = container_name, xr_limits = limits,
                      xr_status = status, xr_detail = redacted, xr_created_at = now\<rparr>
                in (T @ [row], CpOk (execution_from_row row)))))"

definition executions_for_trace :: "execution_row list \<Rightarrow> string \<Rightarrow> execution_record list" where
  "executions_for_trace T trace_id =
     map execution_from_row (sort_key xr_created_at (filter (\<lambda>r. xi_trace_id (xr_identity r) = trace_id) T))"

record preview_row =
  pvr_id :: string
  pvr_workspace_id :: string
  pvr_session_id :: string
  pvr_application_id :: string
  pvr_environment_id :: "string option"
  pvr_status :: string
  pvr_url :: "string option"
  pvr_container_id :: "string option"
  pvr_container_name :: "string option"
  pvr_expires_at :: "time option"
  pvr_updated_at :: time

fun preview_status_name :: "preview_status \<Rightarrow> string" where
  "preview_status_name PvPending = ''pending''"
| "preview_status_name PvBuilding = ''building''"
| "preview_status_name PvAvailable = ''available''"
| "preview_status_name (PvUnavailable _) = ''unavailable''"
| "preview_status_name PvExpired = ''expired''"

definition preview_to_row ::
  "web_preview \<Rightarrow> session_workspace \<Rightarrow> execution_identity \<Rightarrow> string option \<Rightarrow> string option \<Rightarrow> time \<Rightarrow> preview_row" where
  "preview_to_row p workspace identity container_id container_name now =
     \<lparr>pvr_id = preview_id_display (wp_id p), pvr_workspace_id = workspace_id_display (sw_id workspace),
      pvr_session_id = agent_session_id_display (sw_session_id workspace),
      pvr_application_id = xi_application_id identity, pvr_environment_id = xi_environment_id identity,
      pvr_status = preview_status_name (wp_status p), pvr_url = temporary_url p,
      pvr_container_id = container_id, pvr_container_name = container_name,
      pvr_expires_at = wp_expires_at p, pvr_updated_at = now\<rparr>"

text \<open>\<open>ON CONFLICT (id) DO UPDATE\<close>: the owner columns of an existing row stay.\<close>

definition preview_store_upsert ::
  "preview_row list \<Rightarrow> web_preview \<Rightarrow> session_workspace \<Rightarrow> execution_identity \<Rightarrow> string option \<Rightarrow> string option \<Rightarrow>
   string list \<Rightarrow> time \<Rightarrow> preview_row list \<times> unit cp_outcome" where
  "preview_store_upsert T p workspace identity container_id container_name secrets now =
     (case (case temporary_url p of None \<Rightarrow> Inr [] | Some url \<Rightarrow> redact_guard ''preview.url'' url secrets) of
        Inl e \<Rightarrow> (T, CpErr e)
      | Inr _ \<Rightarrow>
          (let new = preview_to_row p workspace identity container_id container_name now in
           if list_ex (\<lambda>r. pvr_id r = pvr_id new) T
           then (map (\<lambda>r. if pvr_id r = pvr_id new
                         then r\<lparr>pvr_status := pvr_status new, pvr_url := pvr_url new,
                                pvr_container_id := container_id, pvr_container_name := container_name,
                                pvr_expires_at := pvr_expires_at new, pvr_updated_at := now\<rparr>
                         else r) T, CpOk ())
           else (T @ [new], CpOk ())))"

definition preview_store_get :: "preview_row list \<Rightarrow> preview_id \<Rightarrow> preview_row cp_outcome" where
  "preview_store_get T i =
     (case find (\<lambda>r. pvr_id r = preview_id_display i) T of
        None \<Rightarrow> CpErr (NotFoundError (''preview '' @ preview_id_display i))
      | Some r \<Rightarrow> CpOk r)"

section \<open>The manager\<close>

record 'w file_host =
  fh_exists :: "'w \<Rightarrow> string \<Rightarrow> bool"
  fh_create_dir_all :: "'w \<Rightarrow> string \<Rightarrow> 'w \<times> unit cp_outcome"
  fh_remove_dir_all :: "'w \<Rightarrow> string \<Rightarrow> 'w \<times> unit cp_outcome"

record 'w preview_manager =
  pm_executor :: "'w container_executor"
  pm_files :: "'w file_host"
  pm_ids :: id_codec
  pm_secrets :: "string list"
  pm_workspace_root :: string

record 'w preview_world =
  pw_host :: 'w
  pw_events :: "event_row serial_table"
  pw_logs :: "stored_log_row serial_table"
  pw_evidence :: "evidence_row list"
  pw_previews :: "preview_row list"
  pw_executions :: "execution_row list"

record started_preview =
  sp_preview :: web_preview
  sp_workspace :: session_workspace
  sp_container_id :: "string option"
  sp_container_name :: "string option"
  sp_limits :: effective_limits

text \<open>What one call mints and reads: the preview id, the ids of its two execution rows and the time.\<close>

record preview_input =
  pi_preview :: uuid
  pi_build_row :: string
  pi_run_row :: string
  pi_now :: time

type_synonym ('w, 'a) preview_effect = "'w preview_world \<times> 'a cp_outcome"

definition preview_event ::
  "'w preview_manager \<Rightarrow> 'w preview_world \<Rightarrow> time \<Rightarrow> execution_identity \<Rightarrow> event_action \<Rightarrow> event_result \<Rightarrow> string \<Rightarrow>
   string \<Rightarrow> string \<Rightarrow> ('w, unit) preview_effect" where
  "preview_event M W now identity action result kind i detail =
     fx_bind
       (fx_on (\<lambda>T. W\<lparr>pw_events := T\<rparr>)
         (pg_event_append (pm_ids M) (pw_events W)
           ((event_draft_new now (ActorPlatform ''preview-runtime'')
               (identity_correlation (ic_parse (pm_ids M)) identity) action result)
             \<lparr>dr_resource := Some (event_resource_new kind i), dr_after := Some detail\<rparr>)
           (pm_secrets M)))
       (\<lambda>W _. (W, CpOk ()))"

definition preview_log ::
  "'w preview_manager \<Rightarrow> 'w preview_world \<Rightarrow> time \<Rightarrow> execution_identity \<Rightarrow> log_source \<Rightarrow> log_level \<Rightarrow> string \<Rightarrow>
   ('w, unit) preview_effect" where
  "preview_log M W now identity source level message =
     fx_bind
       (fx_on (\<lambda>T. W\<lparr>pw_logs := T\<rparr>)
         (pg_log_append (pm_ids M) (pw_logs W) source level (identity_correlation (ic_parse (pm_ids M)) identity) message
           (pm_secrets M) now))
       (\<lambda>W _. (W, CpOk ()))"

definition preview_evidence :: "'w preview_manager \<Rightarrow> 'w preview_world \<Rightarrow> verification_evidence \<Rightarrow> ('w, unit) preview_effect" where
  "preview_evidence M W e =
     fx_ignore (fx_on (\<lambda>T. W\<lparr>pw_evidence := T\<rparr>) (pg_evidence_append (pw_evidence W) e (pm_secrets M)))"

definition persist_preview_state ::
  "'w preview_manager \<Rightarrow> 'w preview_world \<Rightarrow> time \<Rightarrow> web_preview \<Rightarrow> session_workspace \<Rightarrow> execution_identity \<Rightarrow>
   string option \<Rightarrow> string option \<Rightarrow> ('w, unit) preview_effect" where
  "persist_preview_state M W now p workspace identity container_id container_name =
     fx_on (\<lambda>T. W\<lparr>pw_previews := T\<rparr>)
       (preview_store_upsert (pw_previews W) p workspace identity container_id container_name (pm_secrets M) now)"

fun build_status_label :: "build_status \<Rightarrow> string" where
  "build_status_label BuildSucceeded = ''succeeded''"
| "build_status_label BuildFailed = ''failed''"
| "build_status_label BuildCancelled = ''cancelled''"

definition record_execution ::
  "'w preview_manager \<Rightarrow> 'w preview_world \<Rightarrow> time \<Rightarrow> string \<Rightarrow> string \<Rightarrow> build_result \<Rightarrow> string option \<Rightarrow> string option \<Rightarrow>
   string option \<Rightarrow> effective_limits \<Rightarrow> execution_identity \<Rightarrow> ('w, unit) preview_effect" where
  "record_execution M W now u kind build img container_id container_name limits identity =
     fx_bind
       (fx_on (\<lambda>T. W\<lparr>pw_executions := T\<rparr>)
         (execution_store_record (pw_executions W) u kind (build_status_label (br_status build)) (br_detail build) img
           container_id container_name limits identity (pm_secrets M) now))
       (\<lambda>W _. (W, CpOk ()))"

definition record_terminal ::
  "'w preview_manager \<Rightarrow> 'w preview_world \<Rightarrow> time \<Rightarrow> web_preview \<Rightarrow> execution_identity \<Rightarrow> string \<Rightarrow> ('w, unit) preview_effect" where
  "record_terminal M W now p identity detail =
     fx_bind (preview_log M W now identity LsRuntime LogError (preview_event_detail p)) (\<lambda>W _.
       preview_evidence M W
         (evidence_new (''preview-'' @ preview_id_display (wp_id p) @ ''-terminal'') VsBuildTest ''preview-terminal'' False
           detail (pm_secrets M) now))"

definition workspace_identity :: "session_workspace \<Rightarrow> execution_identity" where
  "workspace_identity w =
     \<lparr>xi_application_id = application_id_display (sw_application_id w), xi_environment_id = None,
      xi_workspace_id = Some (workspace_id_display (sw_id w)),
      xi_session_id = Some (agent_session_id_display (sw_session_id w)),
      xi_trace_id = ''workspace:'' @ workspace_id_display (sw_id w)\<rparr>"

definition unavailable_build_result :: "runtime_config \<Rightarrow> string \<Rightarrow> build_result" where
  "unavailable_build_result cfg reason =
     (build_failed (''preview blocked: runtime unavailable ('' @ reason @ ''); no image was produced''))
       \<lparr>br_limit_enforced := Some (''timeout_secs='' @ show_u64 (sl_timeout_secs (cfg_limits cfg))),
        br_recovery := Some ''provision a container runtime, then retry; this is an environment blocker''\<rparr>"

definition materialize_workspace ::
  "'w preview_manager \<Rightarrow> 'w preview_world \<Rightarrow> time \<Rightarrow> uuid \<Rightarrow> canonical_repository \<Rightarrow> agent_session_id \<Rightarrow> string \<Rightarrow>
   ('w, session_workspace) preview_effect" where
  "materialize_workspace M W now u repo session_id environment_name =
     fx_bind (W, cp_of_core (workspace_open u repo session_id environment_name)) (\<lambda>W workspace.
     fx_bind (W, worktree_dir (pm_workspace_root M) session_id) (\<lambda>W dir.
       if fh_exists (pm_files M) (pw_host W) dir
       then (W, CpErr (ExecutionError (''session '' @ agent_session_id_display session_id @
              '' already owns a worktree at '' @ dir)))
       else
         fx_bind (fx_on (\<lambda>h. W\<lparr>pw_host := h\<rparr>) (fh_create_dir_all (pm_files M) (pw_host W) dir)) (\<lambda>W _.
         fx_bind (preview_log M W now (workspace_identity workspace) LsRuntime LogInfo
             (''materialized workspace '' @ workspace_id_display (sw_id workspace) @ '' at '' @ dir)) (\<lambda>W _.
           (W, CpOk workspace)))))"

definition cleanup_workspace ::
  "'w preview_manager \<Rightarrow> 'w preview_world \<Rightarrow> session_workspace \<Rightarrow> ('w, unit) preview_effect" where
  "cleanup_workspace M W workspace =
     fx_bind (W, worktree_dir (pm_workspace_root M) (sw_session_id workspace)) (\<lambda>W dir.
       if \<not> path_starts_with dir (pm_workspace_root M)
       then (W, CpErr (ExecutionError ''workspace cleanup escapes the approved root''))
       else if fh_exists (pm_files M) (pw_host W) dir
       then fx_on (\<lambda>h. W\<lparr>pw_host := h\<rparr>) (fh_remove_dir_all (pm_files M) (pw_host W) dir)
       else (W, CpOk ()))"

section \<open>Starting a preview\<close>

definition started ::
  "web_preview \<Rightarrow> session_workspace \<Rightarrow> string option \<Rightarrow> string option \<Rightarrow> effective_limits \<Rightarrow> started_preview" where
  "started p workspace container_id container_name limits =
     \<lparr>sp_preview = p, sp_workspace = workspace, sp_container_id = container_id, sp_container_name = container_name,
      sp_limits = limits\<rparr>"

text \<open>The paths that end without a container: persist, record the terminal evidence, return.\<close>

definition end_without_container ::
  "'w preview_manager \<Rightarrow> 'w preview_world \<Rightarrow> preview_input \<Rightarrow> web_preview \<Rightarrow> session_workspace \<Rightarrow> execution_identity \<Rightarrow>
   effective_limits \<Rightarrow> string option \<Rightarrow> string \<Rightarrow> ('w, started_preview) preview_effect" where
  "end_without_container M W x p workspace identity limits container_name detail =
     fx_bind (persist_preview_state M W (pi_now x) p workspace identity None container_name) (\<lambda>W _.
     fx_bind (record_terminal M W (pi_now x) p identity detail) (\<lambda>W _.
       (W, CpOk (started p workspace None container_name limits))))"

definition health_event_result :: "health_status \<Rightarrow> string list \<Rightarrow> event_result" where
  "health_event_result h secrets =
     (case h of
        HealthHealthy \<Rightarrow> EvSucceeded
      | HealthStarting \<Rightarrow> EvAccepted
      | HealthUnhealthy reason \<Rightarrow> EvFailed (redact reason secrets)
      | HealthUnknown reason \<Rightarrow> EvFailed (redact reason secrets))"

definition preview_container_name :: "session_workspace \<Rightarrow> web_preview \<Rightarrow> string" where
  "preview_container_name workspace p =
     map (\<lambda>c. if c = CHR ''_'' then CHR ''-'' else c)
       (''labrys-'' @ agent_session_id_display (sw_session_id workspace) @ ''-'' @ preview_id_display (wp_id p))"

definition preview_health_stage ::
  "'w preview_manager \<Rightarrow> 'w preview_world \<Rightarrow> preview_input \<Rightarrow> web_preview \<Rightarrow> session_workspace \<Rightarrow> runtime_config \<Rightarrow>
   string \<Rightarrow> execution_identity \<Rightarrow> effective_limits \<Rightarrow> string \<Rightarrow> running_container \<Rightarrow> ('w, started_preview) preview_effect" where
  "preview_health_stage M W x p workspace cfg img identity limits container_name container =
     (case ce_health (pm_executor M) (pw_host W) cfg ''127.0.0.1''
             (case rc_host_port container of Some port \<Rightarrow> port | None \<Rightarrow> cfg_port cfg) of
        (h, health) \<Rightarrow>
          fx_bind (record_execution M (W\<lparr>pw_host := h\<rparr>) (pi_now x) (pi_run_row x) ''run''
              (build_succeeded (''container '' @ rc_id container @ '' started from image '' @ img)) (Some img)
              (Some (rc_id container)) (Some container_name) limits identity) (\<lambda>W _.
          (let p = fst (preview_record_health p health) in
           fx_bind (preview_event M W (pi_now x) identity HealthProbed (health_event_result health (pm_secrets M)) ''preview''
              (preview_id_display (wp_id p)) (preview_event_detail p)) (\<lambda>W _.
           fx_bind (preview_evidence M W
              (evidence_new (''preview-'' @ preview_id_display (wp_id p) @ ''-health'') VsHealth ''preview-health-gate''
                (health_status_is_healthy health) (preview_event_detail p) (pm_secrets M) (pi_now x))) (\<lambda>W _.
             if \<not> health_status_is_healthy health
             then
               fx_bind (fx_ignore (fx_on (\<lambda>h. W\<lparr>pw_host := h\<rparr>)
                   (ce_cleanup (pm_executor M) (pw_host W) (rc_id container)))) (\<lambda>W _.
               fx_bind (persist_preview_state M W (pi_now x) p workspace identity None (Some container_name)) (\<lambda>W _.
                 (W, CpOk (started p workspace None (Some container_name) limits))))
             else
               fx_bind (persist_preview_state M W (pi_now x) p workspace identity (Some (rc_id container))
                   (Some container_name)) (\<lambda>W _.
                 (W, CpOk (started p workspace (Some (rc_id container)) (Some container_name) limits))))))))"

definition preview_run_stage ::
  "'w preview_manager \<Rightarrow> 'w preview_world \<Rightarrow> preview_input \<Rightarrow> web_preview \<Rightarrow> session_workspace \<Rightarrow> runtime_config \<Rightarrow>
   string \<Rightarrow> execution_identity \<Rightarrow> effective_limits \<Rightarrow> ('w, started_preview) preview_effect" where
  "preview_run_stage M W x p workspace cfg img identity limits =
     (let container_name = preview_container_name workspace p in
      case ce_run (pm_executor M) (pw_host W) cfg img container_name identity of
        (h, CpPanic m) \<Rightarrow> (W\<lparr>pw_host := h\<rparr>, CpPanic m)
      | (h, CpErr e) \<Rightarrow>
          (let reason = control_plane_error_display e;
               p = fst (preview_record_build p (build_failed (''preview run failed: '' @ reason)))
           in end_without_container M (W\<lparr>pw_host := h\<rparr>) x p workspace identity limits (Some container_name) reason)
      | (h, CpOk container) \<Rightarrow>
          preview_health_stage M (W\<lparr>pw_host := h\<rparr>) x p workspace cfg img identity limits container_name container)"

definition preview_build_stage ::
  "'w preview_manager \<Rightarrow> 'w preview_world \<Rightarrow> preview_input \<Rightarrow> web_preview \<Rightarrow> session_workspace \<Rightarrow> runtime_config \<Rightarrow>
   string \<Rightarrow> string \<Rightarrow> string \<Rightarrow> execution_identity \<Rightarrow> effective_limits \<Rightarrow> ('w, started_preview) preview_effect" where
  "preview_build_stage M W x p workspace cfg dockerfile ctx img identity limits =
     (case ce_build (pm_executor M) (pw_host W) dockerfile ctx img (cfg_limits cfg) identity of
        (h, build) \<Rightarrow>
          (let p = fst (preview_record_build p build) in
           fx_bind (record_execution M (W\<lparr>pw_host := h\<rparr>) (pi_now x) (pi_build_row x) ''build'' build (Some img) None None
               limits identity) (\<lambda>W _.
           fx_bind (preview_event M W (pi_now x) identity BuildFinished
               (if build_is_success build then EvSucceeded else EvFailed (redact (br_detail build) (pm_secrets M)))
               ''preview'' (preview_id_display (wp_id p)) (br_detail build)) (\<lambda>W _.
             if \<not> build_is_success build
             then end_without_container M W x p workspace identity limits None (br_detail build)
             else preview_run_stage M W x p workspace cfg img identity limits))))"

definition start_preview ::
  "'w preview_manager \<Rightarrow> 'w preview_world \<Rightarrow> preview_input \<Rightarrow> session_workspace \<Rightarrow> runtime_config \<Rightarrow> string \<Rightarrow> string \<Rightarrow>
   string \<Rightarrow> execution_identity \<Rightarrow> time option \<Rightarrow> ('w, started_preview) preview_effect" where
  "start_preview M W x workspace cfg dockerfile ctx img identity expires_at =
     fx_bind (W, enforce_limits_before_schedule cfg) (\<lambda>W _.
       (let limits = limits_from_config cfg;
            p0 = web_preview_new (pi_preview x) workspace AccessPrivate expires_at in
        fx_bind (W, cp_of_core (snd (notify_build_started p0))) (\<lambda>W _.
        (let p = fst (notify_build_started p0) in
         fx_bind (preview_event M W (pi_now x) identity BuildStarted EvAccepted ''preview'' (preview_id_display (wp_id p))
             (''preview '' @ preview_id_display (wp_id p) @ '' build started under '' @ limits_summary limits)) (\<lambda>W _.
           case ce_check_available (pm_executor M) (pw_host W) of
             (h, RtUnavailable reason) \<Rightarrow>
               (let blocked = unavailable_build_result cfg reason; p = fst (preview_record_build p blocked)
                in end_without_container M (W\<lparr>pw_host := h\<rparr>) x p workspace identity limits None (br_detail blocked))
           | (h, RtAvailable _) \<Rightarrow>
               preview_build_stage M (W\<lparr>pw_host := h\<rparr>) x p workspace cfg dockerfile ctx img identity limits)))))"

section \<open>Ending a preview\<close>

definition stop_container ::
  "'w preview_manager \<Rightarrow> 'w preview_world \<Rightarrow> string option \<Rightarrow> ('w, unit) preview_effect" where
  "stop_container M W container_id =
     (case container_id of
        None \<Rightarrow> (W, CpOk ())
      | Some i \<Rightarrow> fx_ignore (fx_on (\<lambda>h. W\<lparr>pw_host := h\<rparr>) (ce_cleanup (pm_executor M) (pw_host W) i)))"

text \<open>Both return the preview the caller's reference then holds.\<close>

definition expire_preview ::
  "'w preview_manager \<Rightarrow> 'w preview_world \<Rightarrow> time \<Rightarrow> session_workspace \<Rightarrow> web_preview \<Rightarrow> string option \<Rightarrow> string option \<Rightarrow>
   execution_identity \<Rightarrow> web_preview \<times> ('w, unit) preview_effect" where
  "expire_preview M W now workspace p container_id container_name identity =
     (let p' = preview_expire p in
      (p', fx_bind (stop_container M W container_id) (\<lambda>W _.
           fx_bind (persist_preview_state M W now p' workspace identity None container_name) (\<lambda>W _.
             preview_event M W now identity Reconciled EvSucceeded ''preview'' (preview_id_display (wp_id p'))
               (''preview '' @ preview_id_display (wp_id p') @ '' expired; access revoked'')))))"

definition revoke_preview ::
  "'w preview_manager \<Rightarrow> 'w preview_world \<Rightarrow> time \<Rightarrow> session_workspace \<Rightarrow> web_preview \<Rightarrow> string option \<Rightarrow> string option \<Rightarrow>
   execution_identity \<Rightarrow> string \<Rightarrow> web_preview \<times> ('w, unit) preview_effect" where
  "revoke_preview M W now workspace p container_id container_name identity reason =
     (let p' = fst (preview_record_build p (build_failed (''preview revoked: '' @ reason))) in
      (p', fx_bind (stop_container M W container_id) (\<lambda>W _.
           fx_bind (persist_preview_state M W now p' workspace identity None container_name) (\<lambda>W _.
             preview_event M W now identity Reconciled EvSucceeded ''preview'' (preview_id_display (wp_id p'))
               (''preview '' @ preview_id_display (wp_id p') @ '' revoked: '' @ reason)))))"

definition expo_share_for ::
  "uuid \<Rightarrow> session_workspace \<Rightarrow> string \<Rightarrow> string \<Rightarrow> u16 \<Rightarrow> expo_transport \<Rightarrow> time \<Rightarrow> expo_share cp_outcome" where
  "expo_share_for u workspace project_slug host port transport expires_at =
     cp_bind (cp_of_core (discover_server_url host port)) (\<lambda>url.
       cp_of_core (expo_share_new u workspace project_slug url transport expires_at))"

definition correlation_for :: "string \<Rightarrow> agent_session_id option \<Rightarrow> correlation" where
  "correlation_for trace_id session_id =
     (case session_id of None \<Rightarrow> correlation_new trace_id | Some i \<Rightarrow> with_session (correlation_new trace_id) i)"

definition probe_container_health :: "'w docker_host \<Rightarrow> 'w \<Rightarrow> runtime_config \<Rightarrow> string \<Rightarrow> u16 \<Rightarrow> 'w \<times> health_status" where
  "probe_container_health D w cfg host port = probe_health D w cfg host port"

section \<open>What the statements keep\<close>

definition keeps_previews :: "'w preview_world \<Rightarrow> 'w preview_world \<Rightarrow> bool" where
  "keeps_previews W W' \<longleftrightarrow> pw_host W' = pw_host W \<and> pw_previews W' = pw_previews W"

lemma recording_keeps:
  "preview_event M W now x a r k i d = (W', res) \<Longrightarrow> keeps_previews W W'"
  "preview_log M W now x src lvl msg = (W', res) \<Longrightarrow> keeps_previews W W'"
  "preview_evidence M W e = (W', res) \<Longrightarrow> keeps_previews W W'"
  "record_execution M W now u kind b img c n l x = (W', res) \<Longrightarrow> keeps_previews W W'"
  by (auto simp: preview_event_def preview_log_def preview_evidence_def record_execution_def keeps_previews_def
      dest!: fx_on_state)

lemma keeps_previews_trans: "keeps_previews W W' \<Longrightarrow> keeps_previews W' W'' \<Longrightarrow> keeps_previews W W''"
  by (simp add: keeps_previews_def)

lemma terminal_keeps: "record_terminal M W now p x d = (W', CpOk u) \<Longrightarrow> keeps_previews W W'"
  by (auto simp: record_terminal_def fx_bind_Ok dest!: recording_keeps intro: keeps_previews_trans)

definition stored_as :: "'w preview_world \<Rightarrow> web_preview \<Rightarrow> string option \<Rightarrow> bool" where
  "stored_as W p cid \<longleftrightarrow>
     (\<exists>r. preview_store_get (pw_previews W) (wp_id p) = CpOk r \<and> pvr_status r = preview_status_name (wp_status p) \<and>
          pvr_url r = temporary_url p \<and> pvr_container_id r = cid)"

lemma find_map_update:
  assumes "\<And>r. P (f r) = P r" and "list_ex P T"
  shows "\<exists>r. find P (map f T) = Some (f r) \<and> P r"
  using assms(2) by (induction T) (auto simp: assms(1))

lemma upsert_stored:
  assumes "preview_store_upsert T p workspace x cid cname secrets now = (T', CpOk u)"
  shows "\<exists>r. preview_store_get T' (wp_id p) = CpOk r \<and> pvr_status r = preview_status_name (wp_status p) \<and>
    pvr_url r = temporary_url p \<and> pvr_container_id r = cid"
proof -
  let ?new = "preview_to_row p workspace x cid cname now"
  let ?P = "\<lambda>r. pvr_id r = preview_id_display (wp_id p)"
  let ?f = "\<lambda>r. if pvr_id r = pvr_id ?new
    then r\<lparr>pvr_status := pvr_status ?new, pvr_url := pvr_url ?new, pvr_container_id := cid, pvr_container_name := cname,
           pvr_expires_at := pvr_expires_at ?new, pvr_updated_at := now\<rparr> else r"
  have new: "pvr_id ?new = preview_id_display (wp_id p)" by (simp add: preview_to_row_def)
  show ?thesis
  proof (cases "list_ex ?P T")
    case True
    then have T': "T' = map ?f T"
      using assms new by (auto simp: preview_store_upsert_def Let_def split: sum.splits)
    have "?P (?f r) = ?P r" for r by simp
    then have "\<exists>r. find ?P (map ?f T) = Some (?f r) \<and> ?P r" using True by (rule find_map_update)
    then obtain r where "find ?P (map ?f T) = Some (?f r)" "?P r" by blast
    then show ?thesis using T' new by (simp add: preview_store_get_def preview_to_row_def)
  next
    case False
    then have T': "T' = T @ [?new]"
      using assms new by (auto simp: preview_store_upsert_def Let_def split: sum.splits)
    have "find ?P T = None" using False by (auto simp: find_None_iff list_ex_iff)
    then show ?thesis using T' new by (simp add: preview_store_get_def find_append_single preview_to_row_def)
  qed
qed

lemma persist_stored:
  "persist_preview_state M W now p workspace x cid cname = (W', CpOk u) \<Longrightarrow>
   stored_as W' p cid \<and> pw_host W' = pw_host W"
  using upsert_stored [of "pw_previews W" p workspace x cid cname "pm_secrets M" now
      "fst (preview_store_upsert (pw_previews W) p workspace x cid cname (pm_secrets M) now)"]
  by (cases "preview_store_upsert (pw_previews W) p workspace x cid cname (pm_secrets M) now")
    (auto simp: persist_preview_state_def stored_as_def)

lemma stored_as_kept: "keeps_previews W W' \<Longrightarrow> stored_as W' p cid = stored_as W p cid"
  by (simp add: stored_as_def keeps_previews_def)

lemma end_without_container_result:
  assumes "end_without_container M W x p workspace identity limits cname detail = (W', CpOk sp)"
  shows "sp_preview sp = p \<and> sp_container_id sp = None \<and> stored_as W' p None \<and> pw_host W' = pw_host W"
proof -
  obtain W1 where 1: "persist_preview_state M W (pi_now x) p workspace identity None cname = (W1, CpOk ())"
    and 2: "record_terminal M W1 (pi_now x) p identity detail = (W', CpOk ())"
    and sp: "sp = started p workspace None cname limits"
    using assms by (auto simp: end_without_container_def fx_bind_Ok)
  show ?thesis
    using persist_stored [OF 1] terminal_keeps [OF 2] sp stored_as_kept [OF terminal_keeps [OF 2]]
    by (simp add: started_def keeps_previews_def)
qed

section \<open>The health gate\<close>

definition building :: "web_preview \<Rightarrow> bool" where
  "building p \<longleftrightarrow> wp_status p \<noteq> PvAvailable \<and> wp_status p \<noteq> PvExpired"

lemma building_no_url: "building p \<Longrightarrow> temporary_url p = None"
  by (simp add: building_def temporary_url_def)

lemma record_build_building: "building p \<Longrightarrow> building (fst (preview_record_build p b)) \<and> wp_id (fst (preview_record_build p b)) = wp_id p"
  by (auto simp: building_def preview_record_build_def Let_def)

lemma record_health_url:
  "building p \<Longrightarrow> (temporary_url (fst (preview_record_health p h)) \<noteq> None) = health_status_is_healthy h"
  by (cases h)
    (auto simp: building_def preview_record_health_def temporary_url_def health_status_is_healthy_def Let_def)

lemma record_health_id: "wp_id (fst (preview_record_health p h)) = wp_id p"
  by (cases h) (auto simp: preview_record_health_def Let_def)

definition probe_port :: "runtime_config \<Rightarrow> running_container \<Rightarrow> u16" where
  "probe_port cfg c = (case rc_host_port c of Some port \<Rightarrow> port | None \<Rightarrow> cfg_port cfg)"

text \<open>The container a start ends with: the one whose build succeeded, whose run started and whose probe was healthy, as the
  executor answers in this order.\<close>

definition run_gated ::
  "'w container_executor \<Rightarrow> 'w \<Rightarrow> runtime_config \<Rightarrow> string \<Rightarrow> string \<Rightarrow> execution_identity \<Rightarrow> running_container option" where
  "run_gated E h cfg img name identity =
     (case ce_run E h cfg img name identity of
        (h', CpOk c) \<Rightarrow>
          if health_status_is_healthy (snd (ce_health E h' cfg ''127.0.0.1'' (probe_port cfg c))) then Some c else None
      | _ \<Rightarrow> None)"

definition build_gated ::
  "'w container_executor \<Rightarrow> 'w \<Rightarrow> runtime_config \<Rightarrow> string \<Rightarrow> string \<Rightarrow> string \<Rightarrow> string \<Rightarrow> execution_identity \<Rightarrow>
   running_container option" where
  "build_gated E h cfg dockerfile ctx img name identity =
     (case ce_build E h dockerfile ctx img (cfg_limits cfg) identity of
        (h', build) \<Rightarrow> if build_is_success build then run_gated E h' cfg img name identity else None)"

definition gated_container ::
  "'w container_executor \<Rightarrow> 'w \<Rightarrow> runtime_config \<Rightarrow> string \<Rightarrow> string \<Rightarrow> string \<Rightarrow> string \<Rightarrow> execution_identity \<Rightarrow>
   running_container option" where
  "gated_container E h cfg dockerfile ctx img name identity =
     (case ce_check_available E h of
        (_, RtUnavailable _) \<Rightarrow> None
      | (h', RtAvailable _) \<Rightarrow> build_gated E h' cfg dockerfile ctx img name identity)"

text \<open>What a started preview shows of the container: the link is there exactly with a gated container, whose id is returned
  and stored.\<close>

definition shows_container :: "'w preview_world \<Rightarrow> started_preview \<Rightarrow> preview_id \<Rightarrow> running_container option \<Rightarrow> bool" where
  "shows_container W sp i c \<longleftrightarrow>
     wp_id (sp_preview sp) = i \<and> (temporary_url (sp_preview sp) \<noteq> None) = (c \<noteq> None) \<and>
     sp_container_id sp = map_option rc_id c \<and> stored_as W (sp_preview sp) (sp_container_id sp)"

lemma ended_shows_none:
  assumes "end_without_container M W x p workspace identity limits cname detail = (W', CpOk sp)" and "building p"
  shows "shows_container W' sp (wp_id p) None"
  using end_without_container_result [OF assms(1)] building_no_url [OF assms(2)] by (auto simp: shows_container_def)

lemma health_stage_result:
  assumes "preview_health_stage M W x p workspace cfg img identity limits name c = (W', CpOk sp)" and "building p"
  shows "shows_container W' sp (wp_id p)
    (if health_status_is_healthy (snd (ce_health (pm_executor M) (pw_host W) cfg ''127.0.0.1'' (probe_port cfg c))) then Some c else None)"
proof -
  obtain h s where hs: "ce_health (pm_executor M) (pw_host W) cfg ''127.0.0.1'' (probe_port cfg c) = (h, s)"
    by (cases "ce_health (pm_executor M) (pw_host W) cfg ''127.0.0.1'' (probe_port cfg c)")
  let ?q = "fst (preview_record_health p s)"
  have q: "wp_id ?q = wp_id p" "(temporary_url ?q \<noteq> None) = health_status_is_healthy s"
    using record_health_url [OF assms(2)] record_health_id by simp_all
  let ?cid = "if health_status_is_healthy s then Some (rc_id c) else None"
  have "\<exists>W1. persist_preview_state M W1 (pi_now x) ?q workspace identity ?cid (Some name) = (W', CpOk ()) \<and>
    sp = started ?q workspace ?cid (Some name) limits"
    using assms(1) hs unfolding preview_health_stage_def probe_port_def [symmetric]
    by (cases "health_status_is_healthy s") (auto simp: fx_bind_Ok Let_def)
  then show ?thesis using persist_stored q hs by (force simp: started_def shows_container_def)
qed

lemma run_stage_result:
  assumes "preview_run_stage M W x p workspace cfg img identity limits = (W', CpOk sp)" and "building p"
  shows "shows_container W' sp (wp_id p)
    (run_gated (pm_executor M) (pw_host W) cfg img (preview_container_name workspace p) identity)"
proof (cases "ce_run (pm_executor M) (pw_host W) cfg img (preview_container_name workspace p) identity")
  case (Pair h r)
  let ?name = "preview_container_name workspace p"
  show ?thesis
  proof (cases r)
    case (CpOk k)
    then have "preview_health_stage M (W\<lparr>pw_host := h\<rparr>) x p workspace cfg img identity limits ?name k = (W', CpOk sp)"
      using assms(1) Pair by (simp add: preview_run_stage_def Let_def)
    from health_stage_result [OF this assms(2)] show ?thesis using CpOk Pair by (simp add: run_gated_def)
  next
    case (CpErr e)
    let ?q = "fst (preview_record_build p (build_failed (''preview run failed: '' @ control_plane_error_display e)))"
    have "end_without_container M (W\<lparr>pw_host := h\<rparr>) x ?q workspace identity limits (Some ?name)
        (control_plane_error_display e) = (W', CpOk sp)"
      using assms(1) Pair CpErr by (simp add: preview_run_stage_def Let_def)
    from ended_shows_none [OF this] record_build_building [OF assms(2)] show ?thesis
      using CpErr Pair by (simp add: run_gated_def)
  next
    case (CpPanic m)
    then show ?thesis using assms(1) Pair by (simp add: preview_run_stage_def Let_def)
  qed
qed

lemma container_name_id: "wp_id p = wp_id q \<Longrightarrow> preview_container_name w p = preview_container_name w q"
  by (simp add: preview_container_name_def)

lemma build_stage_result:
  assumes "preview_build_stage M W x p workspace cfg f ctx img identity limits = (W', CpOk sp)" and "building p"
  shows "shows_container W' sp (wp_id p)
    (build_gated (pm_executor M) (pw_host W) cfg f ctx img (preview_container_name workspace p) identity)"
proof -
  obtain h b where hb: "ce_build (pm_executor M) (pw_host W) f ctx img (cfg_limits cfg) identity = (h, b)"
    by (cases "ce_build (pm_executor M) (pw_host W) f ctx img (cfg_limits cfg) identity")
  let ?q = "fst (preview_record_build p b)"
  note q = record_build_building [OF assms(2), of b]
  from assms(1) hb obtain W1 W2 where
    1: "record_execution M (W\<lparr>pw_host := h\<rparr>) (pi_now x) (pi_build_row x) ''build'' b (Some img) None None limits identity = (W1, CpOk ())"
    and 2: "preview_event M W1 (pi_now x) identity BuildFinished
       (if build_is_success b then EvSucceeded else EvFailed (redact (br_detail b) (pm_secrets M)))
       ''preview'' (preview_id_display (wp_id ?q)) (br_detail b) = (W2, CpOk ())"
    and 3: "(if \<not> build_is_success b then end_without_container M W2 x ?q workspace identity limits None (br_detail b)
      else preview_run_stage M W2 x ?q workspace cfg img identity limits) = (W', CpOk sp)"
    by (auto simp: preview_build_stage_def fx_bind_Ok Let_def)
  have host: "pw_host W2 = h"
    using recording_keeps(4) [OF 1] recording_keeps(1) [OF 2] by (simp add: keeps_previews_def)
  show ?thesis
  proof (cases "build_is_success b")
    case True
    with 3 have "preview_run_stage M W2 x ?q workspace cfg img identity limits = (W', CpOk sp)" by simp
    from run_stage_result [OF this] q show ?thesis
      using True hb host container_name_id [of ?q p workspace] by (simp add: build_gated_def)
  next
    case False
    with 3 have "end_without_container M W2 x ?q workspace identity limits None (br_detail b) = (W', CpOk sp)" by simp
    from ended_shows_none [OF this] q show ?thesis using False hb by (simp add: build_gated_def)
  qed
qed

lemma start_preview_gated:
  assumes "start_preview M W x workspace cfg f ctx img identity expires = (W', CpOk sp)"
  defines "name \<equiv> preview_container_name workspace (web_preview_new (pi_preview x) workspace AccessPrivate expires)"
  shows "shows_container W' sp (PreviewId (pi_preview x)) (gated_container (pm_executor M) (pw_host W) cfg f ctx img name identity)"
proof -
  let ?fresh = "web_preview_new (pi_preview x) workspace AccessPrivate expires"
  let ?p = "?fresh\<lparr>wp_status := PvBuilding\<rparr>"
  have start: "notify_build_started ?fresh = (?p, Ok ())" unfolding notify_build_started_def web_preview_new_def by simp
  have p: "building ?p" "wp_id ?p = PreviewId (pi_preview x)" by (simp_all add: building_def web_preview_new_def)
  have n: "preview_container_name workspace ?p = name" by (simp add: name_def preview_container_name_def)
  from assms(1) obtain W1 where
    ev: "preview_event M W (pi_now x) identity BuildStarted EvAccepted ''preview'' (preview_id_display (wp_id ?p))
      (''preview '' @ preview_id_display (wp_id ?p) @ '' build started under '' @ limits_summary (limits_from_config cfg)) = (W1, CpOk ())"
    and rest: "(case ce_check_available (pm_executor M) (pw_host W1) of
       (h, RtUnavailable reason) \<Rightarrow>
         end_without_container M (W1\<lparr>pw_host := h\<rparr>) x (fst (preview_record_build ?p (unavailable_build_result cfg reason))) workspace
           identity (limits_from_config cfg) None (br_detail (unavailable_build_result cfg reason))
     | (h, RtAvailable _) \<Rightarrow>
         preview_build_stage M (W1\<lparr>pw_host := h\<rparr>) x ?p workspace cfg f ctx img identity (limits_from_config cfg)) = (W', CpOk sp)"
    by (auto simp: start_preview_def fx_bind_Ok Let_def start cp_of_core_def)
  have host: "pw_host W1 = pw_host W" using recording_keeps(1) [OF ev] by (simp add: keeps_previews_def)
  obtain h a where ha: "ce_check_available (pm_executor M) (pw_host W) = (h, a)"
    by (cases "ce_check_available (pm_executor M) (pw_host W)")
  show ?thesis
  proof (cases a)
    case (RtAvailable v)
    with rest ha host have
      "preview_build_stage M (W1\<lparr>pw_host := h\<rparr>) x ?p workspace cfg f ctx img identity (limits_from_config cfg) = (W', CpOk sp)"
      by simp
    from build_stage_result [OF this p(1)] show ?thesis using RtAvailable ha p(2) n by (simp add: gated_container_def)
  next
    case (RtUnavailable reason)
    with rest ha host have
      "end_without_container M (W1\<lparr>pw_host := h\<rparr>) x (fst (preview_record_build ?p (unavailable_build_result cfg reason))) workspace
         identity (limits_from_config cfg) None (br_detail (unavailable_build_result cfg reason)) = (W', CpOk sp)"
      by simp
    from ended_shows_none [OF this] record_build_building [OF p(1)] show ?thesis
      using RtUnavailable ha p(2) by (simp add: gated_container_def)
  qed
qed

section \<open>Worktrees\<close>

lemma split_at_char_append: "split_at_char c (a @ c # b) = split_at_char c a @ split_at_char c b"
proof (induction a)
  case (Cons x xs)
  show ?case
  proof (cases "split_at_char c xs")
    case Nil
    then show ?thesis by (induction xs) (auto split: if_splits list.splits)
  qed (use Cons in auto)
qed simp

lemma split_at_char_ne: "split_at_char c s \<noteq> []"
  by (induction s) (auto split: list.splits)

definition shown_components :: "string list \<Rightarrow> string list" where
  "shown_components cs = filter (\<lambda>c. c \<noteq> [] \<and> c \<noteq> ''.'') cs"

lemma components_split:
  "split_at_char (CHR ''/'') p = first # rest \<Longrightarrow>
   path_components p = (if first = [] then (if rest = [] then [] else [''/'']) else [first]) @ shown_components rest"
  by (simp add: path_components_def shown_components_def)

lemma components_below:
  assumes "a \<noteq> []"
  shows "prefix (path_components a) (path_components (a @ CHR ''/'' # b))"
proof -
  obtain f r where a: "split_at_char (CHR ''/'') a = f # r"
    using split_at_char_ne [of "CHR ''/''" a] by (cases "split_at_char (CHR ''/'') a") auto
  have ab: "split_at_char (CHR ''/'') (a @ CHR ''/'' # b) = f # r @ split_at_char (CHR ''/'') b"
    by (simp add: split_at_char_append a)
  have "f = [] \<Longrightarrow> r \<noteq> []" using a assms by (cases a) (auto simp: split_at_char_ne split: if_splits list.splits)
  then show ?thesis
    unfolding components_split [OF a] components_split [OF ab]
    by (auto simp: shown_components_def)
qed

lemma components_trailing:
  assumes "a \<noteq> []" and "ends_with a ''/''"
  shows "prefix (path_components a) (path_components (a @ b))"
proof -
  obtain a' where a': "a = a' @ CHR ''/'' # []" using assms(2) by (auto simp: ends_with_def suffix_def)
  obtain f r where fr: "split_at_char (CHR ''/'') a' = f # r"
    using split_at_char_ne [of "CHR ''/''" a'] by (cases "split_at_char (CHR ''/'') a'") auto
  have 1: "split_at_char (CHR ''/'') a = f # r @ [[]]" by (simp add: a' split_at_char_append fr)
  have 2: "split_at_char (CHR ''/'') (a @ b) = f # r @ split_at_char (CHR ''/'') b"
    by (simp add: a' split_at_char_append fr)
  show ?thesis
    unfolding components_split [OF 1] components_split [OF 2]
    using split_at_char_ne [of "CHR ''/''" b] by (auto simp: shown_components_def)
qed

lemma join_below:
  assumes "a \<noteq> []" and "\<not> starts_with b ''/''"
  shows "prefix (path_components a) (path_components (pathbuf_join a b)) \<and> pathbuf_join a b \<noteq> []"
  using assms components_below [OF assms(1), of b] components_trailing [OF assms(1), of b]
  by (auto simp: pathbuf_join_def)

lemma session_relative: "\<not> starts_with (agent_session_id_display i) ''/''"
  by (cases i) (simp add: starts_with_def)

text \<open>
  Every session has a worktree directory, below the approved root, and two sessions never share one.
\<close>

theorem worktree_dirs_separate:
  assumes "root \<noteq> []"
  shows "(\<exists>dir. worktree_dir root a = CpOk dir \<and> path_starts_with dir root) \<and>
    (worktree_dir root a = worktree_dir root b \<longleftrightarrow> a = b)"
proof -
  let ?base = "pathbuf_join root ''worktrees''"
  have base: "prefix (path_components root) (path_components ?base)" "?base \<noteq> []"
    using join_below [OF assms, of "''worktrees''"] by (simp_all add: starts_with_def)
  have dir: "worktree_dir root i = CpOk (pathbuf_join ?base (agent_session_id_display i)) \<and>
      path_starts_with (pathbuf_join ?base (agent_session_id_display i)) root" for i
    using join_below [OF base(2) session_relative, of i] prefix_order.trans [OF base(1)]
    by (simp add: worktree_dir_def Let_def path_starts_with_def)
  have "pathbuf_join ?base (agent_session_id_display a) = pathbuf_join ?base (agent_session_id_display b) \<longleftrightarrow>
      agent_session_id_display a = agent_session_id_display b"
    using session_relative [of a] session_relative [of b] by (simp add: pathbuf_join_def)
  also have "\<dots> \<longleftrightarrow> a = b" by (cases a; cases b) simp
  finally show ?thesis using dir by simp
qed

theorem worktree_dirs_separate_witness:
  "worktree_dir ''/srv'' (AgentSessionId ''1'') \<noteq> worktree_dir ''/srv'' (AgentSessionId ''2'')"
  using worktree_dirs_separate [of "''/srv''" "AgentSessionId ''1''" "AgentSessionId ''2''"] by simp

section \<open>The previews table\<close>

definition previews_ok :: "preview_row list \<Rightarrow> bool" where
  "previews_ok T \<longleftrightarrow>
     distinct (map pvr_id T) \<and>
     (\<forall>r \<in> set T. (pvr_url r \<noteq> None \<longrightarrow> pvr_status r = ''available'') \<and> (pvr_container_id r \<noteq> None \<longrightarrow> pvr_url r \<noteq> None))"

lemma upsert_previews_ok:
  assumes "previews_ok T" and "cid \<noteq> None \<Longrightarrow> temporary_url p \<noteq> None"
  shows "previews_ok (fst (preview_store_upsert T p workspace x cid cname secrets now))"
proof -
  let ?new = "preview_to_row p workspace x cid cname now"
  have new: "pvr_url ?new \<noteq> None \<longrightarrow> pvr_status ?new = ''available''" "pvr_container_id ?new \<noteq> None \<longrightarrow> pvr_url ?new \<noteq> None"
    "pvr_container_id ?new = cid"
    using assms(2) by (auto simp: preview_to_row_def temporary_url_def split: if_splits)
  show ?thesis
  proof (cases "list_ex (\<lambda>r. pvr_id r = pvr_id ?new) T")
    case True
    then show ?thesis using assms(1) new
      by (auto simp: preview_store_upsert_def Let_def previews_ok_def comp_def if_distrib [of pvr_id] cong: if_cong split: sum.splits)
  next
    case False
    then show ?thesis using assms(1) new
      by (auto simp: preview_store_upsert_def Let_def previews_ok_def list_ex_iff split: sum.splits)
  qed
qed

abbreviation tbl_ok :: "'w preview_world \<Rightarrow> bool" where
  "tbl_ok W \<equiv> previews_ok (pw_previews W)"

lemma persist_ok:
  "tbl_ok W \<Longrightarrow> (cid \<noteq> None \<Longrightarrow> temporary_url p \<noteq> None) \<Longrightarrow>
   tbl_ok (fst (persist_preview_state M W now p workspace x cid cname))"
  unfolding persist_preview_state_def fx_on_fst by (simp add: upsert_previews_ok del: not_None_eq)

lemma recording_ok:
  "tbl_ok W \<Longrightarrow> tbl_ok (fst (preview_event M W now x a r k i d))"
  "tbl_ok W \<Longrightarrow> tbl_ok (fst (preview_log M W now x src lvl msg))"
  "tbl_ok W \<Longrightarrow> tbl_ok (fst (preview_evidence M W e))"
  "tbl_ok W \<Longrightarrow> tbl_ok (fst (record_execution M W now u kind b img c n l x))"
  using recording_keeps [where W = W] by (metis keeps_previews_def prod.collapse)+

lemma stop_ok: "tbl_ok W \<Longrightarrow> tbl_ok (fst (stop_container M W cid))"
  by (auto simp: stop_container_def split: option.splits)

lemmas table_rules = recording_ok persist_ok stop_ok fx_keeps [where Q = tbl_ok]

lemma ended_ok: "tbl_ok W \<Longrightarrow> tbl_ok (fst (end_without_container M W x p workspace identity limits cname d))"
  unfolding end_without_container_def record_terminal_def by (intro table_rules) (auto intro: table_rules)

lemma health_stage_ok:
  assumes "tbl_ok W" and "building p"
  shows "tbl_ok (fst (preview_health_stage M W x p workspace cfg img identity limits name c))"
proof -
  have url: "health_status_is_healthy s \<Longrightarrow> \<exists>y. temporary_url (fst (preview_record_health p s)) = Some y" for s
    using record_health_url [OF assms(2)] by simp
  show ?thesis
    unfolding preview_health_stage_def Let_def
    by (auto simp: assms(1) url intro!: table_rules split: prod.splits if_splits)
qed

lemma start_ok:
  assumes "tbl_ok W"
  shows "tbl_ok (fst (start_preview M W x workspace cfg f ctx img identity expires))"
proof -
  let ?fresh = "web_preview_new (pi_preview x) workspace AccessPrivate expires"
  have p: "building (fst (notify_build_started ?fresh))"
    by (simp add: notify_build_started_def building_def web_preview_new_def)
  show ?thesis
    unfolding start_preview_def preview_build_stage_def preview_run_stage_def Let_def
    by (auto simp: assms intro!: table_rules ended_ok health_stage_ok record_build_building [THEN conjunct1] p
        split: prod.splits runtime_availability.splits cp_outcome.splits)
qed

datatype manager_op =
    OpStart preview_input session_workspace runtime_config string string string execution_identity "time option"
  | OpExpire time session_workspace web_preview "string option" "string option" execution_identity
  | OpRevoke time session_workspace web_preview "string option" "string option" execution_identity string
  | OpMaterialize time uuid canonical_repository agent_session_id string
  | OpCleanup session_workspace

fun manager_exec :: "'w preview_manager \<Rightarrow> 'w preview_world \<Rightarrow> manager_op \<Rightarrow> 'w preview_world" where
  "manager_exec M W (OpStart x workspace cfg f ctx img identity expires) =
     fst (start_preview M W x workspace cfg f ctx img identity expires)"
| "manager_exec M W (OpExpire now workspace p cid cname identity) =
     fst (snd (expire_preview M W now workspace p cid cname identity))"
| "manager_exec M W (OpRevoke now workspace p cid cname identity reason) =
     fst (snd (revoke_preview M W now workspace p cid cname identity reason))"
| "manager_exec M W (OpMaterialize now u repo session_id environment_name) =
     fst (materialize_workspace M W now u repo session_id environment_name)"
| "manager_exec M W (OpCleanup workspace) = fst (cleanup_workspace M W workspace)"

lemma ending_ok:
  assumes "tbl_ok W"
  shows "tbl_ok (fst (snd (expire_preview M W now workspace p cid cname x)))"
    and "tbl_ok (fst (snd (revoke_preview M W now workspace p cid cname x reason)))"
  unfolding expire_preview_def revoke_preview_def Let_def snd_conv
  by (auto simp: assms intro!: table_rules)

lemma workspace_ok:
  assumes "tbl_ok W"
  shows "tbl_ok (fst (materialize_workspace M W now u repo session_id environment_name))"
    and "tbl_ok (fst (cleanup_workspace M W workspace))"
proof -
  show "tbl_ok (fst (materialize_workspace M W now u repo session_id environment_name))"
    unfolding materialize_workspace_def
  proof (rule fx_keeps [where Q = tbl_ok]; (rule fx_keeps [where Q = tbl_ok])?)
    fix V V' :: "'a preview_world" and ws :: session_workspace and dir :: string
    assume V: "tbl_ok V'"
    have made: "tbl_ok (fst (fx_on (\<lambda>h. V'\<lparr>pw_host := h\<rparr>) (fh_create_dir_all (pm_files M) (pw_host V') dir)))"
      using V by simp
    have logged: "tbl_ok (fst (fx_bind (preview_log M W1 now x src lvl msg) (\<lambda>W _. (W, CpOk ws))))"
      if "tbl_ok W1" for W1 :: "'a preview_world" and x src lvl msg
      by (rule fx_keeps [where Q = tbl_ok]) (simp_all add: recording_ok that)
    have rest: "tbl_ok (fst (fx_bind (fx_on (\<lambda>h. V'\<lparr>pw_host := h\<rparr>) (fh_create_dir_all (pm_files M) (pw_host V') dir))
        (\<lambda>W _. fx_bind (preview_log M W now x src lvl msg) (\<lambda>W _. (W, CpOk ws)))))" for x src lvl msg
      by (rule fx_keeps [where Q = tbl_ok, OF made]) (rule logged)
    show "tbl_ok (fst (if fh_exists (pm_files M) (pw_host V') dir
       then (V', CpErr (ExecutionError (''session '' @ agent_session_id_display session_id @
              '' already owns a worktree at '' @ dir)))
       else
         fx_bind (fx_on (\<lambda>h. V'\<lparr>pw_host := h\<rparr>) (fh_create_dir_all (pm_files M) (pw_host V') dir)) (\<lambda>W _.
         fx_bind (preview_log M W now (workspace_identity ws) LsRuntime LogInfo
             (''materialized workspace '' @ workspace_id_display (sw_id ws) @ '' at '' @ dir)) (\<lambda>W _.
           (W, CpOk ws)))))"
      using V rest by (cases "fh_exists (pm_files M) (pw_host V') dir") (simp_all only: if_True if_False fst_conv)
  qed (use assms in simp_all)
  show "tbl_ok (fst (cleanup_workspace M W workspace))"
    unfolding cleanup_workspace_def by (intro table_rules) (simp_all add: assms)
qed

lemma manager_exec_ok: "tbl_ok W \<Longrightarrow> tbl_ok (manager_exec M W oper)"
  by (cases oper) (simp_all add: start_ok ending_ok workspace_ok)

text \<open>
  Under any sequence of manager operations, with any executor and any answers of the host, each preview has one row, only a
  row in the state available carries a link, and only a row with a link names a container.
\<close>

theorem previews_table_invariant:
  "previews_ok (pw_previews (foldl (manager_exec M) \<lparr>pw_host = h, pw_events = serial_empty, pw_logs = serial_empty,
     pw_evidence = [], pw_previews = [], pw_executions = []\<rparr> opers))"
proof -
  have "tbl_ok W \<Longrightarrow> tbl_ok (foldl (manager_exec M) W opers)" for W
  proof (induction opers arbitrary: W)
    case (Cons oper opers)
    show ?case unfolding foldl_Cons by (rule Cons.IH [OF manager_exec_ok [OF Cons.prems]])
  qed simp
  moreover have "tbl_ok \<lparr>pw_host = h, pw_events = serial_empty, pw_logs = serial_empty,
     pw_evidence = [], pw_previews = [], pw_executions = []\<rparr>"
    by (simp add: previews_ok_def)
  ultimately show ?thesis by blast
qed

section \<open>Properties\<close>

text \<open>
  (C15) A preview link is issued exactly when, in this order, the runtime was available, the build succeeded, the
  container started and the platform's own probe of it was healthy. The container's id is then returned and
  stored with the link; on every other path that returns, the stored row has neither link nor container.
\<close>

theorem preview_link_health_gated:
  assumes "start_preview M W x workspace cfg f ctx img identity expires = (W', CpOk sp)"
  shows "let c = gated_container (pm_executor M) (pw_host W) cfg f ctx img
         (preview_container_name workspace (web_preview_new (pi_preview x) workspace AccessPrivate expires)) identity
     in (temporary_url (sp_preview sp) \<noteq> None) = (c \<noteq> None) \<and> sp_container_id sp = map_option rc_id c \<and>
       (\<exists>r. preview_store_get (pw_previews W') (PreviewId (pi_preview x)) = CpOk r \<and>
          pvr_url r = temporary_url (sp_preview sp) \<and> pvr_container_id r = map_option rc_id c)"
  using start_preview_gated [OF assms] unfolding shows_container_def stored_as_def Let_def by metis

text \<open>An executor that builds and runs everything and whose probe answers as given.\<close>

definition probing_executor :: "health_status \<Rightarrow> unit container_executor" where
  "probing_executor health =
     \<lparr>ce_check_available = \<lambda>w. (w, RtAvailable ''27.0''), ce_build = \<lambda>w _ _ _ _ _. (w, build_succeeded ''built''),
      ce_run = \<lambda>w _ _ name _. (w, CpOk \<lparr>rc_id = ''c1'', rc_name = name, rc_host_port = Some 49153\<rparr>),
      ce_stop = \<lambda>w _. (w, CpOk ()), ce_remove = \<lambda>w _. (w, CpOk ()), ce_logs = \<lambda>w _ _. (w, CpOk []),
      ce_health = \<lambda>w _ _ _. (w, health)\<rparr>"

definition sample_manager :: "health_status \<Rightarrow> unit preview_manager" where
  "sample_manager health =
     \<lparr>pm_executor = probing_executor health,
      pm_files = \<lparr>fh_exists = \<lambda>_ _. False, fh_create_dir_all = \<lambda>w _. (w, CpOk ()), fh_remove_dir_all = \<lambda>w _. (w, CpOk ())\<rparr>,
      pm_ids = \<lparr>ic_parse = Some, ic_default = ''0''\<rparr>, pm_secrets = [], pm_workspace_root = ''/srv''\<rparr>"

definition empty_world :: "unit preview_world" where
  "empty_world =
     \<lparr>pw_host = (), pw_events = serial_empty, pw_logs = serial_empty, pw_evidence = [], pw_previews = [], pw_executions = []\<rparr>"

definition shop_workspace :: session_workspace where
  "shop_workspace =
     \<lparr>sw_id = WorkspaceId ''w'', sw_application_id = ApplicationId ''a'', sw_environment_name = ''dev'',
      sw_session_id = AgentSessionId ''s'', sw_worktree_path = ''worktrees/agt_s'', sw_branch = ''session/agt_s'',
      sw_base_sha = ''0'', sw_status = WtActive, sw_diff = None\<rparr>"

definition sample_input :: preview_input where
  "sample_input = \<lparr>pi_preview = ''p'', pi_build_row = ''x1'', pi_run_row = ''x2'', pi_now = 0\<rparr>"

definition sample_start :: "health_status \<Rightarrow> unit preview_world \<times> started_preview cp_outcome" where
  "sample_start health =
     start_preview (sample_manager health) empty_world sample_input shop_workspace run_sample ''Dockerfile'' ''.''
       ''shop:1'' (workspace_identity shop_workspace) None"

lemma sample_start_ok:
  "(case snd (sample_start HealthHealthy) of CpOk _ \<Rightarrow> True | _ \<Rightarrow> False)"
  "(case snd (sample_start (HealthUnhealthy ''503'')) of CpOk _ \<Rightarrow> True | _ \<Rightarrow> False)"
  by code_simp+

theorem preview_link_health_gated_witness:
  "(\<exists>W sp. sample_start HealthHealthy = (W, CpOk sp) \<and> temporary_url (sp_preview sp) \<noteq> None \<and> sp_container_id sp = Some ''c1'') \<and>
   (\<exists>W sp. sample_start (HealthUnhealthy ''503'') = (W, CpOk sp) \<and> temporary_url (sp_preview sp) = None \<and> sp_container_id sp = None)"
proof -
  have gated: "gated_container (pm_executor (sample_manager h)) u cfg f ctx img name x =
      (if health_status_is_healthy h then Some \<lparr>rc_id = ''c1'', rc_name = name, rc_host_port = Some 49153\<rparr> else None)"
    for h u cfg f ctx img name x
    by (simp add: gated_container_def sample_manager_def probing_executor_def build_gated_def build_succeeded_def
        build_is_success_def run_gated_def)
  have ok: "\<exists>W sp. sample_start h = (W, CpOk sp)" if "(case snd (sample_start h) of CpOk _ \<Rightarrow> True | _ \<Rightarrow> False)" for h
    using that by (cases "sample_start h") (auto split: cp_outcome.splits)
  have shown: "(temporary_url (sp_preview sp) \<noteq> None) = health_status_is_healthy h \<and>
      sp_container_id sp = (if health_status_is_healthy h then Some ''c1'' else None)"
    if "sample_start h = (W, CpOk sp)" for h W sp
    using preview_link_health_gated [OF that [unfolded sample_start_def]] by (simp add: gated Let_def)
  obtain W sp where "sample_start HealthHealthy = (W, CpOk sp)" using ok [OF sample_start_ok(1)] by blast
  moreover obtain V sq where "sample_start (HealthUnhealthy ''503'') = (V, CpOk sq)" using ok [OF sample_start_ok(2)] by blast
  ultimately show ?thesis using shown [of HealthHealthy] shown [of "HealthUnhealthy ''503''"]
    by (simp add: health_status_is_healthy_def)
qed

text \<open>
  Ending a preview. When \<open>expire_preview\<close> returns without an error, the preview is expired and neither the
  caller's value nor the stored row has a link or names a container.
\<close>

lemma ended_stored:
  assumes "fx_bind (stop_container M W cid) (\<lambda>W _. fx_bind (persist_preview_state M W now q workspace x None cname)
      (\<lambda>W _. preview_event M W now x a r k i d)) = (W', CpOk ())"
  shows "stored_as W' q None"
proof -
  obtain W1 W2 where "persist_preview_state M W1 now q workspace x None cname = (W2, CpOk ())"
    and ev: "preview_event M W2 now x a r k i d = (W', CpOk ())"
    using assms by (auto simp: fx_bind_Ok)
  then show ?thesis using persist_stored stored_as_kept [OF recording_keeps(1) [OF ev]] by blast
qed

theorem expire_preview_clears:
  assumes "expire_preview M W now workspace p cid cname x = (p', W', CpOk ())"
  shows "wp_status p' = PvExpired \<and> temporary_url p' = None \<and> stored_as W' p' None"
  using assms ended_stored by (auto simp: expire_preview_def Let_def preview_expire_def temporary_url_def)

text \<open>
  Revoking ends a preview that is not available yet; an available one keeps its status and its link, in the
  caller's value and in the stored row, since a build result is refused there and the refusal is dropped.
\<close>

theorem revoke_preview_exact:
  assumes "revoke_preview M W now workspace p cid cname x reason = (p', W', CpOk ())"
  shows "stored_as W' p' None \<and>
    (if wp_status p \<in> {PvAvailable, PvExpired} then p' = p
     else temporary_url p' = None \<and> (\<exists>why. wp_status p' = PvUnavailable why))"
proof -
  let ?b = "build_failed (''preview revoked: '' @ reason)"
  have "p' = fst (preview_record_build p ?b)" and "stored_as W' p' None"
    using assms ended_stored by (auto simp: revoke_preview_def Let_def)
  moreover have "\<not> build_is_success ?b" by (simp add: build_is_success_def build_failed_def)
  ultimately show ?thesis by (auto simp: preview_record_build_def temporary_url_def Let_def)
qed

end
