(* ===== verification/Spec2Isabelle.thy ===== *)
theory Spec2Isabelle
  imports Controllers Provider Workspace_Model Secret_Store Manifest_Model Api_Properties Preview_Runtime
begin

text \<open>
  Labrys, a control plane for application delivery: model and correctness.

  \<^bold>\<open>The program.\<close> Labrys is two Rust crates. \<open>labrys-core\<close> holds the contracts without I/O: the application
  aggregate, resources with a retry policy, an idempotent job queue, reconciliation controllers, deployments and
  rollbacks, provider and domain delivery, evidence and verification, agent sessions behind a policy, session
  worktrees and previews, capabilities, a sealed secret store, plugins, project inspection, runtime planning, the manifest,
  and the command surface. \<open>labrys-control-plane\<close> makes them durable: stores over PostgreSQL, a leased job table, a
  worker, an HTTP API with tokens, a container executor and health-gated previews. A request passes the
  API's gate, changes desired state and enqueues a job; a worker claims the job under a lease, lets a dispatcher
  act, and only what the platform itself observed becomes readiness; every step leaves events, logs, evidence and
  a hash-chained audit trail from which secrets are redacted.

  \<^bold>\<open>Theories and sources\<close> (core first, under \<open>src/crates/labrys-core/src\<close>):

  \<^item> \<open>Labrys_Prelude\<close>: results, text, ordered maps, time, and the locales \<open>ord_map\<close>, \<open>keyed_store\<close>,
    \<open>chrono_laws\<close> and \<open>lifecycle\<close>; \<open>error.rs\<close>. \<open>Json_Value\<close>: the values of \<open>serde_json\<close>. \<open>Ids\<close>: \<open>ids.rs\<close>.
  \<^item> \<open>Redaction\<close>: \<open>redact_reason\<close> and the guards of the control plane's \<open>redact.rs\<close>.
  \<^item> \<open>Health\<close>, \<open>Resources\<close>, \<open>Job_Queue\<close>, \<open>Controllers\<close>: \<open>controller.rs\<close>.
  \<^item> \<open>App_Model\<close>: \<open>application.rs\<close>, \<open>environment.rs\<close>, \<open>origin.rs\<close>, \<open>state.rs\<close>, \<open>repository.rs\<close>.
  \<^item> \<open>Runtime_Model\<close> and \<open>Runtime_Detect\<close>: \<open>runtime.rs\<close>; \<open>Inspector\<close>: \<open>inspector.rs\<close>;
    \<open>Manifest_Model\<close>: \<open>manifest.rs\<close>.
  \<^item> \<open>Deployment\<close>: \<open>deployment.rs\<close>; \<open>Provider\<close>: \<open>provider.rs\<close>; \<open>Observability\<close>: \<open>observability.rs\<close>;
    \<open>Workspace_Model\<close>: \<open>workspace.rs\<close>; \<open>Agent\<close>: \<open>agent.rs\<close>.
  \<^item> \<open>Capability\<close> and \<open>Secret_Store\<close>: \<open>capability.rs\<close>; \<open>Plugin_Protocol\<close>: \<open>plugin.rs\<close>; \<open>Surfaces\<close>: \<open>surfaces.rs\<close>.
  \<^item> Under \<open>src/crates/labrys-control-plane/src\<close>: \<open>Control_Config\<close>: \<open>config.rs\<close>; \<open>Api_Auth\<close>: \<open>auth.rs\<close>;
    \<open>Durable_Queue\<close>: \<open>jobs.rs\<close>; \<open>Durable_Evidence\<close>: \<open>observability.rs\<close>; \<open>Worker_Loop\<close>: \<open>repos/resources.rs\<close> and
    \<open>worker.rs\<close>; \<open>Durable_Apps\<close>: the other stores of \<open>repos\<close>; \<open>Container_Runtime\<close>: \<open>runtime.rs\<close>;
    \<open>Preview_Runtime\<close>: \<open>preview.rs\<close>; \<open>Api_Core\<close>, \<open>Api_Handlers\<close> and \<open>Api_Properties\<close>: \<open>api.rs\<close>. The tables are
    those of the migrations, with their keys, uniqueness, checks and foreign keys.

  Structs are records, enums datatypes, and each method is one definition under the name it has in the source, with a prefix
  where two types share a name.

  \<^bold>\<open>How the code is read.\<close>

  \<^item> A method on \<open>&mut self\<close> returns the state it leaves and its outcome, since an early return keeps earlier writes. A
    panic is an outcome of its own (\<open>outcome\<close>, \<open>cp_outcome\<close>, \<open>api_outcome\<close>).
  \<^item> Unsigned integers are words of their width and wrap or saturate where the code does; the arithmetic of floats that
    decides something (inspection confidence, the CPU argument) is written out with its roundings. Strings are
    lists of bytes; the character classes used are those of ASCII. \<open>BTreeMap\<close> is a sorted association list.
  \<^item> A clock reading and a minted identifier are arguments. A request of the API reads the clock once.
  \<^item> An SQL table is the list of its rows in insertion order, a statement a function on it, a transaction the composition
    of its statements with the first state restored on an error. Concurrent sessions interleave at statements or
    transactions as sequences of operations.
  \<^item> Crates and services outside the repository are parameters: \<open>chrono\<close> (\<open>chrono_api\<close> with the locale
    \<open>chrono_laws\<close>), the parser of \<open>uuid\<close>, the text forms of JSON, YAML and instants, the AEAD cipher (\<open>aead_sound\<close>:
    decrypting what was encrypted under the same key, nonce and associated data gives it back), SHA-256, the precision of a stored
    instant (\<open>clock_stored\<close>), the docker binary and sockets (\<open>docker_host\<close>), the file system, dispatchers, agent
    backends and plugin handlers. Nothing is assumed of the last five, of JSON or of YAML.
  \<^item> No definition uses fuel. Every recursion is structural or has a measure, so every operation is total and the
    theorems speak of all inputs; loops that run until told to stop (the worker) are functions of the finite list of
    ticks they are given.

  \<^bold>\<open>What is shown.\<close> Reachable states are given by folds or inductive predicates over all operations of a component, with any
  arguments; where a history is restricted to admissible ones, the theorem says so.

  \<^item> Rollouts: whatever serves traffic once passed its health gate; transition logs are linked and legal;
    promotion and rollback have exactly their effect. Resources: the same for their logs; the backoff in closed form.
  \<^item> Queues: one in-flight job of a key, attempts within the budget; in the durable table unique keys, leases held by
    exactly the running jobs and exclusive until they expire. Controllers enqueue exactly their plan.
  \<^item> Evidence: the verdict is a function of the recorded stages alone, a failed stage stays failed, an edited audit trail
    is detected or shows a digest collision, and the durable trail refines the one in memory. Redaction removes every secret
    that the marker cannot form.
  \<^item> Agents and people: the prompt gate is exact, session logs only grow and leak nothing, worktrees are isolated, merges
    need a named approval, lifecycle commands need a human, and agent events change nothing the dashboard derives.
  \<^item> Secrets: the sealed store refines a plain map; envelopes are bound to reference and version up to a forgery of the
    cipher; production rotation is gated; the guard fails closed; legacy envelopes round trip.
  \<^item> Capabilities and plugins: resolution is exact, mode histories are linked and approved, one plugin of a family is
    active, response frames round trip.
  \<^item> Surfaces: a CLI call changes exactly what policy and command say; a retry is replayed; the API keeps every invariant
    of the stores behind it under all requests; desired-state updates are atomic and versioned.
  \<^item> Runtime: the docker arguments, read back, ask for exactly the configured limits; a preview link is issued exactly
    after an available runtime, a successful build, a started container and a healthy probe. Manifests bring back what they export.

  Contracts that several components share are locales: \<open>lifecycle\<close> (resources, deployments, rollouts, capability modes),
  \<open>keyed_store\<close> (applications, jobs, stages, plugins, secrets), \<open>sequenced_log\<close> (events, logs, audit),
  \<open>application_repository\<close>, \<open>convergence\<close> (controllers against their plan), \<open>evidence_stage\<close> (inspection),
  \<open>row_statement\<close> (updates of the job table), \<open>world_invariant\<close> (what a worker keeps), \<open>api_frame\<close> (relations every
  request keeps) and \<open>executor_contract\<close> (both container executors). Each is interpreted on the definitions of the code.

  Some theorems record where code and documentation disagree: a requeued dead job duplicates a key, a failed deployment can
  be restored to healthy, recovery ignores the attempt budget, a second build is never enqueued, revoking an
  available preview leaves its link, a duplicate environment name is lost on import, an image name that starts with a dash
  is read as an option.

  \<^bold>\<open>Not modelled.\<close> Transport and serialisation frameworks, process start-up, connection pools and printing; the adapters
  that talk to external servers (\<open>postgres_provider.rs\<close>, \<open>storage_provider.rs\<close>, \<open>oci_client.rs\<close>, \<open>tls_dns.rs\<close>);
  the durable provider runtime (\<open>providers.rs\<close>) and the start-up choice of a dispatcher (\<open>dispatch.rs\<close>); the
  API client and the web dashboard. Failures of the database connection are outside the stores' models, except where a
  statement violates a constraint.
\<close>

end
